(* ===== verification/Prelude.thy ===== *)
theory Prelude
  imports Main "HOL-Library.Word"
begin

text \<open>
  Shared vocabulary of the development: the machine integer types of the Rust sources, the
  \<open>LendingError\<close> enum and the result type of \<open>src/autara-lib/src/error.rs\<close>, the sequencing
  operator that stands for Rust's question mark, and the arithmetic facts on integer
  division that the rounding proofs use.

  An \<open>Err\<close> carries the error code only: the location stack and the messages that
  \<open>ErrorWithContext\<close> collects (\<open>track_caller\<close>, \<open>with_msg\<close>, \<open>with_context!\<close>) have no
  influence on any branch of the program. \<open>Panic\<close> is the value of a computation that
  the source aborts (\<open>expect\<close>, an index out of range, a division by zero on machine
  integers).

  State passing: an operation on \<open>&mut self\<close> returns the new state inside \<open>Ok\<close>. A state that
  the source has half updated when it returns \<open>Err\<close> is not part of the result; on chain the
  error aborts the transaction and the runtime discards the account writes.
\<close>

section \<open>Machine integers\<close>

type_synonym u8 = "8 word"
type_synonym u16 = "16 word"
type_synonym u32 = "32 word"
type_synonym u64 = "64 word"
type_synonym u128 = "128 word"
type_synonym i8 = "8 word"
type_synonym i32 = "32 word"
type_synonym i64 = "64 word"
type_synonym i128 = "128 word"

text \<open>A public key is 32 bytes; \<open>0\<close> is the all-zero key of \<open>Zeroable\<close>.\<close>

type_synonym pubkey = "256 word"

text \<open>
  The checked operations of the standard library: the exact integer, if the type can hold it.
  \<open>quot_zero\<close> is Rust's division of signed integers, which truncates towards zero.
\<close>

definition as_u128 :: "int \<Rightarrow> u128 option" where
  "as_u128 v = (if 0 \<le> v \<and> v < 2 ^ 128 then Some (word_of_int v) else None)"

definition as_i128 :: "int \<Rightarrow> i128 option" where
  "as_i128 v = (if - (2 ^ 127) \<le> v \<and> v < 2 ^ 127 then Some (word_of_int v) else None)"

definition as_u64 :: "int \<Rightarrow> u64 option" where
  "as_u64 v = (if 0 \<le> v \<and> v < 2 ^ 64 then Some (word_of_int v) else None)"

definition as_i32 :: "int \<Rightarrow> i32 option" where
  "as_i32 v = (if - (2 ^ 31) \<le> v \<and> v < 2 ^ 31 then Some (word_of_int v) else None)"

definition as_i64 :: "int \<Rightarrow> i64 option" where
  "as_i64 v = (if - (2 ^ 63) \<le> v \<and> v < 2 ^ 63 then Some (word_of_int v) else None)"

definition quot_zero :: "int \<Rightarrow> int \<Rightarrow> int" where
  "quot_zero a b = (if 0 \<le> a * b then \<bar>a\<bar> div \<bar>b\<bar> else - (\<bar>a\<bar> div \<bar>b\<bar>))"

section \<open>Errors and results\<close>

datatype lending_error =
    MathOverflow | AdditionOverflow | SubtractionOverflow | MultiplicationOverflow
  | DivisionOverflow | DivisionByZero | CastOverflow | MaxLtvReached
  | MaxUtilisationRateReached | InvalidMarketForPosition | PositionIsHealthy
  | MaxSupplyReached | InvalidLtvConfig | InvalidCurve | InvalidExpArg
  | InvalidMaxUtilisationRate | InvalidLiquidationLtvShouldDecrease
  | InvalidPythOracleAccount | InvalidChaosOracleAccount | InvalidOracleFeedId
  | FailedToLoadAccount | WithdrawalExceedsReserves | WithdrawalExceedsDeposited
  | RepayExceedsBorrowed | OracleRateTooOld | OracleRateRelativeConfidenceTooLow
  | NegativeOracleRate | OracleRateIsNull | OracleConfidenceExceedsRate
  | LiquidationDidNotMeetRequirements | FeeTooHigh | SharesOverflow
  | InvalidNomination | CantModifySharePriceIfZeroShares | NegativeInterestRate
  | CannotSocializeDebtForHealthyPosition | UnsupportedMintDecimals
  | InvalidOracleConfig | CapitalSweepPending | NoCapitalSweepPending
  | CapitalSweepPositionInsolvent | CapitalSweepDidNotMeetRequirements
  | LiquidatorAlreadyWhitelisted | LiquidatorNotWhitelisted | InvalidOracleFeedAccount

datatype 'a result = Ok 'a | Err lending_error | Panic

text \<open>\<open>bind_r r f\<close> is \<open>f (r?)\<close>; \<open>map_err\<close> replaces the error code.\<close>

fun bind_r :: "'a result \<Rightarrow> ('a \<Rightarrow> 'b result) \<Rightarrow> 'b result" where
  "bind_r (Ok x) f = f x"
| "bind_r (Err e) f = Err e"
| "bind_r Panic f = Panic"

fun map_err :: "'a result \<Rightarrow> lending_error \<Rightarrow> 'a result" where
  "map_err (Ok x) e = Ok x"
| "map_err (Err _) e = Err e"
| "map_err Panic e = Panic"

fun ok_or :: "'a option \<Rightarrow> lending_error \<Rightarrow> 'a result" where
  "ok_or (Some x) e = Ok x"
| "ok_or None e = Err e"

fun expect :: "'a result \<Rightarrow> 'a result" where
  "expect (Ok x) = Ok x"
| "expect _ = Panic"

definition ensure :: "bool \<Rightarrow> lending_error \<Rightarrow> unit result" where
  "ensure b e = (if b then Ok () else Err e)"

fun is_ok :: "'a result \<Rightarrow> bool" where
  "is_ok (Ok _) = True"
| "is_ok _ = False"

section \<open>Collections of the development\<close>

named_theorems ok_simps \<open>characterisation of the successful runs of an operation\<close>
named_theorems val_simps \<open>the integer a fixed-point operation computes\<close>

section \<open>Facts on results\<close>

lemma bind_r_eq_Ok [ok_simps]: "bind_r r f = Ok y \<longleftrightarrow> (\<exists>x. r = Ok x \<and> f x = Ok y)"
  by (cases r) auto

lemma map_err_eq_Ok [ok_simps]: "map_err r e = Ok x \<longleftrightarrow> r = Ok x"
  by (cases r) auto

lemma ok_or_eq_Ok [ok_simps]: "ok_or r e = Ok x \<longleftrightarrow> r = Some x"
  by (cases r) auto

lemma expect_eq_Ok [ok_simps]: "expect r = Ok x \<longleftrightarrow> r = Ok x"
  by (cases r) auto

lemma ensure_eq_Ok [ok_simps]: "ensure b e = Ok x \<longleftrightarrow> b"
  by (simp add: ensure_def)

lemma bind_r_assoc: "bind_r (bind_r r f) g = bind_r r (\<lambda>x. bind_r (f x) g)"
  by (cases r) auto

lemma bind_r_cong [fundef_cong]:
  "r = r' \<Longrightarrow> (\<And>x. r' = Ok x \<Longrightarrow> f x = g x) \<Longrightarrow> bind_r r f = bind_r r' g"
  by (cases r') auto

lemma is_ok_iff: "is_ok r \<longleftrightarrow> (\<exists>x. r = Ok x)"
  by (cases r) auto

section \<open>Facts on integer division\<close>

lemma div_mult_bounds:
  fixes a b :: int
  assumes "0 < b"
  shows "(a div b) * b \<le> a" and "a < (a div b) * b + b"
  using assms
  by (simp_all add: minus_mod_eq_div_mult [symmetric] pos_mod_sign pos_mod_bound)

lemma le_div_iff: "0 < (b::int) \<Longrightarrow> x \<le> a div b \<longleftrightarrow> x * b \<le> a"
  by (metis div_mult_bounds(1) dual_order.trans mult_right_mono nonzero_mult_div_cancel_right
      order_less_imp_le order_less_irrefl zdiv_mono1)

lemma div_less_iff: "0 < (b::int) \<Longrightarrow> a div b < x \<longleftrightarrow> a < x * b"
  by (metis le_div_iff not_less)

lemma div_mult_self_le: "0 \<le> (a::int) \<Longrightarrow> 0 \<le> b \<Longrightarrow> (a div b) * b \<le> a"
  by (cases "b = 0") (simp_all add: div_mult_bounds(1))

section \<open>Facts on words\<close>

lemma uint_bound_128: "uint (x::128 word) < 340282366920938463463374607431768211456"
  using uint_bounded [of x] by simp

lemma uint_bound_64: "uint (x::64 word) < 18446744073709551616"
  using uint_bounded [of x] by simp

lemma sint_bound_128:
  "- 170141183460469231731687303715884105728 \<le> sint (x::128 word)"
  "sint (x::128 word) < 170141183460469231731687303715884105728"
  using sint_ge [of x] sint_lt [of x] by simp_all

lemma uint_of_int_128:
  "0 \<le> v \<Longrightarrow> v < 2 ^ 128 \<Longrightarrow> uint (word_of_int v :: 128 word) = v"
  by (simp add: uint_word_of_int)

lemma uint_of_int_64:
  "0 \<le> v \<Longrightarrow> v < 2 ^ 64 \<Longrightarrow> uint (word_of_int v :: 64 word) = v"
  by (simp add: uint_word_of_int)

lemma sint_of_int_128:
  "- (2 ^ 127) \<le> v \<Longrightarrow> v < 2 ^ 127 \<Longrightarrow> sint (word_of_int v :: 128 word) = v"
  by (simp add: sint_sbintrunc' signed_take_bit_int_eq_self)

lemma as_u128_Some: "as_u128 v = Some w \<Longrightarrow> uint w = v"
  by (auto simp: as_u128_def uint_of_int_128 split: if_splits)

lemma as_i128_Some: "as_i128 v = Some w \<Longrightarrow> sint w = v"
  by (auto simp: as_i128_def sint_of_int_128 split: if_splits)

lemma as_u64_Some: "as_u64 v = Some w \<Longrightarrow> uint w = v"
  by (auto simp: as_u64_def uint_of_int_64 split: if_splits)

lemma as_i32_Some: "as_i32 v = Some w \<Longrightarrow> sint w = v"
  by (auto simp: as_i32_def sint_sbintrunc' signed_take_bit_int_eq_self split: if_splits)

lemma quot_zero_nonneg: "0 \<le> a \<Longrightarrow> 0 < b \<Longrightarrow> quot_zero a b = a div b"
  by (simp add: quot_zero_def)

lemma quot_zero_neg_eq: "a < 0 \<Longrightarrow> 0 < b \<Longrightarrow> quot_zero a b = - ((- a) div b)"
  using mult_neg_pos [of a b] by (simp add: quot_zero_def)

end
