(* ===== verification/Fixed_Crate.thy ===== *)
theory Fixed_Crate
  imports Prelude
begin

text \<open>
  The third-party crate \<open>fixed\<close> (1.29), which supplies the two number formats of the program:
  \<open>U64F64\<close> (128 bits, unsigned, 64 of them fractional) and \<open>I80F48\<close> (128 bits, two's
  complement, 48 of them fractional). Its code is not part of the repository, so it is a
  parameter: the record \<open>fixed_crate\<close> has one field per function of the crate that the
  sources call, on the raw bits, and every definition of the development that reaches the
  crate takes such a record. The locale \<open>fixed_crate_spec\<close> states what the documentation
  promises of these functions and no more: checked operations return \<open>None\<close> exactly on
  overflow (or a zero divisor), products and quotients are exact up to the fractional bits
  dropped, conversions to integers discard the fractional bits (towards minus infinity). Where
  the documentation leaves the rounding of a negative product or quotient open, the law only
  says that the result is less than one unit away. \<open>fixed_reference\<close> is an instance, the exact
  integer arithmetic rounded towards minus infinity (towards zero for quotients), which
  witnesses that the laws are consistent and on which closed examples are evaluated.
\<close>

section \<open>The functions the program calls\<close>

record fixed_crate =
  u_checked_add :: "u128 \<Rightarrow> u128 \<Rightarrow> u128 option"
  u_checked_sub :: "u128 \<Rightarrow> u128 \<Rightarrow> u128 option"
  u_checked_mul :: "u128 \<Rightarrow> u128 \<Rightarrow> u128 option"
  u_checked_div :: "u128 \<Rightarrow> u128 \<Rightarrow> u128 option"
  u_checked_to_u64 :: "u128 \<Rightarrow> u64 option"
  u_frac :: "u128 \<Rightarrow> u128"
  u_from_num_u64 :: "u64 \<Rightarrow> u128"
  u_checked_from_i :: "i128 \<Rightarrow> u128 option"
  i_checked_add :: "i128 \<Rightarrow> i128 \<Rightarrow> i128 option"
  i_checked_sub :: "i128 \<Rightarrow> i128 \<Rightarrow> i128 option"
  i_checked_mul :: "i128 \<Rightarrow> i128 \<Rightarrow> i128 option"
  i_checked_div :: "i128 \<Rightarrow> i128 \<Rightarrow> i128 option"
  i_checked_to_u64 :: "i128 \<Rightarrow> u64 option"
  i_checked_to_i32 :: "i128 \<Rightarrow> i32 option"
  i_frac :: "i128 \<Rightarrow> i128"
  i_from_num_u64 :: "u64 \<Rightarrow> i128"
  i_from_num_u32 :: "u32 \<Rightarrow> i128"
  i_checked_from_u :: "u128 \<Rightarrow> i128 option"
  i_neg :: "i128 \<Rightarrow> i128"
  i_less_zero :: "i128 \<Rightarrow> bool"
  i_checked_shl :: "i128 \<Rightarrow> u32 \<Rightarrow> i128 option"
  i_checked_shr :: "i128 \<Rightarrow> u32 \<Rightarrow> i128 option"
  i_lit :: "string \<Rightarrow> i128"

fun lit_bits :: "string \<Rightarrow> int" where
  "lit_bits s =
     (if s = ''0.99'' then 278660226943549
      else if s = ''0.1'' then 28147497671066
      else if s = ''0.001'' then 281474976711
      else if s = ''0.90'' then 253327479039590
      else if s = ''0.05'' then 14073748835533
      else 0)"

definition fixed_reference :: fixed_crate where
  "fixed_reference = \<lparr>
     u_checked_add = (\<lambda>a b. as_u128 (uint a + uint b)),
     u_checked_sub = (\<lambda>a b. as_u128 (uint a - uint b)),
     u_checked_mul = (\<lambda>a b. as_u128 (uint a * uint b div 2 ^ 64)),
     u_checked_div = (\<lambda>a b. if b = 0 then None else as_u128 (uint a * 2 ^ 64 div uint b)),
     u_checked_to_u64 = (\<lambda>a. as_u64 (uint a div 2 ^ 64)),
     u_frac = (\<lambda>a. word_of_int (uint a mod 2 ^ 64)),
     u_from_num_u64 = (\<lambda>a. word_of_int (uint a * 2 ^ 64)),
     u_checked_from_i = (\<lambda>a. as_u128 (sint a * 2 ^ 16)),
     i_checked_add = (\<lambda>a b. as_i128 (sint a + sint b)),
     i_checked_sub = (\<lambda>a b. as_i128 (sint a - sint b)),
     i_checked_mul = (\<lambda>a b. as_i128 (sint a * sint b div 2 ^ 48)),
     i_checked_div = (\<lambda>a b. if b = 0 then None else as_i128 (quot_zero (sint a * 2 ^ 48) (sint b))),
     i_checked_to_u64 = (\<lambda>a. as_u64 (sint a div 2 ^ 48)),
     i_checked_to_i32 = (\<lambda>a. as_i32 (sint a div 2 ^ 48)),
     i_frac = (\<lambda>a. word_of_int (sint a mod 2 ^ 48)),
     i_from_num_u64 = (\<lambda>a. word_of_int (uint a * 2 ^ 48)),
     i_from_num_u32 = (\<lambda>a. word_of_int (uint a * 2 ^ 48)),
     i_checked_from_u = (\<lambda>a. as_i128 (uint a div 2 ^ 16)),
     i_neg = (\<lambda>a. - a),
     i_less_zero = (\<lambda>a. sint a < 0),
     i_checked_shl = (\<lambda>a s. if uint s < 128 then Some (push_bit (unat s) a) else None),
     i_checked_shr = (\<lambda>a s. if uint s < 128 then Some (word_of_int (sint a div 2 ^ unat s)) else None),
     i_lit = (\<lambda>s. word_of_int (lit_bits s)) \<rparr>"

section \<open>What the documentation promises\<close>

locale fixed_crate_spec =
  fixes F :: fixed_crate
  assumes u_add: "u_checked_add F a b = as_u128 (uint a + uint b)"
    and u_sub: "u_checked_sub F a b = as_u128 (uint a - uint b)"
    and u_mul: "u_checked_mul F a b = as_u128 (uint a * uint b div 2 ^ 64)"
    and u_div: "u_checked_div F a b =
      (if b = 0 then None else as_u128 (uint a * 2 ^ 64 div uint b))"
    and u_to_u64: "u_checked_to_u64 F a = as_u64 (uint a div 2 ^ 64)"
    and u_frac_eq: "uint (u_frac F a) = uint a mod 2 ^ 64"
    and u_from_u64: "uint (u_from_num_u64 F n) = uint n * 2 ^ 64"
    and u_from_i: "u_checked_from_i F x = as_u128 (sint x * 2 ^ 16)"
    and i_add: "i_checked_add F x y = as_i128 (sint x + sint y)"
    and i_sub: "i_checked_sub F x y = as_i128 (sint x - sint y)"
    and i_mul: "0 \<le> sint x * sint y \<Longrightarrow>
      i_checked_mul F x y = as_i128 (sint x * sint y div 2 ^ 48)"
    and i_mul_neg: "sint x * sint y < 0 \<Longrightarrow> i_checked_mul F x y = Some z \<Longrightarrow>
      sint z \<le> 0 \<and> \<bar>sint z * 2 ^ 48 - sint x * sint y\<bar> < 2 ^ 48"
    and i_mul_neg_ok: "- (2 ^ 174) \<le> sint x * sint y \<Longrightarrow> sint x * sint y < 0 \<Longrightarrow>
      i_checked_mul F x y \<noteq> None"
    and i_div_zero: "i_checked_div F x 0 = None"
    and i_div: "0 \<le> sint x \<Longrightarrow> 0 < sint y \<Longrightarrow>
      i_checked_div F x y = as_i128 (sint x * 2 ^ 48 div sint y)"
    and i_div_neg: "sint x < 0 \<Longrightarrow> 0 < sint y \<Longrightarrow> i_checked_div F x y = Some z \<Longrightarrow>
      sint z \<le> 0 \<and> \<bar>sint z * sint y - sint x * 2 ^ 48\<bar> < sint y"
    and i_div_neg_ok: "sint x < 0 \<Longrightarrow> 0 < sint y \<Longrightarrow> - (2 ^ 126) * sint y \<le> sint x * 2 ^ 48 \<Longrightarrow>
      i_checked_div F x y \<noteq> None"
    and i_to_u64: "0 \<le> sint x \<Longrightarrow> i_checked_to_u64 F x = as_u64 (sint x div 2 ^ 48)"
    and i_to_u64_neg: "sint x \<le> - (2 ^ 48) \<Longrightarrow> i_checked_to_u64 F x = None"
    and i_to_i32: "i_checked_to_i32 F x = as_i32 (sint x div 2 ^ 48)"
    and i_frac_eq: "sint (i_frac F x) = sint x mod 2 ^ 48"
    and i_from_u64: "sint (i_from_num_u64 F n) = uint n * 2 ^ 48"
    and i_from_u32: "sint (i_from_num_u32 F m) = uint m * 2 ^ 48"
    and i_from_u: "i_checked_from_u F a = as_i128 (uint a div 2 ^ 16)"
    and i_neg_eq: "sint x \<noteq> - (2 ^ 127) \<Longrightarrow> sint (i_neg F x) = - sint x"
    and i_less_zero_iff: "i_less_zero F x \<longleftrightarrow> sint x < 0"
    and i_shl: "i_checked_shl F x m = (if uint m < 128 then Some (push_bit (unat m) x) else None)"
    and i_shr: "i_checked_shr F x m =
      (if uint m < 128 then Some (word_of_int (sint x div 2 ^ unat m)) else None)"
    and i_lit_eq: "s \<in> {''0.99'', ''0.1'', ''0.001'', ''0.90'', ''0.05''} \<Longrightarrow>
      sint (i_lit F s) = lit_bits s"


section \<open>The laws are consistent\<close>

lemma quot_zero_neg:
  assumes "a < 0" "0 < b"
  shows "quot_zero a b \<le> 0" and "\<bar>quot_zero a b * b - a\<bar> < b"
proof -
  have d: "0 \<le> (- a) div b" "((- a) div b) * b \<le> - a" "- a < ((- a) div b) * b + b"
    using assms div_mult_bounds [of b "- a"] by (simp_all add: pos_imp_zdiv_nonneg_iff)
  show "quot_zero a b \<le> 0" using d(1) assms by (simp add: quot_zero_neg_eq)
  show "\<bar>quot_zero a b * b - a\<bar> < b" using d(2,3) assms by (simp add: quot_zero_neg_eq)
qed

lemma floor_scaled_neg:
  fixes p :: int
  assumes "p < 0"
  shows "p div 2 ^ 48 \<le> 0 \<and> \<bar>(p div 2 ^ 48) * 2 ^ 48 - p\<bar> < 2 ^ 48"
proof -
  have "(p div 2 ^ 48) * 2 ^ 48 \<le> p" "p < (p div 2 ^ 48) * 2 ^ 48 + 2 ^ 48"
    by (rule div_mult_bounds, simp)+
  then show ?thesis using assms by (simp add: abs_less_iff)
qed

lemma sint_neg_128:
  assumes "sint (x::128 word) \<noteq> - (2 ^ 127)"
  shows "sint (- x) = - sint x"
proof -
  have "sint (word_of_int (- sint x) :: 128 word) = - sint x"
    by (rule sint_of_int_128) (use assms sint_bound_128 [of x] in simp_all)
  then show ?thesis by simp
qed

lemma reference_i_mul_neg:
  assumes "sint x * sint y < 0"
    and "as_i128 (sint x * sint y div 2 ^ 48) = Some z"
  shows "sint z \<le> 0 \<and> \<bar>sint z * 2 ^ 48 - sint x * sint y\<bar> < 2 ^ 48"
  using floor_scaled_neg [OF assms(1)] as_i128_Some [OF assms(2)] by simp

lemma reference_i_mul_neg_ok:
  fixes p :: int
  assumes "- (2 ^ 174) \<le> p" "p < 0"
  shows "as_i128 (p div 2 ^ 48) \<noteq> None"
proof -
  have "- (2 ^ 126) \<le> p div 2 ^ 48" using assms by (simp add: le_div_iff)
  moreover have "p div 2 ^ 48 \<le> 0" using floor_scaled_neg [OF assms(2)] by blast
  ultimately show ?thesis by (simp add: as_i128_def)
qed

lemma reference_i_div_neg:
  assumes "sint x < 0" "0 < sint y"
    and "as_i128 (quot_zero (sint x * 2 ^ 48) (sint y)) = Some z"
  shows "sint z \<le> 0 \<and> \<bar>sint z * sint y - sint x * 2 ^ 48\<bar> < sint y"
  using quot_zero_neg [of "sint x * 2 ^ 48" "sint y"] as_i128_Some [OF assms(3)] assms(1,2)
  by simp

lemma reference_i_div_neg_ok:
  assumes "a < 0" "0 < b" "- (2 ^ 126) * b \<le> a"
  shows "as_i128 (quot_zero a b) \<noteq> None"
proof -
  have "(- a) div b \<le> 2 ^ 126"
    using assms div_less_iff [of b "- a" "2 ^ 126 + 1"] by (simp add: algebra_simps)
  moreover have "0 \<le> (- a) div b" using assms by (simp add: pos_imp_zdiv_nonneg_iff)
  ultimately show ?thesis using assms by (simp add: quot_zero_neg_eq as_i128_def)
qed

lemma uint_scaled_u64: "uint (word_of_int (uint (n::u64) * 2 ^ 64) :: u128) = uint n * 2 ^ 64"
  by (rule uint_of_int_128) (use uint_bound_64 [of n] in simp_all)

lemma sint_scaled_u64: "sint (word_of_int (uint (n::u64) * 2 ^ 48) :: i128) = uint n * 2 ^ 48"
  by (rule sint_of_int_128) (use uint_bound_64 [of n] order_trans [OF _ uint_ge_0 [of n]] in simp_all)

lemma sint_scaled_u32: "sint (word_of_int (uint (n::u32) * 2 ^ 48) :: i128) = uint n * 2 ^ 48"
  by (rule sint_of_int_128) (use uint_bounded [of n] order_trans [OF _ uint_ge_0 [of n]] in simp_all)

lemma uint_frac: "uint (word_of_int (v mod 2 ^ 64) :: u128) = v mod 2 ^ 64"
  by (rule uint_of_int_128) (use pos_mod_bound [of "2 ^ 64" v] in simp_all)

lemma sint_frac: "sint (word_of_int (v mod 2 ^ 48) :: i128) = v mod 2 ^ 48"
  by (rule sint_of_int_128)
    (use pos_mod_bound [of "2 ^ 48" v] pos_mod_sign [of "2 ^ 48" v] in simp_all)

lemma sint_lit: "sint (word_of_int (lit_bits s) :: i128) = lit_bits s"
  by (rule sint_of_int_128) simp_all

interpretation fixed_ref: fixed_crate_spec fixed_reference
proof (unfold_locales, unfold fixed_reference_def fixed_crate.simps, goal_cases)
  case (12 x y z) then show ?case by (rule reference_i_mul_neg)
next
  case (13 x y) then show ?case by (rule reference_i_mul_neg_ok)
next
  case (15 x y) then show ?case by (auto simp: quot_zero_nonneg)
next
  case (16 x y z)
  then have "as_i128 (quot_zero (sint x * 2 ^ 48) (sint y)) = Some z" by (metis option.distinct(1))
  from reference_i_div_neg [OF 16(1,2) this] show ?case .
next
  case (17 x y)
  then show ?case using reference_i_div_neg_ok [of "sint x * 2 ^ 48" "sint y"] by auto
next
  case (19 x)
  then have "sint x div 2 ^ 48 < 0" by simp
  then show ?case by (simp add: as_u64_def)
next
  case (25 x) then show ?case by (rule sint_neg_128)
qed (rule refl uint_frac sint_frac uint_scaled_u64 sint_scaled_u64 sint_scaled_u32 sint_lit
      | simp)+

end
