(* ===== verification/Fixed_Point.thy ===== *)
theory Fixed_Point
  imports Fixed_Crate
begin

text \<open>
  The fixed-point types of \<open>src/autara-lib/src/math\<close>: \<open>UFixedPoint\<close> and \<open>IFixedPoint\<close> (the macro
  \<open>define_fixed_point!\<close> of \<open>macros.rs\<close>, expanded once for each), the \<open>SafeMath\<close> trait and its
  implementations, the conversions to and from \<open>u64\<close> with their rounding, basis points, the
  powers of ten of \<open>constant.rs\<close> and the exponential \<open>checked_exp\<close>.

  The lemmas read every successful operation as an equation on integers: \<open>uval\<close> is the raw
  value of a \<open>UFixedPoint\<close> (units of \<open>2^-64\<close>), \<open>ival\<close> that of an \<open>IFixedPoint\<close> (units of \<open>2^-48\<close>).
\<close>

section \<open>The two number types\<close>

datatype ufixed = UFixedPoint (uf_bits: u128)

datatype ifixed = IFixedPoint (if_bits: i128)

datatype rounding_mode = RoundDown | RoundUp

definition uval :: "ufixed \<Rightarrow> int" where
  "uval x = uint (uf_bits x)"

definition ival :: "ifixed \<Rightarrow> int" where
  "ival x = sint (if_bits x)"

lemma uval_inject: "uval x = uval y \<longleftrightarrow> x = y"
  by (cases x; cases y) (auto simp: uval_def word_uint_eq_iff)

lemma ival_inject: "ival x = ival y \<longleftrightarrow> x = y"
  by (cases x; cases y) (auto simp: ival_def intro: signed_word_eqI)

text \<open>\<open>PartialOrd\<close> and \<open>Ord\<close> compare the inner integers.\<close>

instantiation ufixed :: linorder
begin

definition less_eq_ufixed :: "ufixed \<Rightarrow> ufixed \<Rightarrow> bool" where
  "less_eq_ufixed x y \<longleftrightarrow> uval x \<le> uval y"

definition less_ufixed :: "ufixed \<Rightarrow> ufixed \<Rightarrow> bool" where
  "less_ufixed x y \<longleftrightarrow> uval x < uval y"

instance
  by standard (auto simp: less_eq_ufixed_def less_ufixed_def uval_inject dest: antisym)

end

instantiation ifixed :: linorder
begin

definition less_eq_ifixed :: "ifixed \<Rightarrow> ifixed \<Rightarrow> bool" where
  "less_eq_ifixed x y \<longleftrightarrow> ival x \<le> ival y"

definition less_ifixed :: "ifixed \<Rightarrow> ifixed \<Rightarrow> bool" where
  "less_ifixed x y \<longleftrightarrow> ival x < ival y"

instance
  by standard (auto simp: less_eq_ifixed_def less_ifixed_def ival_inject dest: antisym)

end

section \<open>Construction and rounding\<close>

definition uf_from_u64 :: "u64 \<Rightarrow> ufixed" where
  "uf_from_u64 num = UFixedPoint (push_bit 64 (ucast num))"

definition if_from_u64 :: "u64 \<Rightarrow> ifixed" where
  "if_from_u64 num = IFixedPoint (push_bit 48 (ucast num))"

definition if_from_i64 :: "i64 \<Rightarrow> ifixed" where
  "if_from_i64 num = IFixedPoint (push_bit 48 (scast num))"

definition uf_zero :: ufixed where "uf_zero = uf_from_u64 0"
definition uf_one :: ufixed where "uf_one = uf_from_u64 1"
definition if_zero :: ifixed where "if_zero = if_from_u64 0"
definition if_one :: ifixed where "if_one = if_from_u64 1"

definition uf_is_zero :: "ufixed \<Rightarrow> bool" where
  "uf_is_zero x \<longleftrightarrow> uf_bits x = 0"

definition if_is_zero :: "ifixed \<Rightarrow> bool" where
  "if_is_zero x \<longleftrightarrow> if_bits x = 0"

definition if_is_negative :: "fixed_crate \<Rightarrow> ifixed \<Rightarrow> bool" where
  "if_is_negative F x \<longleftrightarrow> i_less_zero F (if_bits x)"

definition if_neg :: "fixed_crate \<Rightarrow> ifixed \<Rightarrow> ifixed" where
  "if_neg F x = IFixedPoint (i_neg F (if_bits x))"

definition if_from_num_u64 :: "fixed_crate \<Rightarrow> u64 \<Rightarrow> ifixed" where
  "if_from_num_u64 F num = IFixedPoint (i_from_num_u64 F num)"

definition if_from_num_u32 :: "fixed_crate \<Rightarrow> u32 \<Rightarrow> ifixed" where
  "if_from_num_u32 F num = IFixedPoint (i_from_num_u32 F num)"

definition if_lit :: "fixed_crate \<Rightarrow> string \<Rightarrow> ifixed" where
  "if_lit F str = IFixedPoint (i_lit F str)"

definition uf_from_u64_u64_ratio :: "u64 \<Rightarrow> u64 \<Rightarrow> ufixed result" where
  "uf_from_u64_u64_ratio num dem =
     (if dem = 0 then Panic
      else Ok (UFixedPoint (push_bit 64 (ucast num) div ucast dem)))"

definition if_from_i64_u64_ratio :: "i64 \<Rightarrow> u64 \<Rightarrow> ifixed result" where
  "if_from_i64_u64_ratio num dem =
     (if dem = 0 then Panic
      else Ok (IFixedPoint (word_of_int
        (quot_zero (sint (push_bit 48 (scast num :: i128))) (sint (ucast dem :: i128))))))"

text \<open>A constant of the source is evaluated by the compiler, which rejects one that panics.\<close>

fun const_eval :: "'a result \<Rightarrow> 'a" where
  "const_eval (Ok x) = x"

definition uf_from_ifixed :: "fixed_crate \<Rightarrow> ifixed \<Rightarrow> ufixed option" where
  "uf_from_ifixed F x = map_option UFixedPoint (u_checked_from_i F (if_bits x))"

definition if_from_ufixed :: "fixed_crate \<Rightarrow> ufixed \<Rightarrow> ifixed option" where
  "if_from_ufixed F x = map_option IFixedPoint (i_checked_from_u F (uf_bits x))"

definition uf_try_from_ifixed :: "fixed_crate \<Rightarrow> ifixed \<Rightarrow> ufixed result" where
  "uf_try_from_ifixed F x = ok_or (uf_from_ifixed F x) CastOverflow"

definition if_try_from_ufixed :: "fixed_crate \<Rightarrow> ufixed \<Rightarrow> ifixed result" where
  "if_try_from_ufixed F x = ok_or (if_from_ufixed F x) CastOverflow"

definition u64_saturating_add :: "u64 \<Rightarrow> u64 \<Rightarrow> u64" where
  "u64_saturating_add a b = (case as_u64 (uint a + uint b) of Some c \<Rightarrow> c | None \<Rightarrow> - 1)"

definition uf_as_u64_rounded_down :: "fixed_crate \<Rightarrow> ufixed \<Rightarrow> u64 result" where
  "uf_as_u64_rounded_down F x = ok_or (u_checked_to_u64 F (uf_bits x)) CastOverflow"

definition uf_as_u64_rounded_up :: "fixed_crate \<Rightarrow> ufixed \<Rightarrow> u64 result" where
  "uf_as_u64_rounded_up F x =
     bind_r (ok_or (u_checked_to_u64 F (uf_bits x)) CastOverflow) (\<lambda>rounded_down.
       if u_frac F (uf_bits x) = 0 then Ok rounded_down
       else Ok (u64_saturating_add rounded_down 1))"

definition uf_as_u64_rounded :: "fixed_crate \<Rightarrow> ufixed \<Rightarrow> rounding_mode \<Rightarrow> u64 result" where
  "uf_as_u64_rounded F x rounding =
     map_err (case rounding of
        RoundDown \<Rightarrow> uf_as_u64_rounded_down F x
      | RoundUp \<Rightarrow> uf_as_u64_rounded_up F x) CastOverflow"

definition if_as_u64_rounded_down :: "fixed_crate \<Rightarrow> ifixed \<Rightarrow> u64 result" where
  "if_as_u64_rounded_down F x = ok_or (i_checked_to_u64 F (if_bits x)) CastOverflow"

definition if_as_u64_rounded_up :: "fixed_crate \<Rightarrow> ifixed \<Rightarrow> u64 result" where
  "if_as_u64_rounded_up F x =
     bind_r (ok_or (i_checked_to_u64 F (if_bits x)) CastOverflow) (\<lambda>rounded_down.
       if i_frac F (if_bits x) = 0 then Ok rounded_down
       else Ok (u64_saturating_add rounded_down 1))"

definition if_checked_to_i32 :: "fixed_crate \<Rightarrow> ifixed \<Rightarrow> i32 result" where
  "if_checked_to_i32 F x = ok_or (i_checked_to_i32 F (if_bits x)) CastOverflow"

definition if_checked_shift :: "fixed_crate \<Rightarrow> ifixed \<Rightarrow> i32 \<Rightarrow> ifixed option" where
  "if_checked_shift F x shift =
     (if sint shift < 0
      then map_option IFixedPoint (i_checked_shr F (if_bits x) (- shift))
      else (case i_checked_shl F (if_bits x) shift of
              None \<Rightarrow> None
            | Some shifted \<Rightarrow>
                (if i_checked_shr F shifted shift \<noteq> Some (if_bits x) then None
                 else Some (IFixedPoint shifted))))"

section \<open>SafeMath\<close>

definition u64_safe_add :: "u64 \<Rightarrow> u64 \<Rightarrow> u64 result" where
  "u64_safe_add a b = ok_or (as_u64 (uint a + uint b)) AdditionOverflow"

definition u64_safe_sub :: "u64 \<Rightarrow> u64 \<Rightarrow> u64 result" where
  "u64_safe_sub a b = ok_or (as_u64 (uint a - uint b)) SubtractionOverflow"

definition u64_safe_mul :: "u64 \<Rightarrow> u64 \<Rightarrow> u64 result" where
  "u64_safe_mul a b = ok_or (as_u64 (uint a * uint b)) MultiplicationOverflow"

definition u64_safe_div :: "u64 \<Rightarrow> u64 \<Rightarrow> u64 result" where
  "u64_safe_div a b = (if b = 0 then Err DivisionByZero else Ok (a div b))"

definition uf_safe_add :: "fixed_crate \<Rightarrow> ufixed \<Rightarrow> ufixed \<Rightarrow> ufixed result" where
  "uf_safe_add F x y =
     ok_or (map_option UFixedPoint (u_checked_add F (uf_bits x) (uf_bits y))) AdditionOverflow"

definition uf_safe_sub :: "fixed_crate \<Rightarrow> ufixed \<Rightarrow> ufixed \<Rightarrow> ufixed result" where
  "uf_safe_sub F x y =
     ok_or (map_option UFixedPoint (u_checked_sub F (uf_bits x) (uf_bits y))) SubtractionOverflow"

definition uf_safe_mul :: "fixed_crate \<Rightarrow> ufixed \<Rightarrow> ufixed \<Rightarrow> ufixed result" where
  "uf_safe_mul F x y =
     ok_or (map_option UFixedPoint (u_checked_mul F (uf_bits x) (uf_bits y))) MultiplicationOverflow"

definition uf_safe_div :: "fixed_crate \<Rightarrow> ufixed \<Rightarrow> ufixed \<Rightarrow> ufixed result" where
  "uf_safe_div F x y =
     ok_or (map_option UFixedPoint (u_checked_div F (uf_bits x) (uf_bits y))) DivisionOverflow"

definition uf_safe_mul_u64 :: "ufixed \<Rightarrow> u64 \<Rightarrow> ufixed result" where
  "uf_safe_mul_u64 x n =
     ok_or (map_option UFixedPoint (as_u128 (uint (uf_bits x) * uint (ucast n :: u128))))
       MultiplicationOverflow"

definition uf_safe_div_u64 :: "ufixed \<Rightarrow> u64 \<Rightarrow> ufixed result" where
  "uf_safe_div_u64 x n =
     (if n = 0 then Err DivisionByZero else Ok (UFixedPoint (uf_bits x div ucast n)))"

definition if_safe_add :: "fixed_crate \<Rightarrow> ifixed \<Rightarrow> ifixed \<Rightarrow> ifixed result" where
  "if_safe_add F x y =
     ok_or (map_option IFixedPoint (i_checked_add F (if_bits x) (if_bits y))) AdditionOverflow"

definition if_safe_sub :: "fixed_crate \<Rightarrow> ifixed \<Rightarrow> ifixed \<Rightarrow> ifixed result" where
  "if_safe_sub F x y =
     ok_or (map_option IFixedPoint (i_checked_sub F (if_bits x) (if_bits y))) SubtractionOverflow"

definition if_safe_mul :: "fixed_crate \<Rightarrow> ifixed \<Rightarrow> ifixed \<Rightarrow> ifixed result" where
  "if_safe_mul F x y =
     ok_or (map_option IFixedPoint (i_checked_mul F (if_bits x) (if_bits y))) MultiplicationOverflow"

definition if_safe_div :: "fixed_crate \<Rightarrow> ifixed \<Rightarrow> ifixed \<Rightarrow> ifixed result" where
  "if_safe_div F x y =
     ok_or (map_option IFixedPoint (i_checked_div F (if_bits x) (if_bits y))) DivisionOverflow"

definition if_safe_sub_u64 :: "fixed_crate \<Rightarrow> ifixed \<Rightarrow> u64 \<Rightarrow> ifixed result" where
  "if_safe_sub_u64 F x n =
     ok_or (map_option IFixedPoint (i_checked_sub F (if_bits x) (i_from_num_u64 F n)))
       SubtractionOverflow"

definition if_safe_mul_u64 :: "ifixed \<Rightarrow> u64 \<Rightarrow> ifixed result" where
  "if_safe_mul_u64 x n =
     ok_or (map_option IFixedPoint (as_i128 (sint (if_bits x) * sint (ucast n :: i128))))
       MultiplicationOverflow"

definition if_safe_div_u64 :: "ifixed \<Rightarrow> u64 \<Rightarrow> ifixed result" where
  "if_safe_div_u64 x n =
     (if n = 0 then Err DivisionByZero
      else Ok (IFixedPoint (word_of_int (quot_zero (sint (if_bits x)) (sint (ucast n :: i128))))))"

definition if_safe_add_uf :: "fixed_crate \<Rightarrow> ifixed \<Rightarrow> ufixed \<Rightarrow> ifixed result" where
  "if_safe_add_uf F x other =
     bind_r (ok_or (if_from_ufixed F other) CastOverflow) (\<lambda>y.
       map_err (if_safe_add F x y) AdditionOverflow)"

definition if_safe_sub_uf :: "fixed_crate \<Rightarrow> ifixed \<Rightarrow> ufixed \<Rightarrow> ifixed result" where
  "if_safe_sub_uf F x other =
     bind_r (ok_or (if_from_ufixed F other) CastOverflow) (\<lambda>y.
       map_err (if_safe_sub F x y) SubtractionOverflow)"

definition if_safe_mul_uf :: "fixed_crate \<Rightarrow> ifixed \<Rightarrow> ufixed \<Rightarrow> ifixed result" where
  "if_safe_mul_uf F x other =
     bind_r (ok_or (if_from_ufixed F other) CastOverflow) (\<lambda>y.
       map_err (if_safe_mul F x y) MultiplicationOverflow)"

definition if_safe_div_uf :: "fixed_crate \<Rightarrow> ifixed \<Rightarrow> ufixed \<Rightarrow> ifixed result" where
  "if_safe_div_uf F x other =
     bind_r (ok_or (if_from_ufixed F other) CastOverflow) (\<lambda>y.
       map_err (if_safe_div F x y) DivisionOverflow)"

definition u64_safe_add_if :: "fixed_crate \<Rightarrow> u64 \<Rightarrow> ifixed \<Rightarrow> ifixed result" where
  "u64_safe_add_if F n x = map_err (if_safe_add F (if_from_u64 n) x) AdditionOverflow"

definition u64_safe_sub_if :: "fixed_crate \<Rightarrow> u64 \<Rightarrow> ifixed \<Rightarrow> ifixed result" where
  "u64_safe_sub_if F n x = map_err (if_safe_sub F (if_from_u64 n) x) SubtractionOverflow"

definition u64_safe_mul_if :: "fixed_crate \<Rightarrow> u64 \<Rightarrow> ifixed \<Rightarrow> ifixed result" where
  "u64_safe_mul_if F n x = map_err (if_safe_mul F (if_from_u64 n) x) MultiplicationOverflow"

definition u64_safe_div_if :: "fixed_crate \<Rightarrow> u64 \<Rightarrow> ifixed \<Rightarrow> ifixed result" where
  "u64_safe_div_if F n x = map_err (if_safe_div F (if_from_u64 n) x) DivisionOverflow"

text \<open>\<open>from_ratio\<close> at the instance the program uses, two \<open>u64\<close>.\<close>

definition if_from_ratio :: "fixed_crate \<Rightarrow> u64 \<Rightarrow> u64 \<Rightarrow> ifixed result" where
  "if_from_ratio F num dem =
     map_err (if_safe_div F (if_from_num_u64 F num) (if_from_num_u64 F dem)) DivisionOverflow"

section \<open>Basis points and constants\<close>

definition ONE_IN_BPS :: u32 where "ONE_IN_BPS = 10000"

definition percent_to_bps :: "u64 \<Rightarrow> u64" where
  "percent_to_bps percent = percent * 100"

definition bps_to_fixed_point :: "u64 \<Rightarrow> ufixed result" where
  "bps_to_fixed_point bps = uf_from_u64_u64_ratio bps (ucast ONE_IN_BPS)"

definition bps_from_fixed_point :: "u64 \<Rightarrow> ufixed \<Rightarrow> ufixed result" where
  "bps_from_fixed_point bps fixed =
     bind_r (uf_safe_mul_u64 fixed bps) (\<lambda>r. expect (uf_safe_div_u64 r (ucast ONE_IN_BPS)))"

definition SECONDS_PER_YEAR :: u64 where "SECONDS_PER_YEAR = 365 * (24 * (60 * 60))"

definition MAX_EXPONENT_ABS :: i64 where "MAX_EXPONENT_ABS = 18"

definition POSITIVE_POWER_OF_TEN :: "ifixed list" where
  "POSITIVE_POWER_OF_TEN = map if_from_i64
     [1, 10, 100, 1000, 10000, 100000, 1000000, 10000000, 100000000, 1000000000, 10000000000,
      100000000000, 1000000000000, 10000000000000, 100000000000000, 1000000000000000,
      10000000000000000, 100000000000000000, 1000000000000000000]"

definition power_of_ten_at :: "nat \<Rightarrow> ifixed result" where
  "power_of_ten_at i =
     (if i < length POSITIVE_POWER_OF_TEN then Ok (POSITIVE_POWER_OF_TEN ! i) else Panic)"

section \<open>The exponential\<close>

definition MIN_EXP_ARG :: ifixed where
  "MIN_EXP_ARG = const_eval (if_from_i64_u64_ratio (- 3321) 100)"

definition MAX_EXP_ARG :: ifixed where
  "MAX_EXP_ARG = const_eval (if_from_i64_u64_ratio 5475 100)"

definition LN_2 :: ifixed where
  "LN_2 = const_eval (if_from_i64_u64_ratio 693147180559945309 1000000000000000000)"

definition LN_2_DIV_2 :: ifixed where
  "LN_2_DIV_2 = const_eval (if_from_i64_u64_ratio 693147180559945309 2000000000000000000)"

fun exp_loop :: "fixed_crate \<Rightarrow> ifixed \<Rightarrow> ifixed \<Rightarrow> ifixed \<Rightarrow> u64 list \<Rightarrow> ifixed result" where
  "exp_loop F fixed term exp_fixed [] = Ok exp_fixed"
| "exp_loop F fixed term exp_fixed (n # ns) =
     bind_r (if_safe_mul F fixed term) (\<lambda>p.
     bind_r (if_safe_div_u64 p n) (\<lambda>term'.
     bind_r (if_safe_add F exp_fixed term') (\<lambda>exp_fixed'.
       exp_loop F fixed term' exp_fixed' ns)))"

definition exp_7_terms :: "fixed_crate \<Rightarrow> ifixed \<Rightarrow> ifixed result" where
  "exp_7_terms F fixed =
     bind_r (if_safe_add F fixed if_one) (\<lambda>exp_fixed.
       exp_loop F fixed fixed exp_fixed [2, 3, 4, 5, 6])"

definition checked_exp :: "fixed_crate \<Rightarrow> ifixed \<Rightarrow> ifixed result" where
  "checked_exp F self =
     (if self \<le> MIN_EXP_ARG then Ok if_zero
      else if self > MAX_EXP_ARG then Err InvalidExpArg
      else
        (let rounding = (if if_is_negative F self then if_neg F LN_2_DIV_2 else LN_2_DIV_2) in
         bind_r (if_safe_add F self rounding) (\<lambda>s.
         bind_r (if_safe_div F s LN_2) (\<lambda>d.
         bind_r (if_checked_to_i32 F d) (\<lambda>q.
         bind_r (if_safe_mul F (if_from_i64 (scast q)) LN_2) (\<lambda>m.
         bind_r (if_safe_sub F self m) (\<lambda>r.
         bind_r (exp_7_terms F r) (\<lambda>exp_r.
           (case if_checked_shift F exp_r q of
              Some ok \<Rightarrow> Ok ok
            | None \<Rightarrow> Err MathOverflow)))))))))"

end
