(* ===== verification/Fixed_Laws.thy ===== *)
theory Fixed_Laws
  imports Fixed_Point
begin

text \<open>
  The laws of the fixed-point layer, proved once from \<open>fixed_crate_spec\<close>: every successful
  operation is an equation between raw integer values (the collection \<open>ok_simps\<close>), every
  constant has its value (\<open>val_simps\<close>). The components above never look at bits or at the
  crate again; they rewrite with these two collections and reason about integers.
\<close>

section \<open>Raw values\<close>

lemma uval_nonneg [simp]: "0 \<le> uval x"
  by (simp add: uval_def)

lemma uval_less: "uval x < 2 ^ 128"
  using uint_bound_128 [of "uf_bits x"] by (simp add: uval_def)

lemma ival_bounds: "- (2 ^ 127) \<le> ival x" "ival x < 2 ^ 127"
  using sint_bound_128 [of "if_bits x"] by (simp_all add: ival_def)

lemma uint_u64_less: "uint (n::u64) < 2 ^ 64"
  using uint_bound_64 [of n] by simp

lemma le_ufixed_iff: "x \<le> y \<longleftrightarrow> uval x \<le> uval y"
  by (simp add: less_eq_ufixed_def)

lemma less_ufixed_iff: "x < y \<longleftrightarrow> uval x < uval y"
  by (simp add: less_ufixed_def)

lemma le_ifixed_iff: "x \<le> y \<longleftrightarrow> ival x \<le> ival y"
  by (simp add: less_eq_ifixed_def)

lemma less_ifixed_iff: "x < y \<longleftrightarrow> ival x < ival y"
  by (simp add: less_ifixed_def)

lemmas fixed_order = le_ufixed_iff less_ufixed_iff le_ifixed_iff less_ifixed_iff

lemma u64_eq_iff: "(a::u64) = b \<longleftrightarrow> uint a = uint b"
  by (simp add: word_uint_eq_iff)

lemma u64_le_iff: "(a::u64) \<le> b \<longleftrightarrow> uint a \<le> uint b"
  by (simp add: word_le_def)

lemma u64_less_iff: "(a::u64) < b \<longleftrightarrow> uint a < uint b"
  by (simp add: word_less_def)

lemmas u64_order = u64_le_iff u64_less_iff

lemma ex_uval: "(\<exists>x. uval x = v) \<longleftrightarrow> 0 \<le> v \<and> v < 2 ^ 128"
proof
  assume "0 \<le> v \<and> v < 2 ^ 128"
  then have "uval (UFixedPoint (word_of_int v)) = v"
    by (simp only: uval_def ufixed.sel uint_of_int_128)
  then show "\<exists>x. uval x = v" ..
qed (use uval_less in auto)

lemma ex_ival: "(\<exists>x. ival x = v) \<longleftrightarrow> - (2 ^ 127) \<le> v \<and> v < 2 ^ 127"
proof
  assume "- (2 ^ 127) \<le> v \<and> v < 2 ^ 127"
  then have "ival (IFixedPoint (word_of_int v)) = v"
    by (simp only: ival_def ifixed.sel sint_of_int_128)
  then show "\<exists>x. ival x = v" ..
qed (use ival_bounds in auto)

lemma ex_uint_u64: "(\<exists>n::u64. uint n = v) \<longleftrightarrow> 0 \<le> v \<and> v < 2 ^ 64"
proof
  assume "0 \<le> v \<and> v < 2 ^ 64"
  then have "uint (word_of_int v :: u64) = v" by (simp only: uint_of_int_64)
  then show "\<exists>n::u64. uint n = v" ..
qed (use uint_u64_less in auto)

lemma as_u128_iff: "as_u128 v = Some w \<longleftrightarrow> uint w = v"
proof
  assume "uint w = v"
  moreover have "0 \<le> uint w" "uint w < 2 ^ 128" using uint_bound_128 [of w] by simp_all
  ultimately show "as_u128 v = Some w" by (auto simp: as_u128_def)
qed (rule as_u128_Some)

lemma as_i128_iff: "as_i128 v = Some w \<longleftrightarrow> sint w = v"
proof
  assume "sint w = v"
  moreover have "- (2 ^ 127) \<le> sint w" "sint w < 2 ^ 127" using sint_bound_128 [of w] by simp_all
  ultimately show "as_i128 v = Some w" by (auto simp: as_i128_def)
qed (rule as_i128_Some)

lemma as_u64_iff: "as_u64 v = Some w \<longleftrightarrow> uint w = v"
proof
  assume "uint w = v"
  moreover have "0 \<le> uint w" "uint w < 2 ^ 64" using uint_bound_64 [of w] by simp_all
  ultimately show "as_u64 v = Some w" by (auto simp: as_u64_def)
qed (rule as_u64_Some)

lemma map_as_u128: "map_option UFixedPoint (as_u128 v) = Some z \<longleftrightarrow> uval z = v"
  by (cases z) (auto simp: as_u128_iff uval_def)

lemma map_as_i128: "map_option IFixedPoint (as_i128 v) = Some z \<longleftrightarrow> ival z = v"
  by (cases z) (auto simp: as_i128_iff ival_def)

section \<open>Values of constants and constructions\<close>

lemma uint_ucast_up: "uint (ucast (n::64 word) :: 128 word) = uint n"
  by (simp add: uint_up_ucast is_up)

lemma sint_ucast_up: "sint (ucast (n::64 word) :: 128 word) = uint n"
  using uint_bound_64 [of n] order_trans [OF _ uint_ge_0 [of n]]
  by (simp add: signed_ucast_eq signed_take_bit_int_eq_self)

lemma sint_bound_64: "- 9223372036854775808 \<le> sint (n::64 word)" "sint (n::64 word) < 9223372036854775808"
  using sint_ge [of n] sint_lt [of n] by simp_all

lemma shifted_u64: "push_bit 64 (ucast (n::u64) :: u128) = word_of_int (uint n * 2 ^ 64)"
  by (simp add: push_bit_eq_mult)

lemma shifted_i_u64: "push_bit 48 (ucast (n::u64) :: i128) = word_of_int (uint n * 2 ^ 48)"
  by (simp add: push_bit_eq_mult)

lemma shifted_i64: "push_bit 48 (scast (n::i64) :: i128) = word_of_int (sint n * 2 ^ 48)"
  by (simp add: push_bit_eq_mult)

lemma sint_scaled_i64: "sint (word_of_int (sint (n::i64) * 2 ^ 48) :: i128) = sint n * 2 ^ 48"
  by (rule sint_of_int_128) (use sint_bound_64 [of n] in simp_all)

lemma uval_from_u64 [val_simps]: "uval (uf_from_u64 n) = uint n * 2 ^ 64"
  by (simp only: uval_def uf_from_u64_def ufixed.sel shifted_u64 uint_scaled_u64)

lemma ival_from_u64 [val_simps]: "ival (if_from_u64 n) = uint n * 2 ^ 48"
  by (simp only: ival_def if_from_u64_def ifixed.sel shifted_i_u64 sint_scaled_u64)

lemma ival_from_i64 [val_simps]: "ival (if_from_i64 n) = sint n * 2 ^ 48"
  by (simp only: ival_def if_from_i64_def ifixed.sel shifted_i64 sint_scaled_i64)

lemma uval_zero [val_simps]: "uval uf_zero = 0"
  by (simp add: uf_zero_def uval_from_u64)

lemma uval_one [val_simps]: "uval uf_one = 2 ^ 64"
  by (simp add: uf_one_def uval_from_u64)

lemma ival_zero [val_simps]: "ival if_zero = 0"
  by (simp add: if_zero_def ival_from_u64)

lemma ival_one [val_simps]: "ival if_one = 2 ^ 48"
  by (simp add: if_one_def ival_from_u64)

lemma uf_is_zero_iff [val_simps]: "uf_is_zero x \<longleftrightarrow> uval x = 0"
  by (simp add: uf_is_zero_def uval_def word_uint_eq_iff)

lemma if_is_zero_iff [val_simps]: "if_is_zero x \<longleftrightarrow> ival x = 0"
  by (auto simp: if_is_zero_def ival_def intro: signed_word_eqI)

lemma MIN_EXP_ARG_val [val_simps]: "ival MIN_EXP_ARG = - 9347783976560885"
  by (simp add: MIN_EXP_ARG_def if_from_i64_u64_ratio_def quot_zero_def ival_def)

lemma MAX_EXP_ARG_val [val_simps]: "ival MAX_EXP_ARG = 15410754974908416"
  by (simp add: MAX_EXP_ARG_def if_from_i64_u64_ratio_def quot_zero_def ival_def)

lemma LN_2_val [val_simps]: "ival LN_2 = 195103586505167"
  by (simp add: LN_2_def if_from_i64_u64_ratio_def quot_zero_def ival_def)

lemma LN_2_DIV_2_val [val_simps]: "ival LN_2_DIV_2 = 97551793252583"
  by (simp add: LN_2_DIV_2_def if_from_i64_u64_ratio_def quot_zero_def ival_def)

section \<open>Operations on u64\<close>

lemma u64_safe_add_Ok [ok_simps]: "u64_safe_add a b = Ok c \<longleftrightarrow> uint c = uint a + uint b"
  by (simp add: u64_safe_add_def ok_or_eq_Ok as_u64_iff)

lemma u64_safe_sub_Ok [ok_simps]: "u64_safe_sub a b = Ok c \<longleftrightarrow> uint c = uint a - uint b"
  by (simp add: u64_safe_sub_def ok_or_eq_Ok as_u64_iff)

lemma u64_safe_mul_Ok [ok_simps]: "u64_safe_mul a b = Ok c \<longleftrightarrow> uint c = uint a * uint b"
  by (simp add: u64_safe_mul_def ok_or_eq_Ok as_u64_iff)

lemma u64_safe_div_Ok [ok_simps]:
  "u64_safe_div a b = Ok c \<longleftrightarrow> uint b \<noteq> 0 \<and> uint c = uint a div uint b"
  by (auto simp: u64_safe_div_def word_uint_eq_iff uint_div)

lemma uint_minus_1_u64: "uint (- 1 :: u64) = 2 ^ 64 - 1"
  by (simp add: unsigned_minus_1_eq_mask mask_eq_exp_minus_1)

lemma u64_saturating_add_val [val_simps]:
  "uint (u64_saturating_add a b) = min (uint a + uint b) (2 ^ 64 - 1)"
proof (cases "as_u64 (uint a + uint b)")
  case None
  then have "\<not> uint a + uint b < 2 ^ 64" by (simp add: as_u64_def split: if_splits)
  then show ?thesis using None by (simp add: u64_saturating_add_def uint_minus_1_u64)
next
  case (Some c)
  then have "uint c = uint a + uint b" by (simp add: as_u64_iff)
  then show ?thesis using Some uint_bound_64 [of c] by (simp add: u64_saturating_add_def)
qed

lemma uf_safe_mul_u64_Ok [ok_simps]: "uf_safe_mul_u64 x n = Ok z \<longleftrightarrow> uval z = uval x * uint n"
  by (simp only: uf_safe_mul_u64_def ok_or_eq_Ok map_as_u128 uint_ucast_up uval_def)

lemma uf_safe_div_u64_Ok [ok_simps]:
  "uf_safe_div_u64 x n = Ok z \<longleftrightarrow> uint n \<noteq> 0 \<and> uval z = uval x div uint n"
  by (cases z) (auto simp: uf_safe_div_u64_def uval_def word_uint_eq_iff uint_div uint_up_ucast is_up)

lemma if_safe_mul_u64_Ok [ok_simps]: "if_safe_mul_u64 x n = Ok z \<longleftrightarrow> ival z = ival x * uint n"
  by (simp only: if_safe_mul_u64_def ok_or_eq_Ok map_as_i128 sint_ucast_up ival_def)

lemma quot_zero_range:
  assumes "- (2 ^ 127) \<le> a" "a < 2 ^ 127" "0 < b"
  shows "- (2 ^ 127) \<le> quot_zero a b" "quot_zero a b < 2 ^ 127"
proof -
  have "\<bar>a\<bar> div b \<le> \<bar>a\<bar>" "0 \<le> \<bar>a\<bar> div b"
    using assms(3) zdiv_mono2 [of "\<bar>a\<bar>" 1 b] by (simp_all add: pos_imp_zdiv_nonneg_iff)
  then show "- (2 ^ 127) \<le> quot_zero a b" "quot_zero a b < 2 ^ 127"
    using assms by (cases "0 \<le> a"; simp add: quot_zero_nonneg quot_zero_neg_eq)+
qed

lemma if_safe_div_u64_Ok [ok_simps]:
  "if_safe_div_u64 x n = Ok z \<longleftrightarrow> uint n \<noteq> 0 \<and> ival z = quot_zero (ival x) (uint n)"
proof (cases "n = 0")
  case False
  then have "0 < uint n" by (simp add: word_uint_eq_iff order_less_le)
  from quot_zero_range [OF ival_bounds [of x] this]
  have "ival (IFixedPoint (word_of_int (quot_zero (ival x) (uint n)))) = quot_zero (ival x) (uint n)"
    by (simp only: ival_def ifixed.sel sint_of_int_128)
  with False \<open>0 < uint n\<close> show ?thesis
    by (simp only: if_safe_div_u64_def sint_ucast_up if_False result.inject
      ival_def [symmetric]) (metis ival_inject order_less_irrefl)
qed (simp add: if_safe_div_u64_def)

section \<open>Operations of the crate\<close>

context fixed_crate_spec
begin

lemma if_is_negative_iff [val_simps]: "if_is_negative F x \<longleftrightarrow> ival x < 0"
  by (simp add: if_is_negative_def ival_def i_less_zero_iff)

lemma if_neg_val [val_simps]: "ival x \<noteq> - (2 ^ 127) \<Longrightarrow> ival (if_neg F x) = - ival x"
  using i_neg_eq [of "if_bits x"] by (simp add: if_neg_def ival_def)

lemma if_from_num_u64_val [val_simps]: "ival (if_from_num_u64 F n) = uint n * 2 ^ 48"
  by (simp only: if_from_num_u64_def ival_def ifixed.sel i_from_u64)

lemma if_from_num_u32_val [val_simps]: "ival (if_from_num_u32 F m) = uint m * 2 ^ 48"
  by (simp only: if_from_num_u32_def ival_def ifixed.sel i_from_u32)

lemma uf_safe_add_Ok [ok_simps]: "uf_safe_add F x y = Ok z \<longleftrightarrow> uval z = uval x + uval y"
  by (simp only: uf_safe_add_def ok_or_eq_Ok u_add map_as_u128 uval_def)

lemma uf_safe_sub_Ok [ok_simps]: "uf_safe_sub F x y = Ok z \<longleftrightarrow> uval z = uval x - uval y"
  by (simp only: uf_safe_sub_def ok_or_eq_Ok u_sub map_as_u128 uval_def)

lemma uf_safe_mul_Ok [ok_simps]: "uf_safe_mul F x y = Ok z \<longleftrightarrow> uval z = uval x * uval y div 2 ^ 64"
  by (simp only: uf_safe_mul_def ok_or_eq_Ok u_mul map_as_u128 uval_def)

lemma uf_safe_div_Ok [ok_simps]:
  "uf_safe_div F x y = Ok z \<longleftrightarrow> uval y \<noteq> 0 \<and> uval z = uval x * 2 ^ 64 div uval y"
proof (cases "uf_bits y = 0")
  case True
  then show ?thesis by (simp add: uf_safe_div_def u_div uval_def)
next
  case False
  then have "uval y \<noteq> 0" by (simp add: uval_def word_uint_eq_iff)
  with False show ?thesis
    by (simp only: uf_safe_div_def ok_or_eq_Ok u_div if_False map_as_u128 uval_def) simp
qed

lemma if_safe_add_Ok [ok_simps]: "if_safe_add F x y = Ok z \<longleftrightarrow> ival z = ival x + ival y"
  by (simp only: if_safe_add_def ok_or_eq_Ok i_add map_as_i128 ival_def)

lemma if_safe_sub_Ok [ok_simps]: "if_safe_sub F x y = Ok z \<longleftrightarrow> ival z = ival x - ival y"
  by (simp only: if_safe_sub_def ok_or_eq_Ok i_sub map_as_i128 ival_def)

lemma if_safe_sub_u64_Ok [ok_simps]:
  "if_safe_sub_u64 F x n = Ok z \<longleftrightarrow> ival z = ival x - uint n * 2 ^ 48"
  by (simp only: if_safe_sub_u64_def ok_or_eq_Ok i_sub map_as_i128 ival_def i_from_u64)

lemma if_safe_mul_nonneg:
  "0 \<le> ival x * ival y \<Longrightarrow> if_safe_mul F x y = Ok z \<longleftrightarrow> ival z = ival x * ival y div 2 ^ 48"
  by (simp only: if_safe_mul_def ok_or_eq_Ok ival_def i_mul map_as_i128)

lemma if_safe_mul_neg:
  assumes "ival x * ival y < 0" "if_safe_mul F x y = Ok z"
  shows "ival z \<le> 0 \<and> \<bar>ival z * 2 ^ 48 - ival x * ival y\<bar> < 2 ^ 48"
proof -
  obtain w where "i_checked_mul F (if_bits x) (if_bits y) = Some w" "z = IFixedPoint w"
    using assms(2) by (auto simp: if_safe_mul_def ok_or_eq_Ok)
  with assms(1) show ?thesis using i_mul_neg [of "if_bits x" "if_bits y" w]
    by (simp only: ival_def ifixed.sel)
qed

lemma if_safe_div_nonneg:
  "0 \<le> ival x \<Longrightarrow> 0 < ival y \<Longrightarrow>
     if_safe_div F x y = Ok z \<longleftrightarrow> ival z = ival x * 2 ^ 48 div ival y"
  by (simp only: if_safe_div_def ok_or_eq_Ok ival_def i_div map_as_i128)

lemma if_safe_div_zero: "ival y = 0 \<Longrightarrow> if_safe_div F x y = Err DivisionOverflow"
  using if_is_zero_iff [of y] by (simp add: if_safe_div_def if_is_zero_def i_div_zero)

lemma if_safe_div_neg:
  assumes "ival x < 0" "0 < ival y" "if_safe_div F x y = Ok z"
  shows "ival z \<le> 0 \<and> \<bar>ival z * ival y - ival x * 2 ^ 48\<bar> < ival y"
proof -
  obtain w where "i_checked_div F (if_bits x) (if_bits y) = Some w" "z = IFixedPoint w"
    using assms(3) by (auto simp: if_safe_div_def ok_or_eq_Ok)
  with assms(1,2) show ?thesis using i_div_neg [of "if_bits x" "if_bits y" w]
    by (simp only: ival_def ifixed.sel)
qed

lemma if_from_ufixed_val: "if_from_ufixed F x = Some y \<longleftrightarrow> ival y = uval x div 2 ^ 16"
  by (simp only: if_from_ufixed_def i_from_u map_as_i128 uval_def)

lemma uf_from_ifixed_val: "uf_from_ifixed F x = Some y \<longleftrightarrow> uval y = ival x * 2 ^ 16"
  by (simp only: uf_from_ifixed_def u_from_i map_as_u128 ival_def)

lemma uf_try_from_Ok [ok_simps]: "uf_try_from_ifixed F x = Ok y \<longleftrightarrow> uval y = ival x * 2 ^ 16"
  by (simp add: uf_try_from_ifixed_def ok_or_eq_Ok uf_from_ifixed_val)

text \<open>A \<open>UFixedPoint\<close> operand is first cut to the 48 fractional bits of \<open>IFixedPoint\<close>.\<close>

lemma ex_if_from_ufixed: "\<exists>y. if_from_ufixed F x = Some y \<and> ival y = uval x div 2 ^ 16"
proof -
  have "uval x div 2 ^ 16 < 2 ^ 112" using uval_less [of x] by (simp add: div_less_iff)
  moreover have "0 \<le> uval x div 2 ^ 16" by (simp add: pos_imp_zdiv_nonneg_iff)
  moreover have "(2::int) ^ 112 < 2 ^ 127" "- (2 ^ 127) \<le> (0::int)" by simp_all
  ultimately have "\<exists>y. ival y = uval x div 2 ^ 16" unfolding ex_ival by linarith
  then show ?thesis by (simp add: if_from_ufixed_val)
qed

lemma if_safe_add_uf_Ok [ok_simps]:
  "if_safe_add_uf F x y = Ok z \<longleftrightarrow> ival z = ival x + uval y div 2 ^ 16"
  using ex_if_from_ufixed [of y]
  by (auto simp: if_safe_add_uf_def bind_r_eq_Ok map_err_eq_Ok ok_or_eq_Ok if_safe_add_Ok)

lemma if_safe_mul_uf_nonneg:
  "0 \<le> ival x \<Longrightarrow> if_safe_mul_uf F x y = Ok z \<longleftrightarrow> ival z = ival x * (uval y div 2 ^ 16) div 2 ^ 48"
  using ex_if_from_ufixed [of y]
  by (auto simp: if_safe_mul_uf_def bind_r_eq_Ok map_err_eq_Ok ok_or_eq_Ok if_safe_mul_nonneg
      pos_imp_zdiv_nonneg_iff)

lemma if_safe_div_uf_nonneg:
  assumes "0 \<le> ival x" "2 ^ 16 \<le> uval y"
  shows "if_safe_div_uf F x y = Ok z \<longleftrightarrow> ival z = ival x * 2 ^ 48 div (uval y div 2 ^ 16)"
proof -
  have "0 < uval y div 2 ^ 16" using assms(2) by (simp add: pos_imp_zdiv_pos_iff)
  then show ?thesis using ex_if_from_ufixed [of y] assms(1)
    by (auto simp: if_safe_div_uf_def bind_r_eq_Ok map_err_eq_Ok ok_or_eq_Ok if_safe_div_nonneg)
qed

lemma uf_rounded_down_Ok [ok_simps]:
  "uf_as_u64_rounded_down F x = Ok n \<longleftrightarrow> uint n = uval x div 2 ^ 64"
  by (simp only: uf_as_u64_rounded_down_def ok_or_eq_Ok u_to_u64 as_u64_iff uval_def)

lemma uf_to_u64_total: "\<exists>n. u_checked_to_u64 F (uf_bits x) = Some n \<and> uint n = uval x div 2 ^ 64"
  using uval_less [of x]
  by (simp add: u_to_u64 as_u64_iff ex_uint_u64 pos_imp_zdiv_nonneg_iff div_less_iff flip: uval_def)

lemma u_frac_zero_iff: "u_frac F (uf_bits x) = 0 \<longleftrightarrow> uval x mod 2 ^ 64 = 0"
  by (simp only: word_uint_eq_iff u_frac_eq uval_def uint_0_eq)

lemma uf_rounded_up_Ok [ok_simps]:
  "uf_as_u64_rounded_up F x = Ok n \<longleftrightarrow>
     uint n = min (uval x div 2 ^ 64 + (if uval x mod 2 ^ 64 = 0 then 0 else 1)) (2 ^ 64 - 1)"
proof -
  obtain d where d: "u_checked_to_u64 F (uf_bits x) = Some d" "uint d = uval x div 2 ^ 64"
    using uf_to_u64_total by blast
  have "uint d \<le> 2 ^ 64 - 1" using uint_bound_64 [of d] by simp
  then show ?thesis
    using d by (auto simp: uf_as_u64_rounded_up_def u_frac_zero_iff u64_eq_iff
        u64_saturating_add_val)
qed

lemma u64_safe_div_if_nonneg:
  "0 < ival x \<Longrightarrow> u64_safe_div_if F n x = Ok z \<longleftrightarrow> ival z = uint n * 2 ^ 96 div ival x"
  by (simp add: u64_safe_div_if_def map_err_eq_Ok if_safe_div_nonneg ival_from_u64 mult.commute)

lemma u64_safe_mul_if_nonneg:
  "0 \<le> ival x \<Longrightarrow> u64_safe_mul_if F n x = Ok z \<longleftrightarrow> ival z = uint n * ival x"
  by (simp add: u64_safe_mul_if_def map_err_eq_Ok if_safe_mul_nonneg ival_from_u64
      mult.assoc mult.left_commute)

end

end
