(* ===== verification/Interest_Rate.thy ===== *)
theory Interest_Rate
  imports Fixed_Laws
begin

text \<open>
  The interest rate models of \<open>src/autara-lib/src/interest_rate\<close>: rates, rates per second and
  their compounding, the polyline curve, the adaptive curve (a port of Morpho's
  \<open>AdaptiveCurveIrm\<close>) and the enum that dispatches between them. The conversions from and to
  \<open>f64\<close> (\<open>approximate_*\<close>) are client conveniences and not modelled.
\<close>

section \<open>Rates\<close>

datatype interest_rate = InterestRate (ir_rate: ifixed)

datatype interest_rate_per_second = InterestRatePerSecond (irps_rate: ifixed)

text \<open>\<open>interest\<close> at the two operand types the program uses, \<open>u64\<close> and \<open>UFixedPoint\<close>.\<close>

definition interest_u64 :: "interest_rate \<Rightarrow> u64 \<Rightarrow> ifixed result" where
  "interest_u64 self v = if_safe_mul_u64 (ir_rate self) v"

definition interest_uf :: "fixed_crate \<Rightarrow> interest_rate \<Rightarrow> ufixed \<Rightarrow> ifixed result" where
  "interest_uf F self v = if_safe_mul_uf F (ir_rate self) v"

definition ir_adjust_for_utilisation_rate ::
    "fixed_crate \<Rightarrow> interest_rate \<Rightarrow> ifixed \<Rightarrow> interest_rate result" where
  "ir_adjust_for_utilisation_rate F self utilisation_rate =
     bind_r (if_safe_mul F (ir_rate self) utilisation_rate) (\<lambda>x. Ok (InterestRate x))"

definition irps_from_apr :: "ifixed \<Rightarrow> interest_rate_per_second result" where
  "irps_from_apr apr =
     bind_r (expect (if_safe_div_u64 apr SECONDS_PER_YEAR)) (\<lambda>x. Ok (InterestRatePerSecond x))"

definition irps_const_from_apr :: "ifixed \<Rightarrow> interest_rate_per_second" where
  "irps_const_from_apr apr =
     InterestRatePerSecond (IFixedPoint (word_of_int
       (quot_zero (sint (if_bits apr)) (sint (ucast SECONDS_PER_YEAR :: i128)))))"

definition coumpounding_interest_rate_during_elapsed_seconds ::
    "fixed_crate \<Rightarrow> interest_rate_per_second \<Rightarrow> u64 \<Rightarrow> interest_rate result" where
  "coumpounding_interest_rate_during_elapsed_seconds F self elapsed_seconds =
     bind_r (if_safe_mul_u64 (irps_rate self) elapsed_seconds) (\<lambda>x.
     bind_r (checked_exp F x) (\<lambda>e.
     bind_r (if_safe_sub_u64 F e 1) (\<lambda>r. Ok (InterestRate r))))"

definition irps_adjust_for_utilisation_rate ::
    "fixed_crate \<Rightarrow> interest_rate_per_second \<Rightarrow> ifixed \<Rightarrow> interest_rate_per_second result" where
  "irps_adjust_for_utilisation_rate F self utilisation_rate =
     bind_r (if_safe_mul F (irps_rate self) utilisation_rate)
       (\<lambda>x. Ok (InterestRatePerSecond x))"

section \<open>Parameters of a curve\<close>

record market_borrow_rate_parameters =
  utilisation_rate :: ifixed
  elapsed_seconds_since_last_update :: u64

definition utilisation_rate_bps ::
    "fixed_crate \<Rightarrow> market_borrow_rate_parameters \<Rightarrow> u32 result" where
  "utilisation_rate_bps F params =
     bind_r (if_safe_mul_u64 (utilisation_rate params) (ucast ONE_IN_BPS)) (\<lambda>x.
     bind_r (if_as_u64_rounded_down F x) (\<lambda>n.
       if uint n < 2 ^ 32 then Ok (ucast n) else Err CastOverflow))"

section \<open>The polyline curve\<close>

record polyline_interest_rate_point =
  utilization_rate_bps :: u32
  borrow_rate_bps :: u32

definition POLYLINE_MAX_POINTS :: nat where "POLYLINE_MAX_POINTS = 8"

record polyline_interest_rate_curve =
  polyline_points :: "polyline_interest_rate_point list"

datatype polyline_interest_rate_curve_error =
  TooManyPoints | FirstPointInvalid | PointsNotInOrder

definition maybe_uninit ::
    "polyline_interest_rate_point \<Rightarrow> polyline_interest_rate_point option" where
  "maybe_uninit p = (if borrow_rate_bps p = 0 then None else Some p)"

fun validate_points_loop ::
    "bool \<Rightarrow> u32 \<Rightarrow> u32 \<Rightarrow> polyline_interest_rate_point option list
     \<Rightarrow> polyline_interest_rate_curve_error + unit" where
  "validate_points_loop reached_end last_borrow last_util [] = Inr ()"
| "validate_points_loop reached_end last_borrow last_util (Some point # rest) =
     (if reached_end \<or> utilization_rate_bps point \<le> last_util
         \<or> borrow_rate_bps point \<le> last_borrow
      then Inl PointsNotInOrder
      else validate_points_loop reached_end (borrow_rate_bps point)
             (utilization_rate_bps point) rest)"
| "validate_points_loop reached_end last_borrow last_util (None # rest) =
     validate_points_loop True last_borrow last_util rest"

definition validate_points ::
    "polyline_interest_rate_point list \<Rightarrow> polyline_interest_rate_curve_error + unit" where
  "validate_points points =
     (if POLYLINE_MAX_POINTS < length points then Inl TooManyPoints
      else (case points of
          [] \<Rightarrow> Inl FirstPointInvalid
        | first # _ \<Rightarrow>
            (if utilization_rate_bps first \<noteq> 0 \<or> borrow_rate_bps first = 0
             then Inl FirstPointInvalid
             else validate_points_loop False (borrow_rate_bps first) 0
                    (drop 1 (map maybe_uninit points)))))"

definition polyline_try_new ::
    "polyline_interest_rate_point list
     \<Rightarrow> polyline_interest_rate_curve_error + polyline_interest_rate_curve" where
  "polyline_try_new points =
     (case validate_points points of
        Inl e \<Rightarrow> Inl e
      | Inr _ \<Rightarrow> Inr \<lparr>polyline_points =
          points @ replicate (POLYLINE_MAX_POINTS - length points)
            \<lparr>utilization_rate_bps = 0, borrow_rate_bps = 0\<rparr>\<rparr>)"

definition polyline_validate ::
    "polyline_interest_rate_curve \<Rightarrow> polyline_interest_rate_curve_error + unit" where
  "polyline_validate self = validate_points (polyline_points self)"

text \<open>\<open>points\<close> is the iterator \<open>map_while maybe_uninit\<close>.\<close>

definition points :: "polyline_interest_rate_curve \<Rightarrow> polyline_interest_rate_point list" where
  "points self = takeWhile (\<lambda>p. maybe_uninit p \<noteq> None) (polyline_points self)"

definition u32_saturating_add :: "u32 \<Rightarrow> u32 \<Rightarrow> u32" where
  "u32_saturating_add a b = (if uint a + uint b < 2 ^ 32 then a + b else - 1)"

text \<open>The subtractions are on \<open>u64\<close> and wrap; the quotient is cut to 32 bits by \<open>as u32\<close>.\<close>

definition line_value_at ::
    "polyline_interest_rate_point \<Rightarrow> polyline_interest_rate_point \<Rightarrow> u32 \<Rightarrow> u32 result" where
  "line_value_at start end utilization =
     (let dr = (ucast (borrow_rate_bps end) :: u64) - ucast (borrow_rate_bps start);
          du = (ucast utilization :: u64) - ucast (utilization_rate_bps start);
          width = (ucast (utilization_rate_bps end) :: u64) - ucast (utilization_rate_bps start)
      in if width = 0 then Panic
         else Ok (u32_saturating_add (borrow_rate_bps start) (ucast ((dr * du) div width))))"

fun select_segment ::
    "u32 \<Rightarrow> polyline_interest_rate_point \<Rightarrow> polyline_interest_rate_point
     \<Rightarrow> polyline_interest_rate_point list
     \<Rightarrow> polyline_interest_rate_point \<times> polyline_interest_rate_point" where
  "select_segment utilization start end [] = (start, end)"
| "select_segment utilization start end (point # rest) =
     (if utilization < utilization_rate_bps end then (start, end)
      else select_segment utilization end point rest)"

definition apr_borrow_rate_bps :: "polyline_interest_rate_curve \<Rightarrow> u32 \<Rightarrow> u32 result" where
  "apr_borrow_rate_bps self utilization =
     (case points self of
        [] \<Rightarrow> Panic
      | [start] \<Rightarrow> Ok (borrow_rate_bps start)
      | start # end # rest \<Rightarrow>
          (case select_segment utilization start end rest of
             (s, e) \<Rightarrow> line_value_at s e utilization))"

definition polyline_interest_rate_per_second ::
    "fixed_crate \<Rightarrow> polyline_interest_rate_curve \<Rightarrow> u32 \<Rightarrow> interest_rate_per_second result" where
  "polyline_interest_rate_per_second F self utilization =
     bind_r (apr_borrow_rate_bps self utilization) (\<lambda>bps.
     bind_r (expect (if_safe_div_u64 (if_from_num_u32 F bps) (ucast ONE_IN_BPS))) (\<lambda>apr.
       irps_from_apr apr))"

section \<open>The adaptive curve\<close>

record adaptive_interest_rate_curve =
  rate_at_target :: interest_rate_per_second

definition TARGET_UTILISATION_RATE :: ifixed where
  "TARGET_UTILISATION_RATE = const_eval (if_from_i64_u64_ratio 9 10)"

definition ONE_MINUS_TARGET_UTILISATION_RATE :: ifixed where
  "ONE_MINUS_TARGET_UTILISATION_RATE = const_eval (if_from_i64_u64_ratio 1 10)"

definition ADJUSTMENT_SPEED :: ifixed where
  "ADJUSTMENT_SPEED = const_eval (if_from_i64_u64_ratio 50 SECONDS_PER_YEAR)"

definition CURVE_STEEPNESS :: u64 where "CURVE_STEEPNESS = 4"

definition INITIAL_RATE_AT_TARGET :: interest_rate_per_second where
  "INITIAL_RATE_AT_TARGET = irps_const_from_apr (const_eval (if_from_i64_u64_ratio 4 100))"

definition MIN_RATE_AT_TARGET :: interest_rate_per_second where
  "MIN_RATE_AT_TARGET = irps_const_from_apr (const_eval (if_from_i64_u64_ratio 1 100))"

definition MAX_RATE_AT_TARGET :: interest_rate_per_second where
  "MAX_RATE_AT_TARGET = irps_const_from_apr (const_eval (if_from_i64_u64_ratio 200 100))"

definition MAX_SAFE_LINEAR_ADAPTATION :: ifixed where
  "MAX_SAFE_LINEAR_ADAPTATION = const_eval (if_from_i64_u64_ratio 5475 100)"

definition MIN_SAFE_LINEAR_ADAPTATION :: ifixed where
  "MIN_SAFE_LINEAR_ADAPTATION = const_eval (if_from_i64_u64_ratio (- 3321) 100)"

definition adaptive_new :: adaptive_interest_rate_curve where
  "adaptive_new = \<lparr>rate_at_target = irps_const_from_apr if_zero\<rparr>"

text \<open>\<open>Ord::clamp\<close>; both bounds are constants with \<open>MIN < MAX\<close>.\<close>

definition irps_clamp ::
    "interest_rate_per_second \<Rightarrow> interest_rate_per_second \<Rightarrow> interest_rate_per_second
     \<Rightarrow> interest_rate_per_second" where
  "irps_clamp r lo hi =
     (if irps_rate r < irps_rate lo then lo
      else if irps_rate hi < irps_rate r then hi else r)"

definition new_rate_at_target ::
    "fixed_crate \<Rightarrow> interest_rate_per_second \<Rightarrow> ifixed \<Rightarrow> interest_rate_per_second result" where
  "new_rate_at_target F start_rate_at_target linear_adaptation =
     (let clamped =
        (if linear_adaptation > MAX_SAFE_LINEAR_ADAPTATION then MAX_SAFE_LINEAR_ADAPTATION
         else if linear_adaptation < MIN_SAFE_LINEAR_ADAPTATION then MIN_SAFE_LINEAR_ADAPTATION
         else linear_adaptation) in
      bind_r (checked_exp F clamped) (\<lambda>e.
      bind_r (if_safe_mul F (irps_rate start_rate_at_target) e) (\<lambda>x.
        Ok (irps_clamp (InterestRatePerSecond x) MIN_RATE_AT_TARGET MAX_RATE_AT_TARGET))))"

definition adaptive_curve_value ::
    "fixed_crate \<Rightarrow> interest_rate_per_second \<Rightarrow> ifixed \<Rightarrow> interest_rate_per_second result" where
  "adaptive_curve_value F rate err =
     bind_r
       (if if_is_negative F err
        then bind_r (if_safe_div_u64 if_one CURVE_STEEPNESS) (\<lambda>d. if_safe_sub F if_one d)
        else u64_safe_sub_if F CURVE_STEEPNESS if_one) (\<lambda>coeff.
     bind_r (if_safe_mul F coeff err) (\<lambda>x.
     bind_r (if_safe_add F x if_one) (\<lambda>y.
     bind_r (if_safe_mul F y (irps_rate rate)) (\<lambda>z. Ok (InterestRatePerSecond z)))))"

definition next_target_rates ::
    "fixed_crate \<Rightarrow> interest_rate_per_second \<Rightarrow> ifixed \<Rightarrow> u64
     \<Rightarrow> (interest_rate_per_second \<times> interest_rate_per_second) result" where
  "next_target_rates F start_rate_at_target err elapsed =
     (if if_is_zero (irps_rate start_rate_at_target)
      then Ok (INITIAL_RATE_AT_TARGET, INITIAL_RATE_AT_TARGET)
      else
        bind_r (if_safe_mul F ADJUSTMENT_SPEED err) (\<lambda>speed.
        bind_r (if_safe_mul_u64 speed elapsed) (\<lambda>linear_adaptation.
          if if_is_zero linear_adaptation
          then Ok (start_rate_at_target, start_rate_at_target)
          else
            bind_r (new_rate_at_target F start_rate_at_target linear_adaptation) (\<lambda>end_rate.
            bind_r (if_safe_div_u64 linear_adaptation 2) (\<lambda>half.
            bind_r (new_rate_at_target F start_rate_at_target half) (\<lambda>mid_rate.
            bind_r (if_safe_add F (irps_rate start_rate_at_target) (irps_rate end_rate)) (\<lambda>s.
            bind_r (if_safe_mul_u64 (irps_rate mid_rate) 2) (\<lambda>m2.
            bind_r (if_safe_add F s m2) (\<lambda>total.
            bind_r (if_safe_div_u64 total 4) (\<lambda>avg.
              Ok (InterestRatePerSecond avg, end_rate))))))))))) "

definition compute_next_rates ::
    "fixed_crate \<Rightarrow> adaptive_interest_rate_curve \<Rightarrow> market_borrow_rate_parameters
     \<Rightarrow> (interest_rate_per_second \<times> interest_rate_per_second) result" where
  "compute_next_rates F self params =
     (let err_norm_factor =
        (if utilisation_rate params > TARGET_UTILISATION_RATE
         then ONE_MINUS_TARGET_UTILISATION_RATE else TARGET_UTILISATION_RATE) in
      bind_r (if_safe_sub F (utilisation_rate params) TARGET_UTILISATION_RATE) (\<lambda>d.
      bind_r (if_safe_div F d err_norm_factor) (\<lambda>err.
      bind_r (next_target_rates F (rate_at_target self) err
                (elapsed_seconds_since_last_update params)) (\<lambda>(avg_rate, end_rate).
      bind_r (adaptive_curve_value F avg_rate err) (\<lambda>rate. Ok (rate, end_rate))))))"

definition adaptive_borrow_rate ::
    "fixed_crate \<Rightarrow> adaptive_interest_rate_curve \<Rightarrow> market_borrow_rate_parameters
     \<Rightarrow> (adaptive_interest_rate_curve \<times> interest_rate_per_second) result" where
  "adaptive_borrow_rate F self params =
     bind_r (compute_next_rates F self params) (\<lambda>(rate, end_rate).
       Ok (self\<lparr>rate_at_target := end_rate\<rparr>, rate))"

section \<open>The curve of a market\<close>

datatype interest_rate_curve_kind =
    Fixed interest_rate_per_second
  | Polyline polyline_interest_rate_curve
  | Adaptive adaptive_interest_rate_curve

definition curve_is_valid :: "fixed_crate \<Rightarrow> interest_rate_curve_kind \<Rightarrow> bool" where
  "curve_is_valid F self =
     (case self of
        Fixed rate \<Rightarrow>
          \<not> if_is_negative F (irps_rate rate)
          \<and> irps_rate rate \<le> const_eval (if_from_i64_u64_ratio 5475 100)
      | Polyline curve \<Rightarrow> (case polyline_validate curve of Inl _ \<Rightarrow> False | Inr _ \<Rightarrow> True)
      | Adaptive _ \<Rightarrow> True)"

definition borrow_rate_per_second ::
    "fixed_crate \<Rightarrow> interest_rate_curve_kind \<Rightarrow> market_borrow_rate_parameters
     \<Rightarrow> (interest_rate_curve_kind \<times> interest_rate_per_second) result" where
  "borrow_rate_per_second F self params =
     (case self of
        Fixed rate \<Rightarrow> Ok (Fixed rate, rate)
      | Polyline curve \<Rightarrow>
          bind_r (utilisation_rate_bps F params) (\<lambda>bps.
          bind_r (polyline_interest_rate_per_second F curve bps) (\<lambda>rate.
            Ok (Polyline curve, rate)))
      | Adaptive curve \<Rightarrow>
          bind_r (adaptive_borrow_rate F curve params) (\<lambda>(curve', rate).
            Ok (Adaptive curve', rate)))"

end
