(* ===== verification/Shares_Tracker.thy ===== *)
theory Shares_Tracker
  imports Interest_Rate
begin

text \<open>
  \<open>SharesTracker\<close> of \<open>src/autara-lib/src/math/shares_tracker.rs\<close>: a pool whose holders own
  shares and whose price, \<open>atoms_per_share\<close>, moves with interest, donations and losses. The
  supply side and the borrow side of a market each have one. Every \<open>&mut self\<close> operation
  returns the new tracker with its result.
\<close>

record shares_tracker =
  total_shares :: ufixed
  atoms_per_share :: ufixed

definition st_new :: shares_tracker where
  "st_new = \<lparr>total_shares = uf_from_u64 0, atoms_per_share = uf_from_u64 1\<rparr>"

definition st_initialize :: "shares_tracker \<Rightarrow> shares_tracker" where
  "st_initialize self = self\<lparr>total_shares := uf_from_u64 0, atoms_per_share := uf_from_u64 1\<rparr>"

definition atoms_to_shares :: "fixed_crate \<Rightarrow> shares_tracker \<Rightarrow> u64 \<Rightarrow> ufixed result" where
  "atoms_to_shares F self atoms = uf_safe_div F (uf_from_u64 atoms) (atoms_per_share self)"

definition shares_to_atoms ::
    "fixed_crate \<Rightarrow> shares_tracker \<Rightarrow> ufixed \<Rightarrow> rounding_mode \<Rightarrow> u64 result" where
  "shares_to_atoms F self shares rounding =
     bind_r (uf_safe_mul F shares (atoms_per_share self)) (\<lambda>x. uf_as_u64_rounded F x rounding)"

definition total_atoms :: "fixed_crate \<Rightarrow> shares_tracker \<Rightarrow> rounding_mode \<Rightarrow> u64 result" where
  "total_atoms F self rounding =
     bind_r (uf_safe_mul F (total_shares self) (atoms_per_share self))
       (\<lambda>x. uf_as_u64_rounded F x rounding)"

definition deposit_atoms ::
    "fixed_crate \<Rightarrow> shares_tracker \<Rightarrow> u64 \<Rightarrow> (shares_tracker \<times> ufixed) result" where
  "deposit_atoms F self atoms =
     bind_r (atoms_to_shares F self atoms) (\<lambda>shares.
     bind_r (uf_safe_add F (total_shares self) shares) (\<lambda>total.
       Ok (self\<lparr>total_shares := total\<rparr>, shares)))"

definition st_withdraw_atoms ::
    "fixed_crate \<Rightarrow> shares_tracker \<Rightarrow> u64 \<Rightarrow> (shares_tracker \<times> ufixed) result" where
  "st_withdraw_atoms F self atoms =
     bind_r (atoms_to_shares F self atoms) (\<lambda>shares.
     bind_r (map_err (uf_safe_sub F (total_shares self) shares) SharesOverflow) (\<lambda>total.
       Ok (self\<lparr>total_shares := total\<rparr>, shares)))"

definition withdraw_atoms_capped ::
    "fixed_crate \<Rightarrow> shares_tracker \<Rightarrow> u64 \<Rightarrow> ufixed \<Rightarrow> rounding_mode
     \<Rightarrow> (shares_tracker \<times> u64 \<times> ufixed) result" where
  "withdraw_atoms_capped F self atoms max_shares rounding =
     bind_r (atoms_to_shares F self atoms) (\<lambda>shares.
       if shares > max_shares then
         bind_r (shares_to_atoms F self max_shares rounding) (\<lambda>atoms'.
         bind_r (map_err (uf_safe_sub F (total_shares self) max_shares) SharesOverflow) (\<lambda>total.
           Ok (self\<lparr>total_shares := total\<rparr>, atoms', max_shares)))
       else
         bind_r (map_err (uf_safe_sub F (total_shares self) shares) SharesOverflow) (\<lambda>total.
           Ok (self\<lparr>total_shares := total\<rparr>, atoms, shares)))"

definition st_withdraw_shares ::
    "fixed_crate \<Rightarrow> shares_tracker \<Rightarrow> ufixed \<Rightarrow> rounding_mode \<Rightarrow> (shares_tracker \<times> u64) result" where
  "st_withdraw_shares F self shares rounding =
     bind_r (shares_to_atoms F self shares rounding) (\<lambda>atoms.
     bind_r (map_err (uf_safe_sub F (total_shares self) shares) SharesOverflow) (\<lambda>total.
       Ok (self\<lparr>total_shares := total\<rparr>, atoms)))"

definition apply_interest_rate ::
    "fixed_crate \<Rightarrow> shares_tracker \<Rightarrow> interest_rate \<Rightarrow> shares_tracker result" where
  "apply_interest_rate F self rate =
     (if uf_is_zero (total_shares self) then Ok self
      else
        bind_r (interest_uf F rate (atoms_per_share self)) (\<lambda>interest.
        bind_r (if_safe_add_uf F interest (atoms_per_share self)) (\<lambda>price.
        bind_r (uf_try_from_ifixed F price) (\<lambda>price'.
          Ok (self\<lparr>atoms_per_share := price'\<rparr>)))))"

definition apply_interest_rate_with_fee ::
    "fixed_crate \<Rightarrow> shares_tracker \<Rightarrow> interest_rate \<Rightarrow> ufixed \<Rightarrow> (shares_tracker \<times> ufixed) result" where
  "apply_interest_rate_with_fee F self rate fee =
     bind_r (total_atoms F self RoundDown) (\<lambda>total_atoms_before.
       if total_atoms_before = 0 then Ok (self, uf_from_u64 0)
       else if if_is_negative F (ir_rate rate) then
         bind_r (apply_interest_rate F self rate) (\<lambda>_. Err NegativeInterestRate)
       else
         bind_r (interest_u64 rate total_atoms_before) (\<lambda>interest_atoms.
         bind_r (if_safe_mul_uf F interest_atoms fee) (\<lambda>fee_atoms.
         bind_r (if_safe_sub F interest_atoms fee_atoms) (\<lambda>net_interest_atoms.
         bind_r (if_safe_div_u64 net_interest_atoms total_atoms_before) (\<lambda>net_interest_rate.
         bind_r (if_safe_mul_uf F net_interest_rate (atoms_per_share self)) (\<lambda>net_per_share.
         bind_r (if_safe_add_uf F net_per_share (atoms_per_share self)) (\<lambda>price.
         bind_r (uf_try_from_ifixed F price) (\<lambda>price'.
         bind_r (if_safe_div_uf F fee_atoms price') (\<lambda>fee_shares_i.
         bind_r (uf_try_from_ifixed F fee_shares_i) (\<lambda>fee_shares.
         bind_r (uf_safe_add F fee_shares (total_shares self)) (\<lambda>total.
           Ok (self\<lparr>total_shares := total, atoms_per_share := price'\<rparr>, fee_shares))))))))))))"

definition donate_atoms :: "fixed_crate \<Rightarrow> shares_tracker \<Rightarrow> u64 \<Rightarrow> shares_tracker result" where
  "donate_atoms F self atoms =
     (if uf_is_zero (total_shares self) then Err CantModifySharePriceIfZeroShares
      else
        bind_r (uf_safe_div F (uf_from_u64 atoms) (total_shares self)) (\<lambda>additional.
        bind_r (uf_safe_add F (atoms_per_share self) additional) (\<lambda>price.
          Ok (self\<lparr>atoms_per_share := price\<rparr>))))"

definition socialize_loss_atoms ::
    "fixed_crate \<Rightarrow> shares_tracker \<Rightarrow> u64 \<Rightarrow> shares_tracker result" where
  "socialize_loss_atoms F self atoms =
     (if uf_is_zero (total_shares self) then Err CantModifySharePriceIfZeroShares
      else
        bind_r (uf_safe_div F (uf_from_u64 atoms) (total_shares self)) (\<lambda>loss.
        bind_r (uf_safe_sub F (atoms_per_share self) loss) (\<lambda>price.
          Ok (self\<lparr>atoms_per_share := price\<rparr>))))"

end
