(* ===== verification/Tracker_Laws.thy ===== *)
theory Tracker_Laws
  imports Shares_Tracker
begin

text \<open>
  The contract of a share pool. The first part reads each successful tracker operation as
  integer equations; the second states what rounding does to value: redeeming never pays more
  than the shares are worth, repaying always covers the debt it removes, no operation but a
  donation, a loss or interest moves the price.
\<close>

section \<open>Floors\<close>

lemma div_add_le: "0 < (m::int) \<Longrightarrow> a div m + b div m \<le> (a + b) div m"
  using div_mult_bounds(1) [of m a] div_mult_bounds(1) [of m b]
  by (simp add: le_div_iff distrib_right)

lemma div_add_upper: "0 < (m::int) \<Longrightarrow> (a + b) div m \<le> a div m + b div m + 1"
  using div_mult_bounds(2) [of m a] div_mult_bounds(2) [of m b]
    div_less_iff [of m "a + b" "a div m + b div m + 2"]
  by (simp add: distrib_right)

lemma div_div_int: "0 < (m::int) \<Longrightarrow> 0 < n \<Longrightarrow> a div m div n = a div (m * n)"
  by (simp add: zdiv_zmult2_eq)

text \<open>\<open>up64\<close> is the division by \<open>2^64\<close> that rounds up, as \<open>as_u64_rounded_up\<close> does.\<close>

definition up64 :: "int \<Rightarrow> int" where
  "up64 v = v div 2 ^ 64 + (if v mod 2 ^ 64 = 0 then 0 else 1)"

lemma round_up_bounds:
  fixes v m :: int
  assumes "0 < m"
  defines "u \<equiv> v div m + (if v mod m = 0 then 0 else 1)"
  shows "v \<le> u * m" "u * m < v + m"
proof -
  note b = div_mult_bounds [OF assms(1), of v] minus_div_mult_eq_mod [of v m] assms(1)
    pos_mod_sign [OF assms(1), of v]
  have "v \<le> u * m \<and> u * m < v + m"
  proof (cases "v mod m = 0")
    case True
    then have "u * m = v div m * m" by (simp add: u_def)
    with b True show ?thesis by linarith
  next
    case False
    then have "u * m = v div m * m + m" by (simp add: u_def distrib_right)
    with b False show ?thesis by linarith
  qed
  then show "v \<le> u * m" "u * m < v + m" by simp_all
qed

lemma up64_bounds: "v \<le> up64 v * 2 ^ 64" "up64 v * 2 ^ 64 < v + 2 ^ 64"
  unfolding up64_def by (rule round_up_bounds, simp)+

lemma up64_le_iff: "up64 v \<le> n \<longleftrightarrow> v \<le> n * 2 ^ 64"
proof
  assume "up64 v \<le> n"
  then have "up64 v * 2 ^ 64 \<le> n * 2 ^ 64" by (rule mult_right_mono) simp
  then show "v \<le> n * 2 ^ 64" using up64_bounds(1) [of v] by linarith
next
  assume "v \<le> n * 2 ^ 64"
  then have "up64 v * 2 ^ 64 < (n + 1) * 2 ^ 64"
    using up64_bounds(2) [of v] by (simp add: distrib_right)
  then show "up64 v \<le> n" by simp
qed

lemma up64_mono: "v \<le> w \<Longrightarrow> up64 v \<le> up64 w"
  using up64_le_iff up64_bounds(1) order_trans by blast

section \<open>Successful operations as equations\<close>

text \<open>The value of \<open>s\<close> shares at the price of \<open>t\<close>, in units of \<open>2^-64\<close> atoms.\<close>

definition share_value :: "shares_tracker \<Rightarrow> ufixed \<Rightarrow> int" where
  "share_value t s = uval s * uval (atoms_per_share t) div 2 ^ 64"

definition pool_value :: "shares_tracker \<Rightarrow> int" where
  "pool_value t = share_value t (total_shares t)"

lemma share_value_nonneg [simp]: "0 \<le> share_value t s"
  by (simp add: share_value_def pos_imp_zdiv_nonneg_iff)

context fixed_crate_spec
begin

lemma atoms_to_shares_Ok [ok_simps]:
  "atoms_to_shares F t a = Ok s \<longleftrightarrow>
     uval (atoms_per_share t) \<noteq> 0 \<and> uval s = uint a * 2 ^ 128 div uval (atoms_per_share t)"
  by (simp add: atoms_to_shares_def uf_safe_div_Ok uval_from_u64 mult.assoc)

lemma uf_rounded_Ok [ok_simps]:
  "uf_as_u64_rounded F x RoundDown = Ok n \<longleftrightarrow> uint n = uval x div 2 ^ 64"
  "uf_as_u64_rounded F x RoundUp = Ok n \<longleftrightarrow> uint n = min (up64 (uval x)) (2 ^ 64 - 1)"
  by (simp_all add: uf_as_u64_rounded_def map_err_eq_Ok uf_rounded_down_Ok uf_rounded_up_Ok up64_def)

lemma shares_to_atoms_down [ok_simps]:
  "shares_to_atoms F t s RoundDown = Ok n \<longleftrightarrow>
     share_value t s < 2 ^ 128 \<and> uint n = share_value t s div 2 ^ 64"
  using ex_uval [of "share_value t s"]
  by (auto simp: shares_to_atoms_def bind_r_eq_Ok uf_safe_mul_Ok uf_rounded_Ok share_value_def
      pos_imp_zdiv_nonneg_iff)

lemma shares_to_atoms_up [ok_simps]:
  "shares_to_atoms F t s RoundUp = Ok n \<longleftrightarrow>
     share_value t s < 2 ^ 128 \<and> uint n = min (up64 (share_value t s)) (2 ^ 64 - 1)"
  using ex_uval [of "share_value t s"]
  by (auto simp: shares_to_atoms_def bind_r_eq_Ok uf_safe_mul_Ok uf_rounded_Ok share_value_def
      pos_imp_zdiv_nonneg_iff)

lemma total_atoms_eq: "total_atoms F t r = shares_to_atoms F t (total_shares t) r"
  by (simp add: total_atoms_def shares_to_atoms_def)

lemma deposit_atoms_Ok:
  assumes "deposit_atoms F t a = Ok (t', s)"
  shows "atoms_to_shares F t a = Ok s"
    and "uval (total_shares t') = uval (total_shares t) + uval s"
    and "atoms_per_share t' = atoms_per_share t"
  using assms by (auto simp: deposit_atoms_def bind_r_eq_Ok uf_safe_add_Ok)

lemma st_withdraw_atoms_Ok:
  assumes "st_withdraw_atoms F t a = Ok (t', s)"
  shows "atoms_to_shares F t a = Ok s"
    and "uval (total_shares t') = uval (total_shares t) - uval s"
    and "atoms_per_share t' = atoms_per_share t"
  using assms by (auto simp: st_withdraw_atoms_def bind_r_eq_Ok map_err_eq_Ok uf_safe_sub_Ok)

lemma st_withdraw_shares_Ok:
  assumes "st_withdraw_shares F t s r = Ok (t', n)"
  shows "shares_to_atoms F t s r = Ok n"
    and "uval (total_shares t') = uval (total_shares t) - uval s"
    and "atoms_per_share t' = atoms_per_share t"
  using assms by (auto simp: st_withdraw_shares_def bind_r_eq_Ok map_err_eq_Ok uf_safe_sub_Ok)

lemma withdraw_atoms_capped_Ok:
  assumes "withdraw_atoms_capped F t a m r = Ok (t', n, s)"
  shows "\<exists>s0. atoms_to_shares F t a = Ok s0 \<and>
           (if m < s0 then s = m \<and> shares_to_atoms F t m r = Ok n else s = s0 \<and> n = a)"
    and "uval (total_shares t') = uval (total_shares t) - uval s"
    and "atoms_per_share t' = atoms_per_share t"
  using assms
  by (auto simp: withdraw_atoms_capped_def bind_r_eq_Ok map_err_eq_Ok uf_safe_sub_Ok
      split: if_splits)

lemma donate_atoms_Ok:
  assumes "donate_atoms F t a = Ok t'"
  shows "uval (total_shares t) \<noteq> 0"
    and "uval (atoms_per_share t') =
           uval (atoms_per_share t) + uint a * 2 ^ 128 div uval (total_shares t)"
    and "total_shares t' = total_shares t"
  using assms
  by (auto simp: donate_atoms_def bind_r_eq_Ok uf_safe_div_Ok uf_safe_add_Ok uf_is_zero_iff
      uval_from_u64 mult.assoc split: if_splits)

lemma socialize_loss_atoms_Ok:
  assumes "socialize_loss_atoms F t a = Ok t'"
  shows "uval (total_shares t) \<noteq> 0"
    and "uval (atoms_per_share t') =
           uval (atoms_per_share t) - uint a * 2 ^ 128 div uval (total_shares t)"
    and "total_shares t' = total_shares t"
  using assms
  by (auto simp: socialize_loss_atoms_def bind_r_eq_Ok uf_safe_div_Ok uf_safe_sub_Ok uf_is_zero_iff
      uval_from_u64 mult.assoc split: if_splits)

lemma apply_interest_rate_total:
  "apply_interest_rate F t r = Ok t' \<Longrightarrow> total_shares t' = total_shares t"
  by (auto simp: apply_interest_rate_def bind_r_eq_Ok split: if_splits)

lemma apply_interest_rate_price:
  assumes "apply_interest_rate F t r = Ok t'" "0 \<le> ival (ir_rate r)" "uval (total_shares t) \<noteq> 0"
  defines "p \<equiv> uval (atoms_per_share t) div 2 ^ 16"
  shows "uval (atoms_per_share t') = (p + ival (ir_rate r) * p div 2 ^ 48) * 2 ^ 16"
  using assms(1-3) unfolding p_def
  by (auto simp: apply_interest_rate_def interest_uf_def bind_r_eq_Ok if_safe_mul_uf_nonneg
      if_safe_add_uf_Ok uf_try_from_Ok uf_is_zero_iff algebra_simps split: if_splits)

lemma apply_interest_with_fee_shares:
  assumes "apply_interest_rate_with_fee F t r fee = Ok (t', s)"
  shows "uval (total_shares t') = uval (total_shares t) + uval s"
  using assms
  by (auto simp: apply_interest_rate_with_fee_def bind_r_eq_Ok uf_safe_add_Ok uval_from_u64
      split: if_splits)

end

section \<open>What rounding does to value\<close>

context fixed_crate_spec
begin

lemma share_value_of_atoms:
  assumes "atoms_to_shares F t a = Ok s"
  shows "share_value t s \<le> uint a * 2 ^ 64"
    and "uint a * 2 ^ 64 - 2 ^ 64 \<le> share_value t s"
proof -
  let ?p = "uval (atoms_per_share t)"
  have p: "0 < ?p" and s: "uval s = uint a * 2 ^ 128 div ?p"
    using assms by (auto simp: atoms_to_shares_Ok order_less_le)
  have le: "uval s * ?p \<le> uint a * 2 ^ 128" and gt: "uint a * 2 ^ 128 < uval s * ?p + ?p"
    unfolding s by (rule div_mult_bounds [OF p])+
  show "share_value t s \<le> uint a * 2 ^ 64"
    using le zdiv_mono1 [OF le, of "2 ^ 64"] by (simp add: share_value_def)
  have "(uint a * 2 ^ 64 - 2 ^ 64) * 2 ^ 64 \<le> uval s * ?p"
    using gt uval_less [of "atoms_per_share t"] by (simp add: algebra_simps)
  then show "uint a * 2 ^ 64 - 2 ^ 64 \<le> share_value t s"
    unfolding share_value_def by (subst le_div_iff) simp_all
qed

lemma share_value_add_le:
  assumes "uval u = uval s + uval s'"
  shows "share_value t s + share_value t s' \<le> share_value t u"
  using div_add_le [of "2 ^ 64" "uval s * uval (atoms_per_share t)" "uval s' * uval (atoms_per_share t)"]
  by (simp add: share_value_def assms distrib_right)

lemma share_value_mono: "uval s \<le> uval s' \<Longrightarrow> share_value t s \<le> share_value t s'"
  by (simp add: share_value_def zdiv_mono1 mult_right_mono)

lemma share_value_cong:
  "atoms_per_share t' = atoms_per_share t \<Longrightarrow> share_value t' s = share_value t s"
  by (simp add: share_value_def)

lemma pool_value_split:
  assumes "uval (total_shares t') = uval (total_shares t) - uval s"
    and "atoms_per_share t' = atoms_per_share t"
  shows "pool_value t' + share_value t s \<le> pool_value t"
  using share_value_add_le [of "total_shares t" "total_shares t'" s t] assms
  by (simp add: pool_value_def share_value_cong [OF assms(2)])

lemma pool_value_split_upper:
  assumes "uval (total_shares t') = uval (total_shares t) - uval s"
    and "atoms_per_share t' = atoms_per_share t"
  shows "pool_value t \<le> pool_value t' + share_value t s + 1"
proof -
  have "uval (total_shares t) = uval (total_shares t') + uval s" using assms(1) by simp
  then show ?thesis
    unfolding pool_value_def share_value_def assms(2)
    by (simp only: distrib_right) (rule div_add_upper, simp)
qed

lemma up64_u64_bound: "share_value t s < 2 ^ 128 \<Longrightarrow> up64 (share_value t s) \<le> 2 ^ 64"
  by (simp add: up64_le_iff)

lemma redeem_within_pool:
  assumes "st_withdraw_shares F t s RoundDown = Ok (t', n)" "total_atoms F t RoundDown = Ok N"
  shows "\<exists>N'. total_atoms F t' RoundDown = Ok N' \<and> uint n + uint N' \<le> uint N"
proof -
  note w = st_withdraw_shares_Ok [OF assms(1)]
  have n: "uint n = share_value t s div 2 ^ 64" using w(1) by (simp only: shares_to_atoms_down)
  have N: "pool_value t < 2 ^ 128" "uint N = pool_value t div 2 ^ 64"
    using assms(2) by (simp_all only: total_atoms_eq shares_to_atoms_down pool_value_def)
  have le: "pool_value t' + share_value t s \<le> pool_value t" by (rule pool_value_split [OF w(2,3)])
  have b: "0 \<le> pool_value t'" "pool_value t' < 2 ^ 128"
    using le N(1) share_value_nonneg [of t s] by (simp_all only: pool_value_def share_value_nonneg, linarith)
  then obtain N' :: u64 where N': "uint N' = pool_value t' div 2 ^ 64"
    using ex_uint_u64 [of "pool_value t' div 2 ^ 64"]
    by (auto simp: pos_imp_zdiv_nonneg_iff div_less_iff)
  have "share_value t s div 2 ^ 64 + pool_value t' div 2 ^ 64
      \<le> (share_value t s + pool_value t') div 2 ^ 64"
    by (rule div_add_le) simp
  also have "\<dots> \<le> pool_value t div 2 ^ 64"
    by (rule zdiv_mono1) (use le in simp_all)
  finally have "share_value t s div 2 ^ 64 + pool_value t' div 2 ^ 64 \<le> pool_value t div 2 ^ 64" .
  then show ?thesis using n N N' b
    by (simp only: total_atoms_eq shares_to_atoms_down flip: pool_value_def) auto
qed

lemma redeem_deposit:
  assumes "deposit_atoms F t a = Ok (t', s)"
  shows "\<exists>n. shares_to_atoms F t' s RoundDown = Ok n \<and> uint a - 1 \<le> uint n \<and> uint n \<le> uint a"
proof -
  note d = deposit_atoms_Ok [OF assms]
  note v = share_value_of_atoms [OF d(1)]
  have sv: "share_value t' s = share_value t s" by (rule share_value_cong [OF d(3)])
  have lt: "share_value t s < 2 ^ 128" using v(1) uint_u64_less [of a] by simp
  have "share_value t s div 2 ^ 64 < 2 ^ 64" using lt by (simp add: div_less_iff)
  then obtain n :: u64 where n: "uint n = share_value t s div 2 ^ 64"
    using ex_uint_u64 [of "share_value t s div 2 ^ 64"] by (auto simp: pos_imp_zdiv_nonneg_iff)
  have "uint a - 1 \<le> uint n" unfolding n by (subst le_div_iff) (use v(2) in \<open>simp_all add: algebra_simps\<close>)
  moreover have "uint n \<le> uint a"
    unfolding n using zdiv_mono1 [OF v(1), of "2 ^ 64"] by simp
  ultimately show ?thesis using n lt by (auto simp only: shares_to_atoms_down sv)
qed

lemma withdraw_atoms_burns:
  assumes "st_withdraw_atoms F t a = Ok (t', s)" "total_atoms F t RoundDown = Ok N"
  shows "\<exists>N'. total_atoms F t' RoundDown = Ok N' \<and> uint N' + uint a \<le> uint N + 1"
proof -
  note w = st_withdraw_atoms_Ok [OF assms(1)]
  note v = share_value_of_atoms [OF w(1)]
  have N: "pool_value t < 2 ^ 128" "uint N = pool_value t div 2 ^ 64"
    using assms(2) by (simp_all only: total_atoms_eq shares_to_atoms_down pool_value_def)
  have le: "pool_value t' + share_value t s \<le> pool_value t" by (rule pool_value_split [OF w(2,3)])
  have b: "0 \<le> pool_value t'" "pool_value t' < 2 ^ 128"
    using le N(1) share_value_nonneg [of t s] by (simp_all only: pool_value_def share_value_nonneg, linarith)
  then obtain N' :: u64 where N': "uint N' = pool_value t' div 2 ^ 64"
    using ex_uint_u64 [of "pool_value t' div 2 ^ 64"]
    by (auto simp: pos_imp_zdiv_nonneg_iff div_less_iff)
  have "(uint N' + uint a - 1) * 2 ^ 64 \<le> pool_value t"
    using div_mult_bounds(1) [of "2 ^ 64" "pool_value t'"] N' le v(2) by (simp add: algebra_simps)
  then have "uint N' + uint a - 1 \<le> uint N" unfolding N(2) by (subst le_div_iff) simp_all
  then show ?thesis using N' b
    by (simp only: total_atoms_eq shares_to_atoms_down flip: pool_value_def) auto
qed

lemma capped_withdrawal:
  assumes "withdraw_atoms_capped F t a m RoundUp = Ok (t', n, s)"
  shows "uint n \<le> uint a" "s \<le> m"
    "uval (total_shares t') + uval s = uval (total_shares t)"
    "n \<noteq> a \<Longrightarrow> s = m"
proof -
  obtain s0 where s0: "atoms_to_shares F t a = Ok s0"
    "if m < s0 then s = m \<and> shares_to_atoms F t m RoundUp = Ok n else s = s0 \<and> n = a"
    using withdraw_atoms_capped_Ok(1) [OF assms] by blast
  show "s \<le> m" using s0(2) by (auto split: if_splits)
  show "n \<noteq> a \<Longrightarrow> s = m" using s0(2) by (auto split: if_splits)
  show "uval (total_shares t') + uval s = uval (total_shares t)"
    using withdraw_atoms_capped_Ok(2) [OF assms] by simp
  show "uint n \<le> uint a"
  proof (cases "m < s0")
    case True
    then have "share_value t m \<le> share_value t s0"
      by (intro share_value_mono) (simp add: less_ufixed_iff)
    then have "up64 (share_value t m) \<le> uint a"
      using share_value_of_atoms(1) [OF s0(1)] by (simp add: up64_le_iff)
    moreover have "uint n \<le> up64 (share_value t m)"
      using s0(2) True by (simp add: shares_to_atoms_up)
    ultimately show ?thesis by linarith
  qed (use s0(2) in auto)
qed

end

section \<open>Interest and fees\<close>

context fixed_crate_spec
begin

lemma interest_price_lower:
  assumes "apply_interest_rate F t r = Ok t'" "0 \<le> ival (ir_rate r)"
  shows "uval (atoms_per_share t) div 2 ^ 16 * 2 ^ 16 \<le> uval (atoms_per_share t')"
proof (cases "uval (total_shares t) = 0")
  case True
  then have "t' = t" using assms(1) by (simp add: apply_interest_rate_def uf_is_zero_iff)
  then show ?thesis by (simp add: div_mult_bounds(1))
next
  case False
  have "0 \<le> ival (ir_rate r) * (uval (atoms_per_share t) div 2 ^ 16) div 2 ^ 48"
    using assms(2) by (simp add: pos_imp_zdiv_nonneg_iff)
  then show ?thesis unfolding apply_interest_rate_price [OF assms False] by simp
qed

lemma mult_scaled_div:
  fixes q P a k :: int
  assumes "0 < k" "q * P \<le> a * (k * k * k)"
  shows "(q * k) * (P * k) div (k * k * k * k) \<le> a * k"
proof -
  have "(q * k) * (P * k) = q * P * (k * k)" by (simp add: algebra_simps)
  also have "\<dots> \<le> a * (k * k * k) * (k * k)" by (rule mult_right_mono) (use assms in simp_all)
  finally have "(q * k) * (P * k) div (k * k * k * k) \<le> a * (k * k * k) * (k * k) div (k * k * k * k)"
    by (rule zdiv_mono1) (use assms in simp)
  also have "a * (k * k * k) * (k * k) = a * k * (k * k * k * k)" by (simp add: algebra_simps)
  finally show ?thesis using assms(1) by simp
qed

lemma scaled_div_16:
  fixes q P a :: int
  shows "q * P \<le> a * 2 ^ 48 \<Longrightarrow> (q * 2 ^ 16) * (P * 2 ^ 16) div 2 ^ 64 \<le> a * 2 ^ 16"
  using mult_scaled_div [of "2 ^ 16" q P a] by simp

lemma with_fee_Ok:
  assumes "apply_interest_rate_with_fee F t r fee = Ok (t', s)" "uval fee \<le> 2 ^ 64"
    and "total_atoms F t RoundDown = Ok A" "A \<noteq> 0"
  defines "fa \<equiv> ival (ir_rate r) * uint A * (uval fee div 2 ^ 16) div 2 ^ 48"
    and "P \<equiv> uval (atoms_per_share t') div 2 ^ 16"
  shows "0 \<le> ival (ir_rate r)" "fa \<le> ival (ir_rate r) * uint A"
    "uval (atoms_per_share t') = P * 2 ^ 16" "uval (atoms_per_share t) div 2 ^ 16 \<le> P" "0 < P"
    "uval s = (fa * 2 ^ 48 div P) * 2 ^ 16"
    "uval (total_shares t') = uval (total_shares t) + uval s"
proof -
  obtain i f n nr np pr pr' fs tot where
    e: "\<not> if_is_negative F (ir_rate r)" "interest_u64 r A = Ok i" "if_safe_mul_uf F i fee = Ok f"
    "if_safe_sub F i f = Ok n" "if_safe_div_u64 n A = Ok nr"
    "if_safe_mul_uf F nr (atoms_per_share t) = Ok np"
    "if_safe_add_uf F np (atoms_per_share t) = Ok pr" "uf_try_from_ifixed F pr = Ok pr'"
    "if_safe_div_uf F f pr' = Ok fs" "uf_try_from_ifixed F fs = Ok s"
    "uf_safe_add F s (total_shares t) = Ok tot"
    "t' = t\<lparr>total_shares := tot, atoms_per_share := pr'\<rparr>"
    using assms(1,3,4)
    by (auto simp: apply_interest_rate_with_fee_def bind_r_eq_Ok split: if_splits)
  show r: "0 \<le> ival (ir_rate r)" using e(1) by (simp add: if_is_negative_iff)
  have i: "ival i = ival (ir_rate r) * uint A" "0 \<le> ival i"
    using e(2) r by (simp_all add: interest_u64_def if_safe_mul_u64_Ok)
  have f: "ival f = fa" using e(3) i by (simp add: if_safe_mul_uf_nonneg fa_def)
  have fee: "uval fee div 2 ^ 16 \<le> 2 ^ 48" "0 \<le> uval fee div 2 ^ 16"
    using zdiv_mono1 [OF assms(2), of "2 ^ 16"] by (simp_all add: pos_imp_zdiv_nonneg_iff)
  have "ival i * (uval fee div 2 ^ 16) \<le> ival i * 2 ^ 48"
    by (rule mult_left_mono [OF fee(1) i(2)])
  then show fa: "fa \<le> ival (ir_rate r) * uint A"
    using zdiv_mono1 [of "ival i * (uval fee div 2 ^ 16)" "ival i * 2 ^ 48" "2 ^ 48"] i(1)
    by (simp add: fa_def)
  have f0: "0 \<le> ival f" using f i fee(2) by (simp add: fa_def pos_imp_zdiv_nonneg_iff)
  have n: "0 \<le> ival n" using e(4) fa f i(1) by (simp add: if_safe_sub_Ok)
  have A: "0 < uint A" using assms(4) by (simp add: word_uint_eq_iff order_less_le)
  have nr: "0 \<le> ival nr"
    using e(5) n A by (simp add: if_safe_div_u64_Ok quot_zero_nonneg pos_imp_zdiv_nonneg_iff)
  have np: "0 \<le> ival np"
    using e(6) nr by (simp add: if_safe_mul_uf_nonneg pos_imp_zdiv_nonneg_iff)
  have pr: "ival pr = ival np + uval (atoms_per_share t) div 2 ^ 16" "uval pr' = ival pr * 2 ^ 16"
    using e(7,8) by (simp_all add: if_safe_add_uf_Ok uf_try_from_Ok)
  have P: "P = ival pr" using pr(2) e(12) by (simp add: P_def)
  show "uval (atoms_per_share t') = P * 2 ^ 16" using P pr(2) e(12) by simp
  show "uval (atoms_per_share t) div 2 ^ 16 \<le> P" using P pr(1) np by simp
  obtain y where y: "if_from_ufixed F pr' = Some y" "ival y = P"
    using ex_if_from_ufixed [of pr'] e(12) by (auto simp: P_def)
  have d: "if_safe_div F f y = Ok fs"
    using e(9) y(1) by (simp add: if_safe_div_uf_def map_err_eq_Ok)
  have "P \<noteq> 0" using d if_safe_div_zero [of y f] y(2) by auto
  then show P0: "0 < P" using pr(1) np P by (simp add: order_less_le pos_imp_zdiv_nonneg_iff)
  have "ival fs = fa * 2 ^ 48 div P" using d f f0 P0 y(2) by (simp add: if_safe_div_nonneg)
  then show "uval s = (fa * 2 ^ 48 div P) * 2 ^ 16" using e(10) by (simp add: uf_try_from_Ok)
  show "uval (total_shares t') = uval (total_shares t) + uval s"
    using e(11,12) by (simp add: uf_safe_add_Ok)
qed

lemma with_fee_value:
  assumes "apply_interest_rate_with_fee F t r fee = Ok (t', s)" "uval fee \<le> 2 ^ 64"
    and "total_atoms F t RoundDown = Ok A" "A \<noteq> 0"
  shows "share_value t' s \<le> ival (ir_rate r) * uint A * (uval fee div 2 ^ 16) div 2 ^ 48 * 2 ^ 16"
proof -
  note w = with_fee_Ok [OF assms]
  let ?P = "uval (atoms_per_share t') div 2 ^ 16"
  let ?fa = "ival (ir_rate r) * uint A * (uval fee div 2 ^ 16) div 2 ^ 48"
  let ?q = "?fa * 2 ^ 48 div ?P"
  have "?q * ?P \<le> ?fa * 2 ^ 48" by (rule div_mult_bounds(1) [OF w(5)])
  then have "?q * 2 ^ 16 * (?P * 2 ^ 16) div 2 ^ 64 \<le> ?fa * 2 ^ 16" by (rule scaled_div_16)
  moreover have "uval s * uval (atoms_per_share t') = ?q * 2 ^ 16 * (?P * 2 ^ 16)"
    by (rule arg_cong2 [where f = "(*)", OF w(6) w(3)])
  ultimately show ?thesis by (simp only: share_value_def)
qed

end

section \<open>Donations and losses\<close>

lemma shift_price:
  fixes S p a m :: int
  assumes "0 < m" "0 < S" "S \<le> m * m"
  defines "d \<equiv> a * (m * m) div S"
  shows "S * (p + d) div m \<le> S * p div m + a * m" "S * p div m + (a - 1) * m \<le> S * (p + d) div m"
    and "S * p div m - a * m \<le> S * (p - d) div m" "S * (p - d) div m \<le> S * p div m - (a - 1) * m"
proof -
  have b: "S * d \<le> a * (m * m)" "a * (m * m) < S * d + S"
    using div_mult_bounds [OF assms(2), of "a * (m * m)"] by (simp_all add: d_def mult.commute)
  have shift: "(S * p + k * m * m) div m = S * p div m + k * m" for k
    using assms(1) by simp
  have "S * (p + d) \<le> S * p + a * m * m" "S * p + (a - 1) * m * m \<le> S * (p + d)"
    "S * p + (- a) * m * m \<le> S * (p - d)" "S * (p - d) \<le> S * p + (1 - a) * m * m"
    using b assms(3) by (simp_all add: algebra_simps)
  from this [THEN zdiv_mono1, OF assms(1)]
  show "S * (p + d) div m \<le> S * p div m + a * m" "S * p div m + (a - 1) * m \<le> S * (p + d) div m"
    "S * p div m - a * m \<le> S * (p - d) div m" "S * (p - d) div m \<le> S * p div m - (a - 1) * m"
    unfolding shift by (simp_all add: algebra_simps)
qed

lemma div_shift_bounds:
  fixes v w k j m :: int
  assumes "0 < m" "v + k * m \<le> w" "w \<le> v + j * m"
  shows "v div m + k \<le> w div m" "w div m \<le> v div m + j"
  using zdiv_mono1 [OF assms(2,1)] zdiv_mono1 [OF assms(3,1)] assms(1) by simp_all

context fixed_crate_spec
begin

lemma total_atoms_down:
  "total_atoms F t RoundDown = Ok N \<Longrightarrow> uint N = pool_value t div 2 ^ 64"
  by (simp only: total_atoms_eq shares_to_atoms_down pool_value_def)

lemma uval_pos: "uval x \<noteq> 0 \<Longrightarrow> 0 < uval x"
  by (simp add: order_less_le)

lemma donation_value:
  assumes "donate_atoms F t a = Ok t'" "total_atoms F t RoundDown = Ok N"
    "total_atoms F t' RoundDown = Ok N'"
  shows "uint N + uint a - 1 \<le> uint N'" "uint N' \<le> uint N + uint a"
proof -
  note d = donate_atoms_Ok [OF assms(1)]
  have S: "0 < uval (total_shares t)" "uval (total_shares t) \<le> 2 ^ 64 * 2 ^ 64"
    using d(1) uval_less [of "total_shares t"] by (simp_all add: uval_pos)
  have p: "uval (atoms_per_share t') =
      uval (atoms_per_share t) + uint a * (2 ^ 64 * 2 ^ 64) div uval (total_shares t)"
    using d(2) by simp
  have "pool_value t + (uint a - 1) * 2 ^ 64 \<le> pool_value t'"
    "pool_value t' \<le> pool_value t + uint a * 2 ^ 64"
    unfolding pool_value_def share_value_def d(3) p
    by (rule shift_price [OF _ S], simp)+
  from div_shift_bounds [OF _ this]
  have "pool_value t div 2 ^ 64 + (uint a - 1) \<le> pool_value t' div 2 ^ 64"
    "pool_value t' div 2 ^ 64 \<le> pool_value t div 2 ^ 64 + uint a" by simp_all
  then show "uint N + uint a - 1 \<le> uint N'" "uint N' \<le> uint N + uint a"
    unfolding total_atoms_down [OF assms(2)] total_atoms_down [OF assms(3)] by linarith+
qed

lemma loss_value:
  assumes "socialize_loss_atoms F t a = Ok t'" "total_atoms F t RoundDown = Ok N"
    "total_atoms F t' RoundDown = Ok N'"
  shows "uint N - uint a \<le> uint N'" "uint N' \<le> uint N - uint a + 1"
proof -
  note d = socialize_loss_atoms_Ok [OF assms(1)]
  have S: "0 < uval (total_shares t)" "uval (total_shares t) \<le> 2 ^ 64 * 2 ^ 64"
    using d(1) uval_less [of "total_shares t"] by (simp_all add: uval_pos)
  have p: "uval (atoms_per_share t') =
      uval (atoms_per_share t) - uint a * (2 ^ 64 * 2 ^ 64) div uval (total_shares t)"
    using d(2) by simp
  have "pool_value t - uint a * 2 ^ 64 \<le> pool_value t'"
    "pool_value t' \<le> pool_value t - (uint a - 1) * 2 ^ 64"
    unfolding pool_value_def share_value_def d(3) p
    by (rule shift_price [OF _ S], simp)+
  then have "pool_value t + (- uint a) * 2 ^ 64 \<le> pool_value t'"
    "pool_value t' \<le> pool_value t + (1 - uint a) * 2 ^ 64" by (simp_all add: algebra_simps)
  from div_shift_bounds [OF _ this]
  have "pool_value t div 2 ^ 64 + (- uint a) \<le> pool_value t' div 2 ^ 64"
    "pool_value t' div 2 ^ 64 \<le> pool_value t div 2 ^ 64 + (1 - uint a)" by simp_all
  then show "uint N - uint a \<le> uint N'" "uint N' \<le> uint N - uint a + 1"
    unfolding total_atoms_down [OF assms(2)] total_atoms_down [OF assms(3)] by linarith+
qed

end

section \<open>Properties of the share tracker\<close>

text \<open>Evaluation of closed examples on the reference arithmetic.\<close>

lemmas tracker_eval =
  fixed_reference_def as_u64_def as_u128_def as_i128_def uf_from_u64_def uf_safe_mul_def uf_safe_div_def
  uf_safe_sub_def uf_safe_add_def uf_as_u64_rounded_def uf_as_u64_rounded_down_def
  uf_as_u64_rounded_up_def u64_saturating_add_def less_ufixed_def less_eq_ufixed_def uval_def
  atoms_to_shares_def shares_to_atoms_def total_atoms_def deposit_atoms_def
  st_withdraw_atoms_def withdraw_atoms_capped_def st_withdraw_shares_def
  donate_atoms_def socialize_loss_atoms_def uf_is_zero_def

definition example_tracker :: shares_tracker where
  "example_tracker = \<lparr>total_shares = UFixedPoint 184467440737095516160,
                      atoms_per_share = UFixedPoint 27670116110564327424\<rparr>"

text \<open>
  C9: Redeeming shares for atoms rounded down never takes value from the remaining holders:
  the atoms paid out plus what the rest of the pool is still worth is at most what the whole
  pool was worth.
\<close>

theorem redeem_never_exceeds_pool:
  assumes "fixed_crate_spec F" "st_withdraw_shares F t s RoundDown = Ok (t', n)"
    and "total_atoms F t RoundDown = Ok N"
  shows "\<exists>N'. total_atoms F t' RoundDown = Ok N' \<and> uint n + uint N' \<le> uint N"
  using assms by (rule fixed_crate_spec.redeem_within_pool)

theorem redeem_never_exceeds_pool_witness:
  "\<exists>t' n N'. st_withdraw_shares fixed_reference example_tracker (uf_from_u64 3) RoundDown = Ok (t', n)
     \<and> n = 4 \<and> total_atoms fixed_reference t' RoundDown = Ok N' \<and> uint n + uint N' \<le> 15"
proof -
  obtain t' where w: "st_withdraw_shares fixed_reference example_tracker (uf_from_u64 3) RoundDown = Ok (t', 4)"
    by (simp add: tracker_eval example_tracker_def)
  have N: "total_atoms fixed_reference example_tracker RoundDown = Ok 15"
    by (simp add: tracker_eval example_tracker_def)
  show ?thesis
    using redeem_never_exceeds_pool [OF fixed_ref.fixed_crate_spec_axioms w N] w by auto
qed

text \<open>
  Depositing atoms and redeeming the shares received, at the same price, returns the deposit
  or one atom less, never more.
\<close>

theorem deposit_redeem_roundtrip:
  assumes "fixed_crate_spec F" "deposit_atoms F t a = Ok (t', s)"
  shows "\<exists>n. shares_to_atoms F t' s RoundDown = Ok n \<and> uint a - 1 \<le> uint n \<and> uint n \<le> uint a"
  using assms by (rule fixed_crate_spec.redeem_deposit)

theorem deposit_redeem_roundtrip_witness:
  "\<exists>t' s n. deposit_atoms fixed_reference example_tracker 7 = Ok (t', s)
     \<and> shares_to_atoms fixed_reference t' s RoundDown = Ok n \<and> 6 \<le> uint n \<and> uint n \<le> 7"
proof -
  obtain t' s where w: "deposit_atoms fixed_reference example_tracker 7 = Ok (t', s)"
    by (simp add: tracker_eval example_tracker_def)
  show ?thesis using deposit_redeem_roundtrip [OF fixed_ref.fixed_crate_spec_axioms w] w by auto
qed

text \<open>
  Withdrawing a number of atoms burns enough shares: the pool that remains is worth at most
  one atom more than the old pool less the withdrawal.
\<close>

theorem withdraw_atoms_burns_value:
  assumes "fixed_crate_spec F" "st_withdraw_atoms F t a = Ok (t', s)"
    and "total_atoms F t RoundDown = Ok N"
  shows "\<exists>N'. total_atoms F t' RoundDown = Ok N' \<and> uint N' + uint a \<le> uint N + 1"
  using assms by (rule fixed_crate_spec.withdraw_atoms_burns)

theorem withdraw_atoms_burns_value_witness:
  "\<exists>t' s N'. st_withdraw_atoms fixed_reference example_tracker 4 = Ok (t', s)
     \<and> total_atoms fixed_reference t' RoundDown = Ok N' \<and> uint N' + 4 \<le> 16"
proof -
  obtain t' s where w: "st_withdraw_atoms fixed_reference example_tracker 4 = Ok (t', s)"
    by (simp add: tracker_eval example_tracker_def)
  have N: "total_atoms fixed_reference example_tracker RoundDown = Ok 15"
    by (simp add: tracker_eval example_tracker_def)
  show ?thesis
    using withdraw_atoms_burns_value [OF fixed_ref.fixed_crate_spec_axioms w N] w by auto
qed

text \<open>
  A repayment capped by the debtor's shares takes at most the atoms offered and burns at
  most the shares owed; when it takes less than was offered, the whole debt is gone.
\<close>

theorem capped_repayment_bounds:
  assumes "fixed_crate_spec F" "withdraw_atoms_capped F t a m RoundUp = Ok (t', n, s)"
  shows "uint n \<le> uint a \<and> s \<le> m \<and> (n = a \<or> s = m) \<and>
    uval (total_shares t') + uval s = uval (total_shares t) \<and> atoms_per_share t' = atoms_per_share t"
  using fixed_crate_spec.capped_withdrawal [OF assms]
    fixed_crate_spec.withdraw_atoms_capped_Ok(3) [OF assms] by blast

theorem capped_repayment_bounds_witness:
  "\<exists>t' n s. withdraw_atoms_capped fixed_reference example_tracker 100 (uf_from_u64 5) RoundUp = Ok (t', n, s)
     \<and> n = 8 \<and> uint n \<le> 100 \<and> s \<le> uf_from_u64 5
     \<and> uval (total_shares t') + uval s = uval (total_shares example_tracker)"
proof -
  obtain t' s where w: "withdraw_atoms_capped fixed_reference example_tracker 100 (uf_from_u64 5) RoundUp = Ok (t', 8, s)"
    by (simp add: tracker_eval example_tracker_def)
  show ?thesis using capped_repayment_bounds [OF fixed_ref.fixed_crate_spec_axioms w] w by auto
qed

text \<open>
  A donation raises the value of the pool by the donated atoms and a socialised loss lowers
  it by the lost atoms, each exact up to one atom of rounding; neither changes the number of
  shares.
\<close>

theorem donation_and_loss_value:
  assumes "fixed_crate_spec F" "total_atoms F t RoundDown = Ok N" "total_atoms F t' RoundDown = Ok N'"
  shows "(donate_atoms F t a = Ok t' \<longrightarrow> total_shares t' = total_shares t \<and>
       uint N + uint a - 1 \<le> uint N' \<and> uint N' \<le> uint N + uint a) \<and>
     (socialize_loss_atoms F t a = Ok t' \<longrightarrow> total_shares t' = total_shares t \<and>
       uint N - uint a \<le> uint N' \<and> uint N' \<le> uint N - uint a + 1)"
  using fixed_crate_spec.donation_value [OF assms(1) _ assms(2,3)]
    fixed_crate_spec.donate_atoms_Ok(3) [OF assms(1)]
    fixed_crate_spec.loss_value [OF assms(1) _ assms(2,3)]
    fixed_crate_spec.socialize_loss_atoms_Ok(3) [OF assms(1)] by blast

theorem donation_and_loss_value_witness:
  "\<exists>t'. donate_atoms fixed_reference example_tracker 7 = Ok t'
     \<and> total_atoms fixed_reference t' RoundDown = Ok 21 \<and> 15 + 7 - 1 \<le> uint (21::u64)"
proof -
  obtain t' where w: "donate_atoms fixed_reference example_tracker 7 = Ok t'"
    and N': "total_atoms fixed_reference t' RoundDown = Ok 21"
    by (simp add: tracker_eval example_tracker_def)
  have N: "total_atoms fixed_reference example_tracker RoundDown = Ok 15"
    by (simp add: tracker_eval example_tracker_def)
  show ?thesis
    using donation_and_loss_value [OF fixed_ref.fixed_crate_spec_axioms N N', of 7] w N' by auto
qed

text \<open>
  C10: Accruing interest on the supply side with a market fee: the rate must not be negative, the
  price does not fall (below the 48 fractional bits that \<open>IFixedPoint\<close> keeps of it), the
  new shares are exactly the fee shares, and these are worth at most the fee on the interest.
\<close>

theorem interest_with_fee_accrual:
  assumes "fixed_crate_spec F" "apply_interest_rate_with_fee F t r fee = Ok (t', s)"
    and "fee \<le> uf_one" "total_atoms F t RoundDown = Ok A" "A \<noteq> 0"
  shows "0 \<le> ival (ir_rate r)
    \<and> uval (atoms_per_share t) div 2 ^ 16 * 2 ^ 16 \<le> uval (atoms_per_share t')
    \<and> uval (total_shares t') = uval (total_shares t) + uval s
    \<and> share_value t' s \<le> ival (ir_rate r) * uint A * (uval fee div 2 ^ 16) div 2 ^ 48 * 2 ^ 16"
proof -
  have fee: "uval fee \<le> 2 ^ 64" using assms(3) by (simp add: less_eq_ufixed_def uval_one)
  note w = fixed_crate_spec.with_fee_Ok [OF assms(1,2) fee assms(4,5)]
  have "uval (atoms_per_share t) div 2 ^ 16 * 2 ^ 16
      \<le> uval (atoms_per_share t') div 2 ^ 16 * 2 ^ 16"
    by (rule mult_right_mono [OF w(4)]) simp
  then show ?thesis
    using w(1,3,7) fixed_crate_spec.with_fee_value [OF assms(1,2) fee assms(4,5)] by linarith
qed

theorem interest_with_fee_accrual_witness:
  "\<exists>t' s. apply_interest_rate_with_fee fixed_reference example_tracker
       (InterestRate (IFixedPoint 140737488355328)) (UFixedPoint 1844674407370955161) = Ok (t', s)
     \<and> uval (total_shares t') = uval (total_shares example_tracker) + uval s \<and> 0 < uval s
     \<and> share_value t' s \<le> 13835058055282114560"
proof -
  obtain t' s where w: "apply_interest_rate_with_fee fixed_reference example_tracker
       (InterestRate (IFixedPoint 140737488355328)) (UFixedPoint 1844674407370955161) = Ok (t', s)"
    "0 < uval s"
    by (simp add: tracker_eval example_tracker_def apply_interest_rate_with_fee_def
        interest_u64_def if_safe_mul_u64_def if_safe_mul_uf_def if_from_ufixed_def if_safe_mul_def
        if_safe_sub_def if_safe_div_u64_def if_safe_add_uf_def if_safe_add_def
        uf_try_from_ifixed_def uf_from_ifixed_def if_safe_div_uf_def if_safe_div_def
        if_is_negative_def quot_zero_def)
  have N: "total_atoms fixed_reference example_tracker RoundDown = Ok 15"
    by (simp add: tracker_eval example_tracker_def)
  have le: "UFixedPoint 1844674407370955161 \<le> uf_one" by (simp add: tracker_eval uf_one_def)
  show ?thesis
    using interest_with_fee_accrual [OF fixed_ref.fixed_crate_spec_axioms w(1) le N] w
    by (auto simp: uval_def ival_def)
qed

end
