(* ===== verification/Positions.thy ===== *)
theory Positions
  imports Shares_Tracker
begin

text \<open>
  The per-user accounts: \<open>SupplyPosition\<close> (\<open>supply_position.rs\<close>), \<open>BorrowPosition\<close> with its
  capital sweep lock (\<open>borrow_position.rs\<close>) and the result records of
  \<open>operation/liquidation.rs\<close> and \<open>borrow_position.rs\<close>.
\<close>

section \<open>Supply positions\<close>

record supply_position =
  sp_authority :: pubkey
  sp_market :: pubkey
  deposited_atoms :: u64
  shares :: ufixed

definition sp_new :: "pubkey \<Rightarrow> pubkey \<Rightarrow> supply_position" where
  "sp_new authority market =
     \<lparr>sp_authority = authority, sp_market = market, deposited_atoms = 0, shares = uf_zero\<rparr>"

definition sp_initialize :: "supply_position \<Rightarrow> pubkey \<Rightarrow> pubkey \<Rightarrow> supply_position" where
  "sp_initialize self authority market =
     self\<lparr>sp_authority := authority, sp_market := market, deposited_atoms := 0, shares := uf_zero\<rparr>"

definition sp_lend :: "fixed_crate \<Rightarrow> supply_position \<Rightarrow> u64 \<Rightarrow> ufixed \<Rightarrow> supply_position result" where
  "sp_lend F self atoms s =
     bind_r (u64_safe_add (deposited_atoms self) atoms) (\<lambda>deposited.
     bind_r (uf_safe_add F (shares self) s) (\<lambda>total.
       Ok (self\<lparr>deposited_atoms := deposited, shares := total\<rparr>)))"

text \<open>
  The part of \<open>atoms\<close> that corresponds to \<open>s\<close> out of \<open>all_shares\<close>, rounded down:
  \<open>s.safe_div(all_shares)?.safe_mul(atoms)?.as_u64_rounded_down()?\<close>, which both positions compute.
\<close>

definition proportional_atoms :: "fixed_crate \<Rightarrow> ufixed \<Rightarrow> ufixed \<Rightarrow> u64 \<Rightarrow> u64 result" where
  "proportional_atoms F s all_shares atoms =
     bind_r (uf_safe_div F s all_shares) (\<lambda>ratio.
     bind_r (uf_safe_mul_u64 ratio atoms) (\<lambda>x. uf_as_u64_rounded_down F x))"

definition sp_withdraw :: "fixed_crate \<Rightarrow> supply_position \<Rightarrow> ufixed \<Rightarrow> supply_position result" where
  "sp_withdraw F self s =
     bind_r
       (if s < shares self then proportional_atoms F s (shares self) (deposited_atoms self)
        else if s = shares self then Ok (deposited_atoms self)
        else Err WithdrawalExceedsDeposited) (\<lambda>adjusted_atoms.
     bind_r (u64_safe_sub (deposited_atoms self) adjusted_atoms) (\<lambda>deposited.
     bind_r (uf_safe_sub F (shares self) s) (\<lambda>rest.
       Ok (self\<lparr>deposited_atoms := deposited, shares := rest\<rparr>))))"

definition sp_withdraw_all :: "supply_position \<Rightarrow> supply_position" where
  "sp_withdraw_all self = self\<lparr>deposited_atoms := 0, shares := uf_zero\<rparr>"

section \<open>Borrow positions\<close>

record borrow_position =
  bp_authority :: pubkey
  bp_market :: pubkey
  collateral_deposited_atoms :: u64
  initial_borrowed_atoms :: u64
  borrowed_shares :: ufixed
  swept_collateral_atoms :: u64

definition bp_initialize :: "borrow_position \<Rightarrow> pubkey \<Rightarrow> pubkey \<Rightarrow> borrow_position" where
  "bp_initialize self authority market =
     self\<lparr>bp_authority := authority, bp_market := market, collateral_deposited_atoms := 0,
          initial_borrowed_atoms := 0, borrowed_shares := uf_zero, swept_collateral_atoms := 0\<rparr>"

definition capital_sweep_pending :: "borrow_position \<Rightarrow> bool" where
  "capital_sweep_pending self \<longleftrightarrow> swept_collateral_atoms self \<noteq> 0"

definition ensure_capital_sweep_inactive :: "borrow_position \<Rightarrow> unit result" where
  "ensure_capital_sweep_inactive self =
     (if capital_sweep_pending self then Err CapitalSweepPending else Ok ())"

definition bp_begin_capital_sweep :: "borrow_position \<Rightarrow> (borrow_position \<times> u64) result" where
  "bp_begin_capital_sweep self =
     bind_r (ensure_capital_sweep_inactive self) (\<lambda>_.
       Ok (self\<lparr>collateral_deposited_atoms := 0,
                swept_collateral_atoms := collateral_deposited_atoms self\<rparr>,
           collateral_deposited_atoms self))"

definition bp_repay_all :: "borrow_position \<Rightarrow> borrow_position" where
  "bp_repay_all self = self\<lparr>initial_borrowed_atoms := 0, borrowed_shares := uf_zero\<rparr>"

definition bp_repay :: "fixed_crate \<Rightarrow> borrow_position \<Rightarrow> ufixed \<Rightarrow> borrow_position result" where
  "bp_repay F self s =
     (if s < borrowed_shares self then
        bind_r (proportional_atoms F s (borrowed_shares self) (initial_borrowed_atoms self))
          (\<lambda>adjusted_atoms.
        bind_r (u64_safe_sub (initial_borrowed_atoms self) adjusted_atoms) (\<lambda>initial.
        bind_r (uf_safe_sub F (borrowed_shares self) s) (\<lambda>rest.
          Ok (self\<lparr>initial_borrowed_atoms := initial, borrowed_shares := rest\<rparr>))))
      else if s = borrowed_shares self then Ok (bp_repay_all self)
      else Err RepayExceedsBorrowed)"

definition bp_settle_capital_sweep ::
    "fixed_crate \<Rightarrow> borrow_position \<Rightarrow> ufixed \<Rightarrow> u64 \<Rightarrow> borrow_position result" where
  "bp_settle_capital_sweep F self shares_repaid collateral_atoms_returned =
     (if \<not> capital_sweep_pending self then Err NoCapitalSweepPending
      else
        bind_r (bp_repay F self shares_repaid) (\<lambda>p.
          Ok (p\<lparr>collateral_deposited_atoms := collateral_atoms_returned,
                swept_collateral_atoms := 0\<rparr>)))"

definition bp_deposit_collateral :: "borrow_position \<Rightarrow> u64 \<Rightarrow> borrow_position result" where
  "bp_deposit_collateral self atoms =
     bind_r (u64_safe_add (collateral_deposited_atoms self) atoms) (\<lambda>c.
       Ok (self\<lparr>collateral_deposited_atoms := c\<rparr>))"

definition bp_withdraw_collateral :: "borrow_position \<Rightarrow> u64 \<Rightarrow> borrow_position result" where
  "bp_withdraw_collateral self atoms =
     bind_r (map_err (u64_safe_sub (collateral_deposited_atoms self) atoms)
               WithdrawalExceedsDeposited) (\<lambda>c.
       Ok (self\<lparr>collateral_deposited_atoms := c\<rparr>))"

definition bp_borrow ::
    "fixed_crate \<Rightarrow> borrow_position \<Rightarrow> u64 \<Rightarrow> ufixed \<Rightarrow> borrow_position result" where
  "bp_borrow F self atoms s =
     bind_r (u64_safe_add (initial_borrowed_atoms self) atoms) (\<lambda>initial.
     bind_r (uf_safe_add F (borrowed_shares self) s) (\<lambda>total.
       Ok (self\<lparr>initial_borrowed_atoms := initial, borrowed_shares := total\<rparr>)))"

definition bp_liquidate ::
    "fixed_crate \<Rightarrow> borrow_position \<Rightarrow> ufixed \<Rightarrow> u64 \<Rightarrow> borrow_position result" where
  "bp_liquidate F self shares_liquidated collateral_atoms_liquidated =
     bind_r (bp_repay F self shares_liquidated) (\<lambda>p.
     bind_r (u64_safe_sub (collateral_deposited_atoms p) collateral_atoms_liquidated) (\<lambda>c.
       Ok (p\<lparr>collateral_deposited_atoms := c\<rparr>)))"

section \<open>Health and liquidation results\<close>

record borrow_position_health =
  ltv :: ifixed
  borrowed_atoms :: u64
  collateral_atoms :: u64
  borrow_value :: ifixed
  collateral_value :: ifixed

record liquidation_result =
  lr_borrowed_atoms_to_repay :: u64
  lr_collateral_atoms_to_liquidate :: u64

record liquidation_result_with_bonus =
  borrowed_atoms_to_repay :: u64
  collateral_atoms_to_liquidate :: u64
  collateral_atoms_liquidation_bonus :: u64

record liquidation_result_with_ctx =
  lc_liquidation :: liquidation_result_with_bonus
  health_before_liquidation :: borrow_position_health
  health_after_liquidation :: borrow_position_health

record capital_sweep_settlement_result =
  cs_liquidation :: liquidation_result_with_bonus
  health_before_settlement :: borrow_position_health
  health_after_settlement :: borrow_position_health
  collateral_atoms_returned :: u64

end
