(* ===== verification/Oracle.thy ===== *)
theory Oracle
  imports Positions
begin

text \<open>
  Oracle prices: \<open>src/autara-lib/src/oracle\<close>. \<open>OracleRate\<close> with its conservative bounds and
  the conversions between atoms and values (\<open>oracle_price.rs\<close>), the staleness and confidence
  checks (\<open>oracle_provider.rs\<close>, \<open>oracle_config.rs\<close>), the Pyth and Chaos account loaders
  (\<open>pyth.rs\<close>, \<open>chaos.rs\<close>) and \<open>PodOption\<close> (\<open>pod_option.rs\<close>).

  Code outside the repository is the parameter \<open>R\<close> of type \<open>runtime\<close>: the program-address
  derivation of \<open>arch_program\<close>, \<open>bytemuck::try_from_bytes\<close> at \<open>PythPriceAccount\<close> and borsh's
  \<open>try_from_slice\<close> at \<open>ChaosPriceState\<close>. The loaders are those of the on-chain build: the
  \<open>client\<close> feature adds a legacy layout for Pyth accounts, which is not modelled. The tagged
  byte union \<open>PodOracleProvider\<close> is represented by the enum it stores.
\<close>

section \<open>PodOption\<close>

datatype 'a pod_option = PodOption (pod_value: 'a)

text \<open>\<open>zeroed\<close> is the all-zero value of \<open>T\<close>, which encodes \<open>None\<close>.\<close>

definition pod_as_ref :: "'a \<Rightarrow> 'a pod_option \<Rightarrow> 'a option" where
  "pod_as_ref zeroed self = (if pod_value self = zeroed then None else Some (pod_value self))"

definition pod_take :: "'a \<Rightarrow> 'a pod_option \<Rightarrow> 'a pod_option \<times> 'a option" where
  "pod_take zeroed self =
     (if pod_value self = zeroed then (self, None) else (PodOption zeroed, Some (pod_value self)))"

definition pod_set :: "'a pod_option \<Rightarrow> 'a \<Rightarrow> 'a pod_option" where
  "pod_set self v = PodOption v"

section \<open>Oracle rates\<close>

record oracle_rate =
  rate :: ifixed
  confidence :: ifixed

definition or_validate :: "fixed_crate \<Rightarrow> ifixed \<Rightarrow> ifixed \<Rightarrow> unit result" where
  "or_validate F r c =
     (if if_is_negative F r \<or> if_is_zero r then Err OracleRateIsNull
      else if if_is_negative F c then Err NegativeOracleRate
      else if c \<ge> r then Err OracleConfidenceExceedsRate
      else Ok ())"

definition or_try_new :: "fixed_crate \<Rightarrow> ifixed \<Rightarrow> ifixed \<Rightarrow> oracle_rate result" where
  "or_try_new F r c = bind_r (or_validate F r c) (\<lambda>_. Ok \<lparr>rate = r, confidence = c\<rparr>)"

definition i8_checked_abs :: "i8 \<Rightarrow> i8 option" where
  "i8_checked_abs e = (if sint e = - 128 then None else Some (word_of_int \<bar>sint e\<bar>))"

definition try_from_price_expo_conf ::
    "fixed_crate \<Rightarrow> u64 \<Rightarrow> u64 \<Rightarrow> i8 \<Rightarrow> oracle_rate result" where
  "try_from_price_expo_conf F price conf expo =
     bind_r (ok_or (i8_checked_abs expo) CastOverflow) (\<lambda>e.
     bind_r (power_of_ten_at (unat e)) (\<lambda>expo_pow.
       let scale = (\<lambda>fixed. if sint expo \<le> 0 then if_safe_div F fixed expo_pow
                            else if_safe_mul F fixed expo_pow) in
       bind_r (scale (if_from_num_u64 F price)) (\<lambda>r.
       bind_r (scale (if_from_num_u64 F conf)) (\<lambda>c.
         or_try_new F r c))))"

definition lower_bound_rate :: "fixed_crate \<Rightarrow> oracle_rate \<Rightarrow> ifixed result" where
  "lower_bound_rate F self = if_safe_sub F (rate self) (confidence self)"

definition upper_bound_rate :: "fixed_crate \<Rightarrow> oracle_rate \<Rightarrow> ifixed result" where
  "upper_bound_rate F self = if_safe_add F (rate self) (confidence self)"

definition or_collateral_value :: "fixed_crate \<Rightarrow> oracle_rate \<Rightarrow> u64 \<Rightarrow> u8 \<Rightarrow> ifixed result" where
  "or_collateral_value F self amount decimals =
     bind_r (lower_bound_rate F self) (\<lambda>r.
     bind_r (if_safe_mul_u64 r amount) (\<lambda>x.
     bind_r (power_of_ten_at (unat decimals)) (\<lambda>p. if_safe_div F x p)))"

definition or_collateral_atoms :: "fixed_crate \<Rightarrow> oracle_rate \<Rightarrow> ifixed \<Rightarrow> u8 \<Rightarrow> ifixed result" where
  "or_collateral_atoms F self v decimals =
     bind_r (power_of_ten_at (unat decimals)) (\<lambda>p.
     bind_r (if_safe_mul F v p) (\<lambda>x.
     bind_r (lower_bound_rate F self) (\<lambda>r. if_safe_div F x r)))"

definition or_borrow_value :: "fixed_crate \<Rightarrow> oracle_rate \<Rightarrow> u64 \<Rightarrow> u8 \<Rightarrow> ifixed result" where
  "or_borrow_value F self amount decimals =
     bind_r (upper_bound_rate F self) (\<lambda>r.
     bind_r (if_safe_mul_u64 r amount) (\<lambda>x.
     bind_r (power_of_ten_at (unat decimals)) (\<lambda>p. if_safe_div F x p)))"

definition or_borrow_atoms :: "fixed_crate \<Rightarrow> oracle_rate \<Rightarrow> ifixed \<Rightarrow> u8 \<Rightarrow> ifixed result" where
  "or_borrow_atoms F self v decimals =
     bind_r (power_of_ten_at (unat decimals)) (\<lambda>p.
     bind_r (if_safe_mul F v p) (\<lambda>x.
     bind_r (upper_bound_rate F self) (\<lambda>r. if_safe_div F x r)))"

definition relative_confidence :: "fixed_crate \<Rightarrow> oracle_rate \<Rightarrow> ifixed result" where
  "relative_confidence F self = if_safe_div F (confidence self) (rate self)"

section \<open>Validation of a loaded price\<close>

record oracle_validation_config =
  max_age :: "u64 pod_option"
  min_relative_confidence :: "ifixed pod_option"

definition ovc_default :: "fixed_crate \<Rightarrow> oracle_validation_config" where
  "ovc_default F =
     \<lparr>max_age = PodOption 60, min_relative_confidence = PodOption (if_lit F ''0.05'')\<rparr>"

definition ovc_new :: "u64 \<Rightarrow> ifixed \<Rightarrow> oracle_validation_config" where
  "ovc_new age conf = \<lparr>max_age = PodOption age, min_relative_confidence = PodOption conf\<rparr>"

definition ovc_max_age :: "oracle_validation_config \<Rightarrow> u64 option" where
  "ovc_max_age self = pod_as_ref 0 (max_age self)"

definition ovc_min_relative_confidence :: "oracle_validation_config \<Rightarrow> ifixed option" where
  "ovc_min_relative_confidence self = pod_as_ref (IFixedPoint 0) (min_relative_confidence self)"

record unchecked_oracle_rate =
  unsafe_rate :: oracle_rate
  publish_time :: i64

definition i64_max_zero_as_u64 :: "i64 \<Rightarrow> u64" where
  "i64_max_zero_as_u64 x = (if sint x < 0 then 0 else x)"

definition uor_validate ::
    "fixed_crate \<Rightarrow> unchecked_oracle_rate \<Rightarrow> oracle_validation_config \<Rightarrow> i64 \<Rightarrow> oracle_rate result" where
  "uor_validate F self config unix_timestamp =
     (let r = unsafe_rate self in
      if if_is_negative F (rate r) then Err NegativeOracleRate
      else if if_is_negative F (confidence r) then Err NegativeOracleRate
      else if if_is_zero (rate r) then Err OracleRateIsNull
      else
        bind_r (ok_or (as_i64 (sint unix_timestamp - sint (publish_time self)))
                  SubtractionOverflow) (\<lambda>diff.
          let age = i64_max_zero_as_u64 diff in
          if (case ovc_max_age config of None \<Rightarrow> False | Some m \<Rightarrow> age > m)
          then Err OracleRateTooOld
          else
            bind_r (relative_confidence F r) (\<lambda>rel.
              if (case ovc_min_relative_confidence config of
                    None \<Rightarrow> False | Some m \<Rightarrow> rel > m)
              then Err OracleRateRelativeConfidenceTooLow
              else Ok r)))"

section \<open>Account data\<close>

record account_view =
  view_key :: pubkey
  view_data :: "u8 list"
  view_owner :: pubkey

record pyth_price_data =
  pyth_price_value :: u64
  pyth_conf :: u64
  pyth_expo :: i64
  pyth_publish_time :: i64

record pyth_metadata =
  slot :: u64
  proof_available_time :: i64
  prev_publish_time :: i64

record pyth_price =
  pyth_id :: "u8 list"
  pyth_data :: pyth_price_data
  pyth_ema :: pyth_price_data
  pyth_meta :: pyth_metadata

record pyth_price_account =
  account_price :: pyth_price
  account_authority :: pubkey

record chaos_price_data =
  chaos_price_value :: u64
  observed_ts :: u64
  chaos_expo :: i8

record chaos_price_state =
  chaos_version :: u16
  chaos_price_id :: "u8 list"
  chaos_price :: chaos_price_data
  chaos_ema_price :: chaos_price_data
  num_signatures :: u8
  chaos_slot :: u64
  chaos_publish_time :: u64
  chaos_bump :: u8

record runtime =
  find_program_address :: "u8 list list \<Rightarrow> pubkey \<Rightarrow> pubkey \<times> u8"
  pyth_try_from_bytes :: "u8 list \<Rightarrow> pyth_price_account option"
  chaos_try_from_slice :: "u8 list \<Rightarrow> chaos_price_state option"

section \<open>Providers\<close>

record pyth_provider =
  pyth_feed_id :: "u8 list"
  pyth_program_id :: pubkey

record chaos_provider =
  chaos_feed_id :: "u8 list"
  chaos_program_id :: pubkey
  required_signatures :: u8

datatype oracle_provider = Pyth pyth_provider | Chaos chaos_provider

definition pyth_load_oracle_price ::
    "fixed_crate \<Rightarrow> runtime \<Rightarrow> pyth_provider \<Rightarrow> account_view \<Rightarrow> unchecked_oracle_rate result" where
  "pyth_load_oracle_price F R self view =
     (if view_owner view \<noteq> pyth_program_id self then Err InvalidPythOracleAccount
      else
        bind_r (ok_or (pyth_try_from_bytes R (view_data view)) InvalidPythOracleAccount) (\<lambda>account.
          let price = account_price account; data = pyth_data price in
          if pyth_id price \<noteq> pyth_feed_id self then Err InvalidOracleFeedId
          else if sint (pyth_expo data) > sint MAX_EXPONENT_ABS
               \<or> sint (pyth_expo data) < - sint MAX_EXPONENT_ABS
          then Err InvalidPythOracleAccount
          else
            bind_r (try_from_price_expo_conf F (pyth_price_value data) (pyth_conf data)
                      (ucast (pyth_expo data))) (\<lambda>r.
              Ok \<lparr>unsafe_rate = r, publish_time = pyth_publish_time data\<rparr>)))"

definition CHAOS_DISCRIMINATOR :: "u8 list" where
  "CHAOS_DISCRIMINATOR = [168, 184, 18, 246, 179, 16, 141, 51]"

definition chaos_load_oracle_price ::
    "fixed_crate \<Rightarrow> runtime \<Rightarrow> chaos_provider \<Rightarrow> account_view \<Rightarrow> unchecked_oracle_rate result" where
  "chaos_load_oracle_price F R self view =
     (if view_owner view \<noteq> chaos_program_id self then Err InvalidChaosOracleAccount
      else if length (view_data view) < 8 then Err InvalidChaosOracleAccount
      else if take 8 (view_data view) \<noteq> CHAOS_DISCRIMINATOR then Err InvalidChaosOracleAccount
      else
        bind_r (ok_or (chaos_try_from_slice R (drop 8 (view_data view))) InvalidChaosOracleAccount)
          (\<lambda>state.
          if chaos_price_id state \<noteq> chaos_feed_id self then Err InvalidOracleFeedId
          else if num_signatures state < required_signatures self then Err InvalidChaosOracleAccount
          else if sint (chaos_expo (chaos_price state)) > sint MAX_EXPONENT_ABS
               \<or> sint (chaos_expo (chaos_price state)) < - sint MAX_EXPONENT_ABS
          then Err InvalidChaosOracleAccount
          else
            bind_r (try_from_price_expo_conf F (chaos_price_value (chaos_price state)) 0
                      (chaos_expo (chaos_price state))) (\<lambda>r.
              Ok \<lparr>unsafe_rate = r, publish_time = observed_ts (chaos_price state)\<rparr>)))"

definition PRICE_CONFIG_SEED :: "u8 list" where
  "PRICE_CONFIG_SEED = map of_char ''chaos_price_config''"

definition oracle_feed_pubkey :: "runtime \<Rightarrow> oracle_provider \<Rightarrow> pubkey option" where
  "oracle_feed_pubkey R self =
     (case self of
        Pyth p \<Rightarrow> Some (fst (find_program_address R [pyth_feed_id p] (pyth_program_id p)))
      | Chaos p \<Rightarrow>
          Some (fst (find_program_address R [PRICE_CONFIG_SEED, chaos_feed_id p] (chaos_program_id p))))"

definition load_oracle_price ::
    "fixed_crate \<Rightarrow> runtime \<Rightarrow> oracle_provider \<Rightarrow> account_view \<Rightarrow> unchecked_oracle_rate result" where
  "load_oracle_price F R self view =
     (if (case oracle_feed_pubkey R self of None \<Rightarrow> False | Some k \<Rightarrow> view_key view \<noteq> k)
      then Err InvalidOracleFeedAccount
      else (case self of
              Pyth p \<Rightarrow> pyth_load_oracle_price F R p view
            | Chaos p \<Rightarrow> chaos_load_oracle_price F R p view))"

section \<open>Oracle configuration\<close>

record oracle_config =
  oc_provider :: oracle_provider
  validation_config :: oracle_validation_config

definition oc_validate :: "oracle_config \<Rightarrow> unit result" where
  "oc_validate self =
     (case oc_provider self of
        Chaos p \<Rightarrow> (if required_signatures p = 0 then Err InvalidOracleConfig else Ok ())
      | _ \<Rightarrow> Ok ())"

definition load_and_validate_oracle_rate ::
    "fixed_crate \<Rightarrow> runtime \<Rightarrow> oracle_config \<Rightarrow> account_view \<Rightarrow> i64 \<Rightarrow> oracle_rate result" where
  "load_and_validate_oracle_rate F R self view unix_timestamp =
     bind_r (load_oracle_price F R (oc_provider self) view) (\<lambda>unchecked.
       uor_validate F unchecked (validation_config self) unix_timestamp)"

definition load_oracle_rate_unchecked ::
    "fixed_crate \<Rightarrow> runtime \<Rightarrow> oracle_config \<Rightarrow> account_view \<Rightarrow> oracle_rate result" where
  "load_oracle_rate_unchecked F R self view =
     bind_r (load_oracle_price F R (oc_provider self) view) (\<lambda>unchecked.
       Ok (unsafe_rate unchecked))"

end
