(* ===== verification/Config.thy ===== *)
theory Config
  imports Oracle
begin

text \<open>
  Configuration accounts: \<open>GlobalConfig\<close> with its two-step admin nomination
  (\<open>global_config.rs\<close>), \<open>MarketConfig\<close> and \<open>LtvConfig\<close> (\<open>market_config.rs\<close>) and the
  liquidator whitelist entries (\<open>liquidator_whitelist.rs\<close>).
\<close>

section \<open>Global configuration\<close>

record global_config =
  admin :: pubkey
  nominated_admin :: "pubkey pod_option"
  fee_receiver :: pubkey
  gc_protocol_fee_share_in_bps :: u16

definition gc_new :: "pubkey \<Rightarrow> pubkey \<Rightarrow> u16 \<Rightarrow> global_config" where
  "gc_new a r fee = \<lparr>admin = a, nominated_admin = PodOption 0, fee_receiver = r,
                     gc_protocol_fee_share_in_bps = fee\<rparr>"

definition gc_initialize :: "global_config \<Rightarrow> pubkey \<Rightarrow> pubkey \<Rightarrow> u16 \<Rightarrow> global_config" where
  "gc_initialize self a r fee =
     self\<lparr>admin := a, fee_receiver := r, gc_protocol_fee_share_in_bps := fee\<rparr>"

definition can_upgrade_nomination :: "global_config \<Rightarrow> pubkey \<Rightarrow> bool" where
  "can_upgrade_nomination self key =
     (case pod_as_ref 0 (nominated_admin self) of None \<Rightarrow> False | Some n \<Rightarrow> n = key)"

definition upgrade_nomination :: "global_config \<Rightarrow> global_config result" where
  "upgrade_nomination self =
     (case pod_take 0 (nominated_admin self) of
        (nominated, Some a) \<Rightarrow> Ok (self\<lparr>nominated_admin := nominated, admin := a\<rparr>)
      | (_, None) \<Rightarrow> Err InvalidNomination)"

definition set_fee_receiver :: "global_config \<Rightarrow> pubkey \<Rightarrow> global_config" where
  "set_fee_receiver self r = self\<lparr>fee_receiver := r\<rparr>"

definition set_nominated_admin :: "global_config \<Rightarrow> pubkey \<Rightarrow> global_config" where
  "set_nominated_admin self n = self\<lparr>nominated_admin := pod_set (nominated_admin self) n\<rparr>"

definition can_redeem_fees :: "global_config \<Rightarrow> pubkey \<Rightarrow> bool" where
  "can_redeem_fees self key \<longleftrightarrow> admin self = key \<or> fee_receiver self = key"

definition can_update_config :: "global_config \<Rightarrow> pubkey \<Rightarrow> bool" where
  "can_update_config self key \<longleftrightarrow> admin self = key"

definition update_protocol_fee_share_in_bps :: "global_config \<Rightarrow> u16 \<Rightarrow> global_config result" where
  "update_protocol_fee_share_in_bps self new_fee =
     (if new_fee > 10000 then Err FeeTooHigh
      else Ok (self\<lparr>gc_protocol_fee_share_in_bps := new_fee\<rparr>))"

section \<open>Market configuration\<close>

record ltv_config =
  max_ltv :: ifixed
  unhealthy_ltv :: ifixed
  liquidation_bonus :: ifixed

record market_config =
  mc_bump :: u8
  mc_index :: u8
  lending_market_fee_in_bps :: u16
  mc_protocol_fee_share_in_bps :: u16
  curator :: pubkey
  mc_ltv_config :: ltv_config
  max_utilisation_rate :: ifixed
  max_supply_atoms :: u64
  active_whitelisted_liquidators :: u64

definition MAX_LTV_WITH_LIQUIDATION_BONUS :: "fixed_crate \<Rightarrow> ifixed" where
  "MAX_LTV_WITH_LIQUIDATION_BONUS F = if_lit F ''0.99''"

definition MAX_LIQUIDATION_BONUS :: "fixed_crate \<Rightarrow> ifixed" where
  "MAX_LIQUIDATION_BONUS F = if_lit F ''0.1''"

definition MIN_LIQUIDATION_BONUS :: "fixed_crate \<Rightarrow> ifixed" where
  "MIN_LIQUIDATION_BONUS F = if_lit F ''0.001''"

definition MAX_UTILISATION_RATE :: "fixed_crate \<Rightarrow> ifixed" where
  "MAX_UTILISATION_RATE F = if_lit F ''0.99''"

definition MAX_LENDING_MARKET_FEE_IN_BPS :: u16 where
  "MAX_LENDING_MARKET_FEE_IN_BPS = ucast (percent_to_bps 20)"

definition TARGET_LTV_LIQUIDATION_MARGIN :: "fixed_crate \<Rightarrow> ifixed" where
  "TARGET_LTV_LIQUIDATION_MARGIN F = if_lit F ''0.90''"

definition liquidations_are_permissionless :: "market_config \<Rightarrow> bool" where
  "liquidations_are_permissionless self \<longleftrightarrow> active_whitelisted_liquidators self = 0"

definition increment_active_whitelisted_liquidators :: "market_config \<Rightarrow> market_config result" where
  "increment_active_whitelisted_liquidators self =
     bind_r (u64_safe_add (active_whitelisted_liquidators self) 1) (\<lambda>n.
       Ok (self\<lparr>active_whitelisted_liquidators := n\<rparr>))"

definition decrement_active_whitelisted_liquidators :: "market_config \<Rightarrow> market_config result" where
  "decrement_active_whitelisted_liquidators self =
     bind_r (u64_safe_sub (active_whitelisted_liquidators self) 1) (\<lambda>n.
       Ok (self\<lparr>active_whitelisted_liquidators := n\<rparr>))"

definition lending_market_fee_fixed :: "market_config \<Rightarrow> ufixed result" where
  "lending_market_fee_fixed self = bps_to_fixed_point (ucast (lending_market_fee_in_bps self))"

definition sync_global_config :: "market_config \<Rightarrow> global_config \<Rightarrow> market_config" where
  "sync_global_config self g =
     self\<lparr>mc_protocol_fee_share_in_bps := gc_protocol_fee_share_in_bps g\<rparr>"

definition update_max_supply_atoms :: "market_config \<Rightarrow> u64 \<Rightarrow> market_config" where
  "update_max_supply_atoms self n = self\<lparr>max_supply_atoms := n\<rparr>"

definition set_lending_market_fee :: "market_config \<Rightarrow> u16 \<Rightarrow> market_config result" where
  "set_lending_market_fee self fee =
     (if fee > MAX_LENDING_MARKET_FEE_IN_BPS then Err FeeTooHigh
      else Ok (self\<lparr>lending_market_fee_in_bps := fee\<rparr>))"

definition update_max_utilisation_rate ::
    "fixed_crate \<Rightarrow> market_config \<Rightarrow> ifixed \<Rightarrow> market_config result" where
  "update_max_utilisation_rate F self r =
     (if r > MAX_UTILISATION_RATE F then Err InvalidMaxUtilisationRate
      else Ok (self\<lparr>max_utilisation_rate := r\<rparr>))"

definition update_ltv :: "fixed_crate \<Rightarrow> market_config \<Rightarrow> ltv_config \<Rightarrow> market_config result" where
  "update_ltv F self l =
     (if if_is_negative F (max_ltv l) \<or> if_is_negative F (unhealthy_ltv l)
         \<or> if_is_negative F (liquidation_bonus l)
      then Err InvalidLtvConfig
      else if unhealthy_ltv (mc_ltv_config self) > unhealthy_ltv l then Err InvalidLtvConfig
      else if max_ltv l \<ge> unhealthy_ltv l then Err InvalidLtvConfig
      else if liquidation_bonus l > MAX_LIQUIDATION_BONUS F
              \<or> liquidation_bonus l < MIN_LIQUIDATION_BONUS F
      then Err InvalidLtvConfig
      else
        bind_r (if_safe_add F if_one (liquidation_bonus l)) (\<lambda>one_plus_liquidation_bonus.
        bind_r (if_safe_mul F (unhealthy_ltv l) one_plus_liquidation_bonus) (\<lambda>u.
          if u > MAX_LTV_WITH_LIQUIDATION_BONUS F then Err InvalidLtvConfig
          else Ok (self\<lparr>mc_ltv_config := l\<rparr>))))"

definition mc_initialize ::
    "fixed_crate \<Rightarrow> market_config \<Rightarrow> u8 \<Rightarrow> u8 \<Rightarrow> pubkey \<Rightarrow> ltv_config \<Rightarrow> ifixed \<Rightarrow> u64 \<Rightarrow> u16
     \<Rightarrow> global_config \<Rightarrow> market_config result" where
  "mc_initialize F self bump index cur l max_rate max_supply fee g =
     bind_r (update_ltv F self l) (\<lambda>c1.
     bind_r (update_max_utilisation_rate F c1 max_rate) (\<lambda>c2.
     bind_r (set_lending_market_fee c2 fee) (\<lambda>c3.
       Ok (sync_global_config
             (c3\<lparr>mc_bump := bump, mc_index := index, curator := cur,
                 max_supply_atoms := max_supply\<rparr>) g))))"

definition target_ltv_after_liquidation :: "fixed_crate \<Rightarrow> ltv_config \<Rightarrow> ifixed" where
  "target_ltv_after_liquidation F self =
     max (case if_safe_mul F (unhealthy_ltv self) (TARGET_LTV_LIQUIDATION_MARGIN F) of
            Ok x \<Rightarrow> x | _ \<Rightarrow> unhealthy_ltv self)
         (max_ltv self)"

section \<open>Liquidator whitelist\<close>

record liquidator_whitelist_entry =
  lw_market :: pubkey
  liquidator :: pubkey
  lw_bump :: u8
  active :: u8

definition lw_is_active :: "liquidator_whitelist_entry \<Rightarrow> bool" where
  "lw_is_active self \<longleftrightarrow> active self = 1"

definition lw_activate :: "liquidator_whitelist_entry \<Rightarrow> liquidator_whitelist_entry result" where
  "lw_activate self =
     (if lw_is_active self then Err LiquidatorAlreadyWhitelisted else Ok (self\<lparr>active := 1\<rparr>))"

definition lw_deactivate :: "liquidator_whitelist_entry \<Rightarrow> liquidator_whitelist_entry result" where
  "lw_deactivate self =
     (if \<not> lw_is_active self then Err LiquidatorNotWhitelisted else Ok (self\<lparr>active := 0\<rparr>))"

definition lw_initialize ::
    "liquidator_whitelist_entry \<Rightarrow> pubkey \<Rightarrow> pubkey \<Rightarrow> u8 \<Rightarrow> liquidator_whitelist_entry result" where
  "lw_initialize self m l b = lw_activate (self\<lparr>lw_market := m, liquidator := l, lw_bump := b\<rparr>)"

end
