(* ===== verification/Vaults.thy ===== *)
theory Vaults
  imports Config
begin

text \<open>
  The two vaults of a market: \<open>CollateralVault\<close> (\<open>collateral_vault.rs\<close>), which counts the
  collateral atoms of all borrow positions, and \<open>SupplyVault\<close> (\<open>supply_vault.rs\<close>), which owns
  the two share trackers, the interest curve and the pending fees. The byte union
  \<open>PodInterestRateCurve\<close> is represented by the enum it stores.
\<close>

section \<open>Collateral vault\<close>

record collateral_vault =
  cv_mint :: pubkey
  cv_mint_decimals_raw :: u64
  cv_vault :: pubkey
  total_collateral_atoms :: u64
  cv_oracle_config :: oracle_config

definition cv_initialize ::
    "collateral_vault \<Rightarrow> pubkey \<Rightarrow> u64 \<Rightarrow> pubkey \<Rightarrow> oracle_config \<Rightarrow> collateral_vault result" where
  "cv_initialize self mint mint_decimals vault config =
     (if sint mint_decimals > sint MAX_EXPONENT_ABS then Err UnsupportedMintDecimals
      else
        bind_r (oc_validate config) (\<lambda>_.
          Ok (self\<lparr>cv_mint := mint, cv_mint_decimals_raw := mint_decimals, cv_vault := vault,
                   cv_oracle_config := config\<rparr>)))"

definition cv_mint_decimals :: "collateral_vault \<Rightarrow> u8" where
  "cv_mint_decimals self = ucast (cv_mint_decimals_raw self)"

definition cv_deposit_collateral :: "collateral_vault \<Rightarrow> u64 \<Rightarrow> collateral_vault result" where
  "cv_deposit_collateral self atoms =
     bind_r (u64_safe_add (total_collateral_atoms self) atoms) (\<lambda>n.
       Ok (self\<lparr>total_collateral_atoms := n\<rparr>))"

definition cv_withdraw_collateral :: "collateral_vault \<Rightarrow> u64 \<Rightarrow> collateral_vault result" where
  "cv_withdraw_collateral self atoms =
     bind_r (u64_safe_sub (total_collateral_atoms self) atoms) (\<lambda>n.
       Ok (self\<lparr>total_collateral_atoms := n\<rparr>))"

section \<open>Supply vault\<close>

record supply_vault =
  sv_mint :: pubkey
  sv_mint_decimals_raw :: u64
  sv_vault :: pubkey
  sv_oracle_config :: oracle_config
  supply_shares_tracker :: shares_tracker
  borrow_shares_tracker :: shares_tracker
  interest_rate_curve :: interest_rate_curve_kind
  last_borrow_interest_rate :: interest_rate_per_second
  last_update_unix_timestamp :: i64
  pending_protocol_fee_shares :: ufixed
  pending_curator_fee_shares :: ufixed

record supply_vault_summary =
  sum_last_update_unix_timestamp :: i64
  sum_total_supply :: u64
  sum_total_borrow :: u64
  sum_pending_curator_fee_atoms :: u64
  sum_pending_protocol_fee_atoms :: u64
  sum_utilisation_rate :: ifixed
  sum_borrow_interest_rate :: interest_rate_per_second
  sum_lending_interest_rate :: interest_rate_per_second

definition sv_initialize ::
    "fixed_crate \<Rightarrow> supply_vault \<Rightarrow> pubkey \<Rightarrow> u64 \<Rightarrow> pubkey \<Rightarrow> oracle_config
     \<Rightarrow> interest_rate_curve_kind \<Rightarrow> i64 \<Rightarrow> supply_vault result" where
  "sv_initialize F self mint mint_decimals vault config curve timestamp =
     (if sint mint_decimals > sint MAX_EXPONENT_ABS then Err UnsupportedMintDecimals
      else if \<not> curve_is_valid F curve then Err InvalidCurve
      else
        bind_r (oc_validate config) (\<lambda>_.
          Ok (self\<lparr>sv_mint := mint, sv_mint_decimals_raw := mint_decimals, sv_vault := vault,
                   sv_oracle_config := config, interest_rate_curve := curve,
                   supply_shares_tracker := st_initialize (supply_shares_tracker self),
                   borrow_shares_tracker := st_initialize (borrow_shares_tracker self),
                   last_update_unix_timestamp := timestamp\<rparr>)))"

definition sv_mint_decimals :: "supply_vault \<Rightarrow> u8" where
  "sv_mint_decimals self = ucast (sv_mint_decimals_raw self)"

definition total_supply :: "fixed_crate \<Rightarrow> supply_vault \<Rightarrow> u64 result" where
  "total_supply F self = total_atoms F (supply_shares_tracker self) RoundDown"

definition total_borrow :: "fixed_crate \<Rightarrow> supply_vault \<Rightarrow> u64 result" where
  "total_borrow F self = total_atoms F (borrow_shares_tracker self) RoundUp"

definition compute_utilisation_rate :: "fixed_crate \<Rightarrow> u64 \<Rightarrow> u64 \<Rightarrow> ifixed result" where
  "compute_utilisation_rate F total_borrowed total_supplied =
     (case if_from_ratio F total_borrowed total_supplied of
        Err e \<Rightarrow> (if total_borrowed \<noteq> 0 then Err e else Ok if_zero)
      | r \<Rightarrow> r)"

definition sv_utilisation_rate :: "fixed_crate \<Rightarrow> supply_vault \<Rightarrow> ifixed result" where
  "sv_utilisation_rate F self =
     bind_r (total_supply F self) (\<lambda>supply.
     bind_r (total_borrow F self) (\<lambda>borrowed.
       compute_utilisation_rate F borrowed supply))"

definition borrow_shares_to_atoms :: "fixed_crate \<Rightarrow> supply_vault \<Rightarrow> ufixed \<Rightarrow> u64 result" where
  "borrow_shares_to_atoms F self s = shares_to_atoms F (borrow_shares_tracker self) s RoundUp"

definition get_summary :: "fixed_crate \<Rightarrow> supply_vault \<Rightarrow> supply_vault_summary result" where
  "get_summary F self =
     bind_r (total_supply F self) (\<lambda>supply.
     bind_r (total_borrow F self) (\<lambda>borrowed.
     bind_r (compute_utilisation_rate F borrowed supply) (\<lambda>utilisation.
     bind_r (shares_to_atoms F (supply_shares_tracker self) (pending_curator_fee_shares self)
               RoundDown) (\<lambda>curator_atoms.
     bind_r (shares_to_atoms F (supply_shares_tracker self) (pending_protocol_fee_shares self)
               RoundDown) (\<lambda>protocol_atoms.
     bind_r (irps_adjust_for_utilisation_rate F (last_borrow_interest_rate self) utilisation)
       (\<lambda>lending.
       Ok \<lparr>sum_last_update_unix_timestamp = last_update_unix_timestamp self,
           sum_total_supply = supply, sum_total_borrow = borrowed,
           sum_pending_curator_fee_atoms = curator_atoms,
           sum_pending_protocol_fee_atoms = protocol_atoms,
           sum_utilisation_rate = utilisation,
           sum_borrow_interest_rate = last_borrow_interest_rate self,
           sum_lending_interest_rate = lending\<rparr>))))))"

text \<open>
  \<open>sync_clock\<close>: \<open>i64\<close> timestamps; the difference wraps and is then read as \<open>u64\<close>.
\<close>

definition sv_sync_clock ::
    "fixed_crate \<Rightarrow> supply_vault \<Rightarrow> i64 \<Rightarrow> ufixed \<Rightarrow> u16 \<Rightarrow> supply_vault result" where
  "sv_sync_clock F self unix_timestamp lending_market_fee fee_percent_for_protocol_in_bps =
     (if sint unix_timestamp > sint (last_update_unix_timestamp self) then
        let elapsed = unix_timestamp - last_update_unix_timestamp self in
        bind_r (sv_utilisation_rate F self) (\<lambda>utilisation.
        bind_r (borrow_rate_per_second F (interest_rate_curve self)
                  \<lparr>utilisation_rate = utilisation, elapsed_seconds_since_last_update = elapsed\<rparr>)
          (\<lambda>(curve, borrow_interest_rate).
        bind_r (coumpounding_interest_rate_during_elapsed_seconds F borrow_interest_rate elapsed)
          (\<lambda>borrow_rate.
        bind_r (apply_interest_rate F (borrow_shares_tracker self) borrow_rate) (\<lambda>borrow_tracker.
        bind_r (ir_adjust_for_utilisation_rate F borrow_rate utilisation) (\<lambda>lending_rate.
        bind_r (apply_interest_rate_with_fee F (supply_shares_tracker self) lending_rate
                  lending_market_fee) (\<lambda>(supply_tracker, fee_shares).
        bind_r (bps_from_fixed_point (ucast fee_percent_for_protocol_in_bps) fee_shares)
          (\<lambda>protocol_fee_shares.
        bind_r (uf_safe_sub F fee_shares protocol_fee_shares) (\<lambda>curator_fee_shares.
        bind_r (uf_safe_add F (pending_protocol_fee_shares self) protocol_fee_shares) (\<lambda>pp.
        bind_r (uf_safe_add F (pending_curator_fee_shares self) curator_fee_shares) (\<lambda>pc.
          Ok (self\<lparr>interest_rate_curve := curve, borrow_shares_tracker := borrow_tracker,
                   supply_shares_tracker := supply_tracker, pending_protocol_fee_shares := pp,
                   pending_curator_fee_shares := pc,
                   last_borrow_interest_rate := borrow_interest_rate,
                   last_update_unix_timestamp := unix_timestamp\<rparr>)))))))))))
      else Ok self)"

definition sv_lend :: "fixed_crate \<Rightarrow> supply_vault \<Rightarrow> u64 \<Rightarrow> (supply_vault \<times> ufixed) result" where
  "sv_lend F self atoms =
     bind_r (deposit_atoms F (supply_shares_tracker self) atoms) (\<lambda>(t, s).
       Ok (self\<lparr>supply_shares_tracker := t\<rparr>, s))"

definition sv_withdraw_shares ::
    "fixed_crate \<Rightarrow> supply_vault \<Rightarrow> ufixed \<Rightarrow> (supply_vault \<times> u64) result" where
  "sv_withdraw_shares F self s =
     bind_r (st_withdraw_shares F (supply_shares_tracker self) s RoundDown) (\<lambda>(t, atoms).
       Ok (self\<lparr>supply_shares_tracker := t\<rparr>, atoms))"

definition sv_withdraw_atoms ::
    "fixed_crate \<Rightarrow> supply_vault \<Rightarrow> u64 \<Rightarrow> (supply_vault \<times> ufixed) result" where
  "sv_withdraw_atoms F self atoms =
     bind_r (st_withdraw_atoms F (supply_shares_tracker self) atoms) (\<lambda>(t, s).
       Ok (self\<lparr>supply_shares_tracker := t\<rparr>, s))"

definition sv_borrow :: "fixed_crate \<Rightarrow> supply_vault \<Rightarrow> u64 \<Rightarrow> (supply_vault \<times> ufixed) result" where
  "sv_borrow F self atoms =
     bind_r (deposit_atoms F (borrow_shares_tracker self) atoms) (\<lambda>(t, s).
       Ok (self\<lparr>borrow_shares_tracker := t\<rparr>, s))"

definition sv_repay_shares ::
    "fixed_crate \<Rightarrow> supply_vault \<Rightarrow> ufixed \<Rightarrow> (supply_vault \<times> u64) result" where
  "sv_repay_shares F self s =
     bind_r (st_withdraw_shares F (borrow_shares_tracker self) s RoundUp) (\<lambda>(t, atoms).
       Ok (self\<lparr>borrow_shares_tracker := t\<rparr>, atoms))"

definition sv_repay_atoms ::
    "fixed_crate \<Rightarrow> supply_vault \<Rightarrow> u64 \<Rightarrow> (supply_vault \<times> ufixed) result" where
  "sv_repay_atoms F self atoms =
     bind_r (st_withdraw_atoms F (borrow_shares_tracker self) atoms) (\<lambda>(t, s).
       Ok (self\<lparr>borrow_shares_tracker := t\<rparr>, s))"

definition repay_atoms_capped ::
    "fixed_crate \<Rightarrow> supply_vault \<Rightarrow> u64 \<Rightarrow> ufixed \<Rightarrow> (supply_vault \<times> u64 \<times> ufixed) result" where
  "repay_atoms_capped F self atoms max_shares =
     bind_r (withdraw_atoms_capped F (borrow_shares_tracker self) atoms max_shares RoundUp)
       (\<lambda>(t, atoms', s). Ok (self\<lparr>borrow_shares_tracker := t\<rparr>, atoms', s))"

definition sv_redeem_protocol_fees :: "fixed_crate \<Rightarrow> supply_vault \<Rightarrow> (supply_vault \<times> u64) result" where
  "sv_redeem_protocol_fees F self =
     sv_withdraw_shares F (self\<lparr>pending_protocol_fee_shares := uf_zero\<rparr>)
       (pending_protocol_fee_shares self)"

definition sv_redeem_curator_fees :: "fixed_crate \<Rightarrow> supply_vault \<Rightarrow> (supply_vault \<times> u64) result" where
  "sv_redeem_curator_fees F self =
     sv_withdraw_shares F (self\<lparr>pending_curator_fee_shares := uf_zero\<rparr>)
       (pending_curator_fee_shares self)"

definition sv_socialize_loss ::
    "fixed_crate \<Rightarrow> supply_vault \<Rightarrow> ufixed \<Rightarrow> (supply_vault \<times> u64) result" where
  "sv_socialize_loss F self debt_shares =
     bind_r (st_withdraw_shares F (borrow_shares_tracker self) debt_shares RoundUp) (\<lambda>(bt, debt).
     bind_r (socialize_loss_atoms F (supply_shares_tracker self) debt) (\<lambda>st.
       Ok (self\<lparr>borrow_shares_tracker := bt, supply_shares_tracker := st\<rparr>, debt)))"

definition sv_donate_supply :: "fixed_crate \<Rightarrow> supply_vault \<Rightarrow> u64 \<Rightarrow> supply_vault result" where
  "sv_donate_supply F self atoms =
     bind_r (donate_atoms F (supply_shares_tracker self) atoms) (\<lambda>t.
       Ok (self\<lparr>supply_shares_tracker := t\<rparr>))"

end
