(* ===== verification/Liquidation.thy ===== *)
theory Liquidation
  imports Vaults
begin

text \<open>
  The size of a liquidation, \<open>src/autara-lib/src/operation/liquidation.rs\<close>: how much debt is
  repaid and how much collateral is seized to bring a position back to its target
  loan-to-value, with the liquidator's bonus and the caller's repayment limit.
\<close>

text \<open>\<open>((value as u128 * max_repay as u128) / borrowed as u128) as u64\<close>; \<open>borrowed\<close> is not zero
  where it is used.\<close>

definition adjust_proportionally :: "u64 \<Rightarrow> u64 \<Rightarrow> u64 \<Rightarrow> u64" where
  "adjust_proportionally v max_repay borrowed =
     ucast (((ucast v :: u128) * ucast max_repay) div ucast borrowed)"

definition lr_adjust_for_max_repay :: "liquidation_result \<Rightarrow> u64 \<Rightarrow> liquidation_result" where
  "lr_adjust_for_max_repay self max_repay =
     (if lr_borrowed_atoms_to_repay self > max_repay
      then self\<lparr>lr_collateral_atoms_to_liquidate :=
                  adjust_proportionally (lr_collateral_atoms_to_liquidate self) max_repay
                    (lr_borrowed_atoms_to_repay self),
                lr_borrowed_atoms_to_repay := max_repay\<rparr>
      else self)"

definition lrb_adjust_for_max_repay ::
    "liquidation_result_with_bonus \<Rightarrow> u64 \<Rightarrow> liquidation_result_with_bonus" where
  "lrb_adjust_for_max_repay self max_repay =
     (if borrowed_atoms_to_repay self > max_repay
      then self\<lparr>collateral_atoms_to_liquidate :=
                  adjust_proportionally (collateral_atoms_to_liquidate self) max_repay
                    (borrowed_atoms_to_repay self),
                collateral_atoms_liquidation_bonus :=
                  adjust_proportionally (collateral_atoms_liquidation_bonus self) max_repay
                    (borrowed_atoms_to_repay self),
                borrowed_atoms_to_repay := max_repay\<rparr>
      else self)"

definition total_collateral_atoms_to_liquidate ::
    "liquidation_result_with_bonus \<Rightarrow> u64 result" where
  "total_collateral_atoms_to_liquidate self =
     u64_safe_add (collateral_atoms_to_liquidate self) (collateral_atoms_liquidation_bonus self)"

definition compute_liquidation ::
    "fixed_crate \<Rightarrow> u64 \<Rightarrow> u8 \<Rightarrow> oracle_rate \<Rightarrow> u64 \<Rightarrow> u8 \<Rightarrow> oracle_rate \<Rightarrow> ifixed
     \<Rightarrow> liquidation_result result" where
  "compute_liquidation F borrowed borrow_decimals supply_oracle collateral collateral_decimals
       collateral_oracle new_ltv =
     bind_r (or_borrow_value F supply_oracle borrowed borrow_decimals) (\<lambda>bv.
     bind_r (or_collateral_value F collateral_oracle collateral collateral_decimals) (\<lambda>cv.
     bind_r (if_safe_mul F cv new_ltv) (\<lambda>allowed.
     bind_r (if_safe_sub F bv allowed) (\<lambda>excess.
     bind_r (if_safe_sub F if_one new_ltv) (\<lambda>one_minus.
     bind_r (if_safe_div F excess one_minus) (\<lambda>value_to_liquidate.
     bind_r (or_collateral_atoms F collateral_oracle value_to_liquidate collateral_decimals) (\<lambda>ca.
     bind_r (or_borrow_atoms F supply_oracle value_to_liquidate borrow_decimals) (\<lambda>ba.
     bind_r (if_as_u64_rounded_down F ca) (\<lambda>collateral_out.
     bind_r (if_as_u64_rounded_up F ba) (\<lambda>borrowed_out.
       Ok \<lparr>lr_borrowed_atoms_to_repay = borrowed_out,
           lr_collateral_atoms_to_liquidate = collateral_out\<rparr>))))))))))"

definition compute_liquidation_with_fee ::
    "fixed_crate \<Rightarrow> u64 \<Rightarrow> u8 \<Rightarrow> oracle_rate \<Rightarrow> u64 \<Rightarrow> u8 \<Rightarrow> oracle_rate \<Rightarrow> ifixed \<Rightarrow> ifixed
     \<Rightarrow> u64 \<Rightarrow> liquidation_result_with_bonus result" where
  "compute_liquidation_with_fee F borrowed borrow_decimals supply_oracle collateral
       collateral_decimals collateral_oracle new_ltv_after_liquidation_fee liquidation_fee
       max_borrowed_atoms_to_repay =
     bind_r (if_safe_add F if_one liquidation_fee) (\<lambda>one_plus_liquidation_fee.
     bind_r (if_safe_mul F new_ltv_after_liquidation_fee one_plus_liquidation_fee)
       (\<lambda>adjusted_new_ltv.
     bind_r (u64_safe_div_if F collateral one_plus_liquidation_fee) (\<lambda>x.
     bind_r (if_as_u64_rounded_down F x) (\<lambda>adjusted_collateral.
     bind_r (compute_liquidation F borrowed borrow_decimals supply_oracle adjusted_collateral
               collateral_decimals collateral_oracle adjusted_new_ltv) (\<lambda>raw.
       let r = lr_adjust_for_max_repay raw (min max_borrowed_atoms_to_repay borrowed) in
       bind_r (u64_safe_mul_if F (lr_collateral_atoms_to_liquidate r) liquidation_fee) (\<lambda>y.
       bind_r (if_as_u64_rounded_down F y) (\<lambda>fee.
       bind_r (u64_safe_add (lr_collateral_atoms_to_liquidate r) fee) (\<lambda>seized.
       bind_r
         (if seized > collateral
          then u64_safe_sub collateral (lr_collateral_atoms_to_liquidate r)
          else Ok fee) (\<lambda>bonus.
         Ok \<lparr>borrowed_atoms_to_repay = lr_borrowed_atoms_to_repay r,
             collateral_atoms_to_liquidate = lr_collateral_atoms_to_liquidate r,
             collateral_atoms_liquidation_bonus = bonus\<rparr>)))))))))"

end
