(* ===== verification/Market.thy ===== *)
theory Market
  imports Liquidation
begin

text \<open>
  \<open>Market\<close> (\<open>src/autara-lib/src/state/market.rs\<close>), the account that joins a configuration, a
  collateral vault and a supply vault, with every operation that users, liquidators and the
  curator perform on it, and \<open>MarketWrapper\<close> (\<open>market_wrapper.rs\<close>), which loads and checks
  both oracle prices before any of them. An operation returns the new market, the new
  position and its result.
\<close>

record market =
  config :: market_config
  m_collateral_vault :: collateral_vault
  m_supply_vault :: supply_vault

section \<open>Health\<close>

definition borrow_position_health_with_collateral_atoms ::
    "fixed_crate \<Rightarrow> market \<Rightarrow> borrow_position \<Rightarrow> u64 \<Rightarrow> oracle_rate \<Rightarrow> oracle_rate
     \<Rightarrow> borrow_position_health result" where
  "borrow_position_health_with_collateral_atoms F self p atoms collateral_oracle supply_oracle =
     bind_r (borrow_shares_to_atoms F (m_supply_vault self) (borrowed_shares p)) (\<lambda>borrowed.
     bind_r (or_borrow_value F supply_oracle borrowed (sv_mint_decimals (m_supply_vault self)))
       (\<lambda>bv.
     bind_r (or_collateral_value F collateral_oracle atoms
               (cv_mint_decimals (m_collateral_vault self))) (\<lambda>cv.
     bind_r (if if_is_zero bv then Ok if_zero else if_safe_div F bv cv) (\<lambda>l.
       Ok \<lparr>ltv = l, borrowed_atoms = borrowed, collateral_atoms = atoms, borrow_value = bv,
           collateral_value = cv\<rparr>))))"

definition market_borrow_position_health ::
    "fixed_crate \<Rightarrow> market \<Rightarrow> borrow_position \<Rightarrow> oracle_rate \<Rightarrow> oracle_rate
     \<Rightarrow> borrow_position_health result" where
  "market_borrow_position_health F self p collateral_oracle supply_oracle =
     borrow_position_health_with_collateral_atoms F self p (collateral_deposited_atoms p)
       collateral_oracle supply_oracle"

definition supply_position_info :: "fixed_crate \<Rightarrow> market \<Rightarrow> supply_position \<Rightarrow> u64 result" where
  "supply_position_info F self p =
     shares_to_atoms F (supply_shares_tracker (m_supply_vault self)) (shares p) RoundDown"

definition position_checks_on_ltv_increase ::
    "market \<Rightarrow> borrow_position_health \<Rightarrow> unit result" where
  "position_checks_on_ltv_increase self h =
     (if ltv h > max_ltv (mc_ltv_config (config self)) then Err MaxLtvReached else Ok ())"

section \<open>Administration\<close>

definition set_supply_oracle_config :: "market \<Rightarrow> oracle_config \<Rightarrow> market result" where
  "set_supply_oracle_config self c =
     bind_r (oc_validate c) (\<lambda>_.
       Ok (self\<lparr>m_supply_vault := (m_supply_vault self)\<lparr>sv_oracle_config := c\<rparr>\<rparr>))"

definition set_collateral_oracle_config :: "market \<Rightarrow> oracle_config \<Rightarrow> market result" where
  "set_collateral_oracle_config self c =
     bind_r (oc_validate c) (\<lambda>_.
       Ok (self\<lparr>m_collateral_vault := (m_collateral_vault self)\<lparr>cv_oracle_config := c\<rparr>\<rparr>))"

definition initialize_collateral_vault ::
    "market \<Rightarrow> pubkey \<Rightarrow> u64 \<Rightarrow> pubkey \<Rightarrow> oracle_config \<Rightarrow> market result" where
  "initialize_collateral_vault self mint decimals vault c =
     bind_r (cv_initialize (m_collateral_vault self) mint decimals vault c) (\<lambda>v.
       Ok (self\<lparr>m_collateral_vault := v\<rparr>))"

definition initlize_supply_vault ::
    "fixed_crate \<Rightarrow> market \<Rightarrow> pubkey \<Rightarrow> u64 \<Rightarrow> pubkey \<Rightarrow> oracle_config
     \<Rightarrow> interest_rate_curve_kind \<Rightarrow> i64 \<Rightarrow> market result" where
  "initlize_supply_vault F self mint decimals vault c curve timestamp =
     bind_r (sv_initialize F (m_supply_vault self) mint decimals vault c curve timestamp) (\<lambda>v.
       Ok (self\<lparr>m_supply_vault := v\<rparr>))"

definition market_sync_clock :: "fixed_crate \<Rightarrow> market \<Rightarrow> i64 \<Rightarrow> market result" where
  "market_sync_clock F self unix_timestamp =
     bind_r (lending_market_fee_fixed (config self)) (\<lambda>fee.
     bind_r (sv_sync_clock F (m_supply_vault self) unix_timestamp fee
               (mc_protocol_fee_share_in_bps (config self))) (\<lambda>v.
       Ok (self\<lparr>m_supply_vault := v\<rparr>)))"

text \<open>The check that follows every withdrawal from the supply vault: utilisation at most one.\<close>

definition ensure_reserves :: "fixed_crate \<Rightarrow> supply_vault \<Rightarrow> unit result" where
  "ensure_reserves F v =
     bind_r (sv_utilisation_rate F v) (\<lambda>u.
       if u > if_one then Err WithdrawalExceedsReserves else Ok ())"

definition redeem_protocol_fees :: "fixed_crate \<Rightarrow> market \<Rightarrow> (market \<times> u64) result" where
  "redeem_protocol_fees F self =
     bind_r (sv_redeem_protocol_fees F (m_supply_vault self)) (\<lambda>(v, atoms).
     bind_r (ensure_reserves F v) (\<lambda>_. Ok (self\<lparr>m_supply_vault := v\<rparr>, atoms)))"

definition redeem_curator_fess :: "fixed_crate \<Rightarrow> market \<Rightarrow> (market \<times> u64) result" where
  "redeem_curator_fess F self =
     bind_r (sv_redeem_curator_fees F (m_supply_vault self)) (\<lambda>(v, atoms).
     bind_r (ensure_reserves F v) (\<lambda>_. Ok (self\<lparr>m_supply_vault := v\<rparr>, atoms)))"

definition donate_supply_atoms :: "fixed_crate \<Rightarrow> market \<Rightarrow> u64 \<Rightarrow> market result" where
  "donate_supply_atoms F self atoms =
     bind_r (sv_donate_supply F (m_supply_vault self) atoms) (\<lambda>v.
       Ok (self\<lparr>m_supply_vault := v\<rparr>))"

section \<open>Lenders\<close>

definition market_lend ::
    "fixed_crate \<Rightarrow> market \<Rightarrow> supply_position \<Rightarrow> u64 \<Rightarrow> (market \<times> supply_position) result" where
  "market_lend F self p atoms =
     bind_r (sv_lend F (m_supply_vault self) atoms) (\<lambda>(v, s).
     bind_r (sp_lend F p atoms s) (\<lambda>p'.
     bind_r (total_supply F v) (\<lambda>supply.
       if supply > max_supply_atoms (config self) then Err MaxSupplyReached
       else Ok (self\<lparr>m_supply_vault := v\<rparr>, p'))))"

definition market_withdraw ::
    "fixed_crate \<Rightarrow> market \<Rightarrow> supply_position \<Rightarrow> u64 \<Rightarrow> (market \<times> supply_position) result" where
  "market_withdraw F self p atoms =
     bind_r (sv_withdraw_atoms F (m_supply_vault self) atoms) (\<lambda>(v, s).
     bind_r (ensure_reserves F v) (\<lambda>_.
     bind_r (sp_withdraw F p s) (\<lambda>p'.
       Ok (self\<lparr>m_supply_vault := v\<rparr>, p'))))"

definition market_withdraw_all ::
    "fixed_crate \<Rightarrow> market \<Rightarrow> supply_position \<Rightarrow> (market \<times> supply_position \<times> u64) result" where
  "market_withdraw_all F self p =
     bind_r (sv_withdraw_shares F (m_supply_vault self) (shares p)) (\<lambda>(v, atoms).
     bind_r (ensure_reserves F v) (\<lambda>_.
       Ok (self\<lparr>m_supply_vault := v\<rparr>, sp_withdraw_all p, atoms)))"

section \<open>Borrowers\<close>

definition market_deposit_collateral ::
    "market \<Rightarrow> borrow_position \<Rightarrow> u64 \<Rightarrow> (market \<times> borrow_position) result" where
  "market_deposit_collateral self p atoms =
     bind_r (ensure_capital_sweep_inactive p) (\<lambda>_.
     bind_r (bp_deposit_collateral p atoms) (\<lambda>p'.
     bind_r (cv_deposit_collateral (m_collateral_vault self) atoms) (\<lambda>v.
       Ok (self\<lparr>m_collateral_vault := v\<rparr>, p'))))"

definition market_withdraw_collateral ::
    "fixed_crate \<Rightarrow> market \<Rightarrow> borrow_position \<Rightarrow> u64 \<Rightarrow> oracle_rate \<Rightarrow> oracle_rate
     \<Rightarrow> (market \<times> borrow_position) result" where
  "market_withdraw_collateral F self p atoms collateral_oracle supply_oracle =
     bind_r (ensure_capital_sweep_inactive p) (\<lambda>_.
     bind_r (bp_withdraw_collateral p atoms) (\<lambda>p'.
       if collateral_deposited_atoms p' = 0 \<and> \<not> uf_is_zero (borrowed_shares p')
       then Err MaxLtvReached
       else
         bind_r (market_borrow_position_health F self p' collateral_oracle supply_oracle)
           (\<lambda>health.
         bind_r (cv_withdraw_collateral (m_collateral_vault self) atoms) (\<lambda>v.
         bind_r (position_checks_on_ltv_increase self health) (\<lambda>_.
           Ok (self\<lparr>m_collateral_vault := v\<rparr>, p'))))))"

definition market_borrow ::
    "fixed_crate \<Rightarrow> market \<Rightarrow> borrow_position \<Rightarrow> u64 \<Rightarrow> oracle_rate \<Rightarrow> oracle_rate
     \<Rightarrow> (market \<times> borrow_position) result" where
  "market_borrow F self p atoms supply_oracle collateral_oracle =
     bind_r (ensure_capital_sweep_inactive p) (\<lambda>_.
     bind_r (sv_borrow F (m_supply_vault self) atoms) (\<lambda>(v, s).
       let self' = self\<lparr>m_supply_vault := v\<rparr> in
       bind_r (bp_borrow F p atoms s) (\<lambda>p'.
       bind_r (market_borrow_position_health F self' p' collateral_oracle supply_oracle) (\<lambda>health.
       bind_r (position_checks_on_ltv_increase self' health) (\<lambda>_.
       bind_r (sv_utilisation_rate F v) (\<lambda>u.
         if u > max_utilisation_rate (config self') then Err MaxUtilisationRateReached
         else Ok (self', p')))))))"

definition market_repay ::
    "fixed_crate \<Rightarrow> market \<Rightarrow> borrow_position \<Rightarrow> u64 \<Rightarrow> (market \<times> borrow_position) result" where
  "market_repay F self p atoms =
     bind_r (ensure_capital_sweep_inactive p) (\<lambda>_.
     bind_r (sv_repay_atoms F (m_supply_vault self) atoms) (\<lambda>(v, s).
     bind_r (bp_repay F p s) (\<lambda>p'.
       Ok (self\<lparr>m_supply_vault := v\<rparr>, p'))))"

definition market_repay_all ::
    "fixed_crate \<Rightarrow> market \<Rightarrow> borrow_position \<Rightarrow> (market \<times> borrow_position \<times> u64) result" where
  "market_repay_all F self p =
     bind_r (ensure_capital_sweep_inactive p) (\<lambda>_.
     bind_r (sv_repay_shares F (m_supply_vault self) (borrowed_shares p)) (\<lambda>(v, atoms).
       Ok (self\<lparr>m_supply_vault := v\<rparr>, bp_repay_all p, atoms)))"

section \<open>Liquidation\<close>

definition compute_liquidation_result_with_fee_for_collateral ::
    "fixed_crate \<Rightarrow> market \<Rightarrow> borrow_position \<Rightarrow> u64 \<Rightarrow> oracle_rate \<Rightarrow> oracle_rate \<Rightarrow> u64
     \<Rightarrow> (borrow_position_health \<times> liquidation_result_with_bonus) result" where
  "compute_liquidation_result_with_fee_for_collateral F self p atoms collateral_oracle
       supply_oracle max_repay_atoms =
     bind_r (borrow_position_health_with_collateral_atoms F self p atoms collateral_oracle
               supply_oracle) (\<lambda>health_before.
       if ltv health_before < unhealthy_ltv (mc_ltv_config (config self))
       then Err PositionIsHealthy
       else
         bind_r
           (if ltv health_before \<ge> if_one
            then Ok (lrb_adjust_for_max_repay
                   \<lparr>borrowed_atoms_to_repay = borrowed_atoms health_before,
                    collateral_atoms_to_liquidate = collateral_atoms health_before,
                    collateral_atoms_liquidation_bonus = 0\<rparr> max_repay_atoms)
            else compute_liquidation_with_fee F (borrowed_atoms health_before)
                   (sv_mint_decimals (m_supply_vault self)) supply_oracle atoms
                   (cv_mint_decimals (m_collateral_vault self)) collateral_oracle
                   (target_ltv_after_liquidation F (mc_ltv_config (config self)))
                   (liquidation_bonus (mc_ltv_config (config self))) max_repay_atoms)
           (\<lambda>liquidation. Ok (health_before, liquidation)))"

definition compute_liquidation_result_with_fee ::
    "fixed_crate \<Rightarrow> market \<Rightarrow> borrow_position \<Rightarrow> oracle_rate \<Rightarrow> oracle_rate \<Rightarrow> u64
     \<Rightarrow> (borrow_position_health \<times> liquidation_result_with_bonus) result" where
  "compute_liquidation_result_with_fee F self p collateral_oracle supply_oracle max_repay_atoms =
     bind_r (ensure_capital_sweep_inactive p) (\<lambda>_.
       compute_liquidation_result_with_fee_for_collateral F self p (collateral_deposited_atoms p)
         collateral_oracle supply_oracle max_repay_atoms)"

definition market_liquidate ::
    "fixed_crate \<Rightarrow> market \<Rightarrow> borrow_position \<Rightarrow> oracle_rate \<Rightarrow> oracle_rate \<Rightarrow> u64
     \<Rightarrow> (market \<times> borrow_position \<times> liquidation_result_with_ctx) result" where
  "market_liquidate F self p collateral_oracle supply_oracle max_repay_atoms =
     bind_r (ensure_capital_sweep_inactive p) (\<lambda>_.
     bind_r (compute_liquidation_result_with_fee F self p collateral_oracle supply_oracle
               max_repay_atoms) (\<lambda>(health_before, liquidation0).
     bind_r (repay_atoms_capped F (m_supply_vault self) (borrowed_atoms_to_repay liquidation0)
               (borrowed_shares p)) (\<lambda>(v, atoms_repaid, shares_repaid).
       let liquidation = lrb_adjust_for_max_repay liquidation0 atoms_repaid in
       bind_r (total_collateral_atoms_to_liquidate liquidation) (\<lambda>collateral_seized.
       bind_r (bp_liquidate F p shares_repaid collateral_seized) (\<lambda>p'.
       bind_r (cv_withdraw_collateral (m_collateral_vault self) collateral_seized) (\<lambda>cv.
         let self' = self\<lparr>m_supply_vault := v, m_collateral_vault := cv\<rparr> in
         bind_r (market_borrow_position_health F self' p' collateral_oracle supply_oracle)
           (\<lambda>health_after.
           if ltv health_after > ltv health_before then Err InvalidLiquidationLtvShouldDecrease
           else Ok (self', p',
             \<lparr>lc_liquidation = liquidation, health_before_liquidation = health_before,
              health_after_liquidation = health_after\<rparr>))))))))"

section \<open>Capital sweep and loss socialisation\<close>

definition market_begin_capital_sweep ::
    "fixed_crate \<Rightarrow> market \<Rightarrow> borrow_position \<Rightarrow> oracle_rate \<Rightarrow> oracle_rate
     \<Rightarrow> (market \<times> borrow_position \<times> borrow_position_health) result" where
  "market_begin_capital_sweep F self p collateral_oracle supply_oracle =
     bind_r (ensure_capital_sweep_inactive p) (\<lambda>_.
     bind_r (market_borrow_position_health F self p collateral_oracle supply_oracle)
       (\<lambda>health_before.
       if ltv health_before < unhealthy_ltv (mc_ltv_config (config self))
       then Err PositionIsHealthy
       else if ltv health_before \<ge> if_one then Err CapitalSweepPositionInsolvent
       else
         bind_r (bp_begin_capital_sweep p) (\<lambda>(p', swept).
         bind_r (cv_withdraw_collateral (m_collateral_vault self) swept) (\<lambda>cv.
           Ok (self\<lparr>m_collateral_vault := cv\<rparr>, p', health_before)))))"

text \<open>The liquidation that \<open>settle_capital_sweep\<close> settles: none when the position has recovered.\<close>

definition settlement_liquidation ::
    "fixed_crate \<Rightarrow> market \<Rightarrow> borrow_position \<Rightarrow> borrow_position_health \<Rightarrow> oracle_rate \<Rightarrow> oracle_rate
     \<Rightarrow> u64 \<Rightarrow> liquidation_result_with_bonus result" where
  "settlement_liquidation F self p health_before collateral_oracle supply_oracle max_repay_atoms =
     (if ltv health_before < unhealthy_ltv (mc_ltv_config (config self))
      then Ok \<lparr>borrowed_atoms_to_repay = 0, collateral_atoms_to_liquidate = 0,
               collateral_atoms_liquidation_bonus = 0\<rparr>
      else
        bind_r (compute_liquidation_result_with_fee_for_collateral F self p
                  (swept_collateral_atoms p) collateral_oracle supply_oracle max_repay_atoms)
          (\<lambda>r. Ok (snd r)))"

definition market_settle_capital_sweep ::
    "fixed_crate \<Rightarrow> market \<Rightarrow> borrow_position \<Rightarrow> oracle_rate \<Rightarrow> oracle_rate \<Rightarrow> u64 \<Rightarrow> u64
     \<Rightarrow> (market \<times> borrow_position \<times> capital_sweep_settlement_result) result" where
  "market_settle_capital_sweep F self p collateral_oracle supply_oracle max_repay_atoms
       max_collateral_atoms_to_return =
     (if \<not> capital_sweep_pending p then Err NoCapitalSweepPending
      else
        let swept = swept_collateral_atoms p in
        bind_r (borrow_position_health_with_collateral_atoms F self p swept collateral_oracle
                  supply_oracle) (\<lambda>health_before.
        bind_r (settlement_liquidation F self p health_before collateral_oracle supply_oracle
                  max_repay_atoms)
          (\<lambda>liquidation0.
        bind_r (total_collateral_atoms_to_liquidate liquidation0) (\<lambda>out0.
        bind_r (u64_safe_sub swept out0) (\<lambda>returned0.
          if returned0 > max_collateral_atoms_to_return
          then Err CapitalSweepDidNotMeetRequirements
          else
            bind_r (repay_atoms_capped F (m_supply_vault self)
                      (borrowed_atoms_to_repay liquidation0) (borrowed_shares p))
              (\<lambda>(v, atoms_repaid, shares_repaid).
              let liquidation = lrb_adjust_for_max_repay liquidation0 atoms_repaid in
              bind_r (total_collateral_atoms_to_liquidate liquidation) (\<lambda>out.
              bind_r (u64_safe_sub swept out) (\<lambda>returned.
                if returned > max_collateral_atoms_to_return
                then Err CapitalSweepDidNotMeetRequirements
                else
                  bind_r (bp_settle_capital_sweep F p shares_repaid returned) (\<lambda>p'.
                  bind_r (cv_deposit_collateral (m_collateral_vault self) returned) (\<lambda>cv.
                    let self' = self\<lparr>m_supply_vault := v, m_collateral_vault := cv\<rparr> in
                    bind_r (market_borrow_position_health F self' p' collateral_oracle
                              supply_oracle) (\<lambda>health_after.
                      if ltv health_after > ltv health_before
                      then Err InvalidLiquidationLtvShouldDecrease
                      else Ok (self', p',
                        \<lparr>cs_liquidation = liquidation, health_before_settlement = health_before,
                         health_after_settlement = health_after,
                         collateral_atoms_returned = returned\<rparr>)))))))))))) "

definition market_socialize_loss ::
    "fixed_crate \<Rightarrow> market \<Rightarrow> borrow_position \<Rightarrow> oracle_rate \<Rightarrow> oracle_rate
     \<Rightarrow> (market \<times> borrow_position \<times> u64 \<times> u64) result" where
  "market_socialize_loss F self p collateral_oracle supply_oracle =
     bind_r (ensure_capital_sweep_inactive p) (\<lambda>_.
     bind_r (market_borrow_position_health F self p collateral_oracle supply_oracle) (\<lambda>health.
       if ltv health < if_one then Err CannotSocializeDebtForHealthyPosition
       else
         bind_r (sv_socialize_loss F (m_supply_vault self) (borrowed_shares p)) (\<lambda>(v, debt).
           let collateral_to_withdraw = collateral_deposited_atoms p in
           bind_r (bp_withdraw_collateral (bp_repay_all p) collateral_to_withdraw) (\<lambda>p'.
           bind_r (cv_withdraw_collateral (m_collateral_vault self) collateral_to_withdraw) (\<lambda>cv.
             Ok (self\<lparr>m_supply_vault := v, m_collateral_vault := cv\<rparr>, p', debt,
                 collateral_to_withdraw))))))"

end
