(* ===== verification/Market_Laws.thy ===== *)
theory Market_Laws
  imports Tracker_Laws Market
begin

text \<open>
  What the operations of a market do to its three pools: the supply shares held by lenders
  (the shares of the supply tracker that are not pending fees), the debt shares of the borrow
  tracker and the collateral atoms. Every operation on a position changes a pool by exactly
  what it changes the position, and leaves the other pools alone.
\<close>

section \<open>Positions\<close>

context fixed_crate_spec
begin

lemma sp_lend_Ok:
  "sp_lend F p a s = Ok p' \<Longrightarrow> uval (shares p') = uval (shares p) + uval s
     \<and> uint (deposited_atoms p') = uint (deposited_atoms p) + uint a"
  by (auto simp: sp_lend_def bind_r_eq_Ok u64_safe_add_Ok uf_safe_add_Ok)

lemma sp_withdraw_Ok:
  "sp_withdraw F p s = Ok p' \<Longrightarrow> uval (shares p') = uval (shares p) - uval s"
  by (auto simp: sp_withdraw_def bind_r_eq_Ok uf_safe_sub_Ok)

lemma bp_repay_Ok:
  assumes "bp_repay F p s = Ok p'"
  shows "uval (borrowed_shares p') = uval (borrowed_shares p) - uval s
    \<and> collateral_deposited_atoms p' = collateral_deposited_atoms p
    \<and> swept_collateral_atoms p' = swept_collateral_atoms p"
  using assms
  by (auto simp: bp_repay_def bp_repay_all_def bind_r_eq_Ok uf_safe_sub_Ok uval_zero split: if_splits)

lemma bp_borrow_Ok:
  assumes "bp_borrow F p a s = Ok p'"
  shows "uval (borrowed_shares p') = uval (borrowed_shares p) + uval s
    \<and> collateral_deposited_atoms p' = collateral_deposited_atoms p
    \<and> swept_collateral_atoms p' = swept_collateral_atoms p"
  using assms by (auto simp: bp_borrow_def bind_r_eq_Ok uf_safe_add_Ok)

lemma bp_liquidate_Ok:
  assumes "bp_liquidate F p s c = Ok p'"
  shows "uval (borrowed_shares p') = uval (borrowed_shares p) - uval s
    \<and> uint (collateral_deposited_atoms p') = uint (collateral_deposited_atoms p) - uint c
    \<and> swept_collateral_atoms p' = swept_collateral_atoms p"
  using assms by (auto simp: bp_liquidate_def bind_r_eq_Ok u64_safe_sub_Ok dest: bp_repay_Ok)

lemma bp_settle_capital_sweep_Ok:
  assumes "bp_settle_capital_sweep F p s c = Ok p'"
  shows "capital_sweep_pending p
    \<and> uval (borrowed_shares p') = uval (borrowed_shares p) - uval s
    \<and> collateral_deposited_atoms p' = c
    \<and> swept_collateral_atoms p' = 0"
  using assms
  by (auto simp: bp_settle_capital_sweep_def bind_r_eq_Ok dest: bp_repay_Ok split: if_splits)

end

lemma ensure_inactive_Ok [ok_simps]:
  "ensure_capital_sweep_inactive p = Ok u \<longleftrightarrow> swept_collateral_atoms p = 0"
  by (simp add: ensure_capital_sweep_inactive_def capital_sweep_pending_def)

lemma bp_deposit_collateral_Ok:
  assumes "bp_deposit_collateral p a = Ok p'"
  shows "uint (collateral_deposited_atoms p') = uint (collateral_deposited_atoms p) + uint a
    \<and> borrowed_shares p' = borrowed_shares p
    \<and> swept_collateral_atoms p' = swept_collateral_atoms p"
  using assms by (auto simp: bp_deposit_collateral_def bind_r_eq_Ok u64_safe_add_Ok)

lemma bp_withdraw_collateral_Ok:
  assumes "bp_withdraw_collateral p a = Ok p'"
  shows "uint (collateral_deposited_atoms p') = uint (collateral_deposited_atoms p) - uint a
    \<and> borrowed_shares p' = borrowed_shares p
    \<and> swept_collateral_atoms p' = swept_collateral_atoms p"
  using assms by (auto simp: bp_withdraw_collateral_def bind_r_eq_Ok map_err_eq_Ok u64_safe_sub_Ok)

section \<open>Pools\<close>

definition vault_supply_pool :: "supply_vault \<Rightarrow> int" where
  "vault_supply_pool v = uval (total_shares (supply_shares_tracker v))
     - uval (pending_protocol_fee_shares v) - uval (pending_curator_fee_shares v)"

definition vault_debt_pool :: "supply_vault \<Rightarrow> int" where
  "vault_debt_pool v = uval (total_shares (borrow_shares_tracker v))"

definition supply_pool :: "market \<Rightarrow> int" where
  "supply_pool m = vault_supply_pool (m_supply_vault m)"

definition debt_pool :: "market \<Rightarrow> int" where
  "debt_pool m = vault_debt_pool (m_supply_vault m)"

definition collateral_pool :: "market \<Rightarrow> int" where
  "collateral_pool m = uint (total_collateral_atoms (m_collateral_vault m))"

lemmas pool_defs = supply_pool_def debt_pool_def collateral_pool_def vault_supply_pool_def
  vault_debt_pool_def

lemma cv_deposit_collateral_Ok:
  "cv_deposit_collateral v a = Ok v' \<Longrightarrow>
     uint (total_collateral_atoms v') = uint (total_collateral_atoms v) + uint a"
  by (auto simp: cv_deposit_collateral_def bind_r_eq_Ok u64_safe_add_Ok)

lemma cv_withdraw_collateral_Ok:
  "cv_withdraw_collateral v a = Ok v' \<Longrightarrow>
     uint (total_collateral_atoms v') = uint (total_collateral_atoms v) - uint a"
  by (auto simp: cv_withdraw_collateral_def bind_r_eq_Ok u64_safe_sub_Ok)

context fixed_crate_spec
begin

lemma sv_lend_pools:
  "sv_lend F v a = Ok (v', s) \<Longrightarrow>
     vault_supply_pool v' = vault_supply_pool v + uval s \<and> vault_debt_pool v' = vault_debt_pool v"
  by (auto simp: sv_lend_def bind_r_eq_Ok pool_defs dest!: deposit_atoms_Ok(2))

lemma sv_withdraw_atoms_pools:
  "sv_withdraw_atoms F v a = Ok (v', s) \<Longrightarrow>
     vault_supply_pool v' = vault_supply_pool v - uval s \<and> vault_debt_pool v' = vault_debt_pool v"
  by (auto simp: sv_withdraw_atoms_def bind_r_eq_Ok pool_defs dest!: st_withdraw_atoms_Ok(2))

lemma sv_withdraw_shares_pools:
  "sv_withdraw_shares F v s = Ok (v', n) \<Longrightarrow>
     vault_supply_pool v' = vault_supply_pool v - uval s \<and> vault_debt_pool v' = vault_debt_pool v"
  by (auto simp: sv_withdraw_shares_def bind_r_eq_Ok pool_defs dest!: st_withdraw_shares_Ok(2))

lemma sv_redeem_protocol_fees_pools:
  "sv_redeem_protocol_fees F v = Ok (v', n) \<Longrightarrow>
     vault_supply_pool v' = vault_supply_pool v \<and> vault_debt_pool v' = vault_debt_pool v"
  by (auto simp: sv_redeem_protocol_fees_def uval_zero pool_defs dest!: sv_withdraw_shares_pools)

lemma sv_redeem_curator_fees_pools:
  "sv_redeem_curator_fees F v = Ok (v', n) \<Longrightarrow>
     vault_supply_pool v' = vault_supply_pool v \<and> vault_debt_pool v' = vault_debt_pool v"
  by (auto simp: sv_redeem_curator_fees_def uval_zero pool_defs dest!: sv_withdraw_shares_pools)

lemma sv_donate_supply_pools:
  "sv_donate_supply F v a = Ok v' \<Longrightarrow>
     vault_supply_pool v' = vault_supply_pool v \<and> vault_debt_pool v' = vault_debt_pool v"
  by (auto simp: sv_donate_supply_def bind_r_eq_Ok pool_defs dest!: donate_atoms_Ok(3))

lemma sv_borrow_pools:
  "sv_borrow F v a = Ok (v', s) \<Longrightarrow>
     vault_supply_pool v' = vault_supply_pool v \<and> vault_debt_pool v' = vault_debt_pool v + uval s"
  by (auto simp: sv_borrow_def bind_r_eq_Ok pool_defs dest!: deposit_atoms_Ok(2))

lemma sv_repay_atoms_pools:
  "sv_repay_atoms F v a = Ok (v', s) \<Longrightarrow>
     vault_supply_pool v' = vault_supply_pool v \<and> vault_debt_pool v' = vault_debt_pool v - uval s"
  by (auto simp: sv_repay_atoms_def bind_r_eq_Ok pool_defs dest!: st_withdraw_atoms_Ok(2))

lemma sv_repay_shares_pools:
  "sv_repay_shares F v s = Ok (v', n) \<Longrightarrow>
     vault_supply_pool v' = vault_supply_pool v \<and> vault_debt_pool v' = vault_debt_pool v - uval s"
  by (auto simp: sv_repay_shares_def bind_r_eq_Ok pool_defs dest!: st_withdraw_shares_Ok(2))

lemma repay_atoms_capped_pools:
  "repay_atoms_capped F v a m = Ok (v', n, s) \<Longrightarrow>
     vault_supply_pool v' = vault_supply_pool v \<and> vault_debt_pool v' = vault_debt_pool v - uval s"
  by (auto simp: repay_atoms_capped_def bind_r_eq_Ok pool_defs dest!: withdraw_atoms_capped_Ok(2))

lemma sv_socialize_loss_pools:
  "sv_socialize_loss F v s = Ok (v', n) \<Longrightarrow>
     vault_supply_pool v' = vault_supply_pool v \<and> vault_debt_pool v' = vault_debt_pool v - uval s"
  by (auto simp: sv_socialize_loss_def bind_r_eq_Ok pool_defs
      dest!: st_withdraw_shares_Ok(2) socialize_loss_atoms_Ok(3))

text \<open>Interest mints shares for the fees only, and splits them between protocol and curator.\<close>

lemma sv_sync_clock_pools:
  assumes "sv_sync_clock F v now fee bps = Ok v'"
  shows "vault_supply_pool v' = vault_supply_pool v \<and> vault_debt_pool v' = vault_debt_pool v"
  using assms
  by (auto simp: sv_sync_clock_def Let_def bind_r_eq_Ok pool_defs uf_safe_add_Ok uf_safe_sub_Ok
      dest!: apply_interest_with_fee_shares apply_interest_rate_total split: if_splits)

end

section \<open>Operations on the pools\<close>

text \<open>The market without positions: clock, fees, donations.\<close>

definition same_pools :: "market \<Rightarrow> market \<Rightarrow> bool" where
  "same_pools m m' \<longleftrightarrow> supply_pool m' = supply_pool m \<and> debt_pool m' = debt_pool m
     \<and> collateral_pool m' = collateral_pool m"

lemma set_oracle_config_pools:
  "set_supply_oracle_config m c = Ok m' \<Longrightarrow> same_pools m m'"
  "set_collateral_oracle_config m c = Ok m' \<Longrightarrow> same_pools m m'"
  by (auto simp: set_supply_oracle_config_def set_collateral_oracle_config_def bind_r_eq_Ok
      same_pools_def pool_defs)

lemma market_deposit_collateral_effect:
  assumes "market_deposit_collateral m p a = Ok (m', p')"
  shows "supply_pool m' = supply_pool m" "debt_pool m' = debt_pool m"
    "collateral_pool m' = collateral_pool m + uint a"
    "uint (collateral_deposited_atoms p') = uint (collateral_deposited_atoms p) + uint a"
    "borrowed_shares p' = borrowed_shares p"
    "swept_collateral_atoms p = 0" "swept_collateral_atoms p' = 0"
  using assms
  by (auto simp: market_deposit_collateral_def bind_r_eq_Ok ensure_inactive_Ok pool_defs
      dest!: bp_deposit_collateral_Ok cv_deposit_collateral_Ok)

context fixed_crate_spec
begin

lemma market_sync_clock_pools:
  "market_sync_clock F m now = Ok m' \<Longrightarrow> same_pools m m' \<and> config m' = config m"
  by (auto simp: market_sync_clock_def bind_r_eq_Ok same_pools_def supply_pool_def debt_pool_def
      collateral_pool_def dest!: sv_sync_clock_pools)

lemma redeem_fees_pools:
  "redeem_protocol_fees F m = Ok (m', n) \<Longrightarrow> same_pools m m'"
  "redeem_curator_fess F m = Ok (m', n) \<Longrightarrow> same_pools m m'"
  by (auto simp: redeem_protocol_fees_def redeem_curator_fess_def bind_r_eq_Ok same_pools_def
      supply_pool_def debt_pool_def collateral_pool_def
      dest!: sv_redeem_protocol_fees_pools sv_redeem_curator_fees_pools)

lemma donate_supply_atoms_pools:
  "donate_supply_atoms F m a = Ok m' \<Longrightarrow> same_pools m m'"
  by (auto simp: donate_supply_atoms_def bind_r_eq_Ok same_pools_def supply_pool_def debt_pool_def
      collateral_pool_def dest!: sv_donate_supply_pools)

lemma market_lend_effect:
  assumes "market_lend F m p a = Ok (m', p')"
  shows "supply_pool m' - uval (shares p') = supply_pool m - uval (shares p)"
    "debt_pool m' = debt_pool m" "collateral_pool m' = collateral_pool m"
  using assms
  by (auto simp: market_lend_def bind_r_eq_Ok supply_pool_def debt_pool_def collateral_pool_def
      dest!: sv_lend_pools sp_lend_Ok split: if_splits)

lemma market_withdraw_effect:
  assumes "market_withdraw F m p a = Ok (m', p')"
  shows "supply_pool m' - uval (shares p') = supply_pool m - uval (shares p)"
    "debt_pool m' = debt_pool m" "collateral_pool m' = collateral_pool m"
  using assms
  by (auto simp: market_withdraw_def bind_r_eq_Ok supply_pool_def debt_pool_def collateral_pool_def
      dest!: sv_withdraw_atoms_pools sp_withdraw_Ok)

lemma market_withdraw_all_effect:
  assumes "market_withdraw_all F m p = Ok (m', p', n)"
  shows "supply_pool m' - uval (shares p') = supply_pool m - uval (shares p)"
    "debt_pool m' = debt_pool m" "collateral_pool m' = collateral_pool m"
    "shares p' = uf_zero"
  using assms
  by (auto simp: market_withdraw_all_def bind_r_eq_Ok supply_pool_def debt_pool_def
      collateral_pool_def sp_withdraw_all_def uval_zero dest!: sv_withdraw_shares_pools)

lemma market_withdraw_collateral_effect:
  assumes "market_withdraw_collateral F m p a co so = Ok (m', p')"
  shows "supply_pool m' = supply_pool m" "debt_pool m' = debt_pool m"
    "collateral_pool m' = collateral_pool m - uint a"
    "uint (collateral_deposited_atoms p') = uint (collateral_deposited_atoms p) - uint a"
    "borrowed_shares p' = borrowed_shares p"
    "swept_collateral_atoms p = 0" "swept_collateral_atoms p' = 0"
  using assms
  by (auto simp: market_withdraw_collateral_def bind_r_eq_Ok ensure_inactive_Ok pool_defs
      dest!: bp_withdraw_collateral_Ok cv_withdraw_collateral_Ok split: if_splits)

lemma market_borrow_effect:
  assumes "market_borrow F m p a so co = Ok (m', p')"
  shows "supply_pool m' = supply_pool m"
    "debt_pool m' - uval (borrowed_shares p') = debt_pool m - uval (borrowed_shares p)"
    "collateral_pool m' = collateral_pool m"
    "collateral_deposited_atoms p' = collateral_deposited_atoms p"
    "swept_collateral_atoms p = 0" "swept_collateral_atoms p' = 0"
  using assms
  by (auto simp: market_borrow_def Let_def bind_r_eq_Ok ensure_inactive_Ok supply_pool_def
      debt_pool_def collateral_pool_def dest!: sv_borrow_pools bp_borrow_Ok split: if_splits)

lemma market_repay_effect:
  assumes "market_repay F m p a = Ok (m', p')"
  shows "supply_pool m' = supply_pool m"
    "debt_pool m' - uval (borrowed_shares p') = debt_pool m - uval (borrowed_shares p)"
    "collateral_pool m' = collateral_pool m"
    "collateral_deposited_atoms p' = collateral_deposited_atoms p"
    "swept_collateral_atoms p = 0" "swept_collateral_atoms p' = 0"
  using assms
  by (auto simp: market_repay_def bind_r_eq_Ok ensure_inactive_Ok supply_pool_def
      debt_pool_def collateral_pool_def dest!: sv_repay_atoms_pools bp_repay_Ok)

lemma market_repay_all_effect:
  assumes "market_repay_all F m p = Ok (m', p', n)"
  shows "supply_pool m' = supply_pool m"
    "debt_pool m' - uval (borrowed_shares p') = debt_pool m - uval (borrowed_shares p)"
    "collateral_pool m' = collateral_pool m"
    "collateral_deposited_atoms p' = collateral_deposited_atoms p"
    "swept_collateral_atoms p = 0" "swept_collateral_atoms p' = 0" "borrowed_shares p' = uf_zero"
  using assms
  by (auto simp: market_repay_all_def bp_repay_all_def bind_r_eq_Ok ensure_inactive_Ok
      supply_pool_def debt_pool_def collateral_pool_def uval_zero dest!: sv_repay_shares_pools)

lemma market_liquidate_effect:
  assumes "market_liquidate F m p co so mx = Ok (m', p', r)"
  shows "supply_pool m' = supply_pool m"
    "debt_pool m' - uval (borrowed_shares p') = debt_pool m - uval (borrowed_shares p)"
    "collateral_pool m' - uint (collateral_deposited_atoms p')
       = collateral_pool m - uint (collateral_deposited_atoms p)"
    "swept_collateral_atoms p = 0" "swept_collateral_atoms p' = 0"
  using assms
  by (auto simp: market_liquidate_def Let_def bind_r_eq_Ok ensure_inactive_Ok supply_pool_def
      debt_pool_def collateral_pool_def
      dest!: repay_atoms_capped_pools bp_liquidate_Ok cv_withdraw_collateral_Ok split: if_splits)

lemma market_begin_capital_sweep_effect:
  assumes "market_begin_capital_sweep F m p co so = Ok (m', p', h)"
  shows "supply_pool m' = supply_pool m" "debt_pool m' = debt_pool m"
    "collateral_pool m' = collateral_pool m - uint (collateral_deposited_atoms p)"
    "borrowed_shares p' = borrowed_shares p" "collateral_deposited_atoms p' = 0"
    "swept_collateral_atoms p = 0"
    "swept_collateral_atoms p' = collateral_deposited_atoms p"
  using assms
  by (auto simp: market_begin_capital_sweep_def bp_begin_capital_sweep_def bind_r_eq_Ok
      ensure_inactive_Ok pool_defs dest!: cv_withdraw_collateral_Ok split: if_splits)

lemma market_settle_capital_sweep_effect:
  assumes "market_settle_capital_sweep F m p co so mx mc = Ok (m', p', r)"
  shows "supply_pool m' = supply_pool m"
    "debt_pool m' - uval (borrowed_shares p') = debt_pool m - uval (borrowed_shares p)"
    "collateral_pool m' = collateral_pool m + uint (collateral_deposited_atoms p')"
    "swept_collateral_atoms p \<noteq> 0" "swept_collateral_atoms p' = 0"
  using assms
  by (auto simp: market_settle_capital_sweep_def capital_sweep_pending_def Let_def bind_r_eq_Ok
      supply_pool_def debt_pool_def collateral_pool_def
      dest!: repay_atoms_capped_pools bp_settle_capital_sweep_Ok cv_deposit_collateral_Ok
      split: if_splits)

lemma market_socialize_loss_effect:
  assumes "market_socialize_loss F m p co so = Ok (m', p', debt, c)"
  shows "supply_pool m' = supply_pool m"
    "debt_pool m' = debt_pool m - uval (borrowed_shares p)" "borrowed_shares p' = uf_zero"
    "collateral_pool m' = collateral_pool m - uint (collateral_deposited_atoms p)"
    "collateral_deposited_atoms p' = 0"
    "swept_collateral_atoms p = 0" "swept_collateral_atoms p' = 0"
    "c = collateral_deposited_atoms p"
  using assms
  by (auto simp: market_socialize_loss_def Let_def bp_repay_all_def bind_r_eq_Ok ensure_inactive_Ok
      supply_pool_def debt_pool_def collateral_pool_def word_uint_eq_iff
      dest!: sv_socialize_loss_pools bp_withdraw_collateral_Ok cv_withdraw_collateral_Ok
      split: if_splits)

end

end
