(* ===== verification/Events.thy ===== *)
theory Events
  imports Market
begin

text \<open>
  The events the program logs, \<open>src/autara-lib/src/event.rs\<close>: the payload records,
    the tag byte
  and the hand-written serialisation of \<open>AutaraEvent\<close>. The derived borsh codecs of
    the payloads
  and of the tag are a parameter, the record \<open>event_codecs\<close>; the locale
    \<open>event_codecs_spec\<close>
  states that each of them reads back what it wrote and leaves the rest of the input.
\<close>

section \<open>Payloads\<close>

record liquidate_event =
  le_market :: pubkey
  le_liquidator :: pubkey
  le_liquidatee_position :: pubkey
  le_supply_mint :: pubkey
  le_collateral_mint :: pubkey
  le_health_before_liquidation :: borrow_position_health
  le_health_after_liquidation :: borrow_position_health
  le_supply_repaid :: u64
  le_collateral_liquidated :: u64
  le_liquidator_fee :: u64

record single_market_transaction_event =
  sm_market :: pubkey
  sm_user :: pubkey
  sm_position :: pubkey
  sm_mint :: pubkey
  sm_amount :: u64
  sm_supply_vault_summary :: supply_vault_summary
  sm_collateral_vault_atoms :: u64
  sm_supply_oracle_rate :: oracle_rate
  sm_collateral_oracle_rate :: oracle_rate

record double_market_transaction_event =
  dm_market :: pubkey
  dm_user :: pubkey
  dm_position :: pubkey
  dm_mint_in :: pubkey
  dm_amount_in :: u64
  dm_mint_out :: pubkey
  dm_amount_out :: u64
  dm_supply_vault_summary :: supply_vault_summary
  dm_collateral_vault_atoms :: u64
  dm_supply_oracle_rate :: oracle_rate
  dm_collateral_oracle_rate :: oracle_rate

record reedeem_fee_event =
  rf_market :: pubkey
  rf_fee_receiver :: pubkey
  rf_fee_amount :: u64
  rf_mint :: pubkey
  rf_supply_vault_snapshot :: supply_vault_summary

record socialize_loss_event =
  sl_market :: pubkey
  sl_position :: pubkey
  sl_debt_socialized :: u64
  sl_collateral_liquidated :: u64

record donate_supply_event =
  ds_market :: pubkey
  ds_donor :: pubkey
  ds_mint :: pubkey
  ds_amount :: u64

record capital_sweep_started_event =
  ss_market :: pubkey
  ss_curator :: pubkey
  ss_position :: pubkey
  ss_collateral_mint :: pubkey
  ss_health_before_sweep :: borrow_position_health
  ss_collateral_swept :: u64

record capital_sweep_settled_event =
  se_market :: pubkey
  se_curator :: pubkey
  se_position :: pubkey
  se_supply_mint :: pubkey
  se_collateral_mint :: pubkey
  se_health_before_settlement :: borrow_position_health
  se_health_after_settlement :: borrow_position_health
  se_supply_repaid :: u64
  se_collateral_liquidated :: u64
  se_curator_bonus :: u64
  se_collateral_returned :: u64

record liquidator_whitelist_updated_event =
  wu_market :: pubkey
  wu_curator :: pubkey
  wu_liquidator :: pubkey
  wu_active_whitelisted_liquidators :: u64

datatype autara_event =
    EvLiquidate liquidate_event
  | EvSupply single_market_transaction_event
  | EvWithdraw single_market_transaction_event
  | EvDepositCollateral single_market_transaction_event
  | EvWithdrawCollateral single_market_transaction_event
  | EvBorrowAndDeposit double_market_transaction_event
  | EvWithdrawAndRepay double_market_transaction_event
  | EvBorrow single_market_transaction_event
  | EvRepay single_market_transaction_event
  | EvReedeemProtocolFees reedeem_fee_event
  | EvReedeemCuratorFees reedeem_fee_event
  | EvSocializeLoss socialize_loss_event
  | EvDonateSupply donate_supply_event
  | EvCapitalSweepStarted capital_sweep_started_event
  | EvCapitalSweepSettled capital_sweep_settled_event
  | EvLiquidatorWhitelistEntryAdded liquidator_whitelist_updated_event
  | EvLiquidatorWhitelistEntryRemoved liquidator_whitelist_updated_event

datatype aurata_event_tag =
    TagLiquidate | TagSupply | TagWithdraw | TagDepositCollateral | TagWithdrawCollateral
  | TagBorrow | TagRepay | TagRedeemProtocolFees | TagRedeemCuratorFees
  | TagDepositAndBorrow | TagWithdrawAndRepay | TagSocializeLoss | TagDonation
  | TagCapitalSweepStarted | TagCapitalSweepSettled | TagLiquidatorWhitelistEntryAdded |
    TagLiquidatorWhitelistEntryRemoved

section \<open>Serialisation\<close>

type_synonym 'a codec = "('a \<Rightarrow> u8 list) \<times> (u8 list \<Rightarrow> ('a \<times>
  u8 list) option)"

record event_codecs =
  tag_codec :: "aurata_event_tag codec"
  le_codec :: "liquidate_event codec"
  sm_codec :: "single_market_transaction_event codec"
  dm_codec :: "double_market_transaction_event codec"
  rf_codec :: "reedeem_fee_event codec"
  sl_codec :: "socialize_loss_event codec"
  ds_codec :: "donate_supply_event codec"
  ss_codec :: "capital_sweep_started_event codec"
  se_codec :: "capital_sweep_settled_event codec"
  wu_codec :: "liquidator_whitelist_updated_event codec"

definition write_with :: "'a codec \<Rightarrow> 'a \<Rightarrow> u8 list" where
  "write_with c x = fst c x"

definition read_with :: "'a codec \<Rightarrow> ('a \<Rightarrow> 'b) \<Rightarrow> u8 list
  \<Rightarrow> ('b \<times> u8 list) option" where
  "read_with c f bytes = map_option (\<lambda>(x, rest). (f x, rest)) (snd c bytes)"

fun event_serialize :: "event_codecs \<Rightarrow> autara_event \<Rightarrow> u8 list" where
  "event_serialize B (EvLiquidate e) =
     write_with (tag_codec B) TagLiquidate @ write_with (le_codec B) e"
| "event_serialize B (EvSupply e) =
     write_with (tag_codec B) TagSupply @ write_with (sm_codec B) e"
| "event_serialize B (EvWithdraw e) =
     write_with (tag_codec B) TagWithdraw @ write_with (sm_codec B) e"
| "event_serialize B (EvDepositCollateral e) =
     write_with (tag_codec B) TagDepositCollateral @ write_with (sm_codec B) e"
| "event_serialize B (EvWithdrawCollateral e) =
     write_with (tag_codec B) TagWithdrawCollateral @ write_with (sm_codec B) e"
| "event_serialize B (EvBorrowAndDeposit e) =
     write_with (tag_codec B) TagDepositAndBorrow @ write_with (dm_codec B) e"
| "event_serialize B (EvWithdrawAndRepay e) =
     write_with (tag_codec B) TagWithdrawAndRepay @ write_with (dm_codec B) e"
| "event_serialize B (EvBorrow e) =
     write_with (tag_codec B) TagBorrow @ write_with (sm_codec B) e"
| "event_serialize B (EvRepay e) =
     write_with (tag_codec B) TagRepay @ write_with (sm_codec B) e"
| "event_serialize B (EvReedeemProtocolFees e) =
     write_with (tag_codec B) TagRedeemProtocolFees @ write_with (rf_codec B) e"
| "event_serialize B (EvReedeemCuratorFees e) =
     write_with (tag_codec B) TagRedeemCuratorFees @ write_with (rf_codec B) e"
| "event_serialize B (EvSocializeLoss e) =
     write_with (tag_codec B) TagSocializeLoss @ write_with (sl_codec B) e"
| "event_serialize B (EvDonateSupply e) =
     write_with (tag_codec B) TagDonation @ write_with (ds_codec B) e"
| "event_serialize B (EvCapitalSweepStarted e) =
     write_with (tag_codec B) TagCapitalSweepStarted @ write_with (ss_codec B) e"
| "event_serialize B (EvCapitalSweepSettled e) =
     write_with (tag_codec B) TagCapitalSweepSettled @ write_with (se_codec B) e"
| "event_serialize B (EvLiquidatorWhitelistEntryAdded e) =
     write_with (tag_codec B) TagLiquidatorWhitelistEntryAdded @ write_with (wu_codec B) e"
| "event_serialize B (EvLiquidatorWhitelistEntryRemoved e) =
     write_with (tag_codec B) TagLiquidatorWhitelistEntryRemoved @ write_with (wu_codec B) e"

fun event_read_payload ::
    "event_codecs \<Rightarrow> aurata_event_tag \<Rightarrow> u8 list \<Rightarrow> (autara_event
      \<times> u8 list) option" where
  "event_read_payload B TagLiquidate bytes = read_with (le_codec B) EvLiquidate bytes"
| "event_read_payload B TagSupply bytes = read_with (sm_codec B) EvSupply bytes"
| "event_read_payload B TagWithdraw bytes = read_with (sm_codec B) EvWithdraw bytes"
| "event_read_payload B TagDepositCollateral bytes = read_with (sm_codec B) EvDepositCollateral
  bytes"
| "event_read_payload B TagWithdrawCollateral bytes = read_with (sm_codec B) EvWithdrawCollateral
  bytes"
| "event_read_payload B TagBorrow bytes = read_with (sm_codec B) EvBorrow bytes"
| "event_read_payload B TagRepay bytes = read_with (sm_codec B) EvRepay bytes"
| "event_read_payload B TagRedeemProtocolFees bytes = read_with (rf_codec B) EvReedeemProtocolFees
  bytes"
| "event_read_payload B TagRedeemCuratorFees bytes = read_with (rf_codec B) EvReedeemCuratorFees
  bytes"
| "event_read_payload B TagDepositAndBorrow bytes = read_with (dm_codec B) EvBorrowAndDeposit bytes"
| "event_read_payload B TagWithdrawAndRepay bytes = read_with (dm_codec B) EvWithdrawAndRepay bytes"
| "event_read_payload B TagSocializeLoss bytes = read_with (sl_codec B) EvSocializeLoss bytes"
| "event_read_payload B TagDonation bytes = read_with (ds_codec B) EvDonateSupply bytes"
| "event_read_payload B TagCapitalSweepStarted bytes = read_with (ss_codec B)
  EvCapitalSweepStarted bytes"
| "event_read_payload B TagCapitalSweepSettled bytes = read_with (se_codec B)
  EvCapitalSweepSettled bytes"
| "event_read_payload B TagLiquidatorWhitelistEntryAdded bytes = read_with (wu_codec B)
  EvLiquidatorWhitelistEntryAdded bytes"
| "event_read_payload B TagLiquidatorWhitelistEntryRemoved bytes = read_with (wu_codec B)
  EvLiquidatorWhitelistEntryRemoved bytes"

definition event_deserialize_reader ::
    "event_codecs \<Rightarrow> u8 list \<Rightarrow> (autara_event \<times> u8 list) option" where
  "event_deserialize_reader B bytes =
     (case snd (tag_codec B) bytes of
        None \<Rightarrow> None
      | Some (tag, rest) \<Rightarrow> event_read_payload B tag rest)"

section \<open>Round trip\<close>

definition codec_ok :: "'a codec \<Rightarrow> bool" where
  "codec_ok c \<longleftrightarrow> (\<forall>x rest. snd c (fst c x @ rest) = Some (x, rest))"

locale event_codecs_spec =
  fixes B :: event_codecs
  assumes tag_ok: "codec_ok (tag_codec B)"
    and le_ok: "codec_ok (le_codec B)"
    and sm_ok: "codec_ok (sm_codec B)"
    and dm_ok: "codec_ok (dm_codec B)"
    and rf_ok: "codec_ok (rf_codec B)"
    and sl_ok: "codec_ok (sl_codec B)"
    and ds_ok: "codec_ok (ds_codec B)"
    and ss_ok: "codec_ok (ss_codec B)"
    and se_ok: "codec_ok (se_codec B)"
    and wu_ok: "codec_ok (wu_codec B)"
begin

lemma read_write: "codec_ok c \<Longrightarrow> read_with c f (write_with c x @ rest) = Some (f x,
  rest)"
  by (simp add: codec_ok_def read_with_def write_with_def)

lemma read_tag: "snd (tag_codec B) (write_with (tag_codec B) t @ rest) = Some (t, rest)"
  using tag_ok by (simp add: codec_ok_def write_with_def)

lemmas codecs_ok = le_ok sm_ok dm_ok rf_ok sl_ok ds_ok ss_ok se_ok wu_ok

lemma event_roundtrip:
  "event_deserialize_reader B (event_serialize B e @ rest) = Some (e, rest)"
  by (cases e) (simp_all add: event_deserialize_reader_def read_tag read_write codecs_ok)

end

section \<open>The wire format\<close>

text \<open>
  Borsh writes integers little endian at their width, a fixed-point number as its 128 bits, a
  struct as its fields in order and a field-less enum as one byte, its index.
    \<open>borsh_reference\<close>
  is this format for the payloads; it satisfies the laws.
\<close>

named_theorems codec_oks \<open>codecs that read back what they wrote\<close>

fun int_bytes :: "nat \<Rightarrow> int \<Rightarrow> u8 list" where
  "int_bytes 0 v = []"
| "int_bytes (Suc n) v = word_of_int v # int_bytes n (v div 256)"

fun bytes_int :: "u8 list \<Rightarrow> int" where
  "bytes_int [] = 0"
| "bytes_int (b # bs) = uint b + 256 * bytes_int bs"

definition word_codec :: "nat \<Rightarrow> 'w::len word codec" where
  "word_codec n = (\<lambda>w. int_bytes n (uint w),
     \<lambda>bytes. if length bytes < n then None
             else Some (word_of_int (bytes_int (take n bytes)), drop n bytes))"

definition iso_codec :: "('b \<Rightarrow> 'a) \<Rightarrow> ('a \<Rightarrow> 'b) \<Rightarrow>
  'a codec \<Rightarrow> 'b codec" where
  "iso_codec f g c = (\<lambda>x. fst c (f x), read_with c g)"

definition pair_codec :: "'a codec \<Rightarrow> 'b codec \<Rightarrow> ('a \<times> 'b) codec"
  where
  "pair_codec c d = (\<lambda>(x, y). fst c x @ fst d y,
     \<lambda>bytes. case snd c bytes of None \<Rightarrow> None
       | Some (x, rest) \<Rightarrow> read_with d (Pair x) rest)"

lemma length_int_bytes [simp]: "length (int_bytes n v) = n"
  by (induction n arbitrary: v) simp_all

lemma bytes_int_int_bytes: "bytes_int (int_bytes n v) = v mod 256 ^ n"
proof (induction n arbitrary: v)
  case (Suc n)
  have "v mod 256 ^ Suc n = v mod 256 + 256 * (v div 256 mod 256 ^ n)"
    by (simp add: zmod_zmult2_eq)
  then show ?case by (simp add: Suc uint_word_of_int)
qed simp

lemma word_codec_ok:
  assumes "8 * n = LENGTH('w::len)"
  shows "codec_ok (word_codec n :: 'w word codec)"
proof -
  have "(256::int) ^ n = 2 ^ LENGTH('w)" unfolding assms [symmetric] by (simp add: power_mult)
  then have "uint w mod 256 ^ n = uint w" for w :: "'w word"
    using uint_bounded [of w] by simp
  then show ?thesis by (simp add: codec_ok_def word_codec_def bytes_int_int_bytes)
qed

lemma word_codecs [codec_oks]:
  "codec_ok (word_codec 32 :: pubkey codec)" "codec_ok (word_codec 8 :: u64 codec)"
  "codec_ok (word_codec 16 :: u128 codec)" "codec_ok (word_codec 1 :: u8 codec)"
  by (rule word_codec_ok, simp)+

lemma iso_codec_ok: "codec_ok c \<Longrightarrow> (\<And>x. g (f x) = x) \<Longrightarrow>
  codec_ok (iso_codec f g c)"
  by (simp add: codec_ok_def iso_codec_def read_with_def)

lemma pair_codec_ok [codec_oks]: "codec_ok c \<Longrightarrow> codec_ok d \<Longrightarrow>
  codec_ok (pair_codec c d)"
  by (simp add: codec_ok_def pair_codec_def read_with_def)

definition ifixed_codec :: "ifixed codec" where
  "ifixed_codec = iso_codec if_bits IFixedPoint (word_codec 16)"

definition irps_codec :: "interest_rate_per_second codec" where
  "irps_codec = iso_codec irps_rate InterestRatePerSecond ifixed_codec"

lemma ifixed_codec_ok [codec_oks]: "codec_ok ifixed_codec"
  unfolding ifixed_codec_def by (intro iso_codec_ok codec_oks) simp

lemma irps_codec_ok [codec_oks]: "codec_ok irps_codec"
  unfolding irps_codec_def by (intro iso_codec_ok codec_oks) simp

definition tag_index :: "aurata_event_tag \<Rightarrow> u8" where
  "tag_index t = (case t of
      TagLiquidate \<Rightarrow> 0
    | TagSupply \<Rightarrow> 1
    | TagWithdraw \<Rightarrow> 2
    | TagDepositCollateral \<Rightarrow> 3
    | TagWithdrawCollateral \<Rightarrow> 4
    | TagBorrow \<Rightarrow> 5
    | TagRepay \<Rightarrow> 6
    | TagRedeemProtocolFees \<Rightarrow> 7
    | TagRedeemCuratorFees \<Rightarrow> 8
    | TagDepositAndBorrow \<Rightarrow> 9
    | TagWithdrawAndRepay \<Rightarrow> 10
    | TagSocializeLoss \<Rightarrow> 11
    | TagDonation \<Rightarrow> 12
    | TagCapitalSweepStarted \<Rightarrow> 13
    | TagCapitalSweepSettled \<Rightarrow> 14
    | TagLiquidatorWhitelistEntryAdded \<Rightarrow> 15
    | TagLiquidatorWhitelistEntryRemoved \<Rightarrow> 16)"

definition all_tags :: "aurata_event_tag list" where
  "all_tags =
     [TagLiquidate,
      TagSupply,
      TagWithdraw,
      TagDepositCollateral,
      TagWithdrawCollateral,
      TagBorrow,
      TagRepay,
      TagRedeemProtocolFees,
      TagRedeemCuratorFees,
      TagDepositAndBorrow,
      TagWithdrawAndRepay,
      TagSocializeLoss,
      TagDonation,
      TagCapitalSweepStarted,
      TagCapitalSweepSettled,
      TagLiquidatorWhitelistEntryAdded,
      TagLiquidatorWhitelistEntryRemoved]"

definition tag_codec_ref :: "aurata_event_tag codec" where
  "tag_codec_ref = (\<lambda>t. [tag_index t],
     \<lambda>bytes. case bytes of [] \<Rightarrow> None
       | b # rest \<Rightarrow> (if uint b < int (length all_tags) then Some (all_tags ! unat b,
         rest) else None))"

lemma tag_codec_ref_ok: "codec_ok tag_codec_ref"
proof -
  have "uint (tag_index t) < int (length all_tags) \<and> all_tags ! unat (tag_index t) = t" for t
    by (cases t) (simp_all add: tag_index_def all_tags_def)
  then show ?thesis by (simp add: codec_ok_def tag_codec_ref_def)
qed

definition health_codec_ref :: "borrow_position_health codec" where
  "health_codec_ref = iso_codec (\<lambda>r. (ltv r, borrowed_atoms r, collateral_atoms r,
    borrow_value r, collateral_value r))
     (\<lambda>(x0, x1, x2, x3, x4). \<lparr>ltv = x0, borrowed_atoms = x1, collateral_atoms = x2,
       borrow_value = x3, collateral_value = x4\<rparr>)
     (pair_codec ifixed_codec (pair_codec (word_codec 8 :: u64 codec) (pair_codec (word_codec 8 ::
       u64 codec) (pair_codec ifixed_codec (ifixed_codec)))))"

lemma health_codec_ref_ok [codec_oks]: "codec_ok health_codec_ref"
  unfolding health_codec_ref_def by (intro iso_codec_ok codec_oks) simp

definition summary_codec_ref :: "supply_vault_summary codec" where
  "summary_codec_ref = iso_codec (\<lambda>r. (sum_last_update_unix_timestamp r, sum_total_supply
    r, sum_total_borrow r, sum_pending_curator_fee_atoms r, sum_pending_protocol_fee_atoms r,
    sum_utilisation_rate r, sum_borrow_interest_rate r, sum_lending_interest_rate r))
     (\<lambda>(x0, x1, x2, x3, x4, x5, x6, x7). \<lparr>sum_last_update_unix_timestamp = x0,
       sum_total_supply = x1, sum_total_borrow = x2, sum_pending_curator_fee_atoms = x3,
       sum_pending_protocol_fee_atoms = x4, sum_utilisation_rate = x5, sum_borrow_interest_rate =
       x6, sum_lending_interest_rate = x7\<rparr>)
     (pair_codec (word_codec 8 :: u64 codec) (pair_codec (word_codec 8 :: u64 codec) (pair_codec
       (word_codec 8 :: u64 codec) (pair_codec (word_codec 8 :: u64 codec) (pair_codec (word_codec
       8 :: u64 codec) (pair_codec ifixed_codec (pair_codec irps_codec (irps_codec))))))))"

lemma summary_codec_ref_ok [codec_oks]: "codec_ok summary_codec_ref"
  unfolding summary_codec_ref_def by (intro iso_codec_ok codec_oks) simp

definition rate_codec_ref :: "oracle_rate codec" where
  "rate_codec_ref = iso_codec (\<lambda>r. (rate r, confidence r))
     (\<lambda>(x0, x1). \<lparr>rate = x0, confidence = x1\<rparr>)
     (pair_codec ifixed_codec (ifixed_codec))"

lemma rate_codec_ref_ok [codec_oks]: "codec_ok rate_codec_ref"
  unfolding rate_codec_ref_def by (intro iso_codec_ok codec_oks) simp

definition le_codec_ref :: "liquidate_event codec" where
  "le_codec_ref = iso_codec (\<lambda>r. (le_market r, le_liquidator r, le_liquidatee_position r,
    le_supply_mint r, le_collateral_mint r, le_health_before_liquidation r,
    le_health_after_liquidation r, le_supply_repaid r, le_collateral_liquidated r,
    le_liquidator_fee r))
     (\<lambda>(x0, x1, x2, x3, x4, x5, x6, x7, x8, x9). \<lparr>le_market = x0, le_liquidator =
       x1, le_liquidatee_position = x2, le_supply_mint = x3, le_collateral_mint = x4,
       le_health_before_liquidation = x5, le_health_after_liquidation = x6, le_supply_repaid = x7,
       le_collateral_liquidated = x8, le_liquidator_fee = x9\<rparr>)
     (pair_codec (word_codec 32 :: pubkey codec) (pair_codec (word_codec 32 :: pubkey codec)
       (pair_codec (word_codec 32 :: pubkey codec) (pair_codec (word_codec 32 :: pubkey codec)
       (pair_codec (word_codec 32 :: pubkey codec) (pair_codec health_codec_ref (pair_codec
       health_codec_ref (pair_codec (word_codec 8 :: u64 codec) (pair_codec (word_codec 8 :: u64
       codec) ((word_codec 8 :: u64 codec)))))))))))"

lemma le_codec_ref_ok [codec_oks]: "codec_ok le_codec_ref"
  unfolding le_codec_ref_def by (intro iso_codec_ok codec_oks) simp

definition sm_codec_ref :: "single_market_transaction_event codec" where
  "sm_codec_ref = iso_codec (\<lambda>r. (sm_market r, sm_user r, sm_position r, sm_mint r,
    sm_amount r, sm_supply_vault_summary r, sm_collateral_vault_atoms r, sm_supply_oracle_rate r,
    sm_collateral_oracle_rate r))
     (\<lambda>(x0, x1, x2, x3, x4, x5, x6, x7, x8). \<lparr>sm_market = x0, sm_user = x1,
       sm_position = x2, sm_mint = x3, sm_amount = x4, sm_supply_vault_summary = x5,
       sm_collateral_vault_atoms = x6, sm_supply_oracle_rate = x7, sm_collateral_oracle_rate =
       x8\<rparr>)
     (pair_codec (word_codec 32 :: pubkey codec) (pair_codec (word_codec 32 :: pubkey codec)
       (pair_codec (word_codec 32 :: pubkey codec) (pair_codec (word_codec 32 :: pubkey codec)
       (pair_codec (word_codec 8 :: u64 codec) (pair_codec summary_codec_ref (pair_codec
       (word_codec 8 :: u64 codec) (pair_codec rate_codec_ref (rate_codec_ref)))))))))"

lemma sm_codec_ref_ok [codec_oks]: "codec_ok sm_codec_ref"
  unfolding sm_codec_ref_def by (intro iso_codec_ok codec_oks) simp

definition dm_codec_ref :: "double_market_transaction_event codec" where
  "dm_codec_ref = iso_codec (\<lambda>r. (dm_market r, dm_user r, dm_position r, dm_mint_in r,
    dm_amount_in r, dm_mint_out r, dm_amount_out r, dm_supply_vault_summary r,
    dm_collateral_vault_atoms r, dm_supply_oracle_rate r, dm_collateral_oracle_rate r))
     (\<lambda>(x0, x1, x2, x3, x4, x5, x6, x7, x8, x9, x10). \<lparr>dm_market = x0, dm_user =
       x1, dm_position = x2, dm_mint_in = x3, dm_amount_in = x4, dm_mint_out = x5, dm_amount_out =
       x6, dm_supply_vault_summary = x7, dm_collateral_vault_atoms = x8, dm_supply_oracle_rate =
       x9, dm_collateral_oracle_rate = x10\<rparr>)
     (pair_codec (word_codec 32 :: pubkey codec) (pair_codec (word_codec 32 :: pubkey codec)
       (pair_codec (word_codec 32 :: pubkey codec) (pair_codec (word_codec 32 :: pubkey codec)
       (pair_codec (word_codec 8 :: u64 codec) (pair_codec (word_codec 32 :: pubkey codec)
       (pair_codec (word_codec 8 :: u64 codec) (pair_codec summary_codec_ref (pair_codec
       (word_codec 8 :: u64 codec) (pair_codec rate_codec_ref (rate_codec_ref)))))))))))"

lemma dm_codec_ref_ok [codec_oks]: "codec_ok dm_codec_ref"
  unfolding dm_codec_ref_def by (intro iso_codec_ok codec_oks) simp

definition rf_codec_ref :: "reedeem_fee_event codec" where
  "rf_codec_ref = iso_codec (\<lambda>r. (rf_market r, rf_fee_receiver r, rf_fee_amount r, rf_mint
    r, rf_supply_vault_snapshot r))
     (\<lambda>(x0, x1, x2, x3, x4). \<lparr>rf_market = x0, rf_fee_receiver = x1, rf_fee_amount =
       x2, rf_mint = x3, rf_supply_vault_snapshot = x4\<rparr>)
     (pair_codec (word_codec 32 :: pubkey codec) (pair_codec (word_codec 32 :: pubkey codec)
       (pair_codec (word_codec 8 :: u64 codec) (pair_codec (word_codec 32 :: pubkey codec)
       (summary_codec_ref)))))"

lemma rf_codec_ref_ok [codec_oks]: "codec_ok rf_codec_ref"
  unfolding rf_codec_ref_def by (intro iso_codec_ok codec_oks) simp

definition sl_codec_ref :: "socialize_loss_event codec" where
  "sl_codec_ref = iso_codec (\<lambda>r. (sl_market r, sl_position r, sl_debt_socialized r,
    sl_collateral_liquidated r))
     (\<lambda>(x0, x1, x2, x3). \<lparr>sl_market = x0, sl_position = x1, sl_debt_socialized =
       x2, sl_collateral_liquidated = x3\<rparr>)
     (pair_codec (word_codec 32 :: pubkey codec) (pair_codec (word_codec 32 :: pubkey codec)
       (pair_codec (word_codec 8 :: u64 codec) ((word_codec 8 :: u64 codec)))))"

lemma sl_codec_ref_ok [codec_oks]: "codec_ok sl_codec_ref"
  unfolding sl_codec_ref_def by (intro iso_codec_ok codec_oks) simp

definition ds_codec_ref :: "donate_supply_event codec" where
  "ds_codec_ref = iso_codec (\<lambda>r. (ds_market r, ds_donor r, ds_mint r, ds_amount r))
     (\<lambda>(x0, x1, x2, x3). \<lparr>ds_market = x0, ds_donor = x1, ds_mint = x2, ds_amount =
       x3\<rparr>)
     (pair_codec (word_codec 32 :: pubkey codec) (pair_codec (word_codec 32 :: pubkey codec)
       (pair_codec (word_codec 32 :: pubkey codec) ((word_codec 8 :: u64 codec)))))"

lemma ds_codec_ref_ok [codec_oks]: "codec_ok ds_codec_ref"
  unfolding ds_codec_ref_def by (intro iso_codec_ok codec_oks) simp

definition ss_codec_ref :: "capital_sweep_started_event codec" where
  "ss_codec_ref = iso_codec (\<lambda>r. (ss_market r, ss_curator r, ss_position r,
    ss_collateral_mint r, ss_health_before_sweep r, ss_collateral_swept r))
     (\<lambda>(x0, x1, x2, x3, x4, x5). \<lparr>ss_market = x0, ss_curator = x1, ss_position =
       x2, ss_collateral_mint = x3, ss_health_before_sweep = x4, ss_collateral_swept = x5\<rparr>)
     (pair_codec (word_codec 32 :: pubkey codec) (pair_codec (word_codec 32 :: pubkey codec)
       (pair_codec (word_codec 32 :: pubkey codec) (pair_codec (word_codec 32 :: pubkey codec)
       (pair_codec health_codec_ref ((word_codec 8 :: u64 codec)))))))"

lemma ss_codec_ref_ok [codec_oks]: "codec_ok ss_codec_ref"
  unfolding ss_codec_ref_def by (intro iso_codec_ok codec_oks) simp

definition se_codec_ref :: "capital_sweep_settled_event codec" where
  "se_codec_ref = iso_codec (\<lambda>r. (se_market r, se_curator r, se_position r, se_supply_mint
    r, se_collateral_mint r, se_health_before_settlement r, se_health_after_settlement r,
    se_supply_repaid r, se_collateral_liquidated r, se_curator_bonus r, se_collateral_returned r))
     (\<lambda>(x0, x1, x2, x3, x4, x5, x6, x7, x8, x9, x10). \<lparr>se_market = x0, se_curator =
       x1, se_position = x2, se_supply_mint = x3, se_collateral_mint = x4,
       se_health_before_settlement = x5, se_health_after_settlement = x6, se_supply_repaid = x7,
       se_collateral_liquidated = x8, se_curator_bonus = x9, se_collateral_returned = x10\<rparr>)
     (pair_codec (word_codec 32 :: pubkey codec) (pair_codec (word_codec 32 :: pubkey codec)
       (pair_codec (word_codec 32 :: pubkey codec) (pair_codec (word_codec 32 :: pubkey codec)
       (pair_codec (word_codec 32 :: pubkey codec) (pair_codec health_codec_ref (pair_codec
       health_codec_ref (pair_codec (word_codec 8 :: u64 codec) (pair_codec (word_codec 8 :: u64
       codec) (pair_codec (word_codec 8 :: u64 codec) ((word_codec 8 :: u64 codec))))))))))))"

lemma se_codec_ref_ok [codec_oks]: "codec_ok se_codec_ref"
  unfolding se_codec_ref_def by (intro iso_codec_ok codec_oks) simp

definition wu_codec_ref :: "liquidator_whitelist_updated_event codec" where
  "wu_codec_ref = iso_codec (\<lambda>r. (wu_market r, wu_curator r, wu_liquidator r,
    wu_active_whitelisted_liquidators r))
     (\<lambda>(x0, x1, x2, x3). \<lparr>wu_market = x0, wu_curator = x1, wu_liquidator = x2,
       wu_active_whitelisted_liquidators = x3\<rparr>)
     (pair_codec (word_codec 32 :: pubkey codec) (pair_codec (word_codec 32 :: pubkey codec)
       (pair_codec (word_codec 32 :: pubkey codec) ((word_codec 8 :: u64 codec)))))"

lemma wu_codec_ref_ok [codec_oks]: "codec_ok wu_codec_ref"
  unfolding wu_codec_ref_def by (intro iso_codec_ok codec_oks) simp

definition borsh_reference :: event_codecs where
  "borsh_reference = \<lparr>tag_codec = tag_codec_ref,
     le_codec = le_codec_ref,
     sm_codec = sm_codec_ref,
     dm_codec = dm_codec_ref,
     rf_codec = rf_codec_ref,
     sl_codec = sl_codec_ref,
     ds_codec = ds_codec_ref,
     ss_codec = ss_codec_ref,
     se_codec = se_codec_ref,
     wu_codec = wu_codec_ref\<rparr>"

interpretation borsh_ref: event_codecs_spec borsh_reference
  by unfold_locales (simp_all add: borsh_reference_def tag_codec_ref_ok codec_oks)

text \<open>
  Serialising an event and reading it back yields the event and leaves the rest of the input
  untouched, for every variant: no two variants share a tag.
\<close>

theorem event_serialize_roundtrip:
  assumes "event_codecs_spec B"
  shows "event_deserialize_reader B (event_serialize B e @ rest) = Some (e, rest)"
  using assms by (rule event_codecs_spec.event_roundtrip)

theorem event_serialize_roundtrip_witness:
  "event_deserialize_reader borsh_reference
     (event_serialize borsh_reference (EvDonateSupply
        \<lparr>ds_market = 1, ds_donor = 2, ds_mint = 3, ds_amount = 400\<rparr>) @ [7])
   = Some (EvDonateSupply \<lparr>ds_market = 1, ds_donor = 2, ds_mint = 3, ds_amount =
     400\<rparr>, [7])"
  by (rule event_serialize_roundtrip [OF borsh_ref.event_codecs_spec_axioms])

end
