(* ===== verification/Market_Wrapper.thy ===== *)
theory Market_Wrapper
  imports Events
begin

text \<open>
  \<open>MarketWrapper\<close> (\<open>src/autara-lib/src/state/market_wrapper.rs\<close>): a market together with the two
  oracle rates every operation uses. The only constructors load the rates from the oracle
  accounts of the market's configuration; \<open>try_new\<close> also validates them. The delegating methods
  pass the stored rates to the market; \<open>&mut self\<close> methods return the new wrapper.
\<close>

record market_wrapper =
  mw_market :: market
  mw_supply_oracle :: oracle_rate
  mw_collateral_oracle :: oracle_rate

definition mw_try_new ::
    "fixed_crate \<Rightarrow> runtime \<Rightarrow> market \<Rightarrow> account_view \<Rightarrow> account_view \<Rightarrow> i64
     \<Rightarrow> market_wrapper result" where
  "mw_try_new F R m supply_view collateral_view unix_timestamp =
     bind_r (load_and_validate_oracle_rate F R (sv_oracle_config (m_supply_vault m)) supply_view
               unix_timestamp) (\<lambda>s.
     bind_r (load_and_validate_oracle_rate F R (cv_oracle_config (m_collateral_vault m))
               collateral_view unix_timestamp) (\<lambda>c.
       Ok \<lparr>mw_market = m, mw_supply_oracle = s, mw_collateral_oracle = c\<rparr>))"

definition mw_new_unchecked ::
    "fixed_crate \<Rightarrow> runtime \<Rightarrow> market \<Rightarrow> account_view \<Rightarrow> account_view \<Rightarrow> market_wrapper result" where
  "mw_new_unchecked F R m supply_view collateral_view =
     bind_r (load_oracle_rate_unchecked F R (sv_oracle_config (m_supply_vault m)) supply_view) (\<lambda>s.
     bind_r (load_oracle_rate_unchecked F R (cv_oracle_config (m_collateral_vault m))
               collateral_view) (\<lambda>c.
       Ok \<lparr>mw_market = m, mw_supply_oracle = s, mw_collateral_oracle = c\<rparr>))"

text \<open>\<open>unwrap_or_else(|_| ...)\<close>, with a panic passed on.\<close>

definition mw_try_new_or_unchecked ::
    "fixed_crate \<Rightarrow> runtime \<Rightarrow> market \<Rightarrow> account_view \<Rightarrow> account_view \<Rightarrow> i64
     \<Rightarrow> (market_wrapper \<times> bool) result" where
  "mw_try_new_or_unchecked F R m supply_view collateral_view unix_timestamp =
     (let supply_config = sv_oracle_config (m_supply_vault m);
          collateral_config = cv_oracle_config (m_collateral_vault m) in
      bind_r (load_oracle_price F R (oc_provider supply_config) supply_view) (\<lambda>su.
      bind_r (load_oracle_price F R (oc_provider collateral_config) collateral_view) (\<lambda>cu.
        let sval = uor_validate F su (validation_config supply_config) unix_timestamp;
            cval = uor_validate F cu (validation_config collateral_config) unix_timestamp;
            is_stale = \<not> is_ok sval \<or> \<not> is_ok cval in
        bind_r (case sval of Err _ \<Rightarrow> Ok (unsafe_rate su) | r \<Rightarrow> r) (\<lambda>s.
        bind_r (case cval of Err _ \<Rightarrow> Ok (unsafe_rate cu) | r \<Rightarrow> r) (\<lambda>c.
          Ok (\<lparr>mw_market = m, mw_supply_oracle = s, mw_collateral_oracle = c\<rparr>, is_stale))))))"

definition mw_borrow_position_health ::
    "fixed_crate \<Rightarrow> market_wrapper \<Rightarrow> borrow_position \<Rightarrow> borrow_position_health result" where
  "mw_borrow_position_health F self p =
     market_borrow_position_health F (mw_market self) p (mw_collateral_oracle self)
       (mw_supply_oracle self)"

definition mw_compute_liquidation_result_with_fee ::
    "fixed_crate \<Rightarrow> market_wrapper \<Rightarrow> borrow_position \<Rightarrow> u64
     \<Rightarrow> (borrow_position_health \<times> liquidation_result_with_bonus) result" where
  "mw_compute_liquidation_result_with_fee F self p max_repay_atoms =
     compute_liquidation_result_with_fee F (mw_market self) p (mw_collateral_oracle self)
       (mw_supply_oracle self) max_repay_atoms"

definition get_single_market_transaction_event ::
    "fixed_crate \<Rightarrow> market_wrapper \<Rightarrow> pubkey \<Rightarrow> pubkey \<Rightarrow> pubkey \<Rightarrow> pubkey \<Rightarrow> u64
     \<Rightarrow> single_market_transaction_event result" where
  "get_single_market_transaction_event F self m user position mint atoms =
     bind_r (get_summary F (m_supply_vault (mw_market self))) (\<lambda>snapshot.
       Ok \<lparr>sm_market = m, sm_user = user, sm_position = position, sm_mint = mint,
           sm_amount = atoms, sm_supply_vault_summary = snapshot,
           sm_collateral_vault_atoms = total_collateral_atoms (m_collateral_vault (mw_market self)),
           sm_supply_oracle_rate = mw_supply_oracle self,
           sm_collateral_oracle_rate = mw_collateral_oracle self\<rparr>)"

definition get_double_market_transaction_event ::
    "fixed_crate \<Rightarrow> market_wrapper \<Rightarrow> pubkey \<Rightarrow> pubkey \<Rightarrow> pubkey \<Rightarrow> pubkey \<Rightarrow> u64 \<Rightarrow> pubkey \<Rightarrow> u64
     \<Rightarrow> double_market_transaction_event result" where
  "get_double_market_transaction_event F self m user position mint_in amount_in mint_out amount_out =
     bind_r (get_summary F (m_supply_vault (mw_market self))) (\<lambda>snapshot.
       Ok \<lparr>dm_market = m, dm_user = user, dm_position = position, dm_mint_in = mint_in,
           dm_amount_in = amount_in, dm_mint_out = mint_out, dm_amount_out = amount_out,
           dm_supply_vault_summary = snapshot,
           dm_collateral_vault_atoms = total_collateral_atoms (m_collateral_vault (mw_market self)),
           dm_supply_oracle_rate = mw_supply_oracle self,
           dm_collateral_oracle_rate = mw_collateral_oracle self\<rparr>)"

section \<open>Operations\<close>

definition mw_sync_clock :: "fixed_crate \<Rightarrow> market_wrapper \<Rightarrow> i64 \<Rightarrow> market_wrapper result" where
  "mw_sync_clock F self unix_timestamp =
     bind_r (market_sync_clock F (mw_market self) unix_timestamp) (\<lambda>m.
       Ok (self\<lparr>mw_market := m\<rparr>))"

definition mw_lend ::
    "fixed_crate \<Rightarrow> market_wrapper \<Rightarrow> supply_position \<Rightarrow> u64
     \<Rightarrow> (market_wrapper \<times> supply_position) result" where
  "mw_lend F self p atoms =
     bind_r (market_lend F (mw_market self) p atoms) (\<lambda>(m, p').
       Ok (self\<lparr>mw_market := m\<rparr>, p'))"

definition mw_withdraw ::
    "fixed_crate \<Rightarrow> market_wrapper \<Rightarrow> supply_position \<Rightarrow> u64
     \<Rightarrow> (market_wrapper \<times> supply_position) result" where
  "mw_withdraw F self p atoms =
     bind_r (market_withdraw F (mw_market self) p atoms) (\<lambda>(m, p').
       Ok (self\<lparr>mw_market := m\<rparr>, p'))"

definition mw_withdraw_all ::
    "fixed_crate \<Rightarrow> market_wrapper \<Rightarrow> supply_position
     \<Rightarrow> (market_wrapper \<times> supply_position \<times> u64) result" where
  "mw_withdraw_all F self p =
     bind_r (market_withdraw_all F (mw_market self) p) (\<lambda>(m, p', atoms).
       Ok (self\<lparr>mw_market := m\<rparr>, p', atoms))"

definition mw_deposit_collateral ::
    "market_wrapper \<Rightarrow> borrow_position \<Rightarrow> u64 \<Rightarrow> (market_wrapper \<times> borrow_position) result" where
  "mw_deposit_collateral self p atoms =
     bind_r (market_deposit_collateral (mw_market self) p atoms) (\<lambda>(m, p').
       Ok (self\<lparr>mw_market := m\<rparr>, p'))"

definition mw_withdraw_collateral ::
    "fixed_crate \<Rightarrow> market_wrapper \<Rightarrow> borrow_position \<Rightarrow> u64
     \<Rightarrow> (market_wrapper \<times> borrow_position) result" where
  "mw_withdraw_collateral F self p atoms =
     bind_r (market_withdraw_collateral F (mw_market self) p atoms (mw_collateral_oracle self)
               (mw_supply_oracle self)) (\<lambda>(m, p'). Ok (self\<lparr>mw_market := m\<rparr>, p'))"

definition mw_borrow ::
    "fixed_crate \<Rightarrow> market_wrapper \<Rightarrow> borrow_position \<Rightarrow> u64
     \<Rightarrow> (market_wrapper \<times> borrow_position) result" where
  "mw_borrow F self p atoms =
     bind_r (market_borrow F (mw_market self) p atoms (mw_supply_oracle self)
               (mw_collateral_oracle self)) (\<lambda>(m, p'). Ok (self\<lparr>mw_market := m\<rparr>, p'))"

definition mw_repay ::
    "fixed_crate \<Rightarrow> market_wrapper \<Rightarrow> borrow_position \<Rightarrow> u64
     \<Rightarrow> (market_wrapper \<times> borrow_position) result" where
  "mw_repay F self p atoms =
     bind_r (market_repay F (mw_market self) p atoms) (\<lambda>(m, p').
       Ok (self\<lparr>mw_market := m\<rparr>, p'))"

definition mw_repay_all ::
    "fixed_crate \<Rightarrow> market_wrapper \<Rightarrow> borrow_position
     \<Rightarrow> (market_wrapper \<times> borrow_position \<times> u64) result" where
  "mw_repay_all F self p =
     bind_r (market_repay_all F (mw_market self) p) (\<lambda>(m, p', atoms).
       Ok (self\<lparr>mw_market := m\<rparr>, p', atoms))"

definition mw_liquidate ::
    "fixed_crate \<Rightarrow> market_wrapper \<Rightarrow> borrow_position \<Rightarrow> u64
     \<Rightarrow> (market_wrapper \<times> borrow_position \<times> liquidation_result_with_ctx) result" where
  "mw_liquidate F self p max_repay_atoms =
     bind_r (market_liquidate F (mw_market self) p (mw_collateral_oracle self)
               (mw_supply_oracle self) max_repay_atoms) (\<lambda>(m, p', r).
       Ok (self\<lparr>mw_market := m\<rparr>, p', r))"

definition mw_begin_capital_sweep ::
    "fixed_crate \<Rightarrow> market_wrapper \<Rightarrow> borrow_position
     \<Rightarrow> (market_wrapper \<times> borrow_position \<times> borrow_position_health) result" where
  "mw_begin_capital_sweep F self p =
     bind_r (market_begin_capital_sweep F (mw_market self) p (mw_collateral_oracle self)
               (mw_supply_oracle self)) (\<lambda>(m, p', h). Ok (self\<lparr>mw_market := m\<rparr>, p', h))"

definition mw_settle_capital_sweep ::
    "fixed_crate \<Rightarrow> market_wrapper \<Rightarrow> borrow_position \<Rightarrow> u64 \<Rightarrow> u64
     \<Rightarrow> (market_wrapper \<times> borrow_position \<times> capital_sweep_settlement_result) result" where
  "mw_settle_capital_sweep F self p max_repay_atoms max_collateral_atoms_to_return =
     bind_r (market_settle_capital_sweep F (mw_market self) p (mw_collateral_oracle self)
               (mw_supply_oracle self) max_repay_atoms max_collateral_atoms_to_return)
       (\<lambda>(m, p', r). Ok (self\<lparr>mw_market := m\<rparr>, p', r))"

definition mw_socialize_loss ::
    "fixed_crate \<Rightarrow> market_wrapper \<Rightarrow> borrow_position
     \<Rightarrow> (market_wrapper \<times> borrow_position \<times> u64 \<times> u64) result" where
  "mw_socialize_loss F self p =
     bind_r (market_socialize_loss F (mw_market self) p (mw_collateral_oracle self)
               (mw_supply_oracle self)) (\<lambda>(m, p', debt, collateral).
       Ok (self\<lparr>mw_market := m\<rparr>, p', debt, collateral))"

end
