(* ===== verification/Examples.thy ===== *)
theory Examples
  imports Tracker_Laws Market_Wrapper
begin

text \<open>
  Concrete accounts on which the properties are instantiated: a market with six-decimal mints,
  prices of one, both trackers at the price of one atom per share, a fixed-rate curve, a
  maximal loan-to-value of 75 percent and a liquidation threshold of 80 percent. The bundles
  \<open>market_eval\<close> evaluate its operations on the reference arithmetic.
\<close>

definition example_oracle_config :: oracle_config where
  "example_oracle_config =
     \<lparr>oc_provider = Pyth \<lparr>pyth_feed_id = [1, 2, 3], pyth_program_id = 7\<rparr>,
      validation_config = \<lparr>max_age = PodOption 60, min_relative_confidence = PodOption (IFixedPoint 14073748835533)\<rparr>\<rparr>"

definition example_ltv_config :: ltv_config where
  "example_ltv_config = \<lparr>max_ltv = IFixedPoint 211106232532992, unhealthy_ltv = IFixedPoint 225179981368525,
                         liquidation_bonus = IFixedPoint 14073748835533\<rparr>"

definition example_config :: market_config where
  "example_config = \<lparr>mc_bump = 255, mc_index = 0, lending_market_fee_in_bps = 1000,
     mc_protocol_fee_share_in_bps = 5000, curator = 9, mc_ltv_config = example_ltv_config,
     max_utilisation_rate = IFixedPoint 253327479039590, max_supply_atoms = 1000000000000,
     active_whitelisted_liquidators = 0\<rparr>"

definition example_tracker_of :: "u64 \<Rightarrow> shares_tracker" where
  "example_tracker_of n = \<lparr>total_shares = uf_from_u64 n, atoms_per_share = uf_from_u64 1\<rparr>"

definition example_supply_vault :: "u64 \<Rightarrow> u64 \<Rightarrow> supply_vault" where
  "example_supply_vault supplied borrowed =
     \<lparr>sv_mint = 100, sv_mint_decimals_raw = 6, sv_vault = 101, sv_oracle_config = example_oracle_config,
      supply_shares_tracker = example_tracker_of supplied,
      borrow_shares_tracker = example_tracker_of borrowed,
      interest_rate_curve = Fixed (InterestRatePerSecond (IFixedPoint 281474)),
      last_borrow_interest_rate = InterestRatePerSecond (IFixedPoint 0),
      last_update_unix_timestamp = 1000, pending_protocol_fee_shares = uf_zero,
      pending_curator_fee_shares = uf_zero\<rparr>"

definition example_collateral_vault :: "u64 \<Rightarrow> collateral_vault" where
  "example_collateral_vault c =
     \<lparr>cv_mint = 200, cv_mint_decimals_raw = 6, cv_vault = 201, total_collateral_atoms = c,
      cv_oracle_config = example_oracle_config\<rparr>"

definition example_market :: "u64 \<Rightarrow> u64 \<Rightarrow> u64 \<Rightarrow> market" where
  "example_market supplied borrowed c =
     \<lparr>config = example_config, m_collateral_vault = example_collateral_vault c,
      m_supply_vault = example_supply_vault supplied borrowed\<rparr>"

definition example_borrower :: "u64 \<Rightarrow> u64 \<Rightarrow> borrow_position" where
  "example_borrower debt c =
     \<lparr>bp_authority = 11, bp_market = 12, collateral_deposited_atoms = c, initial_borrowed_atoms = debt,
      borrowed_shares = uf_from_u64 debt, swept_collateral_atoms = 0\<rparr>"

definition example_lender :: "u64 \<Rightarrow> supply_position" where
  "example_lender n =
     \<lparr>sp_authority = 13, sp_market = 12, deposited_atoms = n, shares = uf_from_u64 n\<rparr>"

definition example_rate :: oracle_rate where
  "example_rate = \<lparr>rate = IFixedPoint 281474976710656, confidence = IFixedPoint 0\<rparr>"

lemmas example_defs = example_oracle_config_def example_ltv_config_def example_config_def
  example_tracker_of_def example_supply_vault_def example_collateral_vault_def example_market_def
  example_borrower_def example_lender_def example_rate_def

lemmas fixed_eval =
  if_from_u64_def if_from_i64_def uf_zero_def uf_one_def if_zero_def if_one_def if_is_zero_def
  if_is_negative_def if_from_num_u64_def if_from_num_u32_def if_lit_def if_from_i64_u64_ratio_def
  uf_from_u64_u64_ratio_def if_from_ufixed_def uf_from_ifixed_def uf_try_from_ifixed_def
  if_as_u64_rounded_down_def if_as_u64_rounded_up_def u64_safe_add_def u64_safe_sub_def
  uf_safe_mul_u64_def uf_safe_div_u64_def if_safe_add_def if_safe_sub_def if_safe_mul_def
  if_safe_div_def if_safe_sub_u64_def if_safe_mul_u64_def if_safe_div_u64_def if_safe_add_uf_def
  if_safe_mul_uf_def if_safe_div_uf_def u64_safe_mul_if_def u64_safe_div_if_def u64_safe_sub_if_def
  if_from_ratio_def ONE_IN_BPS_def bps_to_fixed_point_def bps_from_fixed_point_def
  MAX_EXPONENT_ABS_def POSITIVE_POWER_OF_TEN_def power_of_ten_at_def less_ifixed_def
  less_eq_ifixed_def ival_def quot_zero_def as_i64_def as_i32_def

lemmas market_eval = tracker_eval fixed_eval
  sp_lend_def proportional_atoms_def sp_withdraw_def sp_withdraw_all_def
  capital_sweep_pending_def ensure_capital_sweep_inactive_def bp_begin_capital_sweep_def
  bp_repay_all_def bp_repay_def bp_settle_capital_sweep_def bp_deposit_collateral_def
  bp_withdraw_collateral_def bp_borrow_def bp_liquidate_def lower_bound_rate_def
  upper_bound_rate_def or_collateral_value_def or_collateral_atoms_def or_borrow_value_def
  or_borrow_atoms_def target_ltv_after_liquidation_def TARGET_LTV_LIQUIDATION_MARGIN_def
  cv_mint_decimals_def cv_deposit_collateral_def cv_withdraw_collateral_def sv_mint_decimals_def
  total_supply_def total_borrow_def compute_utilisation_rate_def sv_utilisation_rate_def
  borrow_shares_to_atoms_def sv_lend_def sv_withdraw_shares_def sv_withdraw_atoms_def sv_borrow_def
  sv_repay_shares_def sv_repay_atoms_def repay_atoms_capped_def sv_redeem_protocol_fees_def
  sv_redeem_curator_fees_def sv_socialize_loss_def sv_donate_supply_def adjust_proportionally_def
  lr_adjust_for_max_repay_def lrb_adjust_for_max_repay_def total_collateral_atoms_to_liquidate_def
  compute_liquidation_def compute_liquidation_with_fee_def
  borrow_position_health_with_collateral_atoms_def market_borrow_position_health_def
  position_checks_on_ltv_increase_def ensure_reserves_def redeem_protocol_fees_def
  redeem_curator_fess_def donate_supply_atoms_def market_lend_def market_withdraw_def
  market_withdraw_all_def market_deposit_collateral_def market_withdraw_collateral_def
  market_borrow_def market_repay_def market_repay_all_def
  compute_liquidation_result_with_fee_for_collateral_def compute_liquidation_result_with_fee_def
  market_liquidate_def market_begin_capital_sweep_def market_settle_capital_sweep_def
  settlement_liquidation_def market_socialize_loss_def Let_def

end
