(* ===== verification/Market_System.thy ===== *)
theory Market_System
  imports Market_Laws Examples
begin

text \<open>
  A market with all its positions, as the accounts of the program hold them: one \<open>Market\<close>, the
  supply positions and the borrow positions by key. A step is one operation of the market on
  one position, with whatever oracle rates and clock the runtime presents. The invariant is
  solvency of the books: every share and every collateral atom the market counts belongs to
  exactly one position or to the pending fees.
\<close>

section \<open>Ledgers\<close>

definition ledger :: "('p \<Rightarrow> int) \<Rightarrow> (pubkey \<rightharpoonup> 'p) \<Rightarrow> int" where
  "ledger amount ps = (\<Sum>k\<in>dom ps. amount (the (ps k)))"

lemma ledger_empty [simp]: "ledger amount Map.empty = 0"
  by (simp add: ledger_def)

lemma ledger_insert:
  assumes "finite (dom ps)" "ps k = None"
  shows "ledger amount (ps(k \<mapsto> p)) = ledger amount ps + amount p"
proof -
  have "(\<Sum>j\<in>dom ps. amount (the ((ps(k \<mapsto> p)) j))) = (\<Sum>j\<in>dom ps. amount (the (ps j)))"
    by (rule sum.cong) (use assms(2) in auto)
  moreover have "k \<notin> dom ps" using assms(2) by auto
  ultimately show ?thesis using assms(1) by (simp add: ledger_def)
qed

lemma ledger_remove:
  assumes "finite (dom ps)" "ps k = Some p"
  shows "ledger amount ps = amount p + ledger amount (ps(k := None))"
proof -
  have "ledger amount ps = amount p + (\<Sum>j\<in>dom ps - {k}. amount (the (ps j)))"
    using sum.remove [OF assms(1), of k "\<lambda>j. amount (the (ps j))"] assms(2)
    by (auto simp: ledger_def)
  also have "(\<Sum>j\<in>dom ps - {k}. amount (the (ps j))) = ledger amount (ps(k := None))"
    unfolding ledger_def by (rule sum.cong) auto
  finally show ?thesis .
qed

lemma ledger_update:
  assumes "finite (dom ps)" "ps k = Some p"
  shows "ledger amount (ps(k \<mapsto> p')) = ledger amount ps - amount p + amount p'"
  using ledger_remove [OF assms, of amount]
    ledger_insert [of "ps(k := None)" k amount p'] assms(1) by simp

lemma ledger_ge:
  assumes "finite (dom ps)" "ps k = Some p" "\<And>q. 0 \<le> amount q"
  shows "amount p \<le> ledger amount ps"
proof -
  have "0 \<le> ledger amount (ps(k := None))" unfolding ledger_def by (rule sum_nonneg) (rule assms(3))
  then show ?thesis using ledger_remove [OF assms(1,2), of amount] by simp
qed

text \<open>
  The contract between a market's pool and the positions that share it: an operation changes
  the pool by what it changes the position. Then the pool stays the sum of the positions.
\<close>

locale share_ledger =
  fixes pool :: "market \<Rightarrow> int"
    and holding :: "'p \<Rightarrow> int"
    and operation :: "market \<Rightarrow> 'p \<Rightarrow> market \<Rightarrow> 'p \<Rightarrow> bool"
  assumes conserve: "operation m p m' p' \<Longrightarrow> pool m' - holding p' = pool m - holding p"
    and holding_nonneg: "0 \<le> holding p"
begin

definition balanced :: "market \<Rightarrow> (pubkey \<rightharpoonup> 'p) \<Rightarrow> bool" where
  "balanced m ps \<longleftrightarrow> finite (dom ps) \<and> pool m = ledger holding ps"

lemma balanced_operation:
  assumes "balanced m ps" "ps k = Some p" "operation m p m' p'"
  shows "balanced m' (ps(k \<mapsto> p'))"
  using assms conserve [OF assms(3)] by (auto simp: balanced_def ledger_update)

lemma balanced_pool: "balanced m ps \<Longrightarrow> pool m' = pool m \<Longrightarrow> balanced m' ps"
  by (simp add: balanced_def)

lemma balanced_new:
  "balanced m ps \<Longrightarrow> ps k = None \<Longrightarrow> holding p = 0 \<Longrightarrow> balanced m (ps(k \<mapsto> p))"
  by (simp add: balanced_def ledger_insert)

lemma holding_le_pool: "balanced m ps \<Longrightarrow> ps k = Some p \<Longrightarrow> holding p \<le> pool m"
  using ledger_ge [of ps k p holding] by (simp add: balanced_def holding_nonneg)

end

section \<open>The system\<close>

record system =
  sys_market :: market
  sys_supply :: "pubkey \<rightharpoonup> supply_position"
  sys_borrow :: "pubkey \<rightharpoonup> borrow_position"

text \<open>Operations on a supply position, on a borrow position and on the market alone.\<close>

inductive supply_operation ::
    "fixed_crate \<Rightarrow> market \<Rightarrow> supply_position \<Rightarrow> market \<Rightarrow> supply_position \<Rightarrow> bool" for F where
  op_lend: "market_lend F m p atoms = Ok (m', p') \<Longrightarrow> supply_operation F m p m' p'"
| op_withdraw: "market_withdraw F m p atoms = Ok (m', p') \<Longrightarrow> supply_operation F m p m' p'"
| op_withdraw_all: "market_withdraw_all F m p = Ok (m', p', atoms) \<Longrightarrow> supply_operation F m p m' p'"

inductive borrow_operation ::
    "fixed_crate \<Rightarrow> market \<Rightarrow> borrow_position \<Rightarrow> market \<Rightarrow> borrow_position \<Rightarrow> bool" for F where
  op_deposit_collateral:
    "market_deposit_collateral m p atoms = Ok (m', p') \<Longrightarrow> borrow_operation F m p m' p'"
| op_withdraw_collateral:
    "market_withdraw_collateral F m p atoms co so = Ok (m', p') \<Longrightarrow> borrow_operation F m p m' p'"
| op_borrow: "market_borrow F m p atoms so co = Ok (m', p') \<Longrightarrow> borrow_operation F m p m' p'"
| op_repay: "market_repay F m p atoms = Ok (m', p') \<Longrightarrow> borrow_operation F m p m' p'"
| op_repay_all: "market_repay_all F m p = Ok (m', p', atoms) \<Longrightarrow> borrow_operation F m p m' p'"
| op_liquidate: "market_liquidate F m p co so mx = Ok (m', p', r) \<Longrightarrow> borrow_operation F m p m' p'"
| op_begin_sweep:
    "market_begin_capital_sweep F m p co so = Ok (m', p', h) \<Longrightarrow> borrow_operation F m p m' p'"
| op_settle_sweep:
    "market_settle_capital_sweep F m p co so mx mc = Ok (m', p', s) \<Longrightarrow> borrow_operation F m p m' p'"
| op_socialize:
    "market_socialize_loss F m p co so = Ok (m', p', debt, c) \<Longrightarrow> borrow_operation F m p m' p'"

inductive market_operation :: "fixed_crate \<Rightarrow> market \<Rightarrow> market \<Rightarrow> bool" for F where
  op_sync_clock: "market_sync_clock F m now = Ok m' \<Longrightarrow> market_operation F m m'"
| op_redeem_protocol: "redeem_protocol_fees F m = Ok (m', atoms) \<Longrightarrow> market_operation F m m'"
| op_redeem_curator: "redeem_curator_fess F m = Ok (m', atoms) \<Longrightarrow> market_operation F m m'"
| op_donate: "donate_supply_atoms F m atoms = Ok m' \<Longrightarrow> market_operation F m m'"
| op_supply_oracle: "set_supply_oracle_config m c = Ok m' \<Longrightarrow> market_operation F m m'"
| op_collateral_oracle: "set_collateral_oracle_config m c = Ok m' \<Longrightarrow> market_operation F m m'"
| op_config: "market_operation F m (m\<lparr>config := c\<rparr>)"

inductive system_step :: "fixed_crate \<Rightarrow> system \<Rightarrow> system \<Rightarrow> bool" for F where
  step_supply:
    "sys_supply s k = Some p \<Longrightarrow> supply_operation F (sys_market s) p m' p' \<Longrightarrow>
     system_step F s (s\<lparr>sys_market := m', sys_supply := (sys_supply s)(k \<mapsto> p')\<rparr>)"
| step_borrow:
    "sys_borrow s k = Some p \<Longrightarrow> borrow_operation F (sys_market s) p m' p' \<Longrightarrow>
     system_step F s (s\<lparr>sys_market := m', sys_borrow := (sys_borrow s)(k \<mapsto> p')\<rparr>)"
| step_market:
    "market_operation F (sys_market s) m' \<Longrightarrow> system_step F s (s\<lparr>sys_market := m'\<rparr>)"
| step_create_supply:
    "sys_supply s k = None \<Longrightarrow>
     system_step F s (s\<lparr>sys_supply := (sys_supply s)(k \<mapsto> sp_initialize p authority market)\<rparr>)"
| step_create_borrow:
    "sys_borrow s k = None \<Longrightarrow>
     system_step F s (s\<lparr>sys_borrow := (sys_borrow s)(k \<mapsto> bp_initialize p authority market)\<rparr>)"

text \<open>
  A new market: a zeroed account whose vaults \<open>create_market\<close> initialises. Zeroed means no
  collateral and no pending fees.
\<close>

inductive initial_system :: "fixed_crate \<Rightarrow> system \<Rightarrow> bool" for F where
  "total_collateral_atoms (m_collateral_vault m0) = 0 \<Longrightarrow>
   pending_protocol_fee_shares (m_supply_vault m0) = uf_zero \<Longrightarrow>
   pending_curator_fee_shares (m_supply_vault m0) = uf_zero \<Longrightarrow>
   initialize_collateral_vault m0 cmint cdec cvault cconf = Ok m1 \<Longrightarrow>
   initlize_supply_vault F m1 smint sdec svault sconf curve now = Ok m2 \<Longrightarrow>
   initial_system F \<lparr>sys_market = m2, sys_supply = Map.empty, sys_borrow = Map.empty\<rparr>"

inductive reachable :: "fixed_crate \<Rightarrow> system \<Rightarrow> bool" for F where
  reach_init: "initial_system F s \<Longrightarrow> reachable F s"
| reach_step: "reachable F s \<Longrightarrow> system_step F s s' \<Longrightarrow> reachable F s'"

section \<open>The books balance\<close>

definition supply_holding :: "supply_position \<Rightarrow> int" where
  "supply_holding p = uval (shares p)"

definition debt_holding :: "borrow_position \<Rightarrow> int" where
  "debt_holding p = uval (borrowed_shares p)"

definition collateral_holding :: "borrow_position \<Rightarrow> int" where
  "collateral_holding p = uint (collateral_deposited_atoms p)"

text \<open>While a sweep is pending the position holds no collateral of the vault.\<close>

definition sweep_ok :: "borrow_position \<Rightarrow> bool" where
  "sweep_ok p \<longleftrightarrow> (capital_sweep_pending p \<longrightarrow> collateral_deposited_atoms p = 0)"

lemma supply_operation_effect:
  assumes "fixed_crate_spec F" "supply_operation F m p m' p'"
  shows "supply_pool m' - supply_holding p' = supply_pool m - supply_holding p
    \<and> debt_pool m' = debt_pool m \<and> collateral_pool m' = collateral_pool m"
  using assms(2)
  by cases
    (use fixed_crate_spec.market_lend_effect [OF assms(1)]
      fixed_crate_spec.market_withdraw_effect [OF assms(1)]
      fixed_crate_spec.market_withdraw_all_effect(1-3) [OF assms(1)] in
     \<open>auto simp: supply_holding_def\<close>)

lemma market_operation_effect:
  assumes "fixed_crate_spec F" "market_operation F m m'"
  shows "same_pools m m'"
  using assms(2)
proof cases
  case (op_sync_clock now)
  then show ?thesis using fixed_crate_spec.market_sync_clock_pools [OF assms(1)] by blast
next
  case (op_config c)
  then show ?thesis by (simp add: same_pools_def pool_defs)
qed (blast intro: fixed_crate_spec.redeem_fees_pools [OF assms(1)] set_oracle_config_pools
    fixed_crate_spec.donate_supply_atoms_pools [OF assms(1)])+


lemma borrow_operation_effect:
  assumes "fixed_crate_spec F" "borrow_operation F m p m' p'" "sweep_ok p"
  shows "supply_pool m' = supply_pool m"
    "debt_pool m' - debt_holding p' = debt_pool m - debt_holding p"
    "collateral_pool m' - collateral_holding p' = collateral_pool m - collateral_holding p"
    "sweep_ok p'"
proof -
  note defs = debt_holding_def collateral_holding_def sweep_ok_def capital_sweep_pending_def uval_zero
  have "supply_pool m' = supply_pool m
    \<and> debt_pool m' - debt_holding p' = debt_pool m - debt_holding p
    \<and> collateral_pool m' - collateral_holding p' = collateral_pool m - collateral_holding p
    \<and> sweep_ok p'"
    using assms(2)
  proof cases
    case (op_deposit_collateral atoms)
    from market_deposit_collateral_effect [OF this] show ?thesis by (simp add: defs)
  next
    case (op_withdraw_collateral atoms co so)
    from fixed_crate_spec.market_withdraw_collateral_effect [OF assms(1) this]
    show ?thesis by (simp add: defs)
  next
    case (op_borrow atoms so co)
    from fixed_crate_spec.market_borrow_effect [OF assms(1) this] show ?thesis by (simp add: defs)
  next
    case (op_repay atoms)
    from fixed_crate_spec.market_repay_effect [OF assms(1) this] show ?thesis by (simp add: defs)
  next
    case (op_repay_all atoms)
    from fixed_crate_spec.market_repay_all_effect [OF assms(1) this] show ?thesis by (simp add: defs)
  next
    case (op_liquidate co so mx r)
    from fixed_crate_spec.market_liquidate_effect [OF assms(1) this] show ?thesis by (simp add: defs)
  next
    case (op_begin_sweep co so h)
    from fixed_crate_spec.market_begin_capital_sweep_effect [OF assms(1) this]
    show ?thesis by (simp add: defs)
  next
    case (op_settle_sweep co so mx mc s)
    from fixed_crate_spec.market_settle_capital_sweep_effect [OF assms(1) this] assms(3)
    show ?thesis by (simp add: defs)
  next
    case (op_socialize co so debt c)
    from fixed_crate_spec.market_socialize_loss_effect [OF assms(1) this]
    show ?thesis by (simp add: defs)
  qed
  then show "supply_pool m' = supply_pool m"
    "debt_pool m' - debt_holding p' = debt_pool m - debt_holding p"
    "collateral_pool m' - collateral_holding p' = collateral_pool m - collateral_holding p"
    "sweep_ok p'" by simp_all
qed

text \<open>The three ledgers of a market, on its own operations.\<close>

sublocale fixed_crate_spec \<subseteq> supply_books:
  share_ledger supply_pool supply_holding "supply_operation F"
  by unfold_locales
    (use supply_operation_effect [OF fixed_crate_spec_axioms] in \<open>auto simp: supply_holding_def\<close>)

sublocale fixed_crate_spec \<subseteq> debt_books:
  share_ledger debt_pool debt_holding "\<lambda>m p m' p'. sweep_ok p \<and> borrow_operation F m p m' p'"
  by unfold_locales
    (use borrow_operation_effect [OF fixed_crate_spec_axioms] in \<open>auto simp: debt_holding_def\<close>)

sublocale fixed_crate_spec \<subseteq> collateral_books:
  share_ledger collateral_pool collateral_holding "\<lambda>m p m' p'. sweep_ok p \<and> borrow_operation F m p m' p'"
  by unfold_locales
    (use borrow_operation_effect [OF fixed_crate_spec_axioms] in \<open>auto simp: collateral_holding_def\<close>)

definition books_balance :: "system \<Rightarrow> bool" where
  "books_balance s \<longleftrightarrow> finite (dom (sys_supply s)) \<and> finite (dom (sys_borrow s))
     \<and> supply_pool (sys_market s) = ledger supply_holding (sys_supply s)
     \<and> debt_pool (sys_market s) = ledger debt_holding (sys_borrow s)
     \<and> collateral_pool (sys_market s) = ledger collateral_holding (sys_borrow s)
     \<and> (\<forall>k p. sys_borrow s k = Some p \<longrightarrow> sweep_ok p)"

context fixed_crate_spec
begin

lemma books_balance_iff:
  "books_balance s \<longleftrightarrow> supply_books.balanced (sys_market s) (sys_supply s)
     \<and> debt_books.balanced (sys_market s) (sys_borrow s)
     \<and> collateral_books.balanced (sys_market s) (sys_borrow s)
     \<and> (\<forall>k p. sys_borrow s k = Some p \<longrightarrow> sweep_ok p)"
  by (auto simp: books_balance_def supply_books.balanced_def debt_books.balanced_def
      collateral_books.balanced_def)

lemma initial_books: "initial_system F s \<Longrightarrow> books_balance s"
  by (auto simp: books_balance_def initial_system.simps initialize_collateral_vault_def
      initlize_supply_vault_def cv_initialize_def sv_initialize_def bind_r_eq_Ok pool_defs
      st_initialize_def uval_zero uval_from_u64 split: if_splits)

lemma step_books:
  assumes "system_step F s s'" "books_balance s"
  shows "books_balance s'"
  using assms(1)
proof cases
  case (step_supply k p m' p')
  then show ?thesis
    using supply_operation_effect [OF fixed_crate_spec_axioms step_supply(3)] assms(2)
      supply_books.balanced_operation [of "sys_market s" "sys_supply s" k p m' p']
      debt_books.balanced_pool [of "sys_market s" "sys_borrow s" m']
      collateral_books.balanced_pool [of "sys_market s" "sys_borrow s" m']
    by (simp add: books_balance_iff)
next
  case (step_borrow k p m' p')
  have ok: "sweep_ok p" using step_borrow(2) assms(2) by (auto simp: books_balance_def)
  note e = borrow_operation_effect [OF fixed_crate_spec_axioms step_borrow(3) ok]
  show ?thesis
    using e(1,4) assms(2) step_borrow ok
      supply_books.balanced_pool [of "sys_market s" "sys_supply s" m']
      debt_books.balanced_operation [of "sys_market s" "sys_borrow s" k p m' p']
      collateral_books.balanced_operation [of "sys_market s" "sys_borrow s" k p m' p']
    by (simp add: books_balance_iff)
next
  case (step_market m')
  then show ?thesis
    using market_operation_effect [OF fixed_crate_spec_axioms step_market(2)] assms(2)
      supply_books.balanced_pool [of "sys_market s" "sys_supply s" m']
      debt_books.balanced_pool [of "sys_market s" "sys_borrow s" m']
      collateral_books.balanced_pool [of "sys_market s" "sys_borrow s" m']
    by (simp add: books_balance_iff same_pools_def)
next
  case (step_create_supply k p authority market)
  then show ?thesis
    using supply_books.balanced_new [of "sys_market s" "sys_supply s" k] assms(2)
    by (simp add: books_balance_iff sp_initialize_def supply_holding_def uval_zero)
next
  case (step_create_borrow k p authority market)
  then show ?thesis
    using debt_books.balanced_new [of "sys_market s" "sys_borrow s" k]
      collateral_books.balanced_new [of "sys_market s" "sys_borrow s" k] assms(2)
    by (simp add: books_balance_iff bp_initialize_def debt_holding_def collateral_holding_def
        uval_zero sweep_ok_def capital_sweep_pending_def)
qed

lemma reachable_books: "reachable F s \<Longrightarrow> books_balance s"
  by (induction rule: reachable.induct) (blast intro: initial_books step_books)+

end

end
