(* ===== verification/Market_Safety.thy ===== *)
theory Market_Safety
  imports Market_System
begin

text \<open>
  What a successful operation of a market guarantees to the lenders and borrowers: the
  loan-to-value and utilisation limits after a borrow or a withdrawal, when and how far a
  position may be liquidated, and the capital sweep lock. The last section turns the balanced
  books into liveness: a debt can always be repaid in full.
\<close>

section \<open>Limits\<close>

lemma ensure_reserves_Ok [ok_simps]:
  "ensure_reserves F v = Ok x \<longleftrightarrow> (\<exists>u. sv_utilisation_rate F v = Ok u \<and> u \<le> if_one)"
  by (auto simp: ensure_reserves_def bind_r_eq_Ok not_less split: if_splits)

lemma position_checks_Ok [ok_simps]:
  "position_checks_on_ltv_increase m h = Ok x \<longleftrightarrow> ltv h \<le> max_ltv (mc_ltv_config (config m))"
  by (auto simp: position_checks_on_ltv_increase_def)

lemma market_borrow_Ok:
  assumes "market_borrow F m p a so co = Ok (m', p')"
  shows "\<exists>h u. market_borrow_position_health F m' p' co so = Ok h
    \<and> ltv h \<le> max_ltv (mc_ltv_config (config m'))
    \<and> sv_utilisation_rate F (m_supply_vault m') = Ok u \<and> u \<le> max_utilisation_rate (config m')
    \<and> config m' = config m"
  using assms
  by (auto simp: market_borrow_def Let_def bind_r_eq_Ok position_checks_Ok not_less split: if_splits)

lemma health_of_collateral_vault:
  "cv_mint_decimals_raw v' = cv_mint_decimals_raw (m_collateral_vault m) \<Longrightarrow>
   market_borrow_position_health F (m\<lparr>m_collateral_vault := v'\<rparr>) p co so
     = market_borrow_position_health F m p co so"
  by (simp add: market_borrow_position_health_def borrow_position_health_with_collateral_atoms_def
      cv_mint_decimals_def)

lemma market_withdraw_collateral_Ok:
  assumes "market_withdraw_collateral F m p a co so = Ok (m', p')"
  shows "\<exists>h. market_borrow_position_health F m' p' co so = Ok h
    \<and> ltv h \<le> max_ltv (mc_ltv_config (config m'))
    \<and> (collateral_deposited_atoms p' = 0 \<longrightarrow> uf_is_zero (borrowed_shares p'))"
proof -
  obtain h v where h: "market_borrow_position_health F m p' co so = Ok h"
      "position_checks_on_ltv_increase m h = Ok ()"
      "cv_withdraw_collateral (m_collateral_vault m) a = Ok v" "m' = m\<lparr>m_collateral_vault := v\<rparr>"
      "collateral_deposited_atoms p' = 0 \<longrightarrow> uf_is_zero (borrowed_shares p')"
    using assms by (auto simp: market_withdraw_collateral_def bind_r_eq_Ok split: if_splits)
  have "cv_mint_decimals_raw v = cv_mint_decimals_raw (m_collateral_vault m)"
    using h(3) by (auto simp: cv_withdraw_collateral_def bind_r_eq_Ok)
  from health_of_collateral_vault [OF this, of F p' co so] h show ?thesis
    by (auto simp: position_checks_Ok)
qed

context fixed_crate_spec
begin

lemma if_from_ratio_Ok:
  assumes "uint d \<noteq> 0"
  shows "if_from_ratio F n d = Ok z \<longleftrightarrow> ival z = uint n * 2 ^ 48 div uint d"
proof -
  have d: "0 < ival (if_from_num_u64 F d)" "0 \<le> ival (if_from_num_u64 F n)"
    using assms by (simp_all add: if_from_num_u64_val order_less_le)
  have "uint n * 2 ^ 48 * 2 ^ 48 div (uint d * 2 ^ 48) = uint n * 2 ^ 48 div uint d"
    by (rule div_mult_mult2) simp
  then show ?thesis
    unfolding if_from_ratio_def map_err_eq_Ok if_safe_div_nonneg [OF d(2,1)] if_from_num_u64_val
    by (simp only:)
qed

lemma utilisation_at_most_one:
  assumes "compute_utilisation_rate F b s = Ok u" "u \<le> if_one"
  shows "uint b * 2 ^ 48 \<le> uint s * (2 ^ 48 + 1)" "uint s < 2 ^ 48 \<Longrightarrow> uint b \<le> uint s"
proof -
  have "uint b * 2 ^ 48 \<le> uint s * (2 ^ 48 + 1) \<and> (uint s < 2 ^ 48 \<longrightarrow> uint b \<le> uint s)"
  proof (cases "uint s = 0")
    case True
    then have "if_from_ratio F b s = Err DivisionOverflow"
      using if_safe_div_zero [of "if_from_num_u64 F s" "if_from_num_u64 F b"]
      by (simp add: if_from_ratio_def if_from_num_u64_val)
    then show ?thesis using assms(1) by (simp add: compute_utilisation_rate_def split: if_splits)
  next
    case False
    then have pos: "0 < uint s" by (simp add: order_less_le)
    have "ival u = uint b * 2 ^ 48 div uint s" using assms(1) if_from_ratio_Ok [OF False, of b u]
      by (auto simp: compute_utilisation_rate_def if_from_ratio_Ok [OF False] ival_zero split: result.splits if_splits)
    moreover have "ival u \<le> 2 ^ 48" using assms(2) by (simp add: less_eq_ifixed_def ival_one)
    ultimately have "uint b * 2 ^ 48 div uint s < 2 ^ 48 + 1" by simp
    then have "uint b * 2 ^ 48 < (2 ^ 48 + 1) * uint s" using pos by (simp add: div_less_iff)
    then show ?thesis by (auto simp: algebra_simps)
  qed
  then show "uint b * 2 ^ 48 \<le> uint s * (2 ^ 48 + 1)" "uint s < 2 ^ 48 \<Longrightarrow> uint b \<le> uint s" by auto
qed

lemma reserves_cover_debt:
  assumes "ensure_reserves F v = Ok ()"
  shows "\<exists>s b. total_supply F v = Ok s \<and> total_borrow F v = Ok b
    \<and> uint b * 2 ^ 48 \<le> uint s * (2 ^ 48 + 1) \<and> (uint s < 2 ^ 48 \<longrightarrow> uint b \<le> uint s)"
  using assms utilisation_at_most_one
  by (auto simp: ensure_reserves_Ok sv_utilisation_rate_def bind_r_eq_Ok)

end

lemma withdrawals_check_reserves:
  "market_withdraw F m p a = Ok (m', p') \<Longrightarrow> ensure_reserves F (m_supply_vault m') = Ok ()"
  "market_withdraw_all F m p = Ok (m', p', n) \<Longrightarrow> ensure_reserves F (m_supply_vault m') = Ok ()"
  "redeem_protocol_fees F m = Ok (m', n) \<Longrightarrow> ensure_reserves F (m_supply_vault m') = Ok ()"
  "redeem_curator_fess F m = Ok (m', n) \<Longrightarrow> ensure_reserves F (m_supply_vault m') = Ok ()"
  by (auto simp: market_withdraw_def market_withdraw_all_def redeem_protocol_fees_def
      redeem_curator_fess_def bind_r_eq_Ok)

section \<open>Liquidation\<close>

lemma lrb_adjust_repay:
  "borrowed_atoms_to_repay (lrb_adjust_for_max_repay l n) = min (borrowed_atoms_to_repay l) n"
  by (auto simp: lrb_adjust_for_max_repay_def min_def)

lemma lr_adjust_repay:
  "lr_borrowed_atoms_to_repay (lr_adjust_for_max_repay l n) = min (lr_borrowed_atoms_to_repay l) n"
  by (auto simp: lr_adjust_for_max_repay_def min_def)

lemma compute_liquidation_with_fee_repay:
  assumes "compute_liquidation_with_fee F b bd so c cd co l f mx = Ok r"
  shows "borrowed_atoms_to_repay r \<le> mx" "borrowed_atoms_to_repay r \<le> b"
  using assms
  by (auto simp: compute_liquidation_with_fee_def Let_def bind_r_eq_Ok lr_adjust_repay
      min_le_iff_disj split: if_splits)

lemma liquidation_result_Ok:
  assumes "compute_liquidation_result_with_fee_for_collateral F m p a co so mx = Ok (h, l)"
  shows "borrow_position_health_with_collateral_atoms F m p a co so = Ok h"
    "unhealthy_ltv (mc_ltv_config (config m)) \<le> ltv h"
    "borrowed_atoms_to_repay l \<le> mx" "borrowed_atoms_to_repay l \<le> borrowed_atoms h"
  using assms compute_liquidation_with_fee_repay
  by (auto simp: compute_liquidation_result_with_fee_for_collateral_def bind_r_eq_Ok
      lrb_adjust_repay not_less min_le_iff_disj split: if_splits)

context fixed_crate_spec
begin

lemma repay_atoms_capped_le:
  "repay_atoms_capped F v a mx = Ok (v', n, s) \<Longrightarrow> n \<le> a \<and> s \<le> mx"
  using capped_withdrawal(1,2) by (force simp: repay_atoms_capped_def bind_r_eq_Ok word_le_def)

lemma market_liquidate_Ok:
  assumes "market_liquidate F m p co so mx = Ok (m', p', r)"
  shows "market_borrow_position_health F m p co so = Ok (health_before_liquidation r)"
    "market_borrow_position_health F m' p' co so = Ok (health_after_liquidation r)"
    "unhealthy_ltv (mc_ltv_config (config m)) \<le> ltv (health_before_liquidation r)"
    "ltv (health_after_liquidation r) \<le> ltv (health_before_liquidation r)"
    "borrowed_atoms_to_repay (lc_liquidation r) \<le> mx"
    "borrowed_atoms_to_repay (lc_liquidation r) \<le> borrowed_atoms (health_before_liquidation r)"
    "uint (collateral_atoms_to_liquidate (lc_liquidation r))
       + uint (collateral_atoms_liquidation_bonus (lc_liquidation r))
       = uint (collateral_deposited_atoms p) - uint (collateral_deposited_atoms p')"
proof -
  obtain h l v n s c cv h' where e:
    "compute_liquidation_result_with_fee_for_collateral F m p (collateral_deposited_atoms p) co so mx
       = Ok (h, l)"
    "repay_atoms_capped F (m_supply_vault m) (borrowed_atoms_to_repay l) (borrowed_shares p) = Ok (v, n, s)"
    "total_collateral_atoms_to_liquidate (lrb_adjust_for_max_repay l n) = Ok c"
    "bp_liquidate F p s c = Ok p'"
    "m' = m\<lparr>m_supply_vault := v, m_collateral_vault := cv\<rparr>"
    "market_borrow_position_health F m' p' co so = Ok h'" "ltv h' \<le> ltv h"
    "r = \<lparr>lc_liquidation = lrb_adjust_for_max_repay l n, health_before_liquidation = h,
          health_after_liquidation = h'\<rparr>"
    using assms
    by (auto simp: market_liquidate_def compute_liquidation_result_with_fee_def Let_def bind_r_eq_Ok
        not_less split: if_splits)
  note l = liquidation_result_Ok [OF e(1)]
  have n: "n \<le> borrowed_atoms_to_repay l" using repay_atoms_capped_le [OF e(2)] by simp
  show "market_borrow_position_health F m p co so = Ok (health_before_liquidation r)"
    using l(1) e(8) by (simp add: market_borrow_position_health_def)
  show "market_borrow_position_health F m' p' co so = Ok (health_after_liquidation r)"
    using e(6,8) by simp
  show "unhealthy_ltv (mc_ltv_config (config m)) \<le> ltv (health_before_liquidation r)"
    using l(2) e(8) by simp
  show "ltv (health_after_liquidation r) \<le> ltv (health_before_liquidation r)" using e(7,8) by simp
  show "borrowed_atoms_to_repay (lc_liquidation r) \<le> mx"
    "borrowed_atoms_to_repay (lc_liquidation r) \<le> borrowed_atoms (health_before_liquidation r)"
    using l(3,4) e(8) n by (auto simp: lrb_adjust_repay min_le_iff_disj)
  show "uint (collateral_atoms_to_liquidate (lc_liquidation r))
       + uint (collateral_atoms_liquidation_bonus (lc_liquidation r))
       = uint (collateral_deposited_atoms p) - uint (collateral_deposited_atoms p')"
    using e(3,8) bp_liquidate_Ok [OF e(4)]
    by (simp add: total_collateral_atoms_to_liquidate_def u64_safe_add_Ok)
qed

end

section \<open>Capital sweep\<close>

lemma sweep_lock:
  assumes "capital_sweep_pending p"
  shows "market_deposit_collateral m p a = Err CapitalSweepPending"
    "market_withdraw_collateral F m p a co so = Err CapitalSweepPending"
    "market_borrow F m p a so co = Err CapitalSweepPending"
    "market_repay F m p a = Err CapitalSweepPending"
    "market_repay_all F m p = Err CapitalSweepPending"
    "market_liquidate F m p co so a = Err CapitalSweepPending"
    "market_begin_capital_sweep F m p co so = Err CapitalSweepPending"
    "market_socialize_loss F m p co so = Err CapitalSweepPending"
  using assms
  by (simp_all add: market_deposit_collateral_def market_withdraw_collateral_def market_borrow_def
      market_repay_def market_repay_all_def market_liquidate_def market_begin_capital_sweep_def
      market_socialize_loss_def ensure_capital_sweep_inactive_def)

lemma market_begin_capital_sweep_Ok:
  assumes "market_begin_capital_sweep F m p co so = Ok (m', p', h)"
  shows "market_borrow_position_health F m p co so = Ok h"
    "unhealthy_ltv (mc_ltv_config (config m)) \<le> ltv h" "ltv h < if_one"
    "m_supply_vault m' = m_supply_vault m"
  using assms
  by (auto simp: market_begin_capital_sweep_def bind_r_eq_Ok not_less split: if_splits)

context fixed_crate_spec
begin

lemma market_settle_capital_sweep_Ok:
  assumes "market_settle_capital_sweep F m p co so mx mc = Ok (m', p', r)"
  shows "market_borrow_position_health F m' p' co so = Ok (health_after_settlement r)"
    "ltv (health_after_settlement r) \<le> ltv (health_before_settlement r)"
    "borrowed_atoms_to_repay (cs_liquidation r) \<le> mx"
    "collateral_atoms_returned r \<le> mc" "collateral_deposited_atoms p' = collateral_atoms_returned r"
    "uint (collateral_atoms_to_liquidate (cs_liquidation r))
       + uint (collateral_atoms_liquidation_bonus (cs_liquidation r))
       + uint (collateral_atoms_returned r) = uint (swept_collateral_atoms p)"
    "\<not> capital_sweep_pending p'"
    "borrow_position_health_with_collateral_atoms F m p (swept_collateral_atoms p) co so
      = Ok (health_before_settlement r)"
proof -
  obtain h l v n s out ret cv h' where e:
    "settlement_liquidation F m p h co so mx = Ok l"
    "repay_atoms_capped F (m_supply_vault m) (borrowed_atoms_to_repay l) (borrowed_shares p) = Ok (v, n, s)"
    "total_collateral_atoms_to_liquidate (lrb_adjust_for_max_repay l n) = Ok out"
    "u64_safe_sub (swept_collateral_atoms p) out = Ok ret" "ret \<le> mc"
    "bp_settle_capital_sweep F p s ret = Ok p'"
    "market_borrow_position_health F m' p' co so = Ok h'" "ltv h' \<le> ltv h"
    "r = \<lparr>cs_liquidation = lrb_adjust_for_max_repay l n, health_before_settlement = h,
          health_after_settlement = h', collateral_atoms_returned = ret\<rparr>"
    "borrow_position_health_with_collateral_atoms F m p (swept_collateral_atoms p) co so = Ok h"
    using assms
    by (auto simp: market_settle_capital_sweep_def Let_def bind_r_eq_Ok not_less split: if_splits)
  show "market_borrow_position_health F m' p' co so = Ok (health_after_settlement r)"
    "ltv (health_after_settlement r) \<le> ltv (health_before_settlement r)"
    "collateral_atoms_returned r \<le> mc"
    "borrow_position_health_with_collateral_atoms F m p (swept_collateral_atoms p) co so
      = Ok (health_before_settlement r)" using e(5,7,8,9,10) by simp_all
  have "borrowed_atoms_to_repay l \<le> mx"
    using e(1) liquidation_result_Ok(3)
    by (auto simp: settlement_liquidation_def bind_r_eq_Ok split: if_splits)
  then show "borrowed_atoms_to_repay (cs_liquidation r) \<le> mx"
    using e(9) by (auto simp: lrb_adjust_repay min_le_iff_disj)
  show "collateral_deposited_atoms p' = collateral_atoms_returned r" "\<not> capital_sweep_pending p'"
    using bp_settle_capital_sweep_Ok [OF e(6)] e(9) by (simp_all add: capital_sweep_pending_def)
  show "uint (collateral_atoms_to_liquidate (cs_liquidation r))
       + uint (collateral_atoms_liquidation_bonus (cs_liquidation r))
       + uint (collateral_atoms_returned r) = uint (swept_collateral_atoms p)"
    using e(3,4,9) by (simp add: total_collateral_atoms_to_liquidate_def u64_safe_add_Ok u64_safe_sub_Ok)
qed

end

section \<open>Loss socialisation\<close>

lemma market_socialize_loss_Ok:
  assumes "market_socialize_loss F m p co so = Ok (m', p', debt, c)"
  shows "\<exists>h. market_borrow_position_health F m p co so = Ok h \<and> if_one \<le> ltv h"
    "sv_socialize_loss F (m_supply_vault m) (borrowed_shares p) = Ok (m_supply_vault m', debt)"
  using assms
  by (auto simp: market_socialize_loss_def Let_def bind_r_eq_Ok not_less split: if_splits)

context fixed_crate_spec
begin

lemma sv_socialize_loss_value:
  assumes "sv_socialize_loss F v s = Ok (v', debt)"
    "total_supply F v = Ok N" "total_supply F v' = Ok N'"
  shows "shares_to_atoms F (borrow_shares_tracker v) s RoundUp = Ok debt"
    "uint N - uint debt \<le> uint N'" "uint N' \<le> uint N - uint debt + 1"
proof -
  obtain bt st where e: "st_withdraw_shares F (borrow_shares_tracker v) s RoundUp = Ok (bt, debt)"
    "socialize_loss_atoms F (supply_shares_tracker v) debt = Ok st" "supply_shares_tracker v' = st"
    using assms(1) by (auto simp: sv_socialize_loss_def bind_r_eq_Ok)
  show "shares_to_atoms F (borrow_shares_tracker v) s RoundUp = Ok debt"
    by (rule st_withdraw_shares_Ok(1) [OF e(1)])
  show "uint N - uint debt \<le> uint N'" "uint N' \<le> uint N - uint debt + 1"
    using loss_value [OF e(2)] assms(2,3) e(3) by (simp_all add: total_supply_def)
qed

end

section \<open>Liveness\<close>

lemma up64_nonneg: "0 \<le> v \<Longrightarrow> 0 \<le> up64 v"
  by (simp add: up64_def pos_imp_zdiv_nonneg_iff)

context fixed_crate_spec
begin

lemma shares_to_atoms_up_total:
  "share_value t s < 2 ^ 128 \<Longrightarrow> \<exists>n. shares_to_atoms F t s RoundUp = Ok n"
  using ex_uint_u64 [of "min (up64 (share_value t s)) (2 ^ 64 - 1)"]
    up64_nonneg [OF share_value_nonneg [of t s]]
  by (auto simp: shares_to_atoms_up min_def)

lemma st_withdraw_shares_total:
  assumes "shares_to_atoms F t s r = Ok n" "s \<le> total_shares t"
  shows "\<exists>t'. st_withdraw_shares F t s r = Ok (t', n)"
proof -
  have "0 \<le> uval (total_shares t) - uval s" "uval (total_shares t) - uval s < 2 ^ 128"
    using assms(2) uval_less [of "total_shares t"] uval_nonneg [of s]
    unfolding less_eq_ufixed_def by linarith+
  then obtain x where "uval x = uval (total_shares t) - uval s"
    using ex_uval [of "uval (total_shares t) - uval s"] by auto
  then have "uf_safe_sub F (total_shares t) s = Ok x" by (simp add: uf_safe_sub_Ok)
  then show ?thesis using assms(1) by (simp add: st_withdraw_shares_def)
qed

lemma repay_all_total:
  assumes "books_balance s" "sys_borrow s k = Some p" "\<not> capital_sweep_pending p"
    "share_value (borrow_shares_tracker (m_supply_vault (sys_market s))) (borrowed_shares p) < 2 ^ 128"
  shows "\<exists>m' p' n. market_repay_all F (sys_market s) p = Ok (m', p', n) \<and> borrowed_shares p' = uf_zero"
proof -
  let ?t = "borrow_shares_tracker (m_supply_vault (sys_market s))"
  obtain n where n: "shares_to_atoms F ?t (borrowed_shares p) RoundUp = Ok n"
    using shares_to_atoms_up_total [OF assms(4)] by blast
  have "borrowed_shares p \<le> total_shares ?t"
    using debt_books.holding_le_pool [of "sys_market s" "sys_borrow s" k p] assms(1,2)
    by (simp add: books_balance_iff debt_holding_def debt_pool_def vault_debt_pool_def
        less_eq_ufixed_def)
  then obtain t' where "st_withdraw_shares F ?t (borrowed_shares p) RoundUp = Ok (t', n)"
    using st_withdraw_shares_total [OF n] by blast
  then show ?thesis using assms(3)
    by (simp add: market_repay_all_def ensure_capital_sweep_inactive_def sv_repay_shares_def
        bp_repay_all_def)
qed

lemma total_borrow_zero:
  assumes "uval (total_shares (borrow_shares_tracker v)) = 0"
  shows "total_borrow F v = Ok 0"
  using assms
  by (simp add: total_borrow_def total_atoms_eq shares_to_atoms_up share_value_def up64_def)

lemma no_debt_reserves:
  assumes "uval (total_shares (borrow_shares_tracker v)) = 0" "total_supply F v = Ok N"
  shows "ensure_reserves F v = Ok ()"
proof -
  have "compute_utilisation_rate F 0 N = Ok if_zero"
  proof (cases "uint N = 0")
    case True
    then have "if_from_ratio F 0 N = Err DivisionOverflow"
      using if_safe_div_zero [of "if_from_num_u64 F N" "if_from_num_u64 F 0"]
      by (simp add: if_from_ratio_def if_from_num_u64_val)
    then show ?thesis by (simp add: compute_utilisation_rate_def)
  next
    case False
    then have "if_from_ratio F 0 N = Ok if_zero" by (simp add: if_from_ratio_Ok ival_zero)
    then show ?thesis by (simp add: compute_utilisation_rate_def)
  qed
  then show ?thesis using total_borrow_zero [OF assms(1)] assms(2)
    by (simp add: ensure_reserves_Ok sv_utilisation_rate_def less_eq_ifixed_def ival_zero ival_one)
qed

lemma shares_to_atoms_down_total:
  assumes "share_value t s < 2 ^ 128"
  shows "\<exists>n. shares_to_atoms F t s RoundDown = Ok n"
proof -
  have "share_value t s div 2 ^ 64 < 2 ^ 64" using assms by (simp add: div_less_iff)
  then show ?thesis using assms ex_uint_u64 [of "share_value t s div 2 ^ 64"]
    by (auto simp: shares_to_atoms_down pos_imp_zdiv_nonneg_iff)
qed

lemma withdraw_all_total:
  assumes "books_balance s" "sys_supply s k = Some p"
    "total_supply F (m_supply_vault (sys_market s)) = Ok N" "debt_pool (sys_market s) = 0"
  shows "\<exists>m' p' n. market_withdraw_all F (sys_market s) p = Ok (m', p', n) \<and> shares p' = uf_zero"
proof -
  let ?v = "m_supply_vault (sys_market s)"
  let ?t = "supply_shares_tracker ?v"
  have "supply_holding p \<le> supply_pool (sys_market s)"
    using supply_books.holding_le_pool [of "sys_market s" "sys_supply s" k p] assms(1,2)
    by (simp add: books_balance_iff)
  then have le: "shares p \<le> total_shares ?t"
    using uval_nonneg [of "pending_protocol_fee_shares ?v"] uval_nonneg [of "pending_curator_fee_shares ?v"]
    unfolding less_eq_ufixed_def supply_holding_def supply_pool_def vault_supply_pool_def by linarith
  have N: "total_atoms F ?t RoundDown = Ok N" using assms(3) by (simp add: total_supply_def)
  then have "share_value ?t (total_shares ?t) < 2 ^ 128"
    by (simp only: total_atoms_eq shares_to_atoms_down)
  then have "share_value ?t (shares p) < 2 ^ 128"
    using share_value_mono [of "shares p" "total_shares ?t" ?t] le by (simp add: less_eq_ufixed_def)
  then obtain n t' where w: "st_withdraw_shares F ?t (shares p) RoundDown = Ok (t', n)"
    using shares_to_atoms_down_total st_withdraw_shares_total [OF _ le] by blast
  obtain N' where "total_atoms F t' RoundDown = Ok N'" using redeem_within_pool [OF w N] by blast
  then have "ensure_reserves F (?v\<lparr>supply_shares_tracker := t'\<rparr>) = Ok ()"
    using no_debt_reserves [of "?v\<lparr>supply_shares_tracker := t'\<rparr>" N'] assms(4)
    by (simp add: total_supply_def debt_pool_def vault_debt_pool_def)
  then show ?thesis using w
    by (simp add: market_withdraw_all_def sv_withdraw_shares_def sp_withdraw_all_def)
qed

end

end
