(* ===== verification/Market_Properties.thy ===== *)
theory Market_Properties
  imports Market_Safety
begin

text \<open>
  The properties of a market, one theorem each, over the lemmas of the preceding theories, and
  their instances on a market that is reached by lending, depositing collateral and borrowing.
\<close>

section \<open>A reachable example\<close>

definition example_system :: "u64 \<Rightarrow> u64 \<Rightarrow> u64 \<Rightarrow> system" where
  "example_system supplied debt c =
     \<lparr>sys_market = example_market supplied debt c, sys_supply = [21 \<mapsto> example_lender supplied],
      sys_borrow = [31 \<mapsto> example_borrower debt c]\<rparr>"

lemma example_initial:
  "initial_system fixed_reference
     \<lparr>sys_market = example_market 0 0 0, sys_supply = Map.empty, sys_borrow = Map.empty\<rparr>"
proof (rule initial_system.intros)
  show "total_collateral_atoms (m_collateral_vault (example_market 0 0 0)) = 0"
    "pending_protocol_fee_shares (m_supply_vault (example_market 0 0 0)) = uf_zero"
    "pending_curator_fee_shares (m_supply_vault (example_market 0 0 0)) = uf_zero"
    by (simp_all add: example_defs)
  show "initialize_collateral_vault (example_market 0 0 0) 200 6 201 example_oracle_config
      = Ok (example_market 0 0 0)"
    by (simp add: example_defs initialize_collateral_vault_def cv_initialize_def oc_validate_def
        MAX_EXPONENT_ABS_def)
  show "initlize_supply_vault fixed_reference (example_market 0 0 0) 100 6 101 example_oracle_config
      (Fixed (InterestRatePerSecond (IFixedPoint 281474))) 1000 = Ok (example_market 0 0 0)"
    by (simp add: example_defs initlize_supply_vault_def sv_initialize_def oc_validate_def
        curve_is_valid_def st_initialize_def market_eval)
qed

lemma example_created: "reachable fixed_reference (example_system 0 0 0)"
proof -
  let ?s0 = "\<lparr>sys_market = example_market 0 0 0, sys_supply = Map.empty, sys_borrow = Map.empty\<rparr>"
  let ?s1 = "?s0\<lparr>sys_supply := (sys_supply ?s0)(21 \<mapsto> sp_initialize (example_lender 0) 13 12)\<rparr>"
  let ?s2 = "?s1\<lparr>sys_borrow := (sys_borrow ?s1)(31 \<mapsto> bp_initialize (example_borrower 0 0) 11 12)\<rparr>"
  have "reachable fixed_reference ?s1"
    by (rule reach_step [OF reach_init [OF example_initial]], rule step_create_supply) simp
  then have "reachable fixed_reference ?s2"
    by (rule reach_step, intro step_create_borrow) simp
  also have "?s2 = example_system 0 0 0"
    by (simp add: example_system_def example_defs sp_initialize_def bp_initialize_def uf_zero_def)
  finally show ?thesis .
qed

lemma example_step_supply:
  assumes "supply_operation F (example_market s d c) (example_lender s)
      (example_market s' d c) (example_lender s')"
  shows "system_step F (example_system s d c) (example_system s' d c)"
  using step_supply [of "example_system s d c" 21 "example_lender s" F "example_market s' d c"
      "example_lender s'"] assms
  by (simp add: example_system_def)

lemma example_step_borrow:
  assumes "borrow_operation F (example_market s d c) (example_borrower d c)
      (example_market s d' c') (example_borrower d' c')"
  shows "system_step F (example_system s d c) (example_system s d' c')"
  using step_borrow [of "example_system s d c" 31 "example_borrower d c" F "example_market s d' c'"
      "example_borrower d' c'"] assms
  by (simp add: example_system_def)

lemma example_reachable: "reachable fixed_reference (example_system 1000000 500000 1000000)"
proof -
  have 1: "system_step fixed_reference (example_system 0 0 0) (example_system 1000000 0 0)"
    by (rule example_step_supply, rule op_lend [where atoms = 1000000])
      (simp add: market_eval example_defs)
  have 2: "system_step fixed_reference (example_system 1000000 0 0) (example_system 1000000 0 1000000)"
    by (rule example_step_borrow, rule op_deposit_collateral [where atoms = 1000000])
      (simp add: market_eval example_defs)
  have 3: "system_step fixed_reference (example_system 1000000 0 1000000)
      (example_system 1000000 500000 1000000)"
    by (rule example_step_borrow, rule op_borrow [where atoms = 500000 and so = example_rate and co = example_rate])
      (simp add: market_eval example_defs)
  show ?thesis by (rule reach_step [OF reach_step [OF reach_step [OF example_created 1] 2] 3])
qed

section \<open>Properties of a market\<close>

text \<open>
  C1: In every reachable state of a market the books balance: the supply shares are those of the
  lenders plus the pending protocol and curator fees, the debt shares are those of the
  borrowers, the collateral counted by the vault is that of the positions, and a position with
  a pending capital sweep holds no collateral.
\<close>

theorem books_always_balance:
  assumes "fixed_crate_spec F" "reachable F s"
  shows "uval (total_shares (supply_shares_tracker (m_supply_vault (sys_market s))))
      = ledger (\<lambda>p. uval (shares p)) (sys_supply s)
        + uval (pending_protocol_fee_shares (m_supply_vault (sys_market s)))
        + uval (pending_curator_fee_shares (m_supply_vault (sys_market s)))
    \<and> uval (total_shares (borrow_shares_tracker (m_supply_vault (sys_market s))))
      = ledger (\<lambda>p. uval (borrowed_shares p)) (sys_borrow s)
    \<and> uint (total_collateral_atoms (m_collateral_vault (sys_market s)))
      = ledger (\<lambda>p. uint (collateral_deposited_atoms p)) (sys_borrow s)
    \<and> (\<forall>k p. sys_borrow s k = Some p \<longrightarrow> capital_sweep_pending p \<longrightarrow> collateral_deposited_atoms p = 0)"
  using fixed_crate_spec.reachable_books [OF assms]
  by (simp add: books_balance_def pool_defs sweep_ok_def supply_holding_def [abs_def]
      debt_holding_def [abs_def] collateral_holding_def [abs_def])

theorem books_always_balance_witness:
  "reachable fixed_reference (example_system 1000000 500000 1000000)
   \<and> uval (total_shares (borrow_shares_tracker (m_supply_vault (sys_market (example_system 1000000 500000 1000000)))))
      = ledger (\<lambda>p. uval (borrowed_shares p)) (sys_borrow (example_system 1000000 500000 1000000))"
  using books_always_balance [OF fixed_ref.fixed_crate_spec_axioms example_reachable] example_reachable
  by blast

text \<open>
  C5: A successful borrow leaves the position within the maximal loan-to-value, valued at the
  oracle rates it was given, and the market within its maximal utilisation.
\<close>

theorem borrow_within_limits:
  assumes "market_borrow F m p a so co = Ok (m', p')"
  shows "\<exists>h u. market_borrow_position_health F m' p' co so = Ok h
    \<and> ltv h \<le> max_ltv (mc_ltv_config (config m'))
    \<and> sv_utilisation_rate F (m_supply_vault m') = Ok u \<and> u \<le> max_utilisation_rate (config m')
    \<and> config m' = config m"
  using assms by (rule market_borrow_Ok)

theorem borrow_within_limits_witness:
  "\<exists>m' p' u. market_borrow fixed_reference (example_market 1000000 0 1000000) (example_borrower 0 1000000)
       500000 example_rate example_rate = Ok (m', p')
     \<and> sv_utilisation_rate fixed_reference (m_supply_vault m') = Ok u \<and> u \<le> IFixedPoint 253327479039590"
proof -
  obtain m' p' where w: "market_borrow fixed_reference (example_market 1000000 0 1000000)
      (example_borrower 0 1000000) 500000 example_rate example_rate = Ok (m', p')"
    by (simp add: market_eval example_defs)
  show ?thesis using borrow_within_limits [OF w] w by (auto simp: example_defs)
qed

text \<open>
  C11: A successful collateral withdrawal leaves the position within the maximal loan-to-value,
  and never without collateral while it has debt.
\<close>

theorem withdraw_collateral_keeps_ltv:
  assumes "market_withdraw_collateral F m p a co so = Ok (m', p')"
  shows "\<exists>h. market_borrow_position_health F m' p' co so = Ok h
    \<and> ltv h \<le> max_ltv (mc_ltv_config (config m'))
    \<and> (collateral_deposited_atoms p' = 0 \<longrightarrow> uf_is_zero (borrowed_shares p'))"
  using assms by (rule market_withdraw_collateral_Ok)

theorem withdraw_collateral_keeps_ltv_witness:
  "\<exists>m' p' h. market_withdraw_collateral fixed_reference (example_market 1000000 100000 1000000)
       (example_borrower 100000 1000000) 1000 example_rate example_rate = Ok (m', p')
     \<and> market_borrow_position_health fixed_reference m' p' example_rate example_rate = Ok h
     \<and> ltv h \<le> max_ltv (mc_ltv_config (config m'))"
proof -
  obtain m' p' where w: "market_withdraw_collateral fixed_reference (example_market 1000000 100000 1000000)
      (example_borrower 100000 1000000) 1000 example_rate example_rate = Ok (m', p')"
    by (simp add: market_eval example_defs)
  show ?thesis using withdraw_collateral_keeps_ltv [OF w] w by blast
qed

text \<open>
  C12: After every operation that pays supply tokens out of the vault to a lender, the protocol or
  the curator, the supply covers the debt: the borrowed atoms exceed the supplied ones by less
  than one part in \<open>2^48\<close>, and not at all below \<open>2^48\<close> atoms (the truncation of the utilisation
  rate).
\<close>

theorem reserves_after_withdrawal:
  assumes "fixed_crate_spec F"
    and "market_withdraw F m p a = Ok (m', p') \<or> market_withdraw_all F m p = Ok (m', p', n)
      \<or> redeem_protocol_fees F m = Ok (m', n) \<or> redeem_curator_fess F m = Ok (m', n)"
  shows "\<exists>s b. total_supply F (m_supply_vault m') = Ok s \<and> total_borrow F (m_supply_vault m') = Ok b
    \<and> uint b * 2 ^ 48 \<le> uint s * (2 ^ 48 + 1) \<and> (uint s < 2 ^ 48 \<longrightarrow> uint b \<le> uint s)"
proof -
  have "ensure_reserves F (m_supply_vault m') = Ok ()"
    using assms(2) by (elim disjE) (rule withdrawals_check_reserves, assumption)+
  then show ?thesis by (rule fixed_crate_spec.reserves_cover_debt [OF assms(1)])
qed

theorem reserves_after_withdrawal_witness:
  "\<exists>m' p' s b. market_withdraw_all fixed_reference (example_market 1000000 850000 1000000) (example_lender 1000)
       = Ok (m', p', 1000)
     \<and> total_supply fixed_reference (m_supply_vault m') = Ok s
     \<and> total_borrow fixed_reference (m_supply_vault m') = Ok b
     \<and> uint b * 2 ^ 48 \<le> uint s * (2 ^ 48 + 1)"
proof -
  obtain m' p' where w: "market_withdraw_all fixed_reference (example_market 1000000 850000 1000000)
      (example_lender 1000) = Ok (m', p', 1000)"
    by (simp add: market_eval example_defs)
  show ?thesis
    using reserves_after_withdrawal [OF fixed_ref.fixed_crate_spec_axioms, of _ _ _ m' p' 1000] w by blast
qed

text \<open>
  Lending never lifts the supply above the market's cap; it credits the lender with the
  shares the deposit is worth at the current price and moves no other pool.
\<close>

theorem lend_within_cap:
  assumes "fixed_crate_spec F" "market_lend F m p a = Ok (m', p')"
  shows "\<exists>s n. total_supply F (m_supply_vault m') = Ok n \<and> n \<le> max_supply_atoms (config m)
    \<and> atoms_to_shares F (supply_shares_tracker (m_supply_vault m)) a = Ok s
    \<and> uval (shares p') = uval (shares p) + uval s
    \<and> uint (deposited_atoms p') = uint (deposited_atoms p) + uint a
    \<and> m_collateral_vault m' = m_collateral_vault m
    \<and> borrow_shares_tracker (m_supply_vault m') = borrow_shares_tracker (m_supply_vault m)"
  using assms(2) fixed_crate_spec.deposit_atoms_Ok(1) [OF assms(1)]
  by (auto simp: market_lend_def sv_lend_def bind_r_eq_Ok not_less
      dest!: fixed_crate_spec.sp_lend_Ok [OF assms(1)] split: if_splits)

theorem lend_within_cap_witness:
  "\<exists>m' p' n. market_lend fixed_reference (example_market 1000 0 0) (example_lender 0) 500 = Ok (m', p')
     \<and> total_supply fixed_reference (m_supply_vault m') = Ok n \<and> n \<le> 1000000000000"
proof -
  obtain m' p' where w: "market_lend fixed_reference (example_market 1000 0 0) (example_lender 0) 500
      = Ok (m', p')"
    by (simp add: market_eval example_defs)
  show ?thesis
    using lend_within_cap [OF fixed_ref.fixed_crate_spec_axioms w] w by (auto simp: example_defs)
qed

text \<open>
  C6: A liquidation only happens to a position at or above the unhealthy loan-to-value and never
  leaves it with a higher one. The liquidator repays at most what it offered and at most the
  debt, and seizes, bonus included, exactly the collateral the position loses.
\<close>

theorem liquidation_sound:
  assumes "fixed_crate_spec F" "market_liquidate F m p co so mx = Ok (m', p', r)"
  shows "market_borrow_position_health F m p co so = Ok (health_before_liquidation r)
    \<and> market_borrow_position_health F m' p' co so = Ok (health_after_liquidation r)
    \<and> unhealthy_ltv (mc_ltv_config (config m)) \<le> ltv (health_before_liquidation r)
    \<and> ltv (health_after_liquidation r) \<le> ltv (health_before_liquidation r)
    \<and> borrowed_atoms_to_repay (lc_liquidation r) \<le> mx
    \<and> borrowed_atoms_to_repay (lc_liquidation r) \<le> borrowed_atoms (health_before_liquidation r)
    \<and> uint (collateral_atoms_to_liquidate (lc_liquidation r))
        + uint (collateral_atoms_liquidation_bonus (lc_liquidation r))
      = uint (collateral_deposited_atoms p) - uint (collateral_deposited_atoms p')"
  using fixed_crate_spec.market_liquidate_Ok [OF assms] by (intro conjI)

theorem liquidation_sound_witness:
  "\<exists>m' p' r. market_liquidate fixed_reference (example_market 1000000 850000 1000000)
       (example_borrower 850000 1000000) example_rate example_rate 400000 = Ok (m', p', r)
     \<and> borrowed_atoms_to_repay (lc_liquidation r) \<le> 400000
     \<and> ltv (health_after_liquidation r) \<le> ltv (health_before_liquidation r)"
proof -
  obtain m' p' r where w: "market_liquidate fixed_reference (example_market 1000000 850000 1000000)
      (example_borrower 850000 1000000) example_rate example_rate 400000 = Ok (m', p', r)"
    by (simp add: market_eval example_defs)
  show ?thesis using liquidation_sound [OF fixed_ref.fixed_crate_spec_axioms w] w by blast
qed

text \<open>
  C18: A pending capital sweep locks the position: every operation on it but the settlement is
  refused, and a settlement is refused unless a sweep is pending.
\<close>

theorem sweep_locks_position:
  "if capital_sweep_pending p then
     market_deposit_collateral m p a = Err CapitalSweepPending
     \<and> market_withdraw_collateral F m p a co so = Err CapitalSweepPending
     \<and> market_borrow F m p a so co = Err CapitalSweepPending
     \<and> market_repay F m p a = Err CapitalSweepPending
     \<and> market_repay_all F m p = Err CapitalSweepPending
     \<and> market_liquidate F m p co so a = Err CapitalSweepPending
     \<and> market_begin_capital_sweep F m p co so = Err CapitalSweepPending
     \<and> market_socialize_loss F m p co so = Err CapitalSweepPending
   else market_settle_capital_sweep F m p co so a b = Err NoCapitalSweepPending"
  using sweep_lock by (simp add: market_settle_capital_sweep_def)

text \<open>
  A capital sweep starts only on an unhealthy but solvent position. It moves the whole
  collateral of the position out of the vault into the swept amount, and nothing else.
\<close>

theorem begin_sweep_sound:
  assumes "fixed_crate_spec F" "market_begin_capital_sweep F m p co so = Ok (m', p', h)"
  shows "market_borrow_position_health F m p co so = Ok h
    \<and> unhealthy_ltv (mc_ltv_config (config m)) \<le> ltv h \<and> ltv h < if_one
    \<and> swept_collateral_atoms p' = collateral_deposited_atoms p \<and> collateral_deposited_atoms p' = 0
    \<and> borrowed_shares p' = borrowed_shares p \<and> m_supply_vault m' = m_supply_vault m
    \<and> uint (total_collateral_atoms (m_collateral_vault m'))
      = uint (total_collateral_atoms (m_collateral_vault m)) - uint (collateral_deposited_atoms p)"
  using market_begin_capital_sweep_Ok [OF assms(2)]
    fixed_crate_spec.market_begin_capital_sweep_effect [OF assms]
  by (simp add: collateral_pool_def)

theorem begin_sweep_sound_witness:
  "\<exists>m' p' h. market_begin_capital_sweep fixed_reference (example_market 1000000 850000 1000000)
       (example_borrower 850000 1000000) example_rate example_rate = Ok (m', p', h)
     \<and> swept_collateral_atoms p' = 1000000 \<and> ltv h < if_one"
proof -
  obtain m' p' h where w: "market_begin_capital_sweep fixed_reference
      (example_market 1000000 850000 1000000) (example_borrower 850000 1000000) example_rate
      example_rate = Ok (m', p', h)"
    by (simp add: market_eval example_defs)
  show ?thesis using begin_sweep_sound [OF fixed_ref.fixed_crate_spec_axioms w] w
    by (auto simp: example_defs)
qed

text \<open>
  C17: Settling a sweep unlocks the position and does not raise its loan-to-value: the value
  before is the health of the position with its swept collateral put back, the value after is
  the health of the resulting position in the resulting market, both at the two oracle rates of
  the call. It repays at most the offered amount, and splits the swept collateral exactly into what is liquidated, the
  bonus and what returns to the position, the latter within the caller's limit.
\<close>

theorem settle_sweep_sound:
  assumes "fixed_crate_spec F" "market_settle_capital_sweep F m p co so mx mc = Ok (m', p', r)"
  shows "\<not> capital_sweep_pending p'
    \<and> market_borrow_position_health F m
        (p\<lparr>collateral_deposited_atoms := swept_collateral_atoms p, swept_collateral_atoms := 0\<rparr>) co so
      = Ok (health_before_settlement r)
    \<and> market_borrow_position_health F m' p' co so = Ok (health_after_settlement r)
    \<and> ltv (health_after_settlement r) \<le> ltv (health_before_settlement r)
    \<and> borrowed_atoms_to_repay (cs_liquidation r) \<le> mx
    \<and> collateral_atoms_returned r \<le> mc \<and> collateral_deposited_atoms p' = collateral_atoms_returned r
    \<and> uint (collateral_atoms_to_liquidate (cs_liquidation r))
        + uint (collateral_atoms_liquidation_bonus (cs_liquidation r))
        + uint (collateral_atoms_returned r) = uint (swept_collateral_atoms p)"
  using fixed_crate_spec.market_settle_capital_sweep_Ok [OF assms]
  by (simp add: market_borrow_position_health_def borrow_position_health_with_collateral_atoms_def)

theorem settle_sweep_sound_witness:
  "\<exists>m' p' r. market_settle_capital_sweep fixed_reference (example_market 1000000 850000 0)
       ((example_borrower 850000 0)\<lparr>swept_collateral_atoms := 1000000\<rparr>) example_rate example_rate
       (- 1) (- 1) = Ok (m', p', r)
     \<and> \<not> capital_sweep_pending p'
     \<and> ltv (health_after_settlement r) \<le> ltv (health_before_settlement r)"
proof -
  obtain m' p' r where w: "market_settle_capital_sweep fixed_reference (example_market 1000000 850000 0)
       ((example_borrower 850000 0)\<lparr>swept_collateral_atoms := 1000000\<rparr>) example_rate example_rate
       (- 1) (- 1) = Ok (m', p', r)"
    by (simp add: market_eval example_defs)
  show ?thesis using settle_sweep_sound [OF fixed_ref.fixed_crate_spec_axioms w] w by blast
qed

text \<open>
  C19: A loss is socialised only when the position is insolvent. The position is left empty, its
  collateral leaves the vault, and the lenders together lose its debt, rounded up to atoms, exact
  up to one atom.
\<close>

theorem socialize_loss_sound:
  assumes "fixed_crate_spec F" "market_socialize_loss F m p co so = Ok (m', p', debt, c)"
    and "total_supply F (m_supply_vault m) = Ok N" "total_supply F (m_supply_vault m') = Ok N'"
  shows "(\<exists>h. market_borrow_position_health F m p co so = Ok h \<and> if_one \<le> ltv h)
    \<and> borrowed_shares p' = uf_zero \<and> collateral_deposited_atoms p' = 0
    \<and> c = collateral_deposited_atoms p
    \<and> borrow_shares_to_atoms F (m_supply_vault m) (borrowed_shares p) = Ok debt
    \<and> uint N - uint debt \<le> uint N' \<and> uint N' \<le> uint N - uint debt + 1"
  using market_socialize_loss_Ok [OF assms(2)]
    fixed_crate_spec.market_socialize_loss_effect [OF assms(1,2)]
    fixed_crate_spec.sv_socialize_loss_value [OF assms(1) market_socialize_loss_Ok(2) [OF assms(2)] assms(3,4)]
  by (simp add: borrow_shares_to_atoms_def)

theorem socialize_loss_sound_witness:
  "\<exists>m' p' debt c N'. market_socialize_loss fixed_reference (example_market 1000000 850000 800000)
       (example_borrower 850000 800000) example_rate example_rate = Ok (m', p', debt, c)
     \<and> debt = 850000 \<and> c = 800000 \<and> total_supply fixed_reference (m_supply_vault m') = Ok N'
     \<and> uint N' \<le> 150001 \<and> borrowed_shares p' = uf_zero"
proof -
  obtain m' p' N' where w: "market_socialize_loss fixed_reference (example_market 1000000 850000 800000)
       (example_borrower 850000 800000) example_rate example_rate = Ok (m', p', 850000, 800000)"
    and N': "total_supply fixed_reference (m_supply_vault m') = Ok N'"
    by (simp add: market_eval example_defs)
  have N: "total_supply fixed_reference (m_supply_vault (example_market 1000000 850000 800000)) = Ok 1000000"
    by (simp add: market_eval example_defs)
  show ?thesis
    using socialize_loss_sound [OF fixed_ref.fixed_crate_spec_axioms w N N'] w N' by simp
qed

text \<open>
  C13: In every reachable state a borrower who is not under a sweep can repay the whole debt: the
  operation succeeds as soon as the debt is representable, and leaves no debt.
\<close>

theorem repay_all_always_possible:
  assumes "fixed_crate_spec F" "reachable F s" "sys_borrow s k = Some p" "\<not> capital_sweep_pending p"
    and "is_ok (borrow_shares_to_atoms F (m_supply_vault (sys_market s)) (borrowed_shares p))"
  shows "\<exists>m' p' n. market_repay_all F (sys_market s) p = Ok (m', p', n) \<and> borrowed_shares p' = uf_zero"
proof (rule fixed_crate_spec.repay_all_total [OF assms(1) _ assms(3,4)])
  show "books_balance s" by (rule fixed_crate_spec.reachable_books [OF assms(1,2)])
  show "share_value (borrow_shares_tracker (m_supply_vault (sys_market s))) (borrowed_shares p) < 2 ^ 128"
    using assms(5) fixed_crate_spec.shares_to_atoms_up [OF assms(1)]
    by (auto simp: is_ok_iff borrow_shares_to_atoms_def)
qed

theorem repay_all_always_possible_witness:
  "\<exists>m' p' n. market_repay_all fixed_reference (example_market 1000000 500000 1000000)
      (example_borrower 500000 1000000) = Ok (m', p', n) \<and> borrowed_shares p' = uf_zero"
proof -
  have p: "sys_borrow (example_system 1000000 500000 1000000) 31 = Some (example_borrower 500000 1000000)"
    and q: "\<not> capital_sweep_pending (example_borrower 500000 1000000)"
    by (simp_all add: example_system_def example_borrower_def capital_sweep_pending_def)
  have o: "is_ok (borrow_shares_to_atoms fixed_reference
      (m_supply_vault (sys_market (example_system 1000000 500000 1000000)))
      (borrowed_shares (example_borrower 500000 1000000)))"
    by (simp add: example_system_def example_defs market_eval)
  show ?thesis
    using repay_all_always_possible [OF fixed_ref.fixed_crate_spec_axioms example_reachable p q o]
    by (simp add: example_system_def)
qed

text \<open>
  C14: In every reachable state in which nothing is borrowed, every lender can withdraw the whole
  position, as soon as the supply is representable.
\<close>

theorem lender_exit_always_possible:
  assumes "fixed_crate_spec F" "reachable F s" "sys_supply s k = Some p"
    and "total_supply F (m_supply_vault (sys_market s)) = Ok N"
    and "ledger (\<lambda>q. uval (borrowed_shares q)) (sys_borrow s) = 0"
  shows "\<exists>m' p' n. market_withdraw_all F (sys_market s) p = Ok (m', p', n) \<and> shares p' = uf_zero"
proof -
  have b: "books_balance s" by (rule fixed_crate_spec.reachable_books [OF assms(1,2)])
  then have "debt_pool (sys_market s) = 0"
    using assms(5) by (simp add: books_balance_def debt_holding_def [abs_def])
  then show ?thesis by (rule fixed_crate_spec.withdraw_all_total [OF assms(1) b assms(3,4)])
qed

theorem lender_exit_always_possible_witness:
  "\<exists>m' p' n. market_withdraw_all fixed_reference (example_market 1000000 0 0) (example_lender 1000000)
      = Ok (m', p', n) \<and> shares p' = uf_zero"
proof -
  have r: "reachable fixed_reference (example_system 1000000 0 0)"
    by (rule reach_step [OF example_created], rule example_step_supply,
        rule op_lend [where atoms = 1000000]) (simp add: market_eval example_defs)
  have p: "sys_supply (example_system 1000000 0 0) 21 = Some (example_lender 1000000)"
    by (simp add: example_system_def)
  have N: "total_supply fixed_reference (m_supply_vault (sys_market (example_system 1000000 0 0))) = Ok 1000000"
    by (simp add: example_system_def market_eval example_defs)
  have d: "ledger (\<lambda>q. uval (borrowed_shares q)) (sys_borrow (example_system 1000000 0 0)) = 0"
    by (simp add: example_system_def ledger_def example_borrower_def uval_from_u64)
  show ?thesis
    using lender_exit_always_possible [OF fixed_ref.fixed_crate_spec_axioms r p N d]
    by (simp add: example_system_def)
qed

end
