(* ===== verification/Oracle_Laws.thy ===== *)
theory Oracle_Laws
  imports Examples
begin

text \<open>
  What the program may rely on when it uses an oracle rate. The locale \<open>oracle_loader\<close> is the
  contract of \<open>OracleLoader\<close>: whatever account it is shown, a loader returns only positive
  prices with a confidence below the price, and only from an account it trusts. The Pyth
  loader, the Chaos loader and the dispatch over both meet it; what validation adds is proved
  once for all of them.
\<close>

section \<open>Powers of ten\<close>

lemma power_of_ten_nth:
  assumes "i < 19"
  shows "ival (POSITIVE_POWER_OF_TEN ! i) = 10 ^ i * 2 ^ 48"
proof -
  let ?l = "[0, 1, 2, 3, 4, 5, 6, 7, 8, 9, 10, 11, 12, 13, 14, 15, 16, 17, 18] :: nat list"
  have "\<forall>i\<in>set ?l. ival (POSITIVE_POWER_OF_TEN ! i) = 10 ^ i * 2 ^ 48"
    by (simp add: POSITIVE_POWER_OF_TEN_def ival_from_i64)
  moreover have "i \<in> set ?l" using assms by (simp; presburger)
  ultimately show ?thesis by blast
qed

lemma power_of_ten_val: "power_of_ten_at i = Ok x \<Longrightarrow> ival x = 10 ^ i * 2 ^ 48"
proof -
  assume "power_of_ten_at i = Ok x"
  then have "i < 19" "x = POSITIVE_POWER_OF_TEN ! i"
    by (auto simp: power_of_ten_at_def POSITIVE_POWER_OF_TEN_def split: if_splits)
  then show "ival x = 10 ^ i * 2 ^ 48" by (simp only: power_of_ten_nth)
qed

section \<open>Valid rates\<close>

definition rate_ok :: "oracle_rate \<Rightarrow> bool" where
  "rate_ok r \<longleftrightarrow> 0 < ival (rate r) \<and> 0 \<le> ival (confidence r) \<and> ival (confidence r) < ival (rate r)"

locale oracle_loader =
  fixes load :: "account_view \<Rightarrow> unchecked_oracle_rate result"
    and trusted :: "account_view \<Rightarrow> bool"
  assumes loaded_ok: "load view = Ok u \<Longrightarrow> rate_ok (unsafe_rate u)"
    and loaded_trusted: "load view = Ok u \<Longrightarrow> trusted view"

lemma i64_age:
  assumes "as_i64 d = Some w" "i64_max_zero_as_u64 w \<le> m"
  shows "d \<le> uint m"
proof -
  have w: "sint w = d" using assms(1)
    by (auto simp: as_i64_def sint_sbintrunc' signed_take_bit_int_eq_self split: if_splits)
  show ?thesis
  proof (cases "d < 0")
    case False
    then have "take_bit 64 d = d" using w sint_bound_64(2) [of w]
      by (intro take_bit_int_eq_self) simp_all
    then have "uint w = d" using uint_sint [of w] w by simp
    with False w assms(2) show ?thesis by (simp add: i64_max_zero_as_u64_def word_le_def)
  qed (use order_trans [OF less_imp_le uint_ge_0] in blast)
qed

context fixed_crate_spec
begin

lemma or_try_new_Ok: "or_try_new F r c = Ok x \<Longrightarrow> rate_ok x"
  by (auto simp: or_try_new_def or_validate_def rate_ok_def bind_r_eq_Ok if_is_negative_iff
      if_is_zero_iff less_eq_ifixed_def split: if_splits)

lemma try_from_price_expo_conf_Ok: "try_from_price_expo_conf F p c e = Ok r \<Longrightarrow> rate_ok r"
  by (auto simp: try_from_price_expo_conf_def Let_def bind_r_eq_Ok dest: or_try_new_Ok)

lemma uor_validate_Ok:
  assumes "uor_validate F u cfg now = Ok r" "rate_ok (unsafe_rate u)"
  shows "r = unsafe_rate u"
    and "ovc_max_age cfg = Some m \<Longrightarrow> sint now - sint (publish_time u) \<le> uint m"
    and "ovc_min_relative_confidence cfg = Some c \<Longrightarrow>
           ival (confidence r) * 2 ^ 48 div ival (rate r) \<le> ival c"
proof -
  obtain d x where e: "r = unsafe_rate u" "as_i64 (sint now - sint (publish_time u)) = Some d"
    "case ovc_max_age cfg of None \<Rightarrow> True | Some m \<Rightarrow> i64_max_zero_as_u64 d \<le> m"
    "relative_confidence F r = Ok x"
    "case ovc_min_relative_confidence cfg of None \<Rightarrow> True | Some c \<Rightarrow> x \<le> c"
    using assms(1)
    by (auto simp: uor_validate_def Let_def bind_r_eq_Ok ok_or_eq_Ok not_less split: if_splits option.splits)
  show "r = unsafe_rate u" by (rule e(1))
  show "ovc_max_age cfg = Some m \<Longrightarrow> sint now - sint (publish_time u) \<le> uint m"
    using i64_age [OF e(2)] e(3) by simp
  have "ival x = ival (confidence r) * 2 ^ 48 div ival (rate r)"
    using e(4) assms(2) e(1) by (simp add: relative_confidence_def rate_ok_def if_safe_div_nonneg)
  then show "ovc_min_relative_confidence cfg = Some c \<Longrightarrow>
      ival (confidence r) * 2 ^ 48 div ival (rate r) \<le> ival c"
    using e(5) by (simp add: less_eq_ifixed_def)
qed

end

sublocale fixed_crate_spec \<subseteq> pyth:
  oracle_loader "pyth_load_oracle_price F R p" "\<lambda>view. view_owner view = pyth_program_id p" for R p
  by unfold_locales
    (auto simp: pyth_load_oracle_price_def Let_def bind_r_eq_Ok
      dest: try_from_price_expo_conf_Ok split: if_splits)

sublocale fixed_crate_spec \<subseteq> chaos:
  oracle_loader "chaos_load_oracle_price F R p" "\<lambda>view. view_owner view = chaos_program_id p" for R p
  by unfold_locales
    (auto simp: chaos_load_oracle_price_def Let_def bind_r_eq_Ok
      dest: try_from_price_expo_conf_Ok split: if_splits)

text \<open>The dispatch trusts the canonical feed account of the configured program only.\<close>

definition provider_program :: "oracle_provider \<Rightarrow> pubkey" where
  "provider_program q = (case q of Pyth p \<Rightarrow> pyth_program_id p | Chaos p \<Rightarrow> chaos_program_id p)"

definition provider_trusts :: "runtime \<Rightarrow> oracle_provider \<Rightarrow> account_view \<Rightarrow> bool" where
  "provider_trusts R q view \<longleftrightarrow> oracle_feed_pubkey R q = Some (view_key view)
     \<and> view_owner view = provider_program q"

sublocale fixed_crate_spec \<subseteq> provider:
  oracle_loader "load_oracle_price F R q" "provider_trusts R q" for R q
proof unfold_locales
  fix view u
  assume l: "load_oracle_price F R q view = Ok u"
  show "rate_ok (unsafe_rate u)"
    using l by (auto simp: load_oracle_price_def split: if_splits oracle_provider.splits
        dest: pyth.loaded_ok chaos.loaded_ok)
  have "\<exists>k. oracle_feed_pubkey R q = Some k"
    by (simp add: oracle_feed_pubkey_def split: oracle_provider.split)
  then show "provider_trusts R q view"
    using l by (auto simp: load_oracle_price_def provider_trusts_def provider_program_def
        split: if_splits oracle_provider.splits dest: pyth.loaded_trusted chaos.loaded_trusted)
qed

interpretation reference_provider: oracle_loader "load_oracle_price fixed_reference R q" "provider_trusts R q"
  for R q by (rule fixed_ref.provider.oracle_loader_axioms)

context fixed_crate_spec
begin

lemma load_and_validate_Ok:
  assumes "load_and_validate_oracle_rate F R cfg view now = Ok r"
  shows "\<exists>u. load_oracle_price F R (oc_provider cfg) view = Ok u \<and> r = unsafe_rate u
    \<and> rate_ok r \<and> provider_trusts R (oc_provider cfg) view
    \<and> (\<forall>m. ovc_max_age (validation_config cfg) = Some m \<longrightarrow> sint now - sint (publish_time u) \<le> uint m)
    \<and> (\<forall>c. ovc_min_relative_confidence (validation_config cfg) = Some c \<longrightarrow>
         ival (confidence r) * 2 ^ 48 div ival (rate r) \<le> ival c)"
proof -
  obtain u where u: "load_oracle_price F R (oc_provider cfg) view = Ok u"
    "uor_validate F u (validation_config cfg) now = Ok r"
    using assms by (auto simp: load_and_validate_oracle_rate_def bind_r_eq_Ok)
  show ?thesis
    using u(1) provider.loaded_ok [OF u(1)] provider.loaded_trusted [OF u(1)]
      uor_validate_Ok [OF u(2) provider.loaded_ok [OF u(1)]] by auto
qed

lemma load_and_validate_rate_ok:
  "load_and_validate_oracle_rate F R cfg view now = Ok r \<Longrightarrow> rate_ok r"
  by (drule load_and_validate_Ok) blast

section \<open>Conservative valuation\<close>

lemma scaled_value:
  assumes "power_of_ten_at i = Ok p" "if_safe_div F x p = Ok z" "0 \<le> ival x"
  shows "ival z = ival x div 10 ^ i"
proof -
  have p: "ival p = 10 ^ i * 2 ^ 48" by (rule power_of_ten_val [OF assms(1)])
  have "ival x * 2 ^ 48 div (10 ^ i * 2 ^ 48) = ival x div 10 ^ i"
    by (rule div_mult_mult2) simp
  moreover have "0 < ival p" by (simp add: p)
  ultimately show ?thesis using assms(2) unfolding if_safe_div_nonneg [OF assms(3) \<open>0 < ival p\<close>] p
    by (simp only:)
qed

lemma or_collateral_value_Ok:
  assumes "or_collateral_value F r a d = Ok v" "rate_ok r"
  shows "ival v = (ival (rate r) - ival (confidence r)) * uint a div 10 ^ unat d"
proof -
  obtain x y p where e: "lower_bound_rate F r = Ok x" "if_safe_mul_u64 x a = Ok y"
    "power_of_ten_at (unat d) = Ok p" "if_safe_div F y p = Ok v"
    using assms(1) by (auto simp: or_collateral_value_def bind_r_eq_Ok)
  have y: "ival y = (ival (rate r) - ival (confidence r)) * uint a" "0 \<le> ival y"
    using e(1,2) assms(2) by (simp_all add: lower_bound_rate_def if_safe_sub_Ok if_safe_mul_u64_Ok rate_ok_def)
  show ?thesis using scaled_value [OF e(3,4) y(2)] y(1) by simp
qed

lemma or_borrow_value_Ok:
  assumes "or_borrow_value F r a d = Ok v" "rate_ok r"
  shows "ival v = (ival (rate r) + ival (confidence r)) * uint a div 10 ^ unat d"
proof -
  obtain x y p where e: "upper_bound_rate F r = Ok x" "if_safe_mul_u64 x a = Ok y"
    "power_of_ten_at (unat d) = Ok p" "if_safe_div F y p = Ok v"
    using assms(1) by (auto simp: or_borrow_value_def bind_r_eq_Ok)
  have y: "ival y = (ival (rate r) + ival (confidence r)) * uint a" "0 \<le> ival y"
    using e(1,2) assms(2) by (simp_all add: upper_bound_rate_def if_safe_add_Ok if_safe_mul_u64_Ok rate_ok_def)
  show ?thesis using scaled_value [OF e(3,4) y(2)] y(1) by simp
qed

end

section \<open>Properties of the oracles\<close>

definition example_runtime :: runtime where
  "example_runtime = \<lparr>find_program_address = (\<lambda>seeds program. (5, 255)),
     pyth_try_from_bytes = (\<lambda>bytes. Some
       \<lparr>account_price = \<lparr>pyth_id = [1, 2, 3],
          pyth_data = \<lparr>pyth_price_value = 100000000, pyth_conf = 1000, pyth_expo = - 8, pyth_publish_time = 1000\<rparr>,
          pyth_ema = \<lparr>pyth_price_value = 0, pyth_conf = 0, pyth_expo = 0, pyth_publish_time = 0\<rparr>,
          pyth_meta = \<lparr>slot = 0, proof_available_time = 0, prev_publish_time = 0\<rparr>\<rparr>,
        account_authority = 0\<rparr>),
     chaos_try_from_slice = (\<lambda>bytes. None)\<rparr>"

definition example_view :: account_view where
  "example_view = \<lparr>view_key = 5, view_data = [], view_owner = 7\<rparr>"

lemmas oracle_eval = market_eval example_defs example_runtime_def example_view_def
  load_and_validate_oracle_rate_def load_oracle_price_def oracle_feed_pubkey_def
  pyth_load_oracle_price_def try_from_price_expo_conf_def i8_checked_abs_def or_try_new_def
  or_validate_def uor_validate_def ovc_max_age_def ovc_min_relative_confidence_def pod_as_ref_def
  i64_max_zero_as_u64_def relative_confidence_def

text \<open>
  C21: A rate that a market loads and validates comes from the canonical feed account of the
  configured oracle program, is positive with a confidence below it, was published at most the
  configured age before the clock of the transaction, and has at most the configured relative
  confidence.
\<close>

theorem validated_rate_sound:
  assumes "fixed_crate_spec F" "load_and_validate_oracle_rate F R cfg view now = Ok r"
  shows "\<exists>u. load_oracle_price F R (oc_provider cfg) view = Ok u \<and> r = unsafe_rate u
    \<and> 0 < ival (rate r) \<and> 0 \<le> ival (confidence r) \<and> ival (confidence r) < ival (rate r)
    \<and> oracle_feed_pubkey R (oc_provider cfg) = Some (view_key view)
    \<and> view_owner view = provider_program (oc_provider cfg)
    \<and> (\<forall>m. ovc_max_age (validation_config cfg) = Some m \<longrightarrow> sint now - sint (publish_time u) \<le> uint m)
    \<and> (\<forall>c. ovc_min_relative_confidence (validation_config cfg) = Some c \<longrightarrow>
         ival (confidence r) * 2 ^ 48 div ival (rate r) \<le> ival c)"
  using fixed_crate_spec.load_and_validate_Ok [OF assms] by (auto simp: rate_ok_def provider_trusts_def)

theorem validated_rate_sound_witness:
  "\<exists>r u. load_and_validate_oracle_rate fixed_reference example_runtime example_oracle_config example_view 1030 = Ok r
     \<and> load_oracle_price fixed_reference example_runtime (oc_provider example_oracle_config) example_view = Ok u
     \<and> 0 < ival (rate r) \<and> 1030 - sint (publish_time u) \<le> 60"
proof -
  obtain r where w: "load_and_validate_oracle_rate fixed_reference example_runtime example_oracle_config
      example_view 1030 = Ok r"
    by (simp add: oracle_eval)
  have "ovc_max_age (validation_config example_oracle_config) = Some 60" by (simp add: oracle_eval)
  then show ?thesis using validated_rate_sound [OF fixed_ref.fixed_crate_spec_axioms w] w by auto
qed

text \<open>
  Valuation is conservative: with a valid rate, collateral is valued at the lower end of the
  confidence interval, rounded down, debt at the upper end, so that for the same amount and
  price the collateral value is at most the nominal value and the debt value at least.
\<close>

theorem conservative_valuation:
  assumes "fixed_crate_spec F" "rate_ok r"
    and "or_collateral_value F r a d = Ok c" "or_borrow_value F r a d = Ok b"
  shows "ival c = (ival (rate r) - ival (confidence r)) * uint a div 10 ^ unat d
    \<and> ival b = (ival (rate r) + ival (confidence r)) * uint a div 10 ^ unat d
    \<and> 0 \<le> ival c \<and> ival c \<le> ival (rate r) * uint a div 10 ^ unat d
    \<and> ival (rate r) * uint a div 10 ^ unat d \<le> ival b"
proof -
  note c = fixed_crate_spec.or_collateral_value_Ok [OF assms(1,3,2)]
  note b = fixed_crate_spec.or_borrow_value_Ok [OF assms(1,4,2)]
  have "(ival (rate r) - ival (confidence r)) * uint a \<le> ival (rate r) * uint a"
    "ival (rate r) * uint a \<le> (ival (rate r) + ival (confidence r)) * uint a"
    "0 \<le> (ival (rate r) - ival (confidence r)) * uint a"
    using assms(2) by (auto simp: rate_ok_def intro: mult_right_mono)
  then show ?thesis unfolding c b by (auto intro: zdiv_mono1 simp: pos_imp_zdiv_nonneg_iff)
qed

theorem conservative_valuation_witness:
  "\<exists>c b. or_collateral_value fixed_reference \<lparr>rate = IFixedPoint 1000000, confidence = IFixedPoint 1000\<rparr> 5000000 6 = Ok c
     \<and> or_borrow_value fixed_reference \<lparr>rate = IFixedPoint 1000000, confidence = IFixedPoint 1000\<rparr> 5000000 6 = Ok b
     \<and> ival c \<le> 5000000 \<and> 5000000 \<le> ival b"
proof -
  let ?r = "\<lparr>rate = IFixedPoint 1000000, confidence = IFixedPoint 1000\<rparr>"
  obtain c b where e: "or_collateral_value fixed_reference ?r 5000000 6 = Ok c"
    "or_borrow_value fixed_reference ?r 5000000 6 = Ok b"
    by (simp add: oracle_eval)
  have "rate_ok ?r" by (simp add: rate_ok_def ival_def)
  from conservative_valuation [OF fixed_ref.fixed_crate_spec_axioms this e] e
  show ?thesis by (simp add: ival_def)
qed

text \<open>
  Every operation of a market runs on rates that were validated against that market's own
  oracle configuration at the time of the transaction: the checked constructor of the wrapper is
  the only one the handlers use, and it leaves the market unchanged.
\<close>

theorem wrapper_rates_validated:
  assumes "fixed_crate_spec F" "mw_try_new F R m sview cview now = Ok w"
  shows "mw_market w = m
    \<and> load_and_validate_oracle_rate F R (sv_oracle_config (m_supply_vault m)) sview now = Ok (mw_supply_oracle w)
    \<and> load_and_validate_oracle_rate F R (cv_oracle_config (m_collateral_vault m)) cview now = Ok (mw_collateral_oracle w)
    \<and> rate_ok (mw_supply_oracle w) \<and> rate_ok (mw_collateral_oracle w)"
  using assms(2) fixed_crate_spec.load_and_validate_rate_ok [OF assms(1)]
  by (auto simp: mw_try_new_def bind_r_eq_Ok)

theorem wrapper_rates_validated_witness:
  "\<exists>w. mw_try_new fixed_reference example_runtime (example_market 1000 0 0) example_view example_view 1030 = Ok w
     \<and> rate_ok (mw_supply_oracle w) \<and> rate_ok (mw_collateral_oracle w)"
proof -
  obtain w where w: "mw_try_new fixed_reference example_runtime (example_market 1000 0 0) example_view
      example_view 1030 = Ok w"
    by (simp add: oracle_eval mw_try_new_def)
  show ?thesis using wrapper_rates_validated [OF fixed_ref.fixed_crate_spec_axioms w] w by blast
qed

end
