(* ===== verification/Config_Laws.thy ===== *)
theory Config_Laws
  imports Examples
begin

text \<open>
  The parameters a market can have. \<open>config_ok\<close> is the invariant every configuration operation
  establishes or keeps: the loan-to-value limits are ordered and below one, the liquidation
  bonus is within its range and affordable at the liquidation threshold, the utilisation cap
  and the market fee are bounded.
\<close>

section \<open>Invariant\<close>

definition ltv_ok :: "ltv_config \<Rightarrow> bool" where
  "ltv_ok l \<longleftrightarrow> 0 \<le> ival (max_ltv l) \<and> ival (max_ltv l) < ival (unhealthy_ltv l)
     \<and> lit_bits ''0.001'' \<le> ival (liquidation_bonus l) \<and> ival (liquidation_bonus l) \<le> lit_bits ''0.1''
     \<and> ival (unhealthy_ltv l) * (2 ^ 48 + ival (liquidation_bonus l)) div 2 ^ 48 \<le> lit_bits ''0.99''"

definition config_ok :: "market_config \<Rightarrow> bool" where
  "config_ok c \<longleftrightarrow> ltv_ok (mc_ltv_config c) \<and> ival (max_utilisation_rate c) \<le> lit_bits ''0.99''
     \<and> uint (lending_market_fee_in_bps c) \<le> 2000"

lemma ltv_ok_below_one:
  assumes "ltv_ok l"
  shows "ival (unhealthy_ltv l) < 2 ^ 48"
proof (rule ccontr)
  assume "\<not> ival (unhealthy_ltv l) < 2 ^ 48"
  then have "2 ^ 48 * 2 ^ 48 \<le> ival (unhealthy_ltv l) * (2 ^ 48 + ival (liquidation_bonus l))"
    using assms by (intro mult_mono) (auto simp: ltv_ok_def)
  then have "2 ^ 48 \<le> ival (unhealthy_ltv l) * (2 ^ 48 + ival (liquidation_bonus l)) div 2 ^ 48"
    by (subst le_div_iff) simp_all
  then show False using assms by (simp add: ltv_ok_def)
qed

lemma MAX_LENDING_MARKET_FEE_val: "uint MAX_LENDING_MARKET_FEE_IN_BPS = 2000"
  by (simp add: MAX_LENDING_MARKET_FEE_IN_BPS_def percent_to_bps_def)

lemma set_lending_market_fee_Ok:
  "set_lending_market_fee c f = Ok c' \<longleftrightarrow>
     uint f \<le> 2000 \<and> c' = c\<lparr>lending_market_fee_in_bps := f\<rparr>"
  using MAX_LENDING_MARKET_FEE_val by (auto simp: set_lending_market_fee_def word_less_def)

context fixed_crate_spec
begin

lemma lit_vals:
  "ival (MAX_LIQUIDATION_BONUS F) = lit_bits ''0.1''"
  "ival (MIN_LIQUIDATION_BONUS F) = lit_bits ''0.001''"
  "ival (MAX_LTV_WITH_LIQUIDATION_BONUS F) = lit_bits ''0.99''"
  "ival (MAX_UTILISATION_RATE F) = lit_bits ''0.99''"
  "ival (TARGET_LTV_LIQUIDATION_MARGIN F) = lit_bits ''0.90''"
  by (simp_all add: MAX_LIQUIDATION_BONUS_def MIN_LIQUIDATION_BONUS_def
      MAX_LTV_WITH_LIQUIDATION_BONUS_def MAX_UTILISATION_RATE_def TARGET_LTV_LIQUIDATION_MARGIN_def
      if_lit_def ival_def i_lit_eq)

lemma update_ltv_Ok:
  assumes "update_ltv F c l = Ok c'"
  shows "c' = c\<lparr>mc_ltv_config := l\<rparr>" "ltv_ok l"
    "unhealthy_ltv (mc_ltv_config c) \<le> unhealthy_ltv l"
proof -
  obtain x u where e: "c' = c\<lparr>mc_ltv_config := l\<rparr>" "0 \<le> ival (max_ltv l)"
    "0 \<le> ival (unhealthy_ltv l)" "0 \<le> ival (liquidation_bonus l)"
    "unhealthy_ltv (mc_ltv_config c) \<le> unhealthy_ltv l" "max_ltv l < unhealthy_ltv l"
    "MIN_LIQUIDATION_BONUS F \<le> liquidation_bonus l" "liquidation_bonus l \<le> MAX_LIQUIDATION_BONUS F"
    "if_safe_add F if_one (liquidation_bonus l) = Ok x" "if_safe_mul F (unhealthy_ltv l) x = Ok u"
    "u \<le> MAX_LTV_WITH_LIQUIDATION_BONUS F"
    using assms
    by (auto simp: update_ltv_def bind_r_eq_Ok if_is_negative_iff not_less not_le split: if_splits)
  show "c' = c\<lparr>mc_ltv_config := l\<rparr>" "unhealthy_ltv (mc_ltv_config c) \<le> unhealthy_ltv l"
    by (fact e)+
  have x: "ival x = 2 ^ 48 + ival (liquidation_bonus l)"
    using e(9) by (simp add: if_safe_add_Ok ival_one)
  have "ival u = ival (unhealthy_ltv l) * ival x div 2 ^ 48"
    using e(10) if_safe_mul_nonneg [of "unhealthy_ltv l" x u] e(3,4) x by simp
  then show "ltv_ok l"
    using e(2,6,7,8,11) x lit_vals unfolding ltv_ok_def less_eq_ifixed_def less_ifixed_def by simp
qed

lemma update_ltv_config_ok:
  "update_ltv F c l = Ok c' \<Longrightarrow> config_ok c \<Longrightarrow>
     config_ok c' \<and> unhealthy_ltv (mc_ltv_config c) \<le> unhealthy_ltv (mc_ltv_config c')"
  using update_ltv_Ok [of c l c'] by (simp add: config_ok_def)

lemma update_max_utilisation_rate_Ok:
  "update_max_utilisation_rate F c r = Ok c' \<longleftrightarrow>
     ival r \<le> lit_bits ''0.99'' \<and> c' = c\<lparr>max_utilisation_rate := r\<rparr>"
  using lit_vals(4) by (auto simp: update_max_utilisation_rate_def less_ifixed_def)

lemma mc_initialize_Ok:
  assumes "mc_initialize F c bump idx cur l mr ms fee g = Ok c'"
  shows "config_ok c'" "curator c' = cur" "mc_protocol_fee_share_in_bps c' = gc_protocol_fee_share_in_bps g"
    "max_supply_atoms c' = ms"
proof -
  obtain c1 c2 c3 where e: "update_ltv F c l = Ok c1" "update_max_utilisation_rate F c1 mr = Ok c2"
    "set_lending_market_fee c2 fee = Ok c3"
    "c' = sync_global_config (c3\<lparr>mc_bump := bump, mc_index := idx, curator := cur,
                 max_supply_atoms := ms\<rparr>) g"
    using assms by (auto simp: mc_initialize_def bind_r_eq_Ok)
  note r = update_ltv_Ok [OF e(1)] e(2) [unfolded update_max_utilisation_rate_Ok]
    e(3) [unfolded set_lending_market_fee_Ok]
  show "config_ok c'" "curator c' = cur"
    "mc_protocol_fee_share_in_bps c' = gc_protocol_fee_share_in_bps g" "max_supply_atoms c' = ms"
    using r e(4) by (simp_all add: config_ok_def sync_global_config_def)
qed

lemma target_below_threshold:
  assumes "ltv_ok l"
  shows "max_ltv l \<le> target_ltv_after_liquidation F l" "target_ltv_after_liquidation F l < unhealthy_ltv l"
proof -
  let ?u = "ival (unhealthy_ltv l)"
  have u: "0 < ?u" "?u < 2 ^ 48" using assms ltv_ok_below_one [OF assms] by (auto simp: ltv_ok_def)
  have m: "ival (TARGET_LTV_LIQUIDATION_MARGIN F) = 253327479039590" using lit_vals(5) by simp
  have "0 \<le> ?u * 253327479039590 div 2 ^ 48" "?u * 253327479039590 div 2 ^ 48 < ?u"
    using u by (simp_all add: pos_imp_zdiv_nonneg_iff div_less_iff)
  moreover from this obtain z where "ival z = ?u * 253327479039590 div 2 ^ 48"
    using ex_ival [of "?u * 253327479039590 div 2 ^ 48"] u by force
  ultimately have "if_safe_mul F (unhealthy_ltv l) (TARGET_LTV_LIQUIDATION_MARGIN F) = Ok z" "ival z < ?u"
    using if_safe_mul_nonneg [of "unhealthy_ltv l" "TARGET_LTV_LIQUIDATION_MARGIN F" z] u m by simp_all
  then show "max_ltv l \<le> target_ltv_after_liquidation F l"
    "target_ltv_after_liquidation F l < unhealthy_ltv l"
    using assms by (auto simp: target_ltv_after_liquidation_def ltv_ok_def less_ifixed_def max_def)
qed

end

section \<open>Properties of the configuration\<close>

text \<open>
  Every configuration a market can be given is sound. Initialisation establishes the
  invariant from any account content and takes the protocol fee from the global configuration;
  every later update keeps it, and the liquidation threshold is never lowered, so no update
  makes a healthy position liquidatable.
\<close>

theorem config_invariant:
  assumes "fixed_crate_spec F"
  shows "(mc_initialize F c bump idx cur l mr ms fee g = Ok c' \<longrightarrow>
      config_ok c' \<and> mc_protocol_fee_share_in_bps c' = gc_protocol_fee_share_in_bps g)
    \<and> (config_ok c \<longrightarrow>
        (update_ltv F c l = Ok c' \<longrightarrow> config_ok c' \<and>
           unhealthy_ltv (mc_ltv_config c) \<le> unhealthy_ltv (mc_ltv_config c'))
      \<and> (update_max_utilisation_rate F c mr = Ok c' \<longrightarrow> config_ok c')
      \<and> (set_lending_market_fee c fee = Ok c' \<longrightarrow> config_ok c')
      \<and> config_ok (sync_global_config c g) \<and> config_ok (update_max_supply_atoms c ms)
      \<and> (increment_active_whitelisted_liquidators c = Ok c' \<longrightarrow> config_ok c')
      \<and> (decrement_active_whitelisted_liquidators c = Ok c' \<longrightarrow> config_ok c'))"
  using fixed_crate_spec.mc_initialize_Ok(1,3) [OF assms, of c bump idx cur l mr ms fee g c']
    fixed_crate_spec.update_ltv_config_ok [OF assms, of c l c']
  by (auto simp: fixed_crate_spec.update_max_utilisation_rate_Ok [OF assms] set_lending_market_fee_Ok
      config_ok_def sync_global_config_def update_max_supply_atoms_def bind_r_eq_Ok
      increment_active_whitelisted_liquidators_def decrement_active_whitelisted_liquidators_def)

definition example_zero_config :: market_config where
  "example_zero_config = \<lparr>mc_bump = 0, mc_index = 0, lending_market_fee_in_bps = 0,
     mc_protocol_fee_share_in_bps = 0, curator = 0,
     mc_ltv_config = \<lparr>max_ltv = if_zero, unhealthy_ltv = if_zero, liquidation_bonus = if_zero\<rparr>,
     max_utilisation_rate = if_zero, max_supply_atoms = 0, active_whitelisted_liquidators = 0\<rparr>"

lemmas config_eval = example_zero_config_def mc_initialize_def update_ltv_def
  update_max_utilisation_rate_def set_lending_market_fee_def sync_global_config_def gc_new_def
  MAX_LIQUIDATION_BONUS_def MIN_LIQUIDATION_BONUS_def MAX_LTV_WITH_LIQUIDATION_BONUS_def
  MAX_UTILISATION_RATE_def MAX_LENDING_MARKET_FEE_IN_BPS_def percent_to_bps_def

theorem config_invariant_witness:
  "\<exists>c'. mc_initialize fixed_reference example_zero_config 255 0 9 example_ltv_config
       (IFixedPoint 253327479039590) 1000 1000 (gc_new 1 2 5000) = Ok c'
     \<and> config_ok c' \<and> mc_protocol_fee_share_in_bps c' = 5000"
proof -
  obtain c' where w: "mc_initialize fixed_reference example_zero_config 255 0 9 example_ltv_config
       (IFixedPoint 253327479039590) 1000 1000 (gc_new 1 2 5000) = Ok c'"
    by (simp add: config_eval market_eval example_defs)
  then have "config_ok c' \<and> mc_protocol_fee_share_in_bps c' = gc_protocol_fee_share_in_bps (gc_new 1 2 5000)"
    using config_invariant [OF fixed_ref.fixed_crate_spec_axioms, of example_zero_config 255 0 9
        example_ltv_config "IFixedPoint 253327479039590" 1000 1000 "gc_new 1 2 5000" c'] by blast
  with w show ?thesis by (simp add: gc_new_def)
qed

text \<open>
  A liquidation aims strictly below the threshold that allows it and not below the maximal
  loan-to-value: for every sound configuration the target lies between both, and the threshold
  itself below one.
\<close>

theorem liquidation_target_in_range:
  assumes "fixed_crate_spec F" "config_ok c"
  shows "max_ltv (mc_ltv_config c) \<le> target_ltv_after_liquidation F (mc_ltv_config c)
    \<and> target_ltv_after_liquidation F (mc_ltv_config c) < unhealthy_ltv (mc_ltv_config c)
    \<and> unhealthy_ltv (mc_ltv_config c) < if_one"
  using fixed_crate_spec.target_below_threshold [OF assms(1)] ltv_ok_below_one assms(2)
  by (auto simp: config_ok_def less_ifixed_def ival_one)

theorem liquidation_target_in_range_witness:
  "max_ltv (mc_ltv_config example_config) \<le> target_ltv_after_liquidation fixed_reference (mc_ltv_config example_config)
   \<and> target_ltv_after_liquidation fixed_reference (mc_ltv_config example_config) < unhealthy_ltv (mc_ltv_config example_config)"
proof -
  have "config_ok example_config" by (simp add: config_ok_def ltv_ok_def example_defs ival_def)
  from liquidation_target_in_range [OF fixed_ref.fixed_crate_spec_axioms this] show ?thesis by blast
qed

text \<open>
  The admin of the global configuration changes in two steps only: a nomination leaves the
  admin in place and entitles exactly the nominated key (never the zero key); accepting it makes
  that key the admin and uses the nomination up, so it cannot be accepted twice.
\<close>

theorem admin_handover:
  "admin (set_nominated_admin g n) = admin g
   \<and> (can_upgrade_nomination (set_nominated_admin g n) k \<longleftrightarrow> k = n \<and> n \<noteq> 0)
   \<and> (can_upgrade_nomination g k \<longleftrightarrow>
        (\<exists>g'. upgrade_nomination g = Ok g' \<and> admin g' = k \<and> fee_receiver g' = fee_receiver g
           \<and> upgrade_nomination g' = Err InvalidNomination))"
  by (auto simp: set_nominated_admin_def can_upgrade_nomination_def upgrade_nomination_def pod_set_def
      pod_as_ref_def pod_take_def split: if_splits)

end
