(* ===== verification/Polyline_Laws.thy ===== *)
theory Polyline_Laws
  imports Interest_Rate
begin

text \<open>
  A polyline curve that passed validation is a strictly increasing list of points, and the
  program's 32- and 64-bit arithmetic computes the exact linear interpolation between them.
\<close>

section \<open>Validated points\<close>

fun increasing_from ::
    "polyline_interest_rate_point \<Rightarrow> polyline_interest_rate_point list \<Rightarrow> bool" where
  "increasing_from p [] = True"
| "increasing_from p (q # qs) \<longleftrightarrow> uint (utilization_rate_bps p) < uint (utilization_rate_bps q)
     \<and> uint (borrow_rate_bps p) < uint (borrow_rate_bps q) \<and> increasing_from q qs"

lemma validated_increasing:
  assumes "validate_points_loop False (borrow_rate_bps p) (utilization_rate_bps p) (map maybe_uninit qs)
      = Inr ()"
  shows "increasing_from p (takeWhile (\<lambda>q. maybe_uninit q \<noteq> None) qs)"
  using assms
proof (induction qs arbitrary: p)
  case (Cons q qs)
  show ?case
  proof (cases "borrow_rate_bps q = 0")
    case False
    with Cons.prems Cons.IH [of q] show ?thesis
      by (auto simp: maybe_uninit_def word_le_def word_less_def split: if_splits)
  qed (simp add: maybe_uninit_def)
qed simp

lemma valid_curve_points:
  assumes "polyline_validate c = Inr ()"
  obtains p ps where "points c = p # ps" "utilization_rate_bps p = 0" "increasing_from p ps"
proof -
  obtain p qs where e: "polyline_points c = p # qs" "utilization_rate_bps p = 0" "borrow_rate_bps p \<noteq> 0"
    "validate_points_loop False (borrow_rate_bps p) 0 (map maybe_uninit qs) = Inr ()"
    using assms by (auto simp: polyline_validate_def validate_points_def split: if_splits list.splits)
  have "points c = p # takeWhile (\<lambda>q. maybe_uninit q \<noteq> None) qs"
    using e(1,3) by (simp add: points_def maybe_uninit_def)
  with that e(2) validated_increasing [of p qs] e(4) show ?thesis by simp
qed

section \<open>Interpolation\<close>

text \<open>The line through two points, on integers.\<close>

definition interpolate :: "polyline_interest_rate_point \<Rightarrow> polyline_interest_rate_point \<Rightarrow> int \<Rightarrow> int" where
  "interpolate a b u = uint (borrow_rate_bps a)
     + (uint (borrow_rate_bps b) - uint (borrow_rate_bps a)) * (u - uint (utilization_rate_bps a))
       div (uint (utilization_rate_bps b) - uint (utilization_rate_bps a))"

lemma uint_bound_32: "uint (x::u32) < 2 ^ 32"
  using uint_bounded [of x] by simp

lemma uint_up_32: "uint (ucast (x::u32) :: u64) = uint x"
  by (simp add: uint_up_ucast is_up)

lemma uint_diff_u64:
  "uint y \<le> uint x \<Longrightarrow> uint (ucast (x::u32) - ucast (y::u32) :: u64) = uint x - uint y"
  unfolding uint_word_ariths uint_up_32
  by (rule mod_pos_pos_trivial) (use uint_bound_32 [of x] uint_ge_0 [of y] in \<open>simp_all, linarith?\<close>)


lemma scaled_slope_bounds:
  fixes dr du w :: int
  assumes "0 \<le> dr" "0 \<le> du" "du \<le> w" "0 < w"
  shows "0 \<le> dr * du div w" "dr * du div w \<le> dr"
proof -
  show "0 \<le> dr * du div w" using assms by (simp add: pos_imp_zdiv_nonneg_iff)
  have "dr * du \<le> dr * w" by (rule mult_left_mono) (use assms in simp_all)
  then have "dr * du div w \<le> dr * w div w" by (rule zdiv_mono1) (use assms in simp)
  then show "dr * du div w \<le> dr" using assms by simp
qed

lemma interpolate_bounds:
  assumes "uint (utilization_rate_bps a) \<le> u" "u \<le> uint (utilization_rate_bps b)"
    "uint (utilization_rate_bps a) < uint (utilization_rate_bps b)"
    "uint (borrow_rate_bps a) \<le> uint (borrow_rate_bps b)"
  shows "uint (borrow_rate_bps a) \<le> interpolate a b u" "interpolate a b u \<le> uint (borrow_rate_bps b)"
  using scaled_slope_bounds [of "uint (borrow_rate_bps b) - uint (borrow_rate_bps a)"
      "u - uint (utilization_rate_bps a)"
      "uint (utilization_rate_bps b) - uint (utilization_rate_bps a)"] assms
  by (simp_all add: interpolate_def)

lemma interpolate_mono:
  assumes "u \<le> v" "uint (utilization_rate_bps a) < uint (utilization_rate_bps b)"
    "uint (borrow_rate_bps a) \<le> uint (borrow_rate_bps b)"
  shows "interpolate a b u \<le> interpolate a b v"
  unfolding interpolate_def
  by (intro add_left_mono zdiv_mono1 mult_left_mono) (use assms in simp_all)

text \<open>
  What the program adds to the rate of the first point. At and beyond that point it is cut to 32 bits, and
  the sum saturates.
\<close>

definition rise :: "polyline_interest_rate_point \<Rightarrow> polyline_interest_rate_point \<Rightarrow> int \<Rightarrow> int" where
  "rise a b u = (uint (borrow_rate_bps b) - uint (borrow_rate_bps a)) * (u - uint (utilization_rate_bps a))
     div (uint (utilization_rate_bps b) - uint (utilization_rate_bps a))"

lemma interpolate_rise: "interpolate a b u = uint (borrow_rate_bps a) + rise a b u"
  by (simp add: interpolate_def rise_def)

lemma uint_u32_saturating_add: "uint (u32_saturating_add x y) = min (2 ^ 32 - 1) (uint x + uint y)"
  using uint_ge_0 [of x] uint_ge_0 [of y]
  by (auto simp: u32_saturating_add_def uint_word_ariths min_def intro!: mod_pos_pos_trivial)

lemma line_value_at_rise:
  assumes "uint (utilization_rate_bps a) \<le> uint u"
    "uint (utilization_rate_bps a) < uint (utilization_rate_bps b)"
    "uint (borrow_rate_bps a) \<le> uint (borrow_rate_bps b)"
  shows "\<exists>w. line_value_at a b u = Ok w
    \<and> uint w = min (2 ^ 32 - 1) (uint (borrow_rate_bps a) + rise a b (uint u) mod 2 ^ 32)"
proof -
  define dr du wd :: u64 where
    "dr = ucast (borrow_rate_bps b) - ucast (borrow_rate_bps a)"
    and "du = ucast u - ucast (utilization_rate_bps a)"
    and "wd = ucast (utilization_rate_bps b) - ucast (utilization_rate_bps a)"
  have v: "uint dr = uint (borrow_rate_bps b) - uint (borrow_rate_bps a)"
    "uint du = uint u - uint (utilization_rate_bps a)"
    "uint wd = uint (utilization_rate_bps b) - uint (utilization_rate_bps a)"
    unfolding dr_def du_def wd_def by (rule uint_diff_u64, use assms in simp)+
  have "uint dr < 2 ^ 32" "uint du < 2 ^ 32"
    using v uint_bound_32 [of "borrow_rate_bps b"] uint_ge_0 [of "borrow_rate_bps a"]
      uint_bound_32 [of u] uint_ge_0 [of "utilization_rate_bps a"] by linarith+
  then have "uint dr * uint du < 2 ^ 32 * 2 ^ 32"
    by (intro mult_strict_mono) simp_all
  then have "uint (dr * du) = uint dr * uint du"
    unfolding uint_word_ariths by (intro mod_pos_pos_trivial) simp_all
  then have "uint (dr * du div wd) = rise a b (uint u)" by (simp add: uint_div rise_def v)
  then have c: "uint (ucast (dr * du div wd) :: u32) = rise a b (uint u) mod 2 ^ 32"
    by (simp add: unsigned_ucast_eq take_bit_eq_mod)
  have "wd \<noteq> 0" using v(3) assms(2) by auto
  then show ?thesis
    by (simp add: line_value_at_def Let_def uint_u32_saturating_add c flip: dr_def du_def wd_def)
qed

lemma line_value_at_interpolates:
  assumes "uint (utilization_rate_bps a) \<le> uint u" "uint u \<le> uint (utilization_rate_bps b)"
    "uint (utilization_rate_bps a) < uint (utilization_rate_bps b)"
    "uint (borrow_rate_bps a) \<le> uint (borrow_rate_bps b)"
  shows "\<exists>w. line_value_at a b u = Ok w \<and> uint w = interpolate a b (uint u)"
proof -
  have r: "0 \<le> rise a b (uint u)" "rise a b (uint u) \<le> uint (borrow_rate_bps b) - uint (borrow_rate_bps a)"
    unfolding rise_def by (rule scaled_slope_bounds; use assms in simp)+
  have "rise a b (uint u) < 2 ^ 32" "uint (borrow_rate_bps a) + rise a b (uint u) < 2 ^ 32"
    using r(2) uint_ge_0 [of "borrow_rate_bps a"] uint_bound_32 [of "borrow_rate_bps b"] by linarith+
  then have "min (2 ^ 32 - 1) (uint (borrow_rate_bps a) + rise a b (uint u) mod 2 ^ 32) = interpolate a b (uint u)"
    using r(1) by (simp add: interpolate_rise)
  then show ?thesis using line_value_at_rise [OF assms(1,3,4)] by simp
qed

section \<open>Segments\<close>

lemma increasing_last:
  "increasing_from p qs \<Longrightarrow> uint (utilization_rate_bps p) \<le> uint (utilization_rate_bps (last (p # qs)))
     \<and> uint (borrow_rate_bps p) \<le> uint (borrow_rate_bps (last (p # qs)))"
  by (induction qs arbitrary: p) (simp, fastforce)

text \<open>The selected segment is the one that contains the argument, or the last one.\<close>

lemma select_segment_spec:
  assumes "increasing_from a (b # rest)" "uint (utilization_rate_bps a) \<le> uint u"
    "uint u \<le> uint (utilization_rate_bps (last (b # rest)))"
    "select_segment u a b rest = (x, y)"
  shows "uint (utilization_rate_bps x) \<le> uint u \<and> uint u \<le> uint (utilization_rate_bps y)
    \<and> uint (utilization_rate_bps x) < uint (utilization_rate_bps y)
    \<and> uint (borrow_rate_bps x) < uint (borrow_rate_bps y)
    \<and> uint (borrow_rate_bps a) \<le> uint (borrow_rate_bps x)
    \<and> uint (borrow_rate_bps y) \<le> uint (borrow_rate_bps (last (b # rest)))"
  using assms
proof (induction rest arbitrary: a b)
  case (Cons c rest)
  show ?case
  proof (cases "uint u < uint (utilization_rate_bps b)")
    case True
    with Cons.prems increasing_last [of b "c # rest"] show ?thesis by (auto simp: word_less_def)
  next
    case False
    with Cons.prems have sel: "select_segment u b c rest = (x, y)" by (auto simp: word_less_def)
    have "increasing_from b (c # rest)" "uint (utilization_rate_bps b) \<le> uint u"
      "uint u \<le> uint (utilization_rate_bps (last (c # rest)))"
      using Cons.prems(1,3) False by auto
    from Cons.IH [OF this sel] Cons.prems(1) show ?thesis by fastforce
  qed
qed auto

lemma select_segment_mono:
  assumes "increasing_from a (b # rest)" "uint (utilization_rate_bps a) \<le> uint u" "uint u \<le> uint v"
    "uint v \<le> uint (utilization_rate_bps (last (b # rest)))"
    "select_segment u a b rest = (x, y)" "select_segment v a b rest = (x', y')"
  shows "interpolate x y (uint u) \<le> interpolate x' y' (uint v)"
  using assms
proof (induction rest arbitrary: a b)
  case Nil
  then show ?case by (auto intro: interpolate_mono)
next
  case (Cons c rest)
  consider "uint v < uint (utilization_rate_bps b)"
    | "uint u < uint (utilization_rate_bps b)" "uint (utilization_rate_bps b) \<le> uint v"
    | "uint (utilization_rate_bps b) \<le> uint u" by linarith
  then show ?case
  proof cases
    case 1
    with Cons.prems show ?thesis by (auto simp: word_less_def intro!: interpolate_mono)
  next
    case 2
    with Cons.prems have e: "x = a" "y = b" "select_segment v b c rest = (x', y')"
      by (auto simp: word_less_def)
    have "interpolate a b (uint u) \<le> uint (borrow_rate_bps b)"
      by (rule interpolate_bounds) (use Cons.prems 2 in auto)
    also have "\<dots> \<le> uint (borrow_rate_bps x')"
      using select_segment_spec [of b c rest v x' y'] Cons.prems 2 e(3) by auto
    also have "\<dots> \<le> interpolate x' y' (uint v)"
      using select_segment_spec [of b c rest v x' y'] Cons.prems 2 e(3)
      by (intro interpolate_bounds) auto
    finally show ?thesis using e by simp
  next
    case 3
    with Cons.prems show ?thesis by (intro Cons.IH [of b c]) (auto simp: word_less_def)
  qed
qed

lemma interpolate_end:
  "uint (utilization_rate_bps a) < uint (utilization_rate_bps b) \<Longrightarrow>
     interpolate a b (uint (utilization_rate_bps b)) = uint (borrow_rate_bps b)"
  "interpolate b c (uint (utilization_rate_bps b)) = uint (borrow_rate_bps b)"
  by (simp_all add: interpolate_def)

lemma increasing_append:
  "increasing_from p (xs @ a # ys) \<Longrightarrow>
     uint (utilization_rate_bps p) < uint (utilization_rate_bps a) \<and> increasing_from a ys"
  by (induction xs arbitrary: p) fastforce+

lemma select_segment_hit:
  assumes "increasing_from p (q # rest)" "p # q # rest = xs @ a # b # ys"
    "uint (utilization_rate_bps a) \<le> uint u" "uint u \<le> uint (utilization_rate_bps b)"
    "select_segment u p q rest = (x, y)"
  shows "interpolate x y (uint u) = interpolate a b (uint u)"
  using assms
proof (induction xs arbitrary: p q rest)
  case Nil
  then have e: "a = p" "b = q" "ys = rest" by simp_all
  show ?case
  proof (cases "uint u < uint (utilization_rate_bps q) \<or> rest = []")
    case True
    with Nil e show ?thesis by (cases rest) (auto simp: word_less_def)
  next
    case False
    then obtain c cs where c: "rest = c # cs" by (cases rest) auto
    have u: "uint u = uint (utilization_rate_bps q)" using False Nil.prems(4) e by simp
    then have "select_segment u q c cs = (q, c)" "(x, y) = select_segment u q c cs"
      using Nil.prems(1,5) c by (cases cs; simp add: word_less_def)+
    then show ?thesis using u e Nil.prems(1) by (simp add: interpolate_end)
  qed
next
  case (Cons z xs)
  then have e: "q # rest = xs @ a # b # ys" by simp
  show ?case
  proof (cases rest)
    case Nil
    then show ?thesis using e by (cases xs) auto
  next
    case rest: (Cons c cs)
    have "increasing_from q rest" using Cons.prems(1) by simp
    then have "uint (utilization_rate_bps q) \<le> uint (utilization_rate_bps a)"
      using e increasing_append [of q "tl xs" a "b # ys"] by (cases xs) auto
    then have "select_segment u q c cs = (x, y)"
      using Cons.prems(3,5) rest by (auto simp: word_less_def)
    then show ?thesis using Cons.IH [of q c cs] Cons.prems(1,3,4) e rest by simp
  qed
qed

lemma select_segment_beyond:
  assumes "increasing_from p (q # rest)" "p # q # rest = xs @ [a, b]"
    "uint (utilization_rate_bps b) \<le> uint u"
  shows "select_segment u p q rest = (a, b)"
  using assms
proof (induction rest arbitrary: p q xs)
  case (Cons c rest)
  then obtain ys where xs: "xs = p # ys" "q # c # rest = ys @ [a, b]" by (cases xs) auto
  have "last (q # c # rest) = b" using xs(2) by simp
  then have "\<not> u < utilization_rate_bps q"
    using increasing_last [of q "c # rest"] Cons.prems(1,3) by (auto simp: word_less_def)
  then show ?case using Cons.IH [OF _ xs(2) Cons.prems(3)] Cons.prems(1) by simp
qed (auto simp: append_eq_Cons_conv)

section \<open>Properties of the polyline curve\<close>

text \<open>
  C34: A validated polyline curve is evaluated exactly: between two consecutive points the rate
  is the linear interpolation, rounded down, with no overflow, wrap-around or division by zero.
\<close>

theorem polyline_interpolates:
  assumes "polyline_validate c = Inr ()" "points c = xs @ a # b # ys"
    and "uint (utilization_rate_bps a) \<le> uint u" "uint u \<le> uint (utilization_rate_bps b)"
  shows "\<exists>w. apr_borrow_rate_bps c u = Ok w \<and> uint w = interpolate a b (uint u)"
proof -
  obtain p ps where p: "points c = p # ps" "utilization_rate_bps p = 0" "increasing_from p ps"
    using valid_curve_points [OF assms(1)] .
  obtain q rest where q: "ps = q # rest" using p(1) assms(2) by (cases ps; cases xs) auto
  obtain x y where s: "select_segment u p q rest = (x, y)" by fastforce
  have inc: "increasing_from b ys" using p assms(2) increasing_append [of p "tl xs @ [a]" b ys]
    by (cases xs) auto
  have "uint u \<le> uint (utilization_rate_bps (last (q # rest)))"
  proof -
    have "last (q # rest) = last (b # ys)" using p(1) q assms(2)
      by (metis append_is_Nil_conv last.simps last_appendR list.distinct(1))
    then show ?thesis using increasing_last [OF inc] assms(4) by simp
  qed
  note sp = select_segment_spec [OF p(3) [unfolded q] _ this s]
  have "\<exists>w. line_value_at x y u = Ok w \<and> uint w = interpolate x y (uint u)"
    using sp p(2) by (intro line_value_at_interpolates) auto
  moreover have "interpolate x y (uint u) = interpolate a b (uint u)"
    using select_segment_hit [OF p(3) [unfolded q] _ assms(3,4) s, of xs ys] p(1) q assms(2) by simp
  ultimately show ?thesis using p(1) q s by (simp add: apr_borrow_rate_bps_def)
qed

definition example_polyline :: polyline_interest_rate_curve where
  "example_polyline = \<lparr>polyline_points =
     [\<lparr>utilization_rate_bps = 0, borrow_rate_bps = 100\<rparr>,
      \<lparr>utilization_rate_bps = 8000, borrow_rate_bps = 500\<rparr>,
      \<lparr>utilization_rate_bps = 10000, borrow_rate_bps = 10000\<rparr>]\<rparr>"

lemmas polyline_eval = polyline_validate_def validate_points_def POLYLINE_MAX_POINTS_def
  maybe_uninit_def points_def apr_borrow_rate_bps_def line_value_at_def u32_saturating_add_def
  Let_def

theorem polyline_interpolates_witness:
  "polyline_validate example_polyline = Inr ()
   \<and> (\<exists>w. apr_borrow_rate_bps example_polyline 9000 = Ok w \<and> uint w = 5250)"
proof -
  have v: "polyline_validate example_polyline = Inr ()"
    by (simp add: polyline_eval example_polyline_def)
  have p: "points example_polyline = [\<lparr>utilization_rate_bps = 0, borrow_rate_bps = 100\<rparr>]
      @ \<lparr>utilization_rate_bps = 8000, borrow_rate_bps = 500\<rparr>
      # \<lparr>utilization_rate_bps = 10000, borrow_rate_bps = 10000\<rparr> # []"
    by (simp add: polyline_eval example_polyline_def)
  show ?thesis using polyline_interpolates [OF v p, of 9000] v by (auto simp: interpolate_def)
qed

text \<open>
  The borrow rate of a validated polyline curve grows with utilisation, up to the last point,
  and stays between the rates of the first and the last point.
\<close>

theorem polyline_rate_monotone:
  assumes "polyline_validate c = Inr ()" "u \<le> v"
    and "v \<le> utilization_rate_bps (last (points c))"
  shows "\<exists>x y. apr_borrow_rate_bps c u = Ok x \<and> apr_borrow_rate_bps c v = Ok y \<and> x \<le> y
    \<and> borrow_rate_bps (hd (points c)) \<le> x \<and> y \<le> borrow_rate_bps (last (points c))"
proof -
  obtain p ps where p: "points c = p # ps" "utilization_rate_bps p = 0" "increasing_from p ps"
    using valid_curve_points [OF assms(1)] .
  show ?thesis
  proof (cases ps)
    case Nil
    then show ?thesis using p(1) by (simp add: apr_borrow_rate_bps_def)
  next
    case q: (Cons q rest)
    obtain x y x' y' where s: "select_segment u p q rest = (x, y)" "select_segment v p q rest = (x', y')"
      by fastforce
    have le: "uint u \<le> uint v" "uint v \<le> uint (utilization_rate_bps (last (q # rest)))"
      using assms(2,3) p(1) q by (simp_all add: word_le_def)
    have z: "uint (utilization_rate_bps p) \<le> uint u" "uint (utilization_rate_bps p) \<le> uint v"
      using p(2) by simp_all
    note su = select_segment_spec [OF p(3) [unfolded q] z(1) order_trans [OF le] s(1)]
    note sv = select_segment_spec [OF p(3) [unfolded q] z(2) le(2) s(2)]
    obtain w w' where w: "line_value_at x y u = Ok w" "uint w = interpolate x y (uint u)"
      "line_value_at x' y' v = Ok w'" "uint w' = interpolate x' y' (uint v)"
      using line_value_at_interpolates [of x u y] line_value_at_interpolates [of x' v y'] su sv
      by auto
    have "uint w \<le> uint w'"
      unfolding w(2,4) by (rule select_segment_mono [OF p(3) [unfolded q] z(1) le s])
    moreover have "uint (borrow_rate_bps p) \<le> uint w" "uint w' \<le> uint (borrow_rate_bps (last (q # rest)))"
      using w(2,4) su sv interpolate_bounds [of x "uint u" y] interpolate_bounds [of x' "uint v" y'] by auto
    ultimately show ?thesis
      using p(1) q s w(1,3) by (simp add: apr_borrow_rate_bps_def word_le_def)
  qed
qed

theorem polyline_rate_monotone_witness:
  "\<exists>x y. apr_borrow_rate_bps example_polyline 4000 = Ok x
     \<and> apr_borrow_rate_bps example_polyline 9500 = Ok y \<and> x \<le> y"
proof -
  have v: "polyline_validate example_polyline = Inr ()"
    by (simp add: polyline_eval example_polyline_def)
  have "9500 \<le> utilization_rate_bps (last (points example_polyline))"
    by (simp add: polyline_eval example_polyline_def)
  then show ?thesis using polyline_rate_monotone [OF v, of 4000 9500] by auto
qed

text \<open>
  C40: Beyond the last point the curve is meant to extend its last line, saturating at the
  largest \<open>u32\<close>, but the quotient is cut to 32 bits before the saturating addition. For every validated curve
  and every utilisation at or beyond its last point the returned rate is the one of the last but one point
  plus the rise of the line modulo \<open>2 ^ 32\<close>, capped. So the result is the saturated line exactly when the rise
  fits in 32 bits or the remainder happens to reach the cap, and it falls below the rate of the last
  point exactly when the remainder is less than the rise up to that point: a steep last segment makes
  borrowing cheaper at a higher utilisation. As long as the rise fits, the curve saturates as meant.
\<close>

theorem polyline_extrapolation_wraps:
  assumes "polyline_validate c = Inr ()" "points c = xs @ [a, b]"
    and "uint (utilization_rate_bps b) \<le> uint u"
  shows "\<exists>w. apr_borrow_rate_bps c u = Ok w
    \<and> uint w = min (2 ^ 32 - 1) (uint (borrow_rate_bps a) + rise a b (uint u) mod 2 ^ 32)
    \<and> (uint w = min (2 ^ 32 - 1) (interpolate a b (uint u)) \<longleftrightarrow>
        rise a b (uint u) < 2 ^ 32 \<or> 2 ^ 32 - 1 \<le> uint (borrow_rate_bps a) + rise a b (uint u) mod 2 ^ 32)
    \<and> (w < borrow_rate_bps b \<longleftrightarrow>
        rise a b (uint u) mod 2 ^ 32 < uint (borrow_rate_bps b) - uint (borrow_rate_bps a))"
proof -
  obtain p ps where p: "points c = p # ps" "increasing_from p ps"
    using valid_curve_points [OF assms(1)] .
  obtain q rest where q: "ps = q # rest" using p(1) assms(2) by (cases ps; cases xs) auto
  have ab: "uint (utilization_rate_bps a) < uint (utilization_rate_bps b)"
    "uint (borrow_rate_bps a) < uint (borrow_rate_bps b)"
    using p assms(2) increasing_append [of p "tl xs" a "[b]"] by (cases xs; auto)+
  have "select_segment u p q rest = (a, b)"
    by (rule select_segment_beyond [where xs = xs]) (use p q assms(2,3) in simp_all)
  then have "apr_borrow_rate_bps c u = line_value_at a b u"
    using p(1) q by (simp add: apr_borrow_rate_bps_def)
  moreover obtain w where w: "line_value_at a b u = Ok w"
      "uint w = min (2 ^ 32 - 1) (uint (borrow_rate_bps a) + rise a b (uint u) mod 2 ^ 32)"
    using line_value_at_rise [of a u b] ab assms(3) by auto
  moreover have r: "0 \<le> rise a b (uint u)"
    unfolding rise_def using ab assms(3) by (simp add: pos_imp_zdiv_nonneg_iff)
  have m: "0 \<le> rise a b (uint u) mod 2 ^ 32" "rise a b (uint u) mod 2 ^ 32 < 2 ^ 32" by simp_all
  have "uint w = min (2 ^ 32 - 1) (interpolate a b (uint u)) \<longleftrightarrow>
      rise a b (uint u) < 2 ^ 32 \<or> 2 ^ 32 - 1 \<le> uint (borrow_rate_bps a) + rise a b (uint u) mod 2 ^ 32"
  proof (cases "rise a b (uint u) < 2 ^ 32")
    case True
    then have "rise a b (uint u) mod 2 ^ 32 = rise a b (uint u)" using r by (rule mod_pos_pos_trivial [rotated])
    then show ?thesis unfolding w(2) interpolate_rise using True by simp
  next
    case False
    then have "2 ^ 32 - 1 \<le> interpolate a b (uint u)" "rise a b (uint u) mod 2 ^ 32 < rise a b (uint u)"
      unfolding interpolate_rise using m(2) uint_ge_0 [of "borrow_rate_bps a"] by linarith+
    then show ?thesis unfolding w(2) using False by (auto simp: min_def)
  qed
  moreover have "w < borrow_rate_bps b \<longleftrightarrow>
      rise a b (uint u) mod 2 ^ 32 < uint (borrow_rate_bps b) - uint (borrow_rate_bps a)"
    unfolding word_less_def w(2) using uint_bound_32 [of "borrow_rate_bps b"] by auto
  ultimately show ?thesis by auto
qed

definition example_steep_polyline :: polyline_interest_rate_curve where
  "example_steep_polyline = \<lparr>polyline_points = [\<lparr>utilization_rate_bps = 0, borrow_rate_bps = 1\<rparr>,
     \<lparr>utilization_rate_bps = 1, borrow_rate_bps = 4294967295\<rparr>]\<rparr>"

theorem polyline_extrapolation_wraps_witness:
  "polyline_validate example_steep_polyline = Inr ()
   \<and> (\<exists>w. apr_borrow_rate_bps example_steep_polyline 2 = Ok w \<and> uint w = 4294967293 \<and> w < 4294967295)"
proof -
  have v: "polyline_validate example_steep_polyline = Inr ()"
    by (simp add: polyline_eval example_steep_polyline_def word_le_def)
  have p: "points example_steep_polyline = [] @ [\<lparr>utilization_rate_bps = 0, borrow_rate_bps = 1\<rparr>,
      \<lparr>utilization_rate_bps = 1, borrow_rate_bps = 4294967295\<rparr>]"
    by (simp add: polyline_eval example_steep_polyline_def)
  show ?thesis using polyline_extrapolation_wraps [OF v p, of 2] v by (auto simp: rise_def)
qed

end
