(* ===== verification/Exp_Laws.thy ===== *)
theory Exp_Laws
  imports Shares_Tracker
begin

text \<open>
  The exponential of \<open>ifixed_point.rs\<close>: range reduction by multiples of \<open>ln 2\<close>, a Taylor
  polynomial of degree six and a shift. On its whole domain it succeeds, whatever the rounding
  of negative products and quotients, and for a nonnegative argument it is at least one: the
  interest it yields is never negative.
\<close>

section \<open>One term of the polynomial\<close>

context fixed_crate_spec
begin

lemma if_safe_mul_small:
  assumes "\<bar>ival x * ival y\<bar> \<le> 2 ^ 174"
  shows "\<exists>z. if_safe_mul F x y = Ok z \<and> \<bar>ival z\<bar> * 2 ^ 48 < \<bar>ival x * ival y\<bar> + 2 ^ 48
     \<and> (0 \<le> ival x * ival y \<longrightarrow> 0 \<le> ival z)"
proof (cases "0 \<le> ival x * ival y")
  case True
  let ?v = "ival x * ival y div 2 ^ 48"
  have v: "0 \<le> ?v" "?v * 2 ^ 48 \<le> ival x * ival y"
    using True div_mult_bounds(1) [of "2 ^ 48" "ival x * ival y"] by (simp_all add: pos_imp_zdiv_nonneg_iff)
  have "?v < 2 ^ 127" using assms True by (simp add: div_less_iff)
  then obtain z where "ival z = ?v" using v(1) ex_ival [of ?v] by force
  then show ?thesis using if_safe_mul_nonneg [OF True, of z] v True by auto
next
  case False
  then have n: "ival x * ival y < 0" by simp
  have "i_checked_mul F (if_bits x) (if_bits y) \<noteq> None"
    using i_mul_neg_ok [of "if_bits x" "if_bits y"] assms n by (simp add: ival_def)
  then obtain z where z: "if_safe_mul F x y = Ok z" by (auto simp: if_safe_mul_def)
  from if_safe_mul_neg [OF n z] n show ?thesis using z by auto
qed

lemma exp_term:
  assumes "\<bar>ival f\<bar> \<le> R" "R \<le> 2 ^ 50" "\<bar>ival t\<bar> \<le> 2 ^ 50" "n \<noteq> 0"
  shows "\<exists>p t'. if_safe_mul F f t = Ok p \<and> if_safe_div_u64 p n = Ok t'
    \<and> \<bar>ival t'\<bar> * uint n * 2 ^ 48 \<le> R * \<bar>ival t\<bar> + 2 ^ 48
    \<and> (0 \<le> ival f \<longrightarrow> 0 \<le> ival t \<longrightarrow> 0 \<le> ival t')"
proof -
  have "\<bar>ival f\<bar> * \<bar>ival t\<bar> \<le> 2 ^ 50 * 2 ^ 50" by (rule mult_mono) (use assms in simp_all)
  then have "\<bar>ival f * ival t\<bar> \<le> 2 ^ 174" by (simp add: abs_mult)
  then obtain p where p: "if_safe_mul F f t = Ok p" "\<bar>ival p\<bar> * 2 ^ 48 < \<bar>ival f * ival t\<bar> + 2 ^ 48"
    "0 \<le> ival f * ival t \<longrightarrow> 0 \<le> ival p" using if_safe_mul_small by blast
  have n: "0 < uint n" using assms(4) by (simp add: word_uint_eq_iff order_less_le)
  have "\<bar>quot_zero (ival p) (uint n)\<bar> = \<bar>ival p\<bar> div uint n"
    using n by (cases "0 \<le> ival p") (simp_all add: quot_zero_nonneg quot_zero_neg_eq pos_imp_zdiv_nonneg_iff)
  moreover obtain t' where t': "ival t' = quot_zero (ival p) (uint n)"
    using quot_zero_range [OF ival_bounds [of p] n] ex_ival [of "quot_zero (ival p) (uint n)"] by auto
  ultimately have "\<bar>ival t'\<bar> * uint n \<le> \<bar>ival p\<bar>" using div_mult_bounds(1) [OF n, of "\<bar>ival p\<bar>"] by simp
  then have "\<bar>ival t'\<bar> * uint n * 2 ^ 48 \<le> \<bar>ival p\<bar> * 2 ^ 48" by simp
  also have "\<dots> \<le> \<bar>ival f\<bar> * \<bar>ival t\<bar> + 2 ^ 48" using p(2) by (simp add: abs_mult)
  also have "\<dots> \<le> R * \<bar>ival t\<bar> + 2 ^ 48" using assms(1) by (simp add: mult_right_mono)
  finally have "\<bar>ival t'\<bar> * uint n * 2 ^ 48 \<le> R * \<bar>ival t\<bar> + 2 ^ 48" .
  moreover have "0 \<le> ival f \<longrightarrow> 0 \<le> ival t \<longrightarrow> 0 \<le> ival t'"
    using p(3) t' n by (simp add: quot_zero_nonneg pos_imp_zdiv_nonneg_iff)
  moreover have "if_safe_div_u64 p n = Ok t'" using t' n by (simp add: if_safe_div_u64_Ok)
  ultimately show ?thesis using p(1) by blast
qed

lemma if_safe_add_small:
  assumes "\<bar>ival x\<bar> \<le> 2 ^ 100" "\<bar>ival y\<bar> \<le> 2 ^ 100"
  shows "\<exists>z. if_safe_add F x y = Ok z \<and> ival z = ival x + ival y"
proof -
  have "- (2 ^ 127) \<le> ival x + ival y" "ival x + ival y < 2 ^ 127" using assms by auto
  then show ?thesis using ex_ival [of "ival x + ival y"] by (auto simp: if_safe_add_Ok)
qed

lemma exp_loop_step:
  assumes "\<bar>ival f\<bar> \<le> R" "R \<le> 2 ^ 50" "\<bar>ival t\<bar> \<le> 2 ^ 50" "\<bar>ival e\<bar> \<le> 2 ^ 60" "n \<noteq> 0"
  shows "\<exists>t' e'. exp_loop F f t e (n # ns) = exp_loop F f t' e' ns
    \<and> \<bar>ival t'\<bar> * uint n * 2 ^ 48 \<le> R * \<bar>ival t\<bar> + 2 ^ 48 \<and> ival e' = ival e + ival t'
    \<and> (0 \<le> ival f \<longrightarrow> 0 \<le> ival t \<longrightarrow> 0 \<le> ival t')"
proof -
  obtain p t' where t: "if_safe_mul F f t = Ok p" "if_safe_div_u64 p n = Ok t'"
    "\<bar>ival t'\<bar> * uint n * 2 ^ 48 \<le> R * \<bar>ival t\<bar> + 2 ^ 48" "0 \<le> ival f \<longrightarrow> 0 \<le> ival t \<longrightarrow> 0 \<le> ival t'"
    using exp_term [OF assms(1-3,5)] by blast
  have n: "1 \<le> uint n" using assms(5) uint_ge_0 [of n] by (simp add: word_uint_eq_iff order_less_le int_one_le_iff_zero_less)
  have "\<bar>ival t'\<bar> * 2 ^ 48 \<le> \<bar>ival t'\<bar> * uint n * 2 ^ 48"
    using mult_left_mono [OF n, of "\<bar>ival t'\<bar>"] by simp
  also have "\<dots> \<le> 2 ^ 50 * 2 ^ 50 + 2 ^ 48"
    by (rule order_trans [OF t(3)])
      (use mult_mono [of R "2 ^ 50" "\<bar>ival t\<bar>" "2 ^ 50"] assms(2,3) in simp)
  finally have "\<bar>ival t'\<bar> \<le> 2 ^ 100" by simp
  moreover have "\<bar>ival e\<bar> \<le> 2 ^ 100" using assms(4) by simp
  ultimately obtain e' where "if_safe_add F e t' = Ok e'" "ival e' = ival e + ival t'"
    using if_safe_add_small by blast
  then show ?thesis using t by auto
qed

text \<open>
  The terms never grow when the argument is at most two, and their sum is a fraction of the
  first when it is at most \<open>0.35\<close>.
\<close>

lemma term_shrinks:
  fixes t t' n R :: int
  assumes "\<bar>t'\<bar> * n * 2 ^ 48 \<le> R * \<bar>t\<bar> + 2 ^ 48" "2 \<le> n" "R \<le> 2 ^ 49"
  shows "\<bar>t'\<bar> \<le> \<bar>t\<bar>"
proof -
  have "\<bar>t'\<bar> * 2 * 2 ^ 48 \<le> \<bar>t'\<bar> * n * 2 ^ 48"
    by (intro mult_right_mono mult_left_mono) (use assms(2) in simp_all)
  also have "\<dots> \<le> R * \<bar>t\<bar> + 2 ^ 48" by (rule assms(1))
  also have "\<dots> \<le> 2 ^ 49 * \<bar>t\<bar> + 2 ^ 48"
    by (intro add_right_mono mult_right_mono) (use assms(3) in simp_all)
  finally show ?thesis by simp
qed

lemma term_fraction:
  fixes t t' n R :: int
  assumes "\<bar>t'\<bar> * n * 2 ^ 48 \<le> R * \<bar>t\<bar> + 2 ^ 48" "2 \<le> n" "R * 20 \<le> 7 * 2 ^ 48"
  shows "5 * \<bar>t'\<bar> \<le> \<bar>t\<bar> + 4"
proof -
  have "R * 20 * \<bar>t\<bar> \<le> 7 * 2 ^ 48 * \<bar>t\<bar>" "\<bar>t'\<bar> * 2 \<le> \<bar>t'\<bar> * n" using assms(2,3)
    by (simp_all add: mult_right_mono mult_left_mono)
  then have "40 * \<bar>t'\<bar> * 2 ^ 48 \<le> (7 * \<bar>t\<bar> + 20) * 2 ^ 48" using assms(1)
    by (simp add: algebra_simps)
  then have "40 * \<bar>t'\<bar> \<le> 7 * \<bar>t\<bar> + 20" by simp
  then show ?thesis by linarith
qed

lemma tail_bounds:
  fixes a b y z k :: int
  assumes "z \<le> y + b"
  shows "5 * b \<le> a + 4 \<Longrightarrow> 4 * y \<le> b + 4 * k \<Longrightarrow> 4 * z \<le> a + 4 * (1 + k)"
    and "b \<le> a \<Longrightarrow> y \<le> b * k \<Longrightarrow> 0 \<le> k \<Longrightarrow> z \<le> a * (1 + k)"
proof -
  show "4 * z \<le> a + 4 * (1 + k)" if "5 * b \<le> a + 4" "4 * y \<le> b + 4 * k"
    using assms that by simp
next
  assume "b \<le> a" "y \<le> b * k" "0 \<le> k"
  moreover from this have "b * k \<le> a * k" by (intro mult_right_mono)
  ultimately show "z \<le> a * (1 + k)" using assms by (simp add: distrib_left)
qed

lemma exp_loop_Ok:
  assumes "\<bar>ival f\<bar> \<le> R" "R \<le> 2 ^ 49" "\<bar>ival t\<bar> \<le> 2 ^ 49"
    "\<bar>ival e\<bar> + 2 ^ 49 * int (length ns) \<le> 2 ^ 60" "\<forall>n\<in>set ns. 2 \<le> uint n"
  shows "\<exists>e'. exp_loop F f t e ns = Ok e' \<and> \<bar>ival e' - ival e\<bar> \<le> \<bar>ival t\<bar> * int (length ns)
    \<and> (R * 20 \<le> 7 * 2 ^ 48 \<longrightarrow> 4 * \<bar>ival e' - ival e\<bar> \<le> \<bar>ival t\<bar> + 4 * int (length ns))
    \<and> (0 \<le> ival f \<longrightarrow> 0 \<le> ival t \<longrightarrow> ival e \<le> ival e')"
  using assms(3-5)
proof (induction ns arbitrary: t e)
  case (Cons n ns)
  have n: "2 \<le> uint n" "n \<noteq> 0" using Cons.prems(3) by auto
  have R: "R \<le> 2 ^ 50" "\<bar>ival t\<bar> \<le> 2 ^ 50" "\<bar>ival e\<bar> \<le> 2 ^ 60" using assms(2) Cons.prems(1,2) by auto
  obtain t' e1 where s: "exp_loop F f t e (n # ns) = exp_loop F f t' e1 ns"
    "\<bar>ival t'\<bar> * uint n * 2 ^ 48 \<le> R * \<bar>ival t\<bar> + 2 ^ 48" "ival e1 = ival e + ival t'"
    "0 \<le> ival f \<longrightarrow> 0 \<le> ival t \<longrightarrow> 0 \<le> ival t'"
    using exp_loop_step [OF assms(1) R n(2), of ns] by blast
  note le = term_shrinks [OF s(2) n(1) assms(2)]
  have "\<bar>ival t'\<bar> \<le> 2 ^ 49" "\<bar>ival e1\<bar> + 2 ^ 49 * int (length ns) \<le> 2 ^ 60"
    using le Cons.prems(1,2) s(3) by (auto simp: algebra_simps)
  from Cons.IH [OF this] Cons.prems(3) obtain e' where i: "exp_loop F f t' e1 ns = Ok e'"
    "\<bar>ival e' - ival e1\<bar> \<le> \<bar>ival t'\<bar> * int (length ns)"
    "R * 20 \<le> 7 * 2 ^ 48 \<longrightarrow> 4 * \<bar>ival e' - ival e1\<bar> \<le> \<bar>ival t'\<bar> + 4 * int (length ns)"
    "0 \<le> ival f \<longrightarrow> 0 \<le> ival t' \<longrightarrow> ival e1 \<le> ival e'" by auto
  have tri: "\<bar>ival e' - ival e\<bar> \<le> \<bar>ival e' - ival e1\<bar> + \<bar>ival t'\<bar>"
    using abs_triangle_ineq [of "ival e' - ival e1" "ival t'"] s(3) by simp
  have "\<bar>ival e' - ival e\<bar> \<le> \<bar>ival t\<bar> * int (length (n # ns))"
    using tail_bounds(2) [OF tri le i(2)] by simp
  moreover have "4 * \<bar>ival e' - ival e\<bar> \<le> \<bar>ival t\<bar> + 4 * int (length (n # ns))" if "R * 20 \<le> 7 * 2 ^ 48"
    using tail_bounds(1) [OF tri term_fraction [OF s(2) n(1) that] i(3) [rule_format, OF that]] by simp
  moreover have "0 \<le> ival f \<longrightarrow> 0 \<le> ival t \<longrightarrow> ival e \<le> ival e'" using s(3,4) i(4) by auto
  ultimately show ?case using s(1) i(1) by (intro exI [of _ e']) simp
qed simp

lemma exp_7_terms_Ok:
  assumes "\<bar>ival r\<bar> \<le> R" "R \<le> 2 ^ 49"
  shows "\<exists>e. exp_7_terms F r = Ok e \<and> \<bar>ival e - (2 ^ 48 + ival r)\<bar> \<le> \<bar>ival r\<bar> * 5
    \<and> (R * 20 \<le> 7 * 2 ^ 48 \<longrightarrow> 4 * \<bar>ival e - (2 ^ 48 + ival r)\<bar> \<le> \<bar>ival r\<bar> + 20)
    \<and> (0 \<le> ival r \<longrightarrow> 2 ^ 48 + ival r \<le> ival e)"
proof -
  have r: "\<bar>ival r\<bar> \<le> 2 ^ 49" "\<bar>ival r\<bar> \<le> 2 ^ 100" "\<bar>ival if_one\<bar> \<le> 2 ^ 100"
    using assms by (auto simp: ival_one)
  then obtain e1 where e1: "if_safe_add F r if_one = Ok e1" "ival e1 = 2 ^ 48 + ival r"
    using if_safe_add_small [of r if_one] by (auto simp: ival_one)
  have "\<bar>ival e1\<bar> + 2 ^ 49 * int (length [2, 3, 4, 5, 6::u64]) \<le> 2 ^ 60" using r(1) e1(2) by auto
  from exp_loop_Ok [OF assms r(1) this] e1 show ?thesis by (simp add: exp_7_terms_def)
qed

end

section \<open>Range reduction\<close>

lemma div_eqI: "0 < (L::int) \<Longrightarrow> q * L \<le> s \<Longrightarrow> s < (q + 1) * L \<Longrightarrow> s div L = q"
  using le_div_iff [of L q s] div_less_iff [of L s "q + 1"] by simp

lemma reduced_quotient:
  fixes d s L m :: int
  assumes "0 < L" "L \<le> m" "\<bar>d * L - s * m\<bar> < L"
  shows "d div m = s div L"
proof -
  have m: "0 < m" using assms by simp
  define q where "q = d div m"
  have q: "q * m \<le> d" "d + 1 \<le> (q + 1) * m"
    using div_mult_bounds [OF m, of d] by (simp_all add: q_def distrib_right)
  have "q * L * m \<le> d * L" using mult_right_mono [OF q(1), of L] assms(1) by (simp add: algebra_simps)
  also have "\<dots> < (s + 1) * m" using assms(2,3) by (simp add: distrib_right abs_less_iff)
  finally have "q * L < s + 1" using m by simp
  have "s * m < d * L + L" using assms(3) by (simp add: abs_less_iff)
  also have "\<dots> \<le> (q + 1) * L * m"
    using mult_right_mono [OF q(2), of L] assms(1) by (simp add: algebra_simps)
  finally have "s < (q + 1) * L" using m by simp
  with \<open>q * L < s + 1\<close> show ?thesis using div_eqI [OF assms(1), of q s] by (simp add: q_def)
qed

lemma sint_i32_to_i64: "sint (scast (q::i32) :: i64) = sint q"
  by (simp add: sint_up_scast is_up)

context fixed_crate_spec
begin

lemma if_safe_mul_exact:
  assumes "ival x = k * 2 ^ 48" "\<bar>k * ival y\<bar> \<le> 2 ^ 100"
  shows "\<exists>z. if_safe_mul F x y = Ok z \<and> ival z = k * ival y"
proof -
  have p: "ival x * ival y = k * ival y * 2 ^ 48" by (simp add: assms(1))
  have "\<bar>ival x * ival y\<bar> \<le> 2 ^ 100 * 2 ^ 48"
    unfolding p abs_mult [of _ "2 ^ 48"] using assms(2) by simp
  then obtain z where z: "if_safe_mul F x y = Ok z" using if_safe_mul_small [of x y] by auto
  have "ival z = k * ival y"
  proof (cases "0 \<le> ival x * ival y")
    case True
    have "ival z = k * ival y * 2 ^ 48 div 2 ^ 48" using if_safe_mul_nonneg [OF True, of z] z p by simp
    then show ?thesis by simp
  next
    case False
    then have "\<bar>ival z * 2 ^ 48 - k * ival y * 2 ^ 48\<bar> < 2 ^ 48"
      using if_safe_mul_neg [of x y z] z p by simp
    then have "\<bar>(ival z - k * ival y) * 2 ^ 48\<bar> < 2 ^ 48" by (simp add: left_diff_distrib)
    then show ?thesis by (simp add: abs_mult)
  qed
  with z show ?thesis by blast
qed

lemma quotient_by_ln2:
  assumes "\<bar>ival s\<bar> \<le> 2 ^ 60"
  shows "\<exists>d. if_safe_div F s LN_2 = Ok d \<and> ival d div 2 ^ 48 = ival s div ival LN_2 \<and> \<bar>ival d\<bar> \<le> 2 ^ 70"
proof (cases "0 \<le> ival s")
  case True
  let ?v = "ival s * 2 ^ 48 div ival LN_2"
  have b: "0 \<le> ?v" "?v < 2 ^ 70" using True assms by (simp_all add: LN_2_val pos_imp_zdiv_nonneg_iff div_less_iff)
  then obtain d where d: "ival d = ?v" using ex_ival [of ?v] by force
  have "if_safe_div F s LN_2 = Ok d" using if_safe_div_nonneg [OF True, of LN_2 d] d by (simp add: LN_2_val)
  moreover have "?v div 2 ^ 48 = ival s div ival LN_2"
    by (rule reduced_quotient) (use div_mult_bounds [of "ival LN_2" "ival s * 2 ^ 48"] in \<open>simp_all add: LN_2_val abs_less_iff\<close>)
  ultimately show ?thesis using d b by auto
next
  case False
  have "i_checked_div F (if_bits s) (if_bits LN_2) \<noteq> None"
    using i_div_neg_ok [of "if_bits s" "if_bits LN_2"] assms False by (simp add: LN_2_val flip: ival_def)
  then obtain d where d: "if_safe_div F s LN_2 = Ok d" by (auto simp: if_safe_div_def)
  have n: "ival d \<le> 0" "\<bar>ival d * ival LN_2 - ival s * 2 ^ 48\<bar> < ival LN_2"
    using if_safe_div_neg [of s LN_2 d] False d by (simp_all add: LN_2_val)
  have "ival d div 2 ^ 48 = ival s div ival LN_2"
    by (rule reduced_quotient) (use n in \<open>simp_all add: LN_2_val\<close>)
  moreover have "\<bar>ival d\<bar> \<le> 2 ^ 70" using n assms False by (simp add: LN_2_val abs_less_iff)
  ultimately show ?thesis using d by blast
qed

text \<open>The multiple of \<open>ln 2\<close> and the remainder that \<open>checked_exp\<close> works with.\<close>

lemma range_reduction:
  assumes "\<bar>ival x\<bar> \<le> 2 ^ 55" "ival h = (if ival x < 0 then - ival LN_2_DIV_2 else ival LN_2_DIV_2)"
  shows "\<exists>s d q m r. if_safe_add F x h = Ok s \<and> if_safe_div F s LN_2 = Ok d
    \<and> if_checked_to_i32 F d = Ok q \<and> if_safe_mul F (if_from_i64 (scast q)) LN_2 = Ok m
    \<and> if_safe_sub F x m = Ok r \<and> sint q = (ival x + ival h) div ival LN_2
    \<and> ival r = (ival x + ival h) mod ival LN_2 - ival h"
proof -
  have h: "\<bar>ival h\<bar> \<le> 2 ^ 50" using assms(2) by (simp add: LN_2_DIV_2_val)
  obtain s where s: "if_safe_add F x h = Ok s" "ival s = ival x + ival h"
    using if_safe_add_small [of x h] assms(1) h by auto
  have "\<bar>ival s\<bar> \<le> 2 ^ 60" using s(2) assms(1) h by auto
  then obtain d where d: "if_safe_div F s LN_2 = Ok d" "ival d div 2 ^ 48 = ival s div ival LN_2"
    "\<bar>ival d\<bar> \<le> 2 ^ 70" using quotient_by_ln2 by blast
  have "- (2 ^ 31) \<le> ival d div 2 ^ 48" "ival d div 2 ^ 48 < 2 ^ 31"
    using d(3) by (simp_all add: le_div_iff div_less_iff abs_le_iff)
  then obtain q where q: "if_checked_to_i32 F d = Ok q" "sint q = ival d div 2 ^ 48"
    using as_i32_Some by (auto simp: if_checked_to_i32_def i_to_i32 as_i32_def simp flip: ival_def)
  have qs: "sint q * ival LN_2 \<le> ival s" "ival s < sint q * ival LN_2 + ival LN_2"
    using q(2) d(2) div_mult_bounds [of "ival LN_2" "ival s"] by (simp_all add: LN_2_val)
  then have small: "\<bar>sint q * ival LN_2\<bar> \<le> 2 ^ 61" using \<open>\<bar>ival s\<bar> \<le> 2 ^ 60\<close> by (simp add: LN_2_val)
  then obtain m where m: "if_safe_mul F (if_from_i64 (scast q)) LN_2 = Ok m" "ival m = sint q * ival LN_2"
    using if_safe_mul_exact [of "if_from_i64 (scast q)" "sint q" LN_2]
    by (auto simp: ival_from_i64 sint_i32_to_i64)
  have "- (2 ^ 127) \<le> ival x - ival m" "ival x - ival m < 2 ^ 127" using m(2) small assms(1) by auto
  then obtain r where r: "ival r = ival x - ival m" using ex_ival [of "ival x - ival m"] by auto
  have "ival r = ival s mod ival LN_2 - ival h"
    using r m(2) q(2) d(2) s(2) minus_div_mult_eq_mod [of "ival s" "ival LN_2"] by simp
  then show ?thesis using s d q m r by (auto simp: if_safe_sub_Ok)
qed

end

section \<open>The shift\<close>

lemma uint_i32_nonneg: "0 \<le> sint (q::i32) \<Longrightarrow> uint q = sint q"
proof -
  assume "0 \<le> sint q"
  moreover have "sint q < 2 ^ 31" using sint_lt [of q] by simp
  ultimately have "take_bit 32 (sint q) = sint q" by (intro take_bit_int_eq_self) simp_all
  then show "uint q = sint q" using uint_sint [of q] by simp
qed

lemma uint_neg_i32:
  assumes "sint (q::i32) < 0"
  shows "uint (- q) = - sint q"
proof -
  have "- (2 ^ 31) \<le> sint q" using sint_ge [of q] by simp
  then have "(- sint q) mod 2 ^ LENGTH(32) = - sint q"
    using assms by (intro mod_pos_pos_trivial) simp_all
  then show ?thesis using uint_word_of_int [of "- sint q", where 'a = 32] by simp
qed

lemma div_stays_in_range:
  fixes v k M :: int
  assumes "0 < k" "- M \<le> v" "v < M" "0 < M"
  shows "- M \<le> v div k" "v div k < M"
proof -
  have "M * 1 \<le> M * k" by (rule mult_left_mono) (use assms in simp_all)
  then have "- M * k \<le> v" "v < M * k" using assms(2,3) by linarith+
  then show "- M \<le> v div k" "v div k < M" using assms(1) by (simp_all only: le_div_iff div_less_iff)
qed

context fixed_crate_spec
begin

lemma shift_up:
  assumes "0 \<le> sint q" "sint q < 128" "\<bar>ival e * 2 ^ nat (sint q)\<bar> < 2 ^ 127"
  shows "\<exists>z. if_checked_shift F e q = Some z \<and> ival z = ival e * 2 ^ nat (sint q)"
proof -
  have n: "uint q < 128" "unat q = nat (sint q)"
    using assms(1,2) by (simp_all add: uint_i32_nonneg unat_eq_nat_uint)
  let ?w = "push_bit (unat q) (if_bits e)"
  have "?w = word_of_int (ival e * 2 ^ nat (sint q))"
    by (simp add: push_bit_eq_mult n(2) ival_def)
  then have v: "sint ?w = ival e * 2 ^ nat (sint q)"
    using sint_of_int_128 [of "ival e * 2 ^ nat (sint q)"] assms(3) by simp
  then have "word_of_int (sint ?w div 2 ^ unat q) = if_bits e" by (simp add: n(2) ival_def)
  then show ?thesis using assms(1) n(1) v
    by (simp add: if_checked_shift_def i_shl i_shr) (simp add: ival_def)
qed

lemma shift_down:
  assumes "sint q < 0" "- 128 < sint q"
  shows "\<exists>z. if_checked_shift F e q = Some z \<and> ival z = ival e div 2 ^ nat (- sint q)"
proof -
  have n: "uint (- q) < 128" "unat (- q) = nat (- sint q)"
    using assms by (simp_all add: uint_neg_i32 unat_eq_nat_uint)
  have "- (2 ^ 127) \<le> ival e div 2 ^ nat (- sint q)" "ival e div 2 ^ nat (- sint q) < 2 ^ 127"
    by (rule div_stays_in_range [OF _ ival_bounds [of e]]; simp)+
  then show ?thesis
    using assms(1) n sint_of_int_128 [of "ival e div 2 ^ nat (- sint q)"]
    by (simp add: if_checked_shift_def i_shr ival_def)
qed

section \<open>The exponential\<close>

lemma checked_exp_unfold:
  assumes "MIN_EXP_ARG < x" "x \<le> MAX_EXP_ARG"
    and that: "h = (if ival x < 0 then - 97551793252583 else 97551793252583)"
  shows "\<exists>q r. sint q = (ival x + h) div 195103586505167
    \<and> ival r = (ival x + h) mod 195103586505167 - h
    \<and> checked_exp F x = bind_r (exp_7_terms F r) (\<lambda>e.
        case if_checked_shift F e q of Some ok \<Rightarrow> Ok ok | None \<Rightarrow> Err MathOverflow)"
proof -
  define g where "g = (if if_is_negative F x then if_neg F LN_2_DIV_2 else LN_2_DIV_2)"
  have g: "ival g = (if ival x < 0 then - ival LN_2_DIV_2 else ival LN_2_DIV_2)" "ival g = h"
    using that by (simp_all add: g_def if_is_negative_iff if_neg_val LN_2_DIV_2_val)
  have "\<bar>ival x\<bar> \<le> 2 ^ 55" using assms
    by (simp add: less_ifixed_def less_eq_ifixed_def MIN_EXP_ARG_val MAX_EXP_ARG_val)
  from range_reduction [OF this g(1)]
  obtain s d q m r where e: "if_safe_add F x g = Ok s" "if_safe_div F s LN_2 = Ok d"
    "if_checked_to_i32 F d = Ok q" "if_safe_mul F (if_from_i64 (scast q)) LN_2 = Ok m"
    "if_safe_sub F x m = Ok r" "sint q = (ival x + ival g) div ival LN_2"
    "ival r = (ival x + ival g) mod ival LN_2 - ival g" by blast
  have "checked_exp F x = bind_r (exp_7_terms F r) (\<lambda>e.
        case if_checked_shift F e q of Some ok \<Rightarrow> Ok ok | None \<Rightarrow> Err MathOverflow)"
    using leD [OF assms(2)] assms(1) [unfolded not_le [symmetric]] e(1-5) unfolding g_def
    by (simp add: checked_exp_def Let_def)
  then show ?thesis using e(6,7) g(2) by (auto simp: LN_2_val)
qed

lemma exp_window:
  fixes e r :: int
  assumes "4 * \<bar>e - (2 ^ 48 + r)\<bar> \<le> \<bar>r\<bar> + 20" "\<bar>r\<bar> \<le> 97551793252583"
  shows "2 ^ 47 \<le> e" "e < 2 ^ 49" "r \<le> - 2428358999777 \<Longrightarrow> e < 2 ^ 48"
proof -
  have r: "- 97551793252583 \<le> r" "r \<le> 97551793252583" using assms(2) by (simp_all add: abs_le_iff)
  have d: "e - (2 ^ 48 + r) \<le> \<bar>e - (2 ^ 48 + r)\<bar>" "- (e - (2 ^ 48 + r)) \<le> \<bar>e - (2 ^ 48 + r)\<bar>"
    by (rule abs_ge_self, rule abs_ge_minus_self)
  have a: "4 * (e - (2 ^ 48 + r)) \<le> \<bar>r\<bar> + 20" "- 4 * (e - (2 ^ 48 + r)) \<le> \<bar>r\<bar> + 20"
    using order_trans [OF mult_left_mono [OF d(1), of 4] assms(1)]
      order_trans [OF mult_left_mono [OF d(2), of 4] assms(1)] by simp_all
  have b: "4 * (e - (2 ^ 48 + r)) \<le> 97551793252603" "- 4 * (e - (2 ^ 48 + r)) \<le> 97551793252603"
    by (rule order_trans [OF a(1)], use assms(2) in simp) (rule order_trans [OF a(2)], use assms(2) in simp)
  show "2 ^ 47 \<le> e" using b(2) r(1) by simp
  show "e < 2 ^ 49" using b(1) r(2) by simp
  assume n: "r \<le> - 2428358999777"
  then have "\<bar>r\<bar> = - r" by simp
  then have "4 * (e - (2 ^ 48 + r)) \<le> - r + 20" using a(1) by simp
  then show "e < 2 ^ 48" using n by simp
qed

lemma checked_exp_nonneg:
  assumes "0 \<le> ival x" "x \<le> MAX_EXP_ARG"
  shows "\<exists>z. checked_exp F x = Ok z \<and> 2 ^ 48 \<le> ival z"
proof -
  let ?L = "195103586505167 :: int"
  have x: "MIN_EXP_ARG < x" "ival x \<le> 15410754974908416"
    using assms by (simp_all add: less_ifixed_def less_eq_ifixed_def MIN_EXP_ARG_val MAX_EXP_ARG_val)
  obtain q r where q: "sint q = (ival x + 97551793252583) div ?L"
    "ival r = (ival x + 97551793252583) mod ?L - 97551793252583"
    "checked_exp F x = bind_r (exp_7_terms F r) (\<lambda>e.
        case if_checked_shift F e q of Some ok \<Rightarrow> Ok ok | None \<Rightarrow> Err MathOverflow)"
    using checked_exp_unfold [OF x(1) assms(2), of "97551793252583"] assms(1) by auto
  have qr: "ival x = sint q * ?L + ival r" using q(1,2) div_mult_mod_eq [of "ival x + 97551793252583" ?L]
    by linarith
  have r: "\<bar>ival r\<bar> \<le> 97551793252583"
    using q(2) pos_mod_sign [of ?L "ival x + 97551793252583"] pos_mod_bound [of ?L "ival x + 97551793252583"]
    by simp
  have q79: "0 \<le> sint q" "sint q \<le> 79"
    using q(1) assms(1) x(2) div_less_iff [of ?L "ival x + 97551793252583" 80]
    by (simp_all add: pos_imp_zdiv_nonneg_iff)
  obtain e where e: "exp_7_terms F r = Ok e" "4 * \<bar>ival e - (2 ^ 48 + ival r)\<bar> \<le> \<bar>ival r\<bar> + 20"
    "0 \<le> ival r \<longrightarrow> 2 ^ 48 + ival r \<le> ival e" using exp_7_terms_Ok [OF r] by auto
  have e_bounds: "2 ^ 47 \<le> ival e" "ival e < 2 ^ 49" by (rule exp_window [OF e(2) r])+
  have "ival e * 2 ^ nat (sint q) < 2 ^ 127"
  proof (cases "sint q = 79")
    case True
    then have "ival r \<le> - 2428358999777" using qr x(2) by simp
    then have "ival e < 2 ^ 48" by (rule exp_window(3) [OF e(2) r])
    then show ?thesis using True by simp
  next
    case False
    then have "(2::int) ^ nat (sint q) \<le> 2 ^ 78" using q79 by (intro power_increasing) simp_all
    then have "ival e * 2 ^ nat (sint q) \<le> ival e * 2 ^ 78" using e_bounds by (intro mult_left_mono) simp_all
    also have "\<dots> < 2 ^ 127" using e_bounds(2) by simp
    finally show ?thesis .
  qed
  moreover have "0 \<le> ival e * 2 ^ nat (sint q)" using e_bounds(1) by simp
  ultimately obtain z where z: "if_checked_shift F e q = Some z" "ival z = ival e * 2 ^ nat (sint q)"
    using shift_up [of q e] q79 by auto
  have "2 ^ 48 \<le> ival z"
  proof (cases "sint q = 0")
    case True
    then show ?thesis using qr assms(1) e(3) z(2) by simp
  next
    case False
    then have "(2::int) ^ 1 \<le> 2 ^ nat (sint q)" using q79 by (intro power_increasing) simp_all
    then have "2 ^ 47 * 2 ^ 1 \<le> ival e * 2 ^ nat (sint q)" using e_bounds(1) by (intro mult_mono) simp_all
    then show ?thesis using z(2) by simp
  qed
  then show ?thesis using q(3) e(1) z(1) by simp
qed

lemma checked_exp_neg:
  assumes "ival x < 0"
  shows "\<exists>z. checked_exp F x = Ok z \<and> 0 \<le> ival z"
proof (cases "x \<le> MIN_EXP_ARG")
  case False
  let ?L = "195103586505167 :: int"
  have x: "MIN_EXP_ARG < x" "x \<le> MAX_EXP_ARG" "- 9347783976560885 < ival x"
    using assms False by (simp_all add: less_ifixed_def less_eq_ifixed_def MIN_EXP_ARG_val MAX_EXP_ARG_val)
  obtain q r where q: "sint q = (ival x - 97551793252583) div ?L"
    "ival r = (ival x - 97551793252583) mod ?L + 97551793252583"
    "checked_exp F x = bind_r (exp_7_terms F r) (\<lambda>e.
        case if_checked_shift F e q of Some ok \<Rightarrow> Ok ok | None \<Rightarrow> Err MathOverflow)"
    using checked_exp_unfold [OF x(1,2), of "- 97551793252583"] assms by auto
  have r: "0 \<le> ival r" "\<bar>ival r\<bar> \<le> 2 ^ 49"
    using q(2) pos_mod_sign [of ?L "ival x - 97551793252583"] pos_mod_bound [of ?L "ival x - 97551793252583"]
    by simp_all
  have "sint q < 0" "- 128 < sint q"
    using q(1) assms x(3) div_less_iff [of ?L "ival x - 97551793252583" 0]
      le_div_iff [of ?L "- 127" "ival x - 97551793252583"] by simp_all
  from shift_down [OF this]
  obtain e z where e: "exp_7_terms F r = Ok e" "0 \<le> ival e" "if_checked_shift F e q = Some z"
    "ival z = ival e div 2 ^ nat (- sint q)"
    using exp_7_terms_Ok [OF r(2)] r(1) by force
  have "0 \<le> ival z" using e(2,4) by (simp add: pos_imp_zdiv_nonneg_iff)
  then show ?thesis using q(3) e(1,3) by simp
qed (simp add: checked_exp_def ival_zero)

end

end
