(* ===== verification/Interest_Laws.thy ===== *)
theory Interest_Laws
  imports Exp_Laws
begin

text \<open>
  Interest: compounding is total on the domain of the exponential and never negative; the
  adaptive curve answers for every elapsed time, however long the market was idle, and keeps its
  rate at target within its bounds.
\<close>

section \<open>Constants\<close>

lemma adaptive_constants:
  "ival TARGET_UTILISATION_RATE = 253327479039590"
  "ival ONE_MINUS_TARGET_UTILISATION_RATE = 28147497671065"
  "ival ADJUSTMENT_SPEED = 446275648"
  "ival (irps_rate INITIAL_RATE_AT_TARGET) = 357020"
  "ival (irps_rate MIN_RATE_AT_TARGET) = 89255"
  "ival (irps_rate MAX_RATE_AT_TARGET) = 17851025"
  "ival MAX_SAFE_LINEAR_ADAPTATION = 15410754974908416"
  "ival MIN_SAFE_LINEAR_ADAPTATION = - 9347783976560885"
  by (simp_all add: TARGET_UTILISATION_RATE_def ONE_MINUS_TARGET_UTILISATION_RATE_def
      ADJUSTMENT_SPEED_def INITIAL_RATE_AT_TARGET_def MIN_RATE_AT_TARGET_def MAX_RATE_AT_TARGET_def
      MAX_SAFE_LINEAR_ADAPTATION_def MIN_SAFE_LINEAR_ADAPTATION_def irps_const_from_apr_def
      SECONDS_PER_YEAR_def if_from_i64_u64_ratio_def quot_zero_def ival_def)

lemma ival_exists:
  assumes "0 \<le> v" "v < 2 ^ 127"
  obtains x where "ival x = v"
proof -
  have "- (2 ^ 127) \<le> v" using order_trans [OF _ assms(1)] by simp
  then show ?thesis using ex_ival [of v] assms(2) that by blast
qed

definition rate_in_range :: "interest_rate_per_second \<Rightarrow> bool" where
  "rate_in_range r \<longleftrightarrow> ival (irps_rate MIN_RATE_AT_TARGET) \<le> ival (irps_rate r)
     \<and> ival (irps_rate r) \<le> ival (irps_rate MAX_RATE_AT_TARGET)"

section \<open>Compounding\<close>

context fixed_crate_spec
begin

lemma compounding_Ok:
  assumes "0 \<le> ival (irps_rate r)" "ival (irps_rate r) * uint n \<le> ival MAX_EXP_ARG"
  shows "\<exists>i. coumpounding_interest_rate_during_elapsed_seconds F r n = Ok i \<and> 0 \<le> ival (ir_rate i)"
proof -
  have "0 \<le> ival (irps_rate r) * uint n" "ival (irps_rate r) * uint n < 2 ^ 127"
    using assms by (simp_all add: MAX_EXP_ARG_val)
  then obtain x where x: "ival x = ival (irps_rate r) * uint n" using ival_exists by blast
  then have "0 \<le> ival x" "x \<le> MAX_EXP_ARG" using assms by (simp_all add: less_eq_ifixed_def)
  then obtain e where e: "checked_exp F x = Ok e" "2 ^ 48 \<le> ival e" using checked_exp_nonneg by blast
  obtain i where "ival i = ival e - 2 ^ 48"
    using ival_exists [of "ival e - 2 ^ 48"] e(2) ival_bounds(2) [of e] by auto
  then have "if_safe_sub_u64 F e 1 = Ok i" "0 \<le> ival i" using e(2) by (simp_all add: if_safe_sub_u64_Ok)
  moreover have "if_safe_mul_u64 (irps_rate r) n = Ok x" using x by (simp add: if_safe_mul_u64_Ok)
  ultimately show ?thesis using e(1)
    by (simp add: coumpounding_interest_rate_during_elapsed_seconds_def)
qed

section \<open>The adaptive curve\<close>

lemma clamp_in_range: "rate_in_range (irps_clamp r MIN_RATE_AT_TARGET MAX_RATE_AT_TARGET)"
  by (simp add: rate_in_range_def irps_clamp_def less_ifixed_def adaptive_constants)

lemma checked_exp_clamped:
  assumes "MIN_SAFE_LINEAR_ADAPTATION \<le> x" "x \<le> MAX_SAFE_LINEAR_ADAPTATION"
  shows "\<exists>e. checked_exp F x = Ok e \<and> 0 \<le> ival e"
proof (cases "0 \<le> ival x")
  case True
  have "x \<le> MAX_EXP_ARG" using assms(2) by (simp add: less_eq_ifixed_def adaptive_constants MAX_EXP_ARG_val)
  then obtain e where "checked_exp F x = Ok e" "2 ^ 48 \<le> ival e" using checked_exp_nonneg [OF True] by blast
  then show ?thesis by force
qed (use checked_exp_neg in simp)

lemma new_rate_at_target_total:
  assumes "rate_in_range r"
  shows "\<exists>r'. new_rate_at_target F r x = Ok r' \<and> rate_in_range r'"
proof -
  define c where "c = (if x > MAX_SAFE_LINEAR_ADAPTATION then MAX_SAFE_LINEAR_ADAPTATION
         else if x < MIN_SAFE_LINEAR_ADAPTATION then MIN_SAFE_LINEAR_ADAPTATION else x)"
  have "MIN_SAFE_LINEAR_ADAPTATION \<le> c" "c \<le> MAX_SAFE_LINEAR_ADAPTATION"
    by (auto simp: c_def less_eq_ifixed_def less_ifixed_def adaptive_constants)
  then obtain e where e: "checked_exp F c = Ok e" "0 \<le> ival e" using checked_exp_clamped by blast
  have r: "0 \<le> ival (irps_rate r)" "ival (irps_rate r) \<le> 2 ^ 40"
    using assms by (simp_all add: rate_in_range_def adaptive_constants)
  have "ival (irps_rate r) * ival e \<le> 2 ^ 40 * 2 ^ 127"
    by (rule mult_mono) (use r e(2) ival_bounds(2) [of e] in simp_all)
  then have "\<bar>ival (irps_rate r) * ival e\<bar> \<le> 2 ^ 174" using r e(2) by (simp add: abs_mult)
  then obtain y where "if_safe_mul F (irps_rate r) e = Ok y" using if_safe_mul_small by blast
  then show ?thesis using e(1) clamp_in_range by (simp add: new_rate_at_target_def Let_def flip: c_def)
qed

lemma next_target_rates_total:
  assumes "rate_in_range r \<or> if_is_zero (irps_rate r)" "\<bar>ival err\<bar> \<le> 2 ^ 60"
  shows "\<exists>avg end. next_target_rates F r err n = Ok (avg, end) \<and> rate_in_range avg \<and> rate_in_range end"
proof (cases "if_is_zero (irps_rate r)")
  case True
  have "rate_in_range INITIAL_RATE_AT_TARGET" by (simp add: rate_in_range_def adaptive_constants)
  with True show ?thesis by (simp add: next_target_rates_def)
next
  case False
  then have r: "rate_in_range r" using assms(1) by simp
  have "\<bar>ival ADJUSTMENT_SPEED * ival err\<bar> \<le> 2 ^ 90" using assms(2) by (simp add: adaptive_constants abs_mult)
  then obtain s where s: "if_safe_mul F ADJUSTMENT_SPEED err = Ok s" "\<bar>ival s\<bar> * 2 ^ 48 < 2 ^ 90 + 2 ^ 48"
    using if_safe_mul_small [of ADJUSTMENT_SPEED err] by force
  have "\<bar>ival s\<bar> * uint n \<le> 2 ^ 43 * 2 ^ 64"
    by (rule mult_mono) (use s(2) uint_bound_64 [of n] in simp_all)
  then have "\<bar>ival s * uint n\<bar> < 2 ^ 127" by (simp add: abs_mult)
  then obtain l where l: "if_safe_mul_u64 s n = Ok l"
    using ex_ival [of "ival s * uint n"] by (auto simp: if_safe_mul_u64_Ok abs_less_iff)
  show ?thesis
  proof (cases "if_is_zero l")
    case True
    then show ?thesis using False s l r by (simp add: next_target_rates_def)
  next
    case nz: False
    obtain h where h: "if_safe_div_u64 l 2 = Ok h" by (simp add: if_safe_div_u64_def)
    obtain r1 r2 where n: "new_rate_at_target F r l = Ok r1" "rate_in_range r1"
      "new_rate_at_target F r h = Ok r2" "rate_in_range r2" using new_rate_at_target_total [OF r] by blast
    obtain a where a: "if_safe_add F (irps_rate r) (irps_rate r1) = Ok a"
      "ival a = ival (irps_rate r) + ival (irps_rate r1)"
      using if_safe_add_small [of "irps_rate r" "irps_rate r1"] r n(2)
      by (auto simp: rate_in_range_def adaptive_constants)
    obtain m where m: "if_safe_mul_u64 (irps_rate r2) 2 = Ok m" "ival m = ival (irps_rate r2) * 2"
      using ex_ival [of "ival (irps_rate r2) * 2"] n(4)
      by (auto simp: if_safe_mul_u64_Ok rate_in_range_def adaptive_constants)
    obtain t where t: "if_safe_add F a m = Ok t" "ival t = ival a + ival m"
      using if_safe_add_small [of a m] r n(2,4) a(2) m(2)
      by (auto simp: rate_in_range_def adaptive_constants)
    have "ival t < 17851026 * 4" "89255 * 4 \<le> ival t" and t0: "0 \<le> ival t"
      using t(2) a(2) m(2) r n(2,4) by (simp_all add: rate_in_range_def adaptive_constants)
    then have t4: "ival t div 4 < 17851026" "89255 \<le> ival t div 4"
      using div_less_iff [of 4 "ival t" 17851026] le_div_iff [of 4 89255 "ival t"] by simp_all
    then obtain v where v: "if_safe_div_u64 t 4 = Ok v" "ival v = ival t div 4"
      using ival_exists [of "ival t div 4"] t0 by (auto simp: if_safe_div_u64_Ok quot_zero_nonneg)
    have "rate_in_range (InterestRatePerSecond v)" using v(2) t4 by (simp add: rate_in_range_def adaptive_constants)
    then show ?thesis using False nz s l h n a m t v by (simp add: next_target_rates_def)
  qed
qed

lemma normalised_error:
  assumes "0 \<le> ival u" "ival u \<le> 2 ^ 52"
  shows "\<exists>d err. if_safe_sub F u TARGET_UTILISATION_RATE = Ok d
    \<and> if_safe_div F d (if u > TARGET_UTILISATION_RATE then ONE_MINUS_TARGET_UTILISATION_RATE
         else TARGET_UTILISATION_RATE) = Ok err
    \<and> - (2 ^ 48) \<le> ival err \<and> ival err \<le> 2 ^ 57
    \<and> (TARGET_UTILISATION_RATE \<le> u \<longrightarrow> 0 \<le> ival err) \<and> (u \<le> TARGET_UTILISATION_RATE \<longrightarrow> ival err \<le> 0)"
proof -
  obtain d where d: "ival d = ival u - 253327479039590"
    using ex_ival [of "ival u - 253327479039590"] assms by auto
  have s: "if_safe_sub F u TARGET_UTILISATION_RATE = Ok d"
    using d by (simp add: if_safe_sub_Ok adaptive_constants)
  consider (above) "253327479039590 < ival u" | (at) "ival u = 253327479039590" | (below) "ival u < 253327479039590"
    by linarith
  then show ?thesis
  proof cases
    case above
    let ?v = "ival d * 2 ^ 48 div 28147497671065"
    have v: "0 \<le> ?v" "?v < 2 ^ 57" using above d assms by (simp_all add: pos_imp_zdiv_nonneg_iff div_less_iff)
    then obtain err where "ival err = ?v" using ival_exists [of ?v] by auto
    then show ?thesis using s v above d if_safe_div_nonneg [of d ONE_MINUS_TARGET_UTILISATION_RATE err]
      by (simp add: fixed_order adaptive_constants)
  next
    case at
    then show ?thesis using s d if_safe_div_nonneg [of d TARGET_UTILISATION_RATE if_zero]
      by (auto simp: fixed_order adaptive_constants ival_zero intro!: exI [of _ if_zero])
  next
    case below
    have "i_checked_div F (if_bits d) (if_bits TARGET_UTILISATION_RATE) \<noteq> None"
      using i_div_neg_ok [of "if_bits d" "if_bits TARGET_UTILISATION_RATE"] assms below d
      by (simp add: adaptive_constants flip: ival_def)
    then obtain err where e: "if_safe_div F d TARGET_UTILISATION_RATE = Ok err" by (auto simp: if_safe_div_def)
    have n: "ival err \<le> 0" "\<bar>ival err * 253327479039590 - ival d * 2 ^ 48\<bar> < 253327479039590"
      using if_safe_div_neg [of d TARGET_UTILISATION_RATE err] below d e by (simp_all add: adaptive_constants)
    have "- (2 ^ 48) \<le> ival err" using n(2) d assms(1) by (simp add: abs_less_iff)
    then show ?thesis using s e n(1) below by (simp add: fixed_order adaptive_constants)
  qed
qed

lemma adaptive_curve_value_total:
  assumes "rate_in_range r" "- (2 ^ 48) \<le> ival err" "ival err \<le> 2 ^ 57"
  shows "\<exists>z. adaptive_curve_value F r err = Ok z \<and> 0 \<le> ival (irps_rate z)
    \<and> (0 \<le> ival err \<longrightarrow> ival (irps_rate r) \<le> ival (irps_rate z))
    \<and> (ival err \<le> 0 \<longrightarrow> ival (irps_rate z) \<le> ival (irps_rate r))"
proof -
  define coeff where "coeff = (if if_is_negative F err
        then bind_r (if_safe_div_u64 if_one CURVE_STEEPNESS) (\<lambda>d. if_safe_sub F if_one d)
        else u64_safe_sub_if F CURVE_STEEPNESS if_one)"
  obtain c where c: "coeff = Ok c" "0 < ival c" "ival c \<le> 3 * 2 ^ 48" "ival err < 0 \<longrightarrow> ival c = 211106232532992"
  proof -
    obtain q where q: "ival q = 70368744177664" using ival_exists [of 70368744177664] by auto
    obtain t where t: "ival t = 211106232532992" using ival_exists [of 211106232532992] by auto
    obtain s where s: "ival s = 844424930131968" using ival_exists [of 844424930131968] by auto
    have "if_safe_div_u64 if_one CURVE_STEEPNESS = Ok q" "if_safe_sub F if_one q = Ok t"
      using q t by (simp_all add: if_safe_div_u64_Ok if_safe_sub_Ok CURVE_STEEPNESS_def ival_one quot_zero_def)
    moreover have "u64_safe_sub_if F CURVE_STEEPNESS if_one = Ok s"
      using s by (simp add: u64_safe_sub_if_def map_err_eq_Ok if_safe_sub_Ok CURVE_STEEPNESS_def ival_one ival_from_u64)
    ultimately show ?thesis using that q t s by (cases "ival err < 0") (simp_all add: coeff_def if_is_negative_iff)
  qed
  have p: "\<bar>ival c * ival err\<bar> \<le> 3 * 2 ^ 48 * 2 ^ 57"
    unfolding abs_mult by (rule mult_mono) (use c assms in simp_all)
  then obtain x where x: "if_safe_mul F c err = Ok x" "\<bar>ival x\<bar> * 2 ^ 48 < \<bar>ival c * ival err\<bar> + 2 ^ 48"
    "0 \<le> ival c * ival err \<longrightarrow> 0 \<le> ival x" using if_safe_mul_small [of c err] by auto
  have xb: "\<bar>ival x\<bar> \<le> 2 ^ 60" using x(2) p by simp
  then obtain y where y: "if_safe_add F x if_one = Ok y" "ival y = ival x + 2 ^ 48"
    using if_safe_add_small [of x if_one] by (auto simp: ival_one)
  have neg: "ival x \<le> 0 \<and> 0 < ival y" if "ival err < 0"
  proof -
    have "ival c * ival err < 0" using that c(2) by (simp add: mult_pos_neg)
    then have "ival x \<le> 0" using if_safe_mul_neg [OF _ x(1)] by simp
    moreover have "\<bar>ival c * ival err\<bar> \<le> 211106232532992 * 2 ^ 48" using that c(4) assms(2) by (simp add: abs_mult)
    ultimately show ?thesis using x(2) y(2) by simp
  qed
  have pos: "0 \<le> ival x" if "0 \<le> ival err" using x(3) c(2) that by simp
  have y0: "0 \<le> ival y" "ival y \<le> 2 ^ 61" using neg pos y(2) xb by (cases "ival err < 0"; simp)+
  have r: "0 \<le> ival (irps_rate r)" "ival (irps_rate r) \<le> 2 ^ 40"
    using assms(1) by (simp_all add: rate_in_range_def adaptive_constants)
  have "ival y * ival (irps_rate r) \<le> 2 ^ 61 * 2 ^ 40" by (rule mult_mono) (use r y0 in simp_all)
  then have v: "ival y * ival (irps_rate r) div 2 ^ 48 < 2 ^ 127" "0 \<le> ival y * ival (irps_rate r)"
    "0 \<le> ival y * ival (irps_rate r) div 2 ^ 48"
    using r y0 by (simp_all add: div_less_iff pos_imp_zdiv_nonneg_iff)
  then obtain z where z: "ival z = ival y * ival (irps_rate r) div 2 ^ 48"
    using ival_exists [of "ival y * ival (irps_rate r) div 2 ^ 48"] by auto
  have m: "if_safe_mul F y (irps_rate r) = Ok z" using if_safe_mul_nonneg [OF v(2)] z by simp
  have "adaptive_curve_value F r err = Ok (InterestRatePerSecond z)"
    using c(1) x(1) y(1) m by (simp add: adaptive_curve_value_def flip: coeff_def)
  moreover have "ival (irps_rate r) \<le> ival z" if "0 \<le> ival err"
    unfolding z using mult_right_mono [OF _ r(1), of "2 ^ 48" "ival y"] pos [OF that] y(2)
    by (subst le_div_iff) (simp_all add: mult.commute)
  moreover have "ival z \<le> ival (irps_rate r)" if "ival err \<le> 0"
  proof -
    have "ival x \<le> 0" using neg x(2) that by (cases "ival err = 0") auto
    then have "ival y * ival (irps_rate r) \<le> 2 ^ 48 * ival (irps_rate r)"
      using y(2) r(1) by (intro mult_right_mono) simp_all
    then have "ival z \<le> 2 ^ 48 * ival (irps_rate r) div 2 ^ 48" unfolding z by (intro zdiv_mono1) simp_all
    then show ?thesis by simp
  qed
  ultimately show ?thesis using z v(3) by auto
qed

lemma adaptive_borrow_rate_total:
  assumes "rate_in_range (rate_at_target c) \<or> if_is_zero (irps_rate (rate_at_target c))"
    "0 \<le> ival (utilisation_rate p)" "ival (utilisation_rate p) \<le> 2 ^ 52"
  shows "\<exists>c' r. adaptive_borrow_rate F c p = Ok (c', r) \<and> rate_in_range (rate_at_target c')
    \<and> 0 \<le> ival (irps_rate r)"
proof -
  obtain d err where e: "if_safe_sub F (utilisation_rate p) TARGET_UTILISATION_RATE = Ok d"
    "if_safe_div F d (if utilisation_rate p > TARGET_UTILISATION_RATE then ONE_MINUS_TARGET_UTILISATION_RATE
         else TARGET_UTILISATION_RATE) = Ok err" "- (2 ^ 48) \<le> ival err" "ival err \<le> 2 ^ 57"
    using normalised_error [OF assms(2,3)] by blast
  have "\<bar>ival err\<bar> \<le> 2 ^ 60" using e(3,4) by (simp add: abs_le_iff)
  then obtain avg fin where n: "next_target_rates F (rate_at_target c) err (elapsed_seconds_since_last_update p) = Ok (avg, fin)"
    "rate_in_range avg" "rate_in_range fin" using next_target_rates_total [OF assms(1)] by blast
  obtain z where "adaptive_curve_value F avg err = Ok z" "0 \<le> ival (irps_rate z)"
    using adaptive_curve_value_total [OF n(2) e(3,4)] by blast
  then show ?thesis using e(1,2) n(1,3) by (simp add: adaptive_borrow_rate_def compute_next_rates_def Let_def)
qed


lemma adaptive_rate_at_rest:
  assumes "rate_in_range (rate_at_target c)" "elapsed_seconds_since_last_update p = 0"
    "0 \<le> ival (utilisation_rate p)" "ival (utilisation_rate p) \<le> 2 ^ 52"
  shows "\<exists>r. adaptive_borrow_rate F c p = Ok (c, r)
    \<and> (TARGET_UTILISATION_RATE \<le> utilisation_rate p \<longrightarrow> irps_rate (rate_at_target c) \<le> irps_rate r)
    \<and> (utilisation_rate p \<le> TARGET_UTILISATION_RATE \<longrightarrow> irps_rate r \<le> irps_rate (rate_at_target c))"
proof -
  obtain d err where e: "if_safe_sub F (utilisation_rate p) TARGET_UTILISATION_RATE = Ok d"
    "if_safe_div F d (if utilisation_rate p > TARGET_UTILISATION_RATE then ONE_MINUS_TARGET_UTILISATION_RATE
         else TARGET_UTILISATION_RATE) = Ok err" "- (2 ^ 48) \<le> ival err" "ival err \<le> 2 ^ 57"
    "TARGET_UTILISATION_RATE \<le> utilisation_rate p \<longrightarrow> 0 \<le> ival err"
    "utilisation_rate p \<le> TARGET_UTILISATION_RATE \<longrightarrow> ival err \<le> 0"
    using normalised_error [OF assms(3,4)] by blast
  have "\<bar>ival ADJUSTMENT_SPEED * ival err\<bar> \<le> 2 ^ 29 * 2 ^ 57"
    unfolding abs_mult by (rule mult_mono) (use e(3,4) in \<open>simp_all add: adaptive_constants\<close>)
  then obtain s where s: "if_safe_mul F ADJUSTMENT_SPEED err = Ok s" using if_safe_mul_small by force
  have l: "if_safe_mul_u64 s 0 = Ok if_zero" by (simp add: if_safe_mul_u64_Ok ival_zero)
  have nz: "\<not> if_is_zero (irps_rate (rate_at_target c))" "if_is_zero if_zero"
    using assms(1) by (auto simp: if_is_zero_iff rate_in_range_def adaptive_constants ival_zero)
  have n: "next_target_rates F (rate_at_target c) err 0 = Ok (rate_at_target c, rate_at_target c)"
    using nz s l by (simp add: next_target_rates_def)
  obtain z where "adaptive_curve_value F (rate_at_target c) err = Ok z"
    "0 \<le> ival err \<longrightarrow> ival (irps_rate (rate_at_target c)) \<le> ival (irps_rate z)"
    "ival err \<le> 0 \<longrightarrow> ival (irps_rate z) \<le> ival (irps_rate (rate_at_target c))"
    using adaptive_curve_value_total [OF assms(1) e(3,4)] by blast
  then show ?thesis using e(1,2,5,6) n assms(2)
    by (auto simp: adaptive_borrow_rate_def compute_next_rates_def Let_def le_ifixed_iff)
qed

end

section \<open>Properties\<close>

text \<open>
  The exponential is total on its domain, for every rounding the number format allows: zero at
  and below the least argument, a nonnegative value up to the largest one, at least one for a
  nonnegative argument, and the error \<open>InvalidExpArg\<close> beyond it. The shift at the end never drops
  the sign or the leading bits.
\<close>

theorem checked_exp_total:
  assumes "fixed_crate_spec F"
  shows "if x \<le> MIN_EXP_ARG then checked_exp F x = Ok if_zero
    else if x \<le> MAX_EXP_ARG
      then \<exists>z. checked_exp F x = Ok z \<and> 0 \<le> ival z \<and> (0 \<le> ival x \<longrightarrow> 2 ^ 48 \<le> ival z)
    else checked_exp F x = Err InvalidExpArg"
proof -
  consider "x \<le> MIN_EXP_ARG" | (dom) "\<not> x \<le> MIN_EXP_ARG" "x \<le> MAX_EXP_ARG"
    | "\<not> x \<le> MIN_EXP_ARG" "\<not> x \<le> MAX_EXP_ARG" by blast
  then show ?thesis
  proof cases
    case dom
    then show ?thesis using fixed_crate_spec.checked_exp_nonneg [OF assms, of x]
        fixed_crate_spec.checked_exp_neg [OF assms, of x] by (cases "0 \<le> ival x") force+
  qed (simp_all add: checked_exp_def fixed_order)
qed

theorem checked_exp_total_witness:
  "fixed_crate_spec fixed_reference \<and> (\<exists>z. checked_exp fixed_reference if_one = Ok z \<and> 2 ^ 48 \<le> ival z)
    \<and> checked_exp fixed_reference (if_from_i64 55) = Err InvalidExpArg"
  using checked_exp_total [OF fixed_ref.fixed_crate_spec_axioms, of if_one]
    checked_exp_total [OF fixed_ref.fixed_crate_spec_axioms, of "if_from_i64 55"]
    fixed_ref.fixed_crate_spec_axioms
  by (auto simp: fixed_order val_simps)

text \<open>
  Compounding a nonnegative rate per second over any number of seconds, as long as the product
  stays within the domain of the exponential, succeeds and yields a nonnegative interest rate:
  accrual never lowers a debt.
\<close>

theorem compounding_never_negative:
  assumes "fixed_crate_spec F" "0 \<le> ival (irps_rate r)"
    and "ival (irps_rate r) * uint n \<le> ival MAX_EXP_ARG"
  shows "\<exists>i. coumpounding_interest_rate_during_elapsed_seconds F r n = Ok i \<and> 0 \<le> ival (ir_rate i)"
  using assms by (rule fixed_crate_spec.compounding_Ok)

theorem compounding_never_negative_witness:
  "0 \<le> ival (irps_rate MAX_RATE_AT_TARGET)
    \<and> ival (irps_rate MAX_RATE_AT_TARGET) * uint (31536000::u64) \<le> ival MAX_EXP_ARG
    \<and> (\<exists>i. coumpounding_interest_rate_during_elapsed_seconds fixed_reference MAX_RATE_AT_TARGET 31536000 = Ok i
       \<and> 0 \<le> ival (ir_rate i))"
  using compounding_never_negative [OF fixed_ref.fixed_crate_spec_axioms, of MAX_RATE_AT_TARGET 31536000]
  by (simp add: adaptive_constants val_simps)

text \<open>
  C16: The adaptive curve always answers: for every elapsed time (the market may have been idle for
  any number of seconds), every utilisation up to sixteen and every curve that is fresh or has
  its rate at target within the bounds, it returns a nonnegative rate and a new rate at target
  within the bounds. The bounds are an invariant of the curve.
\<close>

theorem adaptive_curve_total:
  assumes "fixed_crate_spec F"
    and "rate_in_range (rate_at_target c) \<or> if_is_zero (irps_rate (rate_at_target c))"
    and "0 \<le> ival (utilisation_rate p)" "ival (utilisation_rate p) \<le> 2 ^ 52"
  shows "\<exists>c' r. adaptive_borrow_rate F c p = Ok (c', r) \<and> rate_in_range (rate_at_target c')
    \<and> 0 \<le> ival (irps_rate r)"
  using assms by (rule fixed_crate_spec.adaptive_borrow_rate_total)

theorem adaptive_curve_total_witness:
  "\<exists>c' r. adaptive_borrow_rate fixed_reference adaptive_new
       \<lparr>utilisation_rate = if_one, elapsed_seconds_since_last_update = - 1\<rparr> = Ok (c', r)
     \<and> rate_in_range (rate_at_target c') \<and> 0 \<le> ival (irps_rate r)"
  by (rule adaptive_curve_total [OF fixed_ref.fixed_crate_spec_axioms])
    (simp_all add: adaptive_new_def irps_const_from_apr_def if_is_zero_def if_zero_def if_from_u64_def SECONDS_PER_YEAR_def quot_zero_def val_simps)

text \<open>
  With no time elapsed the adaptive curve keeps its rate at target, and the borrow rate lies on
  the right side of it: at or above it when the utilisation is at or above the target of 90
  percent, at or below it when the utilisation is at or below the target.
\<close>

theorem adaptive_rate_around_target:
  assumes "fixed_crate_spec F" "rate_in_range (rate_at_target c)" "elapsed_seconds_since_last_update p = 0"
    and "0 \<le> ival (utilisation_rate p)" "ival (utilisation_rate p) \<le> 2 ^ 52"
  shows "\<exists>r. adaptive_borrow_rate F c p = Ok (c, r)
    \<and> (TARGET_UTILISATION_RATE \<le> utilisation_rate p \<longrightarrow> irps_rate (rate_at_target c) \<le> irps_rate r)
    \<and> (utilisation_rate p \<le> TARGET_UTILISATION_RATE \<longrightarrow> irps_rate r \<le> irps_rate (rate_at_target c))"
  using assms by (rule fixed_crate_spec.adaptive_rate_at_rest)

theorem adaptive_rate_around_target_witness:
  "\<exists>r. adaptive_borrow_rate fixed_reference \<lparr>rate_at_target = INITIAL_RATE_AT_TARGET\<rparr>
      \<lparr>utilisation_rate = if_one, elapsed_seconds_since_last_update = 0\<rparr>
      = Ok (\<lparr>rate_at_target = INITIAL_RATE_AT_TARGET\<rparr>, r) \<and> irps_rate INITIAL_RATE_AT_TARGET \<le> irps_rate r"
  using adaptive_rate_around_target [OF fixed_ref.fixed_crate_spec_axioms,
      of "\<lparr>rate_at_target = INITIAL_RATE_AT_TARGET\<rparr>" "\<lparr>utilisation_rate = if_one, elapsed_seconds_since_last_update = 0\<rparr>"]
  by (auto simp: rate_in_range_def adaptive_constants le_ifixed_iff val_simps)

end
