(* ===== verification/Program_Accounts.thy ===== *)
theory Program_Accounts
  imports Market_Wrapper
begin

text \<open>
  The account layer of the on-chain program: the error types of
  \<open>src/programs/autara-program/src/error.rs\<close>, the typed account wrappers of
  \<open>src/autara-program-lib/src/accounts\<close> (owner, type, initialisation, writability, signature
  checks), the account types of \<open>src/programs/autara-program/src/state.rs\<close> and the seeds of
  \<open>src/autara-lib/src/pda.rs\<close>.

  An account carries its data as a value of \<open>account_data\<close>: one of the program's five account
  types, a token account or a mint of the token program, or raw bytes. The program tells its own
  account types apart by their size alone; the five sizes differ (\<open>account_size_inject\<close>). Raw
  bytes of a matching size are accepted as the account type of that size, as
  \<open>bytemuck::try_from_bytes\<close> does. The environment \<open>E\<close> holds what the repository does not
  define: the addresses of the token, associated-token and system programs, the associated-token
  address, the bytes of an account and the reading of raw bytes (\<open>bytemuck\<close>), the account
  that a successful \<open>create_account\<close> of the system program leaves, the rent of a size and the
  address derived from a base and a seed.
\<close>

section \<open>Errors\<close>

datatype account_validation_error =
    NotSigner | InvalidData | InvalidOwner | InvalidKey | AlreadyLoaded | NotWritable
  | AccountNotInitialized

datatype lending_account_validation_error =
    InvalidAuthority | InvalidMarketAuthority | InvalidMarket | InvalidMarketVault
  | InvalidMintForTokenAccount | InvalidProtocolAuthority | InvalidLiquidatorWhitelistEntry
  | MissingLiquidatorWhitelistEntry | LiquidatorNotInWhitelist

text \<open>The variants of \<open>ProgramError\<close> that the two programs raise.\<close>

datatype program_error =
    InvalidInstructionData | NotEnoughAccountKeys | MissingRequiredSignature | InvalidArgument
  | IllegalOwner | InvalidAccountData | IncorrectProgramId | AccountDataTooSmall
  | AccountAlreadyInitialized | ArithmeticOverflow | AccountBorrowFailed | IncorrectAuthority
  | Custom u32

datatype lending_program_error_kind =
    ProgramError program_error
  | AccountValidationError account_validation_error
  | LendingAccountValidationError lending_account_validation_error
  | LendingError lending_error

datatype 'a program_result = POk 'a | PErr lending_program_error_kind | PPanic

fun bind_p :: "'a program_result \<Rightarrow> ('a \<Rightarrow> 'b program_result) \<Rightarrow> 'b program_result" where
  "bind_p (POk x) f = f x"
| "bind_p (PErr e) f = PErr e"
| "bind_p PPanic f = PPanic"

text \<open>\<open>?\<close> on a \<open>LendingResult\<close>: the conversion of \<open>LendingError\<close> into the program's error.\<close>

fun lift_r :: "'a result \<Rightarrow> 'a program_result" where
  "lift_r (Ok x) = POk x"
| "lift_r (Err e) = PErr (LendingError e)"
| "lift_r Panic = PPanic"

definition check_p :: "bool \<Rightarrow> lending_account_validation_error \<Rightarrow> unit program_result" where
  "check_p c e = (if c then POk () else PErr (LendingAccountValidationError e))"

lemma bind_p_eq_POk [simp]: "bind_p x f = POk z \<longleftrightarrow> (\<exists>y. x = POk y \<and> f y = POk z)"
  by (cases x) auto

lemma lift_r_eq_POk [simp]: "lift_r x = POk y \<longleftrightarrow> x = Ok y"
  by (cases x) auto

lemma check_p_eq_POk [simp]: "check_p c e = POk u \<longleftrightarrow> c"
  by (simp add: check_p_def)

section \<open>Accounts\<close>

record token_account =
  ta_mint :: pubkey
  ta_owner :: pubkey
  ta_amount :: u64
  ta_delegate :: "pubkey option"

record mint_account =
  mint_decimals :: u8

datatype account_data =
    MarketAccount market
  | BorrowPositionAccount borrow_position
  | SupplyPositionAccount supply_position
  | GlobalConfigAccount global_config
  | LiquidatorWhitelistAccount liquidator_whitelist_entry
  | TokenAccount token_account
  | MintAccount mint_account
  | RawAccount "u8 list"

record account_info =
  ai_key :: pubkey
  ai_owner :: pubkey
  ai_is_signer :: bool
  ai_is_writable :: bool
  ai_data :: account_data
  ai_lamports :: u64

record environment =
  env_runtime :: runtime
  apl_token_id :: pubkey
  apl_associated_token_id :: pubkey
  system_program_id :: pubkey
  associated_token_address :: "pubkey \<Rightarrow> pubkey \<Rightarrow> pubkey"
  account_bytes :: "account_data \<Rightarrow> u8 list"
  pod_market :: "u8 list \<Rightarrow> market"
  pod_borrow_position :: "u8 list \<Rightarrow> borrow_position"
  pod_supply_position :: "u8 list \<Rightarrow> supply_position"
  pod_global_config :: "u8 list \<Rightarrow> global_config"
  pod_whitelist :: "u8 list \<Rightarrow> liquidator_whitelist_entry"
  create_account_result :: "account_info \<Rightarrow> nat \<Rightarrow> pubkey \<Rightarrow> account_info"
  minimum_rent :: "nat \<Rightarrow> u64"
  create_with_seed :: "pubkey \<Rightarrow> u8 list \<Rightarrow> pubkey \<Rightarrow> pubkey option"

text \<open>\<open>id()\<close>: the address the program is deployed at.\<close>

definition crate_id :: pubkey where
  "crate_id = 0x2aa41c8f71f0ede3f374c15ea1ca6096c3f1c15a10da6530c0ecfa48ba109513"

text \<open>
  The sizes asserted by \<open>validate_struct!\<close>, one per account type of the program. Accounts of
  other programs are not loaded as these types, whatever their size: the owner is checked first.
\<close>

fun account_size :: "account_data \<Rightarrow> nat option" where
  "account_size (MarketAccount _) = Some 1448"
| "account_size (BorrowPositionAccount _) = Some 224"
| "account_size (SupplyPositionAccount _) = Some 216"
| "account_size (GlobalConfigAccount _) = Some 256"
| "account_size (LiquidatorWhitelistAccount _) = Some 80"
| "account_size (RawAccount bytes) = Some (length bytes)"
| "account_size _ = None"

datatype 'a typed_account = TypedAccount (info: account_info) (content: 'a)

abbreviation acc_key :: "'a typed_account \<Rightarrow> pubkey" where
  "acc_key a \<equiv> ai_key (info a)"

section \<open>Loaders\<close>

fun next_account_info :: "account_info list \<Rightarrow> (account_info \<times> account_info list) program_result" where
  "next_account_info [] = PErr (ProgramError NotEnoughAccountKeys)"
| "next_account_info (a # rest) = POk (a, rest)"

definition take_account ::
    "(account_info \<Rightarrow> 'a program_result) \<Rightarrow> account_info list \<Rightarrow> ('a \<times> account_info list) program_result" where
  "take_account try_from accounts =
     bind_p (next_account_info accounts) (\<lambda>(a, rest). bind_p (try_from a) (\<lambda>x. POk (x, rest)))"

definition signer_try_from :: "account_info \<Rightarrow> account_info program_result" where
  "signer_try_from a = (if ai_is_signer a then POk a else PErr (AccountValidationError NotSigner))"

definition program_try_from :: "pubkey \<Rightarrow> account_info \<Rightarrow> account_info program_result" where
  "program_try_from valid_key a =
     (if ai_key a \<noteq> valid_key then PErr (AccountValidationError InvalidKey) else POk a)"

definition zero_copy_try_from ::
    "(account_data \<Rightarrow> 'a option) \<Rightarrow> ('a \<Rightarrow> bool) \<Rightarrow> account_info \<Rightarrow> 'a typed_account program_result" where
  "zero_copy_try_from try_from_bytes is_initialized a =
     (if ai_owner a \<noteq> crate_id then PErr (AccountValidationError InvalidOwner)
      else case try_from_bytes (ai_data a) of
          None \<Rightarrow> PErr (AccountValidationError InvalidData)
        | Some x \<Rightarrow>
            if \<not> is_initialized x then PErr (AccountValidationError AccountNotInitialized)
            else POk (TypedAccount a x))"

definition zero_copy_mut_try_from ::
    "(account_data \<Rightarrow> 'a option) \<Rightarrow> ('a \<Rightarrow> bool) \<Rightarrow> account_info \<Rightarrow> 'a typed_account program_result" where
  "zero_copy_mut_try_from try_from_bytes is_initialized a =
     bind_p (zero_copy_try_from try_from_bytes is_initialized a) (\<lambda>x.
       if \<not> ai_is_writable a then PErr (AccountValidationError NotWritable) else POk x)"

fun token_unpack :: "account_data \<Rightarrow> token_account option" where
  "token_unpack (TokenAccount t) = Some t"
| "token_unpack _ = None"

fun mint_unpack :: "account_data \<Rightarrow> mint_account option" where
  "mint_unpack (MintAccount m) = Some m"
| "mint_unpack _ = None"

definition packed_try_from ::
    "environment \<Rightarrow> (account_data \<Rightarrow> 'a option) \<Rightarrow> account_info \<Rightarrow> 'a typed_account program_result" where
  "packed_try_from E unpack a =
     (if ai_owner a \<noteq> apl_token_id E then PErr (AccountValidationError InvalidOwner)
      else case unpack (ai_data a) of
          None \<Rightarrow> PErr (AccountValidationError InvalidData)
        | Some x \<Rightarrow> POk (TypedAccount a x))"

section \<open>The program's accounts\<close>

fun market_from_bytes :: "environment \<Rightarrow> account_data \<Rightarrow> market option" where
  "market_from_bytes E (MarketAccount m) = Some m"
| "market_from_bytes E (RawAccount bytes) =
     (if length bytes = 1448 then Some (pod_market E bytes) else None)"
| "market_from_bytes E _ = None"

fun borrow_position_from_bytes :: "environment \<Rightarrow> account_data \<Rightarrow> borrow_position option" where
  "borrow_position_from_bytes E (BorrowPositionAccount p) = Some p"
| "borrow_position_from_bytes E (RawAccount bytes) =
     (if length bytes = 224 then Some (pod_borrow_position E bytes) else None)"
| "borrow_position_from_bytes E _ = None"

fun supply_position_from_bytes :: "environment \<Rightarrow> account_data \<Rightarrow> supply_position option" where
  "supply_position_from_bytes E (SupplyPositionAccount p) = Some p"
| "supply_position_from_bytes E (RawAccount bytes) =
     (if length bytes = 216 then Some (pod_supply_position E bytes) else None)"
| "supply_position_from_bytes E _ = None"

fun global_config_from_bytes :: "environment \<Rightarrow> account_data \<Rightarrow> global_config option" where
  "global_config_from_bytes E (GlobalConfigAccount g) = Some g"
| "global_config_from_bytes E (RawAccount bytes) =
     (if length bytes = 256 then Some (pod_global_config E bytes) else None)"
| "global_config_from_bytes E _ = None"

fun whitelist_from_bytes :: "environment \<Rightarrow> account_data \<Rightarrow> liquidator_whitelist_entry option" where
  "whitelist_from_bytes E (LiquidatorWhitelistAccount e) = Some e"
| "whitelist_from_bytes E (RawAccount bytes) =
     (if length bytes = 80 then Some (pod_whitelist E bytes) else None)"
| "whitelist_from_bytes E _ = None"

definition market_is_initialized :: "market \<Rightarrow> bool" where
  "market_is_initialized m \<longleftrightarrow> curator (config m) \<noteq> 0"

definition borrow_position_is_initialized :: "borrow_position \<Rightarrow> bool" where
  "borrow_position_is_initialized p \<longleftrightarrow> bp_authority p \<noteq> 0"

definition supply_position_is_initialized :: "supply_position \<Rightarrow> bool" where
  "supply_position_is_initialized p \<longleftrightarrow> sp_authority p \<noteq> 0"

definition global_config_is_initialized :: "global_config \<Rightarrow> bool" where
  "global_config_is_initialized g \<longleftrightarrow> admin g \<noteq> 0"

definition whitelist_is_initialized :: "liquidator_whitelist_entry \<Rightarrow> bool" where
  "whitelist_is_initialized e \<longleftrightarrow> lw_market e \<noteq> 0"

text \<open>\<open>AutaraUninitializedAccount\<close> inverts the check.\<close>

definition uninitialized :: "('a \<Rightarrow> bool) \<Rightarrow> 'a \<Rightarrow> bool" where
  "uninitialized is_initialized x \<longleftrightarrow> \<not> is_initialized x"

abbreviation market_mut :: "environment \<Rightarrow> account_info \<Rightarrow> market typed_account program_result" where
  "market_mut E \<equiv> zero_copy_mut_try_from (market_from_bytes E) market_is_initialized"

abbreviation borrow_position_mut :: "environment \<Rightarrow> account_info \<Rightarrow> borrow_position typed_account program_result" where
  "borrow_position_mut E \<equiv> zero_copy_mut_try_from (borrow_position_from_bytes E) borrow_position_is_initialized"

abbreviation supply_position_mut :: "environment \<Rightarrow> account_info \<Rightarrow> supply_position typed_account program_result" where
  "supply_position_mut E \<equiv> zero_copy_mut_try_from (supply_position_from_bytes E) supply_position_is_initialized"

abbreviation global_config_ref :: "environment \<Rightarrow> account_info \<Rightarrow> global_config typed_account program_result" where
  "global_config_ref E \<equiv> zero_copy_try_from (global_config_from_bytes E) global_config_is_initialized"

abbreviation global_config_mut :: "environment \<Rightarrow> account_info \<Rightarrow> global_config typed_account program_result" where
  "global_config_mut E \<equiv> zero_copy_mut_try_from (global_config_from_bytes E) global_config_is_initialized"

abbreviation whitelist_ref :: "environment \<Rightarrow> account_info \<Rightarrow> liquidator_whitelist_entry typed_account program_result" where
  "whitelist_ref E \<equiv> zero_copy_try_from (whitelist_from_bytes E) whitelist_is_initialized"

abbreviation whitelist_mut :: "environment \<Rightarrow> account_info \<Rightarrow> liquidator_whitelist_entry typed_account program_result" where
  "whitelist_mut E \<equiv> zero_copy_mut_try_from (whitelist_from_bytes E) whitelist_is_initialized"

section \<open>Seeds\<close>

definition pubkey_bytes :: "pubkey \<Rightarrow> u8 list" where
  "pubkey_bytes k = rev (int_bytes 32 (uint k))"

definition ascii :: "string \<Rightarrow> u8 list" where
  "ascii s = map of_char s"

definition market_seed_with_bump :: "pubkey \<Rightarrow> pubkey \<Rightarrow> pubkey \<Rightarrow> u8 \<Rightarrow> u8 \<Rightarrow> u8 list list" where
  "market_seed_with_bump cur supply_mint collateral_mint index bump =
     [ascii ''market'', pubkey_bytes cur, pubkey_bytes supply_mint, pubkey_bytes collateral_mint,
      [index], [bump]]"

definition supply_position_seed_with_bump :: "pubkey \<Rightarrow> pubkey \<Rightarrow> u8 \<Rightarrow> u8 list list" where
  "supply_position_seed_with_bump m authority bump =
     [ascii ''supply_position'', pubkey_bytes m, pubkey_bytes authority, [bump]]"

definition borrow_position_seed_with_bump :: "pubkey \<Rightarrow> pubkey \<Rightarrow> u8 \<Rightarrow> u8 list list" where
  "borrow_position_seed_with_bump m authority bump =
     [ascii ''borrow_position'', pubkey_bytes m, pubkey_bytes authority, [bump]]"

definition liquidator_whitelist_entry_seed :: "pubkey \<Rightarrow> pubkey \<Rightarrow> u8 list list" where
  "liquidator_whitelist_entry_seed m l =
     [ascii ''liquidator_whitelist'', pubkey_bytes m, pubkey_bytes l]"

definition liquidator_whitelist_entry_seed_with_bump :: "pubkey \<Rightarrow> pubkey \<Rightarrow> u8 \<Rightarrow> u8 list list" where
  "liquidator_whitelist_entry_seed_with_bump m l bump =
     [ascii ''liquidator_whitelist'', pubkey_bytes m, pubkey_bytes l, [bump]]"

definition find_liquidator_whitelist_entry_pda ::
    "environment \<Rightarrow> pubkey \<Rightarrow> pubkey \<Rightarrow> pubkey \<Rightarrow> pubkey \<times> u8" where
  "find_liquidator_whitelist_entry_pda E program_id m l =
     find_program_address (env_runtime E) (liquidator_whitelist_entry_seed m l) program_id"

definition global_config_seed :: "u8 list list" where
  "global_config_seed = [ascii ''global_config'']"

definition global_config_seed_with_bump :: "u8 \<Rightarrow> u8 list list" where
  "global_config_seed_with_bump bump = [ascii ''global_config'', [bump]]"

definition find_global_config_pda :: "environment \<Rightarrow> pubkey \<Rightarrow> pubkey \<times> u8" where
  "find_global_config_pda E program_id =
     find_program_address (env_runtime E) global_config_seed program_id"

definition market_seed :: "market \<Rightarrow> u8 list list" where
  "market_seed m =
     market_seed_with_bump (curator (config m)) (sv_mint (m_supply_vault m))
       (cv_mint (m_collateral_vault m)) (mc_index (config m)) (mc_bump (config m))"

section \<open>Lemmas on the loaders\<close>

lemma take_account_POk [simp]:
  "take_account f accounts = POk (x, rest) \<longleftrightarrow> (\<exists>a. accounts = a # rest \<and> f a = POk x)"
  by (cases accounts) (auto simp: take_account_def)

lemma signer_POk [simp]: "signer_try_from a = POk b \<longleftrightarrow> b = a \<and> ai_is_signer a"
  by (auto simp: signer_try_from_def)

lemma program_POk [simp]: "program_try_from k a = POk b \<longleftrightarrow> b = a \<and> ai_key a = k"
  by (auto simp: program_try_from_def)

lemma zero_copy_POk [simp]:
  "zero_copy_try_from f i a = POk x \<longleftrightarrow>
     info x = a \<and> ai_owner a = crate_id \<and> f (ai_data a) = Some (content x) \<and> i (content x)"
  by (cases x) (auto simp: zero_copy_try_from_def split: option.splits)

lemma zero_copy_mut_POk [simp]:
  "zero_copy_mut_try_from f i a = POk x \<longleftrightarrow>
     info x = a \<and> ai_owner a = crate_id \<and> f (ai_data a) = Some (content x) \<and> i (content x)
     \<and> ai_is_writable a"
  by (auto simp: zero_copy_mut_try_from_def)

lemma packed_POk [simp]:
  "packed_try_from E f a = POk x \<longleftrightarrow>
     info x = a \<and> ai_owner a = apl_token_id E \<and> f (ai_data a) = Some (content x)"
  by (cases x) (auto simp: packed_try_from_def split: option.splits)

lemma account_size_inject:
  assumes "account_size d = Some n" "account_size d' = Some n"
  shows "(market_from_bytes E d = None) = (market_from_bytes E d' = None)"
    "(borrow_position_from_bytes E d = None) = (borrow_position_from_bytes E d' = None)"
    "(supply_position_from_bytes E d = None) = (supply_position_from_bytes E d' = None)"
    "(global_config_from_bytes E d = None) = (global_config_from_bytes E d' = None)"
    "(whitelist_from_bytes E d = None) = (whitelist_from_bytes E d' = None)"
  using assms by (cases d; cases d'; simp split: if_splits)+

end
