(* ===== verification/Program_Validation.thy ===== *)
theory Program_Validation
  imports Program_Accounts
begin

text \<open>
  The account lists of the instructions, \<open>src/programs/autara-program/src/ixs\<close>: for each of them
  the record of its accounts, \<open>validate\<close>, which relates them to each other, and
  \<open>from_accounts\<close>, which takes them off the list in order, loads each at its type and validates
  the whole. The formatted error messages carry no information beyond the error itself.
\<close>

fun check_all :: "(bool \<times> lending_account_validation_error) list \<Rightarrow> unit program_result" where
  "check_all [] = POk ()"
| "check_all ((c, e) # cs) = (if c then check_all cs else PErr (LendingAccountValidationError e))"

lemma check_all_POk [simp]: "check_all cs = POk u \<longleftrightarrow> list_all fst cs"
  by (induction cs) (auto split: if_splits)

declare check_all.simps(2) [simp del]

section \<open>Accounts of the instructions\<close>

subsection \<open>CreateMarketAccounts\<close>

record create_market_accounts =
  cm_curator :: account_info
  cm_payer :: account_info
  cm_global_config :: "global_config typed_account"
  cm_market :: account_info
  cm_supply_mint :: "mint_account typed_account"
  cm_supply_vault :: account_info
  cm_collateral_mint :: "mint_account typed_account"
  cm_collateral_vault :: account_info
  cm_apl_token_program :: account_info
  cm_associated_token_program :: account_info
  cm_system_program :: account_info

definition create_market_validate :: "environment \<Rightarrow> create_market_accounts \<Rightarrow> unit program_result" where
  "create_market_validate E self = check_all
     [(acc_key (cm_global_config self)
         = fst (find_global_config_pda E crate_id), InvalidProtocolAuthority),
      (ai_key (cm_supply_vault self)
          = associated_token_address E (ai_key (cm_market self)) (acc_key (cm_supply_mint self)), InvalidMarketVault),
      (ai_key (cm_collateral_vault self)
          = associated_token_address E (ai_key (cm_market self)) (acc_key (cm_collateral_mint self)), InvalidMarketVault)]"

definition create_market_from_accounts ::
    "environment \<Rightarrow> account_info list \<Rightarrow> create_market_accounts program_result" where
  "create_market_from_accounts E accounts =
     bind_p (take_account signer_try_from accounts) (\<lambda>(curator, accounts).
     bind_p (take_account signer_try_from accounts) (\<lambda>(payer, accounts).
     bind_p (take_account (global_config_ref E) accounts) (\<lambda>(global_config, accounts).
     bind_p (take_account POk accounts) (\<lambda>(market, accounts).
     bind_p (take_account (packed_try_from E mint_unpack) accounts) (\<lambda>(supply_mint, accounts).
     bind_p (take_account POk accounts) (\<lambda>(supply_vault, accounts).
     bind_p (take_account (packed_try_from E mint_unpack) accounts) (\<lambda>(collateral_mint, accounts).
     bind_p (take_account POk accounts) (\<lambda>(collateral_vault, accounts).
     bind_p (take_account (program_try_from (apl_token_id E)) accounts) (\<lambda>(apl_token_program, accounts).
     bind_p (take_account (program_try_from (apl_associated_token_id E)) accounts) (\<lambda>(associated_token_program, accounts).
     bind_p (take_account (program_try_from (system_program_id E)) accounts) (\<lambda>(system_program, accounts).
       let this = \<lparr>cm_curator = curator, cm_payer = payer, cm_global_config = global_config,
        cm_market = market, cm_supply_mint = supply_mint, cm_supply_vault = supply_vault,
        cm_collateral_mint = collateral_mint, cm_collateral_vault = collateral_vault,
        cm_apl_token_program = apl_token_program,
        cm_associated_token_program = associated_token_program,
        cm_system_program = system_program\<rparr> in
       bind_p (create_market_validate E this) (\<lambda>_. POk this))))))))))))"

subsection \<open>CreateSupplyPositionAccounts\<close>

record create_supply_position_accounts =
  csp_market :: "market typed_account"
  csp_supply_position :: account_info
  csp_authority :: account_info
  csp_payer :: account_info
  csp_system_program :: account_info

definition create_supply_position_from_accounts ::
    "environment \<Rightarrow> account_info list \<Rightarrow> create_supply_position_accounts program_result" where
  "create_supply_position_from_accounts E accounts =
     bind_p (take_account (market_mut E) accounts) (\<lambda>(market, accounts).
     bind_p (take_account POk accounts) (\<lambda>(supply_position, accounts).
     bind_p (take_account signer_try_from accounts) (\<lambda>(authority, accounts).
     bind_p (take_account signer_try_from accounts) (\<lambda>(payer, accounts).
     bind_p (take_account (program_try_from (system_program_id E)) accounts) (\<lambda>(system_program, accounts).
       POk \<lparr>csp_market = market, csp_supply_position = supply_position, csp_authority = authority,
        csp_payer = payer, csp_system_program = system_program\<rparr>)))))"

subsection \<open>SupplyAplAccounts\<close>

record supply_apl_accounts =
  sa_market :: "market typed_account"
  sa_supply_position :: "supply_position typed_account"
  sa_authority :: account_info
  sa_authority_supply_ata :: "token_account typed_account"
  sa_market_supply_vault :: "token_account typed_account"
  sa_apl_token_program :: account_info
  sa_supply_oracle :: account_info
  sa_collateral_oracle :: account_info

definition supply_apl_validate :: "supply_apl_accounts \<Rightarrow> unit program_result" where
  "supply_apl_validate self = check_all
     [(sp_authority (content (sa_supply_position self))
         = ai_key (sa_authority self), InvalidAuthority),
      (sp_market (content (sa_supply_position self)) = acc_key (sa_market self), InvalidMarket),
      (sv_vault (m_supply_vault (content (sa_market self)))
          = acc_key (sa_market_supply_vault self), InvalidMarketVault),
      (ta_mint (content (sa_authority_supply_ata self))
          = sv_mint (m_supply_vault (content (sa_market self))), InvalidMintForTokenAccount)]"

definition supply_apl_from_accounts ::
    "environment \<Rightarrow> account_info list \<Rightarrow> supply_apl_accounts program_result" where
  "supply_apl_from_accounts E accounts =
     bind_p (take_account (market_mut E) accounts) (\<lambda>(market, accounts).
     bind_p (take_account (supply_position_mut E) accounts) (\<lambda>(supply_position, accounts).
     bind_p (take_account signer_try_from accounts) (\<lambda>(authority, accounts).
     bind_p (take_account (packed_try_from E token_unpack) accounts) (\<lambda>(authority_supply_ata, accounts).
     bind_p (take_account (packed_try_from E token_unpack) accounts) (\<lambda>(market_supply_vault, accounts).
     bind_p (take_account (program_try_from (apl_token_id E)) accounts) (\<lambda>(apl_token_program, accounts).
     bind_p (take_account POk accounts) (\<lambda>(supply_oracle, accounts).
     bind_p (take_account POk accounts) (\<lambda>(collateral_oracle, accounts).
       let this = \<lparr>sa_market = market, sa_supply_position = supply_position, sa_authority = authority,
        sa_authority_supply_ata = authority_supply_ata,
        sa_market_supply_vault = market_supply_vault, sa_apl_token_program = apl_token_program,
        sa_supply_oracle = supply_oracle, sa_collateral_oracle = collateral_oracle\<rparr> in
       bind_p (supply_apl_validate this) (\<lambda>_. POk this)))))))))"

subsection \<open>WithdrawSupplyAccounts\<close>

record withdraw_supply_accounts =
  ws_market :: "market typed_account"
  ws_supply_position :: "supply_position typed_account"
  ws_authority :: account_info
  ws_authority_supply_ata :: "token_account typed_account"
  ws_market_supply_vault :: "token_account typed_account"
  ws_apl_token_program :: account_info
  ws_supply_oracle :: account_info
  ws_collateral_oracle :: account_info

definition withdraw_supply_validate :: "withdraw_supply_accounts \<Rightarrow> unit program_result" where
  "withdraw_supply_validate self = check_all
     [(sp_authority (content (ws_supply_position self))
         = ai_key (ws_authority self), InvalidAuthority),
      (sp_market (content (ws_supply_position self)) = acc_key (ws_market self), InvalidMarket),
      (sv_vault (m_supply_vault (content (ws_market self)))
          = acc_key (ws_market_supply_vault self), InvalidMarketVault),
      (ta_mint (content (ws_authority_supply_ata self))
          = sv_mint (m_supply_vault (content (ws_market self))), InvalidMintForTokenAccount)]"

definition withdraw_supply_from_accounts ::
    "environment \<Rightarrow> account_info list \<Rightarrow> withdraw_supply_accounts program_result" where
  "withdraw_supply_from_accounts E accounts =
     bind_p (take_account (market_mut E) accounts) (\<lambda>(market, accounts).
     bind_p (take_account (supply_position_mut E) accounts) (\<lambda>(supply_position, accounts).
     bind_p (take_account signer_try_from accounts) (\<lambda>(authority, accounts).
     bind_p (take_account (packed_try_from E token_unpack) accounts) (\<lambda>(authority_supply_ata, accounts).
     bind_p (take_account (packed_try_from E token_unpack) accounts) (\<lambda>(market_supply_vault, accounts).
     bind_p (take_account (program_try_from (apl_token_id E)) accounts) (\<lambda>(apl_token_program, accounts).
     bind_p (take_account POk accounts) (\<lambda>(supply_oracle, accounts).
     bind_p (take_account POk accounts) (\<lambda>(collateral_oracle, accounts).
       let this = \<lparr>ws_market = market, ws_supply_position = supply_position, ws_authority = authority,
        ws_authority_supply_ata = authority_supply_ata,
        ws_market_supply_vault = market_supply_vault, ws_apl_token_program = apl_token_program,
        ws_supply_oracle = supply_oracle, ws_collateral_oracle = collateral_oracle\<rparr> in
       bind_p (withdraw_supply_validate this) (\<lambda>_. POk this)))))))))"

subsection \<open>CreateBorrowPositionAccounts\<close>

record create_borrow_position_accounts =
  cbp_market :: "market typed_account"
  cbp_borrow_position :: account_info
  cbp_authority :: account_info
  cbp_payer :: account_info
  cbp_system_program :: account_info

definition create_borrow_position_from_accounts ::
    "environment \<Rightarrow> account_info list \<Rightarrow> create_borrow_position_accounts program_result" where
  "create_borrow_position_from_accounts E accounts =
     bind_p (take_account (market_mut E) accounts) (\<lambda>(market, accounts).
     bind_p (take_account POk accounts) (\<lambda>(borrow_position, accounts).
     bind_p (take_account signer_try_from accounts) (\<lambda>(authority, accounts).
     bind_p (take_account signer_try_from accounts) (\<lambda>(payer, accounts).
     bind_p (take_account (program_try_from (system_program_id E)) accounts) (\<lambda>(system_program, accounts).
       POk \<lparr>cbp_market = market, cbp_borrow_position = borrow_position, cbp_authority = authority,
        cbp_payer = payer, cbp_system_program = system_program\<rparr>)))))"

subsection \<open>BorrowAplAccounts\<close>

record borrow_apl_accounts =
  ba_market :: "market typed_account"
  ba_borrow_position :: "borrow_position typed_account"
  ba_authority :: account_info
  ba_authority_supply_ata :: "token_account typed_account"
  ba_market_supply_vault :: "token_account typed_account"
  ba_apl_token_program :: account_info
  ba_supply_oracle :: account_info
  ba_collateral_oracle :: account_info

definition borrow_apl_validate :: "borrow_apl_accounts \<Rightarrow> unit program_result" where
  "borrow_apl_validate self = check_all
     [(bp_authority (content (ba_borrow_position self))
         = ai_key (ba_authority self), InvalidAuthority),
      (bp_market (content (ba_borrow_position self)) = acc_key (ba_market self), InvalidMarket),
      (sv_vault (m_supply_vault (content (ba_market self)))
          = acc_key (ba_market_supply_vault self), InvalidMarketVault),
      (ta_mint (content (ba_authority_supply_ata self))
          = sv_mint (m_supply_vault (content (ba_market self))), InvalidMintForTokenAccount)]"

definition borrow_apl_from_accounts ::
    "environment \<Rightarrow> account_info list \<Rightarrow> borrow_apl_accounts program_result" where
  "borrow_apl_from_accounts E accounts =
     bind_p (take_account (market_mut E) accounts) (\<lambda>(market, accounts).
     bind_p (take_account (borrow_position_mut E) accounts) (\<lambda>(borrow_position, accounts).
     bind_p (take_account signer_try_from accounts) (\<lambda>(authority, accounts).
     bind_p (take_account (packed_try_from E token_unpack) accounts) (\<lambda>(authority_supply_ata, accounts).
     bind_p (take_account (packed_try_from E token_unpack) accounts) (\<lambda>(market_supply_vault, accounts).
     bind_p (take_account (program_try_from (apl_token_id E)) accounts) (\<lambda>(apl_token_program, accounts).
     bind_p (take_account POk accounts) (\<lambda>(supply_oracle, accounts).
     bind_p (take_account POk accounts) (\<lambda>(collateral_oracle, accounts).
       let this = \<lparr>ba_market = market, ba_borrow_position = borrow_position, ba_authority = authority,
        ba_authority_supply_ata = authority_supply_ata,
        ba_market_supply_vault = market_supply_vault, ba_apl_token_program = apl_token_program,
        ba_supply_oracle = supply_oracle, ba_collateral_oracle = collateral_oracle\<rparr> in
       bind_p (borrow_apl_validate this) (\<lambda>_. POk this)))))))))"

subsection \<open>DepositAplCollateralAccounts\<close>

record deposit_apl_collateral_accounts =
  dc_market :: "market typed_account"
  dc_borrow_position :: "borrow_position typed_account"
  dc_authority :: account_info
  dc_authority_collateral_ata :: "token_account typed_account"
  dc_market_collateral_vault :: "token_account typed_account"
  dc_apl_token_program :: account_info
  dc_supply_oracle :: account_info
  dc_collateral_oracle :: account_info

definition deposit_apl_collateral_validate :: "deposit_apl_collateral_accounts \<Rightarrow> unit program_result" where
  "deposit_apl_collateral_validate self = check_all
     [(bp_authority (content (dc_borrow_position self))
         = ai_key (dc_authority self), InvalidAuthority),
      (bp_market (content (dc_borrow_position self)) = acc_key (dc_market self), InvalidMarket),
      (cv_vault (m_collateral_vault (content (dc_market self)))
          = acc_key (dc_market_collateral_vault self), InvalidMarketVault),
      (ta_mint (content (dc_authority_collateral_ata self))
          = cv_mint (m_collateral_vault (content (dc_market self))), InvalidMintForTokenAccount)]"

definition deposit_apl_collateral_from_accounts ::
    "environment \<Rightarrow> account_info list \<Rightarrow> deposit_apl_collateral_accounts program_result" where
  "deposit_apl_collateral_from_accounts E accounts =
     bind_p (take_account (market_mut E) accounts) (\<lambda>(market, accounts).
     bind_p (take_account (borrow_position_mut E) accounts) (\<lambda>(borrow_position, accounts).
     bind_p (take_account signer_try_from accounts) (\<lambda>(authority, accounts).
     bind_p (take_account (packed_try_from E token_unpack) accounts) (\<lambda>(authority_collateral_ata, accounts).
     bind_p (take_account (packed_try_from E token_unpack) accounts) (\<lambda>(market_collateral_vault, accounts).
     bind_p (take_account (program_try_from (apl_token_id E)) accounts) (\<lambda>(apl_token_program, accounts).
     bind_p (take_account POk accounts) (\<lambda>(supply_oracle, accounts).
     bind_p (take_account POk accounts) (\<lambda>(collateral_oracle, accounts).
       let this = \<lparr>dc_market = market, dc_borrow_position = borrow_position, dc_authority = authority,
        dc_authority_collateral_ata = authority_collateral_ata,
        dc_market_collateral_vault = market_collateral_vault,
        dc_apl_token_program = apl_token_program, dc_supply_oracle = supply_oracle,
        dc_collateral_oracle = collateral_oracle\<rparr> in
       bind_p (deposit_apl_collateral_validate this) (\<lambda>_. POk this)))))))))"

subsection \<open>RepayAplAccounts\<close>

record repay_apl_accounts =
  ra_market :: "market typed_account"
  ra_borrow_position :: "borrow_position typed_account"
  ra_authority :: account_info
  ra_authority_supply_ata :: "token_account typed_account"
  ra_market_supply_vault :: "token_account typed_account"
  ra_apl_token_program :: account_info
  ra_supply_oracle :: account_info
  ra_collateral_oracle :: account_info

definition repay_apl_validate :: "repay_apl_accounts \<Rightarrow> unit program_result" where
  "repay_apl_validate self = check_all
     [(bp_authority (content (ra_borrow_position self))
         = ai_key (ra_authority self), InvalidAuthority),
      (bp_market (content (ra_borrow_position self)) = acc_key (ra_market self), InvalidMarket),
      (sv_vault (m_supply_vault (content (ra_market self)))
          = acc_key (ra_market_supply_vault self), InvalidMarketVault),
      (ta_mint (content (ra_authority_supply_ata self))
          = sv_mint (m_supply_vault (content (ra_market self))), InvalidMintForTokenAccount)]"

definition repay_apl_from_accounts ::
    "environment \<Rightarrow> account_info list \<Rightarrow> repay_apl_accounts program_result" where
  "repay_apl_from_accounts E accounts =
     bind_p (take_account (market_mut E) accounts) (\<lambda>(market, accounts).
     bind_p (take_account (borrow_position_mut E) accounts) (\<lambda>(borrow_position, accounts).
     bind_p (take_account signer_try_from accounts) (\<lambda>(authority, accounts).
     bind_p (take_account (packed_try_from E token_unpack) accounts) (\<lambda>(authority_supply_ata, accounts).
     bind_p (take_account (packed_try_from E token_unpack) accounts) (\<lambda>(market_supply_vault, accounts).
     bind_p (take_account (program_try_from (apl_token_id E)) accounts) (\<lambda>(apl_token_program, accounts).
     bind_p (take_account POk accounts) (\<lambda>(supply_oracle, accounts).
     bind_p (take_account POk accounts) (\<lambda>(collateral_oracle, accounts).
       let this = \<lparr>ra_market = market, ra_borrow_position = borrow_position, ra_authority = authority,
        ra_authority_supply_ata = authority_supply_ata,
        ra_market_supply_vault = market_supply_vault, ra_apl_token_program = apl_token_program,
        ra_supply_oracle = supply_oracle, ra_collateral_oracle = collateral_oracle\<rparr> in
       bind_p (repay_apl_validate this) (\<lambda>_. POk this)))))))))"

subsection \<open>UpdateConfigAccounts\<close>

record update_config_accounts =
  uc_market :: "market typed_account"
  uc_global_config :: "global_config typed_account"
  uc_curator :: account_info
  uc_updated_supply_oracle :: account_info
  uc_updated_collateral_oracle :: account_info

definition update_config_validate :: "environment \<Rightarrow> update_config_accounts \<Rightarrow> unit program_result" where
  "update_config_validate E self = check_all
     [(acc_key (uc_global_config self)
         = fst (find_global_config_pda E crate_id), InvalidProtocolAuthority),
      (curator (config (content (uc_market self)))
          = ai_key (uc_curator self), InvalidMarketAuthority)]"

definition update_config_from_accounts ::
    "environment \<Rightarrow> account_info list \<Rightarrow> update_config_accounts program_result" where
  "update_config_from_accounts E accounts =
     bind_p (take_account (market_mut E) accounts) (\<lambda>(market, accounts).
     bind_p (take_account (global_config_ref E) accounts) (\<lambda>(global_config, accounts).
     bind_p (take_account signer_try_from accounts) (\<lambda>(curator, accounts).
     bind_p (take_account POk accounts) (\<lambda>(updated_supply_oracle, accounts).
     bind_p (take_account POk accounts) (\<lambda>(updated_collateral_oracle, accounts).
       let this = \<lparr>uc_market = market, uc_global_config = global_config, uc_curator = curator,
        uc_updated_supply_oracle = updated_supply_oracle,
        uc_updated_collateral_oracle = updated_collateral_oracle\<rparr> in
       bind_p (update_config_validate E this) (\<lambda>_. POk this))))))"

subsection \<open>WithdrawAplCollateralAccounts\<close>

record withdraw_apl_collateral_accounts =
  wc_market :: "market typed_account"
  wc_borrow_position :: "borrow_position typed_account"
  wc_authority :: account_info
  wc_authority_collateral_ata :: "token_account typed_account"
  wc_market_collateral_vault :: "token_account typed_account"
  wc_apl_token_program :: account_info
  wc_supply_oracle :: account_info
  wc_collateral_oracle :: account_info

definition withdraw_apl_collateral_validate :: "withdraw_apl_collateral_accounts \<Rightarrow> unit program_result" where
  "withdraw_apl_collateral_validate self = check_all
     [(bp_authority (content (wc_borrow_position self))
         = ai_key (wc_authority self), InvalidAuthority),
      (bp_market (content (wc_borrow_position self)) = acc_key (wc_market self), InvalidMarket),
      (cv_vault (m_collateral_vault (content (wc_market self)))
          = acc_key (wc_market_collateral_vault self), InvalidMarketVault),
      (ta_mint (content (wc_authority_collateral_ata self))
          = cv_mint (m_collateral_vault (content (wc_market self))), InvalidMintForTokenAccount)]"

definition withdraw_apl_collateral_from_accounts ::
    "environment \<Rightarrow> account_info list \<Rightarrow> withdraw_apl_collateral_accounts program_result" where
  "withdraw_apl_collateral_from_accounts E accounts =
     bind_p (take_account (market_mut E) accounts) (\<lambda>(market, accounts).
     bind_p (take_account (borrow_position_mut E) accounts) (\<lambda>(borrow_position, accounts).
     bind_p (take_account signer_try_from accounts) (\<lambda>(authority, accounts).
     bind_p (take_account (packed_try_from E token_unpack) accounts) (\<lambda>(authority_collateral_ata, accounts).
     bind_p (take_account (packed_try_from E token_unpack) accounts) (\<lambda>(market_collateral_vault, accounts).
     bind_p (take_account (program_try_from (apl_token_id E)) accounts) (\<lambda>(apl_token_program, accounts).
     bind_p (take_account POk accounts) (\<lambda>(supply_oracle, accounts).
     bind_p (take_account POk accounts) (\<lambda>(collateral_oracle, accounts).
       let this = \<lparr>wc_market = market, wc_borrow_position = borrow_position, wc_authority = authority,
        wc_authority_collateral_ata = authority_collateral_ata,
        wc_market_collateral_vault = market_collateral_vault,
        wc_apl_token_program = apl_token_program, wc_supply_oracle = supply_oracle,
        wc_collateral_oracle = collateral_oracle\<rparr> in
       bind_p (withdraw_apl_collateral_validate this) (\<lambda>_. POk this)))))))))"

subsection \<open>CreateGlobalConfigAccounts\<close>

record create_global_config_accounts =
  cg_payer :: account_info
  cg_global_config :: account_info
  cg_system_program :: account_info

definition create_global_config_from_accounts ::
    "environment \<Rightarrow> account_info list \<Rightarrow> create_global_config_accounts program_result" where
  "create_global_config_from_accounts E accounts =
     bind_p (take_account signer_try_from accounts) (\<lambda>(payer, accounts).
     bind_p (take_account POk accounts) (\<lambda>(global_config, accounts).
     bind_p (take_account (program_try_from (system_program_id E)) accounts) (\<lambda>(system_program, accounts).
       POk \<lparr>cg_payer = payer, cg_global_config = global_config, cg_system_program = system_program\<rparr>)))"

subsection \<open>RedeemCuratorFeesAccounts\<close>

record redeem_curator_fees_accounts =
  rc_curator :: account_info
  rc_market :: "market typed_account"
  rc_curator_supply_ata :: "token_account typed_account"
  rc_market_supply_vault :: "token_account typed_account"
  rc_apl_token_program :: account_info

definition redeem_curator_fees_validate :: "redeem_curator_fees_accounts \<Rightarrow> unit program_result" where
  "redeem_curator_fees_validate self = check_all
     [(curator (config (content (rc_market self))) = ai_key (rc_curator self), InvalidAuthority),
      (sv_vault (m_supply_vault (content (rc_market self)))
          = acc_key (rc_market_supply_vault self), InvalidMarketVault)]"

definition redeem_curator_fees_from_accounts ::
    "environment \<Rightarrow> account_info list \<Rightarrow> redeem_curator_fees_accounts program_result" where
  "redeem_curator_fees_from_accounts E accounts =
     bind_p (take_account signer_try_from accounts) (\<lambda>(curator, accounts).
     bind_p (take_account (market_mut E) accounts) (\<lambda>(market, accounts).
     bind_p (take_account (packed_try_from E token_unpack) accounts) (\<lambda>(curator_supply_ata, accounts).
     bind_p (take_account (packed_try_from E token_unpack) accounts) (\<lambda>(market_supply_vault, accounts).
     bind_p (take_account (program_try_from (apl_token_id E)) accounts) (\<lambda>(apl_token_program, accounts).
       let this = \<lparr>rc_curator = curator, rc_market = market, rc_curator_supply_ata = curator_supply_ata,
        rc_market_supply_vault = market_supply_vault, rc_apl_token_program = apl_token_program\<rparr> in
       bind_p (redeem_curator_fees_validate this) (\<lambda>_. POk this))))))"

subsection \<open>RedeemProtocolFeesAccounts\<close>

record redeem_protocol_fees_accounts =
  rp_signer :: account_info
  rp_global_config :: "global_config typed_account"
  rp_market :: "market typed_account"
  rp_receiver_supply_ata :: "token_account typed_account"
  rp_market_supply_vault :: "token_account typed_account"
  rp_apl_token_program :: account_info

definition redeem_protocol_fees_validate :: "environment \<Rightarrow> redeem_protocol_fees_accounts \<Rightarrow> unit program_result" where
  "redeem_protocol_fees_validate E self = check_all
     [(acc_key (rp_global_config self)
         = fst (find_global_config_pda E crate_id), InvalidProtocolAuthority),
      (can_redeem_fees (content (rp_global_config self)) (ai_key (rp_signer self)), InvalidAuthority),
      (sv_vault (m_supply_vault (content (rp_market self)))
          = acc_key (rp_market_supply_vault self), InvalidMarketVault)]"

definition redeem_protocol_fees_from_accounts ::
    "environment \<Rightarrow> account_info list \<Rightarrow> redeem_protocol_fees_accounts program_result" where
  "redeem_protocol_fees_from_accounts E accounts =
     bind_p (take_account signer_try_from accounts) (\<lambda>(signer, accounts).
     bind_p (take_account (global_config_ref E) accounts) (\<lambda>(global_config, accounts).
     bind_p (take_account (market_mut E) accounts) (\<lambda>(market, accounts).
     bind_p (take_account (packed_try_from E token_unpack) accounts) (\<lambda>(receiver_supply_ata, accounts).
     bind_p (take_account (packed_try_from E token_unpack) accounts) (\<lambda>(market_supply_vault, accounts).
     bind_p (take_account (program_try_from (apl_token_id E)) accounts) (\<lambda>(apl_token_program, accounts).
       let this = \<lparr>rp_signer = signer, rp_global_config = global_config, rp_market = market,
        rp_receiver_supply_ata = receiver_supply_ata,
        rp_market_supply_vault = market_supply_vault, rp_apl_token_program = apl_token_program\<rparr> in
       bind_p (redeem_protocol_fees_validate E this) (\<lambda>_. POk this)))))))"

subsection \<open>UpdateGlobalConfigAccounts\<close>

record update_global_config_accounts =
  ug_signer :: account_info
  ug_global_config :: "global_config typed_account"

definition update_global_config_validate :: "update_global_config_accounts \<Rightarrow> unit program_result" where
  "update_global_config_validate self = check_all
     [(can_update_config (content (ug_global_config self)) (ai_key (ug_signer self))
        \<or> can_upgrade_nomination (content (ug_global_config self)) (ai_key (ug_signer self)), InvalidProtocolAuthority)]"

definition update_global_config_from_accounts ::
    "environment \<Rightarrow> account_info list \<Rightarrow> update_global_config_accounts program_result" where
  "update_global_config_from_accounts E accounts =
     bind_p (take_account signer_try_from accounts) (\<lambda>(signer, accounts).
     bind_p (take_account (global_config_mut E) accounts) (\<lambda>(global_config, accounts).
       let this = \<lparr>ug_signer = signer, ug_global_config = global_config\<rparr> in
       bind_p (update_global_config_validate this) (\<lambda>_. POk this)))"

subsection \<open>BorrowDepositAplAccounts\<close>

record borrow_deposit_apl_accounts =
  bd_market :: "market typed_account"
  bd_borrow_position :: "borrow_position typed_account"
  bd_authority :: account_info
  bd_authority_supply_ata :: "token_account typed_account"
  bd_market_supply_vault :: "token_account typed_account"
  bd_authority_collateral_ata :: "token_account typed_account"
  bd_market_collateral_vault :: "token_account typed_account"
  bd_apl_token_program :: account_info
  bd_supply_oracle :: account_info
  bd_collateral_oracle :: account_info

definition borrow_deposit_apl_validate :: "borrow_deposit_apl_accounts \<Rightarrow> unit program_result" where
  "borrow_deposit_apl_validate self = check_all
     [(bp_authority (content (bd_borrow_position self))
         = ai_key (bd_authority self), InvalidAuthority),
      (bp_market (content (bd_borrow_position self)) = acc_key (bd_market self), InvalidMarket),
      (sv_vault (m_supply_vault (content (bd_market self)))
          = acc_key (bd_market_supply_vault self), InvalidMarketVault),
      (ta_mint (content (bd_authority_supply_ata self))
          = sv_mint (m_supply_vault (content (bd_market self))), InvalidMintForTokenAccount),
      (cv_vault (m_collateral_vault (content (bd_market self)))
          = acc_key (bd_market_collateral_vault self), InvalidMarketVault),
      (ta_mint (content (bd_authority_collateral_ata self))
          = cv_mint (m_collateral_vault (content (bd_market self))), InvalidMintForTokenAccount)]"

definition borrow_deposit_apl_from_accounts ::
    "environment \<Rightarrow> account_info list \<Rightarrow> borrow_deposit_apl_accounts program_result" where
  "borrow_deposit_apl_from_accounts E accounts =
     bind_p (take_account (market_mut E) accounts) (\<lambda>(market, accounts).
     bind_p (take_account (borrow_position_mut E) accounts) (\<lambda>(borrow_position, accounts).
     bind_p (take_account signer_try_from accounts) (\<lambda>(authority, accounts).
     bind_p (take_account (packed_try_from E token_unpack) accounts) (\<lambda>(authority_supply_ata, accounts).
     bind_p (take_account (packed_try_from E token_unpack) accounts) (\<lambda>(market_supply_vault, accounts).
     bind_p (take_account (packed_try_from E token_unpack) accounts) (\<lambda>(authority_collateral_ata, accounts).
     bind_p (take_account (packed_try_from E token_unpack) accounts) (\<lambda>(market_collateral_vault, accounts).
     bind_p (take_account (program_try_from (apl_token_id E)) accounts) (\<lambda>(apl_token_program, accounts).
     bind_p (take_account POk accounts) (\<lambda>(supply_oracle, accounts).
     bind_p (take_account POk accounts) (\<lambda>(collateral_oracle, accounts).
       let this = \<lparr>bd_market = market, bd_borrow_position = borrow_position, bd_authority = authority,
        bd_authority_supply_ata = authority_supply_ata,
        bd_market_supply_vault = market_supply_vault,
        bd_authority_collateral_ata = authority_collateral_ata,
        bd_market_collateral_vault = market_collateral_vault,
        bd_apl_token_program = apl_token_program, bd_supply_oracle = supply_oracle,
        bd_collateral_oracle = collateral_oracle\<rparr> in
       bind_p (borrow_deposit_apl_validate this) (\<lambda>_. POk this)))))))))))"

subsection \<open>WithdrawRepayAplAccounts\<close>

record withdraw_repay_apl_accounts =
  wr_market :: "market typed_account"
  wr_borrow_position :: "borrow_position typed_account"
  wr_authority :: account_info
  wr_authority_supply_ata :: "token_account typed_account"
  wr_market_supply_vault :: "token_account typed_account"
  wr_authority_collateral_ata :: "token_account typed_account"
  wr_market_collateral_vault :: "token_account typed_account"
  wr_supply_mint_program :: account_info
  wr_supply_oracle :: account_info
  wr_collateral_oracle :: account_info

definition withdraw_repay_apl_validate :: "withdraw_repay_apl_accounts \<Rightarrow> unit program_result" where
  "withdraw_repay_apl_validate self = check_all
     [(bp_authority (content (wr_borrow_position self))
         = ai_key (wr_authority self), InvalidAuthority),
      (bp_market (content (wr_borrow_position self)) = acc_key (wr_market self), InvalidMarket),
      (sv_vault (m_supply_vault (content (wr_market self)))
          = acc_key (wr_market_supply_vault self), InvalidMarketVault),
      (ta_mint (content (wr_authority_supply_ata self))
          = sv_mint (m_supply_vault (content (wr_market self))), InvalidMintForTokenAccount),
      (cv_vault (m_collateral_vault (content (wr_market self)))
          = acc_key (wr_market_collateral_vault self), InvalidMarketVault),
      (ta_mint (content (wr_authority_collateral_ata self))
          = cv_mint (m_collateral_vault (content (wr_market self))), InvalidMintForTokenAccount)]"

definition withdraw_repay_apl_from_accounts ::
    "environment \<Rightarrow> account_info list \<Rightarrow> withdraw_repay_apl_accounts program_result" where
  "withdraw_repay_apl_from_accounts E accounts =
     bind_p (take_account (market_mut E) accounts) (\<lambda>(market, accounts).
     bind_p (take_account (borrow_position_mut E) accounts) (\<lambda>(borrow_position, accounts).
     bind_p (take_account signer_try_from accounts) (\<lambda>(authority, accounts).
     bind_p (take_account (packed_try_from E token_unpack) accounts) (\<lambda>(authority_supply_ata, accounts).
     bind_p (take_account (packed_try_from E token_unpack) accounts) (\<lambda>(market_supply_vault, accounts).
     bind_p (take_account (packed_try_from E token_unpack) accounts) (\<lambda>(authority_collateral_ata, accounts).
     bind_p (take_account (packed_try_from E token_unpack) accounts) (\<lambda>(market_collateral_vault, accounts).
     bind_p (take_account (program_try_from (apl_token_id E)) accounts) (\<lambda>(supply_mint_program, accounts).
     bind_p (take_account POk accounts) (\<lambda>(supply_oracle, accounts).
     bind_p (take_account POk accounts) (\<lambda>(collateral_oracle, accounts).
       let this = \<lparr>wr_market = market, wr_borrow_position = borrow_position, wr_authority = authority,
        wr_authority_supply_ata = authority_supply_ata,
        wr_market_supply_vault = market_supply_vault,
        wr_authority_collateral_ata = authority_collateral_ata,
        wr_market_collateral_vault = market_collateral_vault,
        wr_supply_mint_program = supply_mint_program, wr_supply_oracle = supply_oracle,
        wr_collateral_oracle = collateral_oracle\<rparr> in
       bind_p (withdraw_repay_apl_validate this) (\<lambda>_. POk this)))))))))))"

subsection \<open>SocializeLossAccounts\<close>

record socialize_loss_accounts =
  so_market :: "market typed_account"
  so_borrow_position :: "borrow_position typed_account"
  so_curator :: account_info
  so_receiver_collateral_ata :: "token_account typed_account"
  so_market_collateral_vault :: "token_account typed_account"
  so_apl_token_program :: account_info
  so_supply_oracle :: account_info
  so_collateral_oracle :: account_info

definition socialize_loss_validate :: "socialize_loss_accounts \<Rightarrow> unit program_result" where
  "socialize_loss_validate self = check_all
     [(bp_market (content (so_borrow_position self)) = acc_key (so_market self), InvalidMarket),
      (curator (config (content (so_market self)))
          = ai_key (so_curator self), InvalidMarketAuthority),
      (ta_mint (content (so_receiver_collateral_ata self))
          = cv_mint (m_collateral_vault (content (so_market self))), InvalidMintForTokenAccount),
      (cv_vault (m_collateral_vault (content (so_market self)))
          = acc_key (so_market_collateral_vault self), InvalidMarketVault),
      (ta_mint (content (so_market_collateral_vault self))
          = cv_mint (m_collateral_vault (content (so_market self))), InvalidMintForTokenAccount)]"

definition socialize_loss_from_accounts ::
    "environment \<Rightarrow> account_info list \<Rightarrow> socialize_loss_accounts program_result" where
  "socialize_loss_from_accounts E accounts =
     bind_p (take_account (market_mut E) accounts) (\<lambda>(market, accounts).
     bind_p (take_account (borrow_position_mut E) accounts) (\<lambda>(borrow_position, accounts).
     bind_p (take_account signer_try_from accounts) (\<lambda>(curator, accounts).
     bind_p (take_account (packed_try_from E token_unpack) accounts) (\<lambda>(receiver_collateral_ata, accounts).
     bind_p (take_account (packed_try_from E token_unpack) accounts) (\<lambda>(market_collateral_vault, accounts).
     bind_p (take_account (program_try_from (apl_token_id E)) accounts) (\<lambda>(apl_token_program, accounts).
     bind_p (take_account POk accounts) (\<lambda>(supply_oracle, accounts).
     bind_p (take_account POk accounts) (\<lambda>(collateral_oracle, accounts).
       let this = \<lparr>so_market = market, so_borrow_position = borrow_position, so_curator = curator,
        so_receiver_collateral_ata = receiver_collateral_ata,
        so_market_collateral_vault = market_collateral_vault,
        so_apl_token_program = apl_token_program, so_supply_oracle = supply_oracle,
        so_collateral_oracle = collateral_oracle\<rparr> in
       bind_p (socialize_loss_validate this) (\<lambda>_. POk this)))))))))"

subsection \<open>DonateSupplyAccounts\<close>

record donate_supply_accounts =
  dn_market :: "market typed_account"
  dn_authority :: account_info
  dn_authority_supply_ata :: "token_account typed_account"
  dn_market_supply_vault :: "token_account typed_account"
  dn_apl_token_program :: account_info

definition donate_supply_validate :: "donate_supply_accounts \<Rightarrow> unit program_result" where
  "donate_supply_validate self = check_all
     [(sv_vault (m_supply_vault (content (dn_market self)))
         = acc_key (dn_market_supply_vault self), InvalidMarketVault),
      (ta_mint (content (dn_authority_supply_ata self))
          = sv_mint (m_supply_vault (content (dn_market self))), InvalidMintForTokenAccount)]"

definition donate_supply_from_accounts ::
    "environment \<Rightarrow> account_info list \<Rightarrow> donate_supply_accounts program_result" where
  "donate_supply_from_accounts E accounts =
     bind_p (take_account (market_mut E) accounts) (\<lambda>(market, accounts).
     bind_p (take_account signer_try_from accounts) (\<lambda>(authority, accounts).
     bind_p (take_account (packed_try_from E token_unpack) accounts) (\<lambda>(authority_supply_ata, accounts).
     bind_p (take_account (packed_try_from E token_unpack) accounts) (\<lambda>(market_supply_vault, accounts).
     bind_p (take_account (program_try_from (apl_token_id E)) accounts) (\<lambda>(apl_token_program, accounts).
       let this = \<lparr>dn_market = market, dn_authority = authority,
        dn_authority_supply_ata = authority_supply_ata,
        dn_market_supply_vault = market_supply_vault, dn_apl_token_program = apl_token_program\<rparr> in
       bind_p (donate_supply_validate this) (\<lambda>_. POk this))))))"

subsection \<open>BeginCapitalSweepAccounts\<close>

record begin_capital_sweep_accounts =
  bs_market :: "market typed_account"
  bs_borrow_position :: "borrow_position typed_account"
  bs_curator :: account_info
  bs_curator_collateral_ata :: "token_account typed_account"
  bs_market_collateral_vault :: "token_account typed_account"
  bs_apl_token_program :: account_info
  bs_supply_oracle :: account_info
  bs_collateral_oracle :: account_info

definition begin_capital_sweep_validate :: "begin_capital_sweep_accounts \<Rightarrow> unit program_result" where
  "begin_capital_sweep_validate self = check_all
     [(bp_market (content (bs_borrow_position self)) = acc_key (bs_market self), InvalidMarket),
      (curator (config (content (bs_market self)))
          = ai_key (bs_curator self), InvalidMarketAuthority),
      (ta_mint (content (bs_curator_collateral_ata self))
          = cv_mint (m_collateral_vault (content (bs_market self))), InvalidMintForTokenAccount),
      (cv_vault (m_collateral_vault (content (bs_market self)))
          = acc_key (bs_market_collateral_vault self), InvalidMarketVault),
      (ta_mint (content (bs_market_collateral_vault self))
          = cv_mint (m_collateral_vault (content (bs_market self))), InvalidMintForTokenAccount)]"

definition begin_capital_sweep_from_accounts ::
    "environment \<Rightarrow> account_info list \<Rightarrow> begin_capital_sweep_accounts program_result" where
  "begin_capital_sweep_from_accounts E accounts =
     bind_p (take_account (market_mut E) accounts) (\<lambda>(market, accounts).
     bind_p (take_account (borrow_position_mut E) accounts) (\<lambda>(borrow_position, accounts).
     bind_p (take_account signer_try_from accounts) (\<lambda>(curator, accounts).
     bind_p (take_account (packed_try_from E token_unpack) accounts) (\<lambda>(curator_collateral_ata, accounts).
     bind_p (take_account (packed_try_from E token_unpack) accounts) (\<lambda>(market_collateral_vault, accounts).
     bind_p (take_account (program_try_from (apl_token_id E)) accounts) (\<lambda>(apl_token_program, accounts).
     bind_p (take_account POk accounts) (\<lambda>(supply_oracle, accounts).
     bind_p (take_account POk accounts) (\<lambda>(collateral_oracle, accounts).
       let this = \<lparr>bs_market = market, bs_borrow_position = borrow_position, bs_curator = curator,
        bs_curator_collateral_ata = curator_collateral_ata,
        bs_market_collateral_vault = market_collateral_vault,
        bs_apl_token_program = apl_token_program, bs_supply_oracle = supply_oracle,
        bs_collateral_oracle = collateral_oracle\<rparr> in
       bind_p (begin_capital_sweep_validate this) (\<lambda>_. POk this)))))))))"

subsection \<open>SettleCapitalSweepAccounts\<close>

record settle_capital_sweep_accounts =
  stl_market :: "market typed_account"
  stl_borrow_position :: "borrow_position typed_account"
  stl_curator :: account_info
  stl_curator_supply_ata :: "token_account typed_account"
  stl_curator_collateral_ata :: "token_account typed_account"
  stl_market_supply_vault :: "token_account typed_account"
  stl_market_collateral_vault :: "token_account typed_account"
  stl_apl_token_program :: account_info
  stl_supply_oracle :: account_info
  stl_collateral_oracle :: account_info

definition settle_capital_sweep_validate :: "settle_capital_sweep_accounts \<Rightarrow> unit program_result" where
  "settle_capital_sweep_validate self = check_all
     [(bp_market (content (stl_borrow_position self)) = acc_key (stl_market self), InvalidMarket),
      (curator (config (content (stl_market self)))
          = ai_key (stl_curator self), InvalidMarketAuthority),
      (ta_mint (content (stl_curator_supply_ata self))
          = sv_mint (m_supply_vault (content (stl_market self)))
        \<and> ta_mint (content (stl_market_supply_vault self)) = sv_mint (m_supply_vault (content (stl_market self))), InvalidMintForTokenAccount),
      (ta_mint (content (stl_curator_collateral_ata self))
          = cv_mint (m_collateral_vault (content (stl_market self)))
        \<and> ta_mint (content (stl_market_collateral_vault self)) = cv_mint (m_collateral_vault (content (stl_market self))), InvalidMintForTokenAccount),
      (sv_vault (m_supply_vault (content (stl_market self))) = acc_key (stl_market_supply_vault self)
        \<and> cv_vault (m_collateral_vault (content (stl_market self))) = acc_key (stl_market_collateral_vault self), InvalidMarketVault)]"

definition settle_capital_sweep_from_accounts ::
    "environment \<Rightarrow> account_info list \<Rightarrow> settle_capital_sweep_accounts program_result" where
  "settle_capital_sweep_from_accounts E accounts =
     bind_p (take_account (market_mut E) accounts) (\<lambda>(market, accounts).
     bind_p (take_account (borrow_position_mut E) accounts) (\<lambda>(borrow_position, accounts).
     bind_p (take_account signer_try_from accounts) (\<lambda>(curator, accounts).
     bind_p (take_account (packed_try_from E token_unpack) accounts) (\<lambda>(curator_supply_ata, accounts).
     bind_p (take_account (packed_try_from E token_unpack) accounts) (\<lambda>(curator_collateral_ata, accounts).
     bind_p (take_account (packed_try_from E token_unpack) accounts) (\<lambda>(market_supply_vault, accounts).
     bind_p (take_account (packed_try_from E token_unpack) accounts) (\<lambda>(market_collateral_vault, accounts).
     bind_p (take_account (program_try_from (apl_token_id E)) accounts) (\<lambda>(apl_token_program, accounts).
     bind_p (take_account POk accounts) (\<lambda>(supply_oracle, accounts).
     bind_p (take_account POk accounts) (\<lambda>(collateral_oracle, accounts).
       let this = \<lparr>stl_market = market, stl_borrow_position = borrow_position, stl_curator = curator,
        stl_curator_supply_ata = curator_supply_ata,
        stl_curator_collateral_ata = curator_collateral_ata,
        stl_market_supply_vault = market_supply_vault,
        stl_market_collateral_vault = market_collateral_vault,
        stl_apl_token_program = apl_token_program, stl_supply_oracle = supply_oracle,
        stl_collateral_oracle = collateral_oracle\<rparr> in
       bind_p (settle_capital_sweep_validate this) (\<lambda>_. POk this)))))))))))"

subsection \<open>LiquidateAccounts\<close>

text \<open>
  While the whitelist of the market is in use, an extra account is read: the whitelist entry of
  the liquidator. The program's own address in its place stands for a missing entry.
\<close>

record liquidate_accounts =
  lq_market :: "market typed_account"
  lq_borrow_position :: "borrow_position typed_account"
  lq_liquidator :: account_info
  lq_liquidator_supply_ata :: "token_account typed_account"
  lq_liquidator_collateral_ata :: "token_account typed_account"
  lq_market_supply_vault :: "token_account typed_account"
  lq_market_collateral_vault :: "token_account typed_account"
  lq_apl_token_program :: account_info
  lq_supply_oracle :: account_info
  lq_collateral_oracle :: account_info
  lq_liquidator_whitelist_entry :: "liquidator_whitelist_entry typed_account option"

definition liquidate_whitelist_check :: "environment \<Rightarrow> liquidate_accounts \<Rightarrow> unit program_result" where
  "liquidate_whitelist_check E self =
     (if liquidations_are_permissionless (config (content (lq_market self))) then POk ()
      else case lq_liquidator_whitelist_entry self of
          None \<Rightarrow> PErr (LendingAccountValidationError MissingLiquidatorWhitelistEntry)
        | Some entry \<Rightarrow>
            check_all
              [(acc_key entry = fst (find_liquidator_whitelist_entry_pda E crate_id
                   (acc_key (lq_market self)) (ai_key (lq_liquidator self)))
                \<and> lw_market (content entry) = acc_key (lq_market self)
                \<and> liquidator (content entry) = ai_key (lq_liquidator self)
                \<and> lw_is_active (content entry), LiquidatorNotInWhitelist)])"

definition liquidate_validate :: "environment \<Rightarrow> liquidate_accounts \<Rightarrow> unit program_result" where
  "liquidate_validate E self =
     bind_p (check_all
       [(ta_mint (content (lq_liquidator_collateral_ata self))
           = cv_mint (m_collateral_vault (content (lq_market self))),
           InvalidMintForTokenAccount),
        (ta_mint (content (lq_liquidator_supply_ata self))
            = sv_mint (m_supply_vault (content (lq_market self))),
           InvalidMintForTokenAccount),
        (bp_market (content (lq_borrow_position self)) = acc_key (lq_market self), InvalidMarket),
        (acc_key (lq_market_collateral_vault self)
            = cv_vault (m_collateral_vault (content (lq_market self))),
           InvalidMarketVault),
        (acc_key (lq_market_supply_vault self)
            = sv_vault (m_supply_vault (content (lq_market self))),
           InvalidMarketVault)])
       (\<lambda>_. liquidate_whitelist_check E self)"

definition liquidate_read_entry ::
    "environment \<Rightarrow> market \<Rightarrow> account_info list \<Rightarrow> liquidator_whitelist_entry typed_account option program_result" where
  "liquidate_read_entry E m accounts =
     (if liquidations_are_permissionless (config m) then POk None
      else case accounts of
          [] \<Rightarrow> PErr (LendingAccountValidationError MissingLiquidatorWhitelistEntry)
        | entry_account # _ \<Rightarrow>
            if ai_key entry_account = crate_id
            then PErr (LendingAccountValidationError MissingLiquidatorWhitelistEntry)
            else case whitelist_ref E entry_account of
                POk entry \<Rightarrow> POk (Some entry)
              | PErr _ \<Rightarrow> PErr (LendingAccountValidationError LiquidatorNotInWhitelist)
              | PPanic \<Rightarrow> PPanic)"

definition liquidate_from_accounts ::
    "environment \<Rightarrow> account_info list \<Rightarrow> liquidate_accounts program_result" where
  "liquidate_from_accounts E accounts =
     bind_p (take_account (market_mut E) accounts) (\<lambda>(market, accounts).
     bind_p (take_account (borrow_position_mut E) accounts) (\<lambda>(borrow_position, accounts).
     bind_p (take_account signer_try_from accounts) (\<lambda>(liquidator, accounts).
     bind_p (take_account (packed_try_from E token_unpack) accounts) (\<lambda>(liquidator_supply_ata, accounts).
     bind_p (take_account (packed_try_from E token_unpack) accounts) (\<lambda>(liquidator_collateral_ata, accounts).
     bind_p (take_account (packed_try_from E token_unpack) accounts) (\<lambda>(market_supply_vault, accounts).
     bind_p (take_account (packed_try_from E token_unpack) accounts) (\<lambda>(market_collateral_vault, accounts).
     bind_p (take_account (program_try_from (apl_token_id E)) accounts) (\<lambda>(apl_token_program, accounts).
     bind_p (take_account POk accounts) (\<lambda>(supply_oracle, accounts).
     bind_p (take_account POk accounts) (\<lambda>(collateral_oracle, accounts).
       bind_p (liquidate_read_entry E (content market) accounts) (\<lambda>entry.
       let this = \<lparr>lq_market = market, lq_borrow_position = borrow_position, lq_liquidator = liquidator,
        lq_liquidator_supply_ata = liquidator_supply_ata,
        lq_liquidator_collateral_ata = liquidator_collateral_ata,
        lq_market_supply_vault = market_supply_vault,
        lq_market_collateral_vault = market_collateral_vault,
        lq_apl_token_program = apl_token_program, lq_supply_oracle = supply_oracle,
        lq_collateral_oracle = collateral_oracle, lq_liquidator_whitelist_entry = entry\<rparr> in
       bind_p (liquidate_validate E this) (\<lambda>_. POk this))))))))))))"

subsection \<open>The liquidator whitelist\<close>

record add_whitelisted_liquidator_accounts =
  aw_market :: "market typed_account"
  aw_curator :: account_info
  aw_whitelist_entry :: account_info
  aw_system_program :: account_info

definition add_whitelisted_liquidator_validate ::
    "environment \<Rightarrow> pubkey \<Rightarrow> u8 \<Rightarrow> add_whitelisted_liquidator_accounts \<Rightarrow> unit program_result" where
  "add_whitelisted_liquidator_validate E data_liquidator data_bump self =
     bind_p (check_all
       [(curator (config (content (aw_market self)))
           = ai_key (aw_curator self), InvalidMarketAuthority),
        ((ai_key (aw_whitelist_entry self), data_bump)
           = find_liquidator_whitelist_entry_pda E crate_id (acc_key (aw_market self)) data_liquidator,
         InvalidLiquidatorWhitelistEntry)])
       (\<lambda>_.
         if ai_owner (aw_whitelist_entry self) = crate_id
         then bind_p (whitelist_ref E (aw_whitelist_entry self)) (\<lambda>entry.
             check_all [(lw_market (content entry) = acc_key (aw_market self)
                 \<and> liquidator (content entry) = data_liquidator, InvalidLiquidatorWhitelistEntry)])
         else check_all [(ai_owner (aw_whitelist_entry self) = system_program_id E,
                 InvalidLiquidatorWhitelistEntry)])"

definition add_whitelisted_liquidator_from_accounts ::
    "environment \<Rightarrow> account_info list \<Rightarrow> pubkey \<Rightarrow> u8 \<Rightarrow> add_whitelisted_liquidator_accounts program_result" where
  "add_whitelisted_liquidator_from_accounts E accounts data_liquidator data_bump =
     bind_p (take_account (market_mut E) accounts) (\<lambda>(market, accounts).
     bind_p (take_account signer_try_from accounts) (\<lambda>(curator, accounts).
     bind_p (take_account POk accounts) (\<lambda>(whitelist_entry, accounts).
     bind_p (take_account (program_try_from (system_program_id E)) accounts) (\<lambda>(system_program, accounts).
       let this = \<lparr>aw_market = market, aw_curator = curator, aw_whitelist_entry = whitelist_entry,
        aw_system_program = system_program\<rparr> in
       bind_p (add_whitelisted_liquidator_validate E data_liquidator data_bump this) (\<lambda>_. POk this)))))"

record remove_whitelisted_liquidator_accounts =
  rw_market :: "market typed_account"
  rw_curator :: account_info
  rw_whitelist_entry :: "liquidator_whitelist_entry typed_account"

definition remove_whitelisted_liquidator_validate ::
    "environment \<Rightarrow> pubkey \<Rightarrow> remove_whitelisted_liquidator_accounts \<Rightarrow> unit program_result" where
  "remove_whitelisted_liquidator_validate E data_liquidator self = check_all
     [(curator (config (content (rw_market self)))
         = ai_key (rw_curator self), InvalidMarketAuthority),
      (acc_key (rw_whitelist_entry self)
         = fst (find_liquidator_whitelist_entry_pda E crate_id (acc_key (rw_market self)) data_liquidator)
       \<and> lw_market (content (rw_whitelist_entry self)) = acc_key (rw_market self)
       \<and> liquidator (content (rw_whitelist_entry self)) = data_liquidator,
       InvalidLiquidatorWhitelistEntry)]"

definition remove_whitelisted_liquidator_from_accounts ::
    "environment \<Rightarrow> account_info list \<Rightarrow> pubkey \<Rightarrow> remove_whitelisted_liquidator_accounts program_result" where
  "remove_whitelisted_liquidator_from_accounts E accounts data_liquidator =
     bind_p (take_account (market_mut E) accounts) (\<lambda>(market, accounts).
     bind_p (take_account signer_try_from accounts) (\<lambda>(curator, accounts).
     bind_p (take_account (whitelist_mut E) accounts) (\<lambda>(whitelist_entry, accounts).
       let this = \<lparr>rw_market = market, rw_curator = curator, rw_whitelist_entry = whitelist_entry\<rparr> in
       bind_p (remove_whitelisted_liquidator_validate E data_liquidator this) (\<lambda>_. POk this))))"

subsection \<open>LogAccounts\<close>

text \<open>A log instruction only checks that the market itself signed.\<close>

definition log_from_accounts :: "environment \<Rightarrow> account_info list \<Rightarrow> market typed_account program_result" where
  "log_from_accounts E accounts =
     bind_p (take_account (zero_copy_try_from (market_from_bytes E) market_is_initialized) accounts)
       (\<lambda>(market, accounts).
       if \<not> ai_is_signer (info market) then PErr (ProgramError MissingRequiredSignature)
       else POk market)"

end
