(* ===== verification/Instructions.thy ===== *)
theory Instructions
  imports Program_Accounts
begin

text \<open>
  The instruction data of \<open>src/autara-lib/src/ixs\<close>: one record per instruction struct, the enum
  \<open>AurataInstruction\<close> and its tags. \<open>arch_instruction\<close> is the runtime's \<open>Instruction\<close>, which some
  instructions carry as an optional callback.
\<close>

record account_meta =
  am_pubkey :: pubkey
  am_is_signer :: bool
  am_is_writable :: bool

record arch_instruction =
  ai_program_id :: pubkey
  ai_accounts :: "account_meta list"
  ai_instruction_data :: "u8 list"

record create_market_instruction =
  ix_market_bump :: u8
  ix_index :: u8
  ix_ltv_config :: ltv_config
  ix_max_utilisation_rate :: ifixed
  ix_supply_oracle_config :: oracle_config
  ix_collateral_oracle_config :: oracle_config
  ix_interest_rate :: interest_rate_curve_kind
  ix_lending_market_fee_in_bps :: u16

record update_config_instruction =
  up_supply_oracle_config :: "oracle_config option"
  up_collateral_oracle_config :: "oracle_config option"
  up_ltv_config :: "ltv_config option"
  up_max_supply_atoms :: "u64 option"
  up_max_utilisation_rate :: "ifixed option"
  up_lending_market_fee_in_bps :: "u16 option"

record withdraw_supply_instruction =
  ws_amount :: u64
  ws_withdraw_all :: bool

record withdraw_apl_collateral_instruction =
  wc_amount :: u64
  wc_withdraw_all :: bool

record repay_apl_instruction =
  ra_amount :: u64
  ra_repay_all :: bool

record borrow_deposit_apl_instruction =
  bd_deposit_amount :: u64
  bd_borrow_amount :: u64
  bd_ix_callback :: "arch_instruction option"

record withdraw_repay_apl_instruction =
  wr_repay_amount :: u64
  wr_withdraw_amount :: u64
  wr_repay_all :: bool
  wr_withdraw_all :: bool
  wr_ix_callback :: "arch_instruction option"

record liquidate_instruction =
  max_borrowed_atoms_to_repay :: u64
  min_collateral_atoms_to_receive :: u64
  lq_ix_callback :: "arch_instruction option"

record settle_capital_sweep_instruction =
  stl_max_borrowed_atoms_to_repay :: u64
  stl_max_collateral_atoms_to_return :: u64

record create_global_config_instruction =
  cg_bump :: u8
  cg_admin :: pubkey
  cg_fee_receiver :: pubkey
  cg_protocol_fee_share_in_bps :: u16

record update_global_config_instruction =
  ug_accept_nomination :: bool
  ug_nominated_admin :: "pubkey option"
  ug_fee_receiver :: "pubkey option"
  ug_protocol_fee_share_in_bps :: "u16 option"

record add_whitelisted_liquidator_instruction =
  aw_liquidator :: pubkey
  aw_bump :: u8

text \<open>
  Structs with a single field (\<open>bump\<close>, \<open>amount\<close> or \<open>liquidator\<close>) are that field, empty structs
  are left out.
\<close>

datatype aurata_instruction =
    CreateMarket create_market_instruction
  | CreateSupplyPosition u8
  | SupplyApl u64
  | WithdrawSupply withdraw_supply_instruction
  | CreateBorrowPosition u8
  | BorrowApl u64
  | DepositAplCollateral u64
  | WithdrawAplCollateral withdraw_apl_collateral_instruction
  | RepayApl repay_apl_instruction
  | UpdateConfig update_config_instruction
  | Liquidate liquidate_instruction
  | Log
  | CreateGlobalConfig create_global_config_instruction
  | ReedeemCuratorFees
  | ReedeemProtocolFees
  | UpdateGlobalConfig update_global_config_instruction
  | BorrowDepositApl borrow_deposit_apl_instruction
  | WithdrawRepayApl withdraw_repay_apl_instruction
  | SocializeLoss
  | DonateSupply u64
  | BeginCapitalSweep
  | SettleCapitalSweep settle_capital_sweep_instruction
  | AddWhitelistedLiquidator add_whitelisted_liquidator_instruction
  | RemoveWhitelistedLiquidator pubkey

section \<open>Tags\<close>

datatype aurata_instruction_tag =
    TCreateMarket | TCreateSupplyPosition | TSupplyApl | TWithdrawSupply | TCreateBorrowPosition
  | TDepositAplCollateral | TWithdrawAplCollateral | TBorrowApl | TRepayApl | TUpdateConfig
  | TLiquidate | TLog | TCreateGlobalConfig | TReedeemCuratorFees | TReedeemProtocolFees
  | TUpdateGlobalConfig | TBorrowDepositApl | TWithdrawRepayApl | TSocializeLoss | TDonateSupply
  | TBeginCapitalSweep | TSettleCapitalSweep | TAddWhitelistedLiquidator
  | TRemoveWhitelistedLiquidator

text \<open>The order of the enum, which is the byte of its borsh form.\<close>

definition instruction_tags :: "aurata_instruction_tag list" where
  "instruction_tags =
     [TCreateMarket, TCreateSupplyPosition, TSupplyApl, TWithdrawSupply, TCreateBorrowPosition,
      TDepositAplCollateral, TWithdrawAplCollateral, TBorrowApl, TRepayApl, TUpdateConfig,
      TLiquidate, TLog, TCreateGlobalConfig, TReedeemCuratorFees, TReedeemProtocolFees,
      TUpdateGlobalConfig, TBorrowDepositApl, TWithdrawRepayApl, TSocializeLoss, TDonateSupply,
      TBeginCapitalSweep, TSettleCapitalSweep, TAddWhitelistedLiquidator,
      TRemoveWhitelistedLiquidator]"

definition instruction_tag_try_from :: "u8 \<Rightarrow> aurata_instruction_tag option" where
  "instruction_tag_try_from v =
     (if v = 0 then Some TCreateMarket
      else if v = 1 then Some TCreateSupplyPosition
      else if v = 2 then Some TSupplyApl
      else if v = 3 then Some TWithdrawSupply
      else if v = 4 then Some TCreateBorrowPosition
      else if v = 5 then Some TDepositAplCollateral
      else if v = 6 then Some TWithdrawAplCollateral
      else if v = 7 then Some TBorrowApl
      else if v = 8 then Some TRepayApl
      else if v = 9 then Some TUpdateConfig
      else if v = 10 then Some TLiquidate
      else if v = 11 then Some TLog
      else if v = 12 then Some TCreateGlobalConfig
      else if v = 13 then Some TReedeemCuratorFees
      else if v = 14 then Some TReedeemProtocolFees
      else if v = 15 then Some TUpdateGlobalConfig
      else if v = 16 then Some TBorrowDepositApl
      else if v = 17 then Some TWithdrawRepayApl
      else if v = 18 then Some TSocializeLoss
      else if v = 19 then Some TDonateSupply
      else if v = 20 then Some TBeginCapitalSweep
      else if v = 21 then Some TSettleCapitalSweep
      else if v = 22 then Some TAddWhitelistedLiquidator
      else if v = 23 then Some TRemoveWhitelistedLiquidator
      else None)"

lemma instruction_tags_in_order:
  "map instruction_tag_try_from (map of_nat [0..<24]) = map Some instruction_tags"
  by (simp add: instruction_tags_def instruction_tag_try_from_def upt_rec)

section \<open>Serialisation\<close>

text \<open>
  The hand-written \<open>BorshSerialize\<close> and \<open>BorshDeserialize\<close> of the enum. The derived borsh codecs
  of the tag and of the payload structs are a parameter.
\<close>

record instruction_codecs =
  ix_tag_codec :: "aurata_instruction_tag codec"
  ix_cm_codec :: "create_market_instruction codec"
  ix_bump_codec :: "u8 codec"
  ix_amount_codec :: "u64 codec"
  ix_ws_codec :: "withdraw_supply_instruction codec"
  ix_wc_codec :: "withdraw_apl_collateral_instruction codec"
  ix_ra_codec :: "repay_apl_instruction codec"
  ix_up_codec :: "update_config_instruction codec"
  ix_lq_codec :: "liquidate_instruction codec"
  ix_cg_codec :: "create_global_config_instruction codec"
  ix_ug_codec :: "update_global_config_instruction codec"
  ix_bd_codec :: "borrow_deposit_apl_instruction codec"
  ix_wr_codec :: "withdraw_repay_apl_instruction codec"
  ix_stl_codec :: "settle_capital_sweep_instruction codec"
  ix_aw_codec :: "add_whitelisted_liquidator_instruction codec"
  ix_key_codec :: "pubkey codec"

fun instruction_serialize :: "instruction_codecs \<Rightarrow> aurata_instruction \<Rightarrow> u8 list" where
  "instruction_serialize B (CreateMarket ix) =
     write_with (ix_tag_codec B) TCreateMarket @ write_with (ix_cm_codec B) ix"
| "instruction_serialize B (CreateSupplyPosition ix) =
     write_with (ix_tag_codec B) TCreateSupplyPosition @ write_with (ix_bump_codec B) ix"
| "instruction_serialize B (SupplyApl ix) =
     write_with (ix_tag_codec B) TSupplyApl @ write_with (ix_amount_codec B) ix"
| "instruction_serialize B (WithdrawSupply ix) =
     write_with (ix_tag_codec B) TWithdrawSupply @ write_with (ix_ws_codec B) ix"
| "instruction_serialize B (BorrowApl ix) =
     write_with (ix_tag_codec B) TBorrowApl @ write_with (ix_amount_codec B) ix"
| "instruction_serialize B (CreateBorrowPosition ix) =
     write_with (ix_tag_codec B) TCreateBorrowPosition @ write_with (ix_bump_codec B) ix"
| "instruction_serialize B (DepositAplCollateral ix) =
     write_with (ix_tag_codec B) TDepositAplCollateral @ write_with (ix_amount_codec B) ix"
| "instruction_serialize B (WithdrawAplCollateral ix) =
     write_with (ix_tag_codec B) TWithdrawAplCollateral @ write_with (ix_wc_codec B) ix"
| "instruction_serialize B (RepayApl ix) =
     write_with (ix_tag_codec B) TRepayApl @ write_with (ix_ra_codec B) ix"
| "instruction_serialize B (UpdateConfig ix) =
     write_with (ix_tag_codec B) TUpdateConfig @ write_with (ix_up_codec B) ix"
| "instruction_serialize B (Liquidate ix) =
     write_with (ix_tag_codec B) TLiquidate @ write_with (ix_lq_codec B) ix"
| "instruction_serialize B Log = write_with (ix_tag_codec B) TLog"
| "instruction_serialize B (CreateGlobalConfig ix) =
     write_with (ix_tag_codec B) TCreateGlobalConfig @ write_with (ix_cg_codec B) ix"
| "instruction_serialize B ReedeemCuratorFees = write_with (ix_tag_codec B) TReedeemCuratorFees"
| "instruction_serialize B ReedeemProtocolFees = write_with (ix_tag_codec B) TReedeemProtocolFees"
| "instruction_serialize B (UpdateGlobalConfig ix) =
     write_with (ix_tag_codec B) TUpdateGlobalConfig @ write_with (ix_ug_codec B) ix"
| "instruction_serialize B (BorrowDepositApl ix) =
     write_with (ix_tag_codec B) TBorrowDepositApl @ write_with (ix_bd_codec B) ix"
| "instruction_serialize B (WithdrawRepayApl ix) =
     write_with (ix_tag_codec B) TWithdrawRepayApl @ write_with (ix_wr_codec B) ix"
| "instruction_serialize B SocializeLoss = write_with (ix_tag_codec B) TSocializeLoss"
| "instruction_serialize B (DonateSupply ix) =
     write_with (ix_tag_codec B) TDonateSupply @ write_with (ix_amount_codec B) ix"
| "instruction_serialize B BeginCapitalSweep = write_with (ix_tag_codec B) TBeginCapitalSweep"
| "instruction_serialize B (SettleCapitalSweep ix) =
     write_with (ix_tag_codec B) TSettleCapitalSweep @ write_with (ix_stl_codec B) ix"
| "instruction_serialize B (AddWhitelistedLiquidator ix) =
     write_with (ix_tag_codec B) TAddWhitelistedLiquidator @ write_with (ix_aw_codec B) ix"
| "instruction_serialize B (RemoveWhitelistedLiquidator ix) =
     write_with (ix_tag_codec B) TRemoveWhitelistedLiquidator @ write_with (ix_key_codec B) ix"

fun instruction_read_payload ::
    "instruction_codecs \<Rightarrow> aurata_instruction_tag \<Rightarrow> u8 list \<Rightarrow> (aurata_instruction \<times> u8 list) option" where
  "instruction_read_payload B TCreateMarket bytes = read_with (ix_cm_codec B) CreateMarket bytes"
| "instruction_read_payload B TCreateSupplyPosition bytes = read_with (ix_bump_codec B) CreateSupplyPosition bytes"
| "instruction_read_payload B TSupplyApl bytes = read_with (ix_amount_codec B) SupplyApl bytes"
| "instruction_read_payload B TWithdrawSupply bytes = read_with (ix_ws_codec B) WithdrawSupply bytes"
| "instruction_read_payload B TBorrowApl bytes = read_with (ix_amount_codec B) BorrowApl bytes"
| "instruction_read_payload B TCreateBorrowPosition bytes = read_with (ix_bump_codec B) CreateBorrowPosition bytes"
| "instruction_read_payload B TDepositAplCollateral bytes = read_with (ix_amount_codec B) DepositAplCollateral bytes"
| "instruction_read_payload B TWithdrawAplCollateral bytes = read_with (ix_wc_codec B) WithdrawAplCollateral bytes"
| "instruction_read_payload B TRepayApl bytes = read_with (ix_ra_codec B) RepayApl bytes"
| "instruction_read_payload B TUpdateConfig bytes = read_with (ix_up_codec B) UpdateConfig bytes"
| "instruction_read_payload B TLiquidate bytes = read_with (ix_lq_codec B) Liquidate bytes"
| "instruction_read_payload B TLog bytes = Some (Log, bytes)"
| "instruction_read_payload B TCreateGlobalConfig bytes = read_with (ix_cg_codec B) CreateGlobalConfig bytes"
| "instruction_read_payload B TReedeemCuratorFees bytes = Some (ReedeemCuratorFees, bytes)"
| "instruction_read_payload B TReedeemProtocolFees bytes = Some (ReedeemProtocolFees, bytes)"
| "instruction_read_payload B TUpdateGlobalConfig bytes = read_with (ix_ug_codec B) UpdateGlobalConfig bytes"
| "instruction_read_payload B TBorrowDepositApl bytes = read_with (ix_bd_codec B) BorrowDepositApl bytes"
| "instruction_read_payload B TWithdrawRepayApl bytes = read_with (ix_wr_codec B) WithdrawRepayApl bytes"
| "instruction_read_payload B TSocializeLoss bytes = Some (SocializeLoss, bytes)"
| "instruction_read_payload B TDonateSupply bytes = read_with (ix_amount_codec B) DonateSupply bytes"
| "instruction_read_payload B TBeginCapitalSweep bytes = Some (BeginCapitalSweep, bytes)"
| "instruction_read_payload B TSettleCapitalSweep bytes = read_with (ix_stl_codec B) SettleCapitalSweep bytes"
| "instruction_read_payload B TAddWhitelistedLiquidator bytes = read_with (ix_aw_codec B) AddWhitelistedLiquidator bytes"
| "instruction_read_payload B TRemoveWhitelistedLiquidator bytes = read_with (ix_key_codec B) RemoveWhitelistedLiquidator bytes"

definition instruction_deserialize_reader ::
    "instruction_codecs \<Rightarrow> u8 list \<Rightarrow> (aurata_instruction \<times> u8 list) option" where
  "instruction_deserialize_reader B bytes =
     (case snd (ix_tag_codec B) bytes of
        None \<Rightarrow> None
      | Some (tag, rest) \<Rightarrow> instruction_read_payload B tag rest)"

text \<open>A codec reads back the value it wrote, whatever follows.\<close>

definition codec_at :: "'a codec \<Rightarrow> 'a \<Rightarrow> bool" where
  "codec_at c x \<longleftrightarrow> (\<forall>rest. snd c (fst c x @ rest) = Some (x, rest))"

fun payload_codec_ok :: "instruction_codecs \<Rightarrow> aurata_instruction \<Rightarrow> bool" where
  "payload_codec_ok B (CreateMarket ix) = codec_at (ix_cm_codec B) ix"
| "payload_codec_ok B (CreateSupplyPosition ix) = codec_at (ix_bump_codec B) ix"
| "payload_codec_ok B (SupplyApl ix) = codec_at (ix_amount_codec B) ix"
| "payload_codec_ok B (WithdrawSupply ix) = codec_at (ix_ws_codec B) ix"
| "payload_codec_ok B (BorrowApl ix) = codec_at (ix_amount_codec B) ix"
| "payload_codec_ok B (CreateBorrowPosition ix) = codec_at (ix_bump_codec B) ix"
| "payload_codec_ok B (DepositAplCollateral ix) = codec_at (ix_amount_codec B) ix"
| "payload_codec_ok B (WithdrawAplCollateral ix) = codec_at (ix_wc_codec B) ix"
| "payload_codec_ok B (RepayApl ix) = codec_at (ix_ra_codec B) ix"
| "payload_codec_ok B (UpdateConfig ix) = codec_at (ix_up_codec B) ix"
| "payload_codec_ok B (Liquidate ix) = codec_at (ix_lq_codec B) ix"
| "payload_codec_ok B Log = True"
| "payload_codec_ok B (CreateGlobalConfig ix) = codec_at (ix_cg_codec B) ix"
| "payload_codec_ok B ReedeemCuratorFees = True"
| "payload_codec_ok B ReedeemProtocolFees = True"
| "payload_codec_ok B (UpdateGlobalConfig ix) = codec_at (ix_ug_codec B) ix"
| "payload_codec_ok B (BorrowDepositApl ix) = codec_at (ix_bd_codec B) ix"
| "payload_codec_ok B (WithdrawRepayApl ix) = codec_at (ix_wr_codec B) ix"
| "payload_codec_ok B SocializeLoss = True"
| "payload_codec_ok B (DonateSupply ix) = codec_at (ix_amount_codec B) ix"
| "payload_codec_ok B BeginCapitalSweep = True"
| "payload_codec_ok B (SettleCapitalSweep ix) = codec_at (ix_stl_codec B) ix"
| "payload_codec_ok B (AddWhitelistedLiquidator ix) = codec_at (ix_aw_codec B) ix"
| "payload_codec_ok B (RemoveWhitelistedLiquidator ix) = codec_at (ix_key_codec B) ix"

lemma read_write_at: "codec_at c x \<Longrightarrow> read_with c f (write_with c x @ rest) = Some (f x, rest)"
  by (simp add: codec_at_def read_with_def write_with_def)

lemma read_ix_tag:
  "codec_ok (ix_tag_codec B) \<Longrightarrow> snd (ix_tag_codec B) (write_with (ix_tag_codec B) t @ rest) = Some (t, rest)"
  by (simp add: codec_ok_def write_with_def)

lemma read_serialized:
  assumes "codec_ok (ix_tag_codec B)" and "payload_codec_ok B ix"
  shows "instruction_deserialize_reader B (instruction_serialize B ix @ rest) = Some (ix, rest)"
  using assms
  by (cases ix) (simp_all add: instruction_deserialize_reader_def read_ix_tag read_write_at)

text \<open>The tag as borsh writes it: one byte, the index in the enum.\<close>

definition ix_tag_codec_ref :: "aurata_instruction_tag codec" where
  "ix_tag_codec_ref =
     (\<lambda>t. [of_nat (length (takeWhile (\<lambda>u. u \<noteq> t) instruction_tags))],
      \<lambda>bytes. case bytes of [] \<Rightarrow> None
        | b # rest \<Rightarrow> map_option (\<lambda>t. (t, rest)) (instruction_tag_try_from b))"

lemma ix_tag_codec_ref_ok: "codec_ok ix_tag_codec_ref"
  unfolding codec_ok_def
proof (intro allI)
  fix t rest
  show "snd ix_tag_codec_ref (fst ix_tag_codec_ref t @ rest) = Some (t, rest)"
    by (cases t) (simp_all add: ix_tag_codec_ref_def instruction_tags_def instruction_tag_try_from_def)
qed

text \<open>
  C37: An instruction that is serialised and read back is the same instruction, for every variant,
  and the bytes that follow it are left: no two variants share a tag. The hypotheses are on the
  derived codecs: that of the tag is faithful, and that of the payload reads back this payload.
\<close>

theorem instruction_roundtrip:
  assumes "codec_ok (ix_tag_codec B)" and "payload_codec_ok B ix"
  shows "instruction_deserialize_reader B (instruction_serialize B ix @ rest) = Some (ix, rest)"
  using assms by (rule read_serialized)

definition example_codecs :: instruction_codecs where
  "example_codecs = \<lparr>ix_tag_codec = ix_tag_codec_ref, ix_cm_codec = (\<lambda>_. [], \<lambda>_. None), ix_bump_codec = word_codec 1, ix_amount_codec = word_codec 8, ix_ws_codec = (\<lambda>_. [], \<lambda>_. None), ix_wc_codec = (\<lambda>_. [], \<lambda>_. None), ix_ra_codec = (\<lambda>_. [], \<lambda>_. None), ix_up_codec = (\<lambda>_. [], \<lambda>_. None), ix_lq_codec = (\<lambda>_. [], \<lambda>_. None), ix_cg_codec = (\<lambda>_. [], \<lambda>_. None), ix_ug_codec = (\<lambda>_. [], \<lambda>_. None), ix_bd_codec = (\<lambda>_. [], \<lambda>_. None), ix_wr_codec = (\<lambda>_. [], \<lambda>_. None), ix_stl_codec = (\<lambda>_. [], \<lambda>_. None), ix_aw_codec = (\<lambda>_. [], \<lambda>_. None), ix_key_codec = word_codec 32\<rparr>"

theorem instruction_roundtrip_witness:
  "instruction_deserialize_reader example_codecs (instruction_serialize example_codecs (SupplyApl 513))
     = Some (SupplyApl 513, [])
   \<and> instruction_serialize example_codecs (SupplyApl 513) = [2, 1, 2, 0, 0, 0, 0, 0, 0]"
proof -
  have "codec_ok (ix_tag_codec example_codecs)"
    by (simp add: example_codecs_def ix_tag_codec_ref_ok)
  moreover have "payload_codec_ok example_codecs (SupplyApl 513)"
    using word_codecs(2) by (simp add: example_codecs_def codec_at_def codec_ok_def)
  ultimately have "instruction_deserialize_reader example_codecs
      (instruction_serialize example_codecs (SupplyApl 513) @ []) = Some (SupplyApl 513, [])"
    by (rule instruction_roundtrip)
  moreover have "instruction_serialize example_codecs (SupplyApl 513) = [2, 1, 2, 0, 0, 0, 0, 0, 0]"
    by code_simp
  ultimately show ?thesis by simp
qed

end
