(* ===== verification/Program_Handlers.thy ===== *)
theory Program_Handlers
  imports Program_Validation Instructions
begin

text \<open>
  The instruction handlers, \<open>src/programs/autara-program/src/processor\<close>. A handler returns the
  list of its effects in program order: the accounts it writes and the cross-program invocations
  it makes, each with the signer seeds it passes. A market and a position are updated in place
  through mutable references; their write is recorded once, with the final value, at the point
  of the last change, before the first invocation that follows it. An invocation that fails
  aborts the transaction with all its effects.
\<close>

type_synonym signer_seeds = "u8 list list list"

datatype effect =
    Write pubkey account_data
  | LogEvent pubkey pubkey autara_event signer_seeds
  | TokenTransfer (tr_src: pubkey) (tr_dst: pubkey) (tr_authority: pubkey) (tr_amount: u64) signer_seeds
  | CreateAccount pubkey pubkey nat pubkey signer_seeds
  | CreateAccountWithSeed pubkey pubkey pubkey "u8 list" nat pubkey signer_seeds
  | CreateAta pubkey pubkey pubkey pubkey
  | SystemTransfer pubkey pubkey u64
  | SetLamports pubkey u64
  | Realloc pubkey nat
  | Assign pubkey pubkey
  | Invoke arch_instruction

text \<open>\<open>log_ix\<close> with its invocation: the market signs through its seeds.\<close>

definition log_effect :: "pubkey \<Rightarrow> market typed_account \<Rightarrow> market \<Rightarrow> autara_event \<Rightarrow> effect" where
  "log_effect program_id account m event = LogEvent program_id (acc_key account) event [market_seed m]"

text \<open>The view of an oracle account; it cannot be borrowed while a handler holds it mutably.\<close>

definition account_view_try_from ::
    "environment \<Rightarrow> pubkey list \<Rightarrow> account_info \<Rightarrow> account_view result" where
  "account_view_try_from E borrowed a =
     (if ai_key a \<in> set borrowed then Err FailedToLoadAccount
      else Ok \<lparr>view_key = ai_key a, view_data = account_bytes E (ai_data a), view_owner = ai_owner a\<rparr>)"

definition wrapper_mut ::
    "fixed_crate \<Rightarrow> environment \<Rightarrow> market \<Rightarrow> pubkey list \<Rightarrow> account_info \<Rightarrow> account_info \<Rightarrow> i64
     \<Rightarrow> market_wrapper program_result" where
  "wrapper_mut F E m borrowed supply_oracle collateral_oracle now =
     bind_p (lift_r (account_view_try_from E borrowed supply_oracle)) (\<lambda>sv.
     bind_p (lift_r (account_view_try_from E borrowed collateral_oracle)) (\<lambda>cv.
       lift_r (mw_try_new F (env_runtime E) m sv cv now)))"

text \<open>The opening lines of every handler with oracles: check both prices, then accrue interest.\<close>

definition open_market ::
    "fixed_crate \<Rightarrow> environment \<Rightarrow> market typed_account \<Rightarrow> pubkey list \<Rightarrow> account_info \<Rightarrow> account_info \<Rightarrow> i64
     \<Rightarrow> market_wrapper program_result" where
  "open_market F E account positions supply_oracle collateral_oracle now =
     bind_p (wrapper_mut F E (content account) (acc_key account # positions) supply_oracle
               collateral_oracle now) (\<lambda>w. lift_r (mw_sync_clock F w now))"

abbreviation supply_mint_of :: "market \<Rightarrow> pubkey" where
  "supply_mint_of m \<equiv> sv_mint (m_supply_vault m)"

abbreviation collateral_mint_of :: "market \<Rightarrow> pubkey" where
  "collateral_mint_of m \<equiv> cv_mint (m_collateral_vault m)"

section \<open>Lenders\<close>

definition process_supply_apl ::
    "fixed_crate \<Rightarrow> environment \<Rightarrow> supply_apl_accounts \<Rightarrow> u64 \<Rightarrow> pubkey \<Rightarrow> i64 \<Rightarrow> effect list program_result" where
  "process_supply_apl F E a amt program_id now =
     bind_p (open_market F E (sa_market a) [acc_key (sa_supply_position a)] (sa_supply_oracle a)
               (sa_collateral_oracle a) now) (\<lambda>w0.
     bind_p (lift_r (mw_lend F w0 (content (sa_supply_position a)) amt)) (\<lambda>(w, p).
     bind_p (lift_r (get_single_market_transaction_event F w (acc_key (sa_market a))
               (ai_key (sa_authority a)) (acc_key (sa_supply_position a))
               (supply_mint_of (mw_market w)) amt)) (\<lambda>ev.
       POk [Write (acc_key (sa_market a)) (MarketAccount (mw_market w)),
            Write (acc_key (sa_supply_position a)) (SupplyPositionAccount p),
            log_effect program_id (sa_market a) (mw_market w) (EvSupply ev),
            TokenTransfer (acc_key (sa_authority_supply_ata a)) (acc_key (sa_market_supply_vault a))
              (ai_key (sa_authority a)) amt []])))"

definition process_withdraw_supply ::
    "fixed_crate \<Rightarrow> environment \<Rightarrow> withdraw_supply_accounts \<Rightarrow> withdraw_supply_instruction \<Rightarrow> pubkey \<Rightarrow> i64
     \<Rightarrow> effect list program_result" where
  "process_withdraw_supply F E a data program_id now =
     bind_p (open_market F E (ws_market a) [acc_key (ws_supply_position a)] (ws_supply_oracle a)
               (ws_collateral_oracle a) now) (\<lambda>w0.
     bind_p (if ws_withdraw_all data
             then lift_r (mw_withdraw_all F w0 (content (ws_supply_position a)))
             else bind_p (lift_r (mw_withdraw F w0 (content (ws_supply_position a)) (ws_amount data)))
                    (\<lambda>(w, p). POk (w, p, ws_amount data))) (\<lambda>(w, p, withdraw_amount).
     bind_p (lift_r (get_single_market_transaction_event F w (acc_key (ws_market a))
               (ai_key (ws_authority a)) (acc_key (ws_supply_position a))
               (supply_mint_of (mw_market w)) withdraw_amount)) (\<lambda>ev.
       POk [Write (acc_key (ws_market a)) (MarketAccount (mw_market w)),
            Write (acc_key (ws_supply_position a)) (SupplyPositionAccount p),
            log_effect program_id (ws_market a) (mw_market w) (EvWithdraw ev),
            TokenTransfer (acc_key (ws_market_supply_vault a)) (acc_key (ws_authority_supply_ata a))
              (acc_key (ws_market a)) withdraw_amount [market_seed (mw_market w)]])))"

definition process_donate_supply ::
    "fixed_crate \<Rightarrow> donate_supply_accounts \<Rightarrow> u64 \<Rightarrow> pubkey \<Rightarrow> i64 \<Rightarrow> effect list program_result" where
  "process_donate_supply F a amt program_id now =
     bind_p (lift_r (market_sync_clock F (content (dn_market a)) now)) (\<lambda>m0.
     bind_p (lift_r (donate_supply_atoms F m0 amt)) (\<lambda>m.
       POk [Write (acc_key (dn_market a)) (MarketAccount m),
            log_effect program_id (dn_market a) m
              (EvDonateSupply \<lparr>ds_market = acc_key (dn_market a), ds_donor = ai_key (dn_authority a),
                 ds_mint = supply_mint_of m, ds_amount = amt\<rparr>),
            TokenTransfer (acc_key (dn_authority_supply_ata a)) (acc_key (dn_market_supply_vault a))
              (ai_key (dn_authority a)) amt []]))"

section \<open>Borrowers\<close>

definition process_borrow_apl ::
    "fixed_crate \<Rightarrow> environment \<Rightarrow> borrow_apl_accounts \<Rightarrow> u64 \<Rightarrow> pubkey \<Rightarrow> i64 \<Rightarrow> effect list program_result" where
  "process_borrow_apl F E a amt program_id now =
     bind_p (open_market F E (ba_market a) [acc_key (ba_borrow_position a)] (ba_supply_oracle a)
               (ba_collateral_oracle a) now) (\<lambda>w0.
     bind_p (lift_r (mw_borrow F w0 (content (ba_borrow_position a)) amt)) (\<lambda>(w, p).
     bind_p (lift_r (get_single_market_transaction_event F w (acc_key (ba_market a))
               (ai_key (ba_authority a)) (acc_key (ba_borrow_position a))
               (supply_mint_of (mw_market w)) amt)) (\<lambda>ev.
       POk [Write (acc_key (ba_market a)) (MarketAccount (mw_market w)),
            Write (acc_key (ba_borrow_position a)) (BorrowPositionAccount p),
            log_effect program_id (ba_market a) (mw_market w) (EvBorrow ev),
            TokenTransfer (acc_key (ba_market_supply_vault a)) (acc_key (ba_authority_supply_ata a))
              (acc_key (ba_market a)) amt [market_seed (mw_market w)]])))"

text \<open>Here the position is borrowed only after the oracles have been read.\<close>

definition process_deposit_apl_collateral ::
    "fixed_crate \<Rightarrow> environment \<Rightarrow> deposit_apl_collateral_accounts \<Rightarrow> u64 \<Rightarrow> pubkey \<Rightarrow> i64
     \<Rightarrow> effect list program_result" where
  "process_deposit_apl_collateral F E a amt program_id now =
     bind_p (open_market F E (dc_market a) [] (dc_supply_oracle a) (dc_collateral_oracle a) now) (\<lambda>w0.
     bind_p (lift_r (mw_deposit_collateral w0 (content (dc_borrow_position a)) amt)) (\<lambda>(w, p).
     bind_p (lift_r (get_single_market_transaction_event F w (acc_key (dc_market a))
               (ai_key (dc_authority a)) (acc_key (dc_borrow_position a))
               (collateral_mint_of (mw_market w)) amt)) (\<lambda>ev.
       POk [Write (acc_key (dc_market a)) (MarketAccount (mw_market w)),
            Write (acc_key (dc_borrow_position a)) (BorrowPositionAccount p),
            log_effect program_id (dc_market a) (mw_market w) (EvDepositCollateral ev),
            TokenTransfer (acc_key (dc_authority_collateral_ata a))
              (acc_key (dc_market_collateral_vault a)) (ai_key (dc_authority a)) amt []])))"

definition process_withdraw_apl_collateral ::
    "fixed_crate \<Rightarrow> environment \<Rightarrow> withdraw_apl_collateral_accounts \<Rightarrow> withdraw_apl_collateral_instruction
     \<Rightarrow> pubkey \<Rightarrow> i64 \<Rightarrow> effect list program_result" where
  "process_withdraw_apl_collateral F E a data program_id now =
     bind_p (open_market F E (wc_market a) [] (wc_supply_oracle a) (wc_collateral_oracle a) now) (\<lambda>w0.
       let atoms = (if wc_withdraw_all data
                    then collateral_deposited_atoms (content (wc_borrow_position a))
                    else wc_amount data) in
     bind_p (lift_r (mw_withdraw_collateral F w0 (content (wc_borrow_position a)) atoms)) (\<lambda>(w, p).
     bind_p (lift_r (get_single_market_transaction_event F w (acc_key (wc_market a))
               (ai_key (wc_authority a)) (acc_key (wc_borrow_position a))
               (collateral_mint_of (mw_market w)) atoms)) (\<lambda>ev.
       POk [Write (acc_key (wc_market a)) (MarketAccount (mw_market w)),
            Write (acc_key (wc_borrow_position a)) (BorrowPositionAccount p),
            log_effect program_id (wc_market a) (mw_market w) (EvWithdrawCollateral ev),
            TokenTransfer (acc_key (wc_market_collateral_vault a))
              (acc_key (wc_authority_collateral_ata a)) (acc_key (wc_market a)) atoms
              [market_seed (mw_market w)]])))"

text \<open>The two branches that repaying shares between two handlers.\<close>

definition repay_or_all ::
    "fixed_crate \<Rightarrow> market_wrapper \<Rightarrow> borrow_position \<Rightarrow> bool \<Rightarrow> u64
     \<Rightarrow> (market_wrapper \<times> borrow_position \<times> u64) program_result" where
  "repay_or_all F w p repay_all amt =
     (if repay_all then lift_r (mw_repay_all F w p)
      else bind_p (lift_r (mw_repay F w p amt)) (\<lambda>(w', p'). POk (w', p', amt)))"

definition process_repay_apl ::
    "fixed_crate \<Rightarrow> environment \<Rightarrow> repay_apl_accounts \<Rightarrow> repay_apl_instruction \<Rightarrow> pubkey \<Rightarrow> i64
     \<Rightarrow> effect list program_result" where
  "process_repay_apl F E a data program_id now =
     bind_p (open_market F E (ra_market a) [acc_key (ra_borrow_position a)] (ra_supply_oracle a)
               (ra_collateral_oracle a) now) (\<lambda>w0.
     bind_p (repay_or_all F w0 (content (ra_borrow_position a)) (ra_repay_all data) (ra_amount data))
       (\<lambda>(w, p, amt).
     bind_p (lift_r (get_single_market_transaction_event F w (acc_key (ra_market a))
               (ai_key (ra_authority a)) (acc_key (ra_borrow_position a))
               (supply_mint_of (mw_market w)) amt)) (\<lambda>ev.
       POk [Write (acc_key (ra_market a)) (MarketAccount (mw_market w)),
            Write (acc_key (ra_borrow_position a)) (BorrowPositionAccount p),
            log_effect program_id (ra_market a) (mw_market w) (EvRepay ev),
            TokenTransfer (acc_key (ra_authority_supply_ata a)) (acc_key (ra_market_supply_vault a))
              (ai_key (ra_authority a)) amt []])))"

definition callback_effects :: "arch_instruction option \<Rightarrow> effect list" where
  "callback_effects ix = (case ix of None \<Rightarrow> [] | Some i \<Rightarrow> [Invoke i])"

definition process_borrow_deposit_apl ::
    "fixed_crate \<Rightarrow> environment \<Rightarrow> borrow_deposit_apl_accounts \<Rightarrow> borrow_deposit_apl_instruction \<Rightarrow> pubkey
     \<Rightarrow> i64 \<Rightarrow> effect list program_result" where
  "process_borrow_deposit_apl F E a data program_id now =
     bind_p (open_market F E (bd_market a) [acc_key (bd_borrow_position a)] (bd_supply_oracle a)
               (bd_collateral_oracle a) now) (\<lambda>w0.
     bind_p (lift_r (mw_deposit_collateral w0 (content (bd_borrow_position a)) (bd_deposit_amount data)))
       (\<lambda>(w1, p1).
     bind_p (lift_r (mw_borrow F w1 p1 (bd_borrow_amount data))) (\<lambda>(w, p).
     bind_p (lift_r (get_double_market_transaction_event F w (acc_key (bd_market a))
               (ai_key (bd_authority a)) (acc_key (bd_borrow_position a))
               (collateral_mint_of (mw_market w)) (bd_deposit_amount data)
               (supply_mint_of (mw_market w)) (bd_borrow_amount data))) (\<lambda>ev.
       POk ([Write (acc_key (bd_market a)) (MarketAccount (mw_market w)),
             Write (acc_key (bd_borrow_position a)) (BorrowPositionAccount p),
             log_effect program_id (bd_market a) (mw_market w) (EvBorrowAndDeposit ev),
             TokenTransfer (acc_key (bd_market_supply_vault a)) (acc_key (bd_authority_supply_ata a))
               (acc_key (bd_market a)) (bd_borrow_amount data) [market_seed (mw_market w)]]
            @ callback_effects (bd_ix_callback data)
            @ [TokenTransfer (acc_key (bd_authority_collateral_ata a))
                 (acc_key (bd_market_collateral_vault a)) (ai_key (bd_authority a))
                 (bd_deposit_amount data) []])))))"

definition process_withdraw_repay_apl ::
    "fixed_crate \<Rightarrow> environment \<Rightarrow> withdraw_repay_apl_accounts \<Rightarrow> withdraw_repay_apl_instruction \<Rightarrow> pubkey
     \<Rightarrow> i64 \<Rightarrow> effect list program_result" where
  "process_withdraw_repay_apl F E a data program_id now =
     bind_p (open_market F E (wr_market a) [acc_key (wr_borrow_position a)] (wr_supply_oracle a)
               (wr_collateral_oracle a) now) (\<lambda>w0.
     bind_p (repay_or_all F w0 (content (wr_borrow_position a)) (wr_repay_all data)
               (wr_repay_amount data)) (\<lambda>(w1, p1, repay_amount).
       let withdraw_amount = (if wr_withdraw_all data then collateral_deposited_atoms p1
                              else wr_withdraw_amount data) in
     bind_p (lift_r (mw_withdraw_collateral F w1 p1 withdraw_amount)) (\<lambda>(w, p).
     bind_p (lift_r (get_double_market_transaction_event F w (acc_key (wr_market a))
               (ai_key (wr_authority a)) (acc_key (wr_borrow_position a))
               (supply_mint_of (mw_market w)) repay_amount
               (collateral_mint_of (mw_market w)) withdraw_amount)) (\<lambda>ev.
       POk ([Write (acc_key (wr_market a)) (MarketAccount (mw_market w)),
             Write (acc_key (wr_borrow_position a)) (BorrowPositionAccount p),
             log_effect program_id (wr_market a) (mw_market w) (EvWithdrawAndRepay ev),
             TokenTransfer (acc_key (wr_market_collateral_vault a))
               (acc_key (wr_authority_collateral_ata a)) (acc_key (wr_market a)) withdraw_amount
               [market_seed (mw_market w)]]
            @ callback_effects (wr_ix_callback data)
            @ [TokenTransfer (acc_key (wr_authority_supply_ata a))
                 (acc_key (wr_market_supply_vault a)) (ai_key (wr_authority a)) repay_amount []])))))"

section \<open>Liquidation, sweeps and losses\<close>

definition process_liquidate ::
    "fixed_crate \<Rightarrow> environment \<Rightarrow> liquidate_accounts \<Rightarrow> liquidate_instruction \<Rightarrow> pubkey \<Rightarrow> i64
     \<Rightarrow> effect list program_result" where
  "process_liquidate F E a data program_id now =
     bind_p (open_market F E (lq_market a) [acc_key (lq_borrow_position a)] (lq_supply_oracle a)
               (lq_collateral_oracle a) now) (\<lambda>w0.
     bind_p (lift_r (mw_liquidate F w0 (content (lq_borrow_position a))
               (max_borrowed_atoms_to_repay data))) (\<lambda>(w, p, liquidation).
     bind_p (lift_r (total_collateral_atoms_to_liquidate (lc_liquidation liquidation))) (\<lambda>total.
       if total < min_collateral_atoms_to_receive data
       then PErr (LendingError LiquidationDidNotMeetRequirements)
       else
         POk ([Write (acc_key (lq_market a)) (MarketAccount (mw_market w)),
               Write (acc_key (lq_borrow_position a)) (BorrowPositionAccount p),
               log_effect program_id (lq_market a) (mw_market w)
                 (EvLiquidate \<lparr>le_market = acc_key (lq_market a),
                    le_liquidator = ai_key (lq_liquidator a),
                    le_liquidatee_position = acc_key (lq_borrow_position a),
                    le_supply_mint = supply_mint_of (mw_market w),
                    le_collateral_mint = collateral_mint_of (mw_market w),
                    le_health_before_liquidation = health_before_liquidation liquidation,
                    le_health_after_liquidation = health_after_liquidation liquidation,
                    le_supply_repaid = borrowed_atoms_to_repay (lc_liquidation liquidation),
                    le_collateral_liquidated = collateral_atoms_to_liquidate (lc_liquidation liquidation),
                    le_liquidator_fee = collateral_atoms_liquidation_bonus (lc_liquidation liquidation)\<rparr>),
               TokenTransfer (acc_key (lq_market_collateral_vault a))
                 (acc_key (lq_liquidator_collateral_ata a)) (acc_key (lq_market a)) total
                 [market_seed (mw_market w)]]
              @ callback_effects (lq_ix_callback data)
              @ [TokenTransfer (acc_key (lq_liquidator_supply_ata a))
                   (acc_key (lq_market_supply_vault a)) (ai_key (lq_liquidator a))
                   (borrowed_atoms_to_repay (lc_liquidation liquidation)) []]))))"

definition process_begin_capital_sweep ::
    "fixed_crate \<Rightarrow> environment \<Rightarrow> begin_capital_sweep_accounts \<Rightarrow> pubkey \<Rightarrow> i64 \<Rightarrow> effect list program_result" where
  "process_begin_capital_sweep F E a program_id now =
     bind_p (open_market F E (bs_market a) [acc_key (bs_borrow_position a)] (bs_supply_oracle a)
               (bs_collateral_oracle a) now) (\<lambda>w0.
     bind_p (lift_r (mw_begin_capital_sweep F w0 (content (bs_borrow_position a)))) (\<lambda>(w, p, health).
       POk [Write (acc_key (bs_market a)) (MarketAccount (mw_market w)),
            Write (acc_key (bs_borrow_position a)) (BorrowPositionAccount p),
            log_effect program_id (bs_market a) (mw_market w)
              (EvCapitalSweepStarted \<lparr>ss_market = acc_key (bs_market a), ss_curator = ai_key (bs_curator a),
                 ss_position = acc_key (bs_borrow_position a),
                 ss_collateral_mint = collateral_mint_of (mw_market w),
                 ss_health_before_sweep = health, ss_collateral_swept = swept_collateral_atoms p\<rparr>),
            TokenTransfer (acc_key (bs_market_collateral_vault a)) (acc_key (bs_curator_collateral_ata a))
              (acc_key (bs_market a)) (swept_collateral_atoms p) [market_seed (mw_market w)]]))"

definition process_settle_capital_sweep ::
    "fixed_crate \<Rightarrow> environment \<Rightarrow> settle_capital_sweep_accounts \<Rightarrow> settle_capital_sweep_instruction
     \<Rightarrow> pubkey \<Rightarrow> i64 \<Rightarrow> effect list program_result" where
  "process_settle_capital_sweep F E a data program_id now =
     bind_p (open_market F E (stl_market a) [acc_key (stl_borrow_position a)] (stl_supply_oracle a)
               (stl_collateral_oracle a) now) (\<lambda>w0.
     bind_p (lift_r (mw_settle_capital_sweep F w0 (content (stl_borrow_position a))
               (stl_max_borrowed_atoms_to_repay data) (stl_max_collateral_atoms_to_return data)))
       (\<lambda>(w, p, settlement).
       let liquidation = cs_liquidation settlement;
           supply_repaid = borrowed_atoms_to_repay liquidation;
           collateral_returned = collateral_atoms_returned settlement in
       POk [Write (acc_key (stl_market a)) (MarketAccount (mw_market w)),
            Write (acc_key (stl_borrow_position a)) (BorrowPositionAccount p),
            log_effect program_id (stl_market a) (mw_market w)
              (EvCapitalSweepSettled \<lparr>se_market = acc_key (stl_market a),
                 se_curator = ai_key (stl_curator a), se_position = acc_key (stl_borrow_position a),
                 se_supply_mint = supply_mint_of (mw_market w),
                 se_collateral_mint = collateral_mint_of (mw_market w),
                 se_health_before_settlement = health_before_settlement settlement,
                 se_health_after_settlement = health_after_settlement settlement,
                 se_supply_repaid = supply_repaid,
                 se_collateral_liquidated = collateral_atoms_to_liquidate liquidation,
                 se_curator_bonus = collateral_atoms_liquidation_bonus liquidation,
                 se_collateral_returned = collateral_returned\<rparr>),
            TokenTransfer (acc_key (stl_curator_supply_ata a)) (acc_key (stl_market_supply_vault a))
              (ai_key (stl_curator a)) supply_repaid [],
            TokenTransfer (acc_key (stl_curator_collateral_ata a))
              (acc_key (stl_market_collateral_vault a)) (ai_key (stl_curator a)) collateral_returned []]))"

definition process_socialize_loss ::
    "fixed_crate \<Rightarrow> environment \<Rightarrow> socialize_loss_accounts \<Rightarrow> pubkey \<Rightarrow> i64 \<Rightarrow> effect list program_result" where
  "process_socialize_loss F E a program_id now =
     bind_p (open_market F E (so_market a) [acc_key (so_borrow_position a)] (so_supply_oracle a)
               (so_collateral_oracle a) now) (\<lambda>w0.
     bind_p (lift_r (mw_socialize_loss F w0 (content (so_borrow_position a))))
       (\<lambda>(w, p, debt_socialized, collateral_liquidated).
       POk [Write (acc_key (so_market a)) (MarketAccount (mw_market w)),
            Write (acc_key (so_borrow_position a)) (BorrowPositionAccount p),
            log_effect program_id (so_market a) (mw_market w)
              (EvSocializeLoss \<lparr>sl_market = acc_key (so_market a),
                 sl_position = acc_key (so_borrow_position a), sl_debt_socialized = debt_socialized,
                 sl_collateral_liquidated = collateral_liquidated\<rparr>),
            TokenTransfer (acc_key (so_market_collateral_vault a)) (acc_key (so_receiver_collateral_ata a))
              (acc_key (so_market a)) collateral_liquidated [market_seed (mw_market w)]]))"

end
