(* ===== verification/Program_Admin.thy ===== *)
theory Program_Admin
  imports Program_Handlers
begin

text \<open>
  The remaining handlers of \<open>src/programs/autara-program/src/processor\<close>: fee redemption,
  configuration, account creation and the liquidator whitelist. An account created by the system
  program is loaded again, as an uninitialised account of its type, before it is initialised; the
  environment says which account a successful creation leaves.
\<close>

section \<open>Fees\<close>

definition reedeem_fee_event_of ::
    "fixed_crate \<Rightarrow> market typed_account \<Rightarrow> market \<Rightarrow> token_account typed_account \<Rightarrow> u64
     \<Rightarrow> reedeem_fee_event result" where
  "reedeem_fee_event_of F account m receiver to_withdraw =
     bind_r (get_summary F (m_supply_vault m)) (\<lambda>snapshot.
       Ok \<lparr>rf_market = acc_key account, rf_fee_receiver = ta_owner (content receiver),
           rf_fee_amount = to_withdraw, rf_mint = supply_mint_of m,
           rf_supply_vault_snapshot = snapshot\<rparr>)"

definition process_redeem_curator_fees ::
    "fixed_crate \<Rightarrow> redeem_curator_fees_accounts \<Rightarrow> pubkey \<Rightarrow> i64 \<Rightarrow> effect list program_result" where
  "process_redeem_curator_fees F a program_id now =
     bind_p (lift_r (market_sync_clock F (content (rc_market a)) now)) (\<lambda>m0.
     bind_p (lift_r (redeem_curator_fess F m0)) (\<lambda>(m, to_withdraw).
     bind_p (lift_r (reedeem_fee_event_of F (rc_market a) m (rc_curator_supply_ata a) to_withdraw)) (\<lambda>ev.
       POk [Write (acc_key (rc_market a)) (MarketAccount m),
            log_effect program_id (rc_market a) m (EvReedeemCuratorFees ev),
            TokenTransfer (acc_key (rc_market_supply_vault a)) (acc_key (rc_curator_supply_ata a))
              (acc_key (rc_market a)) to_withdraw [market_seed m]])))"

text \<open>The event of this handler is that of the curator's fees.\<close>

definition process_redeem_protocol_fees ::
    "fixed_crate \<Rightarrow> redeem_protocol_fees_accounts \<Rightarrow> pubkey \<Rightarrow> i64 \<Rightarrow> effect list program_result" where
  "process_redeem_protocol_fees F a program_id now =
     bind_p (lift_r (market_sync_clock F (content (rp_market a)) now)) (\<lambda>m0.
     bind_p (lift_r (redeem_protocol_fees F m0)) (\<lambda>(m, to_withdraw).
     bind_p (lift_r (reedeem_fee_event_of F (rp_market a) m (rp_receiver_supply_ata a) to_withdraw)) (\<lambda>ev.
       POk [Write (acc_key (rp_market a)) (MarketAccount m),
            log_effect program_id (rp_market a) m (EvReedeemCuratorFees ev),
            TokenTransfer (acc_key (rp_market_supply_vault a)) (acc_key (rp_receiver_supply_ata a))
              (acc_key (rp_market a)) to_withdraw [market_seed m]])))"

section \<open>Configuration\<close>

text \<open>\<open>if let Some(x) = field { state.update(x)? }\<close>\<close>

definition update_if :: "'a option \<Rightarrow> ('s \<Rightarrow> 'a \<Rightarrow> 's result) \<Rightarrow> 's \<Rightarrow> 's result" where
  "update_if field update s = (case field of None \<Rightarrow> Ok s | Some x \<Rightarrow> update s x)"

definition on_config :: "(market_config \<Rightarrow> 'a \<Rightarrow> market_config result) \<Rightarrow> market \<Rightarrow> 'a \<Rightarrow> market result" where
  "on_config update m x = bind_r (update (config m) x) (\<lambda>c. Ok (m\<lparr>config := c\<rparr>))"

definition apply_config_updates ::
    "fixed_crate \<Rightarrow> update_config_instruction \<Rightarrow> global_config \<Rightarrow> market \<Rightarrow> market result" where
  "apply_config_updates F data g m0 =
     bind_r (update_if (up_supply_oracle_config data) set_supply_oracle_config m0) (\<lambda>m1.
     bind_r (update_if (up_collateral_oracle_config data) set_collateral_oracle_config m1) (\<lambda>m2.
     bind_r (update_if (up_ltv_config data) (on_config (update_ltv F)) m2) (\<lambda>m3.
     bind_r (update_if (up_max_utilisation_rate data) (on_config (update_max_utilisation_rate F)) m3)
       (\<lambda>m4.
     bind_r (update_if (up_max_supply_atoms data)
               (on_config (\<lambda>c n. Ok (update_max_supply_atoms c n))) m4) (\<lambda>m5.
     bind_r (update_if (up_lending_market_fee_in_bps data) (on_config set_lending_market_fee) m5) (\<lambda>m6.
       Ok (m6\<lparr>config := sync_global_config (config m6) g\<rparr>)))))))"

definition process_update_config ::
    "fixed_crate \<Rightarrow> environment \<Rightarrow> update_config_accounts \<Rightarrow> update_config_instruction \<Rightarrow> i64
     \<Rightarrow> effect list program_result" where
  "process_update_config F E a data now =
     bind_p (lift_r (market_sync_clock F (content (uc_market a)) now)) (\<lambda>m0.
     bind_p (lift_r (apply_config_updates F data (content (uc_global_config a)) m0)) (\<lambda>m.
     bind_p (wrapper_mut F E m [acc_key (uc_market a)] (uc_updated_supply_oracle a)
               (uc_updated_collateral_oracle a) now) (\<lambda>_.
       POk [Write (acc_key (uc_market a)) (MarketAccount m)])))"

definition process_update_global_config ::
    "update_global_config_accounts \<Rightarrow> update_global_config_instruction \<Rightarrow> effect list program_result" where
  "process_update_global_config a data =
     (let key = ai_key (ug_signer a) in
      bind_p (if ug_accept_nomination data
              then (if can_upgrade_nomination (content (ug_global_config a)) key
                    then lift_r (upgrade_nomination (content (ug_global_config a)))
                    else PErr (LendingError InvalidNomination))
              else POk (content (ug_global_config a))) (\<lambda>g1.
        if \<not> can_update_config g1 key
        then PErr (LendingAccountValidationError InvalidProtocolAuthority)
        else
          bind_p (lift_r (update_if (ug_protocol_fee_share_in_bps data)
                    update_protocol_fee_share_in_bps g1)) (\<lambda>g2.
          bind_p (lift_r (update_if (ug_fee_receiver data) (\<lambda>g r. Ok (set_fee_receiver g r)) g2)) (\<lambda>g3.
          bind_p (lift_r (update_if (ug_nominated_admin data) (\<lambda>g n. Ok (set_nominated_admin g n)) g3))
            (\<lambda>g. POk [Write (acc_key (ug_global_config a)) (GlobalConfigAccount g)])))))"

section \<open>Account creation\<close>

definition process_create_market ::
    "fixed_crate \<Rightarrow> environment \<Rightarrow> create_market_accounts \<Rightarrow> create_market_instruction \<Rightarrow> pubkey \<Rightarrow> i64
     \<Rightarrow> effect list program_result" where
  "process_create_market F E a data program_id now =
     (let seed = market_seed_with_bump (ai_key (cm_curator a)) (acc_key (cm_supply_mint a))
                   (acc_key (cm_collateral_mint a)) (ix_index data) (ix_market_bump data);
          create = CreateAccount (ai_key (cm_payer a)) (ai_key (cm_market a)) 1448 program_id [seed];
          ata = (\<lambda>vault mint. if ai_owner vault \<noteq> ai_key (cm_apl_token_program a)
                   then [CreateAta (ai_key (cm_payer a)) (ai_key vault) (ai_key (cm_market a)) mint]
                   else []) in
      bind_p (zero_copy_mut_try_from (market_from_bytes E) (uninitialized market_is_initialized)
                (create_account_result E (cm_market a) 1448 program_id)) (\<lambda>account.
      bind_p (lift_r (mc_initialize F (config (content account)) (ix_market_bump data) (ix_index data)
                (ai_key (cm_curator a)) (ix_ltv_config data) (ix_max_utilisation_rate data) (- 1)
                (ix_lending_market_fee_in_bps data) (content (cm_global_config a)))) (\<lambda>c.
      bind_p (lift_r (initlize_supply_vault F ((content account)\<lparr>config := c\<rparr>)
                (acc_key (cm_supply_mint a)) (ucast (mint_decimals (content (cm_supply_mint a))))
                (ai_key (cm_supply_vault a)) (ix_supply_oracle_config data) (ix_interest_rate data) now))
        (\<lambda>m1.
      bind_p (lift_r (initialize_collateral_vault m1 (acc_key (cm_collateral_mint a))
                (ucast (mint_decimals (content (cm_collateral_mint a))))
                (ai_key (cm_collateral_vault a)) (ix_collateral_oracle_config data))) (\<lambda>m.
        POk ([create] @ ata (cm_supply_vault a) (acc_key (cm_supply_mint a))
             @ ata (cm_collateral_vault a) (acc_key (cm_collateral_mint a))
             @ [Write (ai_key (cm_market a)) (MarketAccount m)]))))))"

definition process_create_supply_position ::
    "environment \<Rightarrow> create_supply_position_accounts \<Rightarrow> u8 \<Rightarrow> pubkey \<Rightarrow> effect list program_result" where
  "process_create_supply_position E a bump program_id =
     bind_p (zero_copy_mut_try_from (supply_position_from_bytes E)
               (uninitialized supply_position_is_initialized)
               (create_account_result E (csp_supply_position a) 216 program_id)) (\<lambda>position.
       POk [CreateAccount (ai_key (csp_payer a)) (ai_key (csp_supply_position a)) 216 program_id
              [supply_position_seed_with_bump (acc_key (csp_market a)) (ai_key (csp_authority a)) bump],
            Write (ai_key (csp_supply_position a))
              (SupplyPositionAccount (sp_initialize (content position) (ai_key (csp_authority a))
                 (acc_key (csp_market a))))])"

definition process_create_borrow_position ::
    "environment \<Rightarrow> create_borrow_position_accounts \<Rightarrow> u8 \<Rightarrow> pubkey \<Rightarrow> effect list program_result" where
  "process_create_borrow_position E a bump program_id =
     bind_p (zero_copy_mut_try_from (borrow_position_from_bytes E)
               (uninitialized borrow_position_is_initialized)
               (create_account_result E (cbp_borrow_position a) 224 program_id)) (\<lambda>position.
       POk [CreateAccount (ai_key (cbp_payer a)) (ai_key (cbp_borrow_position a)) 224 program_id
              [borrow_position_seed_with_bump (acc_key (cbp_market a)) (ai_key (cbp_authority a)) bump],
            Write (ai_key (cbp_borrow_position a))
              (BorrowPositionAccount (bp_initialize (content position) (ai_key (cbp_authority a))
                 (acc_key (cbp_market a))))])"

definition process_create_global_config ::
    "environment \<Rightarrow> create_global_config_accounts \<Rightarrow> create_global_config_instruction \<Rightarrow> pubkey
     \<Rightarrow> effect list program_result" where
  "process_create_global_config E a data program_id =
     bind_p (zero_copy_mut_try_from (global_config_from_bytes E)
               (uninitialized global_config_is_initialized)
               (create_account_result E (cg_global_config a) 256 program_id)) (\<lambda>g.
       POk [CreateAccount (ai_key (cg_payer a)) (ai_key (cg_global_config a)) 256 program_id
              [global_config_seed_with_bump (cg_bump data)],
            Write (ai_key (cg_global_config a))
              (GlobalConfigAccount (gc_initialize (content g) (cg_admin data) (cg_fee_receiver data)
                 (cg_protocol_fee_share_in_bps data)))])"

section \<open>The liquidator whitelist\<close>

definition whitelist_updated_event ::
    "market typed_account \<Rightarrow> account_info \<Rightarrow> pubkey \<Rightarrow> market \<Rightarrow> liquidator_whitelist_updated_event" where
  "whitelist_updated_event account signer l m =
     \<lparr>wu_market = acc_key account, wu_curator = ai_key signer, wu_liquidator = l,
      wu_active_whitelisted_liquidators = active_whitelisted_liquidators (config m)\<rparr>"

definition process_add_whitelisted_liquidator ::
    "environment \<Rightarrow> add_whitelisted_liquidator_accounts \<Rightarrow> add_whitelisted_liquidator_instruction
     \<Rightarrow> pubkey \<Rightarrow> effect list program_result" where
  "process_add_whitelisted_liquidator E a data program_id =
     bind_p
       (if ai_owner (aw_whitelist_entry a) \<noteq> program_id
        then bind_p (zero_copy_mut_try_from (whitelist_from_bytes E)
                       (uninitialized whitelist_is_initialized)
                       (create_account_result E (aw_whitelist_entry a) 80 program_id)) (\<lambda>entry.
             bind_p (lift_r (lw_initialize (content entry) (acc_key (aw_market a)) (aw_liquidator data)
                       (aw_bump data))) (\<lambda>e.
               POk ([CreateAccount (ai_key (aw_curator a)) (ai_key (aw_whitelist_entry a)) 80 program_id
                       [liquidator_whitelist_entry_seed_with_bump (acc_key (aw_market a))
                          (aw_liquidator data) (aw_bump data)]], e)))
        else bind_p (whitelist_mut E (aw_whitelist_entry a)) (\<lambda>entry.
             bind_p (lift_r (lw_activate (content entry))) (\<lambda>e. POk ([], e)))) (\<lambda>(created, e).
     bind_p (lift_r (increment_active_whitelisted_liquidators (config (content (aw_market a))))) (\<lambda>c.
       let m = (content (aw_market a))\<lparr>config := c\<rparr> in
       POk (created @
            [Write (ai_key (aw_whitelist_entry a)) (LiquidatorWhitelistAccount e),
             Write (acc_key (aw_market a)) (MarketAccount m),
             log_effect program_id (aw_market a) m
               (EvLiquidatorWhitelistEntryAdded
                  (whitelist_updated_event (aw_market a) (aw_curator a) (aw_liquidator data) m))])))"

definition process_remove_whitelisted_liquidator ::
    "remove_whitelisted_liquidator_accounts \<Rightarrow> pubkey \<Rightarrow> pubkey \<Rightarrow> effect list program_result" where
  "process_remove_whitelisted_liquidator a data_liquidator program_id =
     bind_p (lift_r (lw_deactivate (content (rw_whitelist_entry a)))) (\<lambda>e.
     bind_p (lift_r (decrement_active_whitelisted_liquidators (config (content (rw_market a))))) (\<lambda>c.
       let m = (content (rw_market a))\<lparr>config := c\<rparr> in
       POk [Write (acc_key (rw_whitelist_entry a)) (LiquidatorWhitelistAccount e),
            Write (acc_key (rw_market a)) (MarketAccount m),
            log_effect program_id (rw_market a) m
              (EvLiquidatorWhitelistEntryRemoved
                 (whitelist_updated_event (rw_market a) (rw_curator a) data_liquidator m))]))"

end
