(* ===== verification/Program_Idl.thy ===== *)
theory Program_Idl
  imports Program_Handlers
begin

text \<open>
  The handler of the on-chain IDL account, \<open>src/programs/autara-program/src/processor/idl.rs\<close>: it
  works on the raw bytes of an account, a header (discriminator, authority, length) followed by the
  data. Two accounts with the same address share their data and lamport cells, so borrowing a cell
  mutably while it is borrowed fails. Additions on \<open>usize\<close> wrap, as in a release build.
\<close>

definition IDL_IX_TAG_LE :: "u8 list" where
  "IDL_IX_TAG_LE = [0x40, 0xf4, 0xbc, 0x78, 0xa7, 0xe9, 0x69, 0x0a]"

definition IDL_ACCOUNT_DISCRIMINATOR :: "u8 list" where
  "IDL_ACCOUNT_DISCRIMINATOR = [0x18, 0x46, 0x62, 0xbf, 0x3a, 0x90, 0x7b, 0x9e]"

definition IDL_SEED :: "u8 list" where
  "IDL_SEED = ascii ''anchor:idl''"

definition AUTHORITY_OFFSET :: nat where
  "AUTHORITY_OFFSET = 8"

definition DATA_LEN_OFFSET :: nat where
  "DATA_LEN_OFFSET = 40"

definition HEADER_LEN :: nat where
  "HEADER_LEN = 44"

definition MAX_SPACE_PER_OP :: nat where
  "MAX_SPACE_PER_OP = 10000"

lemmas idl_layout = AUTHORITY_OFFSET_def DATA_LEN_OFFSET_def HEADER_LEN_def

datatype idl_instruction =
    IdlCreate u64
  | IdlCreateBuffer
  | IdlWrite "u8 list"
  | IdlSetBuffer
  | IdlSetAuthority "u8 list"
  | IdlClose
  | IdlResize u64

definition is_idl_instruction :: "u8 list \<Rightarrow> bool" where
  "is_idl_instruction data \<longleftrightarrow> take (length IDL_IX_TAG_LE) data = IDL_IX_TAG_LE"

section \<open>Helpers\<close>

text \<open>The bytes of an account; \<open>data[at..at + xs.len()].copy_from_slice(xs)\<close>.\<close>

definition data_bytes :: "environment \<Rightarrow> account_info \<Rightarrow> u8 list" where
  "data_bytes E a = (case ai_data a of RawAccount bytes \<Rightarrow> bytes | d \<Rightarrow> account_bytes E d)"

definition splice_at :: "nat \<Rightarrow> u8 list \<Rightarrow> u8 list \<Rightarrow> u8 list" where
  "splice_at at xs data = take at data @ xs @ drop (at + length xs) data"

abbreviation err_p :: "program_error \<Rightarrow> 'a program_result" where
  "err_p e \<equiv> PErr (ProgramError e)"

definition ensure_p :: "bool \<Rightarrow> program_error \<Rightarrow> unit program_result" where
  "ensure_p c e = (if c then POk () else err_p e)"

lemma ensure_p_POk [simp]: "ensure_p c e = POk u \<longleftrightarrow> c"
  by (simp add: ensure_p_def)

definition derive_idl :: "environment \<Rightarrow> pubkey \<Rightarrow> (pubkey \<times> pubkey \<times> u8) program_result" where
  "derive_idl E program_id =
     (let (base, bump) = find_program_address (env_runtime E) [] program_id in
      case create_with_seed E base IDL_SEED program_id of
        None \<Rightarrow> err_p InvalidArgument
      | Some idl \<Rightarrow> POk (idl, base, bump))"

definition has_idl_header :: "u8 list \<Rightarrow> bool" where
  "has_idl_header data \<longleftrightarrow> HEADER_LEN \<le> length data \<and> take 8 data = IDL_ACCOUNT_DISCRIMINATOR"

definition check_canonical_idl :: "environment \<Rightarrow> pubkey \<Rightarrow> account_info \<Rightarrow> unit program_result" where
  "check_canonical_idl E program_id idl =
     bind_p (ensure_p (ai_owner idl = program_id) IllegalOwner) (\<lambda>_.
     bind_p (derive_idl E program_id) (\<lambda>(expected, _, _).
     bind_p (ensure_p (ai_key idl = expected) InvalidArgument) (\<lambda>_.
       ensure_p (has_idl_header (data_bytes E idl)) InvalidAccountData)))"

definition check_owned_idl :: "environment \<Rightarrow> pubkey \<Rightarrow> account_info \<Rightarrow> unit program_result" where
  "check_owned_idl E program_id acc =
     bind_p (ensure_p (ai_owner acc = program_id) IllegalOwner) (\<lambda>_.
       ensure_p (has_idl_header (data_bytes E acc)) InvalidAccountData)"

definition header_authority :: "u8 list \<Rightarrow> u8 list" where
  "header_authority data = take 32 (drop AUTHORITY_OFFSET data)"

definition check_authority :: "environment \<Rightarrow> account_info \<Rightarrow> account_info \<Rightarrow> unit program_result" where
  "check_authority E idl authority =
     bind_p (ensure_p (ai_is_signer authority) MissingRequiredSignature) (\<lambda>_.
     bind_p (ensure_p (ai_key authority \<noteq> 0) InvalidArgument) (\<lambda>_.
       ensure_p (header_authority (data_bytes E idl) = pubkey_bytes (ai_key authority)) InvalidArgument))"

definition read_data_len :: "u8 list \<Rightarrow> nat" where
  "read_data_len data = nat (bytes_int (take 4 (drop DATA_LEN_OFFSET data)))"

definition write_data_len :: "u8 list \<Rightarrow> nat \<Rightarrow> u8 list" where
  "write_data_len data len = splice_at DATA_LEN_OFFSET (int_bytes 4 (int len)) data"

text \<open>The three header writes shared by the two initialisations.\<close>

definition stamp_header :: "pubkey \<Rightarrow> u8 list \<Rightarrow> u8 list" where
  "stamp_header authority data =
     write_data_len (splice_at AUTHORITY_OFFSET (pubkey_bytes authority)
                       (splice_at 0 IDL_ACCOUNT_DISCRIMINATOR data)) 0"

section \<open>Operations\<close>

definition idl_create_account ::
    "environment \<Rightarrow> pubkey \<Rightarrow> account_info list \<Rightarrow> u64 \<Rightarrow> effect list program_result" where
  "idl_create_account E program_id accounts data_len =
     bind_p (take_account POk accounts) (\<lambda>(from, accounts).
     bind_p (take_account POk accounts) (\<lambda>(to, accounts).
     bind_p (take_account POk accounts) (\<lambda>(base, accounts).
     bind_p (take_account POk accounts) (\<lambda>(system_program, accounts).
     bind_p (take_account POk accounts) (\<lambda>(program, accounts).
     bind_p (ensure_p (ai_key program = program_id) IncorrectProgramId) (\<lambda>_.
     bind_p (ensure_p (ai_is_signer from) MissingRequiredSignature) (\<lambda>_.
     bind_p (derive_idl E program_id) (\<lambda>(expected_idl, expected_base, bump).
     bind_p (ensure_p (ai_key to = expected_idl \<and> ai_key base = expected_base) InvalidArgument) (\<lambda>_.
       let space = min (unat (of_nat HEADER_LEN + data_len)) MAX_SPACE_PER_OP;
           data = data_bytes E (create_account_result E to space program_id) in
     bind_p (ensure_p (HEADER_LEN \<le> length data) AccountDataTooSmall) (\<lambda>_.
       POk [CreateAccountWithSeed (ai_key from) (ai_key to) (ai_key base) IDL_SEED space program_id
              [[[bump]]],
            Write (ai_key to) (RawAccount (stamp_header (ai_key from) data))]))))))))))"

definition idl_create_buffer ::
    "environment \<Rightarrow> pubkey \<Rightarrow> account_info list \<Rightarrow> effect list program_result" where
  "idl_create_buffer E program_id accounts =
     bind_p (take_account POk accounts) (\<lambda>(buffer, accounts).
     bind_p (take_account POk accounts) (\<lambda>(authority, accounts).
     bind_p (ensure_p (ai_owner buffer = program_id) IllegalOwner) (\<lambda>_.
     bind_p (ensure_p (ai_is_signer authority \<and> ai_key authority \<noteq> 0) MissingRequiredSignature) (\<lambda>_.
       let data = data_bytes E buffer in
     bind_p (ensure_p (HEADER_LEN \<le> length data) AccountDataTooSmall) (\<lambda>_.
     bind_p (ensure_p (list_all (\<lambda>b. b = 0) data) AccountAlreadyInitialized) (\<lambda>_.
       POk [Write (ai_key buffer) (RawAccount (stamp_header (ai_key authority) data))]))))))"

definition idl_write ::
    "environment \<Rightarrow> pubkey \<Rightarrow> account_info list \<Rightarrow> u8 list \<Rightarrow> effect list program_result" where
  "idl_write E program_id accounts idl_data =
     bind_p (take_account POk accounts) (\<lambda>(idl, accounts).
     bind_p (take_account POk accounts) (\<lambda>(authority, accounts).
     bind_p (check_owned_idl E program_id idl) (\<lambda>_.
     bind_p (check_authority E idl authority) (\<lambda>_.
       let data = data_bytes E idl;
           prev_len = read_data_len data;
           new_len = prev_len + length idl_data in
     bind_p (ensure_p (new_len < 2 ^ 64) ArithmeticOverflow) (\<lambda>_.
     bind_p (ensure_p (HEADER_LEN + new_len \<le> length data) AccountDataTooSmall) (\<lambda>_.
       POk [Write (ai_key idl) (RawAccount (write_data_len
              (splice_at (HEADER_LEN + prev_len) idl_data data) new_len))]))))))"

definition idl_set_buffer ::
    "environment \<Rightarrow> pubkey \<Rightarrow> account_info list \<Rightarrow> effect list program_result" where
  "idl_set_buffer E program_id accounts =
     bind_p (take_account POk accounts) (\<lambda>(buffer, accounts).
     bind_p (take_account POk accounts) (\<lambda>(idl, accounts).
     bind_p (take_account POk accounts) (\<lambda>(authority, accounts).
     bind_p (check_owned_idl E program_id buffer) (\<lambda>_.
     bind_p (check_canonical_idl E program_id idl) (\<lambda>_.
     bind_p (check_authority E idl authority) (\<lambda>_.
       let buffer_data = data_bytes E buffer;
           idl_data = data_bytes E idl;
           buffer_len = read_data_len buffer_data in
     bind_p (ensure_p (header_authority buffer_data = header_authority idl_data) InvalidArgument) (\<lambda>_.
     bind_p (ensure_p (ai_key buffer \<noteq> ai_key idl) AccountBorrowFailed) (\<lambda>_.
     bind_p (ensure_p (HEADER_LEN + buffer_len \<le> length idl_data) AccountDataTooSmall) (\<lambda>_.
       if length buffer_data < HEADER_LEN + buffer_len then PPanic
       else POk [Write (ai_key idl) (RawAccount (write_data_len
              (splice_at HEADER_LEN (take buffer_len (drop HEADER_LEN buffer_data)) idl_data)
              buffer_len))])))))))))"

definition idl_set_authority ::
    "environment \<Rightarrow> pubkey \<Rightarrow> account_info list \<Rightarrow> u8 list \<Rightarrow> effect list program_result" where
  "idl_set_authority E program_id accounts new_authority =
     bind_p (take_account POk accounts) (\<lambda>(idl, accounts).
     bind_p (take_account POk accounts) (\<lambda>(authority, accounts).
     bind_p (check_owned_idl E program_id idl) (\<lambda>_.
     bind_p (check_authority E idl authority) (\<lambda>_.
       POk [Write (ai_key idl)
              (RawAccount (splice_at AUTHORITY_OFFSET new_authority (data_bytes E idl)))]))))"

definition idl_resize_account ::
    "environment \<Rightarrow> pubkey \<Rightarrow> account_info list \<Rightarrow> u64 \<Rightarrow> effect list program_result" where
  "idl_resize_account E program_id accounts data_len =
     bind_p (take_account POk accounts) (\<lambda>(idl, accounts).
     bind_p (take_account POk accounts) (\<lambda>(authority, accounts).
     bind_p (take_account POk accounts) (\<lambda>(system_program, accounts).
     bind_p (check_canonical_idl E program_id idl) (\<lambda>_.
     bind_p (check_authority E idl authority) (\<lambda>_.
     bind_p (ensure_p (read_data_len (data_bytes E idl) = 0) AccountAlreadyInitialized) (\<lambda>_.
       let current_space = length (data_bytes E idl);
           growth = min (unat data_len - current_space) MAX_SPACE_PER_OP;
           new_space = current_space + growth in
     bind_p (ensure_p (new_space < 2 ^ 64) ArithmeticOverflow) (\<lambda>_.
       if new_space > current_space
       then let new_rent = minimum_rent E new_space in
         POk ((if new_rent > ai_lamports idl
               then [SystemTransfer (ai_key authority) (ai_key idl) (new_rent - ai_lamports idl)]
               else []) @ [Realloc (ai_key idl) new_space])
       else POk [])))))))"

definition idl_close_account ::
    "environment \<Rightarrow> pubkey \<Rightarrow> account_info list \<Rightarrow> effect list program_result" where
  "idl_close_account E program_id accounts =
     bind_p (take_account POk accounts) (\<lambda>(account, accounts).
     bind_p (take_account POk accounts) (\<lambda>(authority, accounts).
     bind_p (take_account POk accounts) (\<lambda>(destination, accounts).
     bind_p (check_owned_idl E program_id account) (\<lambda>_.
     bind_p (check_authority E account authority) (\<lambda>_.
     bind_p (ensure_p (ai_key account \<noteq> ai_key destination) AccountBorrowFailed) (\<lambda>_.
     bind_p (ensure_p (unat (ai_lamports destination) + unat (ai_lamports account) < 2 ^ 64)
               ArithmeticOverflow) (\<lambda>_.
       POk [SetLamports (ai_key destination) (ai_lamports destination + ai_lamports account),
            SetLamports (ai_key account) 0,
            Write (ai_key account) (RawAccount (replicate (length (data_bytes E account)) 0)),
            Assign (ai_key account) (system_program_id E),
            Realloc (ai_key account) 0])))))))"

text \<open>\<open>try_from_slice\<close> of the derived borsh decoder is a parameter.\<close>

definition process_idl_instruction ::
    "environment \<Rightarrow> (u8 list \<Rightarrow> idl_instruction option) \<Rightarrow> pubkey \<Rightarrow> account_info list \<Rightarrow> u8 list
     \<Rightarrow> effect list program_result" where
  "process_idl_instruction E try_from_slice program_id accounts data =
     (case try_from_slice data of
        None \<Rightarrow> err_p InvalidInstructionData
      | Some (IdlCreate data_len) \<Rightarrow> idl_create_account E program_id accounts data_len
      | Some IdlCreateBuffer \<Rightarrow> idl_create_buffer E program_id accounts
      | Some (IdlWrite idl_data) \<Rightarrow> idl_write E program_id accounts idl_data
      | Some IdlSetBuffer \<Rightarrow> idl_set_buffer E program_id accounts
      | Some (IdlSetAuthority new_authority) \<Rightarrow> idl_set_authority E program_id accounts new_authority
      | Some (IdlResize data_len) \<Rightarrow> idl_resize_account E program_id accounts data_len
      | Some IdlClose \<Rightarrow> idl_close_account E program_id accounts)"

end
