(* ===== verification/Program_Errors.thy ===== *)
theory Program_Errors
  imports Program_Accounts
begin

text \<open>
  The numeric error codes of \<open>src/programs/autara-program/src/error.rs\<close>: the conversion of an error
  of the program into the runtime's \<open>ProgramError\<close>, and its inverse \<open>from_error_code\<close>, with which
  clients read the code of a failed transaction.
\<close>

text \<open>The discriminants of the field-less enums and \<open>TryFromPrimitive\<close>.\<close>

definition discriminant :: "'e list \<Rightarrow> 'e \<Rightarrow> u8" where
  "discriminant variants e = of_nat (length (takeWhile (\<lambda>x. x \<noteq> e) variants))"

definition try_from_u8 :: "'e list \<Rightarrow> u8 \<Rightarrow> 'e option" where
  "try_from_u8 variants d = (if unat d < length variants then Some (variants ! unat d) else None)"

lemma discriminant_bound:
  assumes "e \<in> set variants" "length variants \<le> 256"
  shows "unat (discriminant variants e) < length variants"
    "variants ! unat (discriminant variants e) = e"
proof -
  let ?i = "length (takeWhile (\<lambda>x. x \<noteq> e) variants)"
  have i: "?i < length variants"
    using assms(1) by (induction variants) auto
  then have "unat (discriminant variants e) = ?i"
    using assms(2) by (simp add: discriminant_def unat_of_nat)
  then show "unat (discriminant variants e) < length variants"
    "variants ! unat (discriminant variants e) = e"
    using i nth_length_takeWhile [OF i] by simp_all
qed

lemma try_from_discriminant:
  "e \<in> set variants \<Longrightarrow> length variants \<le> 256 \<Longrightarrow> try_from_u8 variants (discriminant variants e) = Some e"
  by (simp add: try_from_u8_def discriminant_bound)

definition account_validation_errors :: "account_validation_error list" where
  "account_validation_errors =
     [NotSigner, InvalidData, InvalidOwner, InvalidKey, AlreadyLoaded, NotWritable,
      AccountNotInitialized]"

definition lending_account_validation_errors :: "lending_account_validation_error list" where
  "lending_account_validation_errors =
     [InvalidAuthority, InvalidMarketAuthority, InvalidMarket, InvalidMarketVault,
      InvalidMintForTokenAccount, InvalidProtocolAuthority, InvalidLiquidatorWhitelistEntry,
      MissingLiquidatorWhitelistEntry, LiquidatorNotInWhitelist]"

definition lending_errors :: "lending_error list" where
  "lending_errors =
     [MathOverflow, AdditionOverflow, SubtractionOverflow, MultiplicationOverflow, DivisionOverflow,
      DivisionByZero, CastOverflow, MaxLtvReached, MaxUtilisationRateReached,
      InvalidMarketForPosition, PositionIsHealthy, MaxSupplyReached, InvalidLtvConfig, InvalidCurve,
      InvalidExpArg, InvalidMaxUtilisationRate, InvalidLiquidationLtvShouldDecrease,
      InvalidPythOracleAccount, InvalidChaosOracleAccount, InvalidOracleFeedId, FailedToLoadAccount,
      WithdrawalExceedsReserves, WithdrawalExceedsDeposited, RepayExceedsBorrowed, OracleRateTooOld,
      OracleRateRelativeConfidenceTooLow, NegativeOracleRate, OracleRateIsNull,
      OracleConfidenceExceedsRate, LiquidationDidNotMeetRequirements, FeeTooHigh, SharesOverflow,
      InvalidNomination, CantModifySharePriceIfZeroShares, NegativeInterestRate,
      CannotSocializeDebtForHealthyPosition, UnsupportedMintDecimals, InvalidOracleConfig,
      CapitalSweepPending, NoCapitalSweepPending, CapitalSweepPositionInsolvent,
      CapitalSweepDidNotMeetRequirements, LiquidatorAlreadyWhitelisted, LiquidatorNotWhitelisted,
      InvalidOracleFeedAccount]"

definition ACCOUNT_VALIDATION_ERROR_OFFSET :: u32 where
  "ACCOUNT_VALIDATION_ERROR_OFFSET = 6000"

definition LENDING_ACCOUNT_VALIDATION_ERROR_OFFSET :: u32 where
  "LENDING_ACCOUNT_VALIDATION_ERROR_OFFSET = 6500"

definition LENDING_ERROR_OFFSET :: u32 where
  "LENDING_ERROR_OFFSET = 7000"

lemmas error_offsets = ACCOUNT_VALIDATION_ERROR_OFFSET_def LENDING_ACCOUNT_VALIDATION_ERROR_OFFSET_def
  LENDING_ERROR_OFFSET_def

fun into_program_error :: "lending_program_error_kind \<Rightarrow> program_error" where
  "into_program_error (ProgramError err) = err"
| "into_program_error (AccountValidationError err) =
     Custom (ACCOUNT_VALIDATION_ERROR_OFFSET + ucast (discriminant account_validation_errors err))"
| "into_program_error (LendingError err) =
     Custom (LENDING_ERROR_OFFSET + ucast (discriminant lending_errors err))"
| "into_program_error (LendingAccountValidationError err) =
     Custom (LENDING_ACCOUNT_VALIDATION_ERROR_OFFSET
             + ucast (discriminant lending_account_validation_errors err))"

text \<open>\<open>ProgramError::from(u64)\<close> belongs to the runtime's library: a parameter.\<close>

definition from_error_code :: "(u64 \<Rightarrow> program_error) \<Rightarrow> u32 \<Rightarrow> lending_program_error_kind" where
  "from_error_code program_error_from code =
     (case program_error_from (ucast code) of
        Custom custom \<Rightarrow>
          (case
             (if ACCOUNT_VALIDATION_ERROR_OFFSET \<le> custom
                 \<and> custom < LENDING_ACCOUNT_VALIDATION_ERROR_OFFSET
              then map_option AccountValidationError (try_from_u8 account_validation_errors
                     (ucast (custom - ACCOUNT_VALIDATION_ERROR_OFFSET)))
              else if LENDING_ACCOUNT_VALIDATION_ERROR_OFFSET \<le> custom \<and> custom < LENDING_ERROR_OFFSET
              then map_option LendingAccountValidationError (try_from_u8 lending_account_validation_errors
                     (ucast (custom - LENDING_ACCOUNT_VALIDATION_ERROR_OFFSET)))
              else if LENDING_ERROR_OFFSET \<le> custom
              then map_option LendingError (try_from_u8 lending_errors
                     (ucast (custom - LENDING_ERROR_OFFSET)))
              else Some (ProgramError (Custom custom))) of
             Some kind \<Rightarrow> kind
           | None \<Rightarrow> ProgramError (Custom custom))
      | err \<Rightarrow> ProgramError err)"

section \<open>Round trip\<close>

lemma error_variants_complete:
  "e \<in> set account_validation_errors" "l \<in> set lending_account_validation_errors"
  "x \<in> set lending_errors"
proof -
  show "e \<in> set account_validation_errors"
    by (cases e) (simp_all add: account_validation_errors_def)
  show "l \<in> set lending_account_validation_errors"
    by (cases l) (simp_all add: lending_account_validation_errors_def)
  show "x \<in> set lending_errors" by (cases x) (simp_all add: lending_errors_def)
qed

lemma error_variants_length [simp]:
  "length account_validation_errors = 7" "length lending_account_validation_errors = 9"
  "length lending_errors = 45"
  by (simp_all add: account_validation_errors_def lending_account_validation_errors_def
      lending_errors_def)

lemma unat_offset_code:
  fixes d :: u8 and off :: u32
  assumes "unat off \<le> 7000"
  shows "unat (off + ucast d) = unat off + unat d"
proof -
  have "unat (ucast d :: u32) = unat d"
    using unsigned_less [of d, where ?'a = nat] by (simp add: unsigned_ucast_eq take_bit_nat_eq_self)
  moreover have "unat d < 256" using unsigned_less [of d, where ?'a = nat] by simp
  ultimately show ?thesis using assms by (simp add: unat_word_ariths)
qed

lemma ucast_u32_u8 [simp]: "ucast (ucast (d :: u8) :: u32) = d"
  by (rule bit_word_eqI) (simp add: bit_simps)

lemma ucast_u64_u32 [simp]: "ucast (ucast (c :: u32) :: u64) = c"
  by (rule bit_word_eqI) (simp add: bit_simps)

lemma discriminant_small:
  "unat (discriminant account_validation_errors e) < 7"
  "unat (discriminant lending_account_validation_errors l) < 9"
  "unat (discriminant lending_errors x) < 45"
  using discriminant_bound(1) [OF error_variants_complete(1) [of e]]
    discriminant_bound(1) [OF error_variants_complete(2) [of l]]
    discriminant_bound(1) [OF error_variants_complete(3) [of x]] by simp_all

text \<open>
  Every error of the program, other than one passed through from the runtime, becomes a custom
  code that \<open>from_error_code\<close> maps back to the same error: the ranges of the three kinds do not
  overlap. The hypothesis is that the runtime reads a code of these ranges as a custom code.
\<close>

theorem error_code_roundtrip:
  assumes custom: "\<And>code. 6000 \<le> code \<Longrightarrow> P (ucast (code :: u32)) = Custom code"
    and kind: "\<forall>err. kind \<noteq> ProgramError err"
  shows "\<exists>code. into_program_error kind = Custom code \<and> from_error_code P code = kind"
proof (cases kind)
  case (AccountValidationError e)
  let ?d = "discriminant account_validation_errors e"
  have "unat (6000 + ucast ?d :: u32) = 6000 + unat ?d" by (simp add: unat_offset_code)
  then have "from_error_code P (6000 + ucast ?d) = kind"
    using AccountValidationError discriminant_small(1) [of e] custom [of "6000 + ucast ?d"]
      try_from_discriminant [OF error_variants_complete(1) [of e]]
    by (simp add: from_error_code_def error_offsets word_le_nat_alt word_less_nat_alt)
  then show ?thesis using AccountValidationError by (simp add: error_offsets)
next
  case (LendingAccountValidationError e)
  let ?d = "discriminant lending_account_validation_errors e"
  have "unat (6500 + ucast ?d :: u32) = 6500 + unat ?d" by (simp add: unat_offset_code)
  then have "from_error_code P (6500 + ucast ?d) = kind"
    using LendingAccountValidationError discriminant_small(2) [of e] custom [of "6500 + ucast ?d"]
      try_from_discriminant [OF error_variants_complete(2) [of e]]
    by (simp add: from_error_code_def error_offsets word_le_nat_alt word_less_nat_alt)
  then show ?thesis using LendingAccountValidationError by (simp add: error_offsets)
next
  case (LendingError e)
  let ?d = "discriminant lending_errors e"
  have "unat (7000 + ucast ?d :: u32) = 7000 + unat ?d" by (simp add: unat_offset_code)
  then have "from_error_code P (7000 + ucast ?d) = kind"
    using LendingError discriminant_small(3) [of e] custom [of "7000 + ucast ?d"]
      try_from_discriminant [OF error_variants_complete(3) [of e]]
    by (simp add: from_error_code_def error_offsets word_le_nat_alt word_less_nat_alt)
  then show ?thesis using LendingError by (simp add: error_offsets)
qed (use kind in simp)

theorem error_code_roundtrip_witness:
  "into_program_error (LendingError MaxLtvReached) = Custom 7007
   \<and> from_error_code (\<lambda>c. Custom (ucast c)) 7007 = LendingError MaxLtvReached"
proof -
  have "\<exists>code. into_program_error (LendingError MaxLtvReached) = Custom code
     \<and> from_error_code (\<lambda>c. Custom (ucast c)) code = LendingError MaxLtvReached"
    by (rule error_code_roundtrip) simp_all
  moreover have "into_program_error (LendingError MaxLtvReached) = Custom 7007"
    by (simp add: error_offsets discriminant_def lending_errors_def)
  ultimately show ?thesis by simp
qed

end
