(* ===== verification/Program_Dispatch.thy ===== *)
theory Program_Dispatch
  imports Program_Admin Program_Idl Program_Errors
begin

text \<open>
  The entry point of the on-chain program, \<open>src/programs/autara-program/src/lib.rs\<close>: instruction
  data that start with the selector of the IDL go to its handler, everything else is decoded as an
  \<open>AurataInstruction\<close>, whose accounts are loaded and validated before its handler runs. The clock
  is read from the runtime; a zero timestamp panics.
\<close>

definition clock :: "i64 \<Rightarrow> i64 program_result" where
  "clock unix_timestamp = (if unix_timestamp = 0 then PPanic else POk unix_timestamp)"

lemma clock_POk [simp]: "clock t = POk now \<longleftrightarrow> now = t \<and> t \<noteq> 0"
  by (auto simp: clock_def)

definition process_aurata_instruction ::
    "fixed_crate \<Rightarrow> environment \<Rightarrow> pubkey \<Rightarrow> account_info list \<Rightarrow> i64 \<Rightarrow> aurata_instruction
     \<Rightarrow> effect list program_result" where
  "process_aurata_instruction F E program_id accounts now ix =
     (case ix of
        CreateMarket data \<Rightarrow>
          bind_p (create_market_from_accounts E accounts) (\<lambda>a.
            process_create_market F E a data program_id now)
      | CreateSupplyPosition bump \<Rightarrow>
          bind_p (create_supply_position_from_accounts E accounts) (\<lambda>a.
            process_create_supply_position E a bump program_id)
      | SupplyApl atoms \<Rightarrow>
          bind_p (supply_apl_from_accounts E accounts) (\<lambda>a. process_supply_apl F E a atoms program_id now)
      | WithdrawSupply data \<Rightarrow>
          bind_p (withdraw_supply_from_accounts E accounts) (\<lambda>a.
            process_withdraw_supply F E a data program_id now)
      | CreateBorrowPosition bump \<Rightarrow>
          bind_p (create_borrow_position_from_accounts E accounts) (\<lambda>a.
            process_create_borrow_position E a bump program_id)
      | BorrowApl atoms \<Rightarrow>
          bind_p (borrow_apl_from_accounts E accounts) (\<lambda>a. process_borrow_apl F E a atoms program_id now)
      | DepositAplCollateral atoms \<Rightarrow>
          bind_p (deposit_apl_collateral_from_accounts E accounts) (\<lambda>a.
            process_deposit_apl_collateral F E a atoms program_id now)
      | RepayApl data \<Rightarrow>
          bind_p (repay_apl_from_accounts E accounts) (\<lambda>a. process_repay_apl F E a data program_id now)
      | UpdateConfig data \<Rightarrow>
          bind_p (update_config_from_accounts E accounts) (\<lambda>a. process_update_config F E a data now)
      | WithdrawAplCollateral data \<Rightarrow>
          bind_p (withdraw_apl_collateral_from_accounts E accounts) (\<lambda>a.
            process_withdraw_apl_collateral F E a data program_id now)
      | Liquidate data \<Rightarrow>
          bind_p (liquidate_from_accounts E accounts) (\<lambda>a. process_liquidate F E a data program_id now)
      | CreateGlobalConfig data \<Rightarrow>
          bind_p (create_global_config_from_accounts E accounts) (\<lambda>a.
            process_create_global_config E a data program_id)
      | ReedeemCuratorFees \<Rightarrow>
          bind_p (redeem_curator_fees_from_accounts E accounts) (\<lambda>a.
            process_redeem_curator_fees F a program_id now)
      | ReedeemProtocolFees \<Rightarrow>
          bind_p (redeem_protocol_fees_from_accounts E accounts) (\<lambda>a.
            process_redeem_protocol_fees F a program_id now)
      | UpdateGlobalConfig data \<Rightarrow>
          bind_p (update_global_config_from_accounts E accounts) (\<lambda>a.
            process_update_global_config a data)
      | BorrowDepositApl data \<Rightarrow>
          bind_p (borrow_deposit_apl_from_accounts E accounts) (\<lambda>a.
            process_borrow_deposit_apl F E a data program_id now)
      | WithdrawRepayApl data \<Rightarrow>
          bind_p (withdraw_repay_apl_from_accounts E accounts) (\<lambda>a.
            process_withdraw_repay_apl F E a data program_id now)
      | SocializeLoss \<Rightarrow>
          bind_p (socialize_loss_from_accounts E accounts) (\<lambda>a.
            process_socialize_loss F E a program_id now)
      | DonateSupply atoms \<Rightarrow>
          bind_p (donate_supply_from_accounts E accounts) (\<lambda>a.
            process_donate_supply F a atoms program_id now)
      | BeginCapitalSweep \<Rightarrow>
          bind_p (begin_capital_sweep_from_accounts E accounts) (\<lambda>a.
            process_begin_capital_sweep F E a program_id now)
      | SettleCapitalSweep data \<Rightarrow>
          bind_p (settle_capital_sweep_from_accounts E accounts) (\<lambda>a.
            process_settle_capital_sweep F E a data program_id now)
      | AddWhitelistedLiquidator data \<Rightarrow>
          bind_p (add_whitelisted_liquidator_from_accounts E accounts (aw_liquidator data) (aw_bump data))
            (\<lambda>a. process_add_whitelisted_liquidator E a data program_id)
      | RemoveWhitelistedLiquidator l \<Rightarrow>
          bind_p (remove_whitelisted_liquidator_from_accounts E accounts l) (\<lambda>a.
            process_remove_whitelisted_liquidator a l program_id)
      | Log \<Rightarrow> bind_p (log_from_accounts E accounts) (\<lambda>_. POk []))"

definition autara_process_instruction ::
    "fixed_crate \<Rightarrow> environment \<Rightarrow> instruction_codecs \<Rightarrow> (u8 list \<Rightarrow> idl_instruction option) \<Rightarrow> i64
     \<Rightarrow> pubkey \<Rightarrow> account_info list \<Rightarrow> u8 list \<Rightarrow> effect list program_result" where
  "autara_process_instruction F E B idl_try_from_slice unix_timestamp program_id accounts data =
     (if is_idl_instruction data
      then process_idl_instruction E idl_try_from_slice program_id accounts
             (drop (length IDL_IX_TAG_LE) data)
      else
        bind_p (clock unix_timestamp) (\<lambda>now.
          case instruction_deserialize_reader B data of
            None \<Rightarrow> PErr (ProgramError InvalidInstructionData)
          | Some (ix, _) \<Rightarrow> process_aurata_instruction F E program_id accounts now ix))"

text \<open>\<open>process_instruction\<close>: the effects or the error code; a panic also aborts.\<close>

definition process_instruction ::
    "fixed_crate \<Rightarrow> environment \<Rightarrow> instruction_codecs \<Rightarrow> (u8 list \<Rightarrow> idl_instruction option) \<Rightarrow> i64
     \<Rightarrow> pubkey \<Rightarrow> account_info list \<Rightarrow> u8 list \<Rightarrow> (program_error option + effect list)" where
  "process_instruction F E B idl_try_from_slice unix_timestamp program_id accounts data =
     (case autara_process_instruction F E B idl_try_from_slice unix_timestamp program_id accounts data of
        POk effects \<Rightarrow> Inr effects
      | PErr e \<Rightarrow> Inl (Some (into_program_error e))
      | PPanic \<Rightarrow> Inl None)"

end
