(* ===== verification/Program_Examples.thy ===== *)
theory Program_Examples
  imports Program_Dispatch Oracle_Laws Config_Laws
begin

text \<open>
  Concrete accounts of the on-chain program on which its properties are instantiated: the market of
  \<open>Examples\<close> at address 12, the position of a borrower at 30, the token accounts of the vaults and of
  the borrower, and an oracle account for both prices. The environment reads raw bytes as zeroed accounts.
\<close>

definition example_global_config :: global_config where
  "example_global_config = gc_new 40 41 5000"

definition example_env :: environment where
  "example_env = \<lparr>env_runtime = example_runtime, apl_token_id = 1, apl_associated_token_id = 2,
     system_program_id = 3, associated_token_address = (\<lambda>wallet mint. wallet + mint),
     account_bytes = (\<lambda>_. []),
     pod_market = (\<lambda>_. (example_market 0 0 0)\<lparr>config := example_zero_config\<rparr>),
     pod_borrow_position = (\<lambda>_. (example_borrower 0 0)\<lparr>bp_authority := 0\<rparr>),
     pod_supply_position = (\<lambda>_. (example_lender 0)\<lparr>sp_authority := 0\<rparr>),
     pod_global_config = (\<lambda>_. gc_new 0 0 0),
     pod_whitelist = (\<lambda>_. \<lparr>lw_market = 0, liquidator = 0, lw_bump = 0, active = 0\<rparr>),
     create_account_result = (\<lambda>a size owner.
       a\<lparr>ai_owner := owner, ai_is_writable := True, ai_data := RawAccount (replicate size 0)\<rparr>),
     minimum_rent = (\<lambda>size. of_nat size), create_with_seed = (\<lambda>_ _ _. Some 6)\<rparr>"

definition example_account :: "pubkey \<Rightarrow> pubkey \<Rightarrow> bool \<Rightarrow> account_data \<Rightarrow> account_info" where
  "example_account key owner is_signer d = \<lparr>ai_key = key, ai_owner = owner, ai_is_signer = is_signer,
     ai_is_writable = True, ai_data = d, ai_lamports = 0\<rparr>"

definition example_token :: "pubkey \<Rightarrow> pubkey \<Rightarrow> pubkey \<Rightarrow> account_info" where
  "example_token key mint owner = example_account key 1 False
     (TokenAccount \<lparr>ta_mint = mint, ta_owner = owner, ta_amount = 1000, ta_delegate = None\<rparr>)"

definition example_oracle_account :: account_info where
  "example_oracle_account = example_account 5 7 False (RawAccount [])"

definition example_callback :: arch_instruction where
  "example_callback = \<lparr>ai_program_id = 77, ai_accounts = [], ai_instruction_data = [1]\<rparr>"

text \<open>The accounts of \<open>BorrowDepositApl\<close> by the borrower at address 11.\<close>

definition example_borrow_deposit_accounts :: "account_info list" where
  "example_borrow_deposit_accounts =
     [example_account 12 crate_id False (MarketAccount (example_market 1000 0 0)),
      example_account 30 crate_id False (BorrowPositionAccount (example_borrower 0 0)),
      example_account 11 3 True (RawAccount []),
      example_token 50 100 11, example_token 101 100 12, example_token 51 200 11, example_token 201 200 12,
      example_account 1 0 False (RawAccount []), example_oracle_account, example_oracle_account]"

lemmas program_example_defs = example_global_config_def example_env_def
  example_account_def example_token_def example_oracle_account_def example_callback_def
  example_borrow_deposit_accounts_def

lemmas loader_eval = take_account_def signer_try_from_def program_try_from_def zero_copy_try_from_def
  zero_copy_mut_try_from_def packed_try_from_def market_is_initialized_def
  borrow_position_is_initialized_def supply_position_is_initialized_def
  global_config_is_initialized_def whitelist_is_initialized_def

lemmas wrapper_eval = oracle_eval open_market_def wrapper_mut_def account_view_try_from_def
  mw_try_new_def mw_sync_clock_def market_sync_clock_def lending_market_fee_fixed_def sv_sync_clock_def
  get_summary_def irps_adjust_for_utilisation_rate_def get_single_market_transaction_event_def
  get_double_market_transaction_event_def mw_deposit_collateral_def mw_borrow_def

definition example_borrow_deposit :: aurata_instruction where
  "example_borrow_deposit = BorrowDepositApl \<lparr>bd_deposit_amount = 400, bd_borrow_amount = 200,
     bd_ix_callback = Some example_callback\<rparr>"

lemma example_borrow_deposit_runs:
  "\<exists>m p ev. process_aurata_instruction fixed_reference example_env crate_id
     example_borrow_deposit_accounts 1000 example_borrow_deposit
   = POk [Write 12 (MarketAccount m), Write 30 (BorrowPositionAccount p),
          LogEvent crate_id 12 (EvBorrowAndDeposit ev) [market_seed m],
          TokenTransfer 101 50 12 200 [market_seed m], Invoke example_callback,
          TokenTransfer 51 201 11 400 []]"
  by (simp add: process_aurata_instruction_def example_borrow_deposit_def
      borrow_deposit_apl_from_accounts_def borrow_deposit_apl_validate_def loader_eval
      process_borrow_deposit_apl_def wrapper_eval log_effect_def callback_effects_def
      program_example_defs)

section \<open>Creating a market\<close>

definition example_create_config_accounts :: "account_info list" where
  "example_create_config_accounts =
     [example_account 40 3 True (RawAccount []), example_account 5 3 False (RawAccount []),
      example_account 3 0 False (RawAccount [])]"

definition example_create_config :: aurata_instruction where
  "example_create_config = CreateGlobalConfig \<lparr>cg_bump = 255, cg_admin = 40, cg_fee_receiver = 41,
     cg_protocol_fee_share_in_bps = 5000\<rparr>"

lemma example_create_config_runs:
  "process_aurata_instruction fixed_reference example_env crate_id example_create_config_accounts 1000
     example_create_config
   = POk [CreateAccount 40 5 256 crate_id [global_config_seed_with_bump 255],
          Write 5 (GlobalConfigAccount example_global_config)]"
  by (simp add: process_aurata_instruction_def example_create_config_def
      create_global_config_from_accounts_def process_create_global_config_def loader_eval uninitialized_def
      program_example_defs example_create_config_accounts_def gc_initialize_def gc_new_def)

text \<open>The curator at address 9 creates a market at an address of its choice.\<close>

definition example_mint :: "pubkey \<Rightarrow> account_info" where
  "example_mint key = example_account key 1 False (MintAccount \<lparr>mint_decimals = 6\<rparr>)"

definition example_create_market_accounts :: "pubkey \<Rightarrow> account_info list" where
  "example_create_market_accounts key =
     [example_account 9 3 True (RawAccount []), example_account 9 3 True (RawAccount []),
      example_account 5 crate_id False (GlobalConfigAccount example_global_config),
      example_account key 3 True (RawAccount []),
      example_mint 100, example_account (key + 100) 3 False (RawAccount []),
      example_mint 200, example_account (key + 200) 3 False (RawAccount []),
      example_account 1 0 False (RawAccount []), example_account 2 0 False (RawAccount []),
      example_account 3 0 False (RawAccount [])]"

definition example_create_market :: aurata_instruction where
  "example_create_market = CreateMarket \<lparr>ix_market_bump = 255, ix_index = 0,
     ix_ltv_config = example_ltv_config, ix_max_utilisation_rate = IFixedPoint 253327479039590,
     ix_supply_oracle_config = example_oracle_config, ix_collateral_oracle_config = example_oracle_config,
     ix_interest_rate = Fixed (InterestRatePerSecond (IFixedPoint 281474)),
     ix_lending_market_fee_in_bps = 1000\<rparr>"

lemma example_create_market_runs:
  "\<exists>m. process_aurata_instruction fixed_reference example_env crate_id (example_create_market_accounts key)
     1000 example_create_market
   = POk [CreateAccount 9 key 1448 crate_id [market_seed_with_bump 9 100 200 0 255],
          CreateAta 9 (key + 100) key 100, CreateAta 9 (key + 200) key 200, Write key (MarketAccount m)]
   \<and> curator (config m) = 9 \<and> sv_vault (m_supply_vault m) = key + 100
   \<and> cv_vault (m_collateral_vault m) = key + 200 \<and> market_seed m = market_seed_with_bump 9 100 200 0 255"
  by (simp add: process_aurata_instruction_def example_create_market_def
      create_market_from_accounts_def create_market_validate_def process_create_market_def loader_eval
      uninitialized_def program_example_defs example_create_market_accounts_def example_mint_def
      find_global_config_pda_def oracle_eval config_eval initlize_supply_vault_def sv_initialize_def
      initialize_collateral_vault_def cv_initialize_def oc_validate_def curve_is_valid_def
      st_initialize_def market_seed_def)

end
