(* ===== verification/Program_Order.thy ===== *)
theory Program_Order
  imports Program_Examples
begin

text \<open>
  The order of the effects of an instruction: every account of the program is in its final state
  before another program is called. A callback, or the token program, can thus re-enter the program
  only in a state that the instruction does not change any more.
\<close>

fun is_write :: "effect \<Rightarrow> bool" where
  "is_write (Write _ _) = True"
| "is_write _ = False"

text \<open>Creations by the system program and the token program come before the write that follows.\<close>

fun is_setup :: "effect \<Rightarrow> bool" where
  "is_setup (Write _ _) = True"
| "is_setup (CreateAccount _ _ _ _ _) = True"
| "is_setup (CreateAta _ _ _ _) = True"
| "is_setup _ = False"

definition state_first :: "effect list \<Rightarrow> bool" where
  "state_first effects \<longleftrightarrow> list_all (\<lambda>e. \<not> is_write e) (dropWhile is_setup effects)"

lemma state_firstI [intro]: "list_all is_setup ws \<Longrightarrow> list_all (\<lambda>e. \<not> is_write e) cs \<Longrightarrow> state_first (ws @ cs)"
  unfolding state_first_def list_all_iff
  by (metis Un_iff dropWhile_append2 set_append set_dropWhileD)

lemma callback_no_write [simp]: "list_all (\<lambda>e. \<not> is_write e) (callback_effects c)"
  by (simp add: callback_effects_def split: option.splits)

lemmas order_simps = state_first_def log_effect_def Let_def

lemma order_lender:
  "process_supply_apl F E a1 atoms pid now = POk effects \<Longrightarrow> state_first effects"
  "process_withdraw_supply F E a2 d2 pid now = POk effects \<Longrightarrow> state_first effects"
  "process_donate_supply F a3 atoms pid now = POk effects \<Longrightarrow> state_first effects"
  by (auto simp: process_supply_apl_def process_withdraw_supply_def process_donate_supply_def order_simps)

lemma order_borrower:
  "process_borrow_apl F E a1 atoms pid now = POk effects \<Longrightarrow> state_first effects"
  "process_deposit_apl_collateral F E a2 atoms pid now = POk effects \<Longrightarrow> state_first effects"
  "process_withdraw_apl_collateral F E a3 d3 pid now = POk effects \<Longrightarrow> state_first effects"
  "process_repay_apl F E a4 d4 pid now = POk effects \<Longrightarrow> state_first effects"
  "process_borrow_deposit_apl F E a5 d5 pid now = POk effects \<Longrightarrow> state_first effects"
  "process_withdraw_repay_apl F E a6 d6 pid now = POk effects \<Longrightarrow> state_first effects"
  by (auto simp: process_borrow_apl_def process_deposit_apl_collateral_def
      process_withdraw_apl_collateral_def process_repay_apl_def process_borrow_deposit_apl_def
      process_withdraw_repay_apl_def order_simps)

lemma order_liquidation:
  "process_liquidate F E a1 d1 pid now = POk effects \<Longrightarrow> state_first effects"
  "process_begin_capital_sweep F E a2 pid now = POk effects \<Longrightarrow> state_first effects"
  "process_settle_capital_sweep F E a3 d3 pid now = POk effects \<Longrightarrow> state_first effects"
  "process_socialize_loss F E a4 pid now = POk effects \<Longrightarrow> state_first effects"
  by (auto simp: process_liquidate_def process_begin_capital_sweep_def
      process_settle_capital_sweep_def process_socialize_loss_def order_simps split: if_splits)

lemma order_admin:
  "process_redeem_curator_fees F a1 pid now = POk effects \<Longrightarrow> state_first effects"
  "process_redeem_protocol_fees F a2 pid now = POk effects \<Longrightarrow> state_first effects"
  "process_update_config F E a3 d3 now = POk effects \<Longrightarrow> state_first effects"
  "process_update_global_config a4 d4 = POk effects \<Longrightarrow> state_first effects"
  "process_create_market F E a5 d5 pid now = POk effects \<Longrightarrow> state_first effects"
  "process_create_supply_position E a6 d6 pid = POk effects \<Longrightarrow> state_first effects"
  "process_create_borrow_position E a7 d7 pid = POk effects \<Longrightarrow> state_first effects"
  "process_create_global_config E a8 d8 pid = POk effects \<Longrightarrow> state_first effects"
  "process_add_whitelisted_liquidator E a9 d9 pid = POk effects \<Longrightarrow> state_first effects"
  "process_remove_whitelisted_liquidator a10 d10 pid = POk effects \<Longrightarrow> state_first effects"
  by (auto simp: process_redeem_curator_fees_def process_redeem_protocol_fees_def
      process_update_config_def process_update_global_config_def process_create_market_def
      process_create_supply_position_def process_create_borrow_position_def
      process_create_global_config_def process_add_whitelisted_liquidator_def
      process_remove_whitelisted_liquidator_def order_simps split: if_splits)

lemmas order_handlers = order_lender order_borrower order_liquidation order_admin

text \<open>
  C15: Every instruction leaves the program's own accounts in their final state before it logs,
  transfers tokens or runs a callback: no account is written after the first of these calls, so a
  callback that re-enters the program finds the finished state.
\<close>

theorem state_written_before_calls:
  assumes "process_aurata_instruction F E pid accounts now ix = POk effects"
  shows "state_first effects"
  using assms
  by (cases ix)
    (auto simp: process_aurata_instruction_def state_first_def [of "[]"] dest: order_handlers)

theorem state_written_before_calls_witness:
  "\<exists>effects. process_aurata_instruction fixed_reference example_env crate_id
      example_borrow_deposit_accounts 1000 example_borrow_deposit = POk effects
    \<and> length effects = 6 \<and> Invoke example_callback \<in> set effects \<and> state_first effects"
proof -
  obtain m p ev where r: "process_aurata_instruction fixed_reference example_env crate_id
      example_borrow_deposit_accounts 1000 example_borrow_deposit
    = POk [Write 12 (MarketAccount m), Write 30 (BorrowPositionAccount p),
          LogEvent crate_id 12 (EvBorrowAndDeposit ev) [market_seed m],
          TokenTransfer 101 50 12 200 [market_seed m], Invoke example_callback,
          TokenTransfer 51 201 11 400 []]" using example_borrow_deposit_runs by blast
  from state_written_before_calls [OF r] r show ?thesis by simp
qed

end
