(* ===== verification/Program_Steps.thy ===== *)
theory Program_Steps
  imports Market_System Program_Order
begin

text \<open>
  What the handlers do to the market and the position they write: they accrue interest and then run
  operations of the market, the same operations that make up the steps of \<open>Market_System\<close>. Operations
  never change whom a position belongs to, nor the vaults, mints and configuration of the market.
\<close>

section \<open>What operations keep\<close>

definition same_identity :: "market \<Rightarrow> market \<Rightarrow> bool" where
  "same_identity m m' \<longleftrightarrow> config m' = config m
     \<and> sv_mint (m_supply_vault m') = sv_mint (m_supply_vault m)
     \<and> sv_vault (m_supply_vault m') = sv_vault (m_supply_vault m)
     \<and> cv_mint (m_collateral_vault m') = cv_mint (m_collateral_vault m)
     \<and> cv_vault (m_collateral_vault m') = cv_vault (m_collateral_vault m)"

lemma same_identity_refl [simp]: "same_identity m m"
  by (simp add: same_identity_def)

lemma same_identity_trans [trans]: "same_identity m m' \<Longrightarrow> same_identity m' m'' \<Longrightarrow> same_identity m m''"
  by (simp add: same_identity_def)

lemma same_identity_seed: "same_identity m m' \<Longrightarrow> market_seed m' = market_seed m"
  by (simp add: same_identity_def market_seed_def)

lemma sync_clock_identity: "market_sync_clock F m now = Ok m' \<Longrightarrow> same_identity m m'"
  by (auto simp: market_sync_clock_def sv_sync_clock_def same_identity_def bind_r_eq_Ok Let_def
      split: if_splits)

lemma redeem_identity:
  "redeem_protocol_fees F m = Ok (m', n) \<Longrightarrow> same_identity m m'"
  "redeem_curator_fess F m = Ok (m', n) \<Longrightarrow> same_identity m m'"
  "donate_supply_atoms F m atoms = Ok m' \<Longrightarrow> same_identity m m'"
  by (auto simp: redeem_protocol_fees_def redeem_curator_fess_def donate_supply_atoms_def
      sv_redeem_protocol_fees_def sv_redeem_curator_fees_def sv_donate_supply_def
      sv_withdraw_shares_def same_identity_def bind_r_eq_Ok)

lemma supply_operation_identity:
  assumes "supply_operation F m p m' p'"
  shows "same_identity m m' \<and> sp_authority p' = sp_authority p \<and> sp_market p' = sp_market p"
  using assms
  by cases
    (auto simp: market_lend_def market_withdraw_def market_withdraw_all_def sv_lend_def
      sv_withdraw_atoms_def sv_withdraw_shares_def sp_lend_def sp_withdraw_def sp_withdraw_all_def
      same_identity_def bind_r_eq_Ok split: if_splits)

definition same_owner :: "borrow_position \<Rightarrow> borrow_position \<Rightarrow> bool" where
  "same_owner p p' \<longleftrightarrow> bp_authority p' = bp_authority p \<and> bp_market p' = bp_market p"

lemma bp_same_owner:
  "bp_deposit_collateral p a = Ok p' \<Longrightarrow> same_owner p p'"
  "bp_withdraw_collateral p a = Ok p' \<Longrightarrow> same_owner p p'"
  "bp_borrow F p a s = Ok p' \<Longrightarrow> same_owner p p'"
  "bp_repay F p s = Ok p' \<Longrightarrow> same_owner p p'"
  "bp_liquidate F p s a = Ok p' \<Longrightarrow> same_owner p p'"
  "bp_settle_capital_sweep F p s a = Ok p' \<Longrightarrow> same_owner p p'"
  "bp_begin_capital_sweep p = Ok (p', a) \<Longrightarrow> same_owner p p'"
  "same_owner p (bp_repay_all p)"
  by (auto simp: bp_deposit_collateral_def bp_withdraw_collateral_def bp_borrow_def bp_repay_def
      bp_liquidate_def bp_settle_capital_sweep_def bp_begin_capital_sweep_def bp_repay_all_def
      same_owner_def bind_r_eq_Ok map_err_eq_Ok split: if_splits)

lemma same_owner_trans [trans]: "same_owner p q \<Longrightarrow> same_owner q r \<Longrightarrow> same_owner p r"
  by (simp add: same_owner_def)

lemma cv_same:
  "cv_deposit_collateral v a = Ok v' \<Longrightarrow> cv_mint v' = cv_mint v \<and> cv_vault v' = cv_vault v"
  "cv_withdraw_collateral v a = Ok v' \<Longrightarrow> cv_mint v' = cv_mint v \<and> cv_vault v' = cv_vault v"
  by (auto simp: cv_deposit_collateral_def cv_withdraw_collateral_def bind_r_eq_Ok)

lemma sv_same:
  "sv_borrow F v a = Ok (v', s) \<Longrightarrow> sv_mint v' = sv_mint v \<and> sv_vault v' = sv_vault v"
  "sv_repay_atoms F v a = Ok (v', s) \<Longrightarrow> sv_mint v' = sv_mint v \<and> sv_vault v' = sv_vault v"
  "sv_repay_shares F v s = Ok (v', a) \<Longrightarrow> sv_mint v' = sv_mint v \<and> sv_vault v' = sv_vault v"
  "repay_atoms_capped F v a s = Ok (v', a', s') \<Longrightarrow> sv_mint v' = sv_mint v \<and> sv_vault v' = sv_vault v"
  "sv_socialize_loss F v s = Ok (v', a) \<Longrightarrow> sv_mint v' = sv_mint v \<and> sv_vault v' = sv_vault v"
  by (auto simp: sv_borrow_def sv_repay_atoms_def sv_repay_shares_def repay_atoms_capped_def
      sv_socialize_loss_def bind_r_eq_Ok)

lemma borrow_operation_identity:
  assumes "borrow_operation F m p m' p'"
  shows "same_identity m m' \<and> same_owner p p'"
  using assms
proof cases
  case (op_socialize co so debt c)
  then show ?thesis
    by (auto simp: market_socialize_loss_def same_identity_def bind_r_eq_Ok Let_def split: if_splits
        dest!: cv_same sv_same bp_same_owner(2)) (auto simp: same_owner_def bp_repay_all_def)
next
  case (op_settle_sweep co so mx mc s)
  then show ?thesis
    by (auto simp: market_settle_capital_sweep_def same_identity_def bind_r_eq_Ok Let_def
        split: if_splits dest: cv_same sv_same bp_same_owner(1-7))
qed (auto simp: market_deposit_collateral_def market_withdraw_collateral_def market_borrow_def
    market_repay_def market_repay_all_def market_liquidate_def market_begin_capital_sweep_def
    same_identity_def bind_r_eq_Ok Let_def bp_same_owner(8) split: if_splits
    dest: cv_same sv_same bp_same_owner(1-7))

section \<open>What handlers do\<close>

text \<open>Calls of other programs: they leave the accounts of the program alone.\<close>

fun is_call :: "effect \<Rightarrow> bool" where
  "is_call (LogEvent _ _ _ _) = True"
| "is_call (TokenTransfer _ _ _ _ _) = True"
| "is_call (Invoke _) = True"
| "is_call _ = False"

lemma callbacks_are_calls [simp]: "list_all is_call (callback_effects c)"
  by (simp add: callback_effects_def split: option.splits)

lemma log_is_call [simp]: "is_call (log_effect pid a m e)"
  by (simp add: log_effect_def)

inductive borrow_run :: "fixed_crate \<Rightarrow> market \<Rightarrow> borrow_position \<Rightarrow> market \<Rightarrow> borrow_position \<Rightarrow> bool" for F where
  run_none: "borrow_run F m p m p"
| run_op: "borrow_run F m p m' p' \<Longrightarrow> borrow_operation F m' p' m'' p'' \<Longrightarrow> borrow_run F m p m'' p''"

lemma borrow_run_one: "borrow_operation F m p m' p' \<Longrightarrow> borrow_run F m p m' p'"
  by (blast intro: borrow_run.intros)

lemma borrow_run_two:
  "borrow_operation F m p m' p' \<Longrightarrow> borrow_operation F m' p' m'' p'' \<Longrightarrow> borrow_run F m p m'' p''"
  by (blast intro: borrow_run.intros)

lemma borrow_run_identity: "borrow_run F m p m' p' \<Longrightarrow> same_identity m m' \<and> same_owner p p'"
proof (induction rule: borrow_run.induct)
  case (run_op m p m' p' m'' p'')
  then show ?case
    using borrow_operation_identity [of F m' p' m'' p''] same_identity_trans same_owner_trans by blast
qed (simp add: same_owner_def)

definition supply_summary ::
    "fixed_crate \<Rightarrow> market typed_account \<Rightarrow> supply_position typed_account \<Rightarrow> i64 \<Rightarrow> effect list \<Rightarrow> bool" where
  "supply_summary F account position now effects \<longleftrightarrow> (\<exists>m1 m' p' calls.
     market_sync_clock F (content account) now = Ok m1
     \<and> supply_operation F m1 (content position) m' p'
     \<and> effects = Write (acc_key account) (MarketAccount m')
                 # Write (acc_key position) (SupplyPositionAccount p') # calls
     \<and> list_all is_call calls)"

definition borrow_summary ::
    "fixed_crate \<Rightarrow> market typed_account \<Rightarrow> borrow_position typed_account \<Rightarrow> i64 \<Rightarrow> effect list \<Rightarrow> bool" where
  "borrow_summary F account position now effects \<longleftrightarrow> (\<exists>m1 m' p' calls.
     market_sync_clock F (content account) now = Ok m1
     \<and> borrow_run F m1 (content position) m' p'
     \<and> effects = Write (acc_key account) (MarketAccount m')
                 # Write (acc_key position) (BorrowPositionAccount p') # calls
     \<and> list_all is_call calls)"

definition market_summary ::
    "fixed_crate \<Rightarrow> market typed_account \<Rightarrow> effect list \<Rightarrow> bool" where
  "market_summary F account effects \<longleftrightarrow> (\<exists>m' calls.
     (market_operation F)\<^sup>*\<^sup>* (content account) m'
     \<and> effects = Write (acc_key account) (MarketAccount m') # calls
     \<and> list_all is_call calls)"

lemma open_market_POk:
  "open_market F E account ks so co now = POk w \<Longrightarrow>
     market_sync_clock F (content account) now = Ok (mw_market w)"
  by (auto simp: open_market_def wrapper_mut_def mw_try_new_def mw_sync_clock_def bind_r_eq_Ok)

lemma mw_supply_operations:
  "mw_lend F w p atoms = Ok (w', p') \<Longrightarrow> supply_operation F (mw_market w) p (mw_market w') p'"
  "mw_withdraw F w p atoms = Ok (w', p') \<Longrightarrow> supply_operation F (mw_market w) p (mw_market w') p'"
  "mw_withdraw_all F w p = Ok (w', p', n) \<Longrightarrow> supply_operation F (mw_market w) p (mw_market w') p'"
  by (auto simp: mw_lend_def mw_withdraw_def mw_withdraw_all_def bind_r_eq_Ok
      intro: supply_operation.intros)

lemma mw_borrow_operations:
  "mw_deposit_collateral w p atoms = Ok (w', p') \<Longrightarrow> borrow_operation F (mw_market w) p (mw_market w') p'"
  "mw_withdraw_collateral F w p atoms = Ok (w', p') \<Longrightarrow> borrow_operation F (mw_market w) p (mw_market w') p'"
  "mw_borrow F w p atoms = Ok (w', p') \<Longrightarrow> borrow_operation F (mw_market w) p (mw_market w') p'"
  "mw_repay F w p atoms = Ok (w', p') \<Longrightarrow> borrow_operation F (mw_market w) p (mw_market w') p'"
  "mw_repay_all F w p = Ok (w', p', n) \<Longrightarrow> borrow_operation F (mw_market w) p (mw_market w') p'"
  "mw_liquidate F w p mx = Ok (w', p', r) \<Longrightarrow> borrow_operation F (mw_market w) p (mw_market w') p'"
  "mw_begin_capital_sweep F w p = Ok (w', p', h) \<Longrightarrow> borrow_operation F (mw_market w) p (mw_market w') p'"
  "mw_settle_capital_sweep F w p mx mc = Ok (w', p', s) \<Longrightarrow>
     borrow_operation F (mw_market w) p (mw_market w') p'"
  "mw_socialize_loss F w p = Ok (w', p', d, c) \<Longrightarrow> borrow_operation F (mw_market w) p (mw_market w') p'"
  by (auto simp: mw_deposit_collateral_def mw_withdraw_collateral_def mw_borrow_def mw_repay_def
      mw_repay_all_def mw_liquidate_def mw_begin_capital_sweep_def mw_settle_capital_sweep_def
      mw_socialize_loss_def bind_r_eq_Ok intro: borrow_operation.intros)

lemma repay_or_all_operation:
  "repay_or_all F w p all atoms = POk (w', p', n) \<Longrightarrow> borrow_operation F (mw_market w) p (mw_market w') p'"
  by (auto simp: repay_or_all_def intro: mw_borrow_operations split: if_splits)

lemma supply_handlers:
  "process_supply_apl F E a1 atoms pid now = POk effects \<Longrightarrow>
     supply_summary F (sa_market a1) (sa_supply_position a1) now effects"
  "process_withdraw_supply F E a2 d2 pid now = POk effects \<Longrightarrow>
     supply_summary F (ws_market a2) (ws_supply_position a2) now effects"
  unfolding supply_summary_def process_supply_apl_def process_withdraw_supply_def
  by (fastforce dest!: open_market_POk intro: mw_supply_operations split: if_splits)+

lemma borrow_handlers:
  "process_borrow_apl F E a1 atoms pid now = POk effects \<Longrightarrow>
     borrow_summary F (ba_market a1) (ba_borrow_position a1) now effects"
  "process_deposit_apl_collateral F E a2 atoms pid now = POk effects \<Longrightarrow>
     borrow_summary F (dc_market a2) (dc_borrow_position a2) now effects"
  "process_withdraw_apl_collateral F E a3 d3 pid now = POk effects \<Longrightarrow>
     borrow_summary F (wc_market a3) (wc_borrow_position a3) now effects"
  "process_repay_apl F E a4 d4 pid now = POk effects \<Longrightarrow>
     borrow_summary F (ra_market a4) (ra_borrow_position a4) now effects"
  unfolding borrow_summary_def process_borrow_apl_def process_deposit_apl_collateral_def
    process_withdraw_apl_collateral_def process_repay_apl_def
  by (fastforce simp: Let_def dest!: open_market_POk
      intro: borrow_run_one mw_borrow_operations repay_or_all_operation)+

lemma leverage_handlers:
  "process_borrow_deposit_apl F E a1 d1 pid now = POk effects \<Longrightarrow>
     borrow_summary F (bd_market a1) (bd_borrow_position a1) now effects"
  "process_withdraw_repay_apl F E a2 d2 pid now = POk effects \<Longrightarrow>
     borrow_summary F (wr_market a2) (wr_borrow_position a2) now effects"
  unfolding borrow_summary_def process_borrow_deposit_apl_def process_withdraw_repay_apl_def
  by (fastforce simp: Let_def dest!: open_market_POk
      intro: borrow_run_two mw_borrow_operations repay_or_all_operation)+

lemma liquidation_handlers:
  "process_liquidate F E a1 d1 pid now = POk effects \<Longrightarrow>
     borrow_summary F (lq_market a1) (lq_borrow_position a1) now effects"
  "process_begin_capital_sweep F E a2 pid now = POk effects \<Longrightarrow>
     borrow_summary F (bs_market a2) (bs_borrow_position a2) now effects"
  "process_settle_capital_sweep F E a3 d3 pid now = POk effects \<Longrightarrow>
     borrow_summary F (stl_market a3) (stl_borrow_position a3) now effects"
  "process_socialize_loss F E a4 pid now = POk effects \<Longrightarrow>
     borrow_summary F (so_market a4) (so_borrow_position a4) now effects"
  unfolding borrow_summary_def process_liquidate_def process_begin_capital_sweep_def
    process_settle_capital_sweep_def process_socialize_loss_def
  by (fastforce simp: Let_def dest!: open_market_POk split: if_splits
      intro: borrow_run_one mw_borrow_operations)+

lemma two_market_operations:
  "market_operation F m m1 \<Longrightarrow> market_operation F m1 m' \<Longrightarrow> (market_operation F)\<^sup>*\<^sup>* m m'"
  by (blast intro: r_into_rtranclp rtranclp_trans)

lemma market_handlers:
  "process_donate_supply F a1 atoms pid now = POk effects \<Longrightarrow> market_summary F (dn_market a1) effects"
  "process_redeem_curator_fees F a2 pid now = POk effects \<Longrightarrow> market_summary F (rc_market a2) effects"
  "process_redeem_protocol_fees F a3 pid now = POk effects \<Longrightarrow> market_summary F (rp_market a3) effects"
  unfolding market_summary_def process_donate_supply_def process_redeem_curator_fees_def
    process_redeem_protocol_fees_def
  by (fastforce intro: two_market_operations market_operation.intros)+

end
