(* ===== verification/Program_Access.thy ===== *)
theory Program_Access
  imports Program_Steps
begin

text \<open>
  Who may change what. The account lists of the instructions establish which accounts were loaded
  from which data and whose signature is there; the handlers write the loaded accounts only.
\<close>

definition signed_by :: "account_info list \<Rightarrow> pubkey \<Rightarrow> bool" where
  "signed_by accounts key \<longleftrightarrow> list_ex (\<lambda>a. ai_key a = key \<and> ai_is_signer a) accounts"

definition loaded :: "(account_data \<Rightarrow> 'a option) \<Rightarrow> account_info list \<Rightarrow> 'a typed_account \<Rightarrow> bool" where
  "loaded from_bytes accounts x \<longleftrightarrow>
     info x \<in> set accounts \<and> ai_owner (info x) = crate_id \<and> from_bytes (ai_data (info x)) = Some (content x)"

lemma signed_byI: "a \<in> set accounts \<Longrightarrow> ai_is_signer a \<Longrightarrow> ai_key a = k \<Longrightarrow> signed_by accounts k"
  by (auto simp: signed_by_def list_ex_iff)

lemmas access_simps = signed_by_def loaded_def Let_def

section \<open>What the account lists establish\<close>

definition supply_guard ::
    "environment \<Rightarrow> account_info list \<Rightarrow> market typed_account \<Rightarrow> supply_position typed_account \<Rightarrow> bool" where
  "supply_guard E accounts m p \<longleftrightarrow>
     loaded (market_from_bytes E) accounts m \<and> loaded (supply_position_from_bytes E) accounts p
     \<and> sp_market (content p) = acc_key m \<and> signed_by accounts (sp_authority (content p))"

definition borrow_guard ::
    "environment \<Rightarrow> account_info list \<Rightarrow> market typed_account \<Rightarrow> borrow_position typed_account \<Rightarrow> bool" where
  "borrow_guard E accounts m p \<longleftrightarrow>
     loaded (market_from_bytes E) accounts m \<and> loaded (borrow_position_from_bytes E) accounts p
     \<and> bp_market (content p) = acc_key m"

definition curator_guard :: "environment \<Rightarrow> account_info list \<Rightarrow> market typed_account \<Rightarrow> bool" where
  "curator_guard E accounts m \<longleftrightarrow>
     loaded (market_from_bytes E) accounts m \<and> signed_by accounts (curator (config (content m)))"

lemmas guard_simps = supply_guard_def borrow_guard_def curator_guard_def access_simps

lemma supply_guards:
  "supply_apl_from_accounts E accounts = POk a0 \<Longrightarrow>
     supply_guard E accounts (sa_market a0) (sa_supply_position a0)"
  "withdraw_supply_from_accounts E accounts = POk a1 \<Longrightarrow>
     supply_guard E accounts (ws_market a1) (ws_supply_position a1)"
  by (auto simp: supply_apl_from_accounts_def supply_apl_validate_def withdraw_supply_from_accounts_def withdraw_supply_validate_def guard_simps)

lemma borrow_guards:
  "borrow_apl_from_accounts E accounts = POk a0 \<Longrightarrow>
     borrow_guard E accounts (ba_market a0) (ba_borrow_position a0)
     \<and> signed_by accounts (bp_authority (content (ba_borrow_position a0)))"
  "deposit_apl_collateral_from_accounts E accounts = POk a1 \<Longrightarrow>
     borrow_guard E accounts (dc_market a1) (dc_borrow_position a1)
     \<and> signed_by accounts (bp_authority (content (dc_borrow_position a1)))"
  "withdraw_apl_collateral_from_accounts E accounts = POk a2 \<Longrightarrow>
     borrow_guard E accounts (wc_market a2) (wc_borrow_position a2)
     \<and> signed_by accounts (bp_authority (content (wc_borrow_position a2)))"
  "repay_apl_from_accounts E accounts = POk a3 \<Longrightarrow>
     borrow_guard E accounts (ra_market a3) (ra_borrow_position a3)
     \<and> signed_by accounts (bp_authority (content (ra_borrow_position a3)))"
  "borrow_deposit_apl_from_accounts E accounts = POk a4 \<Longrightarrow>
     borrow_guard E accounts (bd_market a4) (bd_borrow_position a4)
     \<and> signed_by accounts (bp_authority (content (bd_borrow_position a4)))"
  "withdraw_repay_apl_from_accounts E accounts = POk a5 \<Longrightarrow>
     borrow_guard E accounts (wr_market a5) (wr_borrow_position a5)
     \<and> signed_by accounts (bp_authority (content (wr_borrow_position a5)))"
  by (auto simp: borrow_apl_from_accounts_def borrow_apl_validate_def
      deposit_apl_collateral_from_accounts_def deposit_apl_collateral_validate_def
      withdraw_apl_collateral_from_accounts_def withdraw_apl_collateral_validate_def
      repay_apl_from_accounts_def repay_apl_validate_def
      borrow_deposit_apl_from_accounts_def borrow_deposit_apl_validate_def
      withdraw_repay_apl_from_accounts_def withdraw_repay_apl_validate_def guard_simps)

lemma sweep_guards:
  "begin_capital_sweep_from_accounts E accounts = POk a0 \<Longrightarrow>
     borrow_guard E accounts (bs_market a0) (bs_borrow_position a0)
     \<and> curator_guard E accounts (bs_market a0)"
  "settle_capital_sweep_from_accounts E accounts = POk a1 \<Longrightarrow>
     borrow_guard E accounts (stl_market a1) (stl_borrow_position a1)
     \<and> curator_guard E accounts (stl_market a1)"
  "socialize_loss_from_accounts E accounts = POk a2 \<Longrightarrow>
     borrow_guard E accounts (so_market a2) (so_borrow_position a2)
     \<and> curator_guard E accounts (so_market a2)"
  by (auto simp: begin_capital_sweep_from_accounts_def begin_capital_sweep_validate_def
      settle_capital_sweep_from_accounts_def settle_capital_sweep_validate_def
      socialize_loss_from_accounts_def socialize_loss_validate_def guard_simps)

lemma liquidate_guard:
  "liquidate_from_accounts E accounts = POk a \<Longrightarrow>
     borrow_guard E accounts (lq_market a) (lq_borrow_position a)"
  by (auto simp: liquidate_from_accounts_def liquidate_validate_def guard_simps)

lemma market_guards:
  "donate_supply_from_accounts E accounts = POk a1 \<Longrightarrow> loaded (market_from_bytes E) accounts (dn_market a1)"
  "redeem_protocol_fees_from_accounts E accounts = POk a2 \<Longrightarrow>
     loaded (market_from_bytes E) accounts (rp_market a2)"
  by (auto simp: donate_supply_from_accounts_def redeem_protocol_fees_from_accounts_def guard_simps)

lemma curator_guards:
  "redeem_curator_fees_from_accounts E accounts = POk a1 \<Longrightarrow> curator_guard E accounts (rc_market a1)"
  "update_config_from_accounts E accounts = POk a2 \<Longrightarrow> curator_guard E accounts (uc_market a2)"
  "add_whitelisted_liquidator_from_accounts E accounts l b = POk a3 \<Longrightarrow> curator_guard E accounts (aw_market a3)"
  "remove_whitelisted_liquidator_from_accounts E accounts l = POk a4 \<Longrightarrow>
     curator_guard E accounts (rw_market a4)
     \<and> loaded (whitelist_from_bytes E) accounts (rw_whitelist_entry a4)
     \<and> lw_market (content (rw_whitelist_entry a4)) = acc_key (rw_market a4)"
  by (auto simp: redeem_curator_fees_from_accounts_def redeem_curator_fees_validate_def
      update_config_from_accounts_def update_config_validate_def
      add_whitelisted_liquidator_from_accounts_def add_whitelisted_liquidator_validate_def
      remove_whitelisted_liquidator_from_accounts_def remove_whitelisted_liquidator_validate_def
      guard_simps)

lemma whitelist_entry_guard:
  assumes "add_whitelisted_liquidator_from_accounts E accounts l b = POk a"
  shows "aw_whitelist_entry a \<in> set accounts"
    "ai_owner (aw_whitelist_entry a) = crate_id \<Longrightarrow>
       whitelist_from_bytes E (ai_data (aw_whitelist_entry a)) = Some e \<Longrightarrow> lw_market e = acc_key (aw_market a)"
  using assms
  by (auto simp: add_whitelisted_liquidator_from_accounts_def add_whitelisted_liquidator_validate_def
      Let_def)

lemma create_guards:
  "create_market_from_accounts E accounts = POk a1 \<Longrightarrow>
     signed_by accounts (ai_key (cm_curator a1)) \<and> cm_market a1 \<in> set accounts"
  "create_supply_position_from_accounts E accounts = POk a2 \<Longrightarrow>
     signed_by accounts (ai_key (csp_authority a2)) \<and> csp_supply_position a2 \<in> set accounts
     \<and> loaded (market_from_bytes E) accounts (csp_market a2)"
  "create_borrow_position_from_accounts E accounts = POk a3 \<Longrightarrow>
     signed_by accounts (ai_key (cbp_authority a3)) \<and> cbp_borrow_position a3 \<in> set accounts
     \<and> loaded (market_from_bytes E) accounts (cbp_market a3)"
  "create_global_config_from_accounts E accounts = POk a4 \<Longrightarrow> cg_global_config a4 \<in> set accounts"
  by (auto simp: create_market_from_accounts_def create_supply_position_from_accounts_def
      create_borrow_position_from_accounts_def create_global_config_from_accounts_def guard_simps)

lemma global_config_guard:
  "update_global_config_from_accounts E accounts = POk a \<Longrightarrow>
     loaded (global_config_from_bytes E) accounts (ug_global_config a) \<and> signed_by accounts (ai_key (ug_signer a))"
  by (auto simp: update_global_config_from_accounts_def guard_simps)

section \<open>Authorised writes\<close>

text \<open>The account at an address, as the program reads it.\<close>

definition read_at :: "(account_data \<Rightarrow> 'a option) \<Rightarrow> account_info list \<Rightarrow> pubkey \<Rightarrow> 'a \<Rightarrow> bool" where
  "read_at from_bytes accounts key x \<longleftrightarrow>
     list_ex (\<lambda>a. ai_key a = key \<and> ai_owner a = crate_id \<and> from_bytes (ai_data a) = Some x) accounts"

lemma loaded_read_at: "loaded f accounts x \<Longrightarrow> read_at f accounts (acc_key x) (content x)"
  by (auto simp: loaded_def read_at_def list_ex_iff)

text \<open>
  A liquidation needs the signature of a liquidator, who must hold an active entry at its canonical
  address once the market uses its whitelist.
\<close>

definition liquidator_allowed :: "environment \<Rightarrow> account_info list \<Rightarrow> pubkey \<Rightarrow> market \<Rightarrow> bool" where
  "liquidator_allowed E accounts key m \<longleftrightarrow> (\<exists>l. signed_by accounts l
     \<and> (liquidations_are_permissionless (config m)
        \<or> (\<exists>e. read_at (whitelist_from_bytes E) accounts
               (fst (find_liquidator_whitelist_entry_pda E crate_id key l)) e
             \<and> lw_market e = key \<and> liquidator e = l \<and> lw_is_active e)))"

definition curator_signed :: "environment \<Rightarrow> account_info list \<Rightarrow> pubkey \<Rightarrow> bool" where
  "curator_signed E accounts key \<longleftrightarrow>
     (\<exists>m. read_at (market_from_bytes E) accounts key m \<and> signed_by accounts (curator (config m)))"

text \<open>
  The rule book of the program: whose signature a write of an account needs. A market may change
  outside its configuration, mints and vaults without the curator; only its curator changes these.
\<close>

fun write_authorised ::
    "environment \<Rightarrow> account_info list \<Rightarrow> aurata_instruction \<Rightarrow> pubkey \<Rightarrow> account_data \<Rightarrow> bool" where
  "write_authorised E accounts ix key (SupplyPositionAccount p) \<longleftrightarrow>
     signed_by accounts (sp_authority p) \<and> (\<exists>m. read_at (market_from_bytes E) accounts (sp_market p) m)"
| "write_authorised E accounts ix key (BorrowPositionAccount p) \<longleftrightarrow>
     (\<exists>m. read_at (market_from_bytes E) accounts (bp_market p) m
        \<and> (signed_by accounts (bp_authority p) \<or> signed_by accounts (curator (config m))
           \<or> (\<exists>d. ix = Liquidate d) \<and> liquidator_allowed E accounts (bp_market p) m))"
| "write_authorised E accounts ix key (MarketAccount m') \<longleftrightarrow>
     (\<exists>d. ix = CreateMarket d \<and> signed_by accounts (curator (config m')))
     \<or> (\<exists>m. read_at (market_from_bytes E) accounts key m
          \<and> (same_identity m m' \<or> signed_by accounts (curator (config m))))"
| "write_authorised E accounts ix key (GlobalConfigAccount g') \<longleftrightarrow>
     (\<exists>d. ix = CreateGlobalConfig d)
     \<or> (\<exists>g. read_at (global_config_from_bytes E) accounts key g \<and> signed_by accounts (admin g')
          \<and> (admin g' = admin g \<or> can_upgrade_nomination g (admin g')))"
| "write_authorised E accounts ix key (LiquidatorWhitelistAccount e) \<longleftrightarrow>
     curator_signed E accounts (lw_market e)"
| "write_authorised E accounts ix key _ \<longleftrightarrow> False"

definition writes_authorised :: "environment \<Rightarrow> account_info list \<Rightarrow> aurata_instruction \<Rightarrow> effect list \<Rightarrow> bool" where
  "writes_authorised E accounts ix effects \<longleftrightarrow>
     (\<forall>key d. Write key d \<in> set effects \<longrightarrow> write_authorised E accounts ix key d)"

lemma calls_write_nothing: "list_all is_call calls \<Longrightarrow> Write key d \<notin> set calls"
  by (induction calls) auto

lemma supply_summary_authorised:
  assumes "supply_guard E accounts m p" "supply_summary F m p now effects"
  shows "writes_authorised E accounts ix effects"
proof -
  from assms(2) obtain m1 m' p' calls where s: "market_sync_clock F (content m) now = Ok m1"
      "supply_operation F m1 (content p) m' p'"
      "effects = Write (acc_key m) (MarketAccount m') # Write (acc_key p) (SupplyPositionAccount p') # calls"
      "list_all is_call calls" by (auto simp: supply_summary_def)
  have "same_identity (content m) m'" "sp_authority p' = sp_authority (content p)"
    using sync_clock_identity [OF s(1)] supply_operation_identity [OF s(2)] same_identity_trans by blast+
  then show ?thesis
    using assms(1) s(3) calls_write_nothing [OF s(4)]
      supply_operation_identity [OF s(2)]
    by (fastforce simp: writes_authorised_def supply_guard_def dest: loaded_read_at)
qed

lemma borrow_summary_writes:
  assumes "borrow_summary F m p now effects"
  obtains m' p' calls where "same_identity (content m) m'" "same_owner (content p) p'"
    "effects = Write (acc_key m) (MarketAccount m') # Write (acc_key p) (BorrowPositionAccount p') # calls"
    "list_all is_call calls"
  using assms sync_clock_identity borrow_run_identity same_identity_trans
  unfolding borrow_summary_def by metis

lemma borrow_summary_authorised:
  assumes "borrow_guard E accounts m p" "borrow_summary F m p now effects"
    and who: "signed_by accounts (bp_authority (content p)) \<or> curator_guard E accounts m
      \<or> (\<exists>d. ix = Liquidate d) \<and> liquidator_allowed E accounts (acc_key m) (content m)"
  shows "writes_authorised E accounts ix effects"
proof -
  obtain m' p' calls where s: "same_identity (content m) m'" "same_owner (content p) p'"
    "effects = Write (acc_key m) (MarketAccount m') # Write (acc_key p) (BorrowPositionAccount p') # calls"
    "list_all is_call calls" using borrow_summary_writes [OF assms(2)] .
  have at: "read_at (market_from_bytes E) accounts (acc_key m) (content m)"
    using assms(1) by (auto simp: borrow_guard_def intro: loaded_read_at)
  have "write_authorised E accounts ix (acc_key p) (BorrowPositionAccount p')"
    using who at assms(1) s(2)
    by (auto simp: same_owner_def curator_guard_def borrow_guard_def)
  then show ?thesis
    using s(1,3) at calls_write_nothing [OF s(4)] by (auto simp: writes_authorised_def)
qed

lemma liquidate_from_accounts_entry:
  assumes "liquidate_from_accounts E accounts = POk a"
  shows "signed_by accounts (ai_key (lq_liquidator a))"
    "\<exists>rest. set rest \<subseteq> set accounts
       \<and> liquidate_read_entry E (content (lq_market a)) rest = POk (lq_liquidator_whitelist_entry a)"
    "liquidate_whitelist_check E a = POk ()"
  using assms
  by (auto simp: liquidate_from_accounts_def liquidate_validate_def signed_by_def Let_def)

lemma liquidate_read_entry_POk:
  "liquidate_read_entry E m rest = POk (Some entry) \<Longrightarrow> loaded (whitelist_from_bytes E) rest entry"
  "liquidate_read_entry E m rest = POk None \<Longrightarrow> liquidations_are_permissionless (config m)"
  by (auto simp: liquidate_read_entry_def loaded_def
      split: if_splits list.splits program_result.splits)

lemma liquidator_guard:
  assumes "liquidate_from_accounts E accounts = POk a"
  shows "liquidator_allowed E accounts (acc_key (lq_market a)) (content (lq_market a))"
proof (cases "liquidations_are_permissionless (config (content (lq_market a)))")
  case True
  then show ?thesis
    using liquidate_from_accounts_entry(1) [OF assms] by (auto simp: liquidator_allowed_def)
next
  case False
  obtain rest where r: "set rest \<subseteq> set accounts"
      "liquidate_read_entry E (content (lq_market a)) rest = POk (lq_liquidator_whitelist_entry a)"
    using liquidate_from_accounts_entry(2) [OF assms] by blast
  then obtain entry where e: "lq_liquidator_whitelist_entry a = Some entry"
    using False liquidate_read_entry_POk(2) by (cases "lq_liquidator_whitelist_entry a") auto
  then have "loaded (whitelist_from_bytes E) accounts entry"
    using r liquidate_read_entry_POk(1) [of E _ rest entry] by (auto simp: loaded_def)
  then have "read_at (whitelist_from_bytes E) accounts (acc_key entry) (content entry)"
    by (rule loaded_read_at)
  then show ?thesis
    using False e liquidate_from_accounts_entry(1,3) [OF assms]
    by (auto simp: liquidator_allowed_def liquidate_whitelist_check_def)
qed

lemma market_write_authorised:
  assumes "loaded (market_from_bytes E) accounts m" "list_all is_call calls"
    and "same_identity (content m) m' \<or> curator_guard E accounts m"
  shows "writes_authorised E accounts ix (Write (acc_key m) (MarketAccount m') # calls)"
  using assms calls_write_nothing [OF assms(2)]
  by (auto simp: writes_authorised_def curator_guard_def dest: loaded_read_at)

lemma permissionless_market_authorised:
  "donate_supply_from_accounts E accounts = POk a1 \<Longrightarrow> process_donate_supply F a1 atoms pid now = POk effects
     \<Longrightarrow> writes_authorised E accounts ix effects"
  "redeem_protocol_fees_from_accounts E accounts = POk a2
     \<Longrightarrow> process_redeem_protocol_fees F a2 pid now = POk effects \<Longrightarrow> writes_authorised E accounts ix effects"
  unfolding process_donate_supply_def process_redeem_protocol_fees_def
  by (auto intro!: market_write_authorised
      dest: market_guards sync_clock_identity redeem_identity same_identity_trans)

lemma curator_market_authorised:
  "redeem_curator_fees_from_accounts E accounts = POk a1
     \<Longrightarrow> process_redeem_curator_fees F a1 pid now = POk effects \<Longrightarrow> writes_authorised E accounts ix effects"
  "update_config_from_accounts E accounts = POk a2
     \<Longrightarrow> process_update_config F E a2 d2 now = POk effects \<Longrightarrow> writes_authorised E accounts ix effects"
  unfolding process_redeem_curator_fees_def process_update_config_def
  by (auto intro!: market_write_authorised dest: curator_guards simp: curator_guard_def)

lemma curator_guard_signed: "curator_guard E accounts m \<Longrightarrow> curator_signed E accounts (acc_key m)"
  by (auto simp: curator_guard_def curator_signed_def dest: loaded_read_at)

lemma whitelist_writes_authorised:
  assumes "curator_guard E accounts m" "lw_market e = acc_key m" "list_all is_call calls"
    "\<And>key d. Write key d \<notin> set created"
  shows "writes_authorised E accounts ix (created @ Write k (LiquidatorWhitelistAccount e)
           # Write (acc_key m) (MarketAccount m') # calls)"
  using assms calls_write_nothing [OF assms(3)] curator_guard_signed [OF assms(1)]
  by (auto simp: writes_authorised_def curator_guard_def dest: loaded_read_at)

lemma whitelist_lw_market:
  "lw_activate e = Ok e' \<Longrightarrow> lw_market e' = lw_market e"
  "lw_deactivate e = Ok e' \<Longrightarrow> lw_market e' = lw_market e"
  "lw_initialize e m l b = Ok e' \<Longrightarrow> lw_market e' = m"
  by (auto simp: lw_activate_def lw_deactivate_def lw_initialize_def split: if_splits)

lemma remove_whitelisted_authorised:
  assumes "remove_whitelisted_liquidator_from_accounts E accounts l = POk a"
    "process_remove_whitelisted_liquidator a l pid = POk effects"
  shows "writes_authorised E accounts ix effects"
  using assms(2) curator_guards(4) [OF assms(1)]
    whitelist_writes_authorised [where created = "[]" and m = "rw_market a", simplified]
  by (auto simp: process_remove_whitelisted_liquidator_def Let_def dest: whitelist_lw_market)

lemma add_whitelisted_authorised:
  assumes "add_whitelisted_liquidator_from_accounts E accounts l b = POk a"
    "process_add_whitelisted_liquidator E a d crate_id = POk effects"
  shows "writes_authorised E accounts ix effects"
proof -
  from assms(2) obtain created e m' ev where s: "effects = created @
      [Write (ai_key (aw_whitelist_entry a)) (LiquidatorWhitelistAccount e),
       Write (acc_key (aw_market a)) (MarketAccount m'), log_effect crate_id (aw_market a) m' ev]"
    "\<And>key d. Write key d \<notin> set created" "lw_market e = acc_key (aw_market a)"
    using whitelist_entry_guard(2) [OF assms(1)]
    by (fastforce simp: process_add_whitelisted_liquidator_def Let_def dest: whitelist_lw_market
        split: if_splits)
  show ?thesis
    using whitelist_writes_authorised [OF curator_guards(3) [OF assms(1)] s(3) _ s(2)] s(1) by simp
qed

lemma global_config_authorised:
  assumes "update_global_config_from_accounts E accounts = POk a"
    "process_update_global_config a d = POk effects"
  shows "writes_authorised E accounts ix effects"
proof -
  let ?g = "content (ug_global_config a)" and ?key = "ai_key (ug_signer a)"
  from assms(2) obtain g where "effects = [Write (acc_key (ug_global_config a)) (GlobalConfigAccount g)]"
    "admin g = ?key" "admin g = admin ?g \<or> can_upgrade_nomination ?g (admin g)"
    by (auto simp: process_update_global_config_def Let_def update_if_def can_update_config_def
        update_protocol_fee_share_in_bps_def set_fee_receiver_def set_nominated_admin_def
        split: if_splits option.splits)
  then show ?thesis
    using global_config_guard [OF assms(1)]
    by (auto simp: writes_authorised_def dest: loaded_read_at)
qed

lemma create_authorised:
  "create_market_from_accounts E accounts = POk a1 \<Longrightarrow> process_create_market F E a1 d1 pid now = POk effects
     \<Longrightarrow> writes_authorised E accounts (CreateMarket d1) effects"
  "create_supply_position_from_accounts E accounts = POk a2
     \<Longrightarrow> process_create_supply_position E a2 b pid = POk effects \<Longrightarrow> writes_authorised E accounts ix effects"
  "create_borrow_position_from_accounts E accounts = POk a3
     \<Longrightarrow> process_create_borrow_position E a3 b pid = POk effects \<Longrightarrow> writes_authorised E accounts ix effects"
  "process_create_global_config E a4 d4 pid = POk effects
     \<Longrightarrow> writes_authorised E accounts (CreateGlobalConfig d4) effects"
proof -
  show "writes_authorised E accounts (CreateMarket d1) effects"
    if "create_market_from_accounts E accounts = POk a1" "process_create_market F E a1 d1 pid now = POk effects"
    using create_guards(1) [OF that(1)] that(2)
    by (auto simp: process_create_market_def writes_authorised_def initlize_supply_vault_def
        initialize_collateral_vault_def mc_initialize_def sync_global_config_def bind_r_eq_Ok Let_def
        split: if_splits)
qed (auto simp: process_create_supply_position_def process_create_borrow_position_def
    process_create_global_config_def writes_authorised_def sp_initialize_def bp_initialize_def
    dest!: create_guards(2,3) loaded_read_at)

lemmas authorised_handlers = permissionless_market_authorised curator_market_authorised
  remove_whitelisted_authorised add_whitelisted_authorised global_config_authorised create_authorised

lemma supply_authorised:
  "supply_apl_from_accounts E accounts = POk a1 \<Longrightarrow> process_supply_apl F E a1 atoms pid now = POk effects
     \<Longrightarrow> writes_authorised E accounts ix effects"
  "withdraw_supply_from_accounts E accounts = POk a2 \<Longrightarrow> process_withdraw_supply F E a2 d2 pid now = POk effects
     \<Longrightarrow> writes_authorised E accounts ix effects"
  by (blast intro: supply_summary_authorised supply_guards supply_handlers)+

lemma borrow_authorised:
  "borrow_apl_from_accounts E accounts = POk a0 \<Longrightarrow> process_borrow_apl F E a0 atoms pid now = POk effects
     \<Longrightarrow> writes_authorised E accounts ix effects"
  "deposit_apl_collateral_from_accounts E accounts = POk a1 \<Longrightarrow> process_deposit_apl_collateral F E a1 atoms pid now = POk effects
     \<Longrightarrow> writes_authorised E accounts ix effects"
  "withdraw_apl_collateral_from_accounts E accounts = POk a2 \<Longrightarrow> process_withdraw_apl_collateral F E a2 d2 pid now = POk effects
     \<Longrightarrow> writes_authorised E accounts ix effects"
  "repay_apl_from_accounts E accounts = POk a3 \<Longrightarrow> process_repay_apl F E a3 d3 pid now = POk effects
     \<Longrightarrow> writes_authorised E accounts ix effects"
  "borrow_deposit_apl_from_accounts E accounts = POk a4 \<Longrightarrow> process_borrow_deposit_apl F E a4 d4 pid now = POk effects
     \<Longrightarrow> writes_authorised E accounts ix effects"
  "withdraw_repay_apl_from_accounts E accounts = POk a5 \<Longrightarrow> process_withdraw_repay_apl F E a5 d5 pid now = POk effects
     \<Longrightarrow> writes_authorised E accounts ix effects"
  by (blast intro: borrow_summary_authorised dest: borrow_guards borrow_handlers leverage_handlers)+

lemma sweep_authorised:
  "begin_capital_sweep_from_accounts E accounts = POk a0 \<Longrightarrow> process_begin_capital_sweep F E a0 pid now = POk effects
     \<Longrightarrow> writes_authorised E accounts ix effects"
  "settle_capital_sweep_from_accounts E accounts = POk a1 \<Longrightarrow> process_settle_capital_sweep F E a1 d1 pid now = POk effects
     \<Longrightarrow> writes_authorised E accounts ix effects"
  "socialize_loss_from_accounts E accounts = POk a2 \<Longrightarrow> process_socialize_loss F E a2 pid now = POk effects
     \<Longrightarrow> writes_authorised E accounts ix effects"
  by (blast intro: borrow_summary_authorised dest: sweep_guards liquidation_handlers)+

lemma liquidate_authorised:
  "liquidate_from_accounts E accounts = POk a \<Longrightarrow> process_liquidate F E a d pid now = POk effects
     \<Longrightarrow> writes_authorised E accounts (Liquidate d) effects"
  by (blast intro: borrow_summary_authorised dest: liquidate_guard liquidator_guard liquidation_handlers)

lemma instruction_authorised:
  assumes "process_aurata_instruction F E crate_id accounts now ix = POk effects"
  shows "writes_authorised E accounts ix effects"
  using assms
  by (cases ix)
    (auto simp: process_aurata_instruction_def writes_authorised_def [of _ _ _ "[]"]
      intro: authorised_handlers supply_authorised borrow_authorised sweep_authorised
        liquidate_authorised)

text \<open>
  C4: Access control. Whatever instruction succeeds, each account it writes is authorised by the
  rule book \<open>write_authorised\<close>: a supply position changes only with the signature of its authority; a
  borrow position only with that of its authority, of its market's curator, or by a liquidation
  by a signer who is on the market's whitelist if it has one, and both only together with the market
  they name; a market keeps its configuration, mints and vaults unless its curator signs; the global
  configuration changes only under the signature of its admin or of the nominated admin; a whitelist
  entry under that of the curator.
\<close>

theorem access_control:
  assumes "process_aurata_instruction F E crate_id accounts now ix = POk effects"
    and "Write key d \<in> set effects"
  shows "write_authorised E accounts ix key d"
  using instruction_authorised [OF assms(1)] assms(2) by (simp add: writes_authorised_def)

theorem access_control_witness:
  "\<exists>effects p. process_aurata_instruction fixed_reference example_env crate_id
      example_borrow_deposit_accounts 1000 example_borrow_deposit = POk effects
    \<and> Write 30 (BorrowPositionAccount p) \<in> set effects
    \<and> write_authorised example_env example_borrow_deposit_accounts example_borrow_deposit 30
        (BorrowPositionAccount p)"
proof -
  obtain m p ev where r: "process_aurata_instruction fixed_reference example_env crate_id
      example_borrow_deposit_accounts 1000 example_borrow_deposit
    = POk [Write 12 (MarketAccount m), Write 30 (BorrowPositionAccount p),
          LogEvent crate_id 12 (EvBorrowAndDeposit ev) [market_seed m],
          TokenTransfer 101 50 12 200 [market_seed m], Invoke example_callback,
          TokenTransfer 51 201 11 400 []]" using example_borrow_deposit_runs by blast
  let ?effects = "[Write 12 (MarketAccount m), Write 30 (BorrowPositionAccount p),
          LogEvent crate_id 12 (EvBorrowAndDeposit ev) [market_seed m],
          TokenTransfer 101 50 12 200 [market_seed m], Invoke example_callback,
          TokenTransfer 51 201 11 400 []]"
  have "Write 30 (BorrowPositionAccount p) \<in> set ?effects" by simp
  from r this access_control [OF r this] show ?thesis by blast
qed

end
