(* ===== verification/Program_Custody.thy ===== *)
theory Program_Custody
  imports Program_Access
begin

text \<open>
  The collateral that a market has on its books is covered by the tokens in its collateral vault:
  every instruction moves into the vault at least what it adds to the books, and takes out at most
  what it removes from them.
\<close>

section \<open>What operations do to the collateral on the books\<close>

abbreviation collateral_of :: "market \<Rightarrow> int" where
  "collateral_of m \<equiv> uint (total_collateral_atoms (m_collateral_vault m))"

lemma sync_clock_collateral [simp]:
  "market_sync_clock F m now = Ok m' \<Longrightarrow> m_collateral_vault m' = m_collateral_vault m"
  by (auto simp: market_sync_clock_def bind_r_eq_Ok)

lemma supply_operation_collateral:
  "supply_operation F m p m' p' \<Longrightarrow> m_collateral_vault m' = m_collateral_vault m"
  by (cases rule: supply_operation.cases)
    (auto simp: market_lend_def market_withdraw_def market_withdraw_all_def bind_r_eq_Ok split: if_splits)

lemma mw_collateral_kept:
  "mw_borrow F w p atoms = Ok (w', p') \<Longrightarrow> m_collateral_vault (mw_market w') = m_collateral_vault (mw_market w)"
  "repay_or_all F w p all atoms = POk (w', p', n) \<Longrightarrow>
     m_collateral_vault (mw_market w') = m_collateral_vault (mw_market w)"
  by (auto simp: mw_borrow_def market_borrow_def repay_or_all_def mw_repay_def mw_repay_all_def
      market_repay_def market_repay_all_def bind_r_eq_Ok Let_def split: if_splits)

lemma mw_collateral_moved:
  "mw_deposit_collateral w p atoms = Ok (w1, p') \<Longrightarrow>
     collateral_of (mw_market w1) = collateral_of (mw_market w) + uint atoms"
  "mw_withdraw_collateral F w p atoms = Ok (w2, p') \<Longrightarrow>
     collateral_of (mw_market w2) = collateral_of (mw_market w) - uint atoms"
  "mw_liquidate F w p mx = Ok (w3, p', r) \<Longrightarrow> total_collateral_atoms_to_liquidate (lc_liquidation r) = Ok n \<Longrightarrow>
     collateral_of (mw_market w3) = collateral_of (mw_market w) - uint n"
  "mw_begin_capital_sweep F w p = Ok (w4, p', h) \<Longrightarrow>
     collateral_of (mw_market w4) = collateral_of (mw_market w) - uint (swept_collateral_atoms p')"
  "mw_settle_capital_sweep F w p mx mc = Ok (w5, p', s) \<Longrightarrow>
     collateral_of (mw_market w5) = collateral_of (mw_market w) + uint (collateral_atoms_returned s)"
  "mw_socialize_loss F w p = Ok (w6, p', dt, c) \<Longrightarrow>
     collateral_of (mw_market w6) = collateral_of (mw_market w) - uint c"
  by (auto simp: mw_deposit_collateral_def mw_withdraw_collateral_def mw_liquidate_def
      mw_begin_capital_sweep_def mw_settle_capital_sweep_def mw_socialize_loss_def
      market_deposit_collateral_def market_withdraw_collateral_def market_liquidate_def
      market_begin_capital_sweep_def market_settle_capital_sweep_def market_socialize_loss_def
      bp_begin_capital_sweep_def bind_r_eq_Ok Let_def split: if_splits
      dest!: cv_deposit_collateral_Ok cv_withdraw_collateral_Ok)

section \<open>Token flows\<close>

fun token_flow :: "pubkey \<Rightarrow> effect \<Rightarrow> int" where
  "token_flow vault (TokenTransfer from to _ atoms _) =
     (if to = vault then uint atoms else 0) - (if from = vault then uint atoms else 0)"
| "token_flow vault _ = 0"

definition net_flow :: "pubkey \<Rightarrow> effect list \<Rightarrow> int" where
  "net_flow vault effects = sum_list (map (token_flow vault) effects)"

text \<open>No transfer signed by a user, without the seeds of the market, takes from the vault.\<close>

fun spares :: "pubkey \<Rightarrow> effect \<Rightarrow> bool" where
  "spares vault (TokenTransfer from _ _ _ seeds) \<longleftrightarrow> seeds = [] \<longrightarrow> from \<noteq> vault"
| "spares vault _ \<longleftrightarrow> True"

definition vault_untouched_by_users :: "pubkey \<Rightarrow> effect list \<Rightarrow> bool" where
  "vault_untouched_by_users vault effects \<longleftrightarrow> list_all (spares vault) effects"

definition custody_ok :: "market typed_account \<Rightarrow> effect list \<Rightarrow> bool" where
  "custody_ok account effects \<longleftrightarrow> (\<forall>key m'. Write key (MarketAccount m') \<in> set effects \<longrightarrow>
     key = acc_key account
     \<and> (let vault = cv_vault (m_collateral_vault (content account)) in
        vault \<noteq> sv_vault (m_supply_vault (content account)) \<longrightarrow> vault_untouched_by_users vault effects
        \<longrightarrow> collateral_of m' - collateral_of (content account) \<le> net_flow vault effects))"

lemma callback_flow [simp]: "sum_list (map (token_flow v) (callback_effects c)) = 0"
  by (simp add: callback_effects_def split: option.splits)

lemma callback_transfers [simp]:
  "list_all (spares v) (callback_effects c)" "Write k d \<notin> set (callback_effects c)"
  by (auto simp: callback_effects_def split: option.splits)

lemmas custody_simps = custody_ok_def net_flow_def vault_untouched_by_users_def log_effect_def Let_def

lemma vault_guards:
  "deposit_apl_collateral_from_accounts E accounts = POk a1 \<Longrightarrow>
     acc_key (dc_market_collateral_vault a1) = cv_vault (m_collateral_vault (content (dc_market a1)))"
  "withdraw_apl_collateral_from_accounts E accounts = POk a2 \<Longrightarrow>
     acc_key (wc_market_collateral_vault a2) = cv_vault (m_collateral_vault (content (wc_market a2)))"
  "borrow_deposit_apl_from_accounts E accounts = POk a3 \<Longrightarrow>
     acc_key (bd_market_collateral_vault a3) = cv_vault (m_collateral_vault (content (bd_market a3)))
     \<and> acc_key (bd_market_supply_vault a3) = sv_vault (m_supply_vault (content (bd_market a3)))"
  "withdraw_repay_apl_from_accounts E accounts = POk a4 \<Longrightarrow>
     acc_key (wr_market_collateral_vault a4) = cv_vault (m_collateral_vault (content (wr_market a4)))
     \<and> acc_key (wr_market_supply_vault a4) = sv_vault (m_supply_vault (content (wr_market a4)))"
  "liquidate_from_accounts E accounts = POk a5 \<Longrightarrow>
     acc_key (lq_market_collateral_vault a5) = cv_vault (m_collateral_vault (content (lq_market a5)))
     \<and> acc_key (lq_market_supply_vault a5) = sv_vault (m_supply_vault (content (lq_market a5)))"
  "begin_capital_sweep_from_accounts E accounts = POk a6 \<Longrightarrow>
     acc_key (bs_market_collateral_vault a6) = cv_vault (m_collateral_vault (content (bs_market a6)))"
  "settle_capital_sweep_from_accounts E accounts = POk a7 \<Longrightarrow>
     acc_key (stl_market_collateral_vault a7) = cv_vault (m_collateral_vault (content (stl_market a7)))
     \<and> acc_key (stl_market_supply_vault a7) = sv_vault (m_supply_vault (content (stl_market a7)))"
  "socialize_loss_from_accounts E accounts = POk a8 \<Longrightarrow>
     acc_key (so_market_collateral_vault a8) = cv_vault (m_collateral_vault (content (so_market a8)))"
  "borrow_apl_from_accounts E accounts = POk a9 \<Longrightarrow>
     acc_key (ba_market_supply_vault a9) = sv_vault (m_supply_vault (content (ba_market a9)))"
  "withdraw_supply_from_accounts E accounts = POk a10 \<Longrightarrow>
     acc_key (ws_market_supply_vault a10) = sv_vault (m_supply_vault (content (ws_market a10)))"
  "redeem_curator_fees_from_accounts E accounts = POk a11 \<Longrightarrow>
     acc_key (rc_market_supply_vault a11) = sv_vault (m_supply_vault (content (rc_market a11)))"
  "redeem_protocol_fees_from_accounts E accounts = POk a12 \<Longrightarrow>
     acc_key (rp_market_supply_vault a12) = sv_vault (m_supply_vault (content (rp_market a12)))"
  by (auto simp: deposit_apl_collateral_from_accounts_def deposit_apl_collateral_validate_def
      withdraw_apl_collateral_from_accounts_def withdraw_apl_collateral_validate_def
      borrow_deposit_apl_from_accounts_def borrow_deposit_apl_validate_def
      withdraw_repay_apl_from_accounts_def withdraw_repay_apl_validate_def
      liquidate_from_accounts_def liquidate_validate_def
      begin_capital_sweep_from_accounts_def begin_capital_sweep_validate_def
      settle_capital_sweep_from_accounts_def settle_capital_sweep_validate_def
      socialize_loss_from_accounts_def socialize_loss_validate_def
      borrow_apl_from_accounts_def borrow_apl_validate_def
      withdraw_supply_from_accounts_def withdraw_supply_validate_def
      redeem_curator_fees_from_accounts_def redeem_curator_fees_validate_def
      redeem_protocol_fees_from_accounts_def redeem_protocol_fees_validate_def Let_def)

lemma open_market_collateral:
  "open_market F E account ks so co now = POk w \<Longrightarrow>
     m_collateral_vault (mw_market w) = m_collateral_vault (content account)"
  by (drule open_market_POk) simp

lemmas custody_dests = open_market_collateral mw_collateral_kept mw_collateral_moved

section \<open>What handlers do to the vault\<close>

lemma deposit_apl_collateral_custody:
  assumes "deposit_apl_collateral_from_accounts E accounts = POk a" "process_deposit_apl_collateral F E a n pid now = POk effects"
  shows "custody_ok (dc_market a) effects"
  using assms(2) vault_guards(1) [OF assms(1)]
  by (auto simp: process_deposit_apl_collateral_def custody_simps split: if_splits dest!: custody_dests)

lemma withdraw_apl_collateral_custody:
  assumes "withdraw_apl_collateral_from_accounts E accounts = POk a" "process_withdraw_apl_collateral F E a d pid now = POk effects"
  shows "custody_ok (wc_market a) effects"
  using assms(2) vault_guards(2) [OF assms(1)]
  by (auto simp: process_withdraw_apl_collateral_def custody_simps split: if_splits dest!: custody_dests)

lemma borrow_deposit_apl_custody:
  assumes "borrow_deposit_apl_from_accounts E accounts = POk a" "process_borrow_deposit_apl F E a d pid now = POk effects"
  shows "custody_ok (bd_market a) effects"
  using assms(2) vault_guards(3) [OF assms(1)]
  by (auto simp: process_borrow_deposit_apl_def custody_simps split: if_splits dest!: custody_dests)

lemma withdraw_repay_apl_custody:
  assumes "withdraw_repay_apl_from_accounts E accounts = POk a" "process_withdraw_repay_apl F E a d pid now = POk effects"
  shows "custody_ok (wr_market a) effects"
  using assms(2) vault_guards(4) [OF assms(1)]
  by (auto simp: process_withdraw_repay_apl_def custody_simps split: if_splits dest!: custody_dests)

lemma liquidate_custody:
  assumes "liquidate_from_accounts E accounts = POk a" "process_liquidate F E a d pid now = POk effects"
  shows "custody_ok (lq_market a) effects"
  using assms(2) vault_guards(5) [OF assms(1)]
  by (auto simp: process_liquidate_def custody_simps split: if_splits dest!: custody_dests)

lemma begin_capital_sweep_custody:
  assumes "begin_capital_sweep_from_accounts E accounts = POk a" "process_begin_capital_sweep F E a pid now = POk effects"
  shows "custody_ok (bs_market a) effects"
  using assms(2) vault_guards(6) [OF assms(1)]
  by (auto simp: process_begin_capital_sweep_def custody_simps split: if_splits dest!: custody_dests)

lemma settle_capital_sweep_custody:
  assumes "settle_capital_sweep_from_accounts E accounts = POk a" "process_settle_capital_sweep F E a d pid now = POk effects"
  shows "custody_ok (stl_market a) effects"
  using assms(2) vault_guards(7) [OF assms(1)]
  by (auto simp: process_settle_capital_sweep_def custody_simps split: if_splits dest!: custody_dests)

lemma socialize_loss_custody:
  assumes "socialize_loss_from_accounts E accounts = POk a" "process_socialize_loss F E a pid now = POk effects"
  shows "custody_ok (so_market a) effects"
  using assms(2) vault_guards(8) [OF assms(1)]
  by (auto simp: process_socialize_loss_def custody_simps split: if_splits dest!: custody_dests)

lemma mw_supply_collateral:
  "mw_lend F w p atoms = Ok (w', p') \<Longrightarrow> m_collateral_vault (mw_market w') = m_collateral_vault (mw_market w)"
  "mw_withdraw F w p atoms = Ok (w', p') \<Longrightarrow> m_collateral_vault (mw_market w') = m_collateral_vault (mw_market w)"
  "mw_withdraw_all F w p = Ok (w', p', n) \<Longrightarrow> m_collateral_vault (mw_market w') = m_collateral_vault (mw_market w)"
  by (blast dest: mw_supply_operations supply_operation_collateral)+

lemma market_collateral_kept:
  "redeem_protocol_fees F m = Ok (m', n) \<Longrightarrow> m_collateral_vault m' = m_collateral_vault m"
  "redeem_curator_fess F m = Ok (m', n) \<Longrightarrow> m_collateral_vault m' = m_collateral_vault m"
  "donate_supply_atoms F m atoms = Ok m' \<Longrightarrow> m_collateral_vault m' = m_collateral_vault m"
  by (auto simp: redeem_protocol_fees_def redeem_curator_fess_def donate_supply_atoms_def bind_r_eq_Ok)

lemma config_updates_collateral:
  "apply_config_updates F d g m = Ok m' \<Longrightarrow> collateral_of m' = collateral_of m"
  by (auto simp: apply_config_updates_def update_if_def on_config_def set_supply_oracle_config_def
      set_collateral_oracle_config_def bind_r_eq_Ok split: option.splits)

lemma supply_apl_custody:
  assumes "supply_apl_from_accounts E accounts = POk a" "process_supply_apl F E a n pid now = POk effects"
  shows "custody_ok (sa_market a) effects"
  using assms(2)
  by (auto simp: process_supply_apl_def custody_simps split: if_splits dest!: open_market_collateral mw_supply_collateral)

lemma withdraw_supply_custody:
  assumes "withdraw_supply_from_accounts E accounts = POk a" "process_withdraw_supply F E a d pid now = POk effects"
  shows "custody_ok (ws_market a) effects"
  using assms(2) vault_guards(10) [OF assms(1)]
  by (auto simp: process_withdraw_supply_def custody_simps split: if_splits dest!: open_market_collateral mw_supply_collateral)

lemma borrow_apl_custody:
  assumes "borrow_apl_from_accounts E accounts = POk a" "process_borrow_apl F E a n pid now = POk effects"
  shows "custody_ok (ba_market a) effects"
  using assms(2) vault_guards(9) [OF assms(1)]
  by (auto simp: process_borrow_apl_def custody_simps split: if_splits dest!: custody_dests)

lemma repay_apl_custody:
  assumes "repay_apl_from_accounts E accounts = POk a" "process_repay_apl F E a d pid now = POk effects"
  shows "custody_ok (ra_market a) effects"
  using assms(2)
  by (auto simp: process_repay_apl_def custody_simps split: if_splits dest!: custody_dests)

lemma donate_supply_custody:
  assumes "donate_supply_from_accounts E accounts = POk a" "process_donate_supply F a n pid now = POk effects"
  shows "custody_ok (dn_market a) effects"
  using assms(2)
  by (auto simp: process_donate_supply_def custody_simps split: if_splits dest!: sync_clock_collateral market_collateral_kept)

lemma redeem_curator_fees_custody:
  assumes "redeem_curator_fees_from_accounts E accounts = POk a" "process_redeem_curator_fees F a pid now = POk effects"
  shows "custody_ok (rc_market a) effects"
  using assms(2) vault_guards(11) [OF assms(1)]
  by (auto simp: process_redeem_curator_fees_def custody_simps split: if_splits dest!: sync_clock_collateral market_collateral_kept)

lemma redeem_protocol_fees_custody:
  assumes "redeem_protocol_fees_from_accounts E accounts = POk a" "process_redeem_protocol_fees F a pid now = POk effects"
  shows "custody_ok (rp_market a) effects"
  using assms(2) vault_guards(12) [OF assms(1)]
  by (auto simp: process_redeem_protocol_fees_def custody_simps split: if_splits dest!: sync_clock_collateral market_collateral_kept)

lemma update_config_custody:
  assumes "update_config_from_accounts E accounts = POk a" "process_update_config F E a d now = POk effects"
  shows "custody_ok (uc_market a) effects"
  using assms(2)
  by (auto simp: process_update_config_def custody_simps split: if_splits dest!: sync_clock_collateral config_updates_collateral)

lemma whitelist_custody:
  "process_add_whitelisted_liquidator E a1 d pid = POk effects \<Longrightarrow> custody_ok (aw_market a1) effects"
  "process_remove_whitelisted_liquidator a2 l pid = POk effects \<Longrightarrow> custody_ok (rw_market a2) effects"
  by (auto simp: process_add_whitelisted_liquidator_def process_remove_whitelisted_liquidator_def
      custody_simps split: if_splits)

text \<open>The accounts of a transaction: the same address is the same account.\<close>

definition coherent :: "account_info list \<Rightarrow> bool" where
  "coherent accounts \<longleftrightarrow>
     list_all (\<lambda>a. list_all (\<lambda>b. ai_key a = ai_key b \<longrightarrow> ai_owner a = ai_owner b \<and> ai_data a = ai_data b)
       accounts) accounts"

lemma coherent_loaded:
  assumes "coherent accounts" "loaded f accounts x" "read_at f accounts (acc_key x) y"
  shows "content x = y"
proof -
  from assms(3) obtain a where a: "a \<in> set accounts" "ai_key a = acc_key x" "f (ai_data a) = Some y"
    by (auto simp: read_at_def list_ex_iff)
  with assms(1,2) have "ai_data a = ai_data (info x)"
    unfolding coherent_def loaded_def list_all_iff by metis
  with a assms(2) show ?thesis by (simp add: loaded_def)
qed

definition collateral_covered :: "environment \<Rightarrow> account_info list \<Rightarrow> effect list \<Rightarrow> bool" where
  "collateral_covered E accounts effects \<longleftrightarrow> (\<forall>key m m'.
     read_at (market_from_bytes E) accounts key m \<longrightarrow> Write key (MarketAccount m') \<in> set effects \<longrightarrow>
     cv_vault (m_collateral_vault m) \<noteq> sv_vault (m_supply_vault m) \<longrightarrow>
     vault_untouched_by_users (cv_vault (m_collateral_vault m)) effects \<longrightarrow>
     collateral_of m' - collateral_of m \<le> net_flow (cv_vault (m_collateral_vault m)) effects)"

lemma custody_covered:
  assumes "coherent accounts" "loaded (market_from_bytes E) accounts x" "custody_ok x effects"
  shows "collateral_covered E accounts effects"
  unfolding collateral_covered_def
proof (intro allI impI)
  fix key m m'
  assume a: "read_at (market_from_bytes E) accounts key m" "Write key (MarketAccount m') \<in> set effects"
    and h: "cv_vault (m_collateral_vault m) \<noteq> sv_vault (m_supply_vault m)"
    "vault_untouched_by_users (cv_vault (m_collateral_vault m)) effects"
  have key: "key = acc_key x" using assms(3) a(2) by (auto simp: custody_ok_def)
  then have "content x = m" using coherent_loaded [OF assms(1,2)] a(1) by simp
  then show "collateral_of m' - collateral_of m \<le> net_flow (cv_vault (m_collateral_vault m)) effects"
    using assms(3) a(2) h by (auto simp: custody_ok_def Let_def)
qed

text \<open>Instructions that write no existing market.\<close>

lemma no_market_covered:
  "process_create_supply_position E a1 b pid = POk effects \<Longrightarrow> collateral_covered E accounts effects"
  "process_create_borrow_position E a2 b pid = POk effects \<Longrightarrow> collateral_covered E accounts effects"
  "process_create_global_config E a3 d3 pid = POk effects \<Longrightarrow> collateral_covered E accounts effects"
  "process_update_global_config a4 d4 = POk effects \<Longrightarrow> collateral_covered E accounts effects"
  "collateral_covered E accounts []"
  by (auto simp: process_create_supply_position_def process_create_borrow_position_def
      process_create_global_config_def process_update_global_config_def Let_def
      collateral_covered_def split: if_splits)

lemma borrow_guard_loaded: "borrow_guard E accounts m p \<Longrightarrow> loaded (market_from_bytes E) accounts m"
  "supply_guard E accounts m q \<Longrightarrow> loaded (market_from_bytes E) accounts m"
  "curator_guard E accounts m \<Longrightarrow> loaded (market_from_bytes E) accounts m"
  by (simp_all add: borrow_guard_def supply_guard_def curator_guard_def)

lemmas all_guards = supply_guards borrow_guards sweep_guards liquidate_guard market_guards curator_guards

lemmas all_custody = deposit_apl_collateral_custody withdraw_apl_collateral_custody
  borrow_deposit_apl_custody withdraw_repay_apl_custody liquidate_custody begin_capital_sweep_custody
  settle_capital_sweep_custody socialize_loss_custody supply_apl_custody withdraw_supply_custody
  borrow_apl_custody repay_apl_custody donate_supply_custody redeem_curator_fees_custody
  redeem_protocol_fees_custody update_config_custody whitelist_custody

lemma instruction_covered:
  assumes "process_aurata_instruction F E pid accounts now ix = POk effects" "coherent accounts"
    "\<And>d. ix \<noteq> CreateMarket d"
  shows "collateral_covered E accounts effects"
proof -
  have c: "loaded (market_from_bytes E) accounts x \<Longrightarrow> custody_ok x effects \<Longrightarrow> ?thesis" for x
    using assms(2) by (rule custody_covered)
  show ?thesis
    using assms(1,3)
    by (cases ix)
      (auto simp: process_aurata_instruction_def
        intro: c all_custody no_market_covered dest: all_guards borrow_guard_loaded)
qed

text \<open>
  C7: Custody of collateral. Whatever instruction on an existing market succeeds, the collateral
  vault receives at least what the market adds to its recorded collateral, and gives up at most what
  it removes: the recorded collateral never outruns the tokens. The vaults of the market differ, and
  no user holds the authority over the collateral vault itself.
\<close>

theorem collateral_custody:
  assumes "process_aurata_instruction F E pid accounts now ix = POk effects"
    and "coherent accounts" and "\<forall>d. ix \<noteq> CreateMarket d"
    and "read_at (market_from_bytes E) accounts key m"
    and "Write key (MarketAccount m') \<in> set effects"
    and "cv_vault (m_collateral_vault m) \<noteq> sv_vault (m_supply_vault m)"
    and "vault_untouched_by_users (cv_vault (m_collateral_vault m)) effects"
  shows "collateral_of m' - collateral_of m \<le> net_flow (cv_vault (m_collateral_vault m)) effects"
  using instruction_covered [OF assms(1,2)] assms(3-) by (auto simp: collateral_covered_def)

theorem collateral_custody_witness:
  "\<exists>effects m'. process_aurata_instruction fixed_reference example_env crate_id
      example_borrow_deposit_accounts 1000 example_borrow_deposit = POk effects
    \<and> Write 12 (MarketAccount m') \<in> set effects
    \<and> collateral_of m' - collateral_of (example_market 1000 0 0) \<le> net_flow 201 effects
    \<and> net_flow 201 effects = 400"
proof -
  obtain m p ev where r: "process_aurata_instruction fixed_reference example_env crate_id
      example_borrow_deposit_accounts 1000 example_borrow_deposit
    = POk [Write 12 (MarketAccount m), Write 30 (BorrowPositionAccount p),
          LogEvent crate_id 12 (EvBorrowAndDeposit ev) [market_seed m],
          TokenTransfer 101 50 12 200 [market_seed m], Invoke example_callback,
          TokenTransfer 51 201 11 400 []]" using example_borrow_deposit_runs by blast
  have "coherent example_borrow_deposit_accounts"
    by (simp add: coherent_def program_example_defs)
  moreover have "read_at (market_from_bytes example_env) example_borrow_deposit_accounts 12 (example_market 1000 0 0)"
    by (simp add: read_at_def program_example_defs)
  ultimately have "collateral_of m - collateral_of (example_market 1000 0 0)
      \<le> net_flow (cv_vault (m_collateral_vault (example_market 1000 0 0)))
          [Write 12 (MarketAccount m), Write 30 (BorrowPositionAccount p),
          LogEvent crate_id 12 (EvBorrowAndDeposit ev) [market_seed m],
          TokenTransfer 101 50 12 200 [market_seed m], Invoke example_callback,
          TokenTransfer 51 201 11 400 []]"
    using collateral_custody [OF r, of 12 "example_market 1000 0 0" m]
    by (simp add: vault_untouched_by_users_def example_defs example_borrow_deposit_def)
  with r show ?thesis by (simp add: example_defs net_flow_def)
qed

end
