(* ===== verification/Program_Refinement.thy ===== *)
theory Program_Refinement
  imports Program_Custody
begin

text \<open>
  The program refines the transition system of \<open>Market_System\<close>. The state of the chain is the data of
  the accounts that the program owns; a market with the positions that name it is a state of the
  system. Every instruction that succeeds takes each market through steps of the system, so
  that what holds in all reachable states of the system holds on the chain.
\<close>

section \<open>The state of the chain\<close>

type_synonym chain = "pubkey \<rightharpoonup> account_data"

text \<open>The runtime resizes the bytes of an account, and an account given to another owner leaves.\<close>

fun apply_effect :: "effect \<Rightarrow> chain \<Rightarrow> chain" where
  "apply_effect (Write key d) chain = chain(key \<mapsto> d)"
| "apply_effect (Realloc key n) chain =
     (case chain key of
        Some (RawAccount bytes) \<Rightarrow> chain(key \<mapsto> RawAccount (take n bytes @ replicate (n - length bytes) 0))
      | _ \<Rightarrow> chain)"
| "apply_effect (Assign key own) chain = (if own = crate_id then chain else chain(key := None))"
| "apply_effect _ chain = chain"

definition apply_effects :: "effect list \<Rightarrow> chain \<Rightarrow> chain" where
  "apply_effects effects chain = fold apply_effect effects chain"

text \<open>The runtime hands the accounts to the program as they are on the chain.\<close>

definition presents :: "chain \<Rightarrow> account_info list \<Rightarrow> bool" where
  "presents chain accounts \<longleftrightarrow>
     list_all (\<lambda>a. chain (ai_key a) = (if ai_owner a = crate_id then Some (ai_data a) else None)) accounts"

text \<open>
  The instructions of the market write typed accounts. Accounts filled through the handler of the
  IDL are raw bytes; they are outside this view of the chain.
\<close>

definition no_raw :: "account_info list \<Rightarrow> bool" where
  "no_raw accounts \<longleftrightarrow>
     list_all (\<lambda>a. ai_owner a = crate_id \<longrightarrow> (case ai_data a of RawAccount _ \<Rightarrow> False | _ \<Rightarrow> True)) accounts"

text \<open>The system program creates an account only where there is none.\<close>

fun creates_fresh :: "chain \<Rightarrow> effect \<Rightarrow> bool" where
  "creates_fresh chain (CreateAccount _ key _ _ _) \<longleftrightarrow> chain key = None"
| "creates_fresh chain (CreateAccountWithSeed _ key _ _ _ _ _) \<longleftrightarrow> chain key = None"
| "creates_fresh chain _ \<longleftrightarrow> True"

definition supply_view :: "chain \<Rightarrow> pubkey \<Rightarrow> pubkey \<rightharpoonup> supply_position" where
  "supply_view chain key = (\<lambda>k. case chain k of
     Some (SupplyPositionAccount p) \<Rightarrow> if sp_market p = key then Some p else None | _ \<Rightarrow> None)"

definition borrow_view :: "chain \<Rightarrow> pubkey \<Rightarrow> pubkey \<rightharpoonup> borrow_position" where
  "borrow_view chain key = (\<lambda>k. case chain k of
     Some (BorrowPositionAccount p) \<Rightarrow> if bp_market p = key then Some p else None | _ \<Rightarrow> None)"

definition market_view :: "chain \<Rightarrow> pubkey \<Rightarrow> system option" where
  "market_view chain key = (case chain key of
     Some (MarketAccount m) \<Rightarrow> Some \<lparr>sys_market = m, sys_supply = supply_view chain key,
                                   sys_borrow = borrow_view chain key\<rparr>
   | _ \<Rightarrow> None)"

lemma market_view_Some:
  "market_view chain key = Some s \<longleftrightarrow> (\<exists>m. chain key = Some (MarketAccount m)
     \<and> s = \<lparr>sys_market = m, sys_supply = supply_view chain key, sys_borrow = borrow_view chain key\<rparr>)"
  by (auto simp: market_view_def split: option.splits account_data.splits)

lemma view_supply_write:
  "supply_view (chain(k \<mapsto> SupplyPositionAccount p)) key
     = (supply_view chain key)(k := if sp_market p = key then Some p else None)"
  "borrow_view (chain(k \<mapsto> BorrowPositionAccount q)) key
     = (borrow_view chain key)(k := if bp_market q = key then Some q else None)"
  by (auto simp: supply_view_def borrow_view_def)

text \<open>A write of an account of another kind changes neither view, when the address held none.\<close>

fun is_supply :: "account_data option \<Rightarrow> bool" where
  "is_supply (Some (SupplyPositionAccount _)) \<longleftrightarrow> True"
| "is_supply _ \<longleftrightarrow> False"

fun is_borrow :: "account_data option \<Rightarrow> bool" where
  "is_borrow (Some (BorrowPositionAccount _)) \<longleftrightarrow> True"
| "is_borrow _ \<longleftrightarrow> False"

lemma view_other_write:
  "\<not> is_supply (chain k) \<Longrightarrow> \<not> is_supply (Some d) \<Longrightarrow> supply_view (chain(k \<mapsto> d)) key = supply_view chain key"
  "\<not> is_borrow (chain k) \<Longrightarrow> \<not> is_borrow (Some d) \<Longrightarrow> borrow_view (chain(k \<mapsto> d)) key = borrow_view chain key"
  by (auto simp: supply_view_def borrow_view_def fun_eq_iff
      split: option.splits account_data.splits)

lemma calls_apply: "list_all is_call calls \<Longrightarrow> apply_effects calls chain = chain"
  unfolding apply_effects_def
proof (induction calls arbitrary: chain)
  case (Cons e calls)
  then show ?case by (cases e) simp_all
qed simp

lemma apply_effects_simps [simp]:
  "apply_effects [] chain = chain"
  "apply_effects (e # effects) chain = apply_effects effects (apply_effect e chain)"
  "apply_effects (xs @ ys) chain = apply_effects ys (apply_effects xs chain)"
  by (simp_all add: apply_effects_def)

text \<open>What a loaded account is on the chain.\<close>

lemma loaded_on_chain:
  assumes "presents chain accounts" "no_raw accounts"
  shows "loaded (market_from_bytes E) accounts m \<Longrightarrow> chain (acc_key m) = Some (MarketAccount (content m))"
    "loaded (supply_position_from_bytes E) accounts p \<Longrightarrow>
       chain (acc_key p) = Some (SupplyPositionAccount (content p))"
    "loaded (borrow_position_from_bytes E) accounts q \<Longrightarrow>
       chain (acc_key q) = Some (BorrowPositionAccount (content q))"
    "loaded (global_config_from_bytes E) accounts g \<Longrightarrow>
       chain (acc_key g) = Some (GlobalConfigAccount (content g))"
    "loaded (whitelist_from_bytes E) accounts e \<Longrightarrow>
       chain (acc_key e) = Some (LiquidatorWhitelistAccount (content e))"
proof -
  have d: "chain (ai_key a) = Some (ai_data a) \<and> (\<forall>b. ai_data a \<noteq> RawAccount b)"
    if "a \<in> set accounts" "ai_owner a = crate_id" for a
    using assms that by (auto simp: presents_def no_raw_def list_all_iff split: account_data.splits)
  show "loaded (market_from_bytes E) accounts m \<Longrightarrow> chain (acc_key m) = Some (MarketAccount (content m))"
    using d [of "info m"] by (cases "ai_data (info m)") (auto simp: loaded_def)
  show "loaded (supply_position_from_bytes E) accounts p \<Longrightarrow>
       chain (acc_key p) = Some (SupplyPositionAccount (content p))"
    using d [of "info p"] by (cases "ai_data (info p)") (auto simp: loaded_def)
  show "loaded (borrow_position_from_bytes E) accounts q \<Longrightarrow>
       chain (acc_key q) = Some (BorrowPositionAccount (content q))"
    using d [of "info q"] by (cases "ai_data (info q)") (auto simp: loaded_def)
  show "loaded (global_config_from_bytes E) accounts g \<Longrightarrow>
       chain (acc_key g) = Some (GlobalConfigAccount (content g))"
    using d [of "info g"] by (cases "ai_data (info g)") (auto simp: loaded_def)
  show "loaded (whitelist_from_bytes E) accounts e \<Longrightarrow>
       chain (acc_key e) = Some (LiquidatorWhitelistAccount (content e))"
    using d [of "info e"] by (cases "ai_data (info e)") (auto simp: loaded_def)
qed

section \<open>Steps\<close>

definition simulated :: "fixed_crate \<Rightarrow> chain \<Rightarrow> chain \<Rightarrow> bool" where
  "simulated F chain chain' \<longleftrightarrow> (\<forall>key s. market_view chain key = Some s \<longrightarrow>
     (\<exists>s'. market_view chain' key = Some s' \<and> (system_step F)\<^sup>*\<^sup>* s s'))"

lemma market_ops_steps:
  "(market_operation F)\<^sup>*\<^sup>* (sys_market s) m' \<Longrightarrow> (system_step F)\<^sup>*\<^sup>* s (s\<lparr>sys_market := m'\<rparr>)"
proof (induction rule: rtranclp_induct)
  case (step m1 m2)
  have "system_step F (s\<lparr>sys_market := m1\<rparr>) (s\<lparr>sys_market := m1\<rparr>\<lparr>sys_market := m2\<rparr>)"
    by (rule step_market) (simp add: step.hyps)
  with step.IH show ?case by simp
qed simp

lemma borrow_run_steps:
  assumes "borrow_run F m p m' p'" "sys_borrow s k = Some p" "sys_market s = m"
  shows "(system_step F)\<^sup>*\<^sup>* s (s\<lparr>sys_market := m', sys_borrow := (sys_borrow s)(k \<mapsto> p')\<rparr>)"
  using assms
proof (induction rule: borrow_run.induct)
  case (run_none m p)
  then show ?case by (cases s) (simp add: fun_upd_idem)
next
  case (run_op m p m' p' m'' p'')
  let ?t = "s\<lparr>sys_market := m', sys_borrow := (sys_borrow s)(k \<mapsto> p')\<rparr>"
  have "system_step F ?t (?t\<lparr>sys_market := m'', sys_borrow := (sys_borrow ?t)(k \<mapsto> p'')\<rparr>)"
    by (rule step_borrow [of _ _ p']) (simp_all add: run_op.hyps)
  from rtranclp.rtrancl_into_rtrancl [OF run_op.IH [OF run_op.prems] this]
  show ?case by (simp add: fun_upd_def cong: if_cong)
qed

lemma market_write_simulated:
  assumes "chain key = Some (MarketAccount m)" "(market_operation F)\<^sup>*\<^sup>* m m'"
  shows "simulated F chain (chain(key \<mapsto> MarketAccount m'))"
  unfolding simulated_def
proof (intro allI impI)
  fix k s assume s: "market_view chain k = Some s"
  note view = view_other_write [of chain key "MarketAccount m'" k]
  show "\<exists>s'. market_view (chain(key \<mapsto> MarketAccount m')) k = Some s' \<and> (system_step F)\<^sup>*\<^sup>* s s'"
  proof (cases "k = key")
    case True
    with s assms(1) have "market_view (chain(key \<mapsto> MarketAccount m')) k = Some (s\<lparr>sys_market := m'\<rparr>)"
      "sys_market s = m" using view by (auto simp: market_view_Some)
    then show ?thesis using market_ops_steps [of F s m'] assms(2) by blast
  next
    case False
    with s assms(1) have "market_view (chain(key \<mapsto> MarketAccount m')) k = Some s"
      using view by (auto simp: market_view_Some)
    then show ?thesis by blast
  qed
qed

lemma supply_write_simulated:
  assumes "chain key = Some (MarketAccount m)" "chain pk = Some (SupplyPositionAccount p)" "sp_market p = key"
    "market_operation F m m1" "supply_operation F m1 p m' p'"
  shows "simulated F chain (chain(key \<mapsto> MarketAccount m', pk \<mapsto> SupplyPositionAccount p'))"
  unfolding simulated_def
proof (intro allI impI)
  let ?chain = "chain(key \<mapsto> MarketAccount m', pk \<mapsto> SupplyPositionAccount p')"
  have neq: "pk \<noteq> key" using assms(1,2) by auto
  have p': "sp_market p' = key" using supply_operation_identity [OF assms(5)] assms(3) by simp
  fix k s assume s: "market_view chain k = Some s"
  have sv: "supply_view ?chain k = (supply_view chain k)(pk := if key = k then Some p' else None)"
    using neq assms(1,2) p' by (simp add: view_supply_write view_other_write)
  have bv: "borrow_view ?chain k = borrow_view chain k"
    using neq assms(1,2) by (simp add: view_other_write)
  show "\<exists>s'. market_view ?chain k = Some s' \<and> (system_step F)\<^sup>*\<^sup>* s s'"
  proof (cases "k = key")
    case True
    have "system_step F s (s\<lparr>sys_market := m1\<rparr>)"
      using s assms(1,4) True by (intro step_market) (auto simp: market_view_Some)
    moreover have "system_step F (s\<lparr>sys_market := m1\<rparr>)
        (s\<lparr>sys_market := m1\<rparr>\<lparr>sys_market := m', sys_supply := (sys_supply (s\<lparr>sys_market := m1\<rparr>))(pk \<mapsto> p')\<rparr>)"
      using s assms True by (intro step_supply [of _ _ p]) (auto simp: market_view_Some supply_view_def)
    moreover have "market_view ?chain k = Some (s\<lparr>sys_market := m', sys_supply := (sys_supply s)(pk \<mapsto> p')\<rparr>)"
      using s assms(1) True neq sv bv by (auto simp: market_view_Some)
    ultimately show ?thesis by (auto intro: converse_rtranclp_into_rtranclp)
  next
    case False
    have "supply_view chain k pk = None" using False assms(2,3) by (simp add: supply_view_def)
    then have "market_view ?chain k = Some s"
      using False s assms(2) sv bv by (auto simp: market_view_Some fun_upd_idem)
    then show ?thesis by blast
  qed
qed

lemma borrow_write_simulated:
  assumes "chain key = Some (MarketAccount m)" "chain pk = Some (BorrowPositionAccount p)" "bp_market p = key"
    "market_operation F m m1" "borrow_run F m1 p m' p'"
  shows "simulated F chain (chain(key \<mapsto> MarketAccount m', pk \<mapsto> BorrowPositionAccount p'))"
  unfolding simulated_def
proof (intro allI impI)
  let ?chain = "chain(key \<mapsto> MarketAccount m', pk \<mapsto> BorrowPositionAccount p')"
  have neq: "pk \<noteq> key" using assms(1,2) by auto
  have p': "bp_market p' = key"
    using borrow_run_identity [OF assms(5)] assms(3) by (simp add: same_owner_def)
  fix k s assume s: "market_view chain k = Some s"
  have bv: "borrow_view ?chain k = (borrow_view chain k)(pk := if key = k then Some p' else None)"
    using neq assms(1,2) p' by (simp add: view_supply_write view_other_write)
  have sv: "supply_view ?chain k = supply_view chain k"
    using neq assms(1,2) by (simp add: view_other_write)
  show "\<exists>s'. market_view ?chain k = Some s' \<and> (system_step F)\<^sup>*\<^sup>* s s'"
  proof (cases "k = key")
    case True
    have "system_step F s (s\<lparr>sys_market := m1\<rparr>)"
      using s assms(1,4) True by (intro step_market) (auto simp: market_view_Some)
    moreover have "(system_step F)\<^sup>*\<^sup>* (s\<lparr>sys_market := m1\<rparr>)
        (s\<lparr>sys_market := m1\<rparr>\<lparr>sys_market := m', sys_borrow := (sys_borrow (s\<lparr>sys_market := m1\<rparr>))(pk \<mapsto> p')\<rparr>)"
      using s assms True by (intro borrow_run_steps) (auto simp: market_view_Some borrow_view_def)
    moreover have "market_view ?chain k = Some (s\<lparr>sys_market := m', sys_borrow := (sys_borrow s)(pk \<mapsto> p')\<rparr>)"
      using s assms(1) True neq sv bv by (auto simp: market_view_Some)
    ultimately show ?thesis by (auto intro: converse_rtranclp_into_rtranclp)
  next
    case False
    have "borrow_view chain k pk = None" using False assms(2,3) by (simp add: borrow_view_def)
    then have "market_view ?chain k = Some s"
      using False s assms(2) sv bv by (auto simp: market_view_Some fun_upd_idem)
    then show ?thesis by blast
  qed
qed

lemma simulated_refl [simp]: "simulated F chain chain"
  by (auto simp: simulated_def)

lemma simulated_trans: "simulated F c1 c2 \<Longrightarrow> simulated F c2 c3 \<Longrightarrow> simulated F c1 c3"
  unfolding simulated_def by (meson rtranclp_trans)

text \<open>Writes of an account that is neither a market nor a position, over one of the same kind or none.\<close>

fun in_market :: "account_data option \<Rightarrow> bool" where
  "in_market (Some (MarketAccount _)) \<longleftrightarrow> True"
| "in_market (Some (SupplyPositionAccount _)) \<longleftrightarrow> True"
| "in_market (Some (BorrowPositionAccount _)) \<longleftrightarrow> True"
| "in_market _ \<longleftrightarrow> False"

lemma not_in_market:
  "\<not> in_market d \<Longrightarrow> \<not> is_supply d \<and> \<not> is_borrow d" "\<not> in_market d \<Longrightarrow> d \<noteq> Some (MarketAccount m)"
  by (cases d rule: in_market.cases; simp)+

lemma other_write_simulated:
  assumes "\<not> in_market (chain k)" "\<not> in_market (Some d)"
  shows "simulated F chain (chain(k \<mapsto> d))"
proof -
  have "market_view (chain(k \<mapsto> d)) key = Some s" if "market_view chain key = Some s" for key s
  proof -
    have "key \<noteq> k" using that assms(1) not_in_market(2) by (auto simp: market_view_Some)
    then show ?thesis
      using that not_in_market(1) [OF assms(1)] not_in_market(1) [OF assms(2)]
      by (simp add: market_view_Some view_other_write)
  qed
  then show ?thesis by (auto simp: simulated_def)
qed

lemma new_market_simulated:
  assumes "chain k = None"
  shows "simulated F chain (chain(k \<mapsto> MarketAccount m))"
proof -
  have "market_view (chain(k \<mapsto> MarketAccount m)) key = Some s" if "market_view chain key = Some s" for key s
    using that assms by (auto simp: market_view_Some view_other_write)
  then show ?thesis by (auto simp: simulated_def)
qed

lemma new_supply_simulated:
  assumes "chain k = None"
  shows "simulated F chain (chain(k \<mapsto> SupplyPositionAccount (sp_initialize p authority key)))"
  unfolding simulated_def
proof (intro allI impI)
  let ?chain = "chain(k \<mapsto> SupplyPositionAccount (sp_initialize p authority key))"
  fix mk s assume s: "market_view chain mk = Some s"
  have none: "supply_view chain mk k = None" using assms by (simp add: supply_view_def)
  show "\<exists>s'. market_view ?chain mk = Some s' \<and> (system_step F)\<^sup>*\<^sup>* s s'"
  proof (cases "mk = key")
    case True
    have "system_step F s (s\<lparr>sys_supply := (sys_supply s)(k \<mapsto> sp_initialize p authority key)\<rparr>)"
      using s none by (intro step_create_supply) (auto simp: market_view_Some)
    moreover have "market_view ?chain mk = Some (s\<lparr>sys_supply := (sys_supply s)(k \<mapsto> sp_initialize p authority key)\<rparr>)"
      using s assms True by (auto simp: market_view_Some view_supply_write view_other_write sp_initialize_def)
    ultimately show ?thesis by blast
  next
    case False
    then have "market_view ?chain mk = Some s"
      using s assms none
      by (auto simp: market_view_Some view_supply_write view_other_write sp_initialize_def fun_upd_idem)
    then show ?thesis by blast
  qed
qed

lemma new_borrow_simulated:
  assumes "chain k = None"
  shows "simulated F chain (chain(k \<mapsto> BorrowPositionAccount (bp_initialize p authority key)))"
  unfolding simulated_def
proof (intro allI impI)
  let ?chain = "chain(k \<mapsto> BorrowPositionAccount (bp_initialize p authority key))"
  fix mk s assume s: "market_view chain mk = Some s"
  have none: "borrow_view chain mk k = None" using assms by (simp add: borrow_view_def)
  show "\<exists>s'. market_view ?chain mk = Some s' \<and> (system_step F)\<^sup>*\<^sup>* s s'"
  proof (cases "mk = key")
    case True
    have "system_step F s (s\<lparr>sys_borrow := (sys_borrow s)(k \<mapsto> bp_initialize p authority key)\<rparr>)"
      using s none by (intro step_create_borrow) (auto simp: market_view_Some)
    moreover have "market_view ?chain mk = Some (s\<lparr>sys_borrow := (sys_borrow s)(k \<mapsto> bp_initialize p authority key)\<rparr>)"
      using s assms True by (auto simp: market_view_Some view_supply_write view_other_write bp_initialize_def)
    ultimately show ?thesis by blast
  next
    case False
    then have "market_view ?chain mk = Some s"
      using s assms none
      by (auto simp: market_view_Some view_supply_write view_other_write bp_initialize_def fun_upd_idem)
    then show ?thesis by blast
  qed
qed

section \<open>Instructions\<close>

lemma supply_summary_simulated:
  assumes "presents chain accounts" "no_raw accounts" "supply_guard E accounts m p"
    "supply_summary F m p now effects"
  shows "simulated F chain (apply_effects effects chain)"
proof -
  from assms(4) obtain m1 m' p' calls where s: "market_sync_clock F (content m) now = Ok m1"
      "supply_operation F m1 (content p) m' p'"
      "effects = Write (acc_key m) (MarketAccount m') # Write (acc_key p) (SupplyPositionAccount p') # calls"
      "list_all is_call calls" by (auto simp: supply_summary_def)
  have "simulated F chain (chain(acc_key m \<mapsto> MarketAccount m', acc_key p \<mapsto> SupplyPositionAccount p'))"
    using assms(3) loaded_on_chain(1,2) [OF assms(1,2)] op_sync_clock [OF s(1)] s(2)
    by (intro supply_write_simulated) (auto simp: supply_guard_def)
  then show ?thesis using s(3,4) by (simp add: calls_apply)
qed

lemma borrow_summary_simulated:
  assumes "presents chain accounts" "no_raw accounts" "borrow_guard E accounts m p"
    "borrow_summary F m p now effects"
  shows "simulated F chain (apply_effects effects chain)"
proof -
  from assms(4) obtain m1 m' p' calls where s: "market_sync_clock F (content m) now = Ok m1"
      "borrow_run F m1 (content p) m' p'"
      "effects = Write (acc_key m) (MarketAccount m') # Write (acc_key p) (BorrowPositionAccount p') # calls"
      "list_all is_call calls" by (auto simp: borrow_summary_def)
  have "simulated F chain (chain(acc_key m \<mapsto> MarketAccount m', acc_key p \<mapsto> BorrowPositionAccount p'))"
    using assms(3) loaded_on_chain(1,3) [OF assms(1,2)] op_sync_clock [OF s(1)] s(2)
    by (intro borrow_write_simulated) (auto simp: borrow_guard_def)
  then show ?thesis using s(3,4) by (simp add: calls_apply)
qed

lemma market_summary_simulated:
  assumes "presents chain accounts" "no_raw accounts" "loaded (market_from_bytes E) accounts m"
    "market_summary F m effects"
  shows "simulated F chain (apply_effects effects chain)"
proof -
  from assms(4) obtain m' calls where s: "(market_operation F)\<^sup>*\<^sup>* (content m) m'"
      "effects = Write (acc_key m) (MarketAccount m') # calls" "list_all is_call calls"
    by (auto simp: market_summary_def)
  have "simulated F chain (chain(acc_key m \<mapsto> MarketAccount m'))"
    by (rule market_write_simulated [of chain "acc_key m" "content m" F m'])
      (use loaded_on_chain(1) [OF assms(1-3)] s(1) in auto)
  then show ?thesis using s(2,3) by (simp add: calls_apply)
qed

lemma update_if_operation:
  assumes "update_if field f m = Ok m'" "\<And>x. f m x = Ok m' \<Longrightarrow> market_operation F m m'"
  shows "(market_operation F)\<^sup>*\<^sup>* m m'"
  using assms by (auto simp: update_if_def split: option.splits)

lemma on_config_operation: "on_config f m x = Ok m' \<Longrightarrow> market_operation F m m'"
  by (auto simp: on_config_def bind_r_eq_Ok intro: op_config)

lemma config_updates_operations:
  assumes "apply_config_updates F d g m = Ok m'"
  shows "(market_operation F)\<^sup>*\<^sup>* m m'"
proof -
  from assms obtain m1 m2 m3 m4 m5 m6 where u:
    "update_if (up_supply_oracle_config d) set_supply_oracle_config m = Ok m1"
    "update_if (up_collateral_oracle_config d) set_collateral_oracle_config m1 = Ok m2"
    "update_if (up_ltv_config d) (on_config (update_ltv F)) m2 = Ok m3"
    "update_if (up_max_utilisation_rate d) (on_config (update_max_utilisation_rate F)) m3 = Ok m4"
    "update_if (up_max_supply_atoms d) (on_config (\<lambda>c n. Ok (update_max_supply_atoms c n))) m4 = Ok m5"
    "update_if (up_lending_market_fee_in_bps d) (on_config set_lending_market_fee) m5 = Ok m6"
    "m' = m6\<lparr>config := sync_global_config (config m6) g\<rparr>"
    by (auto simp: apply_config_updates_def bind_r_eq_Ok)
  have "(market_operation F)\<^sup>*\<^sup>* m m2"
    using update_if_operation [OF u(1) op_supply_oracle] update_if_operation [OF u(2) op_collateral_oracle]
    by (rule rtranclp_trans)
  moreover have "(market_operation F)\<^sup>*\<^sup>* m2 m4"
    using update_if_operation [OF u(3) on_config_operation] update_if_operation [OF u(4) on_config_operation]
    by (rule rtranclp_trans)
  moreover have "(market_operation F)\<^sup>*\<^sup>* m4 m6"
    using update_if_operation [OF u(5) on_config_operation] update_if_operation [OF u(6) on_config_operation]
    by (rule rtranclp_trans)
  moreover have "market_operation F m6 m'" unfolding u(7) by (rule op_config)
  ultimately show ?thesis by (meson rtranclp.rtrancl_into_rtrancl rtranclp_trans)
qed

lemma update_config_summary:
  "process_update_config F E a d now = POk effects \<Longrightarrow> market_summary F (uc_market a) effects"
  unfolding process_update_config_def market_summary_def
  by (fastforce intro: op_sync_clock converse_rtranclp_into_rtranclp config_updates_operations)

lemma whitelist_simulated:
  assumes "chain key = Some (MarketAccount m)" "\<not> in_market (chain k)"
  shows "simulated F chain (chain(k \<mapsto> LiquidatorWhitelistAccount e, key \<mapsto> MarketAccount (m\<lparr>config := c\<rparr>)))"
proof (rule simulated_trans)
  show "simulated F chain (chain(k \<mapsto> LiquidatorWhitelistAccount e))"
    using assms(2) by (rule other_write_simulated) simp
  have "k \<noteq> key" using assms by auto
  then show "simulated F (chain(k \<mapsto> LiquidatorWhitelistAccount e))
      (chain(k \<mapsto> LiquidatorWhitelistAccount e, key \<mapsto> MarketAccount (m\<lparr>config := c\<rparr>)))"
    using assms(1) by (intro market_write_simulated [of _ _ m]) (auto intro: op_config)
qed

lemma add_whitelisted_simulated:
  assumes "presents chain accounts" "no_raw accounts" "list_all (creates_fresh chain) effects"
    "add_whitelisted_liquidator_from_accounts E accounts l b = POk a"
    "process_add_whitelisted_liquidator E a d crate_id = POk effects"
  shows "simulated F chain (apply_effects effects chain)"
proof -
  from assms(5) obtain created e c ev where s: "effects = created @
      [Write (ai_key (aw_whitelist_entry a)) (LiquidatorWhitelistAccount e),
       Write (acc_key (aw_market a)) (MarketAccount ((content (aw_market a))\<lparr>config := c\<rparr>)),
       log_effect crate_id (aw_market a) ((content (aw_market a))\<lparr>config := c\<rparr>) ev]"
    "\<And>chain. apply_effects created chain = chain"
    "ai_owner (aw_whitelist_entry a) = crate_id \<Longrightarrow>
       \<exists>x. whitelist_from_bytes E (ai_data (aw_whitelist_entry a)) = Some x"
    by (fastforce simp: process_add_whitelisted_liquidator_def Let_def split: if_splits)
  have "\<not> in_market (chain (ai_key (aw_whitelist_entry a)))"
  proof (cases "ai_owner (aw_whitelist_entry a) = crate_id")
    case True
    then obtain x where "whitelist_from_bytes E (ai_data (aw_whitelist_entry a)) = Some x" using s(3) by blast
    then have "loaded (whitelist_from_bytes E) accounts (TypedAccount (aw_whitelist_entry a) x)"
      using True whitelist_entry_guard(1) [OF assms(4)] by (simp add: loaded_def)
    then show ?thesis using loaded_on_chain(5) [OF assms(1,2)] by fastforce
  next
    case False
    then show ?thesis
      using assms(1) whitelist_entry_guard(1) [OF assms(4)] by (auto simp: presents_def list_all_iff)
  qed
  moreover have "chain (acc_key (aw_market a)) = Some (MarketAccount (content (aw_market a)))"
    using curator_guards(3) [OF assms(4)] loaded_on_chain(1) [OF assms(1,2)]
    unfolding curator_guard_def by blast
  ultimately show ?thesis
    using whitelist_simulated s(1,2) by (simp add: log_effect_def)
qed

lemma remove_whitelisted_simulated:
  assumes "presents chain accounts" "no_raw accounts"
    "remove_whitelisted_liquidator_from_accounts E accounts l = POk a"
    "process_remove_whitelisted_liquidator a l pid = POk effects"
  shows "simulated F chain (apply_effects effects chain)"
proof -
  have "chain (acc_key (rw_whitelist_entry a)) = Some (LiquidatorWhitelistAccount (content (rw_whitelist_entry a)))"
    "chain (acc_key (rw_market a)) = Some (MarketAccount (content (rw_market a)))"
    using curator_guards(4) [OF assms(3)] loaded_on_chain(1,5) [OF assms(1,2)] by (auto simp: curator_guard_def)
  then show ?thesis
    using assms(4) whitelist_simulated [of chain "acc_key (rw_market a)" "content (rw_market a)"
        "acc_key (rw_whitelist_entry a)"]
    by (auto simp: process_remove_whitelisted_liquidator_def Let_def log_effect_def)
qed

lemma global_config_simulated:
  assumes "presents chain accounts" "no_raw accounts"
    "update_global_config_from_accounts E accounts = POk a" "process_update_global_config a d = POk effects"
  shows "simulated F chain (apply_effects effects chain)"
proof -
  have "chain (acc_key (ug_global_config a)) = Some (GlobalConfigAccount (content (ug_global_config a)))"
    using global_config_guard [OF assms(3)] loaded_on_chain(4) [OF assms(1,2)] by blast
  then show ?thesis
    using assms(4) by (auto simp: process_update_global_config_def Let_def intro!: other_write_simulated
        split: if_splits)
qed

lemma create_simulated:
  "list_all (creates_fresh chain) effects \<Longrightarrow> process_create_market F E a1 d1 pid now = POk effects
     \<Longrightarrow> simulated F chain (apply_effects effects chain)"
  "list_all (creates_fresh chain) effects \<Longrightarrow> process_create_supply_position E a2 b pid = POk effects
     \<Longrightarrow> simulated F chain (apply_effects effects chain)"
  "list_all (creates_fresh chain) effects \<Longrightarrow> process_create_borrow_position E a3 b pid = POk effects
     \<Longrightarrow> simulated F chain (apply_effects effects chain)"
  "list_all (creates_fresh chain) effects \<Longrightarrow> process_create_global_config E a4 d4 pid = POk effects
     \<Longrightarrow> simulated F chain (apply_effects effects chain)"
  by (auto simp: process_create_market_def process_create_supply_position_def
      process_create_borrow_position_def process_create_global_config_def Let_def
      intro!: new_market_simulated new_supply_simulated new_borrow_simulated other_write_simulated)

lemma instruction_simulated:
  assumes "process_aurata_instruction F E crate_id accounts now ix = POk effects"
    "presents chain accounts" "no_raw accounts" "list_all (creates_fresh chain) effects"
  shows "simulated F chain (apply_effects effects chain)"
proof -
  note sims = supply_summary_simulated [OF assms(2,3)] borrow_summary_simulated [OF assms(2,3)]
    market_summary_simulated [OF assms(2,3)] add_whitelisted_simulated [OF assms(2,3,4)]
    remove_whitelisted_simulated [OF assms(2,3)] global_config_simulated [OF assms(2,3)]
    create_simulated [OF assms(4)]
  note handlers = supply_handlers borrow_handlers leverage_handlers liquidation_handlers market_handlers
    update_config_summary
  show ?thesis
    using assms(1)
    by (cases ix)
      (auto simp: process_aurata_instruction_def intro: sims
        dest: handlers all_guards borrow_guard_loaded)
qed

text \<open>
  C3: Refinement. Let an instruction succeed on accounts as they are on the chain, none of them raw
  bytes, creating accounts only where there are none. Then every market on the chain, seen
  with its positions as a state of the transition system, moves by steps of that system: the
  operations of the library, started from the state that was there.
\<close>

theorem program_refines_system:
  assumes "process_aurata_instruction F E crate_id accounts now ix = POk effects"
    and "presents chain accounts" and "no_raw accounts" and "list_all (creates_fresh chain) effects"
    and "market_view chain key = Some s"
  shows "\<exists>s'. market_view (apply_effects effects chain) key = Some s' \<and> (system_step F)\<^sup>*\<^sup>* s s'"
  using instruction_simulated [OF assms(1-4)] assms(5) by (simp add: simulated_def)

section \<open>Instructions of the IDL\<close>

text \<open>
  The handler of the IDL takes any account of the program whose bytes begin with its discriminator, or are
  all zero. It tells the accounts of the market apart when none of those it is given looks like that.
\<close>

definition idl_tells_apart :: "environment \<Rightarrow> account_info list \<Rightarrow> bool" where
  "idl_tells_apart E accounts \<longleftrightarrow> list_all (\<lambda>a. ai_owner a = crate_id \<longrightarrow>
     (case ai_data a of
        RawAccount _ \<Rightarrow> True
      | d \<Rightarrow> \<not> has_idl_header (account_bytes E d) \<and> \<not> list_all (\<lambda>b. b = 0) (account_bytes E d))) accounts"

text \<open>The accounts of the market's instructions, without the raw ones.\<close>

definition typed_part :: "chain \<Rightarrow> chain" where
  "typed_part chain = (\<lambda>k. case chain k of Some (RawAccount _) \<Rightarrow> None | d \<Rightarrow> d)"

lemma typed_part_raw: "typed_part chain k = None \<longleftrightarrow> (\<forall>d. chain k = Some d \<longrightarrow> (\<exists>b. d = RawAccount b))"
  by (auto simp: typed_part_def split: option.splits account_data.splits)

lemma typed_part_Some: "typed_part chain k = Some d \<longleftrightarrow> chain k = Some d \<and> (\<forall>b. d \<noteq> RawAccount b)"
  by (auto simp: typed_part_def split: option.splits account_data.splits)

lemma typed_part_update:
  "typed_part chain k = None \<Longrightarrow> typed_part (chain(k \<mapsto> RawAccount b)) = typed_part chain"
  "typed_part chain k = None \<Longrightarrow> typed_part (chain(k := None)) = typed_part chain"
  by (auto simp: typed_part_def fun_eq_iff split: option.splits account_data.splits)

lemma typed_views:
  "market_view (typed_part chain) = market_view chain"
  by (auto simp: market_view_def supply_view_def borrow_view_def typed_part_def fun_eq_iff
      split: option.splits account_data.splits)

text \<open>An effect that leaves the typed accounts alone, where \<open>raw\<close> says which addresses hold none.\<close>

fun leaves_typed :: "(pubkey \<Rightarrow> bool) \<Rightarrow> effect \<Rightarrow> bool" where
  "leaves_typed raw (Write k d) \<longleftrightarrow> raw k \<and> (\<exists>b. d = RawAccount b)"
| "leaves_typed raw (Realloc k n) \<longleftrightarrow> raw k"
| "leaves_typed raw (Assign k own) \<longleftrightarrow> raw k"
| "leaves_typed raw _ \<longleftrightarrow> True"

lemma leaves_typed_apply:
  "list_all (leaves_typed (\<lambda>k. typed_part chain k = None)) effects \<Longrightarrow>
     typed_part (apply_effects effects chain) = typed_part chain"
proof (induction effects arbitrary: chain)
  case (Cons e effects)
  have "typed_part (apply_effect e chain) = typed_part chain"
    using Cons.prems by (cases e) (auto simp: typed_part_update split: option.splits account_data.splits)
  with Cons show ?case by simp
qed simp

lemma idl_account_raw:
  assumes "presents chain accounts" "idl_tells_apart E accounts" "a \<in> set accounts" "ai_owner a = crate_id"
    "has_idl_header (data_bytes E a) \<or> list_all (\<lambda>b. b = 0) (data_bytes E a)"
  shows "typed_part chain (ai_key a) = None"
  using assms
  by (auto simp: presents_def idl_tells_apart_def list_all_iff data_bytes_def typed_part_raw
      split: account_data.splits)

lemma idl_leaves_typed:
  assumes "process_idl_instruction E decode crate_id accounts data = POk effects"
    "presents chain accounts" "idl_tells_apart E accounts" "list_all (creates_fresh chain) effects"
  shows "list_all (leaves_typed (\<lambda>k. typed_part chain k = None)) effects"
proof -
  note raw = idl_account_raw [OF assms(2,3)]
  show ?thesis
    using assms(1,4)
    by (auto simp: process_idl_instruction_def idl_create_account_def idl_create_buffer_def idl_write_def
        idl_set_buffer_def idl_set_authority_def idl_resize_account_def idl_close_account_def check_owned_idl_def
        check_canonical_idl_def Let_def typed_part_raw [THEN iffD2] intro!: raw
        split: option.splits idl_instruction.splits if_splits)
qed

section \<open>Reachable states of the chain\<close>

text \<open>
  States of the chain that are reached from one without accounts of the program. An instruction of
  the market runs on accounts that are not raw bytes, and one of the IDL on accounts that it tells apart
  from those of the market; anybody may have the system program create a zeroed account for the
  program.
\<close>

inductive chain_reachable :: "fixed_crate \<Rightarrow> environment \<Rightarrow> chain \<Rightarrow> bool" for F E where
  chain_empty: "chain_reachable F E Map.empty"
| chain_step: "chain_reachable F E chain \<Longrightarrow>
    process_aurata_instruction F E crate_id accounts now ix = POk effects \<Longrightarrow>
    presents chain accounts \<Longrightarrow> no_raw accounts \<Longrightarrow> list_all (creates_fresh chain) effects \<Longrightarrow>
    chain_reachable F E (apply_effects effects chain)"
| chain_idl: "chain_reachable F E chain \<Longrightarrow>
    process_idl_instruction E decode crate_id accounts data = POk effects \<Longrightarrow>
    presents chain accounts \<Longrightarrow> idl_tells_apart E accounts \<Longrightarrow> list_all (creates_fresh chain) effects \<Longrightarrow>
    chain_reachable F E (apply_effects effects chain)"
| chain_allocate: "chain_reachable F E chain \<Longrightarrow> chain key = None \<Longrightarrow>
    chain_reachable F E (chain(key \<mapsto> RawAccount (replicate n 0)))"

text \<open>A freshly created account of the size of a market is zeroed.\<close>

definition created_zeroed :: "environment \<Rightarrow> bool" where
  "created_zeroed E \<longleftrightarrow> (\<forall>a m0. market_from_bytes E (ai_data (create_account_result E a 1448 crate_id)) = Some m0
     \<longrightarrow> total_collateral_atoms (m_collateral_vault m0) = 0
         \<and> pending_protocol_fee_shares (m_supply_vault m0) = uf_zero
         \<and> pending_curator_fee_shares (m_supply_vault m0) = uf_zero)"

text \<open>Every position names a market on the chain.\<close>

definition anchored :: "chain \<Rightarrow> bool" where
  "anchored chain \<longleftrightarrow>
     (\<forall>k p. chain k = Some (SupplyPositionAccount p) \<longrightarrow> (\<exists>m. chain (sp_market p) = Some (MarketAccount m)))
     \<and> (\<forall>k p. chain k = Some (BorrowPositionAccount p) \<longrightarrow> (\<exists>m. chain (bp_market p) = Some (MarketAccount m)))"

lemma applied_write:
  "apply_effects effects chain k = Some d \<Longrightarrow> (\<And>b. d \<noteq> RawAccount b) \<Longrightarrow>
     chain k = Some d \<or> Write k d \<in> set effects"
proof (induction effects arbitrary: chain)
  case (Cons e effects)
  have "apply_effect e chain k = Some d \<or> Write k d \<in> set effects"
    by (rule Cons.IH) (use Cons.prems in simp_all)
  then show ?case
    using Cons.prems(2) by (cases e) (auto split: if_splits option.splits account_data.splits)
qed simp

lemma read_at_on_chain:
  assumes "presents chain accounts" "no_raw accounts" "read_at (market_from_bytes E) accounts key m"
  shows "chain key = Some (MarketAccount m)"
proof -
  from assms(3) obtain a where "a \<in> set accounts" "ai_key a = key" "ai_owner a = crate_id"
      "market_from_bytes E (ai_data a) = Some m" by (auto simp: read_at_def list_ex_iff)
  then show ?thesis
    using loaded_on_chain(1) [OF assms(1,2), of E "TypedAccount a m"] by (simp add: loaded_def)
qed

lemma simulated_market:
  "simulated F chain chain' \<Longrightarrow> chain key = Some (MarketAccount m) \<Longrightarrow> \<exists>m'. chain' key = Some (MarketAccount m')"
  unfolding simulated_def market_view_Some by blast

lemma step_anchored:
  assumes "process_aurata_instruction F E crate_id accounts now ix = POk effects"
    "presents chain accounts" "no_raw accounts" "list_all (creates_fresh chain) effects" "anchored chain"
  shows "anchored (apply_effects effects chain)"
proof -
  let ?chain = "apply_effects effects chain"
  have stays: "\<exists>m'. ?chain key = Some (MarketAccount m')" if "chain key = Some (MarketAccount m)" for key m
    using simulated_market [OF instruction_simulated [OF assms(1-4)] that] .
  have auth: "Write k d \<in> set effects \<Longrightarrow> write_authorised E accounts ix k d" for k d
    using instruction_authorised [OF assms(1)] by (simp add: writes_authorised_def)
  have "\<exists>m. chain (sp_market p) = Some (MarketAccount m)" if "?chain k = Some (SupplyPositionAccount p)" for k p
    using applied_write [OF that] assms(5) auth read_at_on_chain [OF assms(2,3)]
    by (fastforce simp: anchored_def)
  moreover have "\<exists>m. chain (bp_market p) = Some (MarketAccount m)" if "?chain k = Some (BorrowPositionAccount p)" for k p
    using applied_write [OF that] assms(5) auth read_at_on_chain [OF assms(2,3)]
    by (fastforce simp: anchored_def)
  ultimately show ?thesis using stays unfolding anchored_def by meson
qed

lemma created_market_initial:
  assumes "process_create_market F E a d crate_id now = POk effects" "created_zeroed E"
  obtains creations m where "effects = creations @ [Write (ai_key (cm_market a)) (MarketAccount m)]"
    "\<And>chain. apply_effects creations chain = chain"
    "\<And>chain. list_all (creates_fresh chain) effects \<Longrightarrow> chain (ai_key (cm_market a)) = None"
    "initial_system F \<lparr>sys_market = m, sys_supply = Map.empty, sys_borrow = Map.empty\<rparr>"
proof -
  from assms(1) obtain account c m1 m creations where s:
    "market_from_bytes E (ai_data (create_account_result E (cm_market a) 1448 crate_id)) = Some (content account)"
    "initlize_supply_vault F ((content account)\<lparr>config := c\<rparr>) (acc_key (cm_supply_mint a))
       (ucast (mint_decimals (content (cm_supply_mint a)))) (ai_key (cm_supply_vault a))
       (ix_supply_oracle_config d) (ix_interest_rate d) now = Ok m1"
    "initialize_collateral_vault m1 (acc_key (cm_collateral_mint a))
       (ucast (mint_decimals (content (cm_collateral_mint a)))) (ai_key (cm_collateral_vault a))
       (ix_collateral_oracle_config d) = Ok m"
    "effects = creations @ [Write (ai_key (cm_market a)) (MarketAccount m)]"
    "\<And>chain. apply_effects creations chain = chain"
    "\<And>chain. list_all (creates_fresh chain) effects \<Longrightarrow> chain (ai_key (cm_market a)) = None"
    by (auto simp: process_create_market_def Let_def)
  let ?m0 = "(content account)\<lparr>config := c\<rparr>"
  obtain cv where cv: "cv_initialize (m_collateral_vault ?m0) (acc_key (cm_collateral_mint a))
       (ucast (mint_decimals (content (cm_collateral_mint a)))) (ai_key (cm_collateral_vault a))
       (ix_collateral_oracle_config d) = Ok cv" "m = m1\<lparr>m_collateral_vault := cv\<rparr>"
    using s(2,3) by (auto simp: initialize_collateral_vault_def initlize_supply_vault_def bind_r_eq_Ok)
  have "initialize_collateral_vault ?m0 (acc_key (cm_collateral_mint a))
       (ucast (mint_decimals (content (cm_collateral_mint a)))) (ai_key (cm_collateral_vault a))
       (ix_collateral_oracle_config d) = Ok (?m0\<lparr>m_collateral_vault := cv\<rparr>)"
    using cv(1) by (simp add: initialize_collateral_vault_def)
  moreover have "initlize_supply_vault F (?m0\<lparr>m_collateral_vault := cv\<rparr>) (acc_key (cm_supply_mint a))
       (ucast (mint_decimals (content (cm_supply_mint a)))) (ai_key (cm_supply_vault a))
       (ix_supply_oracle_config d) (ix_interest_rate d) now = Ok m"
    using s(2) cv(2) by (auto simp: initlize_supply_vault_def bind_r_eq_Ok)
  ultimately have "initial_system F \<lparr>sys_market = m, sys_supply = Map.empty, sys_borrow = Map.empty\<rparr>"
    using assms(2) s(1) by (intro initial_system.intros [of ?m0]) (auto simp: created_zeroed_def)
  then show ?thesis using that s(4-6) by blast
qed

lemma reachable_steps: "(system_step F)\<^sup>*\<^sup>* s s' \<Longrightarrow> reachable F s \<Longrightarrow> reachable F s'"
  by (induction rule: rtranclp_induct) (auto intro: reach_step)

definition chain_ok :: "fixed_crate \<Rightarrow> chain \<Rightarrow> bool" where
  "chain_ok F chain \<longleftrightarrow> anchored chain \<and> (\<forall>key s. market_view chain key = Some s \<longrightarrow> reachable F s)"

text \<open>A market that appears on the chain was created, and is in an initial state.\<close>

lemma new_market_reachable:
  assumes "process_aurata_instruction F E crate_id accounts now ix = POk effects"
    "presents chain accounts" "no_raw accounts" "list_all (creates_fresh chain) effects"
    "created_zeroed E" "anchored chain"
    "market_view (apply_effects effects chain) key = Some s" "market_view chain key = None"
  shows "reachable F s"
proof -
  obtain m where m: "apply_effects effects chain key = Some (MarketAccount m)"
    using assms(7) by (auto simp: market_view_Some)
  have none: "chain key \<noteq> Some (MarketAccount m')" for m' using assms(8) by (auto simp: market_view_def)
  then have "Write key (MarketAccount m) \<in> set effects" using applied_write [OF m] by blast
  then have "write_authorised E accounts ix key (MarketAccount m)"
    using instruction_authorised [OF assms(1)] unfolding writes_authorised_def by blast
  moreover have "\<not> read_at (market_from_bytes E) accounts key m'" for m'
    using none read_at_on_chain [OF assms(2,3)] by blast
  ultimately obtain d where ix: "ix = CreateMarket d" by auto
  then obtain a where "process_create_market F E a d crate_id now = POk effects"
    using assms(1) by (auto simp: process_aurata_instruction_def)
  from created_market_initial [OF this assms(5)] obtain creations m' where c:
    "effects = creations @ [Write (ai_key (cm_market a)) (MarketAccount m')]"
    "\<And>chain. apply_effects creations chain = chain"
    "\<And>chain. list_all (creates_fresh chain) effects \<Longrightarrow> chain (ai_key (cm_market a)) = None"
    "initial_system F \<lparr>sys_market = m', sys_supply = Map.empty, sys_borrow = Map.empty\<rparr>" by blast
  have chain': "apply_effects effects chain = chain(ai_key (cm_market a) \<mapsto> MarketAccount m')"
    using c(1,2) by simp
  have key: "key = ai_key (cm_market a)"
    using m none unfolding chain' by (cases "key = ai_key (cm_market a)") auto
  have fresh: "chain key = None" using c(3) [OF assms(4)] key by simp
  have "supply_view chain key = Map.empty" "borrow_view chain key = Map.empty"
    using assms(6) fresh
    by (force simp: supply_view_def borrow_view_def anchored_def fun_eq_iff
        split: option.splits account_data.splits)+
  then have "s = \<lparr>sys_market = m', sys_supply = Map.empty, sys_borrow = Map.empty\<rparr>"
    using assms(7) fresh unfolding chain' key by (auto simp: market_view_Some view_other_write)
  then show ?thesis using c(4) by (simp add: reach_init)
qed

lemma step_chain_ok:
  assumes "process_aurata_instruction F E crate_id accounts now ix = POk effects"
    "presents chain accounts" "no_raw accounts" "list_all (creates_fresh chain) effects"
    "created_zeroed E" "chain_ok F chain"
  shows "chain_ok F (apply_effects effects chain)"
proof -
  have anch: "anchored chain" using assms(6) by (simp add: chain_ok_def)
  have "reachable F s" if v: "market_view (apply_effects effects chain) key = Some s" for key s
  proof (cases "market_view chain key")
    case None
    then show ?thesis using new_market_reachable [OF assms(1-5) anch v] by blast
  next
    case (Some s0)
    moreover have "reachable F s0" using assms(6) Some by (simp add: chain_ok_def)
    ultimately show ?thesis
      using instruction_simulated [OF assms(1-4)] v reachable_steps unfolding simulated_def by fastforce
  qed
  then show ?thesis using step_anchored [OF assms(1-4) anch] by (simp add: chain_ok_def)
qed

lemma chain_ok_typed: "chain_ok F (typed_part chain) \<longleftrightarrow> chain_ok F chain"
proof -
  have "anchored (typed_part chain) \<longleftrightarrow> anchored chain"
    by (simp add: anchored_def typed_part_Some)
  then show ?thesis by (simp add: chain_ok_def typed_views)
qed

lemma chain_reachable_ok: "chain_reachable F E chain \<Longrightarrow> created_zeroed E \<Longrightarrow> chain_ok F chain"
proof (induction rule: chain_reachable.induct)
  case chain_empty
  show ?case by (simp add: chain_ok_def anchored_def market_view_def)
next
  case (chain_step chain accounts now ix effects)
  then show ?case by (blast intro: step_chain_ok)
next
  case (chain_idl chain decode accounts data effects)
  have "typed_part (apply_effects effects chain) = typed_part chain"
    using idl_leaves_typed [OF chain_idl.hyps(2-5)] by (rule leaves_typed_apply)
  with chain_idl.IH chain_idl.prems show ?case by (metis chain_ok_typed)
next
  case (chain_allocate chain key n)
  then have "typed_part (chain(key \<mapsto> RawAccount (replicate n 0))) = typed_part chain"
    by (intro typed_part_update) (simp add: typed_part_def)
  with chain_allocate.IH chain_allocate.prems show ?case by (metis chain_ok_typed)
qed

text \<open>
  C2: The books of every market on the chain balance. In every state of the chain that instructions of the
  market and of the IDL and zeroed accounts made for the program by others reach from an empty one,
  each market has as many supply shares as the positions that name it and its pending fees hold, as many
  debt shares as its borrowers owe, and as much collateral on record as its borrowers have deposited; and
  every position names a market that exists. Two kinds of runs are excluded, as explicit conditions of
  the steps. An instruction of the market is never given an account of the program that is raw bytes, such
  as one that instructions of the IDL have filled: the program has no check against that, and a forged
  position passes its loader (see the theory \<open>Program_Gaps\<close>). And an instruction of the
  IDL is not given an account of the market whose bytes happen to begin with the discriminator of the IDL
  or are all zero.
\<close>

theorem on_chain_books_balance:
  assumes "fixed_crate_spec F" and "created_zeroed E" and "chain_reachable F E chain"
  shows "anchored chain \<and> (\<forall>key s. market_view chain key = Some s \<longrightarrow> books_balance s)"
  using chain_reachable_ok [OF assms(3,2)] fixed_crate_spec.reachable_books [OF assms(1)]
  by (simp add: chain_ok_def)

section \<open>Instances\<close>

definition example_chain :: chain where
  "example_chain = [12 \<mapsto> MarketAccount (example_market 1000 0 0),
     30 \<mapsto> BorrowPositionAccount (example_borrower 0 0)]"

theorem program_refines_system_witness:
  "\<exists>effects s s'. process_aurata_instruction fixed_reference example_env crate_id
      example_borrow_deposit_accounts 1000 example_borrow_deposit = POk effects
    \<and> market_view example_chain 12 = Some s
    \<and> market_view (apply_effects effects example_chain) 12 = Some s'
    \<and> (system_step fixed_reference)\<^sup>*\<^sup>* s s'"
proof -
  obtain m p ev where r: "process_aurata_instruction fixed_reference example_env crate_id
      example_borrow_deposit_accounts 1000 example_borrow_deposit
    = POk [Write 12 (MarketAccount m), Write 30 (BorrowPositionAccount p),
          LogEvent crate_id 12 (EvBorrowAndDeposit ev) [market_seed m],
          TokenTransfer 101 50 12 200 [market_seed m], Invoke example_callback,
          TokenTransfer 51 201 11 400 []]" using example_borrow_deposit_runs by blast
  have "presents example_chain example_borrow_deposit_accounts" "no_raw example_borrow_deposit_accounts"
    by (simp_all add: presents_def no_raw_def example_chain_def program_example_defs crate_id_def)
  moreover obtain s where "market_view example_chain 12 = Some s"
    by (simp add: market_view_def example_chain_def)
  ultimately show ?thesis
    using program_refines_system [OF r, of example_chain 12 s] r by auto
qed

lemma example_env_zeroed: "created_zeroed example_env"
  by (auto simp: created_zeroed_def example_env_def example_defs)

lemma example_chain_created:
  "\<exists>m. chain_reachable fixed_reference example_env
     [5 \<mapsto> GlobalConfigAccount example_global_config, 12 \<mapsto> MarketAccount m]"
proof -
  have "presents Map.empty example_create_config_accounts" "no_raw example_create_config_accounts"
    by (simp_all add: presents_def no_raw_def example_create_config_accounts_def example_account_def
        crate_id_def)
  from chain_step [OF chain_empty example_create_config_runs this]
  have c: "chain_reachable fixed_reference example_env [5 \<mapsto> GlobalConfigAccount example_global_config]"
    by simp
  obtain m where r: "process_aurata_instruction fixed_reference example_env crate_id
      (example_create_market_accounts 12) 1000 example_create_market
     = POk [CreateAccount 9 12 1448 crate_id [market_seed_with_bump 9 100 200 0 255],
          CreateAta 9 112 12 100, CreateAta 9 212 12 200, Write 12 (MarketAccount m)]"
    using example_create_market_runs [of 12] by auto
  have "presents [5 \<mapsto> GlobalConfigAccount example_global_config] (example_create_market_accounts 12)"
    "no_raw (example_create_market_accounts 12)"
    by (simp_all add: presents_def no_raw_def example_create_market_accounts_def example_account_def
        example_mint_def crate_id_def)
  from chain_step [OF c r this] show ?thesis by auto
qed

theorem on_chain_books_balance_witness:
  "\<exists>chain s. chain_reachable fixed_reference example_env chain \<and> market_view chain 12 = Some s
     \<and> books_balance s"
proof -
  obtain m where c: "chain_reachable fixed_reference example_env
     [5 \<mapsto> GlobalConfigAccount example_global_config, 12 \<mapsto> MarketAccount m]"
    using example_chain_created by blast
  moreover obtain s where s: "market_view [5 \<mapsto> GlobalConfigAccount example_global_config,
      12 \<mapsto> MarketAccount m] 12 = Some s" by (simp add: market_view_def)
  ultimately show ?thesis
    using on_chain_books_balance [OF fixed_ref.fixed_crate_spec_axioms example_env_zeroed c] by blast
qed

end
