(* ===== verification/Program_Reserves.thy ===== *)
theory Program_Reserves
  imports Market_Safety Program_Custody
begin

text \<open>
  The supply side of custody. What the lenders may claim from the supply vault beyond what the borrowers
  owe it is the amount of tokens the vault has to hold. Apart from the accrual of interest, no
  operation raises this amount by more than the tokens that it brings in and two atoms of rounding.
\<close>

section \<open>Claims on the supply vault\<close>

text \<open>In units of \<open>2^-64\<close> atoms.\<close>

definition net_claims :: "supply_vault \<Rightarrow> int" where
  "net_claims v = pool_value (supply_shares_tracker v) - pool_value (borrow_shares_tracker v)"

text \<open>The tokens the vault receives cover the change of the claims, up to two atoms.\<close>

definition claims_covered :: "supply_vault \<Rightarrow> supply_vault \<Rightarrow> int \<Rightarrow> bool" where
  "claims_covered v v' flow \<longleftrightarrow> net_claims v' \<le> net_claims v + (flow + 2) * 2 ^ 64"

context fixed_crate_spec
begin

lemma pool_value_deposit:
  assumes "deposit_atoms F t a = Ok (t', s)"
  shows "pool_value t' \<le> pool_value t + uint a * 2 ^ 64 + 1"
    and "pool_value t + uint a * 2 ^ 64 - 2 ^ 64 \<le> pool_value t'"
proof -
  note d = deposit_atoms_Ok [OF assms]
  have t: "uval (total_shares t) = uval (total_shares t') - uval s" using d(2) by simp
  have sv: "share_value t' s = share_value t s" by (rule share_value_cong [OF d(3)])
  show "pool_value t' \<le> pool_value t + uint a * 2 ^ 64 + 1"
    using pool_value_split_upper [OF t d(3) [symmetric]] share_value_of_atoms(1) [OF d(1)] sv by linarith
  show "pool_value t + uint a * 2 ^ 64 - 2 ^ 64 \<le> pool_value t'"
    using pool_value_split [OF t d(3) [symmetric]] share_value_of_atoms(2) [OF d(1)] sv by linarith
qed

lemma pool_value_withdraw_atoms:
  assumes "st_withdraw_atoms F t a = Ok (t', s)"
  shows "pool_value t' \<le> pool_value t - uint a * 2 ^ 64 + 2 ^ 64"
    and "pool_value t - uint a * 2 ^ 64 - 1 \<le> pool_value t'"
proof -
  note w = st_withdraw_atoms_Ok [OF assms]
  note v = share_value_of_atoms [OF w(1)]
  show "pool_value t' \<le> pool_value t - uint a * 2 ^ 64 + 2 ^ 64"
    using pool_value_split [OF w(2,3)] v(2) by linarith
  show "pool_value t - uint a * 2 ^ 64 - 1 \<le> pool_value t'"
    using pool_value_split_upper [OF w(2,3)] v(1) by linarith
qed

lemma share_value_rounded:
  "shares_to_atoms F t s RoundDown = Ok n \<Longrightarrow> uint n * 2 ^ 64 \<le> share_value t s"
  "shares_to_atoms F t s RoundUp = Ok k \<Longrightarrow> share_value t s \<le> uint k * 2 ^ 64 + 2 ^ 64 - 1"
proof -
  show "shares_to_atoms F t s RoundDown = Ok n \<Longrightarrow> uint n * 2 ^ 64 \<le> share_value t s"
    using div_mult_bounds(1) [of "2 ^ 64" "share_value t s"] by (simp only: shares_to_atoms_down) simp
  assume "shares_to_atoms F t s RoundUp = Ok k"
  then have v: "share_value t s < 2 ^ 128" "uint k = min (up64 (share_value t s)) (2 ^ 64 - 1)"
    by (simp_all only: shares_to_atoms_up)
  show "share_value t s \<le> uint k * 2 ^ 64 + 2 ^ 64 - 1"
    using v up64_bounds(1) [of "share_value t s"] by (auto simp: min_def split: if_splits)
qed

lemma pool_value_withdraw_shares:
  "st_withdraw_shares F t s RoundDown = Ok (t', n) \<Longrightarrow> pool_value t' \<le> pool_value t - uint n * 2 ^ 64"
  "st_withdraw_shares F t s RoundUp = Ok (t', k) \<Longrightarrow> pool_value t - uint k * 2 ^ 64 - 2 ^ 64 \<le> pool_value t'"
proof -
  show "st_withdraw_shares F t s RoundDown = Ok (t', n) \<Longrightarrow> pool_value t' \<le> pool_value t - uint n * 2 ^ 64"
    using pool_value_split [of t' t s] share_value_rounded(1) [of t s n] st_withdraw_shares_Ok [of t s RoundDown t' n]
    by fastforce
  show "st_withdraw_shares F t s RoundUp = Ok (t', k) \<Longrightarrow> pool_value t - uint k * 2 ^ 64 - 2 ^ 64 \<le> pool_value t'"
    using pool_value_split_upper [of t' t s] share_value_rounded(2) [of t s k] st_withdraw_shares_Ok [of t s RoundUp t' k]
    by fastforce
qed

lemma pool_value_capped:
  assumes "withdraw_atoms_capped F t a m RoundUp = Ok (t', n, s)"
  shows "pool_value t - uint n * 2 ^ 64 - 2 ^ 64 \<le> pool_value t'"
proof -
  note w = withdraw_atoms_capped_Ok [OF assms]
  have "share_value t s \<le> uint n * 2 ^ 64 + 2 ^ 64 - 1"
    using w(1) share_value_of_atoms(1) [of t a s] share_value_rounded(2) [of t m n]
    by (auto split: if_splits)
  then show ?thesis using pool_value_split_upper [OF w(2,3)] by linarith
qed

lemma pool_value_donate:
  assumes "donate_atoms F t a = Ok t'"
  shows "pool_value t' \<le> pool_value t + uint a * 2 ^ 64"
proof -
  note d = donate_atoms_Ok [OF assms]
  have S: "0 < uval (total_shares t)" "uval (total_shares t) \<le> 2 ^ 64 * 2 ^ 64"
    using d(1) uval_less [of "total_shares t"] by (simp_all add: uval_pos)
  have p: "uval (atoms_per_share t') =
      uval (atoms_per_share t) + uint a * (2 ^ 64 * 2 ^ 64) div uval (total_shares t)"
    using d(2) by simp
  show ?thesis
    unfolding pool_value_def share_value_def d(3) p by (rule shift_price [OF _ S]) simp
qed

lemma pool_value_loss:
  assumes "socialize_loss_atoms F t a = Ok t'"
  shows "pool_value t' \<le> pool_value t - (uint a - 1) * 2 ^ 64"
proof -
  note d = socialize_loss_atoms_Ok [OF assms]
  have S: "0 < uval (total_shares t)" "uval (total_shares t) \<le> 2 ^ 64 * 2 ^ 64"
    using d(1) uval_less [of "total_shares t"] by (simp_all add: uval_pos)
  have p: "uval (atoms_per_share t') =
      uval (atoms_per_share t) - uint a * (2 ^ 64 * 2 ^ 64) div uval (total_shares t)"
    using d(2) by simp
  show ?thesis
    unfolding pool_value_def share_value_def d(3) p by (rule shift_price [OF _ S]) simp
qed

section \<open>What operations do to the claims\<close>

lemmas claim_simps = claims_covered_def net_claims_def bind_r_eq_Ok algebra_simps

lemma sv_claims:
  "sv_lend F v a = Ok (v1, s) \<Longrightarrow> claims_covered v v1 (uint a)"
  "sv_withdraw_atoms F v a = Ok (v2, s) \<Longrightarrow> claims_covered v v2 (- uint a)"
  "sv_withdraw_shares F v s = Ok (v3, n) \<Longrightarrow> claims_covered v v3 (- uint n)"
  "sv_donate_supply F v a = Ok v4 \<Longrightarrow> claims_covered v v4 (uint a)"
  "sv_borrow F v a = Ok (v5, s) \<Longrightarrow> claims_covered v v5 (- uint a)"
  "sv_repay_atoms F v a = Ok (v6, s) \<Longrightarrow> claims_covered v v6 (uint a)"
  "sv_repay_shares F v s = Ok (v7, n) \<Longrightarrow> claims_covered v v7 (uint n)"
  "repay_atoms_capped F v a mx = Ok (v8, n, s) \<Longrightarrow> claims_covered v v8 (uint n)"
  "sv_socialize_loss F v s = Ok (v9, n) \<Longrightarrow> claims_covered v v9 0"
  subgoal by (auto simp: sv_lend_def claim_simps dest!: pool_value_deposit(1))
  subgoal by (auto simp: sv_withdraw_atoms_def claim_simps dest!: pool_value_withdraw_atoms(1))
  subgoal by (auto simp: sv_withdraw_shares_def claim_simps dest!: pool_value_withdraw_shares(1))
  subgoal by (auto simp: sv_donate_supply_def claim_simps dest!: pool_value_donate)
  subgoal by (auto simp: sv_borrow_def claim_simps dest!: pool_value_deposit(2))
  subgoal by (auto simp: sv_repay_atoms_def claim_simps dest!: pool_value_withdraw_atoms(2))
  subgoal by (auto simp: sv_repay_shares_def claim_simps dest!: pool_value_withdraw_shares(2))
  subgoal by (auto simp: repay_atoms_capped_def claim_simps dest!: pool_value_capped)
  subgoal by (auto simp: sv_socialize_loss_def claim_simps dest!: pool_value_withdraw_shares(2) pool_value_loss)
  done

lemma repay_atoms_capped_le: "repay_atoms_capped F v a mx = Ok (v', n, s) \<Longrightarrow> n \<le> a"
  by (auto simp: repay_atoms_capped_def bind_r_eq_Ok word_le_def dest: capped_withdrawal(1))

abbreviation covered :: "market_wrapper \<Rightarrow> market_wrapper \<Rightarrow> int \<Rightarrow> bool" where
  "covered w w' flow \<equiv> claims_covered (m_supply_vault (mw_market w)) (m_supply_vault (mw_market w')) flow"

lemma mw_supply_claims:
  "mw_lend F w p a = Ok (w1, p') \<Longrightarrow> covered w w1 (uint a)"
  "mw_withdraw F w p a = Ok (w2, p') \<Longrightarrow> covered w w2 (- uint a)"
  "mw_withdraw_all F w p = Ok (w3, p', n) \<Longrightarrow> covered w w3 (- uint n)"
  by (auto simp: mw_lend_def mw_withdraw_def mw_withdraw_all_def market_lend_def market_withdraw_def
      market_withdraw_all_def bind_r_eq_Ok split: if_splits dest: sv_claims)

lemma mw_borrow_claims:
  "mw_borrow F w p a = Ok (w1, q) \<Longrightarrow> covered w w1 (- uint a)"
  "repay_or_all F w p all a = POk (w2, q, n) \<Longrightarrow> covered w w2 (uint n)"
  "mw_socialize_loss F w p = Ok (w3, q, dt, c) \<Longrightarrow> covered w w3 0"
  by (auto simp: mw_borrow_def repay_or_all_def mw_repay_def mw_repay_all_def mw_socialize_loss_def
      market_borrow_def market_repay_def market_repay_all_def market_socialize_loss_def bind_r_eq_Ok Let_def
      split: if_splits dest: sv_claims)

lemma capped_claims:
  "repay_atoms_capped F v (borrowed_atoms_to_repay l) mx = Ok (v', n, s) \<Longrightarrow>
     claims_covered v v' (uint (borrowed_atoms_to_repay (lrb_adjust_for_max_repay l n)))"
  using repay_atoms_capped_le [of v "borrowed_atoms_to_repay l" mx v' n s]
    sv_claims(8) [of v "borrowed_atoms_to_repay l" mx v' n s]
  by (simp add: lrb_adjust_repay min_absorb2)

lemma mw_liquidation_claims:
  "mw_liquidate F w p mx = Ok (w1, q, r) \<Longrightarrow>
     covered w w1 (uint (borrowed_atoms_to_repay (lc_liquidation r)))"
  "mw_settle_capital_sweep F w p mx mc = Ok (w2, q, s) \<Longrightarrow>
     covered w w2 (uint (borrowed_atoms_to_repay (cs_liquidation s)))"
  by (auto simp: mw_liquidate_def mw_settle_capital_sweep_def market_liquidate_def
      market_settle_capital_sweep_def bind_r_eq_Ok Let_def split: if_splits dest: capped_claims)

end

lemma mw_supply_vault_kept:
  "mw_deposit_collateral w p a = Ok (w1, q) \<Longrightarrow> m_supply_vault (mw_market w1) = m_supply_vault (mw_market w)"
  "mw_withdraw_collateral F w p a = Ok (w2, q) \<Longrightarrow> m_supply_vault (mw_market w2) = m_supply_vault (mw_market w)"
  "mw_begin_capital_sweep F w p = Ok (w3, q, h) \<Longrightarrow> m_supply_vault (mw_market w3) = m_supply_vault (mw_market w)"
  by (auto simp: mw_deposit_collateral_def mw_withdraw_collateral_def mw_begin_capital_sweep_def
      market_deposit_collateral_def market_withdraw_collateral_def market_begin_capital_sweep_def
      bind_r_eq_Ok split: if_splits)


context fixed_crate_spec
begin

lemma market_claims:
  "redeem_protocol_fees F m = Ok (m1, n) \<Longrightarrow> claims_covered (m_supply_vault m) (m_supply_vault m1) (- uint n)"
  "redeem_curator_fess F m = Ok (m2, n) \<Longrightarrow> claims_covered (m_supply_vault m) (m_supply_vault m2) (- uint n)"
  "donate_supply_atoms F m a = Ok m3 \<Longrightarrow> claims_covered (m_supply_vault m) (m_supply_vault m3) (uint a)"
  subgoal by (auto simp: redeem_protocol_fees_def sv_redeem_protocol_fees_def sv_withdraw_shares_def claim_simps dest!: pool_value_withdraw_shares(1))
  subgoal by (auto simp: redeem_curator_fess_def sv_redeem_curator_fees_def sv_withdraw_shares_def claim_simps dest!: pool_value_withdraw_shares(1))
  subgoal by (auto simp: donate_supply_atoms_def bind_r_eq_Ok dest!: sv_claims(4))
  done

end

lemma config_updates_supply:
  "apply_config_updates F d g m = Ok m' \<Longrightarrow> net_claims (m_supply_vault m') = net_claims (m_supply_vault m)"
  by (auto simp: apply_config_updates_def update_if_def on_config_def set_supply_oracle_config_def
      set_collateral_oracle_config_def net_claims_def bind_r_eq_Ok split: option.splits)

section \<open>What handlers do to the supply vault\<close>

definition reserve_ok :: "fixed_crate \<Rightarrow> i64 \<Rightarrow> market typed_account \<Rightarrow> effect list \<Rightarrow> bool" where
  "reserve_ok F now account effects \<longleftrightarrow> (\<forall>key m'. Write key (MarketAccount m') \<in> set effects \<longrightarrow>
     key = acc_key account
     \<and> (\<exists>m1. (m1 = content account \<or> market_sync_clock F (content account) now = Ok m1)
        \<and> (let vault = sv_vault (m_supply_vault (content account)) in
           vault \<noteq> cv_vault (m_collateral_vault (content account)) \<longrightarrow> vault_untouched_by_users vault effects
           \<longrightarrow> claims_covered (m_supply_vault m1) (m_supply_vault m') (net_flow vault effects))))"

lemma claims_covered_mono: "claims_covered v v' f \<Longrightarrow> f \<le> g \<Longrightarrow> claims_covered v v' g"
  by (simp add: claims_covered_def)

lemma claims_covered_refl: "net_claims v' = net_claims v \<Longrightarrow> -2 \<le> f \<Longrightarrow> claims_covered v v' f"
  by (simp add: claims_covered_def)

lemma reserve_okI:
  assumes "market_sync_clock F (content account) now = Ok m1"
    and "claims_covered (m_supply_vault m1) (m_supply_vault new) flow"
    and "\<And>key m'. Write key (MarketAccount m') \<in> set effects \<Longrightarrow> key = acc_key account \<and> m' = new"
    and "list_all (spares (sv_vault (m_supply_vault (content account)))) effects \<Longrightarrow>
      sv_vault (m_supply_vault (content account)) \<noteq> cv_vault (m_collateral_vault (content account)) \<Longrightarrow>
      flow \<le> sum_list (map (token_flow (sv_vault (m_supply_vault (content account)))) effects)"
  shows "reserve_ok F now account effects"
  unfolding reserve_ok_def Let_def
proof (intro allI impI conjI)
  fix key m' assume "Write key (MarketAccount m') \<in> set effects"
  from assms(3) [OF this] show "key = acc_key account"
    and "\<exists>m1. (m1 = content account \<or> market_sync_clock F (content account) now = Ok m1)
      \<and> (sv_vault (m_supply_vault (content account)) \<noteq> cv_vault (m_collateral_vault (content account))
         \<longrightarrow> vault_untouched_by_users (sv_vault (m_supply_vault (content account))) effects
         \<longrightarrow> claims_covered (m_supply_vault m1) (m_supply_vault m')
               (net_flow (sv_vault (m_supply_vault (content account))) effects))"
    using assms(1) claims_covered_mono [OF assms(2) assms(4)]
    by (auto simp: vault_untouched_by_users_def net_flow_def)
qed

lemma supply_vault_guards:
  "supply_apl_from_accounts E accounts = POk a1 \<Longrightarrow>
     acc_key (sa_market_supply_vault a1) = sv_vault (m_supply_vault (content (sa_market a1)))"
  "repay_apl_from_accounts E accounts = POk a2 \<Longrightarrow>
     acc_key (ra_market_supply_vault a2) = sv_vault (m_supply_vault (content (ra_market a2)))"
  "donate_supply_from_accounts E accounts = POk a3 \<Longrightarrow>
     acc_key (dn_market_supply_vault a3) = sv_vault (m_supply_vault (content (dn_market a3)))"
  by (auto simp: supply_apl_from_accounts_def supply_apl_validate_def repay_apl_from_accounts_def
      repay_apl_validate_def donate_supply_from_accounts_def donate_supply_validate_def Let_def)

context fixed_crate_spec
begin

lemma supply_apl_reserve:
  assumes "supply_apl_from_accounts E accounts = POk a" "process_supply_apl F E a n pid now = POk effects"
  shows "reserve_ok F now (sa_market a) effects"
  using assms(2) supply_vault_guards(1) [OF assms(1)]
  by (clarsimp simp: process_supply_apl_def)
    (drule open_market_POk, erule reserve_okI, erule mw_supply_claims(1), auto simp: log_effect_def)

lemma withdraw_supply_reserve:
  assumes "withdraw_supply_from_accounts E accounts = POk a" "process_withdraw_supply F E a d pid now = POk effects"
  shows "reserve_ok F now (ws_market a) effects"
  using assms(2) vault_guards(10) [OF assms(1)]
  by (cases "ws_withdraw_all d"; clarsimp simp: process_withdraw_supply_def)
    (drule open_market_POk, erule reserve_okI, erule mw_supply_claims, auto simp: log_effect_def)+

lemma borrow_apl_reserve:
  assumes "borrow_apl_from_accounts E accounts = POk a" "process_borrow_apl F E a n pid now = POk effects"
  shows "reserve_ok F now (ba_market a) effects"
  using assms(2) vault_guards(9) [OF assms(1)]
  by (clarsimp simp: process_borrow_apl_def)
    (drule open_market_POk, erule reserve_okI, erule mw_borrow_claims(1), auto simp: log_effect_def)

lemma repay_apl_reserve:
  assumes "repay_apl_from_accounts E accounts = POk a" "process_repay_apl F E a d pid now = POk effects"
  shows "reserve_ok F now (ra_market a) effects"
  using assms(2) supply_vault_guards(2) [OF assms(1)]
  by (clarsimp simp: process_repay_apl_def)
    (drule open_market_POk, erule reserve_okI, erule mw_borrow_claims(2), auto simp: log_effect_def)

lemma socialize_loss_reserve:
  assumes "socialize_loss_from_accounts E accounts = POk a" "process_socialize_loss F E a pid now = POk effects"
  shows "reserve_ok F now (so_market a) effects"
  using assms(2) vault_guards(8) [OF assms(1)]
  by (clarsimp simp: process_socialize_loss_def)
    (drule open_market_POk, erule reserve_okI, erule mw_borrow_claims(3), auto simp: log_effect_def)

lemma mw_collateral_claims:
  "mw_deposit_collateral w p n = Ok (w1, q) \<Longrightarrow> covered w w1 0"
  "mw_withdraw_collateral F w p n = Ok (w2, q) \<Longrightarrow> covered w w2 0"
  "mw_begin_capital_sweep F w p = Ok (w3, q, h) \<Longrightarrow> covered w w3 0"
  by (simp_all add: mw_supply_vault_kept claims_covered_refl)

lemma mw_joint_claims:
  "mw_borrow F w1 p1 b = Ok (w2, p2) \<Longrightarrow> mw_deposit_collateral w p n = Ok (w1, p1) \<Longrightarrow> covered w w2 (- uint b)"
  "mw_withdraw_collateral F w3 p3 k = Ok (w4, p4) \<Longrightarrow> repay_or_all F w p every c = POk (w3, p3, r) \<Longrightarrow>
     covered w w4 (uint r)"
  using mw_borrow_claims(1) [of w1 p1 b w2 p2] mw_borrow_claims(2) [of w p every c w3 p3 r]
  by (simp_all add: mw_supply_vault_kept)

lemma deposit_apl_collateral_reserve:
  assumes "deposit_apl_collateral_from_accounts E accounts = POk a" "process_deposit_apl_collateral F E a n pid now = POk effects"
  shows "reserve_ok F now (dc_market a) effects"
  using assms(2) vault_guards(1) [OF assms(1)]
  by (clarsimp simp: process_deposit_apl_collateral_def)
    (drule open_market_POk, erule reserve_okI, erule mw_collateral_claims(1), auto simp: log_effect_def)

lemma withdraw_apl_collateral_reserve:
  assumes "withdraw_apl_collateral_from_accounts E accounts = POk a" "process_withdraw_apl_collateral F E a d pid now = POk effects"
  shows "reserve_ok F now (wc_market a) effects"
  using assms(2) vault_guards(2) [OF assms(1)]
  by (cases "wc_withdraw_all d"; clarsimp simp: process_withdraw_apl_collateral_def Let_def)
    (drule open_market_POk, erule reserve_okI, erule mw_collateral_claims(2), auto simp: log_effect_def)+

lemma begin_capital_sweep_reserve:
  assumes "begin_capital_sweep_from_accounts E accounts = POk a" "process_begin_capital_sweep F E a pid now = POk effects"
  shows "reserve_ok F now (bs_market a) effects"
  using assms(2) vault_guards(6) [OF assms(1)]
  by (clarsimp simp: process_begin_capital_sweep_def)
    (drule open_market_POk, erule reserve_okI, erule mw_collateral_claims(3), auto simp: log_effect_def)

lemma borrow_deposit_apl_reserve:
  assumes "borrow_deposit_apl_from_accounts E accounts = POk a" "process_borrow_deposit_apl F E a d pid now = POk effects"
  shows "reserve_ok F now (bd_market a) effects"
  using assms(2) vault_guards(3) [OF assms(1)]
  by (clarsimp simp: process_borrow_deposit_apl_def)
    (drule open_market_POk, erule reserve_okI, erule (1) mw_joint_claims(1), auto simp: log_effect_def)

lemma withdraw_repay_apl_reserve:
  assumes "withdraw_repay_apl_from_accounts E accounts = POk a" "process_withdraw_repay_apl F E a d pid now = POk effects"
  shows "reserve_ok F now (wr_market a) effects"
  using assms(2) vault_guards(4) [OF assms(1)]
  by (cases "wr_withdraw_all d"; clarsimp simp: process_withdraw_repay_apl_def Let_def)
    (drule open_market_POk, erule reserve_okI, erule (1) mw_joint_claims(2), auto simp: log_effect_def)+

lemma liquidate_reserve:
  assumes "liquidate_from_accounts E accounts = POk a" "process_liquidate F E a d pid now = POk effects"
  shows "reserve_ok F now (lq_market a) effects"
  using assms(2) vault_guards(5) [OF assms(1)]
  by (clarsimp simp: process_liquidate_def split: if_splits)
    (drule open_market_POk, erule reserve_okI, erule mw_liquidation_claims(1), auto simp: log_effect_def)

lemma settle_capital_sweep_reserve:
  assumes "settle_capital_sweep_from_accounts E accounts = POk a" "process_settle_capital_sweep F E a d pid now = POk effects"
  shows "reserve_ok F now (stl_market a) effects"
  using assms(2) vault_guards(7) [OF assms(1)]
  by (clarsimp simp: process_settle_capital_sweep_def Let_def)
    (drule open_market_POk, erule reserve_okI, erule mw_liquidation_claims(2), auto simp: log_effect_def)

lemma donate_supply_reserve:
  assumes "donate_supply_from_accounts E accounts = POk a" "process_donate_supply F a n pid now = POk effects"
  shows "reserve_ok F now (dn_market a) effects"
  using assms(2) supply_vault_guards(3) [OF assms(1)]
  by (clarsimp simp: process_donate_supply_def)
    (erule reserve_okI, erule market_claims(3), auto simp: log_effect_def)

lemma redeem_curator_fees_reserve:
  assumes "redeem_curator_fees_from_accounts E accounts = POk a" "process_redeem_curator_fees F a pid now = POk effects"
  shows "reserve_ok F now (rc_market a) effects"
  using assms(2) vault_guards(11) [OF assms(1)]
  by (clarsimp simp: process_redeem_curator_fees_def)
    (erule reserve_okI, erule market_claims(2), auto simp: log_effect_def)

lemma redeem_protocol_fees_reserve:
  assumes "redeem_protocol_fees_from_accounts E accounts = POk a" "process_redeem_protocol_fees F a pid now = POk effects"
  shows "reserve_ok F now (rp_market a) effects"
  using assms(2) vault_guards(12) [OF assms(1)]
  by (clarsimp simp: process_redeem_protocol_fees_def)
    (erule reserve_okI, erule market_claims(1), auto simp: log_effect_def)

end

lemma update_config_reserve:
  assumes "process_update_config F E a d now = POk effects"
  shows "reserve_ok F now (uc_market a) effects"
  using assms
  by (clarsimp simp: process_update_config_def)
    (erule reserve_okI, rule claims_covered_refl [OF config_updates_supply], auto)

lemma whitelist_reserve:
  "process_add_whitelisted_liquidator E a1 d pid = POk effects \<Longrightarrow> reserve_ok F now (aw_market a1) effects"
  "process_remove_whitelisted_liquidator a2 l pid = POk effects \<Longrightarrow> reserve_ok F now (rw_market a2) effects"
  by (auto simp: process_add_whitelisted_liquidator_def process_remove_whitelisted_liquidator_def
      reserve_ok_def net_flow_def Let_def log_effect_def intro!: claims_covered_refl split: if_splits)

section \<open>Instructions\<close>

definition reserves_covered ::
    "fixed_crate \<Rightarrow> environment \<Rightarrow> account_info list \<Rightarrow> i64 \<Rightarrow> effect list \<Rightarrow> bool" where
  "reserves_covered F E accounts now effects \<longleftrightarrow> (\<forall>key m m'.
     read_at (market_from_bytes E) accounts key m \<longrightarrow> Write key (MarketAccount m') \<in> set effects \<longrightarrow>
     sv_vault (m_supply_vault m) \<noteq> cv_vault (m_collateral_vault m) \<longrightarrow>
     vault_untouched_by_users (sv_vault (m_supply_vault m)) effects \<longrightarrow>
     (\<exists>m1. (m1 = m \<or> market_sync_clock F m now = Ok m1)
       \<and> claims_covered (m_supply_vault m1) (m_supply_vault m') (net_flow (sv_vault (m_supply_vault m)) effects)))"

lemma reserve_covered:
  assumes "coherent accounts" "loaded (market_from_bytes E) accounts x" "reserve_ok F now x effects"
  shows "reserves_covered F E accounts now effects"
  unfolding reserves_covered_def
proof (intro allI impI)
  fix key m m'
  assume a: "read_at (market_from_bytes E) accounts key m" "Write key (MarketAccount m') \<in> set effects"
    and h: "sv_vault (m_supply_vault m) \<noteq> cv_vault (m_collateral_vault m)"
    "vault_untouched_by_users (sv_vault (m_supply_vault m)) effects"
  have key: "key = acc_key x" using assms(3) a(2) by (auto simp: reserve_ok_def)
  then have "content x = m" using coherent_loaded [OF assms(1,2)] a(1) by simp
  then show "\<exists>m1. (m1 = m \<or> market_sync_clock F m now = Ok m1)
       \<and> claims_covered (m_supply_vault m1) (m_supply_vault m') (net_flow (sv_vault (m_supply_vault m)) effects)"
    using assms(3) a(2) h by (fastforce simp: reserve_ok_def Let_def)
qed

lemma no_market_reserves:
  "process_create_supply_position E a1 b pid = POk effects \<Longrightarrow> reserves_covered F E accounts now effects"
  "process_create_borrow_position E a2 b pid = POk effects \<Longrightarrow> reserves_covered F E accounts now effects"
  "process_create_global_config E a3 d3 pid = POk effects \<Longrightarrow> reserves_covered F E accounts now effects"
  "process_update_global_config a4 d4 = POk effects \<Longrightarrow> reserves_covered F E accounts now effects"
  "reserves_covered F E accounts now []"
  by (auto simp: process_create_supply_position_def process_create_borrow_position_def
      process_create_global_config_def process_update_global_config_def Let_def
      reserves_covered_def split: if_splits)

context fixed_crate_spec
begin

lemmas all_reserves = deposit_apl_collateral_reserve withdraw_apl_collateral_reserve
  borrow_deposit_apl_reserve withdraw_repay_apl_reserve liquidate_reserve begin_capital_sweep_reserve
  settle_capital_sweep_reserve socialize_loss_reserve supply_apl_reserve withdraw_supply_reserve
  borrow_apl_reserve repay_apl_reserve donate_supply_reserve redeem_curator_fees_reserve
  redeem_protocol_fees_reserve update_config_reserve whitelist_reserve

lemma instruction_reserves:
  assumes "process_aurata_instruction F E pid accounts now ix = POk effects" "coherent accounts"
    "\<And>d. ix \<noteq> CreateMarket d"
  shows "reserves_covered F E accounts now effects"
proof -
  have c: "loaded (market_from_bytes E) accounts x \<Longrightarrow> reserve_ok F now x effects \<Longrightarrow> ?thesis" for x
    using assms(2) by (rule reserve_covered)
  show ?thesis
    using assms(1,3)
    by (cases ix)
      (auto simp: process_aurata_instruction_def
        intro: c all_reserves no_market_reserves dest: all_guards borrow_guard_loaded)
qed

end

text \<open>
  C8: Custody of the supply. Whatever instruction on an existing market succeeds, what the lenders can
  claim from the supply vault beyond what the borrowers owe grows, once the interest up to now is
  accrued, by at most the tokens the vault receives, and falls at least by those it pays out, up to
  two atoms of rounding. The vaults of the market differ, and no user holds the authority over the
  supply vault itself.
\<close>

theorem supply_custody:
  assumes "fixed_crate_spec F"
    and "process_aurata_instruction F E pid accounts now ix = POk effects"
    and "coherent accounts" and "\<forall>d. ix \<noteq> CreateMarket d"
    and "read_at (market_from_bytes E) accounts key m"
    and "Write key (MarketAccount m') \<in> set effects"
    and "sv_vault (m_supply_vault m) \<noteq> cv_vault (m_collateral_vault m)"
    and "vault_untouched_by_users (sv_vault (m_supply_vault m)) effects"
  shows "\<exists>m1. (m1 = m \<or> market_sync_clock F m now = Ok m1)
    \<and> net_claims (m_supply_vault m')
      \<le> net_claims (m_supply_vault m1) + (net_flow (sv_vault (m_supply_vault m)) effects + 2) * 2 ^ 64"
  using fixed_crate_spec.instruction_reserves [OF assms(1-3)] assms(4-)
  by (auto simp: reserves_covered_def claims_covered_def)

theorem supply_custody_witness:
  "\<exists>effects m' m1. process_aurata_instruction fixed_reference example_env crate_id
      example_borrow_deposit_accounts 1000 example_borrow_deposit = POk effects
    \<and> Write 12 (MarketAccount m') \<in> set effects
    \<and> (m1 = example_market 1000 0 0 \<or> market_sync_clock fixed_reference (example_market 1000 0 0) 1000 = Ok m1)
    \<and> net_claims (m_supply_vault m') \<le> net_claims (m_supply_vault m1) + (net_flow 101 effects + 2) * 2 ^ 64
    \<and> net_flow 101 effects = -200"
proof -
  obtain m p ev where r: "process_aurata_instruction fixed_reference example_env crate_id
      example_borrow_deposit_accounts 1000 example_borrow_deposit
    = POk [Write 12 (MarketAccount m), Write 30 (BorrowPositionAccount p),
          LogEvent crate_id 12 (EvBorrowAndDeposit ev) [market_seed m],
          TokenTransfer 101 50 12 200 [market_seed m], Invoke example_callback,
          TokenTransfer 51 201 11 400 []]" using example_borrow_deposit_runs by blast
  have "coherent example_borrow_deposit_accounts"
    by (simp add: coherent_def program_example_defs)
  moreover have "read_at (market_from_bytes example_env) example_borrow_deposit_accounts 12 (example_market 1000 0 0)"
    by (simp add: read_at_def program_example_defs)
  moreover have "sv_vault (m_supply_vault (example_market 1000 0 0)) = 101"
    "cv_vault (m_collateral_vault (example_market 1000 0 0)) = 201" by (simp_all add: example_defs)
  ultimately show ?thesis
    using supply_custody [OF fixed_ref.fixed_crate_spec_axioms r, of 12 "example_market 1000 0 0" m] r
    by (fastforce simp: vault_untouched_by_users_def example_borrow_deposit_def net_flow_def)
qed

end
