(* ===== verification/Instruction_Builders.thy ===== *)
theory Instruction_Builders
  imports Program_Dispatch
begin

text \<open>
  The client-side instruction builders of \<open>src/autara-lib/src/ixs\<close> and \<open>src/autara-lib/src/token.rs\<close>:
  each lists the accounts of an instruction with the privileges they need and serialises its data.
  The runtime lets a program write only accounts that its instruction marks writable, and lets it call
  another program only with accounts of its own list, a signature only if it has it or derives it.
  That the builders grant what the handlers then use is shown in \<open>Builder_Laws\<close>.
\<close>

section \<open>Addresses\<close>

definition market_seed_without_bump :: "pubkey \<Rightarrow> pubkey \<Rightarrow> pubkey \<Rightarrow> u8 \<Rightarrow> u8 list list" where
  "market_seed_without_bump curator_key supply_mint collateral_mint index_byte =
     [ascii ''market'', pubkey_bytes curator_key, pubkey_bytes supply_mint, pubkey_bytes collateral_mint,
      [index_byte]]"

definition supply_position_seed :: "pubkey \<Rightarrow> pubkey \<Rightarrow> u8 list list" where
  "supply_position_seed market authority =
     [ascii ''supply_position'', pubkey_bytes market, pubkey_bytes authority]"

definition borrow_position_seed :: "pubkey \<Rightarrow> pubkey \<Rightarrow> u8 list list" where
  "borrow_position_seed market authority =
     [ascii ''borrow_position'', pubkey_bytes market, pubkey_bytes authority]"

definition find_supply_position_pda :: "environment \<Rightarrow> pubkey \<Rightarrow> pubkey \<Rightarrow> pubkey \<Rightarrow> pubkey \<times> u8" where
  "find_supply_position_pda E program_id market authority =
     find_program_address (env_runtime E) (supply_position_seed market authority) program_id"

definition find_borrow_position_pda :: "environment \<Rightarrow> pubkey \<Rightarrow> pubkey \<Rightarrow> pubkey \<Rightarrow> pubkey \<times> u8" where
  "find_borrow_position_pda E program_id market authority =
     find_program_address (env_runtime E) (borrow_position_seed market authority) program_id"

definition find_market_pda ::
    "environment \<Rightarrow> pubkey \<Rightarrow> pubkey \<Rightarrow> pubkey \<Rightarrow> pubkey \<Rightarrow> u8 \<Rightarrow> pubkey \<times> u8" where
  "find_market_pda E program_id curator_key supply_mint collateral_mint index_byte =
     find_program_address (env_runtime E)
       (market_seed_without_bump curator_key supply_mint collateral_mint index_byte) program_id"

section \<open>Builders\<close>

text \<open>\<open>AccountMeta::new\<close> and \<open>AccountMeta::new_readonly\<close> of the runtime's library.\<close>

definition meta_new :: "pubkey \<Rightarrow> bool \<Rightarrow> account_meta" where
  "meta_new key is_signer = \<lparr>am_pubkey = key, am_is_signer = is_signer, am_is_writable = True\<rparr>"

definition meta_new_readonly :: "pubkey \<Rightarrow> bool \<Rightarrow> account_meta" where
  "meta_new_readonly key is_signer = \<lparr>am_pubkey = key, am_is_signer = is_signer, am_is_writable = False\<rparr>"

definition instruction_of ::
    "instruction_codecs \<Rightarrow> pubkey \<Rightarrow> account_meta list \<Rightarrow> aurata_instruction \<Rightarrow> arch_instruction" where
  "instruction_of B program_id accounts ix =
     \<lparr>ai_program_id = program_id, ai_accounts = accounts, ai_instruction_data =
        instruction_serialize B ix\<rparr>"

subsection \<open>market.rs and token.rs\<close>

definition create_ata_ix ::
    "environment \<Rightarrow> pubkey \<Rightarrow> pubkey option \<Rightarrow> pubkey \<Rightarrow> pubkey \<Rightarrow> arch_instruction" where
  "create_ata_ix E funder ata wallet mint =
     \<lparr>ai_program_id = apl_associated_token_id E,
      ai_accounts =
        [meta_new funder True,
         meta_new (case ata of Some k \<Rightarrow> k | None \<Rightarrow> associated_token_address E wallet mint) False,
         meta_new_readonly wallet False, meta_new_readonly mint False,
         meta_new_readonly (system_program_id E) False, meta_new_readonly (apl_token_id E) False],
      ai_instruction_data = [1]\<rparr>"

definition create_market_ix ::
    "environment \<Rightarrow> instruction_codecs \<Rightarrow> create_market_instruction \<Rightarrow> pubkey \<Rightarrow> pubkey \<Rightarrow> pubkey \<Rightarrow>
     pubkey \<Rightarrow> pubkey
     \<Rightarrow> pubkey \<times> arch_instruction" where
  "create_market_ix E B create_market supply_mint collateral_mint autara_program_id curator_key payer =
     (let (market_pda, market_bump) = find_market_pda E autara_program_id curator_key supply_mint
            collateral_mint (ix_index create_market) in
      (market_pda, instruction_of B autara_program_id
        [meta_new_readonly curator_key True, meta_new payer True,
         meta_new_readonly (fst (find_global_config_pda E autara_program_id)) False,
         meta_new market_pda False, meta_new_readonly supply_mint False,
         meta_new (associated_token_address E market_pda supply_mint) False,
         meta_new_readonly collateral_mint False,
         meta_new (associated_token_address E market_pda collateral_mint) False,
         meta_new_readonly (apl_token_id E) False, meta_new_readonly (apl_associated_token_id E) False,
         meta_new_readonly (system_program_id E) False, meta_new_readonly autara_program_id False]
        (CreateMarket (create_market\<lparr>ix_market_bump := market_bump\<rparr>))))"

text \<open>The account of a feed the update configures; \<open>unwrap\<close> panics when the provider has none.\<close>

definition feed_of :: "environment \<Rightarrow> oracle_config option \<Rightarrow> pubkey \<Rightarrow> pubkey program_result" where
  "feed_of E data key =
     (case data of
        None \<Rightarrow> POk key
      | Some oracle \<Rightarrow>
          (case oracle_feed_pubkey (env_runtime E) (oc_provider oracle) of
             None \<Rightarrow> PPanic | Some k \<Rightarrow> POk k))"

definition update_config_ix ::
    "environment \<Rightarrow> instruction_codecs \<Rightarrow> pubkey \<Rightarrow> pubkey \<Rightarrow> pubkey \<Rightarrow> update_config_instruction \<Rightarrow>
     pubkey \<Rightarrow> pubkey
     \<Rightarrow> arch_instruction program_result" where
  "update_config_ix E B autara_program_id market curator_key data supply_oracle_key
     collateral_oracle_key =
     bind_p (feed_of E (up_supply_oracle_config data) supply_oracle_key) (\<lambda>supply_oracle.
     bind_p (feed_of E (up_collateral_oracle_config data) collateral_oracle_key) (\<lambda>collateral_oracle.
       POk (instruction_of B autara_program_id
         [meta_new market False,
          meta_new_readonly (fst (find_global_config_pda E autara_program_id)) False,
          meta_new_readonly curator_key True, meta_new_readonly supply_oracle False,
          meta_new_readonly collateral_oracle False, meta_new_readonly autara_program_id False]
         (UpdateConfig data))))"

definition reedeem_curator_fees_ix ::
    "environment \<Rightarrow> instruction_codecs \<Rightarrow> pubkey \<Rightarrow> pubkey \<Rightarrow> pubkey \<Rightarrow> pubkey \<Rightarrow> pubkey \<Rightarrow>
     arch_instruction" where
  "reedeem_curator_fees_ix E B autara_program_id market curator_key curator_supply_ata
     market_supply_vault =
     instruction_of B autara_program_id
       [meta_new_readonly curator_key True, meta_new market False, meta_new curator_supply_ata False,
        meta_new market_supply_vault False, meta_new_readonly (apl_token_id E) False,
        meta_new_readonly autara_program_id False] ReedeemCuratorFees"

subsection \<open>admin_key.rs\<close>

definition create_global_config_ix ::
    "environment \<Rightarrow> instruction_codecs \<Rightarrow> pubkey \<Rightarrow> pubkey \<Rightarrow> pubkey \<Rightarrow> pubkey \<Rightarrow> u16 \<Rightarrow> pubkey \<times>
     arch_instruction" where
  "create_global_config_ix E B autara_program_id payer admin_key fee_receiver_key
     protocol_fee_share_in_bps =
     (let (global_config_pda, bump) = find_global_config_pda E autara_program_id in
      (global_config_pda, instruction_of B autara_program_id
        [meta_new payer True, meta_new global_config_pda False,
         meta_new_readonly (system_program_id E) False, meta_new_readonly autara_program_id False]
        (CreateGlobalConfig \<lparr>cg_bump = bump, cg_admin = admin_key, cg_fee_receiver = fee_receiver_key,
           cg_protocol_fee_share_in_bps = protocol_fee_share_in_bps\<rparr>)))"

definition update_global_config_ix ::
    "environment \<Rightarrow> instruction_codecs \<Rightarrow> pubkey \<Rightarrow> pubkey \<Rightarrow> update_global_config_instruction \<Rightarrow>
     arch_instruction" where
  "update_global_config_ix E B autara_program_id admin_key update =
     instruction_of B autara_program_id
       [meta_new admin_key True, meta_new (fst (find_global_config_pda E autara_program_id)) False,
        meta_new_readonly autara_program_id False] (UpdateGlobalConfig update)"

definition reedeem_protocol_fees_ix ::
    "environment \<Rightarrow> instruction_codecs \<Rightarrow> pubkey \<Rightarrow> pubkey \<Rightarrow> pubkey \<Rightarrow> pubkey \<Rightarrow> pubkey \<Rightarrow>
     arch_instruction" where
  "reedeem_protocol_fees_ix E B autara_program_id market admin_key protocol_fee_receiver market_vault =
     instruction_of B autara_program_id
       [meta_new admin_key True, meta_new_readonly (fst (find_global_config_pda E
          autara_program_id)) False,
        meta_new market False, meta_new protocol_fee_receiver False, meta_new market_vault False,
        meta_new_readonly (apl_token_id E) False, meta_new_readonly autara_program_id False]
       ReedeemProtocolFees"

subsection \<open>supply.rs\<close>

definition create_supply_position_ix ::
    "environment \<Rightarrow> instruction_codecs \<Rightarrow> pubkey \<Rightarrow> pubkey \<Rightarrow> pubkey \<Rightarrow> pubkey \<Rightarrow> pubkey \<times>
     arch_instruction" where
  "create_supply_position_ix E B autara_program_id market authority_key payer =
     (let (supply_position, bump) = find_program_address (env_runtime E)
            (supply_position_seed market authority_key) autara_program_id in
      (supply_position, instruction_of B autara_program_id
       [meta_new market False,
        meta_new supply_position False,
        meta_new_readonly authority_key True,
        meta_new payer True,
        meta_new_readonly (system_program_id E) False,
        meta_new_readonly autara_program_id False]
       (CreateSupplyPosition bump)))"

definition supply_apl_ix ::
    "environment \<Rightarrow> instruction_codecs \<Rightarrow> pubkey \<Rightarrow> pubkey \<Rightarrow> pubkey \<Rightarrow> pubkey \<Rightarrow> pubkey \<Rightarrow> pubkey \<Rightarrow> pubkey
     \<Rightarrow> pubkey \<Rightarrow> u64 \<Rightarrow> arch_instruction" where
  "supply_apl_ix E B autara_program_id market supply_position authority_key authority_supply_ata
     supply_vault supply_oracle collateral_oracle amount =
     instruction_of B autara_program_id
       [meta_new market False,
        meta_new supply_position False,
        meta_new_readonly authority_key True,
        meta_new authority_supply_ata False,
        meta_new supply_vault False,
        meta_new_readonly (apl_token_id E) False,
        meta_new_readonly supply_oracle False,
        meta_new_readonly collateral_oracle False,
        meta_new_readonly autara_program_id False]
       (SupplyApl amount)"

definition withdraw_supply_ix ::
    "environment \<Rightarrow> instruction_codecs \<Rightarrow> pubkey \<Rightarrow> pubkey \<Rightarrow> pubkey \<Rightarrow> pubkey \<Rightarrow> pubkey \<Rightarrow> pubkey \<Rightarrow> pubkey
     \<Rightarrow> pubkey \<Rightarrow> u64 \<Rightarrow> bool \<Rightarrow> arch_instruction" where
  "withdraw_supply_ix E B autara_program_id market supply_position authority_key
     authority_supply_ata market_supply_vault supply_oracle collateral_oracle amount withdraw_all =
     instruction_of B autara_program_id
       [meta_new market False,
        meta_new supply_position False,
        meta_new_readonly authority_key True,
        meta_new authority_supply_ata False,
        meta_new market_supply_vault False,
        meta_new_readonly (apl_token_id E) False,
        meta_new_readonly supply_oracle False,
        meta_new_readonly collateral_oracle False,
        meta_new_readonly autara_program_id False]
       (WithdrawSupply \<lparr>ws_amount = amount, ws_withdraw_all = withdraw_all\<rparr>)"

definition donate_supply_ix ::
    "environment \<Rightarrow> instruction_codecs \<Rightarrow> pubkey \<Rightarrow> pubkey \<Rightarrow> pubkey \<Rightarrow> pubkey \<Rightarrow> pubkey \<Rightarrow> u64 \<Rightarrow>
     arch_instruction" where
  "donate_supply_ix E B autara_program_id market authority_key authority_supply_ata supply_vault amount =
     instruction_of B autara_program_id
       [meta_new market False,
        meta_new_readonly authority_key True,
        meta_new authority_supply_ata False,
        meta_new supply_vault False,
        meta_new_readonly (apl_token_id E) False,
        meta_new_readonly autara_program_id False]
       (DonateSupply amount)"

subsection \<open>borrow.rs\<close>

definition create_borrow_position_ix ::
    "environment \<Rightarrow> instruction_codecs \<Rightarrow> pubkey \<Rightarrow> pubkey \<Rightarrow> pubkey \<Rightarrow> pubkey \<Rightarrow> pubkey \<times>
     arch_instruction" where
  "create_borrow_position_ix E B autara_program_id market authority_key payer =
     (let (borrow_position, bump) = find_program_address (env_runtime E)
            (borrow_position_seed market authority_key) autara_program_id in
      (borrow_position, instruction_of B autara_program_id
       [meta_new market False,
        meta_new borrow_position False,
        meta_new_readonly authority_key True,
        meta_new payer True,
        meta_new_readonly (system_program_id E) False,
        meta_new_readonly autara_program_id False]
       (CreateBorrowPosition bump)))"

definition borrow_apl_ix ::
    "environment \<Rightarrow> instruction_codecs \<Rightarrow> pubkey \<Rightarrow> pubkey \<Rightarrow> pubkey \<Rightarrow> pubkey \<Rightarrow> pubkey \<Rightarrow> pubkey \<Rightarrow> pubkey
     \<Rightarrow> pubkey \<Rightarrow> u64 \<Rightarrow> arch_instruction" where
  "borrow_apl_ix E B autara_program_id market authority_key borrow_position authority_supply_ata
     market_supply_vault supply_oracle collateral_oracle amount =
     instruction_of B autara_program_id
       [meta_new market False,
        meta_new borrow_position False,
        meta_new_readonly authority_key True,
        meta_new authority_supply_ata False,
        meta_new market_supply_vault False,
        meta_new_readonly (apl_token_id E) False,
        meta_new_readonly supply_oracle False,
        meta_new_readonly collateral_oracle False,
        meta_new_readonly autara_program_id False]
       (BorrowApl amount)"

definition deposit_apl_collateral_ix ::
    "environment \<Rightarrow> instruction_codecs \<Rightarrow> pubkey \<Rightarrow> pubkey \<Rightarrow> pubkey \<Rightarrow> pubkey \<Rightarrow> pubkey \<Rightarrow> pubkey \<Rightarrow> pubkey
     \<Rightarrow> pubkey \<Rightarrow> u64 \<Rightarrow> arch_instruction" where
  "deposit_apl_collateral_ix E B autara_program_id market authority_key borrow_position
     authority_collateral_ata market_collateral_vault supply_oracle collateral_oracle amount =
     instruction_of B autara_program_id
       [meta_new market False,
        meta_new borrow_position False,
        meta_new_readonly authority_key True,
        meta_new authority_collateral_ata False,
        meta_new market_collateral_vault False,
        meta_new_readonly (apl_token_id E) False,
        meta_new_readonly supply_oracle False,
        meta_new_readonly collateral_oracle False,
        meta_new_readonly autara_program_id False]
       (DepositAplCollateral amount)"

definition withdraw_apl_collateral_ix ::
    "environment \<Rightarrow> instruction_codecs \<Rightarrow> pubkey \<Rightarrow> pubkey \<Rightarrow> pubkey \<Rightarrow> pubkey \<Rightarrow> pubkey \<Rightarrow> pubkey \<Rightarrow> pubkey
     \<Rightarrow> pubkey \<Rightarrow> u64 \<Rightarrow> bool \<Rightarrow> arch_instruction" where
  "withdraw_apl_collateral_ix E B autara_program_id market authority_key borrow_position
     authority_collateral_ata market_collateral_vault supply_oracle collateral_oracle amount
        withdraw_all =
     instruction_of B autara_program_id
       [meta_new market False,
        meta_new borrow_position False,
        meta_new_readonly authority_key True,
        meta_new authority_collateral_ata False,
        meta_new market_collateral_vault False,
        meta_new_readonly (apl_token_id E) False,
        meta_new_readonly supply_oracle False,
        meta_new_readonly collateral_oracle False,
        meta_new_readonly autara_program_id False]
       (WithdrawAplCollateral \<lparr>wc_amount = amount, wc_withdraw_all = withdraw_all\<rparr>)"

definition repay_apl_ix ::
    "environment \<Rightarrow> instruction_codecs \<Rightarrow> pubkey \<Rightarrow> pubkey \<Rightarrow> pubkey \<Rightarrow> pubkey \<Rightarrow> pubkey \<Rightarrow> pubkey \<Rightarrow> pubkey
     \<Rightarrow> pubkey \<Rightarrow> u64 \<Rightarrow> bool \<Rightarrow> arch_instruction" where
  "repay_apl_ix E B autara_program_id market borrow_position authority_key authority_supply_ata
     market_supply_vault supply_oracle collateral_oracle amount repay_all =
     instruction_of B autara_program_id
       [meta_new market False,
        meta_new borrow_position False,
        meta_new_readonly authority_key True,
        meta_new authority_supply_ata False,
        meta_new market_supply_vault False,
        meta_new_readonly (apl_token_id E) False,
        meta_new_readonly supply_oracle False,
        meta_new_readonly collateral_oracle False,
        meta_new_readonly autara_program_id False]
       (RepayApl \<lparr>ra_amount = amount, ra_repay_all = repay_all\<rparr>)"

text \<open>The accounts of a callback follow those of the instruction itself.\<close>

definition callback_accounts :: "arch_instruction option \<Rightarrow> account_meta list" where
  "callback_accounts callback = (case callback of None \<Rightarrow> [] | Some i \<Rightarrow> ai_accounts i)"

definition withdraw_repay_apl_ix ::
    "environment \<Rightarrow> instruction_codecs \<Rightarrow> pubkey \<Rightarrow> pubkey \<Rightarrow> pubkey \<Rightarrow> pubkey \<Rightarrow> pubkey \<Rightarrow> pubkey \<Rightarrow> pubkey
     \<Rightarrow> pubkey \<Rightarrow> pubkey \<Rightarrow> pubkey \<Rightarrow> withdraw_repay_apl_instruction \<Rightarrow> arch_instruction" where
  "withdraw_repay_apl_ix E B autara_program_id market authority_key borrow_position
     authority_supply_ata market_supply_vault authority_collateral_ata market_collateral_vault
        supply_oracle collateral_oracle ix =
     instruction_of B autara_program_id
      ([meta_new market False,
        meta_new borrow_position False,
        meta_new_readonly authority_key True,
        meta_new authority_supply_ata False,
        meta_new market_supply_vault False,
        meta_new authority_collateral_ata False,
        meta_new market_collateral_vault False,
        meta_new_readonly (apl_token_id E) False,
        meta_new_readonly supply_oracle False,
        meta_new_readonly collateral_oracle False,
        meta_new_readonly autara_program_id False]
       @ callback_accounts (wr_ix_callback ix))
       (WithdrawRepayApl ix)"

definition borrow_deposit_apl_ix ::
    "environment \<Rightarrow> instruction_codecs \<Rightarrow> pubkey \<Rightarrow> pubkey \<Rightarrow> pubkey \<Rightarrow> pubkey \<Rightarrow> pubkey \<Rightarrow> pubkey \<Rightarrow> pubkey
     \<Rightarrow> pubkey \<Rightarrow> pubkey \<Rightarrow> pubkey \<Rightarrow> borrow_deposit_apl_instruction \<Rightarrow> arch_instruction" where
  "borrow_deposit_apl_ix E B autara_program_id market authority_key borrow_position
     authority_supply_ata market_supply_vault authority_collateral_ata market_collateral_vault
        supply_oracle collateral_oracle ix =
     instruction_of B autara_program_id
      ([meta_new market False,
        meta_new borrow_position False,
        meta_new_readonly authority_key True,
        meta_new authority_supply_ata False,
        meta_new market_supply_vault False,
        meta_new authority_collateral_ata False,
        meta_new market_collateral_vault False,
        meta_new_readonly (apl_token_id E) False,
        meta_new_readonly supply_oracle False,
        meta_new_readonly collateral_oracle False,
        meta_new_readonly autara_program_id False]
       @ callback_accounts (bd_ix_callback ix))
       (BorrowDepositApl ix)"

subsection \<open>liquidation.rs\<close>

definition liquidate_ix ::
    "environment \<Rightarrow> instruction_codecs \<Rightarrow> pubkey \<Rightarrow> pubkey \<Rightarrow> pubkey \<Rightarrow> pubkey \<Rightarrow> pubkey \<Rightarrow> pubkey \<Rightarrow> pubkey
     \<Rightarrow> pubkey \<Rightarrow> pubkey \<Rightarrow> pubkey \<Rightarrow> u64 \<Rightarrow> u64 \<Rightarrow> pubkey option \<Rightarrow> arch_instruction option \<Rightarrow>
        arch_instruction" where
  "liquidate_ix E B autara_program_id market borrow_position liquidator_key liquidator_supply_ata
     liquidator_collateral_ata market_supply_vault market_collateral_vault supply_oracle
        collateral_oracle max_repay min_receive liquidator_whitelist_entry ix_callback =
     instruction_of B autara_program_id
      ([meta_new market False,
        meta_new borrow_position False,
        meta_new_readonly liquidator_key True,
        meta_new liquidator_supply_ata False,
        meta_new liquidator_collateral_ata False,
        meta_new market_supply_vault False,
        meta_new market_collateral_vault False,
        meta_new_readonly (apl_token_id E) False,
        meta_new_readonly supply_oracle False,
        meta_new_readonly collateral_oracle False]
       @ (case liquidator_whitelist_entry of None \<Rightarrow> [] | Some entry \<Rightarrow> [meta_new_readonly entry False])
       @ [meta_new_readonly autara_program_id False]
       @ (case ix_callback of None \<Rightarrow> []
          | Some callback \<Rightarrow> meta_new_readonly (ai_program_id callback) False # ai_accounts callback))
       (Liquidate \<lparr>max_borrowed_atoms_to_repay = max_repay, min_collateral_atoms_to_receive = min_receive,
          lq_ix_callback = ix_callback\<rparr>)"

definition socialize_loss_ix ::
    "environment \<Rightarrow> instruction_codecs \<Rightarrow> pubkey \<Rightarrow> pubkey \<Rightarrow> pubkey \<Rightarrow> pubkey \<Rightarrow> pubkey \<Rightarrow> pubkey \<Rightarrow> pubkey
     \<Rightarrow> pubkey \<Rightarrow> arch_instruction" where
  "socialize_loss_ix E B autara_program_id market borrow_position curator_key
     receiver_collateral_ata market_collateral_vault supply_oracle collateral_oracle =
     instruction_of B autara_program_id
       [meta_new market False,
        meta_new borrow_position False,
        meta_new_readonly curator_key True,
        meta_new receiver_collateral_ata False,
        meta_new market_collateral_vault False,
        meta_new_readonly (apl_token_id E) False,
        meta_new_readonly supply_oracle False,
        meta_new_readonly collateral_oracle False,
        meta_new_readonly autara_program_id False]
       SocializeLoss"

definition begin_capital_sweep_ix ::
    "environment \<Rightarrow> instruction_codecs \<Rightarrow> pubkey \<Rightarrow> pubkey \<Rightarrow> pubkey \<Rightarrow> pubkey \<Rightarrow> pubkey \<Rightarrow> pubkey \<Rightarrow> pubkey
     \<Rightarrow> pubkey \<Rightarrow> arch_instruction" where
  "begin_capital_sweep_ix E B autara_program_id market borrow_position curator_key
     curator_collateral_ata market_collateral_vault supply_oracle collateral_oracle =
     instruction_of B autara_program_id
       [meta_new market False,
        meta_new borrow_position False,
        meta_new_readonly curator_key True,
        meta_new curator_collateral_ata False,
        meta_new market_collateral_vault False,
        meta_new_readonly (apl_token_id E) False,
        meta_new_readonly supply_oracle False,
        meta_new_readonly collateral_oracle False,
        meta_new_readonly autara_program_id False]
       BeginCapitalSweep"

definition settle_capital_sweep_ix ::
    "environment \<Rightarrow> instruction_codecs \<Rightarrow> pubkey \<Rightarrow> pubkey \<Rightarrow> pubkey \<Rightarrow> pubkey \<Rightarrow> pubkey \<Rightarrow> pubkey \<Rightarrow> pubkey
     \<Rightarrow> pubkey \<Rightarrow> pubkey \<Rightarrow> pubkey \<Rightarrow> u64 \<Rightarrow> u64 \<Rightarrow> arch_instruction" where
  "settle_capital_sweep_ix E B autara_program_id market borrow_position curator_key
     curator_supply_ata curator_collateral_ata market_supply_vault market_collateral_vault
        supply_oracle collateral_oracle max_repay max_return =
     instruction_of B autara_program_id
       [meta_new market False,
        meta_new borrow_position False,
        meta_new_readonly curator_key True,
        meta_new curator_supply_ata False,
        meta_new curator_collateral_ata False,
        meta_new market_supply_vault False,
        meta_new market_collateral_vault False,
        meta_new_readonly (apl_token_id E) False,
        meta_new_readonly supply_oracle False,
        meta_new_readonly collateral_oracle False,
        meta_new_readonly autara_program_id False]
       (SettleCapitalSweep \<lparr>stl_max_borrowed_atoms_to_repay = max_repay,
          stl_max_collateral_atoms_to_return = max_return\<rparr>)"

subsection \<open>liquidator_whitelist.rs and log.rs\<close>

definition add_whitelisted_liquidator_ix ::
    "environment \<Rightarrow> instruction_codecs \<Rightarrow> pubkey \<Rightarrow> pubkey \<Rightarrow> pubkey \<Rightarrow> pubkey \<Rightarrow> pubkey \<times>
     arch_instruction" where
  "add_whitelisted_liquidator_ix E B autara_program_id market curator_key liquidator_key =
     (let (entry, bump) = find_liquidator_whitelist_entry_pda E autara_program_id market liquidator_key in
      (entry, instruction_of B autara_program_id
       [meta_new market False,
        meta_new curator_key True,
        meta_new entry False,
        meta_new_readonly (system_program_id E) False,
        meta_new_readonly autara_program_id False]
       (AddWhitelistedLiquidator \<lparr>aw_liquidator = liquidator_key, aw_bump = bump\<rparr>)))"

definition remove_whitelisted_liquidator_ix ::
    "environment \<Rightarrow> instruction_codecs \<Rightarrow> pubkey \<Rightarrow> pubkey \<Rightarrow> pubkey \<Rightarrow> pubkey \<Rightarrow> pubkey \<times>
     arch_instruction" where
  "remove_whitelisted_liquidator_ix E B autara_program_id market curator_key liquidator_key =
     (let (entry, _) = find_liquidator_whitelist_entry_pda E autara_program_id market liquidator_key in
      (entry, instruction_of B autara_program_id
       [meta_new market False,
        meta_new_readonly curator_key True,
        meta_new entry False,
        meta_new_readonly autara_program_id False]
       (RemoveWhitelistedLiquidator liquidator_key)))"

definition log_ix :: "instruction_codecs \<Rightarrow> event_codecs \<Rightarrow> pubkey \<Rightarrow> pubkey \<Rightarrow> autara_event \<Rightarrow>
   arch_instruction" where
  "log_ix B C autara_program_id market event =
     \<lparr>ai_program_id = autara_program_id, ai_accounts = [meta_new_readonly market True],
      ai_instruction_data = instruction_serialize B Log @ event_serialize C event\<rparr>"

end
