(* ===== verification/Program_Gaps.thy ===== *)
theory Program_Gaps
  imports Program_Examples Instruction_Builders
begin

text \<open>
  Two places where an account is trusted more than the program checks: the address of a new market,
  and accounts that the handler of the IDL has filled. Both are stated as what the program accepts.
\<close>

section \<open>The address of a new market\<close>









section \<open>Buffers of the IDL\<close>

text \<open>An account of the IDL: discriminator, authority, length and body.\<close>

definition idl_image :: "u8 list \<Rightarrow> nat \<Rightarrow> u8 list \<Rightarrow> u8 list" where
  "idl_image auth len body = IDL_ACCOUNT_DISCRIMINATOR @ auth @ int_bytes 4 (int len) @ body"

lemma idl_lengths [simp]: "length IDL_ACCOUNT_DISCRIMINATOR = 8" "length (pubkey_bytes k) = 32"
  by (simp_all add: IDL_ACCOUNT_DISCRIMINATOR_def pubkey_bytes_def)

lemma stamp_header_image:
  assumes "44 \<le> n"
  shows "stamp_header k (replicate n 0) = idl_image (pubkey_bytes k) 0 (replicate (n - 44) 0)"
proof -
  have n: "replicate n (0::u8) = replicate 8 0 @ replicate 32 0 @ replicate 4 0 @ replicate (n - 44) 0"
    using assms by (simp flip: replicate_add)
  show ?thesis
    unfolding stamp_header_def write_data_len_def idl_layout n idl_image_def
    by (simp add: splice_at_def)
qed

lemma idl_image_reads:
  assumes "length auth = 32" "len < 2 ^ 32"
  shows "has_idl_header (idl_image auth len body)" "header_authority (idl_image auth len body) = auth"
    "read_data_len (idl_image auth len body) = len" "length (idl_image auth len body) = 44 + length body"
  using assms
  by (simp_all add: has_idl_header_def header_authority_def read_data_len_def idl_layout idl_image_def
      bytes_int_int_bytes)

lemma idl_image_writes:
  assumes "length auth = 32"
  shows "write_data_len (idl_image auth len body) n = idl_image auth n body"
    "length new = 32 \<Longrightarrow> splice_at AUTHORITY_OFFSET new (idl_image auth len body) = idl_image new len body"
    "length payload \<le> length body \<Longrightarrow>
       splice_at HEADER_LEN payload (idl_image auth len body)
         = idl_image auth len (payload @ drop (length payload) body)"
  using assms by (simp_all add: write_data_len_def splice_at_def idl_layout idl_image_def)

text \<open>A raw account of the program, and its signing owner.\<close>

definition raw_account :: "pubkey \<Rightarrow> u8 list \<Rightarrow> account_info" where
  "raw_account key bytes = \<lparr>ai_key = key, ai_owner = crate_id, ai_is_signer = False,
     ai_is_writable = True, ai_data = RawAccount bytes, ai_lamports = 0\<rparr>"

lemma raw_account_simps [simp]:
  "ai_key (raw_account k bs) = k" "ai_owner (raw_account k bs) = crate_id"
  "ai_data (raw_account k bs) = RawAccount bs" "ai_is_writable (raw_account k bs)"
  "data_bytes E (raw_account k bs) = bs"
  by (simp_all add: raw_account_def data_bytes_def)

text \<open>
  C39: Buffers of the IDL pass for positions. Whoever owns a zeroed account of the program of 224 bytes
  turns it into any borrow position but for the discriminator in its first eight bytes and four bytes
  of length: \<open>CreateBuffer\<close>, \<open>Write\<close> and \<open>SetAuthority\<close> succeed under the signature of the owner alone,
  and the loader of the market's instructions then accepts the account as an initialised position.
\<close>

theorem idl_buffer_passes_for_position:
  assumes "ai_is_signer owner" and "ai_key owner \<noteq> 0" and "length payload \<le> 180" and "length new = 32"
    and "borrow_position_is_initialized (pod_borrow_position E
           (idl_image new (length payload) (payload @ replicate (180 - length payload) 0)))"
  shows "\<exists>b1 b2 b3.
     idl_create_buffer E crate_id [raw_account key (replicate 224 0), owner] = POk [Write key (RawAccount b1)]
     \<and> idl_write E crate_id [raw_account key b1, owner] payload = POk [Write key (RawAccount b2)]
     \<and> idl_set_authority E crate_id [raw_account key b2, owner] new = POk [Write key (RawAccount b3)]
     \<and> b3 = idl_image new (length payload) (payload @ replicate (180 - length payload) 0)
     \<and> borrow_position_mut E (raw_account key b3)
         = POk (TypedAccount (raw_account key b3) (pod_borrow_position E b3))"
proof -
  let ?owner = "pubkey_bytes (ai_key owner)"
  let ?b1 = "idl_image ?owner 0 (replicate 180 0)"
  let ?b2 = "idl_image ?owner (length payload) (payload @ replicate (180 - length payload) 0)"
  let ?b3 = "idl_image new (length payload) (payload @ replicate (180 - length payload) 0)"
  have "idl_create_buffer E crate_id [raw_account key (replicate 224 0), owner] = POk [Write key (RawAccount ?b1)]"
    using assms(1,2) stamp_header_image [of 224 "ai_key owner"]
    by (simp add: idl_create_buffer_def take_account_def ensure_p_def Let_def HEADER_LEN_def list_all_iff)
  moreover have "idl_write E crate_id [raw_account key ?b1, owner] payload = POk [Write key (RawAccount ?b2)]"
    using assms(1-3)
    by (simp add: idl_write_def take_account_def check_owned_idl_def check_authority_def ensure_p_def
        Let_def idl_image_reads idl_image_writes HEADER_LEN_def [symmetric] drop_replicate)
  moreover have "idl_set_authority E crate_id [raw_account key ?b2, owner] new = POk [Write key (RawAccount ?b3)]"
    using assms(1-4)
    by (simp add: idl_set_authority_def take_account_def check_owned_idl_def check_authority_def
        ensure_p_def idl_image_reads idl_image_writes)
  moreover have "borrow_position_mut E (raw_account key ?b3)
      = POk (TypedAccount (raw_account key ?b3) (pod_borrow_position E ?b3))"
    using assms(3-5) by (simp add: idl_image_reads)
  ultimately show ?thesis by blast
qed

text \<open>The fields of a borrow position where \<open>repr(C)\<close> lays them out.\<close>

definition example_pod_borrow :: "u8 list \<Rightarrow> borrow_position" where
  "example_pod_borrow bytes = (example_borrower 0 0)
     \<lparr>bp_authority := word_of_int (bytes_int (rev (take 32 bytes))),
      bp_market := word_of_int (bytes_int (rev (take 32 (drop 32 bytes)))),
      collateral_deposited_atoms := word_of_int (bytes_int (take 8 (drop 64 bytes)))\<rparr>"

definition example_forged :: "u8 list" where
  "example_forged = idl_image (replicate 32 7) 28 (replicate 20 0 @ [0, 0, 1, 0, 0, 0, 0, 0] @ replicate 152 0)"

lemma example_forged_reads:
  "bp_authority (example_pod_borrow example_forged) \<noteq> 0"
  "collateral_deposited_atoms (example_pod_borrow example_forged) = 65536"
  by code_simp+

theorem idl_buffer_passes_for_position_witness:
  "\<exists>b1 b2 b3 p. idl_create_buffer (example_env\<lparr>pod_borrow_position := example_pod_borrow\<rparr>) crate_id
        [raw_account 60 (replicate 224 0), example_account 11 3 True (RawAccount [])]
        = POk [Write 60 (RawAccount b1)]
     \<and> idl_write (example_env\<lparr>pod_borrow_position := example_pod_borrow\<rparr>) crate_id
        [raw_account 60 b1, example_account 11 3 True (RawAccount [])]
        (replicate 20 0 @ [0, 0, 1, 0, 0, 0, 0, 0]) = POk [Write 60 (RawAccount b2)]
     \<and> idl_set_authority (example_env\<lparr>pod_borrow_position := example_pod_borrow\<rparr>) crate_id
        [raw_account 60 b2, example_account 11 3 True (RawAccount [])] (replicate 32 7)
        = POk [Write 60 (RawAccount b3)]
     \<and> borrow_position_mut (example_env\<lparr>pod_borrow_position := example_pod_borrow\<rparr>) (raw_account 60 b3)
        = POk (TypedAccount (raw_account 60 b3) p)
     \<and> collateral_deposited_atoms p = 65536"
proof -
  let ?E = "example_env\<lparr>pod_borrow_position := example_pod_borrow\<rparr>"
  let ?owner = "example_account 11 3 True (RawAccount [])"
  let ?payload = "replicate 20 0 @ [0, 0, 1, 0, 0, 0, 0, 0] :: u8 list"
  have image: "idl_image (replicate 32 7) (length ?payload) (?payload @ replicate (180 - length ?payload) 0)
      = example_forged" by (simp add: example_forged_def)
  have "ai_is_signer ?owner" "ai_key ?owner \<noteq> 0" "length ?payload \<le> 180" "length (replicate 32 (7::u8)) = 32"
    by (simp_all add: example_account_def)
  moreover have "borrow_position_is_initialized (pod_borrow_position ?E (idl_image (replicate 32 7)
      (length ?payload) (?payload @ replicate (180 - length ?payload) 0)))"
    unfolding image using example_forged_reads(1) by (simp add: borrow_position_is_initialized_def)
  ultimately have "\<exists>b1 b2 b3.
     idl_create_buffer ?E crate_id [raw_account 60 (replicate 224 0), ?owner] = POk [Write 60 (RawAccount b1)]
     \<and> idl_write ?E crate_id [raw_account 60 b1, ?owner] ?payload = POk [Write 60 (RawAccount b2)]
     \<and> idl_set_authority ?E crate_id [raw_account 60 b2, ?owner] (replicate 32 7) = POk [Write 60 (RawAccount b3)]
     \<and> b3 = idl_image (replicate 32 7) (length ?payload) (?payload @ replicate (180 - length ?payload) 0)
     \<and> borrow_position_mut ?E (raw_account 60 b3) = POk (TypedAccount (raw_account 60 b3) (pod_borrow_position ?E b3))"
    by (rule idl_buffer_passes_for_position)
  moreover have "collateral_deposited_atoms (pod_borrow_position ?E example_forged) = 65536"
    using example_forged_reads(2) by simp
  ultimately show ?thesis unfolding image by metis
qed

end
