(* ===== verification/Builder_Laws.thy ===== *)
theory Builder_Laws
  imports Instruction_Builders Program_Examples
begin

text \<open>
  What the builders promise to the program. The runtime hands the program the accounts of the list
  with the flags of the list; the owner, the data and the balance are those on the ledger.
\<close>

definition resolve :: "(pubkey \<Rightarrow> account_info) \<Rightarrow> account_meta list \<Rightarrow> account_info list" where
  "resolve ledger = map (\<lambda>m. (ledger (am_pubkey m))\<lparr>ai_key := am_pubkey m,
     ai_is_signer := am_is_signer m, ai_is_writable := am_is_writable m\<rparr>)"

section \<open>Privileges\<close>

definition present :: "account_meta list \<Rightarrow> pubkey \<Rightarrow> bool" where
  "present ms k \<longleftrightarrow> list_ex (\<lambda>m. am_pubkey m = k) ms"

definition writable :: "account_meta list \<Rightarrow> pubkey \<Rightarrow> bool" where
  "writable ms k \<longleftrightarrow> list_ex (\<lambda>m. am_pubkey m = k \<and> am_is_writable m) ms"

definition signing :: "account_meta list \<Rightarrow> pubkey \<Rightarrow> bool" where
  "signing ms k \<longleftrightarrow> list_ex (\<lambda>m. am_pubkey m = k \<and> am_is_signer m) ms"

text \<open>
  What an effect needs of the accounts of its instruction: a called program and all its accounts
  are there, those it changes are writable, and those that must sign do so, unless the program signs for
  a derived address. Effects of the IDL handler do not occur in instructions of the market.
\<close>

fun granted :: "environment \<Rightarrow> account_meta list \<Rightarrow> effect \<Rightarrow> bool" where
  "granted E ms (Write k d) \<longleftrightarrow> writable ms k"
| "granted E ms (LogEvent program_id market ev seeds) \<longleftrightarrow>
     present ms program_id \<and> present ms market \<and> seeds \<noteq> []"
| "granted E ms (TokenTransfer src dst auth amount seeds) \<longleftrightarrow>
     present ms (apl_token_id E) \<and> writable ms src \<and> writable ms dst
     \<and> (if seeds = [] then signing ms auth else present ms auth)"
| "granted E ms (CreateAccount payer key space own seeds) \<longleftrightarrow>
     present ms (system_program_id E) \<and> signing ms payer \<and> writable ms payer \<and> writable ms key
     \<and> seeds \<noteq> []"
| "granted E ms (CreateAta funder ata wallet mint) \<longleftrightarrow>
     present ms (apl_associated_token_id E) \<and> signing ms funder
     \<and> list_all (\<lambda>m. if am_is_writable m then writable ms (am_pubkey m) else present ms (am_pubkey m))
         (ai_accounts (create_ata_ix E funder (Some ata) wallet mint))"
| "granted E ms (Invoke i) \<longleftrightarrow>
     present ms (ai_program_id i) \<and> list_all (\<lambda>m. m \<in> set ms) (ai_accounts i)"
| "granted E ms _ \<longleftrightarrow> False"

definition privileges :: "account_meta list \<Rightarrow> pubkey list \<Rightarrow> pubkey list \<Rightarrow> pubkey list \<Rightarrow> bool" where
  "privileges ms ws ss ps \<longleftrightarrow>
     list_all (writable ms) ws \<and> list_all (signing ms) ss \<and> list_all (present ms) ps"

lemma privileges_iff:
  "privileges ms ws ss ps \<longleftrightarrow> list_all (\<lambda>k. writable ms k \<and> present ms k) ws
     \<and> list_all (\<lambda>k. signing ms k \<and> present ms k) ss \<and> list_all (present ms) ps"
  by (auto simp: privileges_def writable_def signing_def present_def list_all_iff list_ex_iff)

definition callback_program_present :: "account_meta list \<Rightarrow> arch_instruction option \<Rightarrow> bool" where
  "callback_program_present ms c \<longleftrightarrow> (case c of None \<Rightarrow> True | Some i \<Rightarrow> present ms (ai_program_id i))"

definition callback_present :: "account_meta list \<Rightarrow> arch_instruction option \<Rightarrow> bool" where
  "callback_present ms c \<longleftrightarrow>
     callback_program_present ms c \<and> list_all (\<lambda>m. m \<in> set ms) (callback_accounts c)"

lemma callback_granted: "callback_present ms c \<Longrightarrow> list_all (granted E ms) (callback_effects c)"
  by (auto simp: callback_present_def callback_program_present_def callback_effects_def callback_accounts_def
      split: option.splits)

lemma callback_granted_program:
  "list_all (granted E ms) (callback_effects c) \<Longrightarrow> callback_program_present ms c"
  by (simp add: callback_effects_def callback_program_present_def split: option.splits)

text \<open>
  The builders of the two leverage instructions append the accounts of a callback but not its program;
  for these the caller has to list the program among the accounts of the callback, or it is one of the
  accounts of the instruction itself. Every other builder needs nothing of its caller.
\<close>

definition leverage_callback_listed :: "account_meta list \<Rightarrow> aurata_instruction \<Rightarrow> bool" where
  "leverage_callback_listed ms ix \<longleftrightarrow>
     (case ix of
        BorrowDepositApl d \<Rightarrow> callback_program_present ms (bd_ix_callback d)
      | WithdrawRepayApl d \<Rightarrow> callback_program_present ms (wr_ix_callback d)
      | _ \<Rightarrow> True)"

section \<open>The order of the accounts\<close>

text \<open>The addresses of an instruction's accounts, in the order in which \<open>from_accounts\<close> takes them.\<close>

lemma lender_layout:
  "supply_apl_from_accounts E accounts = POk a1 \<Longrightarrow> \<exists>rest. map ai_key accounts =
       acc_key (sa_market a1) # acc_key (sa_supply_position a1) # ai_key (sa_authority a1) #
       acc_key (sa_authority_supply_ata a1) # acc_key (sa_market_supply_vault a1) #
       ai_key (sa_apl_token_program a1) # ai_key (sa_supply_oracle a1) #
       ai_key (sa_collateral_oracle a1) # rest"
  "withdraw_supply_from_accounts E accounts = POk a2 \<Longrightarrow> \<exists>rest. map ai_key accounts =
       acc_key (ws_market a2) # acc_key (ws_supply_position a2) # ai_key (ws_authority a2) #
       acc_key (ws_authority_supply_ata a2) # acc_key (ws_market_supply_vault a2) #
       ai_key (ws_apl_token_program a2) # ai_key (ws_supply_oracle a2) #
       ai_key (ws_collateral_oracle a2) # rest"
  "donate_supply_from_accounts E accounts = POk a3 \<Longrightarrow> \<exists>rest. map ai_key accounts =
       acc_key (dn_market a3) # ai_key (dn_authority a3) # acc_key (dn_authority_supply_ata a3) #
       acc_key (dn_market_supply_vault a3) # ai_key (dn_apl_token_program a3) # rest"
  by (auto simp: supply_apl_from_accounts_def withdraw_supply_from_accounts_def
      donate_supply_from_accounts_def Let_def)

lemma borrower_layout:
  "borrow_apl_from_accounts E accounts = POk a1 \<Longrightarrow> \<exists>rest. map ai_key accounts =
       acc_key (ba_market a1) # acc_key (ba_borrow_position a1) # ai_key (ba_authority a1) #
       acc_key (ba_authority_supply_ata a1) # acc_key (ba_market_supply_vault a1) #
       ai_key (ba_apl_token_program a1) # ai_key (ba_supply_oracle a1) #
       ai_key (ba_collateral_oracle a1) # rest"
  "deposit_apl_collateral_from_accounts E accounts = POk a2 \<Longrightarrow> \<exists>rest. map ai_key accounts =
       acc_key (dc_market a2) # acc_key (dc_borrow_position a2) # ai_key (dc_authority a2) #
       acc_key (dc_authority_collateral_ata a2) # acc_key (dc_market_collateral_vault a2) #
       ai_key (dc_apl_token_program a2) # ai_key (dc_supply_oracle a2) #
       ai_key (dc_collateral_oracle a2) # rest"
  "withdraw_apl_collateral_from_accounts E accounts = POk a3 \<Longrightarrow> \<exists>rest. map ai_key accounts =
       acc_key (wc_market a3) # acc_key (wc_borrow_position a3) # ai_key (wc_authority a3) #
       acc_key (wc_authority_collateral_ata a3) # acc_key (wc_market_collateral_vault a3) #
       ai_key (wc_apl_token_program a3) # ai_key (wc_supply_oracle a3) #
       ai_key (wc_collateral_oracle a3) # rest"
  "repay_apl_from_accounts E accounts = POk a4 \<Longrightarrow> \<exists>rest. map ai_key accounts =
       acc_key (ra_market a4) # acc_key (ra_borrow_position a4) # ai_key (ra_authority a4) #
       acc_key (ra_authority_supply_ata a4) # acc_key (ra_market_supply_vault a4) #
       ai_key (ra_apl_token_program a4) # ai_key (ra_supply_oracle a4) #
       ai_key (ra_collateral_oracle a4) # rest"
  by (auto simp: borrow_apl_from_accounts_def deposit_apl_collateral_from_accounts_def
      withdraw_apl_collateral_from_accounts_def repay_apl_from_accounts_def Let_def)

lemma leverage_layout:
  "borrow_deposit_apl_from_accounts E accounts = POk a1 \<Longrightarrow> \<exists>rest. map ai_key accounts =
       acc_key (bd_market a1) # acc_key (bd_borrow_position a1) # ai_key (bd_authority a1) #
       acc_key (bd_authority_supply_ata a1) # acc_key (bd_market_supply_vault a1) #
       acc_key (bd_authority_collateral_ata a1) # acc_key (bd_market_collateral_vault a1) #
       ai_key (bd_apl_token_program a1) # ai_key (bd_supply_oracle a1) #
       ai_key (bd_collateral_oracle a1) # rest"
  "withdraw_repay_apl_from_accounts E accounts = POk a2 \<Longrightarrow> \<exists>rest. map ai_key accounts =
       acc_key (wr_market a2) # acc_key (wr_borrow_position a2) # ai_key (wr_authority a2) #
       acc_key (wr_authority_supply_ata a2) # acc_key (wr_market_supply_vault a2) #
       acc_key (wr_authority_collateral_ata a2) # acc_key (wr_market_collateral_vault a2) #
       ai_key (wr_supply_mint_program a2) # ai_key (wr_supply_oracle a2) #
       ai_key (wr_collateral_oracle a2) # rest"
  by (auto simp: borrow_deposit_apl_from_accounts_def withdraw_repay_apl_from_accounts_def Let_def)

lemma liquidation_layout:
  "liquidate_from_accounts E accounts = POk a1 \<Longrightarrow> \<exists>rest. map ai_key accounts =
       acc_key (lq_market a1) # acc_key (lq_borrow_position a1) # ai_key (lq_liquidator a1) #
       acc_key (lq_liquidator_supply_ata a1) # acc_key (lq_liquidator_collateral_ata a1) #
       acc_key (lq_market_supply_vault a1) # acc_key (lq_market_collateral_vault a1) #
       ai_key (lq_apl_token_program a1) # ai_key (lq_supply_oracle a1) #
       ai_key (lq_collateral_oracle a1) # rest"
  "begin_capital_sweep_from_accounts E accounts = POk a2 \<Longrightarrow> \<exists>rest. map ai_key accounts =
       acc_key (bs_market a2) # acc_key (bs_borrow_position a2) # ai_key (bs_curator a2) #
       acc_key (bs_curator_collateral_ata a2) # acc_key (bs_market_collateral_vault a2) #
       ai_key (bs_apl_token_program a2) # ai_key (bs_supply_oracle a2) #
       ai_key (bs_collateral_oracle a2) # rest"
  "settle_capital_sweep_from_accounts E accounts = POk a3 \<Longrightarrow> \<exists>rest. map ai_key accounts =
       acc_key (stl_market a3) # acc_key (stl_borrow_position a3) # ai_key (stl_curator a3) #
       acc_key (stl_curator_supply_ata a3) # acc_key (stl_curator_collateral_ata a3) #
       acc_key (stl_market_supply_vault a3) # acc_key (stl_market_collateral_vault a3) #
       ai_key (stl_apl_token_program a3) # ai_key (stl_supply_oracle a3) #
       ai_key (stl_collateral_oracle a3) # rest"
  "socialize_loss_from_accounts E accounts = POk a4 \<Longrightarrow> \<exists>rest. map ai_key accounts =
       acc_key (so_market a4) # acc_key (so_borrow_position a4) # ai_key (so_curator a4) #
       acc_key (so_receiver_collateral_ata a4) # acc_key (so_market_collateral_vault a4) #
       ai_key (so_apl_token_program a4) # ai_key (so_supply_oracle a4) #
       ai_key (so_collateral_oracle a4) # rest"
  by (auto simp: liquidate_from_accounts_def begin_capital_sweep_from_accounts_def
      settle_capital_sweep_from_accounts_def socialize_loss_from_accounts_def Let_def)

lemma admin_layout:
  "redeem_curator_fees_from_accounts E accounts = POk a1 \<Longrightarrow> \<exists>rest. map ai_key accounts =
       ai_key (rc_curator a1) # acc_key (rc_market a1) # acc_key (rc_curator_supply_ata a1) #
       acc_key (rc_market_supply_vault a1) # ai_key (rc_apl_token_program a1) # rest"
  "redeem_protocol_fees_from_accounts E accounts = POk a2 \<Longrightarrow> \<exists>rest. map ai_key accounts =
       ai_key (rp_signer a2) # acc_key (rp_global_config a2) # acc_key (rp_market a2) #
       acc_key (rp_receiver_supply_ata a2) # acc_key (rp_market_supply_vault a2) #
       ai_key (rp_apl_token_program a2) # rest"
  "update_config_from_accounts E accounts = POk a3 \<Longrightarrow> \<exists>rest. map ai_key accounts =
       acc_key (uc_market a3) # acc_key (uc_global_config a3) # ai_key (uc_curator a3) #
       ai_key (uc_updated_supply_oracle a3) # ai_key (uc_updated_collateral_oracle a3) # rest"
  "update_global_config_from_accounts E accounts = POk a4 \<Longrightarrow> \<exists>rest. map ai_key accounts =
       ai_key (ug_signer a4) # acc_key (ug_global_config a4) # rest"
  "add_whitelisted_liquidator_from_accounts E accounts data_liquidator data_bump = POk a5 \<Longrightarrow> \<exists>rest. map ai_key accounts =
       acc_key (aw_market a5) # ai_key (aw_curator a5) # ai_key (aw_whitelist_entry a5) #
       ai_key (aw_system_program a5) # rest"
  "remove_whitelisted_liquidator_from_accounts E accounts data_liquidator = POk a6 \<Longrightarrow> \<exists>rest. map ai_key accounts =
       acc_key (rw_market a6) # ai_key (rw_curator a6) # acc_key (rw_whitelist_entry a6) # rest"
  by (auto simp: redeem_curator_fees_from_accounts_def redeem_protocol_fees_from_accounts_def
      update_config_from_accounts_def update_global_config_from_accounts_def
      add_whitelisted_liquidator_from_accounts_def
      remove_whitelisted_liquidator_from_accounts_def Let_def)

lemma create_layout:
  "create_market_from_accounts E accounts = POk a1 \<Longrightarrow> \<exists>rest. map ai_key accounts =
       ai_key (cm_curator a1) # ai_key (cm_payer a1) # acc_key (cm_global_config a1) #
       ai_key (cm_market a1) # acc_key (cm_supply_mint a1) # ai_key (cm_supply_vault a1) #
       acc_key (cm_collateral_mint a1) # ai_key (cm_collateral_vault a1) #
       ai_key (cm_apl_token_program a1) # ai_key (cm_associated_token_program a1) #
       ai_key (cm_system_program a1) # rest"
  "create_supply_position_from_accounts E accounts = POk a2 \<Longrightarrow> \<exists>rest. map ai_key accounts =
       acc_key (csp_market a2) # ai_key (csp_supply_position a2) # ai_key (csp_authority a2) #
       ai_key (csp_payer a2) # ai_key (csp_system_program a2) # rest"
  "create_borrow_position_from_accounts E accounts = POk a3 \<Longrightarrow> \<exists>rest. map ai_key accounts =
       acc_key (cbp_market a3) # ai_key (cbp_borrow_position a3) # ai_key (cbp_authority a3) #
       ai_key (cbp_payer a3) # ai_key (cbp_system_program a3) # rest"
  "create_global_config_from_accounts E accounts = POk a4 \<Longrightarrow> \<exists>rest. map ai_key accounts =
       ai_key (cg_payer a4) # ai_key (cg_global_config a4) # ai_key (cg_system_program a4) # rest"
  by (auto simp: create_market_from_accounts_def create_supply_position_from_accounts_def
      create_borrow_position_from_accounts_def create_global_config_from_accounts_def
      Let_def)

section \<open>What the handlers need\<close>

lemmas need_simps = privileges_iff log_effect_def create_ata_ix_def meta_new_def
  meta_new_readonly_def Let_def

lemma lender_needs:
  "process_supply_apl F E a1 atoms pid now = POk effects \<Longrightarrow> privileges ms [acc_key
       (sa_market a1), acc_key (sa_supply_position a1), acc_key (sa_authority_supply_ata a1), acc_key
       (sa_market_supply_vault a1)] [ai_key (sa_authority a1)] [apl_token_id E, pid] \<Longrightarrow>
       list_all (granted E ms) effects"
  "process_withdraw_supply F E a2 d2 pid now = POk effects \<Longrightarrow> privileges ms [acc_key
       (ws_market a2), acc_key (ws_supply_position a2), acc_key (ws_authority_supply_ata a2), acc_key
       (ws_market_supply_vault a2)] [] [apl_token_id E, pid] \<Longrightarrow> list_all (granted E ms)
       effects"
  "process_donate_supply F a3 atoms pid now = POk effects \<Longrightarrow> privileges ms [acc_key
       (dn_market a3), acc_key (dn_authority_supply_ata a3), acc_key (dn_market_supply_vault a3)] [ai_key
       (dn_authority a3)] [apl_token_id E, pid] \<Longrightarrow> list_all (granted E ms) effects"
  by (auto simp: process_supply_apl_def process_withdraw_supply_def process_donate_supply_def
      need_simps split: if_splits)

lemma borrower_needs:
  "process_borrow_apl F E a1 atoms pid now = POk effects \<Longrightarrow> privileges ms [acc_key
       (ba_market a1), acc_key (ba_borrow_position a1), acc_key (ba_authority_supply_ata a1), acc_key
       (ba_market_supply_vault a1)] [] [apl_token_id E, pid] \<Longrightarrow> list_all (granted E ms)
       effects"
  "process_deposit_apl_collateral F E a2 atoms pid now = POk effects \<Longrightarrow> privileges ms
       [acc_key (dc_market a2), acc_key (dc_borrow_position a2), acc_key (dc_authority_collateral_ata a2),
       acc_key (dc_market_collateral_vault a2)] [ai_key (dc_authority a2)] [apl_token_id E, pid]
       \<Longrightarrow> list_all (granted E ms) effects"
  "process_withdraw_apl_collateral F E a3 d3 pid now = POk effects \<Longrightarrow> privileges ms
       [acc_key (wc_market a3), acc_key (wc_borrow_position a3), acc_key (wc_authority_collateral_ata a3),
       acc_key (wc_market_collateral_vault a3)] [] [apl_token_id E, pid] \<Longrightarrow> list_all
       (granted E ms) effects"
  "process_repay_apl F E a4 d4 pid now = POk effects \<Longrightarrow> privileges ms [acc_key
       (ra_market a4), acc_key (ra_borrow_position a4), acc_key (ra_authority_supply_ata a4), acc_key
       (ra_market_supply_vault a4)] [ai_key (ra_authority a4)] [apl_token_id E, pid] \<Longrightarrow>
       list_all (granted E ms) effects"
  by (auto simp: process_borrow_apl_def process_deposit_apl_collateral_def
      process_withdraw_apl_collateral_def process_repay_apl_def need_simps split:
      if_splits)

lemma leverage_needs:
  "process_borrow_deposit_apl F E a1 d1 pid now = POk effects \<Longrightarrow> privileges ms [acc_key
       (bd_market a1), acc_key (bd_borrow_position a1), acc_key (bd_authority_supply_ata a1), acc_key
       (bd_market_supply_vault a1), acc_key (bd_authority_collateral_ata a1), acc_key
       (bd_market_collateral_vault a1)] [ai_key (bd_authority a1)] [apl_token_id E, pid] \<Longrightarrow>
       callback_present ms (bd_ix_callback d1) \<Longrightarrow> list_all (granted E ms) effects"
  "process_withdraw_repay_apl F E a2 d2 pid now = POk effects \<Longrightarrow> privileges ms [acc_key
       (wr_market a2), acc_key (wr_borrow_position a2), acc_key (wr_authority_supply_ata a2), acc_key
       (wr_market_supply_vault a2), acc_key (wr_authority_collateral_ata a2), acc_key
       (wr_market_collateral_vault a2)] [ai_key (wr_authority a2)] [apl_token_id E, pid] \<Longrightarrow>
       callback_present ms (wr_ix_callback d2) \<Longrightarrow> list_all (granted E ms) effects"
  by (clarsimp simp: process_borrow_deposit_apl_def process_withdraw_repay_apl_def need_simps
      callback_granted)+

lemma liquidation_needs:
  "process_liquidate F E a1 d1 pid now = POk effects \<Longrightarrow> privileges ms [acc_key
       (lq_market a1), acc_key (lq_borrow_position a1), acc_key (lq_liquidator_supply_ata a1), acc_key
       (lq_liquidator_collateral_ata a1), acc_key (lq_market_supply_vault a1), acc_key
       (lq_market_collateral_vault a1)] [ai_key (lq_liquidator a1)] [apl_token_id E, pid] \<Longrightarrow>
       callback_present ms (lq_ix_callback d1) \<Longrightarrow> list_all (granted E ms) effects"
  "process_begin_capital_sweep F E a2 pid now = POk effects \<Longrightarrow> privileges ms [acc_key
       (bs_market a2), acc_key (bs_borrow_position a2), acc_key (bs_curator_collateral_ata a2), acc_key
       (bs_market_collateral_vault a2)] [] [apl_token_id E, pid] \<Longrightarrow> list_all (granted E ms)
       effects"
  "process_settle_capital_sweep F E a3 d3 pid now = POk effects \<Longrightarrow> privileges ms
       [acc_key (stl_market a3), acc_key (stl_borrow_position a3), acc_key (stl_curator_supply_ata a3),
       acc_key (stl_curator_collateral_ata a3), acc_key (stl_market_supply_vault a3), acc_key
       (stl_market_collateral_vault a3)] [ai_key (stl_curator a3)] [apl_token_id E, pid] \<Longrightarrow>
       list_all (granted E ms) effects"
  "process_socialize_loss F E a4 pid now = POk effects \<Longrightarrow> privileges ms [acc_key
       (so_market a4), acc_key (so_borrow_position a4), acc_key (so_receiver_collateral_ata a4), acc_key
       (so_market_collateral_vault a4)] [] [apl_token_id E, pid] \<Longrightarrow> list_all (granted E ms)
       effects"
  by (auto simp: process_liquidate_def process_begin_capital_sweep_def
      process_settle_capital_sweep_def process_socialize_loss_def need_simps
      callback_granted split: if_splits)

lemma admin_needs:
  "process_redeem_curator_fees F a1 pid now = POk effects \<Longrightarrow> privileges ms [acc_key
       (rc_market a1), acc_key (rc_curator_supply_ata a1), acc_key (rc_market_supply_vault a1)] []
       [apl_token_id E, pid] \<Longrightarrow> list_all (granted E ms) effects"
  "process_redeem_protocol_fees F a2 pid now = POk effects \<Longrightarrow> privileges ms [acc_key
       (rp_market a2), acc_key (rp_receiver_supply_ata a2), acc_key (rp_market_supply_vault a2)] []
       [apl_token_id E, pid] \<Longrightarrow> list_all (granted E ms) effects"
  "process_update_config F E a3 d3 now = POk effects \<Longrightarrow> privileges ms [acc_key
       (uc_market a3)] [] [] \<Longrightarrow> list_all (granted E ms) effects"
  "process_update_global_config a4 d4 = POk effects \<Longrightarrow> privileges ms [acc_key
       (ug_global_config a4)] [] [] \<Longrightarrow> list_all (granted E ms) effects"
  "process_add_whitelisted_liquidator E a5 d5 pid = POk effects \<Longrightarrow> privileges ms
       [acc_key (aw_market a5), ai_key (aw_whitelist_entry a5), ai_key (aw_curator a5)] [ai_key (aw_curator
       a5)] [system_program_id E, pid] \<Longrightarrow> list_all (granted E ms) effects"
  "process_remove_whitelisted_liquidator a6 l pid = POk effects \<Longrightarrow> privileges ms
       [acc_key (rw_market a6), acc_key (rw_whitelist_entry a6)] [] [pid] \<Longrightarrow> list_all
       (granted E ms) effects"
  by (auto simp: process_redeem_curator_fees_def process_redeem_protocol_fees_def
      process_update_config_def process_update_global_config_def
      process_add_whitelisted_liquidator_def process_remove_whitelisted_liquidator_def
      need_simps split: if_splits)

lemma create_needs:
  "process_create_market F E a1 d1 pid now = POk effects \<Longrightarrow> privileges ms [ai_key
       (cm_payer a1), ai_key (cm_market a1), ai_key (cm_supply_vault a1), ai_key (cm_collateral_vault a1)]
       [ai_key (cm_payer a1)] [system_program_id E, apl_token_id E, apl_associated_token_id E, acc_key
       (cm_supply_mint a1), acc_key (cm_collateral_mint a1)] \<Longrightarrow> list_all (granted E ms)
       effects"
  "process_create_supply_position E a2 bump pid = POk effects \<Longrightarrow> privileges ms [ai_key
       (csp_payer a2), ai_key (csp_supply_position a2)] [ai_key (csp_payer a2)] [system_program_id E]
       \<Longrightarrow> list_all (granted E ms) effects"
  "process_create_borrow_position E a3 bump pid = POk effects \<Longrightarrow> privileges ms [ai_key
       (cbp_payer a3), ai_key (cbp_borrow_position a3)] [ai_key (cbp_payer a3)] [system_program_id E]
       \<Longrightarrow> list_all (granted E ms) effects"
  "process_create_global_config E a4 d4 pid = POk effects \<Longrightarrow> privileges ms [ai_key
       (cg_payer a4), ai_key (cg_global_config a4)] [ai_key (cg_payer a4)] [system_program_id E]
       \<Longrightarrow> list_all (granted E ms) effects"
  by (auto simp: process_create_market_def process_create_supply_position_def
      process_create_borrow_position_def process_create_global_config_def need_simps
      split: if_splits)

section \<open>Built instructions\<close>

text \<open>The instructions that the builders return, with the value that their data serialises.\<close>

inductive built :: "environment \<Rightarrow> instruction_codecs \<Rightarrow> aurata_instruction \<Rightarrow> arch_instruction \<Rightarrow> bool"
  for E B where
  create_market: "built E B (CreateMarket (d\<lparr>ix_market_bump := (snd (find_market_pda E pid cur sm cm
    (ix_index d)))\<rparr>)) (snd (create_market_ix E B d sm cm pid cur payer))"
| update_config: "update_config_ix E B pid market cur d so co = POk i \<Longrightarrow> built E B
    (UpdateConfig d) i"
| reedeem_curator_fees: "built E B ReedeemCuratorFees (reedeem_curator_fees_ix E B pid market cur sa sv)"
| create_global_config: "built E B (CreateGlobalConfig \<lparr>cg_bump = (snd (find_global_config_pda E pid)),
    cg_admin = adm, cg_fee_receiver = receiver, cg_protocol_fee_share_in_bps = share\<rparr>)
    (snd (create_global_config_ix E B pid payer adm receiver share))"
| update_global_config: "built E B (UpdateGlobalConfig d) (update_global_config_ix E B pid adm d)"
| reedeem_protocol_fees: "built E B ReedeemProtocolFees (reedeem_protocol_fees_ix E B pid market adm receiver sv)"
| create_supply_position: "built E B (CreateSupplyPosition (snd (find_supply_position_pda E pid market auth))) (snd
    (create_supply_position_ix E B pid market auth payer))"
| supply_apl: "built E B (SupplyApl amount) (supply_apl_ix E B pid market pos auth sa sv so co amount)"
| withdraw_supply: "built E B (WithdrawSupply \<lparr>ws_amount = amount, ws_withdraw_all =
    withdraw_all\<rparr>) (withdraw_supply_ix E B pid market pos auth sa sv so co amount
    withdraw_all)"
| donate_supply: "built E B (DonateSupply amount) (donate_supply_ix E B pid market auth sa sv amount)"
| create_borrow_position: "built E B (CreateBorrowPosition (snd (find_borrow_position_pda E pid market auth))) (snd
    (create_borrow_position_ix E B pid market auth payer))"
| borrow_apl: "built E B (BorrowApl amount) (borrow_apl_ix E B pid market auth pos sa sv so co amount)"
| deposit_apl_collateral: "built E B (DepositAplCollateral amount) (deposit_apl_collateral_ix E B pid market auth pos
    ca cv so co amount)"
| withdraw_apl_collateral: "built E B (WithdrawAplCollateral \<lparr>wc_amount = amount, wc_withdraw_all =
    withdraw_all\<rparr>) (withdraw_apl_collateral_ix E B pid market auth pos ca cv so co amount
    withdraw_all)"
| repay_apl: "built E B (RepayApl \<lparr>ra_amount = amount, ra_repay_all = repay_all\<rparr>)
    (repay_apl_ix E B pid market pos auth sa sv so co amount repay_all)"
| withdraw_repay_apl: "built E B (WithdrawRepayApl d) (withdraw_repay_apl_ix E B pid market auth pos sa sv ca cv so
    co d)"
| borrow_deposit_apl: "built E B (BorrowDepositApl d) (borrow_deposit_apl_ix E B pid market auth pos sa sv ca cv so
    co d)"
| liquidate: "built E B (Liquidate \<lparr>max_borrowed_atoms_to_repay = max_repay,
    min_collateral_atoms_to_receive = min_receive, lq_ix_callback = callback\<rparr>)
    (liquidate_ix E B pid market pos liq sa ca sv cv so co max_repay min_receive entry callback)"
| socialize_loss: "built E B SocializeLoss (socialize_loss_ix E B pid market pos cur ca cv so co)"
| begin_capital_sweep: "built E B BeginCapitalSweep (begin_capital_sweep_ix E B pid market pos cur ca cv so co)"
| settle_capital_sweep: "built E B (SettleCapitalSweep \<lparr>stl_max_borrowed_atoms_to_repay = max_repay,
    stl_max_collateral_atoms_to_return = max_return\<rparr>) (settle_capital_sweep_ix E B pid
    market pos cur sa ca sv cv so co max_repay max_return)"
| add_whitelisted_liquidator: "built E B (AddWhitelistedLiquidator \<lparr>aw_liquidator = liq, aw_bump = (snd
    (find_liquidator_whitelist_entry_pda E pid market liq))\<rparr>) (snd
    (add_whitelisted_liquidator_ix E B pid market cur liq))"
| remove_whitelisted_liquidator: "built E B (RemoveWhitelistedLiquidator liq) (snd (remove_whitelisted_liquidator_ix E B pid
    market cur liq))"

lemmas builder_defs = create_market_ix_def update_config_ix_def reedeem_curator_fees_ix_def
  create_global_config_ix_def update_global_config_ix_def reedeem_protocol_fees_ix_def
  create_supply_position_ix_def supply_apl_ix_def withdraw_supply_ix_def
  donate_supply_ix_def create_borrow_position_ix_def borrow_apl_ix_def
  deposit_apl_collateral_ix_def withdraw_apl_collateral_ix_def repay_apl_ix_def
  withdraw_repay_apl_ix_def borrow_deposit_apl_ix_def liquidate_ix_def socialize_loss_ix_def
  begin_capital_sweep_ix_def settle_capital_sweep_ix_def add_whitelisted_liquidator_ix_def
  remove_whitelisted_liquidator_ix_def find_supply_position_pda_def
  find_borrow_position_pda_def Let_def

lemma built_data: "built E B ix i \<Longrightarrow> ai_instruction_data i = instruction_serialize B ix"
  by (cases rule: built.cases) (auto simp: instruction_of_def builder_defs split: prod.splits)

lemma resolve_keys: "map ai_key (resolve L ms) = map am_pubkey ms"
  by (simp add: resolve_def)

lemmas account_layouts = lender_layout borrower_layout leverage_layout liquidation_layout admin_layout
  create_layout

lemmas account_slots = account_layouts [where accounts = "resolve L ms" for L ms, unfolded resolve_keys]

lemmas handler_needs = lender_needs borrower_needs leverage_needs liquidation_needs admin_needs create_needs

lemmas privilege_eval = builder_defs instruction_of_def privileges_def writable_def signing_def present_def
  meta_new_def meta_new_readonly_def case_prod_beta

lemmas callback_eval = callback_present_def callback_program_present_def callback_accounts_def
  leverage_callback_listed_def list_all_iff

lemma leverage_invokes:
  "process_borrow_deposit_apl F E a1 d1 pid now = POk effects \<Longrightarrow> list_all (granted E ms) effects
     \<Longrightarrow> callback_program_present ms (bd_ix_callback d1)"
  "process_withdraw_repay_apl F E a2 d2 pid now = POk effects \<Longrightarrow> list_all (granted E ms) effects
     \<Longrightarrow> callback_program_present ms (wr_ix_callback d2)"
  by (auto simp: process_borrow_deposit_apl_def process_withdraw_repay_apl_def Let_def
      intro: callback_granted_program)

lemma granted_lists_callback:
  assumes "process_aurata_instruction F E pid accounts now ix = POk effects"
    and "list_all (granted E ms) effects"
  shows "leverage_callback_listed ms ix"
  using assms
  by (cases ix) (auto simp: process_aurata_instruction_def leverage_callback_listed_def dest: leverage_invokes)

lemma built_granted:
  assumes "built E B ix i" and "process_aurata_instruction F E (ai_program_id i) (resolve L (ai_accounts i)) now ix = POk effects"
    and "leverage_callback_listed (ai_accounts i) ix"
  shows "list_all (granted E (ai_accounts i)) effects"
  using assms
  by (cases rule: built.cases)
    (clarsimp simp: process_aurata_instruction_def, frule account_slots, rule handler_needs, assumption,
     (clarsimp simp: privilege_eval; fail),
     (auto simp: privilege_eval callback_eval split: option.splits; fail)?)+

section \<open>The entry point\<close>

text \<open>The selector of the IDL handler begins with a byte that is no tag: no instruction is mistaken for it.\<close>

lemma serialized_not_idl:
  "ix_tag_codec B = ix_tag_codec_ref \<Longrightarrow> \<not> is_idl_instruction (instruction_serialize B ix)"
  by (cases ix) (simp_all add: is_idl_instruction_def IDL_IX_TAG_LE_def write_with_def ix_tag_codec_ref_def
      instruction_tags_def)

lemma built_processed:
  assumes "built E B ix i" and "ix_tag_codec B = ix_tag_codec_ref" and "payload_codec_ok B ix"
    and "autara_process_instruction F E B idl timestamp pid accounts (ai_instruction_data i) = POk effects"
  shows "\<exists>now. process_aurata_instruction F E pid accounts now ix = POk effects"
proof -
  have "instruction_deserialize_reader B (instruction_serialize B ix @ []) = Some (ix, [])"
    using assms(2,3) ix_tag_codec_ref_ok by (intro read_serialized) simp_all
  then show ?thesis
    using assms(4) serialized_not_idl [OF assms(2), of ix]
    by (auto simp: autara_process_instruction_def built_data [OF assms(1)])
qed

text \<open>
  C35: The builders and the program agree. When the program runs an instruction that a builder returned, on
  the accounts of its list, every effect is covered by the privileges that the builder granted: each
  account it writes is marked writable, each transfer moves between writable accounts under a
  signature of the list or of the market itself, each called program, that of a callback included, is
  in the list, with all the accounts of the callback. There is one exception, and the equivalence says it is
  the only one: the builders of \<open>BorrowDepositApl\<close> and \<open>WithdrawRepayApl\<close> do not add the program of the
  callback, so for these two the effects are covered exactly when the caller has listed it. The
  hypotheses on the codecs are those of the serialisation.
\<close>

theorem builders_grant_access:
  assumes "built E B ix i" and "ix_tag_codec B = ix_tag_codec_ref" and "payload_codec_ok B ix"
    and "autara_process_instruction F E B idl timestamp (ai_program_id i) (resolve ledger (ai_accounts i))
      (ai_instruction_data i) = POk effects"
  shows "list_all (granted E (ai_accounts i)) effects \<longleftrightarrow> leverage_callback_listed (ai_accounts i) ix"
  using built_processed [OF assms] built_granted [OF assms(1)] granted_lists_callback by blast

definition example_builder_codecs :: "aurata_instruction \<Rightarrow> instruction_codecs" where
  "example_builder_codecs ix = example_codecs\<lparr>ix_cg_codec :=
     (\<lambda>_. [], \<lambda>bytes. case ix of CreateGlobalConfig d \<Rightarrow> Some (d, bytes) | _ \<Rightarrow> None)\<rparr>"

theorem builders_grant_access_witness:
  "\<exists>effects. autara_process_instruction fixed_reference example_env
       (example_builder_codecs example_create_config) (\<lambda>_. None) 1000 crate_id
       (resolve (\<lambda>k. example_account k 3 False (RawAccount []))
          (ai_accounts (snd (create_global_config_ix example_env
             (example_builder_codecs example_create_config) crate_id 40 40 41 5000))))
       (ai_instruction_data (snd (create_global_config_ix example_env
             (example_builder_codecs example_create_config) crate_id 40 40 41 5000))) = POk effects
     \<and> effects \<noteq> []
     \<and> list_all (granted example_env (ai_accounts (snd (create_global_config_ix example_env
             (example_builder_codecs example_create_config) crate_id 40 40 41 5000)))) effects"
proof -
  let ?B = "example_builder_codecs example_create_config"
  let ?i = "snd (create_global_config_ix example_env ?B crate_id 40 40 41 5000)"
  let ?L = "\<lambda>k. example_account k 3 False (RawAccount [])"
  have ix: "CreateGlobalConfig \<lparr>cg_bump = snd (find_global_config_pda example_env crate_id), cg_admin = 40,
      cg_fee_receiver = 41, cg_protocol_fee_share_in_bps = 5000\<rparr> = example_create_config"
    by (simp add: example_create_config_def find_global_config_pda_def program_example_defs oracle_eval)
  have b: "built example_env ?B example_create_config ?i"
    using built.create_global_config [of example_env ?B crate_id 40 41 5000 40] by (simp only: ix)
  have t: "ix_tag_codec ?B = ix_tag_codec_ref"
    by (simp add: example_builder_codecs_def example_codecs_def)
  have p: "payload_codec_ok ?B example_create_config"
    by (simp add: example_builder_codecs_def example_create_config_def codec_at_def)
  have i: "ai_program_id ?i = crate_id" "ai_accounts ?i = [meta_new 40 True, meta_new 5 False,
      meta_new_readonly 3 False, meta_new_readonly crate_id False]"
    by (simp_all add: create_global_config_ix_def instruction_of_def case_prod_beta find_global_config_pda_def
        program_example_defs oracle_eval)
  have "instruction_deserialize_reader ?B (instruction_serialize ?B example_create_config @ [])
      = Some (example_create_config, [])"
    by (rule read_serialized) (simp_all add: t p ix_tag_codec_ref_ok)
  then have "autara_process_instruction fixed_reference example_env ?B (\<lambda>_. None) 1000 (ai_program_id ?i)
      (resolve ?L (ai_accounts ?i)) (ai_instruction_data ?i)
    = process_aurata_instruction fixed_reference example_env crate_id (resolve ?L (ai_accounts ?i)) 1000
        example_create_config"
    using serialized_not_idl [OF t] by (simp add: autara_process_instruction_def built_data [OF b] i(1) clock_def)
  also have "\<dots> = POk [CreateAccount 40 5 256 crate_id [global_config_seed_with_bump 255],
      Write 5 (GlobalConfigAccount example_global_config)]"
    unfolding i(2)
    by (simp add: process_aurata_instruction_def example_create_config_def resolve_def meta_new_def
        meta_new_readonly_def create_global_config_from_accounts_def process_create_global_config_def
        loader_eval uninitialized_def program_example_defs gc_initialize_def gc_new_def)
  finally have e: "autara_process_instruction fixed_reference example_env ?B (\<lambda>_. None) 1000 (ai_program_id ?i)
      (resolve ?L (ai_accounts ?i)) (ai_instruction_data ?i)
    = POk [CreateAccount 40 5 256 crate_id [global_config_seed_with_bump 255],
        Write 5 (GlobalConfigAccount example_global_config)]" .
  show ?thesis using builders_grant_access [OF b t p e] e i(1)
    by (auto simp: leverage_callback_listed_def example_create_config_def)
qed

end
