(* ===== verification/Pod_Unions.thy ===== *)
theory Pod_Unions
  imports Program_Accounts
begin

text \<open>
  The two enums that an account stores as a kind and a byte array: \<open>PodOracleProvider\<close>
  (\<open>src/autara-lib/src/oracle/pod_oracle_provider.rs\<close>) and \<open>PodInterestRateCurve\<close>
  (\<open>src/autara-lib/src/interest_rate/pod_interest_rate.rs\<close>). The accounts of the other theories hold the
  enum itself; the last section shows that going through the bytes makes no difference. The layouts
  are those of \<open>repr(C)\<close>: fields in order, integers in little-endian order, the padding zero.
\<close>

section \<open>The size of a union\<close>

text \<open>\<open>const_max_usizes\<close>: the loop over an index; an empty slice panics at the last access.\<close>

function const_max_loop :: "nat list \<Rightarrow> nat \<Rightarrow> nat \<Rightarrow> nat" where
  "const_max_loop items index max_index =
     (if index \<ge> length items then max_index
      else const_max_loop items (Suc index)
             (if items ! index > items ! max_index then index else max_index))"
  by pat_completeness auto
termination by (relation "measure (\<lambda>(items, index, _). length items - index)") auto

declare const_max_loop.simps [simp del]

definition const_max_usizes :: "nat list \<Rightarrow> nat option" where
  "const_max_usizes items = (if items = [] then None else Some (items ! const_max_loop items 0 0))"

lemma const_max_loop_spec:
  assumes "max_index < length items" "\<forall>j < index. items ! j \<le> items ! max_index"
  shows "const_max_loop items index max_index < length items
     \<and> (\<forall>j < length items. items ! j \<le> items ! const_max_loop items index max_index)"
  using assms
proof (induction items index max_index rule: const_max_loop.induct)
  case (1 items index max_index)
  let ?m = "if items ! index > items ! max_index then index else max_index"
  show ?case
  proof (cases "length items \<le> index")
    case True
    then show ?thesis using 1(2,3) by (auto simp: const_max_loop.simps)
  next
    case False
    then have "?m < length items" "\<forall>j < Suc index. items ! j \<le> items ! ?m"
      using 1(2,3) by (auto simp: less_Suc_eq)
    then show ?thesis using 1(1) False by (simp add: const_max_loop.simps [of items index])
  qed
qed

lemma const_max_usizes_Max: "items \<noteq> [] \<Longrightarrow> const_max_usizes items = Some (Max (set items))"
  using const_max_loop_spec [of 0 items 0]
  by (auto simp: const_max_usizes_def in_set_conv_nth intro!: Max_eqI [symmetric])

section \<open>Layouts\<close>

text \<open>\<open>[u8; 32]\<close> of an address, and the numbers of the source as they lie in memory.\<close>

definition pubkey_of_bytes :: "u8 list \<Rightarrow> pubkey" where
  "pubkey_of_bytes bytes = word_of_int (bytes_int (rev bytes))"

definition u32_bytes :: "u32 \<Rightarrow> u8 list" where
  "u32_bytes v = int_bytes 4 (uint v)"

definition u32_of_bytes :: "u8 list \<Rightarrow> u32" where
  "u32_of_bytes bytes = word_of_int (bytes_int bytes)"

text \<open>A value of \<open>n\<close> bytes is a word: what \<open>to_le_bytes\<close> wrote, \<open>from_le_bytes\<close> reads.\<close>

lemma le_bytes_word:
  fixes w :: "'w::len word"
  assumes "8 * n = LENGTH('w)"
  shows "word_of_int (bytes_int (int_bytes n (uint w))) = w"
proof -
  have "(256::int) ^ n = 2 ^ LENGTH('w)" unfolding assms [symmetric] by (simp add: power_mult)
  then show ?thesis by (simp add: bytes_int_int_bytes)
qed

definition pyth_provider_bytes :: "pyth_provider \<Rightarrow> u8 list" where
  "pyth_provider_bytes p = pyth_feed_id p @ pubkey_bytes (pyth_program_id p)"

definition pyth_provider_from_bytes :: "u8 list \<Rightarrow> pyth_provider" where
  "pyth_provider_from_bytes bytes =
     \<lparr>pyth_feed_id = take 32 bytes, pyth_program_id = pubkey_of_bytes (take 32 (drop 32 bytes))\<rparr>"

definition chaos_provider_bytes :: "chaos_provider \<Rightarrow> u8 list" where
  "chaos_provider_bytes p =
     chaos_feed_id p @ pubkey_bytes (chaos_program_id p) @ [required_signatures p] @ replicate 7 0"

definition chaos_provider_from_bytes :: "u8 list \<Rightarrow> chaos_provider" where
  "chaos_provider_from_bytes bytes =
     \<lparr>chaos_feed_id = take 32 bytes, chaos_program_id = pubkey_of_bytes (take 32 (drop 32 bytes)),
      required_signatures = bytes ! 64\<rparr>"

definition irps_bytes :: "interest_rate_per_second \<Rightarrow> u8 list" where
  "irps_bytes r = int_bytes 16 (uint (if_bits (irps_rate r)))"

definition irps_from_bytes :: "u8 list \<Rightarrow> interest_rate_per_second" where
  "irps_from_bytes bytes = InterestRatePerSecond (IFixedPoint (word_of_int (bytes_int bytes)))"

definition point_bytes :: "polyline_interest_rate_point \<Rightarrow> u8 list" where
  "point_bytes p = u32_bytes (utilization_rate_bps p) @ u32_bytes (borrow_rate_bps p)"

definition point_from_bytes :: "u8 list \<Rightarrow> polyline_interest_rate_point" where
  "point_from_bytes bytes = \<lparr>utilization_rate_bps = u32_of_bytes (take 4 bytes),
     borrow_rate_bps = u32_of_bytes (take 4 (drop 4 bytes))\<rparr>"

definition polyline_bytes :: "polyline_interest_rate_curve \<Rightarrow> u8 list" where
  "polyline_bytes c = concat (map point_bytes (polyline_points c))"

fun points_from_bytes :: "nat \<Rightarrow> u8 list \<Rightarrow> polyline_interest_rate_point list" where
  "points_from_bytes 0 bytes = []"
| "points_from_bytes (Suc n) bytes = point_from_bytes (take 8 bytes) # points_from_bytes n (drop 8 bytes)"

definition polyline_from_bytes :: "u8 list \<Rightarrow> polyline_interest_rate_curve" where
  "polyline_from_bytes bytes = \<lparr>polyline_points = points_from_bytes POLYLINE_MAX_POINTS bytes\<rparr>"

definition adaptive_bytes :: "adaptive_interest_rate_curve \<Rightarrow> u8 list" where
  "adaptive_bytes c = irps_bytes (rate_at_target c)"

definition adaptive_from_bytes :: "u8 list \<Rightarrow> adaptive_interest_rate_curve" where
  "adaptive_from_bytes bytes = \<lparr>rate_at_target = irps_from_bytes bytes\<rparr>"

section \<open>The contract of a layout\<close>

text \<open>\<open>union[..n].copy_from_slice(bytes)\<close>: the front of the union is overwritten.\<close>

definition copy_front :: "u8 list \<Rightarrow> u8 list \<Rightarrow> u8 list" where
  "copy_front bytes area = bytes @ drop (length bytes) area"

locale pod_layout =
  fixes to_bytes :: "'a \<Rightarrow> u8 list" and from_bytes :: "u8 list \<Rightarrow> 'a"
    and size_of :: nat and wellformed :: "'a \<Rightarrow> bool"
  assumes length_to_bytes: "wellformed x \<Longrightarrow> length (to_bytes x) = size_of"
    and from_to_bytes: "wellformed x \<Longrightarrow> from_bytes (to_bytes x) = x"
begin

lemma read_front: "wellformed x \<Longrightarrow> from_bytes (take size_of (copy_front (to_bytes x) area)) = x"
  by (simp add: copy_front_def length_to_bytes from_to_bytes)

lemma overwrite_front:
  "wellformed x \<Longrightarrow> wellformed y \<Longrightarrow> copy_front (to_bytes y) (copy_front (to_bytes x) area) = copy_front (to_bytes y) area"
  by (simp add: copy_front_def length_to_bytes)

lemma length_front: "wellformed x \<Longrightarrow> size_of \<le> length area \<Longrightarrow> length (copy_front (to_bytes x) area) = length area"
  by (simp add: copy_front_def length_to_bytes)

end

lemma pubkey_bytes_length [simp]: "length (pubkey_bytes k) = 32"
  by (simp add: pubkey_bytes_def)

lemma pubkey_of_bytes_inverse [simp]: "pubkey_of_bytes (pubkey_bytes k) = k"
  by (simp add: pubkey_of_bytes_def pubkey_bytes_def le_bytes_word)

lemma u32_of_bytes_inverse [simp]: "u32_of_bytes (u32_bytes v) = v" "length (u32_bytes v) = 4"
  by (simp_all add: u32_of_bytes_def u32_bytes_def le_bytes_word)

lemma point_of_bytes_inverse [simp]: "point_from_bytes (point_bytes p) = p" "length (point_bytes p) = 8"
  by (simp_all add: point_from_bytes_def point_bytes_def)

lemma points_of_bytes_length: "length (concat (map point_bytes ps)) = 8 * length ps"
  by (induction ps) simp_all

lemma points_of_bytes_inverse:
  "length ps = n \<Longrightarrow> points_from_bytes n (concat (map point_bytes ps)) = ps"
  by (induction n arbitrary: ps) (auto simp: length_Suc_conv)

definition feed_id_ok :: "u8 list \<Rightarrow> bool" where
  "feed_id_ok feed \<longleftrightarrow> length feed = 32"

interpretation pyth_pod: pod_layout pyth_provider_bytes pyth_provider_from_bytes 64
  "\<lambda>p. feed_id_ok (pyth_feed_id p)"
  by unfold_locales (simp_all add: feed_id_ok_def pyth_provider_bytes_def pyth_provider_from_bytes_def)

interpretation chaos_pod: pod_layout chaos_provider_bytes chaos_provider_from_bytes 72
  "\<lambda>p. feed_id_ok (chaos_feed_id p)"
  by unfold_locales (simp_all add: feed_id_ok_def chaos_provider_bytes_def chaos_provider_from_bytes_def
      nth_append)

interpretation fixed_pod: pod_layout irps_bytes irps_from_bytes 16 "\<lambda>_. True"
  by unfold_locales (simp_all add: irps_bytes_def irps_from_bytes_def le_bytes_word)

interpretation polyline_pod: pod_layout polyline_bytes polyline_from_bytes 64
  "\<lambda>c. length (polyline_points c) = POLYLINE_MAX_POINTS"
  by unfold_locales
    (simp_all add: polyline_bytes_def polyline_from_bytes_def points_of_bytes_length points_of_bytes_inverse
       POLYLINE_MAX_POINTS_def)

interpretation adaptive_pod: pod_layout adaptive_bytes adaptive_from_bytes 16 "\<lambda>_. True"
  by unfold_locales (simp_all add: adaptive_bytes_def adaptive_from_bytes_def fixed_pod.length_to_bytes
      fixed_pod.from_to_bytes)

section \<open>PodOracleProvider\<close>

datatype pod_oracle_provider_kind = PodPyth | PodChaos

fun oracle_kind_size :: "pod_oracle_provider_kind \<Rightarrow> nat" where
  "oracle_kind_size PodPyth = 32 + 32"
| "oracle_kind_size PodChaos = 32 + 32 + 1 + 7"

definition ORACLE_UNION_SIZE :: nat where
  "ORACLE_UNION_SIZE = the (const_max_usizes [oracle_kind_size PodPyth, oracle_kind_size PodChaos])"

record pod_oracle_provider =
  po_kind :: pod_oracle_provider_kind
  po_union :: "u8 list"

definition from_oracle_provider :: "oracle_provider \<Rightarrow> pod_oracle_provider" where
  "from_oracle_provider provider =
     (case provider of
        Pyth p \<Rightarrow> \<lparr>po_kind = PodPyth,
          po_union = copy_front (pyth_provider_bytes p) (replicate ORACLE_UNION_SIZE 0)\<rparr>
      | Chaos p \<Rightarrow> \<lparr>po_kind = PodChaos,
          po_union = copy_front (chaos_provider_bytes p) (replicate ORACLE_UNION_SIZE 0)\<rparr>)"

text \<open>\<open>oracle_provider\<close>, and \<open>oracle_provider_ref\<close>, which borrows what this copies.\<close>

definition oracle_provider_of :: "pod_oracle_provider \<Rightarrow> oracle_provider" where
  "oracle_provider_of self =
     (case po_kind self of
        PodPyth \<Rightarrow> Pyth (pyth_provider_from_bytes (take (oracle_kind_size PodPyth) (po_union self)))
      | PodChaos \<Rightarrow> Chaos (chaos_provider_from_bytes (take (oracle_kind_size PodChaos) (po_union self))))"

definition pod_load_oracle_price ::
    "fixed_crate \<Rightarrow> runtime \<Rightarrow> pod_oracle_provider \<Rightarrow> account_view \<Rightarrow> unchecked_oracle_rate result" where
  "pod_load_oracle_price F R self view = load_oracle_price F R (oracle_provider_of self) view"

section \<open>PodInterestRateCurve\<close>

datatype pod_interest_rate_curve_kind = PodFixed | PodPolyline | PodAdaptive

fun curve_kind_size :: "pod_interest_rate_curve_kind \<Rightarrow> nat" where
  "curve_kind_size PodFixed = 16"
| "curve_kind_size PodPolyline = POLYLINE_MAX_POINTS * (4 + 4)"
| "curve_kind_size PodAdaptive = 16"

definition CURVE_UNION_SIZE :: nat where
  "CURVE_UNION_SIZE = the (const_max_usizes
     [curve_kind_size PodFixed, curve_kind_size PodPolyline, curve_kind_size PodAdaptive])"

record pod_interest_rate_curve =
  pc_kind :: pod_interest_rate_curve_kind
  pc_union :: "u8 list"

definition from_interest_rate_kind :: "interest_rate_curve_kind \<Rightarrow> pod_interest_rate_curve" where
  "from_interest_rate_kind curve =
     (case curve of
        Fixed r \<Rightarrow> \<lparr>pc_kind = PodFixed,
          pc_union = copy_front (irps_bytes r) (replicate CURVE_UNION_SIZE 0)\<rparr>
      | Polyline poly \<Rightarrow> \<lparr>pc_kind = PodPolyline,
          pc_union = copy_front (polyline_bytes poly) (replicate CURVE_UNION_SIZE 0)\<rparr>
      | Adaptive adaptive \<Rightarrow> \<lparr>pc_kind = PodAdaptive,
          pc_union = copy_front (adaptive_bytes adaptive) (replicate CURVE_UNION_SIZE 0)\<rparr>)"

definition interest_rate_kind :: "pod_interest_rate_curve \<Rightarrow> interest_rate_curve_kind" where
  "interest_rate_kind self =
     (case pc_kind self of
        PodFixed \<Rightarrow> Fixed (irps_from_bytes (take (curve_kind_size PodFixed) (pc_union self)))
      | PodPolyline \<Rightarrow> Polyline (polyline_from_bytes (take (curve_kind_size PodPolyline) (pc_union self)))
      | PodAdaptive \<Rightarrow> Adaptive (adaptive_from_bytes (take (curve_kind_size PodAdaptive) (pc_union self))))"

text \<open>
  \<open>interest_rate_kind_mut().borrow_rate_per_second(params)\<close>: the call works on the bytes of the union in
  place. Only the adaptive curve assigns to its field, on success.
\<close>

definition pod_borrow_rate_per_second ::
    "fixed_crate \<Rightarrow> pod_interest_rate_curve \<Rightarrow> market_borrow_rate_parameters
     \<Rightarrow> (pod_interest_rate_curve \<times> interest_rate_per_second) result" where
  "pod_borrow_rate_per_second F self params =
     (case interest_rate_kind self of
        Fixed r \<Rightarrow> Ok (self, r)
      | Polyline curve \<Rightarrow>
          bind_r (utilisation_rate_bps F params) (\<lambda>bps.
          bind_r (polyline_interest_rate_per_second F curve bps) (\<lambda>r. Ok (self, r)))
      | Adaptive curve \<Rightarrow>
          bind_r (adaptive_borrow_rate F curve params) (\<lambda>(curve', r).
            Ok (self\<lparr>pc_union := copy_front (adaptive_bytes curve') (pc_union self)\<rparr>, r)))"

section \<open>The unions hold the enums\<close>

text \<open>Arrays have the length of their type.\<close>

fun provider_ok :: "oracle_provider \<Rightarrow> bool" where
  "provider_ok (Pyth p) \<longleftrightarrow> feed_id_ok (pyth_feed_id p)"
| "provider_ok (Chaos p) \<longleftrightarrow> feed_id_ok (chaos_feed_id p)"

fun curve_ok :: "interest_rate_curve_kind \<Rightarrow> bool" where
  "curve_ok (Polyline c) \<longleftrightarrow> length (polyline_points c) = POLYLINE_MAX_POINTS"
| "curve_ok _ \<longleftrightarrow> True"

lemma union_sizes: "ORACLE_UNION_SIZE = 72" "CURVE_UNION_SIZE = 64"
  by (simp_all add: ORACLE_UNION_SIZE_def CURVE_UNION_SIZE_def const_max_usizes_Max POLYLINE_MAX_POINTS_def)

lemma oracle_provider_of_inverse: "provider_ok q \<Longrightarrow> oracle_provider_of (from_oracle_provider q) = q"
  using pyth_pod.read_front chaos_pod.read_front
  by (cases q) (simp_all add: oracle_provider_of_def from_oracle_provider_def)

lemma interest_rate_kind_inverse: "curve_ok k \<Longrightarrow> interest_rate_kind (from_interest_rate_kind k) = k"
  using fixed_pod.read_front polyline_pod.read_front adaptive_pod.read_front
  by (cases k) (simp_all add: interest_rate_kind_def from_interest_rate_kind_def POLYLINE_MAX_POINTS_def)

lemma pod_lengths:
  "provider_ok q \<Longrightarrow> 8 + length (po_union (from_oracle_provider q)) = 80"
  "curve_ok k \<Longrightarrow> 8 + length (pc_union (from_interest_rate_kind k)) = 72"
  by (cases q; simp add: from_oracle_provider_def union_sizes pyth_pod.length_front chaos_pod.length_front)
    (cases k; simp add: from_interest_rate_kind_def union_sizes fixed_pod.length_front
       polyline_pod.length_front adaptive_pod.length_front)

lemma pod_borrow_rate_refines:
  assumes "curve_ok k"
  shows "pod_borrow_rate_per_second F (from_interest_rate_kind k) params
     = bind_r (borrow_rate_per_second F k params) (\<lambda>(k', r). Ok (from_interest_rate_kind k', r))"
proof -
  have "from_interest_rate_kind (Adaptive c') = (from_interest_rate_kind (Adaptive c))
      \<lparr>pc_union := copy_front (adaptive_bytes c') (pc_union (from_interest_rate_kind (Adaptive c)))\<rparr>" for c c'
    by (simp add: from_interest_rate_kind_def adaptive_pod.overwrite_front)
  then show ?thesis
    using assms
    by (cases k) (auto simp: pod_borrow_rate_per_second_def interest_rate_kind_inverse
        borrow_rate_per_second_def bind_r_assoc intro!: bind_r_cong)
qed

text \<open>
  C36: The unions lose nothing. An oracle provider or a rate curve that is stored as kind and bytes fills
  exactly the declared struct, is read back as it was, and behaves the same: a price loads through the
  bytes as it does through the enum, and accruing along a curve in place on the bytes gives the rate of
  the enum and leaves the bytes of its successor.
\<close>

theorem pod_unions_refine:
  assumes "provider_ok q" and "curve_ok k"
  shows "oracle_provider_of (from_oracle_provider q) = q \<and> interest_rate_kind (from_interest_rate_kind k) = k
     \<and> 8 + length (po_union (from_oracle_provider q)) = 80
     \<and> 8 + length (pc_union (from_interest_rate_kind k)) = 72
     \<and> pod_load_oracle_price F R (from_oracle_provider q) view = load_oracle_price F R q view
     \<and> pod_borrow_rate_per_second F (from_interest_rate_kind k) params
       = bind_r (borrow_rate_per_second F k params) (\<lambda>(k', r). Ok (from_interest_rate_kind k', r))"
  using assms
  by (simp add: oracle_provider_of_inverse interest_rate_kind_inverse pod_lengths pod_load_oracle_price_def
      pod_borrow_rate_refines)

definition example_chaos :: chaos_provider where
  "example_chaos = \<lparr>chaos_feed_id = replicate 32 7, chaos_program_id = 9, required_signatures = 3\<rparr>"

theorem pod_unions_refine_witness:
  "oracle_provider_of (from_oracle_provider (Chaos example_chaos)) = Chaos example_chaos
   \<and> po_union (from_oracle_provider (Chaos example_chaos)) ! 64 = 3
   \<and> interest_rate_kind (from_interest_rate_kind (Fixed (InterestRatePerSecond (IFixedPoint 258))))
      = Fixed (InterestRatePerSecond (IFixedPoint 258))
   \<and> take 3 (pc_union (from_interest_rate_kind (Fixed (InterestRatePerSecond (IFixedPoint 258))))) = [2, 1, 0]"
proof -
  have "provider_ok (Chaos example_chaos)" "curve_ok (Fixed (InterestRatePerSecond (IFixedPoint 258)))"
    by (simp_all add: example_chaos_def feed_id_ok_def)
  then have "oracle_provider_of (from_oracle_provider (Chaos example_chaos)) = Chaos example_chaos
     \<and> interest_rate_kind (from_interest_rate_kind (Fixed (InterestRatePerSecond (IFixedPoint 258))))
      = Fixed (InterestRatePerSecond (IFixedPoint 258))"
    using pod_unions_refine by blast
  moreover have "po_union (from_oracle_provider (Chaos example_chaos)) ! 64 = 3"
    by (simp add: from_oracle_provider_def copy_front_def chaos_provider_bytes_def example_chaos_def nth_append)
  moreover have "take 3 (pc_union (from_interest_rate_kind (Fixed (InterestRatePerSecond (IFixedPoint 258)))))
      = [2, 1, 0]"
    by code_simp
  ultimately show ?thesis by blast
qed

end
