(* ===== verification/Oracle_Program.thy ===== *)
theory Oracle_Program
  imports Program_Accounts
begin

text \<open>
  The price feed program, \<open>src/programs/autara-oracle/src/lib.rs\<close>. A feed account holds a
  \<open>PythPriceAccount\<close> (price and authority); accounts of the earlier layout hold a bare
  \<open>PythPrice\<close> and are grown in place. The layout is told by the size of the account alone.
\<close>

datatype feed_data =
    LegacyFeed pyth_price
  | Feed pyth_price_account
  | OtherData

record feed_account =
  fa_key :: pubkey
  fa_owner :: pubkey
  fa_lamports :: u64
  fa_data :: feed_data

datatype feed_effect =
    FeedCreate pubkey pubkey pubkey "u8 list list list"
  | FeedTransfer pubkey pubkey u64
  | FeedRealloc pubkey
  | FeedWrite pubkey pyth_price_account

text \<open>
  What the program calls: the bytes of the instruction as a price, the address derivation, the
  rent of a feed account and the zeroed account of a fresh feed.
\<close>

record oracle_environment =
  price_try_from_bytes :: "u8 list \<Rightarrow> pyth_price option"
  oracle_find_program_address :: "u8 list list \<Rightarrow> pubkey \<Rightarrow> pubkey \<times> u8"
  feed_rent :: u64
  zeroed_feed :: pyth_price_account

definition ensure_feed_account ::
    "oracle_environment \<Rightarrow> pubkey \<Rightarrow> pubkey \<Rightarrow> feed_account \<Rightarrow> u8 list
     \<Rightarrow> (bool \<times> feed_data \<times> feed_effect list) program_result" where
  "ensure_feed_account E program_id signer oracle feed_id =
     (if fa_owner oracle \<noteq> program_id
      then let bump = snd (oracle_find_program_address E [feed_id] program_id) in
        POk (True, Feed (zeroed_feed E),
             [FeedCreate signer (fa_key oracle) program_id [[feed_id, [bump]]]])
      else case fa_data oracle of
          LegacyFeed p \<Rightarrow>
            POk (True, Feed \<lparr>account_price = p, account_authority = 0\<rparr>,
                 (if fa_lamports oracle < feed_rent E
                  then [FeedTransfer signer (fa_key oracle) (feed_rent E - fa_lamports oracle)]
                  else []) @ [FeedRealloc (fa_key oracle)])
        | Feed a \<Rightarrow> POk (False, Feed a, [])
        | OtherData \<Rightarrow> PErr (ProgramError InvalidAccountData))"

definition apply_price_update ::
    "pyth_price_account \<Rightarrow> pubkey \<Rightarrow> pyth_price \<Rightarrow> bool \<Rightarrow> i64 \<Rightarrow> pyth_price_account program_result" where
  "apply_price_update oracle_data signer price just_created unix_timestamp =
     bind_p
       (if just_created then POk (oracle_data\<lparr>account_authority := signer\<rparr>)
        else if account_authority oracle_data \<noteq> signer then PErr (ProgramError IncorrectAuthority)
        else if pyth_id (account_price oracle_data) \<noteq> pyth_id price
        then PErr (ProgramError InvalidArgument)
        else POk oracle_data) (\<lambda>a.
       POk (a\<lparr>account_price :=
                price\<lparr>pyth_data := (pyth_data price)\<lparr>pyth_publish_time := unix_timestamp\<rparr>,
                      pyth_ema := (pyth_ema price)\<lparr>pyth_publish_time := unix_timestamp\<rparr>\<rparr>\<rparr>))"

text \<open>\<open>from_bytes_mut\<close> panics on an account of another size, the clock on a zero timestamp.\<close>

definition oracle_process_instruction ::
    "oracle_environment \<Rightarrow> i64 \<Rightarrow> pubkey \<Rightarrow> (account_info \<times> feed_account) option \<Rightarrow> u8 list
     \<Rightarrow> feed_effect list program_result" where
  "oracle_process_instruction E now program_id accounts instruction_data =
     (case accounts of
        None \<Rightarrow> PErr (ProgramError NotEnoughAccountKeys)
      | Some (signer, oracle) \<Rightarrow>
          if \<not> ai_is_signer signer then PErr (ProgramError MissingRequiredSignature)
          else case price_try_from_bytes E instruction_data of
            None \<Rightarrow> PErr (ProgramError InvalidInstructionData)
          | Some price \<Rightarrow>
              bind_p (ensure_feed_account E program_id (ai_key signer) oracle (pyth_id price))
                (\<lambda>(just_created, data, effects).
                case data of
                  Feed a \<Rightarrow>
                    if now = 0 then PPanic
                    else bind_p (apply_price_update a (ai_key signer) price just_created now) (\<lambda>a'.
                      POk (effects @ [FeedWrite (fa_key oracle) a']))
                | _ \<Rightarrow> PPanic))"

section \<open>Feeds stay with their authority\<close>

text \<open>
  A successful push, with the account given as its signer and the clock of the call, and any number
  of them on one feed account.
\<close>

inductive feed_push ::
    "oracle_environment \<Rightarrow> pubkey \<Rightarrow> feed_account \<Rightarrow> account_info \<Rightarrow> i64 \<Rightarrow> feed_account \<Rightarrow> bool"
    for E program_id where
  "oracle_process_instruction E now program_id (Some (signer, oracle)) bytes = POk effects \<Longrightarrow>
   FeedWrite (fa_key oracle) a' \<in> set effects \<Longrightarrow>
   feed_push E program_id oracle signer now (oracle\<lparr>fa_data := Feed a', fa_owner := program_id\<rparr>)"

inductive feed_run :: "oracle_environment \<Rightarrow> pubkey \<Rightarrow> feed_account \<Rightarrow> (account_info \<times> i64) list \<Rightarrow> feed_account \<Rightarrow> bool"
    for E program_id where
  run_nil: "feed_run E program_id f [] f"
| run_push: "feed_run E program_id f hs g \<Longrightarrow> feed_push E program_id g signer now h
     \<Longrightarrow> feed_run E program_id f (hs @ [(signer, now)]) h"

lemma apply_price_update_POk:
  "apply_price_update a signer price just_created now = POk a' \<longleftrightarrow>
     (just_created \<or> account_authority a = signer \<and> pyth_id (account_price a) = pyth_id price)
     \<and> a' = \<lparr>account_price = price\<lparr>pyth_data := (pyth_data price)\<lparr>pyth_publish_time := now\<rparr>,
                pyth_ema := (pyth_ema price)\<lparr>pyth_publish_time := now\<rparr>\<rparr>,
             account_authority = signer\<rparr>"
  by (cases a) (auto simp: apply_price_update_def)

lemma push_existing_feed:
  assumes "feed_push E program_id f signer now g" "fa_data f = Feed a" "fa_owner f = program_id"
  obtains a' where "fa_data g = Feed a'" "fa_owner g = program_id" "ai_is_signer signer"
    "ai_key signer = account_authority a"
    "account_authority a' = account_authority a"
    "pyth_id (account_price a') = pyth_id (account_price a)"
    "pyth_publish_time (pyth_data (account_price a')) = now"
  using assms
  by (cases rule: feed_push.cases)
    (auto simp: oracle_process_instruction_def ensure_feed_account_def apply_price_update_POk
      split: option.splits if_splits)

text \<open>
  C20: Once a feed account exists, its authority and its feed id never change, whatever is pushed by
  whoever: in every run of successful pushes the account given as the signer of each one did sign it
  and is the authority the feed had at the start, and the published price carries the clock of the last push as its time.
\<close>

theorem feed_stays_with_authority:
  assumes "feed_run E program_id f pushes g" "fa_data f = Feed a" "fa_owner f = program_id"
  shows "\<exists>a'. fa_data g = Feed a' \<and> fa_owner g = program_id
      \<and> account_authority a' = account_authority a
      \<and> pyth_id (account_price a') = pyth_id (account_price a)
      \<and> list_all (\<lambda>(signer, _). ai_is_signer signer \<and> ai_key signer = account_authority a) pushes
      \<and> (pushes \<noteq> [] \<longrightarrow> pyth_publish_time (pyth_data (account_price a')) = snd (last pushes))"
  using assms
proof (induction rule: feed_run.induct)
  case (run_push f hs g signer now h)
  then obtain b where b: "fa_data g = Feed b" "fa_owner g = program_id"
      "account_authority b = account_authority a"
      "pyth_id (account_price b) = pyth_id (account_price a)"
      "list_all (\<lambda>(signer, _). ai_is_signer signer \<and> ai_key signer = account_authority a) hs" by blast
  from run_push(2) b(1,2) show ?case
    by (rule push_existing_feed) (use b in simp)
qed simp

definition example_price :: pyth_price where
  "example_price = \<lparr>pyth_id = [7],
     pyth_data = \<lparr>pyth_price_value = 100, pyth_conf = 1, pyth_expo = - 2, pyth_publish_time = 0\<rparr>,
     pyth_ema = \<lparr>pyth_price_value = 100, pyth_conf = 1, pyth_expo = - 2, pyth_publish_time = 0\<rparr>,
     pyth_meta = \<lparr>slot = 1, proof_available_time = 0, prev_publish_time = 0\<rparr>\<rparr>"

definition example_feed :: feed_account where
  "example_feed = \<lparr>fa_key = 11, fa_owner = 5, fa_lamports = 0,
     fa_data = Feed \<lparr>account_price = example_price, account_authority = 3\<rparr>\<rparr>"

definition example_oracle_environment :: oracle_environment where
  "example_oracle_environment = \<lparr>price_try_from_bytes = (\<lambda>_. Some example_price),
     oracle_find_program_address = (\<lambda>_ _. (11, 255)), feed_rent = 0,
     zeroed_feed = \<lparr>account_price = example_price\<lparr>pyth_id := [0]\<rparr>, account_authority = 0\<rparr>\<rparr>"

definition example_pushed :: "i64 \<Rightarrow> feed_account" where
  "example_pushed now = example_feed\<lparr>fa_data := Feed \<lparr>account_price = example_price
     \<lparr>pyth_data := (pyth_data example_price)\<lparr>pyth_publish_time := now\<rparr>,
      pyth_ema := (pyth_ema example_price)\<lparr>pyth_publish_time := now\<rparr>\<rparr>, account_authority = 3\<rparr>,
      fa_owner := 5\<rparr>"

definition example_pusher :: account_info where
  "example_pusher = \<lparr>ai_key = 3, ai_owner = 0, ai_is_signer = True, ai_is_writable = True,
     ai_data = RawAccount [], ai_lamports = 9\<rparr>"

lemma example_push:
  "feed_push example_oracle_environment 5 example_feed example_pusher 60 (example_pushed 60)"
proof -
  let ?a = "\<lparr>account_price = example_price
     \<lparr>pyth_data := (pyth_data example_price)\<lparr>pyth_publish_time := 60\<rparr>,
      pyth_ema := (pyth_ema example_price)\<lparr>pyth_publish_time := 60\<rparr>\<rparr>, account_authority = 3\<rparr>"
  have "oracle_process_instruction example_oracle_environment 60 5 (Some (example_pusher, example_feed)) []
      = POk [FeedWrite 11 ?a]"
    by (simp add: oracle_process_instruction_def ensure_feed_account_def apply_price_update_def
        example_oracle_environment_def example_feed_def
        example_pusher_def)
  from feed_push.intros [OF this, of ?a] show ?thesis
    by (simp add: example_pushed_def example_feed_def)
qed

theorem feed_stays_with_authority_witness:
  "ai_is_signer example_pusher \<and> ai_key example_pusher = 3 \<and> (\<exists>a'. fa_data (example_pushed 60) = Feed a' \<and> account_authority a' = 3
     \<and> pyth_id (account_price a') = [7] \<and> pyth_publish_time (pyth_data (account_price a')) = 60)"
  using feed_stays_with_authority
      [OF feed_run.run_push [OF feed_run.run_nil example_push],
       of "\<lparr>account_price = example_price, account_authority = 3\<rparr>"]
  by (auto simp: example_feed_def example_price_def)

end
