(* ===== verification/Client_Base.thy ===== *)
theory Client_Base
  imports Builder_Laws
begin

text \<open>
  What the off-chain programs share: results that may fail or panic, the \<open>chunks\<close> of a slice, and the
  account requests of \<open>src/autara-client/src/rpc_ext.rs\<close>. The node behind the requests is not part of the
  repository; what it answers is a parameter.
\<close>

section \<open>Outcomes\<close>

text \<open>\<open>anyhow::Result\<close>: the error is its message; a panic ends the task.\<close>

datatype 'a outcome = Done 'a | Failed string | Panicked

fun bind_o :: "'a outcome \<Rightarrow> ('a \<Rightarrow> 'b outcome) \<Rightarrow> 'b outcome" where
  "bind_o (Done x) f = f x"
| "bind_o (Failed e) f = Failed e"
| "bind_o Panicked f = Panicked"

definition ensure_o :: "bool \<Rightarrow> string \<Rightarrow> unit outcome" where
  "ensure_o c e = (if c then Done () else Failed e)"

text \<open>\<open>context\<close> on an option, and on a result that replaces the message.\<close>

definition context_o :: "string \<Rightarrow> 'a option \<Rightarrow> 'a outcome" where
  "context_o e x = (case x of None \<Rightarrow> Failed e | Some y \<Rightarrow> Done y)"

fun recontext_o :: "string \<Rightarrow> 'a outcome \<Rightarrow> 'a outcome" where
  "recontext_o e (Failed _) = Failed e"
| "recontext_o e r = r"

text \<open>\<open>?\<close> on the result of a library operation; the message of the error is not modelled.\<close>

fun of_result :: "'a result \<Rightarrow> 'a outcome" where
  "of_result (Ok x) = Done x"
| "of_result (Err _) = Failed ''lending error''"
| "of_result Panic = Panicked"

lemma bind_o_eq_Done [simp]: "bind_o r f = Done y \<longleftrightarrow> (\<exists>x. r = Done x \<and> f x = Done y)"
  by (cases r) auto

lemma ensure_o_eq_Done [simp]: "ensure_o c e = Done u \<longleftrightarrow> c"
  by (simp add: ensure_o_def)

lemma ensure_o_True [simp]: "ensure_o True e = Done ()"
  by (simp add: ensure_o_def)

lemma context_o_eq_Done [simp]: "context_o e x = Done y \<longleftrightarrow> x = Some y"
  by (cases x) (auto simp: context_o_def)

lemma recontext_o_eq_Done [simp]: "recontext_o e r = Done y \<longleftrightarrow> r = Done y"
  by (cases r) auto

lemma of_result_eq_Done [simp]: "of_result r = Done y \<longleftrightarrow> r = Ok y"
  by (cases r) auto

text \<open>\<open>str::contains\<close>.\<close>

fun contains_str :: "string \<Rightarrow> string \<Rightarrow> bool" where
  "contains_str [] p \<longleftrightarrow> p = []"
| "contains_str (c # s) p \<longleftrightarrow> take (length p) (c # s) = p \<or> contains_str s p"

fun map_o :: "('a \<Rightarrow> 'b outcome) \<Rightarrow> 'a list \<Rightarrow> 'b list outcome" where
  "map_o f [] = Done []"
| "map_o f (x # xs) = bind_o (f x) (\<lambda>y. bind_o (map_o f xs) (\<lambda>ys. Done (y # ys)))"

lemma bind_o_DoneE: "bind_o r f = Done y \<Longrightarrow> (\<And>x. r = Done x \<Longrightarrow> f x = Done y \<Longrightarrow> P) \<Longrightarrow> P"
  by (cases r) auto

lemma map_o_Done: "map_o f xs = Done ys \<longleftrightarrow> list_all2 (\<lambda>x y. f x = Done y) xs ys"
  by (induction xs arbitrary: ys) (auto simp: list_all2_Cons1)

section \<open>Chunks of a slice\<close>

text \<open>\<open>slice::chunks\<close>; a chunk size of zero panics there and is excluded where it is used.\<close>

function chunks :: "nat \<Rightarrow> 'a list \<Rightarrow> 'a list list" where
  "chunks n xs = (if n = 0 \<or> xs = [] then [] else take n xs # chunks n (drop n xs))"
  by pat_completeness auto
termination by (relation "measure (\<lambda>(n, xs). length xs)") auto

declare chunks.simps [simp del]

lemma chunks_Nil [simp]: "chunks n [] = []"
  by (simp add: chunks.simps)

lemma chunks_Cons: "0 < n \<Longrightarrow> xs \<noteq> [] \<Longrightarrow> chunks n xs = take n xs # chunks n (drop n xs)"
  by (subst chunks.simps) simp

lemma concat_chunks: "0 < n \<Longrightarrow> concat (chunks n xs) = xs"
proof (induction n xs rule: chunks.induct)
  case (1 n xs)
  then show ?case by (cases "xs = []") (simp_all add: chunks_Cons)
qed

lemma chunk_lengths: "c \<in> set (chunks n xs) \<Longrightarrow> 0 < length c \<and> length c \<le> n"
proof (induction n xs rule: chunks.induct)
  case (1 n xs)
  then show ?case by (subst (asm) chunks.simps) (auto split: if_splits)
qed

lemma chunks_nth:
  "0 < n \<Longrightarrow> i < length (chunks n xs) \<Longrightarrow> chunks n xs ! i = take n (drop (i * n) xs)"
proof (induction n xs arbitrary: i rule: chunks.induct)
  case (1 n xs)
  then show ?case
    by (cases "xs = []"; cases i) (simp_all add: chunks_Cons add.commute)
qed

lemma chunks_index: "0 < n \<Longrightarrow> i < length (chunks n xs) \<Longrightarrow> i * n < length xs"
proof (induction n xs arbitrary: i rule: chunks.induct)
  case (1 n xs)
  show ?case
  proof (cases "xs = [] \<or> i = 0")
    case False
    then have "i - 1 < length (chunks n (drop n xs))" "xs \<noteq> []" "0 < i"
      using 1 by (auto simp: chunks_Cons)
    with 1 have "(i - 1) * n < length xs - n" by auto
    with \<open>0 < i\<close> show ?thesis by (cases i) auto
  qed (use 1 in auto)
qed

section \<open>Requests for accounts\<close>

text \<open>
  \<open>get_multiple_accounts_batch\<close>: the node answers a request for at most a hundred keys with one
  optional account per key; its answer to each chunk is a parameter. \<open>into_iter\<close> drops the missing ones.
\<close>

definition MAX_BATCH_SIZE :: nat where
  "MAX_BATCH_SIZE = 100"

definition get_multiple_accounts_batch ::
    "('k list \<Rightarrow> 'a option list outcome) \<Rightarrow> 'k list \<Rightarrow> 'a option list list outcome" where
  "get_multiple_accounts_batch get_multiple_accounts pubkeys =
     map_o get_multiple_accounts (chunks MAX_BATCH_SIZE pubkeys)"

definition batch_into_iter :: "'a option list list \<Rightarrow> 'a list" where
  "batch_into_iter accounts = concat (map (List.map_filter id) accounts)"

text \<open>A node that looks every key up answers the batches as it would answer one request.\<close>

lemma get_multiple_accounts_batch_pointwise:
  assumes "\<And>ks. length ks \<le> MAX_BATCH_SIZE \<Longrightarrow> get_multiple_accounts ks = Done (map look ks)"
  shows "bind_o (get_multiple_accounts_batch get_multiple_accounts keys) (\<lambda>b. Done (batch_into_iter b))
    = Done (List.map_filter look keys)"
proof -
  have "map_o get_multiple_accounts cs = Done (map (map look) cs)"
    if "\<And>c. c \<in> set cs \<Longrightarrow> length c \<le> MAX_BATCH_SIZE" for cs
    using that by (induction cs) (auto simp: assms)
  moreover have "batch_into_iter (map (map look) cs) = List.map_filter look (concat cs)" for cs
    by (induction cs) (simp_all add: batch_into_iter_def map_filter_def filter_map comp_def)
  ultimately show ?thesis
    using chunk_lengths [of _ MAX_BATCH_SIZE keys] concat_chunks [of MAX_BATCH_SIZE keys]
    by (simp add: get_multiple_accounts_batch_def MAX_BATCH_SIZE_def)
qed

end
