(* ===== verification/Idl_Publish.thy ===== *)
theory Idl_Publish
  imports Client_Base Program_Gaps
begin

text \<open>
  The publication of the interface description, \<open>publish_idl\<close> of
  \<open>src/autara-client/src/idl_deploy.rs\<close>: it creates the canonical account through the program's own handler,
  appends the compressed document in chunks and compares what is then on the chain. The node that is
  read and that runs the transactions is a parameter; the locale \<open>idl_network\<close> says that it runs the
  program as \<open>Program_Dispatch\<close> models it and applies its effects.
\<close>

section \<open>The client\<close>

text \<open>
  \<open>read_account_info\<close>, and \<open>send_ix\<close>, which signs one instruction, sends it and waits until it is
  processed; \<open>'w\<close> is the state of the network.
\<close>

record 'w idl_node =
  node_read :: "'w \<Rightarrow> pubkey \<Rightarrow> account_info outcome"
  node_send :: "'w \<Rightarrow> arch_instruction \<Rightarrow> 'w outcome"

definition IDL_WRITE_CHUNK :: nat where
  "IDL_WRITE_CHUNK = 800"

definition IX_CREATE :: u8 where
  "IX_CREATE = 0"

definition IX_WRITE :: u8 where
  "IX_WRITE = 2"

definition derive_idl_account :: "environment \<Rightarrow> pubkey \<Rightarrow> (pubkey \<times> pubkey) outcome" where
  "derive_idl_account E program_id =
     (let base = fst (find_program_address (env_runtime E) [] program_id) in
      bind_o (context_o ''create_with_seed'' (create_with_seed E base IDL_SEED program_id)) (\<lambda>idl.
        Done (idl, base)))"

definition idl_create_ix :: "environment \<Rightarrow> pubkey \<Rightarrow> pubkey \<Rightarrow> pubkey \<Rightarrow> pubkey \<Rightarrow> nat \<Rightarrow> arch_instruction" where
  "idl_create_ix E program_id authority idl_account base len =
     \<lparr>ai_program_id = program_id,
      ai_accounts =
        [meta_new authority True, meta_new idl_account False, meta_new_readonly base False,
         meta_new_readonly (system_program_id E) False, meta_new_readonly program_id False],
      ai_instruction_data = IDL_IX_TAG_LE @ [IX_CREATE] @ int_bytes 8 (int len)\<rparr>"

definition idl_write_ix :: "pubkey \<Rightarrow> pubkey \<Rightarrow> pubkey \<Rightarrow> u8 list \<Rightarrow> arch_instruction" where
  "idl_write_ix program_id authority idl_account chunk =
     \<lparr>ai_program_id = program_id,
      ai_accounts = [meta_new idl_account False, meta_new authority True],
      ai_instruction_data =
        IDL_IX_TAG_LE @ [IX_WRITE] @ int_bytes 4 (int (length chunk)) @ chunk\<rparr>"

fun send_all :: "'w idl_node \<Rightarrow> 'w \<Rightarrow> arch_instruction list \<Rightarrow> 'w outcome" where
  "send_all node w [] = Done w"
| "send_all node w (ix # ixs) = bind_o (node_send node w ix) (\<lambda>w'. send_all node w' ixs)"

text \<open>Slicing beyond the end of the account panics; the comparison of the lengths comes first.\<close>

definition idl_resume :: "u8 list \<Rightarrow> u8 list \<Rightarrow> nat outcome" where
  "idl_resume data compressed =
     bind_o (ensure_o (44 \<le> length data) ''idl account too small'') (\<lambda>_.
       let written = read_data_len data in
       if written \<le> length compressed \<and> length data < 44 + written then Panicked
       else bind_o (ensure_o (written \<le> length compressed
              \<and> take written compressed = take written (drop 44 data)) ''on-chain IDL prefix'') (\<lambda>_.
          Done written))"

definition idl_verify :: "u8 list \<Rightarrow> u8 list \<Rightarrow> unit outcome" where
  "idl_verify data compressed =
     bind_o (ensure_o (44 \<le> length data) ''idl account too small'') (\<lambda>_.
       let data_len = read_data_len data in
       if data_len = length compressed \<and> length data < 44 + data_len then Panicked
       else ensure_o (data_len = length compressed \<and> take data_len (drop 44 data) = compressed)
              ''on-chain IDL does not match'')"

definition publish_idl ::
    "environment \<Rightarrow> 'w idl_node \<Rightarrow> (u8 list \<Rightarrow> u8 list outcome) \<Rightarrow> pubkey \<Rightarrow> pubkey \<Rightarrow> u8 list \<Rightarrow> 'w
     \<Rightarrow> ('w \<times> pubkey) outcome" where
  "publish_idl E node compress_idl program_id authority idl_json w =
     bind_o (derive_idl_account E program_id) (\<lambda>(idl_account, base).
     bind_o (compress_idl idl_json) (\<lambda>compressed.
     bind_o (case node_read node w idl_account of
          Failed _ \<Rightarrow>
            bind_o (node_send node w
                      (idl_create_ix E program_id authority idl_account base (length compressed)))
              (\<lambda>w1. Done (w1, 0))
        | Panicked \<Rightarrow> Panicked
        | Done acc \<Rightarrow> bind_o (idl_resume (data_bytes E acc) compressed) (\<lambda>written. Done (w, written)))
       (\<lambda>(w1, already_written).
     bind_o (send_all node w1 (map (idl_write_ix program_id authority idl_account)
               (chunks IDL_WRITE_CHUNK (drop already_written compressed)))) (\<lambda>w2.
     bind_o (node_read node w2 idl_account) (\<lambda>acc.
     bind_o (idl_verify (data_bytes E acc) compressed) (\<lambda>_.
       Done (w2, idl_account)))))))"

section \<open>The network\<close>

text \<open>The account a program sees under a key, a blank one where there is none.\<close>

definition seen :: "environment \<Rightarrow> (pubkey \<Rightarrow> account_info outcome) \<Rightarrow> pubkey \<Rightarrow> account_info" where
  "seen E L key = (case L key of
       Done a \<Rightarrow> a
     | _ \<Rightarrow> \<lparr>ai_key = key, ai_owner = system_program_id E, ai_is_signer = False, ai_is_writable = False,
             ai_data = RawAccount [], ai_lamports = 0\<rparr>)"

text \<open>The two effects of \<open>Create\<close> and \<open>Write\<close>; an account is only created where there is none.\<close>

fun applicable :: "(pubkey \<Rightarrow> account_info outcome) \<Rightarrow> effect \<Rightarrow> bool" where
  "applicable L (Write _ _) \<longleftrightarrow> True"
| "applicable L (CreateAccountWithSeed _ key _ _ _ _ _) \<longleftrightarrow> (\<exists>e. L key = Failed e)"
| "applicable L _ \<longleftrightarrow> False"

fun ledger_effect ::
    "environment \<Rightarrow> effect \<Rightarrow> (pubkey \<Rightarrow> account_info outcome) \<Rightarrow> pubkey \<Rightarrow> account_info outcome" where
  "ledger_effect E (Write key d) L = L(key := Done ((seen E L key)\<lparr>ai_data := d\<rparr>))"
| "ledger_effect E (CreateAccountWithSeed _ key _ _ space owner _) L =
     L(key := Done (create_account_result E (seen E L key) space owner))"
| "ledger_effect E _ L = L"

definition fresh_zeroed :: "environment \<Rightarrow> bool" where
  "fresh_zeroed E \<longleftrightarrow> (\<forall>a n owner. ai_owner (create_account_result E a n owner) = owner
     \<and> ai_data (create_account_result E a n owner) = RawAccount (replicate n 0))"

text \<open>The borsh layout of the two instructions.\<close>

definition idl_decodes :: "(u8 list \<Rightarrow> idl_instruction option) \<Rightarrow> bool" where
  "idl_decodes decode \<longleftrightarrow>
     (\<forall>n < 2 ^ 64. decode (IX_CREATE # int_bytes 8 (int n)) = Some (IdlCreate (of_nat n)))
     \<and> (\<forall>payload. length payload < 2 ^ 32 \<longrightarrow>
          decode (IX_WRITE # int_bytes 4 (int (length payload)) @ payload) = Some (IdlWrite payload))"

locale idl_network =
  fixes F :: fixed_crate and E :: environment and B :: instruction_codecs
    and decode :: "u8 list \<Rightarrow> idl_instruction option" and now :: i64
    and node :: "'w idl_node"
  assumes zeroed: "fresh_zeroed E"
    and decodes: "idl_decodes decode"
    and executes: "autara_process_instruction F E B decode now (ai_program_id ix)
        (resolve (seen E (node_read node w)) (ai_accounts ix)) (ai_instruction_data ix) = POk effects \<Longrightarrow>
      list_all (applicable (node_read node w)) effects \<Longrightarrow>
      \<exists>w'. node_send node w ix = Done w' \<and> node_read node w' = fold (ledger_effect E) effects (node_read node w)"
    and refuses: "autara_process_instruction F E B decode now (ai_program_id ix)
        (resolve (seen E (node_read node w)) (ai_accounts ix)) (ai_instruction_data ix) = PErr e \<Longrightarrow>
      \<exists>m. node_send node w ix = Failed m"

text \<open>The account holds the document \<open>p\<close> of the authority, with room for \<open>rest\<close> more bytes.\<close>

definition idl_holds ::
    "pubkey \<Rightarrow> pubkey \<Rightarrow> (pubkey \<Rightarrow> account_info outcome) \<Rightarrow> pubkey \<Rightarrow> u8 list \<Rightarrow> u8 list \<Rightarrow> bool" where
  "idl_holds program_id authority L key p rest \<longleftrightarrow>
     (\<exists>a. L key = Done a \<and> ai_owner a = program_id
        \<and> ai_data a = RawAccount (idl_image (pubkey_bytes authority) (length p) (p @ rest)))"

lemma idl_tag: "is_idl_instruction (IDL_IX_TAG_LE @ xs)"
  by (simp add: is_idl_instruction_def)

lemma idl_entry:
  "autara_process_instruction F E B decode now program_id accounts (IDL_IX_TAG_LE @ xs)
     = process_idl_instruction E decode program_id accounts xs"
  by (simp add: autara_process_instruction_def idl_tag)

lemma idl_image_append:
  assumes "length auth = 32" "length c \<le> length rest" "len = length p + length c"
  shows "write_data_len (splice_at (44 + length p) c (idl_image auth (length p) (p @ rest))) len
    = idl_image auth len (p @ c @ drop (length c) rest)"
  using assms by (simp add: write_data_len_def splice_at_def idl_layout idl_image_def)

lemma idl_write_appends:
  assumes "ai_owner a = program_id" "ai_data a = RawAccount (idl_image (pubkey_bytes authority) (length p) (p @ rest))"
    and "ai_key b = authority" "ai_is_signer b" "authority \<noteq> 0" "length (p @ rest) < 2 ^ 32"
  shows "idl_write E program_id [a, b] c =
    (if length c \<le> length rest
     then POk [Write (ai_key a) (RawAccount (idl_image (pubkey_bytes authority) (length (p @ c))
            (p @ c @ drop (length c) rest)))]
     else if length p + length c < 2 ^ 64 then err_p AccountDataTooSmall
     else err_p ArithmeticOverflow)"
  using assms idl_image_append [of "pubkey_bytes authority" c rest "length p + length c" p]
  by (auto simp: idl_write_def take_account_def check_owned_idl_def check_authority_def ensure_p_def
      data_bytes_def Let_def idl_image_reads HEADER_LEN_def)

lemma seen_Done [simp]: "L k = Done a \<Longrightarrow> seen E L k = a"
  by (simp add: seen_def)

context idl_network
begin

lemma write_processed:
  assumes "idl_holds program_id authority (node_read node w) key p rest" "authority \<noteq> 0"
    "length (p @ rest) < 2 ^ 32" "length c < 2 ^ 32"
  shows "autara_process_instruction F E B decode now program_id
      (resolve (seen E (node_read node w)) (ai_accounts (idl_write_ix program_id authority key c)))
      (ai_instruction_data (idl_write_ix program_id authority key c)) =
    (if length c \<le> length rest
     then POk [Write key (RawAccount (idl_image (pubkey_bytes authority) (length (p @ c))
            (p @ c @ drop (length c) rest)))]
     else err_p AccountDataTooSmall)"
proof -
  obtain a where a: "node_read node w key = Done a" "ai_owner a = program_id"
      "ai_data a = RawAccount (idl_image (pubkey_bytes authority) (length p) (p @ rest))"
    using assms(1) by (auto simp: idl_holds_def)
  have "decode (IX_WRITE # int_bytes 4 (int (length c)) @ c) = Some (IdlWrite c)"
    using decodes assms(4) by (simp add: idl_decodes_def)
  moreover have "length p + length c < 2 ^ 64" using assms(3,4) by simp
  ultimately show ?thesis
    using a assms
    by (auto simp: idl_write_ix_def idl_entry process_idl_instruction_def resolve_def meta_new_def idl_write_appends)
qed

lemma write_sent:
  assumes "idl_holds program_id authority (node_read node w) key p rest" "authority \<noteq> 0"
    "length (p @ rest) < 2 ^ 32" "length c \<le> length rest"
  shows "\<exists>w'. node_send node w (idl_write_ix program_id authority key c) = Done w'
    \<and> idl_holds program_id authority (node_read node w') key (p @ c) (drop (length c) rest)"
proof -
  obtain a where a: "node_read node w key = Done a" "ai_owner a = program_id"
    using assms(1) by (auto simp: idl_holds_def)
  have c: "length c < 2 ^ 32" using assms(3,4) by simp
  show ?thesis
    using executes [of "idl_write_ix program_id authority key c" w] write_processed [OF assms(1-3) c] assms(4) a
    by (auto simp: idl_write_ix_def idl_holds_def)
qed

lemma write_refused:
  assumes "idl_holds program_id authority (node_read node w) key p rest" "authority \<noteq> 0"
    "length (p @ rest) < 2 ^ 32" "length c < 2 ^ 32" "length rest < length c"
  shows "\<exists>m. node_send node w (idl_write_ix program_id authority key c) = Failed m"
  using refuses [of "idl_write_ix program_id authority key c" w] write_processed [OF assms(1-4)] assms(5)
  by (auto simp: idl_write_ix_def)

lemma writes_sent:
  assumes "idl_holds program_id authority (node_read node w) key p rest" "authority \<noteq> 0"
    "length (p @ rest) < 2 ^ 32" "length (concat cs) \<le> length rest"
  shows "\<exists>w'. send_all node w (map (idl_write_ix program_id authority key) cs) = Done w'
    \<and> idl_holds program_id authority (node_read node w') key (p @ concat cs) (drop (length (concat cs)) rest)"
  using assms
proof (induction cs arbitrary: w p rest)
  case (Cons c cs)
  obtain w1 where w1: "node_send node w (idl_write_ix program_id authority key c) = Done w1"
      "idl_holds program_id authority (node_read node w1) key (p @ c) (drop (length c) rest)"
    using write_sent [OF Cons.prems(1-3), of c] Cons.prems(4) by auto
  show ?case using Cons.IH [OF w1(2) Cons.prems(2)] Cons.prems(3,4) w1(1) by (auto simp: add.commute)
qed simp

lemma writes_refused:
  assumes "idl_holds program_id authority (node_read node w) key p rest" "authority \<noteq> 0"
    "length (p @ rest) < 2 ^ 32" "\<And>c. c \<in> set cs \<Longrightarrow> length c < 2 ^ 32" "length rest < length (concat cs)"
  shows "\<exists>m. send_all node w (map (idl_write_ix program_id authority key) cs) = Failed m"
  using assms
proof (induction cs arbitrary: w p rest)
  case (Cons c cs)
  show ?case
  proof (cases "length c \<le> length rest")
    case True
    obtain w1 where w1: "node_send node w (idl_write_ix program_id authority key c) = Done w1"
        "idl_holds program_id authority (node_read node w1) key (p @ c) (drop (length c) rest)"
      using write_sent [OF Cons.prems(1-3) True] by auto
    show ?thesis using Cons.IH [OF w1(2) Cons.prems(2)] Cons.prems(3-5) w1(1) True by auto
  next
    case False
    then show ?thesis using write_refused [OF Cons.prems(1-3), of c] Cons.prems(4) by auto
  qed
qed simp

lemma create_sent:
  assumes "derive_idl_account E program_id = Done (key, base)" "node_read node w key = Failed m"
    "n < 2 ^ 63"
  shows "\<exists>w'. node_send node w (idl_create_ix E program_id authority key base n) = Done w'
    \<and> idl_holds program_id authority (node_read node w') key [] (replicate (min n (10000 - 44)) 0)"
proof -
  have d: "decode (IX_CREATE # int_bytes 8 (int n)) = Some (IdlCreate (of_nat n))"
    using decodes assms(3) by (simp add: idl_decodes_def)
  have "unat (of_nat (44 + n) :: u64) = 44 + n"
    using assms(3) by (subst unat_of_nat) simp
  then have s: "min (unat (of_nat HEADER_LEN + of_nat n :: u64)) MAX_SPACE_PER_OP = min (44 + n) 10000"
    by (simp add: HEADER_LEN_def MAX_SPACE_PER_OP_def)
  have h: "HEADER_LEN \<le> min (44 + n) 10000" by (simp add: HEADER_LEN_def)
  obtain bump where dv: "derive_idl E program_id = POk (key, base, bump)"
    using assms(1) by (cases "find_program_address (env_runtime E) [] program_id")
      (auto simp: derive_idl_account_def derive_idl_def Let_def)
  let ?ix = "idl_create_ix E program_id authority key base n"
  let ?d = "RawAccount (stamp_header authority (replicate (min (44 + n) 10000) 0))"
  let ?effects = "[CreateAccountWithSeed authority key base IDL_SEED (min (44 + n) 10000) program_id [[[bump]]],
      Write key ?d]"
  have "autara_process_instruction F E B decode now (ai_program_id ?ix)
      (resolve (seen E (node_read node w)) (ai_accounts ?ix)) (ai_instruction_data ?ix) = POk ?effects"
    using zeroed h
    by (simp add: idl_create_ix_def idl_entry process_idl_instruction_def d idl_create_account_def resolve_def
        take_account_def ensure_p_def dv s Let_def meta_new_def meta_new_readonly_def data_bytes_def
        fresh_zeroed_def)
  then obtain w' where w': "node_send node w ?ix = Done w'"
      "node_read node w' = fold (ledger_effect E) ?effects (node_read node w)"
    using executes [of ?ix w ?effects] assms(2) by auto
  have "stamp_header authority (replicate (min (44 + n) 10000) 0)
      = idl_image (pubkey_bytes authority) 0 (replicate (min n (10000 - 44)) 0)"
    using stamp_header_image [of "min (44 + n) 10000" authority] by (simp add: min_def)
  with w' zeroed show ?thesis
    by (intro exI [of _ w']) (simp add: idl_holds_def seen_def fresh_zeroed_def)
qed

lemma idl_verify_held:
  assumes "idl_holds program_id authority L key p rest" "length (p @ rest) < 2 ^ 32"
  shows "\<exists>a. L key = Done a \<and> idl_verify (data_bytes E a) p = Done ()"
    and "\<exists>a. L key = Done a \<and> idl_resume (data_bytes E a) (p @ q) = Done (length p)"
proof -
  obtain a where a: "L key = Done a" "ai_data a = RawAccount (idl_image (pubkey_bytes authority) (length p) (p @ rest))"
    using assms(1) by (auto simp: idl_holds_def)
  have d: "drop 44 (idl_image (pubkey_bytes authority) (length p) (p @ rest)) = p @ rest"
    by (simp add: idl_image_def)
  show "\<exists>a. L key = Done a \<and> idl_verify (data_bytes E a) p = Done ()"
    and "\<exists>a. L key = Done a \<and> idl_resume (data_bytes E a) (p @ q) = Done (length p)"
    using a assms(2) d
    by (simp_all add: idl_verify_def idl_resume_def data_bytes_def Let_def idl_image_reads)
qed

lemma published_from:
  assumes "idl_holds program_id authority (node_read node w) key p rest" "authority \<noteq> 0"
    "length (p @ rest) < 2 ^ 32" "length q \<le> length rest"
  shows "\<exists>w' a. send_all node w (map (idl_write_ix program_id authority key) (chunks IDL_WRITE_CHUNK q)) = Done w'
    \<and> idl_holds program_id authority (node_read node w') key (p @ q) (drop (length q) rest)
    \<and> node_read node w' key = Done a \<and> idl_verify (data_bytes E a) (p @ q) = Done ()"
proof -
  have q: "concat (chunks IDL_WRITE_CHUNK q) = q" by (simp add: concat_chunks IDL_WRITE_CHUNK_def)
  obtain w' where w': "send_all node w (map (idl_write_ix program_id authority key) (chunks IDL_WRITE_CHUNK q)) = Done w'"
      "idl_holds program_id authority (node_read node w') key (p @ q) (drop (length q) rest)"
    using writes_sent [OF assms(1-3), of "chunks IDL_WRITE_CHUNK q"] assms(4) by (auto simp: q)
  then show ?thesis using idl_verify_held(1) [OF w'(2)] assms(3,4) by auto
qed

lemma publish_resumes:
  assumes "derive_idl_account E program_id = Done (key, base)" "compress json = Done (p @ q)"
    "idl_holds program_id authority (node_read node w) key p rest" "authority \<noteq> 0"
    "length (p @ rest) < 2 ^ 32" "length q \<le> length rest"
  shows "\<exists>w'. publish_idl E node compress program_id authority json w = Done (w', key)
    \<and> idl_holds program_id authority (node_read node w') key (p @ q) (drop (length q) rest)"
  using idl_verify_held(2) [OF assms(3,5), of q] published_from [OF assms(3-6)] assms(1,2)
  by (auto simp: publish_idl_def)

lemma publish_fresh:
  assumes "derive_idl_account E program_id = Done (key, base)" "compress json = Done q"
    "node_read node w key = Failed m" "authority \<noteq> 0" "length q < 2 ^ 63"
  shows "length q \<le> 10000 - 44 \<Longrightarrow> \<exists>w'. publish_idl E node compress program_id authority json w = Done (w', key)
      \<and> idl_holds program_id authority (node_read node w') key q []"
    and "10000 - 44 < length q \<Longrightarrow> \<exists>m. publish_idl E node compress program_id authority json w = Failed m"
proof -
  obtain w1 where w1: "node_send node w (idl_create_ix E program_id authority key base (length q)) = Done w1"
      "idl_holds program_id authority (node_read node w1) key [] (replicate (min (length q) (10000 - 44)) 0)"
    using create_sent [OF assms(1,3,5)] by blast
  have c: "\<And>c. c \<in> set (chunks IDL_WRITE_CHUNK q) \<Longrightarrow> length c < 2 ^ 32"
    using chunk_lengths [of _ IDL_WRITE_CHUNK q] by (fastforce simp: IDL_WRITE_CHUNK_def)
  show "\<exists>w'. publish_idl E node compress program_id authority json w = Done (w', key)
      \<and> idl_holds program_id authority (node_read node w') key q []" if "length q \<le> 10000 - 44"
    using published_from [OF w1(2) assms(4), of q] that assms(1-3) w1(1) by (auto simp: publish_idl_def)
  show "\<exists>m. publish_idl E node compress program_id authority json w = Failed m" if "10000 - 44 < length q"
    using writes_refused [OF w1(2) assms(4), of "chunks IDL_WRITE_CHUNK q"] c that assms(1-3) w1(1)
    by (auto simp: publish_idl_def concat_chunks IDL_WRITE_CHUNK_def)
qed

end

section \<open>A network\<close>

text \<open>A ledger on which the program runs one instruction at a time.\<close>

definition ledger_node ::
    "fixed_crate \<Rightarrow> environment \<Rightarrow> instruction_codecs \<Rightarrow> (u8 list \<Rightarrow> idl_instruction option) \<Rightarrow> i64
     \<Rightarrow> (pubkey \<Rightarrow> account_info outcome) idl_node" where
  "ledger_node F E B decode now = \<lparr>node_read = (\<lambda>L. L),
     node_send = (\<lambda>L ix.
       case autara_process_instruction F E B decode now (ai_program_id ix)
              (resolve (seen E L) (ai_accounts ix)) (ai_instruction_data ix) of
         POk effects \<Rightarrow>
           if list_all (applicable L) effects then Done (fold (ledger_effect E) effects L)
           else Failed ''refused''
       | _ \<Rightarrow> Failed ''failed'')\<rparr>"

fun decode_idl :: "u8 list \<Rightarrow> idl_instruction option" where
  "decode_idl (tag # bytes) =
     (if tag = IX_CREATE \<and> length bytes = 8 then Some (IdlCreate (word_of_int (bytes_int bytes)))
      else if tag = IX_WRITE \<and> 4 \<le> length bytes
           \<and> int (length bytes) = 4 + bytes_int (take 4 bytes) then Some (IdlWrite (drop 4 bytes))
      else None)"
| "decode_idl [] = None"

lemma decode_idl_ok: "idl_decodes decode_idl"
  by (auto simp: idl_decodes_def IX_CREATE_def IX_WRITE_def bytes_int_int_bytes)

lemma example_fresh_zeroed: "fresh_zeroed example_env"
  by (simp add: fresh_zeroed_def example_env_def)

interpretation example_ledger: idl_network fixed_reference example_env example_codecs decode_idl 1000
  "ledger_node fixed_reference example_env example_codecs decode_idl 1000"
  by unfold_locales (auto simp: ledger_node_def example_fresh_zeroed decode_idl_ok)

text \<open>
  C28: The interface description reaches the chain. On a network that runs the program, publishing a
  document into an absent account completes, and leaves exactly the compressed document there, if and
  only if it has at most 9956 bytes; a longer one fails, since the account is created with at most 10000
  bytes and never resized. Interrupted after any prefix, publishing again sends only the remainder and
  completes when the account has room for it.
\<close>

theorem idl_publication:
  assumes "idl_network F E B decode now node"
    and "derive_idl_account E program_id = Done (key, base)" and "compress json = Done q"
    and "authority \<noteq> 0" and "length q < 2 ^ 63"
  shows "(node_read node w key = Failed m \<longrightarrow>
      (if length q \<le> 9956
       then \<exists>w'. publish_idl E node compress program_id authority json w = Done (w', key)
              \<and> idl_holds program_id authority (node_read node w') key q []
       else \<exists>e. publish_idl E node compress program_id authority json w = Failed e))
    \<and> (q = p @ r \<longrightarrow> idl_holds program_id authority (node_read node w) key p rest \<longrightarrow>
        length (p @ rest) < 2 ^ 32 \<longrightarrow> length r \<le> length rest \<longrightarrow>
        (\<exists>w'. publish_idl E node compress program_id authority json w = Done (w', key)
              \<and> idl_holds program_id authority (node_read node w') key q (drop (length r) rest)))"
proof (intro conjI impI)
  assume "node_read node w key = Failed m"
  from idl_network.publish_fresh [where compress = compress and json = json, OF assms(1-3) this assms(4,5)]
  show "if length q \<le> 9956
       then \<exists>w'. publish_idl E node compress program_id authority json w = Done (w', key)
              \<and> idl_holds program_id authority (node_read node w') key q []
       else \<exists>e. publish_idl E node compress program_id authority json w = Failed e" by auto
next
  assume q: "q = p @ r" and h: "idl_holds program_id authority (node_read node w) key p rest"
    "length (p @ rest) < 2 ^ 32" "length r \<le> length rest"
  from idl_network.publish_resumes [where compress = compress and json = json, OF assms(1,2) assms(3) [unfolded q] h(1) assms(4) h(2,3)]
  show "\<exists>w'. publish_idl E node compress program_id authority json w = Done (w', key)
      \<and> idl_holds program_id authority (node_read node w') key q (drop (length r) rest)" by (simp add: q)
qed

text \<open>A document of a thousand bytes, in two chunks, into the absent account 6.\<close>

theorem idl_publication_witness:
  "\<exists>L. publish_idl example_env (ledger_node fixed_reference example_env example_codecs decode_idl 1000)
       Done crate_id 11 (replicate 1000 7) (\<lambda>_. Failed ''not found'') = Done (L, 6)
     \<and> idl_holds crate_id 11 L 6 (replicate 1000 7) []"
proof -
  have d: "derive_idl_account example_env crate_id = Done (6, fst (find_program_address example_runtime [] crate_id))"
    by (simp add: derive_idl_account_def example_env_def context_o_def)
  show ?thesis
    using idl_publication [where compress = Done and json = "replicate 1000 7", OF example_ledger.idl_network_axioms d, of "replicate 1000 7" 11
        "\<lambda>_. Failed ''not found''" "''not found''"]
    by (simp add: ledger_node_def)
qed

end
