(* ===== verification/Elf_Upgrade.thy ===== *)
theory Elf_Upgrade
  imports Client_Base
begin

text \<open>
  The upload of the program binary: \<open>upgrade_in_place\<close> of \<open>src/autara-client/src/idl_deploy.rs\<close> and
  \<open>deploy_program_elf\<close> of \<open>src/autara-deploy/src/elf_upload.rs\<close>. Both write the file in chunks through the
  loader, read the account back and make it executable only afterwards. The node is a parameter with a
  state \<open>'w\<close> that every request may change; a run yields its outcome, the requests it made and the state.
  The wait for the writes of a pass ends only when the readbacks stall, so a run is partial: \<open>None\<close> is a
  run that never returns.
\<close>

section \<open>Requests to the node\<close>

datatype tx_status = TxQueued | TxProcessed | TxFailed string

record program_account =
  pa_owner :: pubkey
  pa_data :: "u8 list"
  pa_executable :: bool
  pa_lamports :: u64

text \<open>The instructions of the loader and of the system program that the uploads send.\<close>

datatype loader_ix =
    LoaderRetract pubkey pubkey
  | LoaderTruncate pubkey pubkey u32
  | LoaderWrite pubkey pubkey u32 "u8 list"
  | LoaderDeploy pubkey pubkey
  | RentTransfer pubkey pubkey u64
  | CreateProgram pubkey pubkey u64

datatype loader_event = ReadBack program_account | Sent loader_ix | SentBatch "loader_ix list"

text \<open>
  \<open>read_account_info\<close>; a recent block hash; a transaction on such a hash, sent and waited for;
  \<open>send_transactions\<close> for a batch; \<open>wait_for_processed_transaction\<close> for one of a batch. The size of the header
  of a program account, the length of a write transaction without its payload, the size of a batch, the
  rent, the length of a transaction and the loader's address are those of the SDK.
\<close>

record 'w loader_node =
  ln_read :: "'w \<Rightarrow> pubkey \<Rightarrow> program_account outcome \<times> 'w"
  ln_blockhash :: "'w \<Rightarrow> unit outcome \<times> 'w"
  ln_send :: "'w \<Rightarrow> loader_ix \<Rightarrow> tx_status outcome \<times> 'w"
  ln_send_batch :: "'w \<Rightarrow> loader_ix list \<Rightarrow> unit outcome \<times> 'w"
  ln_wait :: "'w \<Rightarrow> loader_ix \<Rightarrow> tx_status outcome \<times> 'w"
  program_data_offset :: nat
  write_overhead :: nat
  max_tx_batch_size :: nat
  tx_len :: "loader_ix \<Rightarrow> nat"
  loader_rent :: "nat \<Rightarrow> u64"
  bpf_loader_id :: pubkey

type_synonym ('w, 'e, 'a) run = "'w \<Rightarrow> ('a outcome \<times> 'e list \<times> 'w) option"

type_synonym ('w, 'a) upload = "('w, loader_event, 'a) run"

definition return_u :: "'a outcome \<Rightarrow> ('w, 'e, 'a) run" where
  "return_u r = (\<lambda>w. Some (r, [], w))"

definition bind_u :: "('w, 'e, 'a) run \<Rightarrow> ('a \<Rightarrow> ('w, 'e, 'b) run) \<Rightarrow> ('w, 'e, 'b) run" where
  "bind_u p f = (\<lambda>w. Option.bind (p w) (\<lambda>(r, ev, w1).
     case r of
       Done x \<Rightarrow> Option.bind (f x w1) (\<lambda>(r', ev', w2). Some (r', ev @ ev', w2))
     | Failed m \<Rightarrow> Some (Failed m, ev, w1)
     | Panicked \<Rightarrow> Some (Panicked, ev, w1)))"

definition read_u :: "'w loader_node \<Rightarrow> pubkey \<Rightarrow> ('w, program_account) upload" where
  "read_u node key = (\<lambda>w. let (r, w') = ln_read node w key in
     Some (r, (case r of Done a \<Rightarrow> [ReadBack a] | _ \<Rightarrow> []), w'))"

definition blockhash_u :: "'w loader_node \<Rightarrow> ('w, unit) upload" where
  "blockhash_u node = (\<lambda>w. let (r, w') = ln_blockhash node w in Some (r, [], w'))"

definition send_u :: "'w loader_node \<Rightarrow> loader_ix \<Rightarrow> ('w, tx_status) upload" where
  "send_u node ix = (\<lambda>w. let (r, w') = ln_send node w ix in Some (r, [Sent ix], w'))"

text \<open>\<open>send_and_log\<close>: a failed transaction is an error.\<close>

definition confirm_u :: "'w loader_node \<Rightarrow> loader_ix \<Rightarrow> ('w, unit) upload" where
  "confirm_u node ix = bind_u (send_u node ix) (\<lambda>status.
     return_u (case status of TxFailed reason \<Rightarrow> Failed reason | _ \<Rightarrow> Done ()))"

text \<open>Batches whose errors are logged only.\<close>

fun batches_u :: "'w loader_node \<Rightarrow> loader_ix list list \<Rightarrow> ('w, unit) upload" where
  "batches_u node [] = return_u (Done ())"
| "batches_u node (b # bs) = (\<lambda>w. let (r, w') = ln_send_batch node w b in
     bind_u (\<lambda>w. Some (Done (), [SentBatch b], w)) (\<lambda>_. batches_u node bs) w')"

definition when_u :: "bool \<Rightarrow> ('w, 'e, unit) run \<Rightarrow> ('w, 'e, unit) run" where
  "when_u c p = (if c then p else return_u (Done ()))"

section \<open>Chunks of the binary\<close>

definition NETWORK_TX_SIZE_LIMIT :: nat where
  "NETWORK_TX_SIZE_LIMIT = 1232"

definition elf_write_chunk_max_len :: "'w loader_node \<Rightarrow> nat outcome" where
  "elf_write_chunk_max_len node =
     (if write_overhead node \<le> NETWORK_TX_SIZE_LIMIT then Done (NETWORK_TX_SIZE_LIMIT - write_overhead node)
      else Panicked)"

definition missing_chunks :: "nat \<Rightarrow> u8 list \<Rightarrow> u8 list \<Rightarrow> nat \<Rightarrow> nat list" where
  "missing_chunks offset account_data elf chunk_size =
     (let onchain = drop offset account_data in
      map fst (filter (\<lambda>(i, want).
          \<not> (i * chunk_size + length want \<le> length onchain
             \<and> take (length want) (drop (i * chunk_size) onchain) = want))
        (List.enumerate 0 (chunks chunk_size elf))))"

text \<open>\<open>elf[i * chunk_size..((i + 1) * chunk_size).min(elf.len())]\<close> and its offset as \<open>u32\<close>.\<close>

definition chunk_write :: "pubkey \<Rightarrow> pubkey \<Rightarrow> u8 list \<Rightarrow> nat \<Rightarrow> nat \<Rightarrow> loader_ix" where
  "chunk_write program authority elf chunk_size i =
     LoaderWrite program authority (of_nat (i * chunk_size)) (take chunk_size (drop (i * chunk_size) elf))"

section \<open>upgrade\_in\_place\<close>

definition MAX_WRITE_PASSES :: nat where
  "MAX_WRITE_PASSES = 4"

definition WRITE_STALL_LIMIT :: nat where
  "WRITE_STALL_LIMIT = 4"

text \<open>The wait for the writes of a pass: the chunks that are missing when it ends.\<close>

partial_function (option) await_writes ::
    "'w loader_node \<Rightarrow> pubkey \<Rightarrow> (u8 list \<Rightarrow> nat list) \<Rightarrow> nat list \<Rightarrow> nat \<Rightarrow> 'w
     \<Rightarrow> (nat list outcome \<times> loader_event list \<times> 'w) option" where
  "await_writes node program missing todo stalls w =
     (if WRITE_STALL_LIMIT \<le> stalls then Some (Done todo, [], w)
      else case ln_read node w program of
          (Done acc, w1) \<Rightarrow>
            (let remaining = missing (pa_data acc);
                 stalls' = (if length remaining < length todo then 0 else Suc stalls) in
             if remaining = [] then Some (Done [], [ReadBack acc], w1)
             else Option.bind (await_writes node program missing remaining stalls' w1)
                    (\<lambda>(r, ev, w2). Some (r, ReadBack acc # ev, w2)))
        | (Failed m, w1) \<Rightarrow> Some (Failed m, [], w1)
        | (Panicked, w1) \<Rightarrow> Some (Panicked, [], w1))"

declare await_writes.simps [code]

fun write_passes ::
    "'w loader_node \<Rightarrow> pubkey \<Rightarrow> pubkey \<Rightarrow> u8 list \<Rightarrow> nat \<Rightarrow> nat \<Rightarrow> nat list \<Rightarrow> ('w, nat list) upload" where
  "write_passes node program authority elf chunk_size 0 todo = return_u (Done todo)"
| "write_passes node program authority elf chunk_size (Suc passes) todo =
     bind_u (blockhash_u node) (\<lambda>_.
     bind_u (batches_u node (chunks (max_tx_batch_size node)
               (map (chunk_write program authority elf chunk_size) todo))) (\<lambda>_.
     bind_u (await_writes node program
               (\<lambda>data. missing_chunks (program_data_offset node) data elf chunk_size) todo 0) (\<lambda>todo'.
       if todo' = [] then return_u (Done [])
       else write_passes node program authority elf chunk_size passes todo')))"

definition upgrade_in_place ::
    "'w loader_node \<Rightarrow> (pubkey \<Rightarrow> u8 list) \<Rightarrow> pubkey \<Rightarrow> pubkey \<Rightarrow> u8 list \<Rightarrow> ('w, unit) upload" where
  "upgrade_in_place node key_bytes program authority elf =
     (let offset = program_data_offset node in
      bind_u (read_u node program) (\<lambda>acc.
      bind_u (return_u (ensure_o (pa_owner acc = bpf_loader_id node) ''program not owned by the BPF loader'')) (\<lambda>_.
      bind_u (return_u (ensure_o (offset \<le> length (pa_data acc)) ''program account too small'')) (\<lambda>_.
      bind_u (return_u (if length (pa_data acc) < 32 then Panicked
                else ensure_o (take 32 (pa_data acc) = key_bytes authority) ''on-chain upgrade authority'')) (\<lambda>_.
      bind_u (when_u (pa_executable acc) (confirm_u node (LoaderRetract program authority))) (\<lambda>_.
      bind_u (when_u (length (pa_data acc) \<noteq> offset + length elf)
        (let rent = loader_rent node (offset + length elf) in
         bind_u (when_u (pa_lamports acc < rent)
           (confirm_u node (RentTransfer authority program (rent - pa_lamports acc)))) (\<lambda>_.
           confirm_u node (LoaderTruncate program authority (of_nat (length elf)))))) (\<lambda>_.
      bind_u (return_u (elf_write_chunk_max_len node)) (\<lambda>chunk_size.
      bind_u (return_u (if chunk_size = 0 then Panicked else Done ())) (\<lambda>_.
      bind_u (read_u node program) (\<lambda>acc.
      bind_u (write_passes node program authority elf chunk_size MAX_WRITE_PASSES
                (missing_chunks offset (pa_data acc) elf chunk_size)) (\<lambda>todo.
      bind_u (return_u (ensure_o (todo = []) ''ELF chunks still not written'')) (\<lambda>_.
      bind_u (confirm_u node (LoaderDeploy program authority)) (\<lambda>_.
      bind_u (read_u node program) (\<lambda>acc.
      bind_u (return_u (ensure_o (pa_executable acc) ''program not executable after deploy'')) (\<lambda>_.
        return_u (if length (pa_data acc) < offset then Panicked
                  else ensure_o (drop offset (pa_data acc) = elf) ''on-chain ELF does not match''))))))))))))))))"

section \<open>deploy\_program\_elf\<close>

text \<open>Here a batch that is not accepted is an error, and every transaction of it is waited for.\<close>

fun send_batches_u :: "'w loader_node \<Rightarrow> loader_ix list list \<Rightarrow> ('w, unit) upload" where
  "send_batches_u node [] = return_u (Done ())"
| "send_batches_u node (b # bs) =
     bind_u (\<lambda>w. let (r, w') = ln_send_batch node w b in Some (r, [SentBatch b], w')) (\<lambda>_.
       send_batches_u node bs)"

fun wait_all_u :: "'w loader_node \<Rightarrow> loader_ix list \<Rightarrow> ('w, unit) upload" where
  "wait_all_u node [] = return_u (Done ())"
| "wait_all_u node (ix # ixs) =
     bind_u (\<lambda>w. let (r, w') = ln_wait node w ix in Some (r, [], w')) (\<lambda>status.
     bind_u (return_u (case status of TxFailed reason \<Rightarrow> Failed reason | _ \<Rightarrow> Done ())) (\<lambda>_.
       wait_all_u node ixs))"

definition chunk_transaction :: "'w loader_node \<Rightarrow> loader_ix \<Rightarrow> loader_ix outcome" where
  "chunk_transaction node ix =
     bind_o (ensure_o (tx_len node ix \<le> NETWORK_TX_SIZE_LIMIT) ''ELF write chunk'') (\<lambda>_. Done ix)"

definition write_program_elf :: "'w loader_node \<Rightarrow> pubkey \<Rightarrow> pubkey \<Rightarrow> u8 list \<Rightarrow> ('w, unit) upload" where
  "write_program_elf node program authority elf =
     (let offset = program_data_offset node in
      bind_u (read_u node program) (\<lambda>acc.
      bind_u (when_u (pa_executable acc)
        (bind_u (send_u node (LoaderRetract program authority)) (\<lambda>_. return_u (Done ())))) (\<lambda>_.
      bind_u (when_u (length (pa_data acc) \<noteq> offset + length elf)
        (let rent = loader_rent node (offset + length elf) in
         bind_u (when_u (pa_lamports acc < rent)
           (bind_u (send_u node (RentTransfer authority program (rent - pa_lamports acc)))
              (\<lambda>_. return_u (Done ())))) (\<lambda>_.
           confirm_u node (LoaderTruncate program authority (of_nat (length elf)))))) (\<lambda>_.
      bind_u (blockhash_u node) (\<lambda>_.
      bind_u (return_u (elf_write_chunk_max_len node)) (\<lambda>chunk_size.
      bind_u (return_u (if chunk_size = 0 then Panicked
          else map_o (chunk_transaction node) (map (chunk_write program authority elf chunk_size)
                 [0..<length (chunks chunk_size elf)]))) (\<lambda>txs.
      bind_u (send_batches_u node (chunks (max_tx_batch_size node) txs)) (\<lambda>_.
        wait_all_u node txs))))))))"

definition make_program_executable :: "'w loader_node \<Rightarrow> pubkey \<Rightarrow> pubkey \<Rightarrow> ('w, unit) upload" where
  "make_program_executable node program authority = confirm_u node (LoaderDeploy program authority)"

definition attempt_u :: "('w, 'e, 'a) run \<Rightarrow> ('w, 'e, 'a outcome) run" where
  "attempt_u p = (\<lambda>w. Option.bind (p w) (\<lambda>(r, ev, w').
     Some (case r of Panicked \<Rightarrow> Panicked | _ \<Rightarrow> Done r, ev, w')))"

definition deploy_program_elf :: "'w loader_node \<Rightarrow> pubkey \<Rightarrow> pubkey \<Rightarrow> u8 list \<Rightarrow> ('w, pubkey) upload" where
  "deploy_program_elf node program authority elf =
     (let offset = program_data_offset node;
          upload = bind_u (write_program_elf node program authority elf) (\<lambda>_.
            bind_u (read_u node program) (\<lambda>after.
            bind_u (return_u (ensure_o (offset \<le> length (pa_data after) \<and> drop offset (pa_data after) = elf)
                      ''on-chain ELF does not match'')) (\<lambda>_.
            bind_u (when_u (\<not> pa_executable after) (make_program_executable node program authority)) (\<lambda>_.
              return_u (Done program))))) in
      bind_u (return_u (elf_write_chunk_max_len node)) (\<lambda>_.
      bind_u (attempt_u (read_u node program)) (\<lambda>r.
        case r of
          Done acc \<Rightarrow>
            if length (pa_data acc) < offset then upload
            else if drop offset (pa_data acc) = elf
              then bind_u (when_u (\<not> pa_executable acc) (make_program_executable node program authority)) (\<lambda>_.
                     return_u (Done program))
            else upload
        | _ \<Rightarrow>
            bind_u (confirm_u node (CreateProgram authority program (loader_rent node (offset + length elf))))
              (\<lambda>_. upload))))"

section \<open>Chunks that are missing\<close>

lemma list_chunks_eq:
  assumes "0 < n" "\<And>i. i < length (chunks n xs) \<Longrightarrow>
    i * n + length (chunks n xs ! i) \<le> length ys \<and> take (length (chunks n xs ! i)) (drop (i * n) ys) = chunks n xs ! i"
  shows "take (length xs) ys = xs"
  using assms
proof (induction n xs arbitrary: ys rule: chunks.induct)
  case (1 n xs)
  show ?case
  proof (cases "xs = []")
    case False
    have c: "chunks n xs = take n xs # chunks n (drop n xs)" using 1(2) False by (rule chunks_Cons)
    have hd: "min (length xs) n \<le> length ys" "take (min (length xs) n) ys = take n xs"
      using 1(3) [of 0] by (simp_all add: c min.commute)
    have tl: "take (length xs - n) (drop n ys) = drop n xs"
    proof -
      have "take (length (drop n xs)) (drop n ys) = drop n xs"
      proof (rule 1(1))
        fix i assume i: "i < length (chunks n (drop n xs))"
        show "i * n + length (chunks n (drop n xs) ! i) \<le> length (drop n ys)
          \<and> take (length (chunks n (drop n xs) ! i)) (drop (i * n) (drop n ys)) = chunks n (drop n xs) ! i"
          using 1(3) [of "Suc i"] i by (auto simp: c add.commute)
      qed (use 1(2) False in simp_all)
      then show ?thesis by simp
    qed
    show ?thesis
    proof (cases "length xs \<le> n")
      case False
      then have "take (length xs) ys = take n ys @ take (length xs - n) (drop n ys)"
        using take_add [of n "length xs - n" ys] by simp
      also have "\<dots> = xs" using hd False by (simp add: tl min_def)
      finally show ?thesis .
    qed (use hd in \<open>simp add: min_def\<close>)
  qed simp
qed

lemma missing_chunks_empty:
  assumes "0 < n"
  shows "missing_chunks offset data elf n = [] \<longleftrightarrow> take (length elf) (drop offset data) = elf"
proof
  assume "missing_chunks offset data elf n = []"
  then have "\<And>i. i < length (chunks n elf) \<Longrightarrow> i * n + length (chunks n elf ! i) \<le> length (drop offset data)
      \<and> take (length (chunks n elf ! i)) (drop (i * n) (drop offset data)) = chunks n elf ! i"
    by (fastforce simp: missing_chunks_def filter_empty_conv in_set_enumerate_eq)
  from list_chunks_eq [OF assms this] show "take (length elf) (drop offset data) = elf" .
next
  assume h: "take (length elf) (drop offset data) = elf"
  have "i * n + length (chunks n elf ! i) \<le> length (drop offset data)
      \<and> take (length (chunks n elf ! i)) (drop (i * n) (drop offset data)) = chunks n elf ! i"
    if "i < length (chunks n elf)" for i
  proof -
    have e: "chunks n elf ! i = take n (drop (i * n) elf)" "i * n < length elf"
      using assms that by (simp_all add: chunks_nth chunks_index)
    have l: "length elf \<le> length (drop offset data)" using h by (metis length_take min.cobounded1)
    have "take n (drop (i * n) elf) = take n (drop (i * n) (take (length elf) (drop offset data)))" using h by simp
    then show ?thesis using e l by (auto simp: take_drop min_def)
  qed
  then show "missing_chunks offset data elf n = []"
    by (auto simp: missing_chunks_def filter_empty_conv in_set_enumerate_eq)
qed

section \<open>Requests in order\<close>

text \<open>
  A sequence of requests is guarded when each deployment follows a readback that is \<open>good\<close>, with nothing
  sent in between; the flag says whether this holds so far.
\<close>

fun flag_after :: "(program_account \<Rightarrow> bool) \<Rightarrow> bool \<Rightarrow> loader_event list \<Rightarrow> bool" where
  "flag_after good ok [] = ok"
| "flag_after good ok (ReadBack a # es) = flag_after good (good a) es"
| "flag_after good ok (_ # es) = flag_after good False es"

fun guarded :: "(program_account \<Rightarrow> bool) \<Rightarrow> bool \<Rightarrow> loader_event list \<Rightarrow> bool" where
  "guarded good ok [] = True"
| "guarded good ok (ReadBack a # es) = guarded good (good a) es"
| "guarded good ok (Sent (LoaderDeploy _ _) # es) \<longleftrightarrow> ok \<and> guarded good False es"
| "guarded good ok (_ # es) = guarded good False es"

lemma flag_after_append: "flag_after good ok (xs @ ys) = flag_after good (flag_after good ok xs) ys"
  by (induction good ok xs rule: flag_after.induct) auto

lemma guarded_append: "guarded good ok (xs @ ys) \<longleftrightarrow> guarded good ok xs \<and> guarded good (flag_after good ok xs) ys"
  by (induction good ok xs rule: guarded.induct) auto

text \<open>What a program guarantees of its requests, from a flag with \<open>P\<close> to a result and a flag with \<open>Q\<close>.\<close>

definition keeps :: "(program_account \<Rightarrow> bool) \<Rightarrow> (bool \<Rightarrow> bool) \<Rightarrow> ('w, 'a) upload \<Rightarrow> ('a \<Rightarrow> bool \<Rightarrow> bool) \<Rightarrow> bool" where
  "keeps good P p Q \<longleftrightarrow> (\<forall>w r ev w' ok. p w = Some (r, ev, w') \<longrightarrow> P ok \<longrightarrow>
     guarded good ok ev \<and> (\<forall>x. r = Done x \<longrightarrow> Q x (flag_after good ok ev)))"

lemma keepsD:
  "keeps good P p Q \<Longrightarrow> p w = Some (r, ev, w') \<Longrightarrow> P ok \<Longrightarrow> guarded good ok ev"
  "keeps good P p Q \<Longrightarrow> p w = Some (Done x, ev, w') \<Longrightarrow> P ok \<Longrightarrow> Q x (flag_after good ok ev)"
  unfolding keeps_def by blast+

lemma keeps_return: "(\<And>ok x. P ok \<Longrightarrow> r = Done x \<Longrightarrow> Q x ok) \<Longrightarrow> keeps good P (return_u r) Q"
  by (auto simp: keeps_def return_u_def)

lemma bind_u_return: "bind_u (return_u (Done x)) f = f x"
  by (rule ext) (simp add: bind_u_def return_u_def)

lemma keeps_bind:
  assumes "keeps good P p R" "\<And>x. keeps good (R x) (f x) Q"
  shows "keeps good P (bind_u p f) Q"
  unfolding keeps_def
proof (intro allI impI)
  fix w r ev w' ok
  assume b: "bind_u p f w = Some (r, ev, w')" and ok: "P ok"
  from b obtain r1 ev1 w1 where p: "p w = Some (r1, ev1, w1)"
    by (auto simp: bind_u_def split: bind_splits)
  have g: "guarded good ok ev1" by (rule keepsD(1) [OF assms(1) p ok])
  show "guarded good ok ev \<and> (\<forall>x. r = Done x \<longrightarrow> Q x (flag_after good ok ev))"
  proof (cases r1)
    case (Done x)
    with b p obtain ev2 where f: "f x w1 = Some (r, ev2, w')" "ev = ev1 @ ev2"
      by (auto simp: bind_u_def split: bind_splits)
    have q: "R x (flag_after good ok ev1)" using keepsD(2) [OF assms(1) _ ok] p Done by blast
    show ?thesis
      using g keepsD [OF assms(2), of _ w1 _ ev2 w', OF _ q] f by (auto simp: guarded_append flag_after_append)
  qed (use b p g in \<open>auto simp: bind_u_def\<close>)
qed

lemma keeps_weaken:
  "keeps good P p Q \<Longrightarrow> (\<And>ok. P' ok \<Longrightarrow> P ok) \<Longrightarrow> (\<And>x ok. Q x ok \<Longrightarrow> Q' x ok) \<Longrightarrow> keeps good P' p Q'"
  by (auto simp: keeps_def)

lemma keeps_read: "keeps good P (read_u node key) (\<lambda>a ok. ok = good a)"
  by (auto simp: keeps_def read_u_def Let_def split: prod.splits outcome.splits)

lemma keeps_blockhash: "keeps good P (blockhash_u node) (\<lambda>_. P)"
  by (auto simp: keeps_def blockhash_u_def Let_def split: prod.splits)

lemma keeps_send:
  "(\<And>ok. P ok \<Longrightarrow> guarded good ok [Sent ix]) \<Longrightarrow> keeps good P (send_u node ix) (\<lambda>_ _. True)"
  by (auto simp: keeps_def send_u_def Let_def split: prod.splits)

lemma keeps_confirm:
  "(\<And>ok. P ok \<Longrightarrow> guarded good ok [Sent ix]) \<Longrightarrow> keeps good P (confirm_u node ix) (\<lambda>_ _. True)"
  unfolding confirm_u_def by (intro keeps_bind [OF keeps_send] keeps_return) auto

lemma keeps_batches: "keeps good P (batches_u node bs) (\<lambda>_ _. True)"
proof (induction bs arbitrary: P)
  case (Cons b bs)
  have s: "keeps good P (\<lambda>w. Some (Done (), [SentBatch b], w)) (\<lambda>_ _. True)" by (auto simp: keeps_def)
  have "keeps good P (bind_u (\<lambda>w. Some (Done (), [SentBatch b], w)) (\<lambda>_. batches_u node bs)) (\<lambda>_ _. True)"
    by (rule keeps_bind [OF s Cons.IH])
  then show ?case unfolding keeps_def by (auto simp: Let_def split: prod.splits)
qed (auto intro: keeps_return)

lemma keeps_when: "keeps good P p (\<lambda>_ _. True) \<Longrightarrow> keeps good P (when_u c p) (\<lambda>_ _. True)"
  by (auto simp: when_u_def intro: keeps_return)

lemma await_writes_keeps:
  "await_writes node program missing todo stalls w = Some res \<Longrightarrow> (todo = [] \<longrightarrow> stalls < WRITE_STALL_LIMIT) \<longrightarrow>
     (\<forall>ok. guarded (\<lambda>a. missing (pa_data a) = []) ok (fst (snd res))
      \<and> (fst res = Done [] \<longrightarrow> flag_after (\<lambda>a. missing (pa_data a) = []) ok (fst (snd res))))"
proof (induction node program missing todo stalls w res
    rule: await_writes.raw_induct [rotated 1, consumes 1, case_names step])
  case (step await node program missing todo stalls w res)
  show ?case
  proof (cases "WRITE_STALL_LIMIT \<le> stalls")
    case False
    show ?thesis
    proof (cases "ln_read node w program")
      case (Pair r w1)
      show ?thesis
      proof (cases r)
        case (Done acc)
        show ?thesis
        proof (cases "missing (pa_data acc) = []")
          case False
          with step(2) Pair Done \<open>\<not> WRITE_STALL_LIMIT \<le> stalls\<close> obtain r2 ev2 w2 where
            a: "await node program missing (missing (pa_data acc))
                 (if length (missing (pa_data acc)) < length todo then 0 else Suc stalls) w1 = Some (r2, ev2, w2)"
              "res = (r2, ReadBack acc # ev2, w2)"
            by (auto simp: Let_def split: bind_splits)
          then show ?thesis using step(1) [OF a(1)] False by simp
        qed (use step(2) Pair Done \<open>\<not> WRITE_STALL_LIMIT \<le> stalls\<close> in \<open>auto simp: Let_def\<close>)
      qed (use step(2) Pair False in auto)
    qed
  qed (use step(2) in auto)
qed

lemma keeps_passes:
  "keeps (\<lambda>a. missing_chunks (program_data_offset node) (pa_data a) elf n = [])
     (\<lambda>ok. todo = [] \<longrightarrow> 0 < passes \<or> ok) (write_passes node program authority elf n passes todo)
     (\<lambda>todo ok. todo = [] \<longrightarrow> ok)"
  (is "keeps ?good _ _ ?Q")
proof (induction passes arbitrary: todo)
  case (Suc passes)
  let ?missing = "\<lambda>data. missing_chunks (program_data_offset node) data elf n"
  have a: "keeps ?good (\<lambda>_. True) (await_writes node program ?missing todo 0) ?Q"
    using await_writes_keeps [of node program ?missing todo 0]
    by (fastforce simp: keeps_def WRITE_STALL_LIMIT_def)
  have r: "keeps ?good (?Q todo') (if todo' = [] then return_u (Done [])
      else write_passes node program authority elf n passes todo') ?Q" for todo'
    by (cases "todo' = []") (auto intro: keeps_return keeps_weaken [OF Suc.IH [of todo']])
  show ?case
    unfolding write_passes.simps
    by (intro keeps_bind [OF keeps_blockhash] keeps_bind [OF keeps_batches] keeps_bind [OF a] r)
qed (auto intro: keeps_return)

lemma keeps_skip: "keeps good P (return_u r) (\<lambda>_ _. True)"
  by (rule keeps_return) simp

lemma upgrade_keeps:
  assumes "elf_write_chunk_max_len node = Done n"
  shows "keeps (\<lambda>a. missing_chunks (program_data_offset node) (pa_data a) elf n = []) (\<lambda>_. True)
    (upgrade_in_place node key_bytes program authority elf) (\<lambda>_ _. True)"
  (is "keeps ?good _ _ _")
proof -
  have w: "keeps ?good P (write_passes node program authority elf n MAX_WRITE_PASSES todo) (\<lambda>todo ok. todo = [] \<longrightarrow> ok)"
    for todo P
    by (rule keeps_weaken [OF keeps_passes]) (auto simp: MAX_WRITE_PASSES_def)
  have e: "keeps ?good (\<lambda>ok. todo = [] \<longrightarrow> ok) (return_u (ensure_o (todo = []) m)) (\<lambda>_ ok. ok)" for todo :: "nat list" and m
    by (rule keeps_return) simp
  have d: "keeps ?good (\<lambda>ok. ok) (confirm_u node (LoaderDeploy program authority)) (\<lambda>_ _. True)"
    by (rule keeps_confirm) simp
  have c: "keeps ?good P (when_u b (confirm_u node ix)) (\<lambda>_ _. True)" if "\<And>p a. ix \<noteq> LoaderDeploy p a" for b ix P
    using that by (cases ix) (auto intro!: keeps_when keeps_confirm)
  have t: "keeps ?good P (confirm_u node (LoaderTruncate p a m)) (\<lambda>_ _. True)" for P p a m
    by (rule keeps_confirm) simp
  show ?thesis
    unfolding upgrade_in_place_def Let_def assms bind_u_return
    by (intro keeps_bind [OF keeps_read] keeps_bind [OF keeps_skip] keeps_bind [OF c] keeps_bind [OF keeps_when]
        keeps_bind [OF w] keeps_bind [OF e] keeps_bind [OF d] t keeps_skip) simp_all
qed

lemma keeps_send_batches: "keeps good P (send_batches_u node bs) (\<lambda>_ _. True)"
proof (induction bs arbitrary: P)
  case (Cons b bs)
  have "keeps good P (\<lambda>w. let (r, w') = ln_send_batch node w b in Some (r, [SentBatch b], w')) (\<lambda>_ _. True)"
    by (auto simp: keeps_def Let_def split: prod.splits)
  then show ?case by (simp add: keeps_bind [OF _ Cons.IH])
qed (auto intro: keeps_return)

lemma keeps_wait_all: "keeps good P (wait_all_u node ixs) (\<lambda>_ _. True)"
proof (induction ixs arbitrary: P)
  case (Cons ix ixs)
  have "keeps good P (\<lambda>w. let (r, w') = ln_wait node w ix in Some (r, [], w')) (\<lambda>_ _. True)"
    by (auto simp: keeps_def Let_def split: prod.splits)
  then show ?case by (simp add: keeps_bind [OF _ keeps_bind [OF keeps_skip Cons.IH]])
qed (auto intro: keeps_return)

lemma keeps_ignore:
  assumes "\<And>p a. ix \<noteq> LoaderDeploy p a"
  shows "keeps good P (when_u b (confirm_u node ix)) (\<lambda>_ _. True)"
    and "keeps good P (when_u b (bind_u (send_u node ix) (\<lambda>_. return_u (Done ())))) (\<lambda>_ _. True)"
  using assms
  by (cases ix; auto intro!: keeps_when keeps_confirm keeps_bind [OF keeps_send] keeps_skip)+

lemma keeps_truncate: "keeps good P (confirm_u node (LoaderTruncate p a m)) (\<lambda>_ _. True)"
  by (rule keeps_confirm) simp

lemma write_program_elf_keeps: "keeps good P (write_program_elf node program authority elf) (\<lambda>_ _. True)"
  unfolding write_program_elf_def Let_def
  by (intro keeps_bind [OF keeps_read] keeps_bind [OF keeps_skip] keeps_bind [OF keeps_blockhash]
      keeps_bind [OF keeps_ignore(2)] keeps_bind [OF keeps_when] keeps_truncate
      keeps_bind [OF keeps_send_batches] keeps_wait_all) simp_all

lemma keeps_attempt_read: "keeps good P (attempt_u (read_u node key)) (\<lambda>r ok. \<forall>a. r = Done a \<longrightarrow> ok = good a)"
  by (auto simp: keeps_def attempt_u_def read_u_def Let_def split: prod.splits outcome.splits)

lemma keeps_make_executable:
  "(\<And>ok. P ok \<Longrightarrow> b \<Longrightarrow> ok) \<Longrightarrow>
     keeps good P (bind_u (when_u b (make_program_executable node program authority)) (\<lambda>_. return_u r)) (\<lambda>_ _. True)"
  unfolding make_program_executable_def when_u_def
  by (cases b) (auto simp: bind_u_return intro!: keeps_skip keeps_bind [OF keeps_confirm])

lemma deploy_keeps:
  "keeps (\<lambda>a. drop (program_data_offset node) (pa_data a) = elf) (\<lambda>_. True)
     (deploy_program_elf node program authority elf) (\<lambda>_ _. True)"
  (is "keeps ?good _ _ _")
proof -
  have u: "keeps ?good P (bind_u (write_program_elf node program authority elf) (\<lambda>_.
        bind_u (read_u node program) (\<lambda>after.
        bind_u (return_u (ensure_o (program_data_offset node \<le> length (pa_data after)
            \<and> drop (program_data_offset node) (pa_data after) = elf) m)) (\<lambda>_.
        bind_u (when_u (\<not> pa_executable after) (make_program_executable node program authority)) (\<lambda>_.
          return_u (Done program)))))) (\<lambda>_ _. True)" for P m
    by (intro keeps_bind [OF write_program_elf_keeps] keeps_bind [OF keeps_read]
        keeps_bind [OF keeps_return [where Q = "\<lambda>_ ok. ok"]] keeps_make_executable) auto
  have c: "keeps ?good P (confirm_u node (CreateProgram x y z)) (\<lambda>_ _. True)" for P x y z
    by (rule keeps_confirm) simp
  show ?thesis
    unfolding deploy_program_elf_def Let_def
  proof (intro keeps_bind [OF keeps_skip] keeps_bind [OF keeps_attempt_read], goal_cases)
    case (1 n r)
    show ?case
    proof (cases r)
      case (Done acc)
      show ?thesis
        by (cases "length (pa_data acc) < program_data_offset node";
            cases "drop (program_data_offset node) (pa_data acc) = elf")
          (simp_all only: Done outcome.case if_True if_False u, auto intro!: keeps_make_executable)
    qed (simp_all only: outcome.case, (intro keeps_bind [OF c] u)+)
  qed
qed

section \<open>Properties\<close>

lemma bind_u_Done:
  "bind_u p f w = Some (Done y, ev, w') \<Longrightarrow>
     \<exists>x ev1 w1 ev2. p w = Some (Done x, ev1, w1) \<and> f x w1 = Some (Done y, ev2, w') \<and> ev = ev1 @ ev2"
  by (auto simp: bind_u_def split: bind_splits outcome.splits)

lemma upgrade_verified:
  assumes "upgrade_in_place node key_bytes program authority elf w = Some (Done (), ev, w')"
  shows "\<exists>evs acc. ev = evs @ [ReadBack acc] \<and> pa_executable acc
    \<and> drop (program_data_offset node) (pa_data acc) = elf"
  using assms unfolding upgrade_in_place_def Let_def
  by (elim bind_u_Done [elim_format] exE conjE)
    (auto simp: read_u_def return_u_def Let_def split: prod.splits if_splits outcome.splits)

definition holds_elf :: "'w loader_node \<Rightarrow> u8 list \<Rightarrow> program_account \<Rightarrow> bool" where
  "holds_elf node elf a \<longleftrightarrow> take (length elf) (drop (program_data_offset node) (pa_data a)) = elf"

lemma guarded_mono:
  assumes "\<And>a. good a \<Longrightarrow> good' a"
  shows "guarded good ok ev \<Longrightarrow> ok \<le> ok' \<Longrightarrow> guarded good' ok' ev"
  using assms by (induction good ok ev arbitrary: ok' rule: guarded.induct) auto

text \<open>A loader that keeps the account itself, for concrete runs.\<close>

fun example_apply :: "loader_ix \<Rightarrow> program_account \<Rightarrow> program_account" where
  "example_apply (LoaderRetract _ _) a = a\<lparr>pa_executable := False\<rparr>"
| "example_apply (LoaderTruncate _ _ n) a =
     a\<lparr>pa_data := take (40 + unat n) (pa_data a @ replicate (40 + unat n) 0)\<rparr>"
| "example_apply (LoaderWrite _ _ at bytes) a =
     a\<lparr>pa_data := take (40 + unat at) (pa_data a) @ bytes @ drop (40 + unat at + length bytes) (pa_data a)\<rparr>"
| "example_apply (LoaderDeploy _ _) a = a\<lparr>pa_executable := True\<rparr>"
| "example_apply _ a = a"

definition example_loader :: "program_account loader_node" where
  "example_loader = \<lparr>ln_read = (\<lambda>w _. (Done w, w)), ln_blockhash = (\<lambda>w. (Done (), w)),
     ln_send = (\<lambda>w ix. (Done TxProcessed, example_apply ix w)),
     ln_send_batch = (\<lambda>w ixs. (Done (), fold example_apply ixs w)), ln_wait = (\<lambda>w _. (Done TxProcessed, w)),
     program_data_offset = 40, write_overhead = 1230, max_tx_batch_size = 10, tx_len = (\<lambda>_. 1232),
     loader_rent = (\<lambda>_. 0), bpf_loader_id = 7\<rparr>"

definition example_program :: "u8 list \<Rightarrow> bool \<Rightarrow> program_account" where
  "example_program elf executable = \<lparr>pa_owner = 7, pa_data = replicate 40 1 @ elf,
     pa_executable = executable, pa_lamports = 0\<rparr>"

lemma example_upgrade_runs:
  "upgrade_in_place example_loader (\<lambda>_. replicate 32 1) 5 6 [1, 2, 3] (example_program [9] True) =
     Some (Done (), [ReadBack (example_program [9] True), Sent (LoaderRetract 5 6), Sent (LoaderTruncate 5 6 3),
       ReadBack (example_program [9, 0, 0] False),
       SentBatch [LoaderWrite 5 6 0 [1, 2], LoaderWrite 5 6 2 [3]],
       ReadBack (example_program [1, 2, 3] False), Sent (LoaderDeploy 5 6),
       ReadBack (example_program [1, 2, 3] True)], example_program [1, 2, 3] True)"
  by code_simp

text \<open>
  C27: Nothing unverified becomes executable. In every run of either upload, and whatever the node answers,
  a deployment is sent only right after a readback in which the program account holds the whole binary,
  with no other transaction in between; an upgrade that reports success has last read an executable account
  whose content is exactly the binary.
\<close>

theorem only_verified_binaries_deployed:
  assumes "write_overhead node < NETWORK_TX_SIZE_LIMIT"
  shows "(upgrade_in_place node key_bytes program authority elf w = Some (r, ev, w') \<longrightarrow>
       guarded (holds_elf node elf) False ev
       \<and> (r = Done () \<longrightarrow> (\<exists>evs acc. ev = evs @ [ReadBack acc] \<and> pa_executable acc
            \<and> drop (program_data_offset node) (pa_data acc) = elf)))
    \<and> (deploy_program_elf node program authority elf w = Some (r', ev', w'') \<longrightarrow>
       guarded (holds_elf node elf) False ev')"
proof -
  obtain n where n: "elf_write_chunk_max_len node = Done n" "0 < n"
    using assms by (auto simp: elf_write_chunk_max_len_def)
  have g: "(\<lambda>a. missing_chunks (program_data_offset node) (pa_data a) elf n = []) = holds_elf node elf"
    by (simp add: fun_eq_iff holds_elf_def missing_chunks_empty [OF n(2)])
  have d: "guarded (\<lambda>a. drop (program_data_offset node) (pa_data a) = elf) False ev' \<Longrightarrow>
      guarded (holds_elf node elf) False ev'"
    by (rule guarded_mono) (auto simp: holds_elf_def)
  show ?thesis
    using upgrade_keeps [OF n(1), of elf key_bytes program authority] deploy_keeps [of node elf program authority]
      upgrade_verified [of node key_bytes program authority elf w ev w'] d
    unfolding keeps_def g by (cases r) (auto, blast+)
qed

theorem only_verified_binaries_deployed_witness:
  "\<exists>ev. upgrade_in_place example_loader (\<lambda>_. replicate 32 1) 5 6 [1, 2, 3] (example_program [9] True)
       = Some (Done (), ev, example_program [1, 2, 3] True)
     \<and> guarded (holds_elf example_loader [1, 2, 3]) False ev \<and> Sent (LoaderDeploy 5 6) \<in> set ev"
proof -
  have o: "write_overhead example_loader < NETWORK_TX_SIZE_LIMIT"
    by (simp add: example_loader_def NETWORK_TX_SIZE_LIMIT_def)
  show ?thesis
    using only_verified_binaries_deployed [OF o, of "\<lambda>_. replicate 32 1" 5 6 "[1, 2, 3]" "example_program [9] True"]
      example_upgrade_runs by fastforce
qed

section \<open>Runs that return\<close>

definition returns :: "('w, 'a) upload \<Rightarrow> bool" where
  "returns p \<longleftrightarrow> (\<forall>w. \<exists>res. p w = Some res)"

lemma returns_basic:
  "returns (return_u r)" "returns (read_u node key)" "returns (blockhash_u node)" "returns (send_u node ix)"
  by (auto simp: returns_def return_u_def read_u_def blockhash_u_def send_u_def Let_def split: prod.splits)

lemma returns_bind:
  assumes "returns p" "\<And>x. returns (f x)"
  shows "returns (bind_u p f)"
  unfolding returns_def
proof
  fix w
  obtain r ev w1 where p: "p w = Some (r, ev, w1)" using assms(1) unfolding returns_def by (metis prod_cases3)
  show "\<exists>res. bind_u p f w = Some res"
  proof (cases r)
    case (Done x)
    obtain r' ev' w2 where "f x w1 = Some (r', ev', w2)" using assms(2) unfolding returns_def by (metis prod_cases3)
    with p Done show ?thesis by (simp add: bind_u_def)
  qed (use p in \<open>simp_all add: bind_u_def\<close>)
qed

lemma returns_confirm: "returns (confirm_u node ix)"
  unfolding confirm_u_def by (intro returns_bind returns_basic)

lemma returns_batches: "returns (batches_u node bs)"
proof (induction bs)
  case (Cons b bs)
  have "returns (bind_u (\<lambda>w. Some (Done (), [SentBatch b], w)) (\<lambda>_. batches_u node bs))"
    by (rule returns_bind [OF _ Cons.IH]) (simp add: returns_def)
  then show ?case by (auto simp: returns_def Let_def split: prod.splits)
qed (simp add: returns_basic)

lemma returns_when: "returns p \<Longrightarrow> returns (when_u c p)"
  by (simp add: when_u_def returns_basic)

text \<open>A node whose consecutive readbacks lose no chunk.\<close>

definition steady :: "'w loader_node \<Rightarrow> pubkey \<Rightarrow> (u8 list \<Rightarrow> nat list) \<Rightarrow> bool" where
  "steady node program missing \<longleftrightarrow> (\<forall>w a w1 b w2. ln_read node w program = (Done a, w1) \<longrightarrow>
     ln_read node w1 program = (Done b, w2) \<longrightarrow> length (missing (pa_data b)) \<le> length (missing (pa_data a)))"

lemma await_writes_step:
  assumes "\<And>acc w1. ln_read node w program = (Done acc, w1) \<Longrightarrow> missing (pa_data acc) \<noteq> [] \<Longrightarrow>
    stalls < WRITE_STALL_LIMIT \<Longrightarrow>
    \<exists>res. await_writes node program missing (missing (pa_data acc))
      (if length (missing (pa_data acc)) < length todo then 0 else Suc stalls) w1 = Some res"
  shows "\<exists>res. await_writes node program missing todo stalls w = Some res"
proof (cases "ln_read node w program")
  case (Pair r w1)
  show ?thesis
  proof (cases r)
    case (Done acc)
    show ?thesis
      using assms [OF Pair [unfolded Done]] Pair Done
      by (subst await_writes.simps) (auto simp: Let_def split: prod.splits)
  qed (use Pair in \<open>(subst await_writes.simps, simp)+\<close>)
qed

lemma await_writes_returns:
  assumes "steady node program missing"
  shows "\<exists>res. await_writes node program missing todo stalls w = Some res"
proof -
  have settled: "\<exists>res. await_writes node program missing todo stalls w = Some res"
    if "\<And>b w2. ln_read node w program = (Done b, w2) \<Longrightarrow> length (missing (pa_data b)) \<le> length todo"
    for todo stalls w
    using that
  proof (induction "length todo * Suc WRITE_STALL_LIMIT + (WRITE_STALL_LIMIT - stalls)" arbitrary: todo stalls w
      rule: less_induct)
    case less
    show ?case
    proof (rule await_writes_step)
      fix acc w1
      assume a: "ln_read node w program = (Done acc, w1)" "stalls < WRITE_STALL_LIMIT"
      let ?rem = "missing (pa_data acc)"
      let ?stalls = "if length ?rem < length todo then 0 else Suc stalls"
      have le: "length ?rem \<le> length todo" by (rule less.prems [OF a(1)])
      have "length ?rem * Suc WRITE_STALL_LIMIT + (WRITE_STALL_LIMIT - ?stalls)
          < length todo * Suc WRITE_STALL_LIMIT + (WRITE_STALL_LIMIT - stalls)"
      proof (cases "length ?rem < length todo")
        case True
        then have "Suc (length ?rem) * Suc WRITE_STALL_LIMIT \<le> length todo * Suc WRITE_STALL_LIMIT"
          by (intro mult_le_mono1) simp
        then show ?thesis using True a(2) by simp
      qed (use le a(2) in simp)
      then show "\<exists>res. await_writes node program missing ?rem ?stalls w1 = Some res"
        by (rule less.hyps) (use assms a(1) in \<open>auto simp: steady_def\<close>)
    qed
  qed
  show ?thesis
    by (rule await_writes_step, rule settled) (use assms in \<open>auto simp: steady_def\<close>)
qed

text \<open>
  C30: An upgrade comes to an end, successful or not, on every node whose readbacks lose no chunk: each
  pass waits at most until the readbacks have stalled four times, and there are at most four passes.
\<close>

theorem upgrade_terminates:
  assumes "steady node program (\<lambda>data. missing_chunks (program_data_offset node) data elf
      (NETWORK_TX_SIZE_LIMIT - write_overhead node))"
  shows "\<exists>r ev w'. upgrade_in_place node key_bytes program authority elf w = Some (r, ev, w')"
proof -
  let ?n = "NETWORK_TX_SIZE_LIMIT - write_overhead node"
  have a: "returns (await_writes node program
      (\<lambda>data. missing_chunks (program_data_offset node) data elf ?n) todo 0)" for todo
    using await_writes_returns [OF assms] by (auto simp: returns_def)
  have p: "returns (write_passes node program authority elf ?n passes todo)" for passes todo
    by (induction passes arbitrary: todo) (auto intro!: returns_bind returns_basic returns_batches a)
  have w: "returns (bind_u (return_u (elf_write_chunk_max_len node)) f)" if "returns (f ?n)" for f :: "nat \<Rightarrow> ('a, unit) upload"
    using that by (auto simp: elf_write_chunk_max_len_def bind_u_return)
      (auto simp: returns_def bind_u_def return_u_def)
  have "returns (upgrade_in_place node key_bytes program authority elf)"
    unfolding upgrade_in_place_def Let_def
    by (intro returns_bind [OF returns_basic(2)] returns_bind [OF returns_basic(1)] returns_bind [OF returns_when]
        returns_confirm w returns_bind [OF p] returns_bind [OF returns_confirm] returns_basic)
  then show ?thesis by (auto simp: returns_def)
qed

theorem upgrade_terminates_witness:
  "\<exists>r ev w'. upgrade_in_place example_loader (\<lambda>_. replicate 32 1) 5 6 [1, 2, 3] (example_program [9] True)
     = Some (r, ev, w')"
  by (rule upgrade_terminates) (simp add: steady_def example_loader_def)

end
