(* ===== verification/Price_Pusher.thy ===== *)
theory Price_Pusher
  imports Client_Base Oracle_Program Exp_Laws Program_Examples
begin

text \<open>
  The price pusher, \<open>src/autara-pyth/src\<close>: it fetches prices, turns them into instructions of the oracle
  program, sends them and keeps metrics and balance alerts. What the web services, the node and the
  clock answer are parameters of each step, as is the conversion of a DIA quote, a \<open>f64\<close>, to a scaled
  price (\<open>scaled_dia_price\<close>) and the hexadecimal decoder of the \<open>hex\<close> crate.
\<close>

section \<open>Prices (lib.rs)\<close>

datatype network = Bitcoin | Testnet | Testnet4 | Signet | Regtest

record price_data =
  pd_price :: u64
  pd_conf :: u64
  pd_expo :: i32
  pd_publish_time :: i64

record price_metadata =
  pm_slot :: u64
  pm_proof_available_time :: i64
  pm_prev_publish_time :: i64

record parsed_price =
  pp_id :: string
  pp_price :: price_data
  pp_ema_price :: price_data
  pp_metadata :: price_metadata

record price_root =
  pr_encoding :: string
  pr_data :: "string list"
  pr_parsed :: "parsed_price list"

definition BTC_FEED :: string where
  "BTC_FEED = ''0xe62df6c8b4a85fe1a67db44dc12de5db330f7ac66b72dc658afedf0f4a415b43''"

definition USDC_FEED :: string where
  "USDC_FEED = ''0xeaa020c61cc479712813461ce153894a96a6c00b21ed0cfc2798d1f9a9e9c94a''"

definition ETH_FEED :: string where
  "ETH_FEED = ''0xff61491a931112ddf1bd8147cd1b641375f79f5825126d665480874634fd0ace''"

definition DIA_FALLBACK_EXPO :: i32 where
  "DIA_FALLBACK_EXPO = - 8"

definition DEFAULT_PUSH_INTERVAL_SECS :: u64 where
  "DEFAULT_PUSH_INTERVAL_SECS = 5"

definition TESTNET_REFILL_THRESHOLD_LAMPORTS :: u64 where
  "TESTNET_REFILL_THRESHOLD_LAMPORTS = 100000"

definition dia_fallback_allowed :: "network \<Rightarrow> bool" where
  "dia_fallback_allowed network \<longleftrightarrow> network \<noteq> Bitcoin"

text \<open>The environment variable, if set, and its parse as \<open>u64\<close>.\<close>

definition push_interval_from_env :: "string option \<Rightarrow> (string \<Rightarrow> u64 option) \<Rightarrow> u64" where
  "push_interval_from_env var parse =
     (case Option.bind var parse of None \<Rightarrow> DEFAULT_PUSH_INTERVAL_SECS | Some secs \<Rightarrow> secs)"

text \<open>\<open>as i64\<close> extends the sign.\<close>

definition into_pyth_price_data :: "price_data \<Rightarrow> pyth_price_data" where
  "into_pyth_price_data self = \<lparr>pyth_price_value = pd_price self, pyth_conf = pd_conf self,
     pyth_expo = scast (pd_expo self), pyth_publish_time = pd_publish_time self\<rparr>"

definition into_pyth_metadata :: "price_metadata \<Rightarrow> pyth_metadata" where
  "into_pyth_metadata self = \<lparr>slot = pm_slot self, proof_available_time = pm_proof_available_time self,
     prev_publish_time = pm_prev_publish_time self\<rparr>"

definition try_into_pyth_price :: "(string \<Rightarrow> u8 list option) \<Rightarrow> parsed_price \<Rightarrow> pyth_price outcome" where
  "try_into_pyth_price hex_decode self =
     bind_o (context_o ''hex'' (hex_decode (pp_id self))) (\<lambda>feed.
       Done \<lparr>pyth_id = feed, pyth_data = into_pyth_price_data (pp_price self),
             pyth_ema = into_pyth_price_data (pp_ema_price self),
             pyth_meta = into_pyth_metadata (pp_metadata self)\<rparr>)"

definition get_pyth_account :: "runtime \<Rightarrow> pubkey \<Rightarrow> u8 list \<Rightarrow> pubkey" where
  "get_pyth_account R autara_oracle_program_id feed =
     fst (find_program_address R [feed] autara_oracle_program_id)"

subsection \<open>The fallback\<close>

fun trim_start_0x :: "string \<Rightarrow> string" where
  "trim_start_0x (a # b # s) = (if a = CHR ''0'' \<and> b = CHR ''x'' then trim_start_0x s else a # b # s)"
| "trim_start_0x s = s"

definition ascii_lower :: "char \<Rightarrow> char" where
  "ascii_lower c = (let n = (of_char c :: nat) in if 65 \<le> n \<and> n \<le> 90 then char_of (n + 32) else c)"

definition eq_ignore_ascii_case :: "string \<Rightarrow> string \<Rightarrow> bool" where
  "eq_ignore_ascii_case a b \<longleftrightarrow> map ascii_lower a = map ascii_lower b"

definition dia_asset_for_feed :: "string \<Rightarrow> (string \<times> string) option" where
  "dia_asset_for_feed feed_id =
     (let feed = trim_start_0x feed_id in
      if eq_ignore_ascii_case feed (trim_start_0x BTC_FEED)
      then Some (''Bitcoin'', ''0x0000000000000000000000000000000000000000'')
      else if eq_ignore_ascii_case feed (trim_start_0x USDC_FEED)
      then Some (''Ethereum'', ''0xA0b86991c6218b36c1d19D4a2e9Eb0cE3606eB48'')
      else if eq_ignore_ascii_case feed (trim_start_0x ETH_FEED)
      then Some (''Ethereum'', ''0x0000000000000000000000000000000000000000'')
      else None)"

text \<open>\<open>dia_price\<close> is the quotation of an asset, already scaled; \<open>now\<close> the clock at the answer.\<close>

definition dia_parsed_price :: "(string \<Rightarrow> string \<Rightarrow> u64 outcome) \<Rightarrow> i64 \<Rightarrow> string \<Rightarrow> parsed_price outcome" where
  "dia_parsed_price dia_price now feed_id =
     bind_o (context_o ''no DIA fallback mapping'' (dia_asset_for_feed feed_id)) (\<lambda>(blockchain, asset).
     bind_o (dia_price blockchain asset) (\<lambda>price.
       let data = \<lparr>pd_price = price, pd_conf = price div 100, pd_expo = DIA_FALLBACK_EXPO,
                   pd_publish_time = now\<rparr> in
       Done \<lparr>pp_id = trim_start_0x feed_id, pp_price = data, pp_ema_price = data,
             pp_metadata = \<lparr>pm_slot = 0, pm_proof_available_time = now, pm_prev_publish_time = now\<rparr>\<rparr>))"

definition fetch_dia_prices :: "(string \<Rightarrow> string \<Rightarrow> u64 outcome) \<Rightarrow> i64 \<Rightarrow> string list \<Rightarrow> price_root outcome" where
  "fetch_dia_prices dia_price now feeds =
     bind_o (map_o (dia_parsed_price dia_price now) feeds) (\<lambda>parsed.
       Done \<lparr>pr_encoding = ''dia-fallback'', pr_data = [], pr_parsed = parsed\<rparr>)"

subsection \<open>A push\<close>

datatype push_outcome = PushSuccess | FetchFailure | PushFailure

text \<open>The end of \<open>build_and_send_tx\<close> under its timeout.\<close>

datatype send_answer = SendOk | SendError | SendTimeout

definition price_push_ix :: "environment \<Rightarrow> pubkey \<Rightarrow> pubkey \<Rightarrow> (pyth_price \<Rightarrow> u8 list) \<Rightarrow> pyth_price \<Rightarrow> arch_instruction" where
  "price_push_ix E autara_oracle_program_id signer_pubkey bytes_of oracle_account =
     \<lparr>ai_program_id = autara_oracle_program_id,
      ai_accounts =
        [meta_new signer_pubkey True,
         meta_new (get_pyth_account (env_runtime E) autara_oracle_program_id (pyth_id oracle_account)) False,
         meta_new_readonly (system_program_id E) False],
      ai_instruction_data = bytes_of oracle_account\<rparr>"

definition price_instructions ::
    "environment \<Rightarrow> pubkey \<Rightarrow> pubkey \<Rightarrow> (pyth_price \<Rightarrow> u8 list) \<Rightarrow> (string \<Rightarrow> u8 list option) \<Rightarrow> price_root
     \<Rightarrow> arch_instruction list outcome" where
  "price_instructions E autara_oracle_program_id signer_pubkey bytes_of hex_decode root =
     map_o (\<lambda>data. bind_o (try_into_pyth_price hex_decode data) (\<lambda>oracle_account.
       Done (price_push_ix E autara_oracle_program_id signer_pubkey bytes_of oracle_account))) (pr_parsed root)"

text \<open>The answers of one cycle, the clock at the fallback and at the record of a success.\<close>

record cycle =
  cy_pyth :: "price_root outcome"
  cy_dia_price :: "string \<Rightarrow> string \<Rightarrow> u64 outcome"
  cy_now :: i64
  cy_recorded :: i64
  cy_send :: "arch_instruction list \<Rightarrow> send_answer"
  cy_explorer :: "int option outcome"
  cy_rpc_lamports :: "u64 outcome"
  cy_instant :: nat
  cy_slack :: bool

text \<open>The outcome of a push and the instructions that were sent.\<close>

definition push_once ::
    "environment \<Rightarrow> pubkey \<Rightarrow> pubkey \<Rightarrow> (pyth_price \<Rightarrow> u8 list) \<Rightarrow> (string \<Rightarrow> u8 list option) \<Rightarrow> string list
     \<Rightarrow> network \<Rightarrow> cycle \<Rightarrow> push_outcome \<times> arch_instruction list option" where
  "push_once E autara_oracle_program_id signer_pubkey bytes_of hex_decode feeds network c =
     (case (case cy_pyth c of
              Done root \<Rightarrow> Some root
            | _ \<Rightarrow>
                if \<not> dia_fallback_allowed network then None
                else case fetch_dia_prices (cy_dia_price c) (cy_now c) feeds of
                  Done root \<Rightarrow> Some root
                | _ \<Rightarrow> None) of
        None \<Rightarrow> (FetchFailure, None)
      | Some root \<Rightarrow>
          (case price_instructions E autara_oracle_program_id signer_pubkey bytes_of hex_decode root of
             Done ixs \<Rightarrow> ((case cy_send c ixs of SendOk \<Rightarrow> PushSuccess | _ \<Rightarrow> PushFailure), Some ixs)
           | _ \<Rightarrow> (FetchFailure, None)))"

section \<open>Metrics (metrics.rs)\<close>

definition HEALTH_MAX_STALE_SECS :: u64 where
  "HEALTH_MAX_STALE_SECS = 90"

record pusher_metrics =
  pushes_succeeded :: u64
  pushes_failed :: u64
  fetch_failures :: u64
  consecutive_failures :: i64
  last_success_unix :: i64
  signer_balance_lamports :: i64
  last_success_unix_raw :: i64
  consecutive_failures_raw :: u64

definition pusher_metrics_new :: pusher_metrics where
  "pusher_metrics_new = \<lparr>pushes_succeeded = 0, pushes_failed = 0, fetch_failures = 0,
     consecutive_failures = 0, last_success_unix = 0, signer_balance_lamports = 0,
     last_success_unix_raw = 0, consecutive_failures_raw = 0\<rparr>"

definition record_success :: "i64 \<Rightarrow> pusher_metrics \<Rightarrow> pusher_metrics" where
  "record_success now self = self\<lparr>pushes_succeeded := pushes_succeeded self + 1,
     consecutive_failures_raw := 0, consecutive_failures := 0,
     last_success_unix_raw := now, last_success_unix := now\<rparr>"

definition bump_consecutive_failures :: "pusher_metrics \<Rightarrow> pusher_metrics" where
  "bump_consecutive_failures self =
     (let next = consecutive_failures_raw self + 1 in
      self\<lparr>consecutive_failures_raw := next, consecutive_failures := next\<rparr>)"

definition record_push_failure :: "pusher_metrics \<Rightarrow> pusher_metrics" where
  "record_push_failure self = bump_consecutive_failures (self\<lparr>pushes_failed := pushes_failed self + 1\<rparr>)"

definition record_fetch_failure :: "pusher_metrics \<Rightarrow> pusher_metrics" where
  "record_fetch_failure self = bump_consecutive_failures (self\<lparr>fetch_failures := fetch_failures self + 1\<rparr>)"

definition set_signer_balance :: "u64 \<Rightarrow> pusher_metrics \<Rightarrow> pusher_metrics" where
  "set_signer_balance lamports self = self\<lparr>signer_balance_lamports := lamports\<rparr>"

text \<open>\<open>saturating_sub\<close> on \<open>i64\<close>, then \<open>as u64\<close>: a clock that runs backwards gives a huge age.\<close>

definition i64_saturating_sub :: "i64 \<Rightarrow> i64 \<Rightarrow> i64" where
  "i64_saturating_sub a b = word_of_int (max (- (2 ^ 63)) (min (2 ^ 63 - 1) (sint a - sint b)))"

definition health_status :: "i64 \<Rightarrow> pusher_metrics \<Rightarrow> bool" where
  "health_status now self \<longleftrightarrow>
     (let last = last_success_unix_raw self in
      if sint last \<le> 0 then False
      else i64_saturating_sub now last \<le> HEALTH_MAX_STALE_SECS)"

section \<open>Balance of the signer (explorer.rs, lib.rs, slack\_alerts.rs)\<close>

definition explorer_network_segment :: "network \<Rightarrow> string option" where
  "explorer_network_segment network =
     (case network of
        Bitcoin \<Rightarrow> Some ''mainnet'' | Testnet \<Rightarrow> Some ''testnet'' | Testnet4 \<Rightarrow> Some ''testnet'' | _ \<Rightarrow> None)"

definition explorer_signer_balance :: "int option outcome \<Rightarrow> u64 outcome" where
  "explorer_signer_balance answer =
     bind_o answer (\<lambda>lamports_balance.
       case lamports_balance of
         Some lamports \<Rightarrow>
           if 0 < lamports
           then (if lamports < 2 ^ 64 then Done (word_of_int lamports) else Failed ''invalid balance'')
           else Failed ''explorer reported no indexed balance''
       | None \<Rightarrow> Failed ''explorer reported no indexed balance'')"

text \<open>The balance, and whether an airdrop is requested.\<close>

definition refresh_signer_balance :: "network \<Rightarrow> cycle \<Rightarrow> u64 \<times> bool" where
  "refresh_signer_balance network c =
     (let rpc = (case cy_rpc_lamports c of Done l \<Rightarrow> l | _ \<Rightarrow> 0);
          lamports = (case explorer_network_segment network of
              Some _ \<Rightarrow> (case explorer_signer_balance (cy_explorer c) of Done l \<Rightarrow> l | _ \<Rightarrow> rpc)
            | None \<Rightarrow> rpc) in
      (lamports, network \<noteq> Bitcoin \<and> lamports < TESTNET_REFILL_THRESHOLD_LAMPORTS))"

datatype balance_level = Healthy | Warning | Critical

definition WARNING_BALANCE_LAMPORTS :: u64 where
  "WARNING_BALANCE_LAMPORTS = 172800000"

definition CRITICAL_BALANCE_LAMPORTS :: u64 where
  "CRITICAL_BALANCE_LAMPORTS = 21600000"

text \<open>Instants are counted in nanoseconds.\<close>

definition RETRY_INTERVAL :: nat where
  "RETRY_INTERVAL = 300 * 10 ^ 9"

definition balance_level_of :: "u64 \<Rightarrow> balance_level" where
  "balance_level_of lamports =
     (if lamports \<le> CRITICAL_BALANCE_LAMPORTS then Critical
      else if lamports < WARNING_BALANCE_LAMPORTS then Warning else Healthy)"

record slack_alerter =
  webhook_url :: "string option"
  last_notified :: balance_level
  last_attempt :: "nat option"

definition can_attempt :: "nat \<Rightarrow> slack_alerter \<Rightarrow> bool" where
  "can_attempt now self \<longleftrightarrow> (case last_attempt self of None \<Rightarrow> True | Some t \<Rightarrow> RETRY_INTERVAL \<le> now - t)"

text \<open>The alert that is attempted, if any; \<open>sent\<close> says whether the webhook accepts it.\<close>

definition observe :: "nat \<Rightarrow> bool \<Rightarrow> u64 \<Rightarrow> slack_alerter \<Rightarrow> slack_alerter \<times> balance_level option" where
  "observe now sent lamports self =
     (let level = balance_level_of lamports in
      if webhook_url self = None \<or> level = last_notified self \<or> \<not> can_attempt now self then (self, None)
      else if sent then (self\<lparr>last_notified := level, last_attempt := None\<rparr>, Some level)
      else (self\<lparr>last_attempt := Some now\<rparr>, Some level))"

section \<open>The loop\<close>

record pusher =
  ps_metrics :: pusher_metrics
  ps_alerter :: slack_alerter

definition pusher_cycle ::
    "environment \<Rightarrow> pubkey \<Rightarrow> pubkey \<Rightarrow> (pyth_price \<Rightarrow> u8 list) \<Rightarrow> (string \<Rightarrow> u8 list option) \<Rightarrow> string list
     \<Rightarrow> network \<Rightarrow> cycle \<Rightarrow> pusher \<Rightarrow> pusher \<times> arch_instruction list option" where
  "pusher_cycle E autara_oracle_program_id signer_pubkey bytes_of hex_decode feeds network c s =
     (let (lamports, _) = refresh_signer_balance network c;
          m = set_signer_balance lamports (ps_metrics s);
          (outcome, sent) = push_once E autara_oracle_program_id signer_pubkey bytes_of hex_decode feeds network c;
          m' = (case outcome of
              PushSuccess \<Rightarrow> record_success (cy_recorded c) m
            | FetchFailure \<Rightarrow> record_fetch_failure m
            | PushFailure \<Rightarrow> record_push_failure m) in
      (\<lparr>ps_metrics = m', ps_alerter = fst (observe (cy_instant c) (cy_slack c) lamports (ps_alerter s))\<rparr>, sent))"

fun pusher_run ::
    "environment \<Rightarrow> pubkey \<Rightarrow> pubkey \<Rightarrow> (pyth_price \<Rightarrow> u8 list) \<Rightarrow> (string \<Rightarrow> u8 list option) \<Rightarrow> string list
     \<Rightarrow> network \<Rightarrow> cycle list \<Rightarrow> pusher \<Rightarrow> pusher \<times> arch_instruction list option list" where
  "pusher_run E program signer bytes_of hex_decode feeds network [] s = (s, [])"
| "pusher_run E program signer bytes_of hex_decode feeds network (c # cs) s =
     (let (s1, sent) = pusher_cycle E program signer bytes_of hex_decode feeds network c s;
          (s2, sents) = pusher_run E program signer bytes_of hex_decode feeds network cs s1 in
      (s2, sent # sents))"

section \<open>Metrics\<close>

text \<open>The outcomes of a run, and the time of its last success.\<close>

abbreviation cycle_outcome where
  "cycle_outcome E program signer bytes_of hex_decode feeds network c \<equiv>
     fst (push_once E program signer bytes_of hex_decode feeds network c)"

text \<open>Newest first.\<close>

definition run_results ::
    "environment \<Rightarrow> pubkey \<Rightarrow> pubkey \<Rightarrow> (pyth_price \<Rightarrow> u8 list) \<Rightarrow> (string \<Rightarrow> u8 list option) \<Rightarrow> string list
     \<Rightarrow> network \<Rightarrow> cycle list \<Rightarrow> (push_outcome \<times> i64) list" where
  "run_results E program signer bytes_of hex_decode feeds network cs =
     rev (map (\<lambda>c. (cycle_outcome E program signer bytes_of hex_decode feeds network c, cy_recorded c)) cs)"

fun last_success :: "(push_outcome \<times> i64) list \<Rightarrow> i64" where
  "last_success [] = 0"
| "last_success ((r, t) # rs) = (if r = PushSuccess then t else last_success rs)"

definition metrics_of :: "(push_outcome \<times> i64) list \<Rightarrow> pusher_metrics \<Rightarrow> bool" where
  "metrics_of rs m \<longleftrightarrow>
     pushes_succeeded m = of_nat (length (filter (\<lambda>r. fst r = PushSuccess) rs))
     \<and> pushes_failed m = of_nat (length (filter (\<lambda>r. fst r = PushFailure) rs))
     \<and> fetch_failures m = of_nat (length (filter (\<lambda>r. fst r = FetchFailure) rs))
     \<and> consecutive_failures_raw m = of_nat (length (takeWhile (\<lambda>r. fst r \<noteq> PushSuccess) rs))
     \<and> last_success_unix_raw m = last_success rs"

lemma metrics_of_cycle:
  assumes "metrics_of rs (ps_metrics s)"
  shows "metrics_of ((cycle_outcome E program signer bytes_of hex_decode feeds network c, cy_recorded c) # rs)
    (ps_metrics (fst (pusher_cycle E program signer bytes_of hex_decode feeds network c s)))"
  using assms
  by (cases "push_once E program signer bytes_of hex_decode feeds network c"; cases "refresh_signer_balance network c")
    (auto simp: pusher_cycle_def metrics_of_def record_success_def record_push_failure_def record_fetch_failure_def
      bump_consecutive_failures_def set_signer_balance_def Let_def split: push_outcome.split)

lemma metrics_of_run:
  assumes "metrics_of rs (ps_metrics s)"
  shows "metrics_of (rev (map (\<lambda>c. (cycle_outcome E program signer bytes_of hex_decode feeds network c, cy_recorded c)) cs) @ rs)
    (ps_metrics (fst (pusher_run E program signer bytes_of hex_decode feeds network cs s)))"
  using assms
proof (induction cs arbitrary: s rs)
  case (Cons c cs)
  from Cons.IH [OF metrics_of_cycle [OF Cons.prems, of E program signer bytes_of hex_decode feeds network c]]
  show ?case by (simp add: Let_def case_prod_beta)
qed simp

lemma age_within:
  fixes a b :: i64 and k :: u64
  assumes "0 < sint b" "uint k < 2 ^ 63"
  shows "i64_saturating_sub a b \<le> k \<longleftrightarrow> sint b \<le> sint a \<and> sint a - sint b \<le> uint k"
proof -
  have r: "- (2 ^ 63) \<le> sint a" "sint a < 2 ^ 63" "sint b < 2 ^ 63"
    using sint_ge [of a] sint_lt [of a] sint_lt [of b] by simp_all
  show ?thesis
  proof (cases "sint b \<le> sint a")
    case True
    then have e: "max (- (2 ^ 63)) (min (2 ^ 63 - 1) (sint a - sint b)) = sint a - sint b"
      using r assms(1) by auto
    have "uint (i64_saturating_sub a b) = (sint a - sint b) mod 2 ^ LENGTH(64)"
      unfolding i64_saturating_sub_def e by (rule uint_word_of_int)
    also have "\<dots> = sint a - sint b" using True r assms(1) by (intro mod_pos_pos_trivial) auto
    finally show ?thesis using True by (simp add: word_le_def)
  next
    case False
    let ?d = "max (- (2 ^ 63)) (sint a - sint b)"
    have d: "- (2 ^ 63) \<le> ?d" "?d < 0" using False by auto
    have "i64_saturating_sub a b = word_of_int ?d" using False by (simp add: i64_saturating_sub_def min_def)
    then have "uint (i64_saturating_sub a b) = ?d mod 2 ^ 64" by (simp only: uint_word_of_int) simp
    also have "\<dots> = (?d + 2 ^ 64) mod 2 ^ 64" by simp
    also have "\<dots> = ?d + 2 ^ 64" using d by (intro mod_pos_pos_trivial) auto
    finally show ?thesis using False d assms(2) by (simp add: word_le_def)
  qed
qed

text \<open>
  The metrics tell the truth. After any run of cycles the counters are the numbers of successful pushes,
  failed pushes and failed fetches, the consecutive failures are those since the last success, and the
  health check answers OK exactly when the last success was recorded, at a positive time, at most ninety
  seconds before now and not after it.
\<close>

theorem pusher_metrics_accurate:
  "\<exists>m rs. ps_metrics (fst (pusher_run E program signer bytes_of hex_decode feeds network cs
        \<lparr>ps_metrics = pusher_metrics_new, ps_alerter = al\<rparr>)) = m
    \<and> run_results E program signer bytes_of hex_decode feeds network cs = rs \<and> metrics_of rs m
    \<and> (health_status now m \<longleftrightarrow>
        0 < sint (last_success rs) \<and> sint (last_success rs) \<le> sint now \<and> sint now - sint (last_success rs) \<le> 90)"
proof -
  have z: "metrics_of [] (ps_metrics \<lparr>ps_metrics = pusher_metrics_new, ps_alerter = al\<rparr>)"
    by (simp add: metrics_of_def pusher_metrics_new_def)
  show ?thesis
    using metrics_of_run [OF z, of E program signer bytes_of hex_decode feeds network cs]
      age_within [of "last_success (run_results E program signer bytes_of hex_decode feeds network cs)" 90 now]
    by (auto simp: run_results_def health_status_def Let_def metrics_of_def HEALTH_MAX_STALE_SECS_def)
qed

section \<open>What is pushed\<close>

lemma push_once_sent:
  assumes "push_once E program signer bytes_of hex_decode feeds network c = (r, Some ixs)"
  shows "\<exists>root. (cy_pyth c = Done root \<or>
      network \<noteq> Bitcoin \<and> fetch_dia_prices (cy_dia_price c) (cy_now c) feeds = Done root)
    \<and> price_instructions E program signer bytes_of hex_decode root = Done ixs"
  using assms
  by (auto simp: push_once_def dia_fallback_allowed_def split: outcome.splits if_splits option.splits)

lemma pusher_run_sent:
  "list_all2 (\<lambda>c s. snd (push_once E program signer bytes_of hex_decode feeds network c) = s) cs
     (snd (pusher_run E program signer bytes_of hex_decode feeds network cs st))"
proof (induction cs arbitrary: st)
  case (Cons c cs)
  then show ?case by (simp add: Let_def case_prod_beta pusher_cycle_def)
qed simp

text \<open>
  Mainnet fails closed. In every run on mainnet whatever is sent are the instructions for the prices
  that Pyth answered in that cycle: a failed fetch sends nothing, and no quote of the fallback, with its
  invented confidence, is ever pushed.
\<close>

theorem mainnet_pushes_only_pyth:
  "list_all2 (\<lambda>c sent. case sent of
       None \<Rightarrow> True
     | Some ixs \<Rightarrow> \<exists>root. cy_pyth c = Done root
         \<and> price_instructions E program signer bytes_of hex_decode root = Done ixs)
     cs (snd (pusher_run E program signer bytes_of hex_decode feeds Bitcoin cs st))"
proof (rule list_all2_mono [OF pusher_run_sent])
  fix c sent
  assume "snd (push_once E program signer bytes_of hex_decode feeds Bitcoin c) = sent"
  then show "case sent of None \<Rightarrow> True
     | Some ixs \<Rightarrow> \<exists>root. cy_pyth c = Done root
         \<and> price_instructions E program signer bytes_of hex_decode root = Done ixs"
    using push_once_sent [of E program signer bytes_of hex_decode feeds Bitcoin c]
    by (cases "push_once E program signer bytes_of hex_decode feeds Bitcoin c") (auto split: option.split)
qed

section \<open>The transaction on the ledger\<close>

text \<open>
  What the runtime does with the instructions of a push. Each goes to the program it names, with the
  accounts of its list in their order; a flagged signer must be a key the transaction is signed with. The
  effects of the program apply one after the other, each within the privileges of the list: only the owner
  writes or grows an account, only a writable one is changed, and an account is created only at an address
  of the system program that the seeds derive. Balances are left out: the signer covers the rent.
\<close>

type_synonym feed_ledger = "pubkey \<Rightarrow> feed_account"

definition feed_effect_granted ::
    "environment \<Rightarrow> pubkey \<Rightarrow> account_meta list \<Rightarrow> feed_ledger \<Rightarrow> feed_effect \<Rightarrow> bool" where
  "feed_effect_granted E program ms L e \<longleftrightarrow>
     (case e of
        FeedCreate payer k own seeds \<Rightarrow>
          present ms (system_program_id E) \<and> signing ms payer \<and> writable ms payer \<and> writable ms k
          \<and> fa_owner (L k) = system_program_id E \<and> own = program
          \<and> list_ex (\<lambda>s. s \<noteq> [] \<and> find_program_address (env_runtime E) (butlast s) program
                          = (k, hd (last s))) seeds
      | FeedTransfer payer k n \<Rightarrow>
          present ms (system_program_id E) \<and> signing ms payer \<and> writable ms payer \<and> writable ms k
      | FeedRealloc k \<Rightarrow> writable ms k \<and> fa_owner (L k) = program
      | FeedWrite k a \<Rightarrow> writable ms k \<and> fa_owner (L k) = program)"

fun apply_feed_effect :: "oracle_environment \<Rightarrow> feed_effect \<Rightarrow> feed_ledger \<Rightarrow> feed_ledger" where
  "apply_feed_effect OE (FeedCreate payer k own seeds) L =
     L(k := (L k)\<lparr>fa_owner := own, fa_data := Feed (zeroed_feed OE)\<rparr>)"
| "apply_feed_effect OE (FeedTransfer payer k n) L = L"
| "apply_feed_effect OE (FeedRealloc k) L =
     L(k := (L k)\<lparr>fa_data := (case fa_data (L k) of
        LegacyFeed p \<Rightarrow> Feed \<lparr>account_price = p, account_authority = 0\<rparr> | d \<Rightarrow> d)\<rparr>)"
| "apply_feed_effect OE (FeedWrite k a) L = L(k := (L k)\<lparr>fa_data := Feed a\<rparr>)"

primrec run_feed_effects ::
    "oracle_environment \<Rightarrow> environment \<Rightarrow> pubkey \<Rightarrow> account_meta list \<Rightarrow> feed_effect list \<Rightarrow> feed_ledger
     \<Rightarrow> feed_ledger option" where
  "run_feed_effects OE E program ms [] L = Some L"
| "run_feed_effects OE E program ms (e # es) L =
     (if feed_effect_granted E program ms L e
      then run_feed_effects OE E program ms es (apply_feed_effect OE e L) else None)"

definition oracle_accounts :: "feed_ledger \<Rightarrow> account_meta list \<Rightarrow> (account_info \<times> feed_account) option" where
  "oracle_accounts L ms =
     (case ms of
        s # f # _ \<Rightarrow> Some (\<lparr>ai_key = am_pubkey s, ai_owner = fa_owner (L (am_pubkey s)), ai_is_signer = am_is_signer s,
            ai_is_writable = am_is_writable s, ai_data = RawAccount [], ai_lamports = fa_lamports (L (am_pubkey s))\<rparr>,
          (L (am_pubkey f))\<lparr>fa_key := am_pubkey f\<rparr>)
      | _ \<Rightarrow> None)"

definition run_push_instruction ::
    "oracle_environment \<Rightarrow> environment \<Rightarrow> pubkey \<Rightarrow> pubkey list \<Rightarrow> i64 \<Rightarrow> arch_instruction \<Rightarrow> feed_ledger
     \<Rightarrow> feed_ledger option" where
  "run_push_instruction OE E program signers now ix L =
     (if ai_program_id ix \<noteq> program
         \<or> list_ex (\<lambda>m. am_is_signer m \<and> am_pubkey m \<notin> set signers) (ai_accounts ix) then None
      else case oracle_process_instruction OE now program (oracle_accounts L (ai_accounts ix))
               (ai_instruction_data ix) of
          POk effects \<Rightarrow> run_feed_effects OE E program (ai_accounts ix) effects L
        | _ \<Rightarrow> None)"

primrec run_push_transaction ::
    "oracle_environment \<Rightarrow> environment \<Rightarrow> pubkey \<Rightarrow> pubkey list \<Rightarrow> i64 \<Rightarrow> arch_instruction list \<Rightarrow> feed_ledger
     \<Rightarrow> feed_ledger option" where
  "run_push_transaction OE E program signers now [] L = Some L"
| "run_push_transaction OE E program signers now (ix # ixs) L =
     Option.bind (run_push_instruction OE E program signers now ix L)
       (run_push_transaction OE E program signers now ixs)"

text \<open>
  A feed account that the signer may write: one not yet created, one of the old layout, or the signer's
  own for that feed.
\<close>

definition feed_open :: "environment \<Rightarrow> feed_account \<Rightarrow> pubkey \<Rightarrow> pubkey \<Rightarrow> u8 list \<Rightarrow> bool" where
  "feed_open E f program signer feed \<longleftrightarrow>
     (if fa_owner f \<noteq> program then fa_owner f = system_program_id E
      else case fa_data f of
          LegacyFeed _ \<Rightarrow> True
        | Feed a \<Rightarrow> account_authority a = signer \<and> pyth_id (account_price a) = feed
        | OtherData \<Rightarrow> False)"

definition stamped :: "i64 \<Rightarrow> pubkey \<Rightarrow> pyth_price \<Rightarrow> pyth_price_account" where
  "stamped now signer price =
     \<lparr>account_price = price\<lparr>pyth_data := (pyth_data price)\<lparr>pyth_publish_time := now\<rparr>,
        pyth_ema := (pyth_ema price)\<lparr>pyth_publish_time := now\<rparr>\<rparr>, account_authority = signer\<rparr>"

text \<open>The account a market reads, with the bytes of its data.\<close>

definition feed_view :: "(feed_data \<Rightarrow> u8 list) \<Rightarrow> feed_ledger \<Rightarrow> pubkey \<Rightarrow> account_view" where
  "feed_view encode L k = \<lparr>view_key = k, view_data = encode (fa_data (L k)), view_owner = fa_owner (L k)\<rparr>"

definition price_account :: "environment \<Rightarrow> pubkey \<Rightarrow> pyth_price \<Rightarrow> pubkey" where
  "price_account E program price = get_pyth_account (env_runtime E) program (pyth_id price)"

definition written :: "feed_account \<Rightarrow> pubkey \<Rightarrow> i64 \<Rightarrow> pubkey \<Rightarrow> pyth_price \<Rightarrow> feed_account" where
  "written f program now signer price =
     f\<lparr>fa_owner := program, fa_data := Feed (stamped now signer price)\<rparr>"

lemma price_push_runs:
  assumes "price_try_from_bytes OE (bytes_of p) = Some p" "now \<noteq> 0"
    "oracle_find_program_address OE = find_program_address (env_runtime E)"
    "feed_open E (L (price_account E program p)) program signer (pyth_id p)"
  shows "run_push_instruction OE E program [signer] now (price_push_ix E program signer bytes_of p) L
    = Some (L(price_account E program p := written (L (price_account E program p)) program now signer p))"
proof -
  let ?k = "price_account E program p"
  let ?ms = "[meta_new signer True, meta_new ?k False, meta_new_readonly (system_program_id E) False]"
  have priv: "present ?ms (system_program_id E)" "signing ?ms signer" "writable ?ms signer" "writable ?ms ?k"
    by (simp_all add: present_def signing_def writable_def meta_new_def meta_new_readonly_def)
  have pda: "find_program_address (env_runtime E) [pyth_id p] program
      = (?k, snd (find_program_address (env_runtime E) [pyth_id p] program))"
    by (simp add: price_account_def get_pyth_account_def)
  have acc: "oracle_accounts L ?ms = Some (\<lparr>ai_key = signer, ai_owner = fa_owner (L signer), ai_is_signer = True,
      ai_is_writable = True, ai_data = RawAccount [], ai_lamports = fa_lamports (L signer)\<rparr>, (L ?k)\<lparr>fa_key := ?k\<rparr>)"
    by (simp add: oracle_accounts_def meta_new_def)
  have "run_push_instruction OE E program [signer] now (price_push_ix E program signer bytes_of p) L
    = (case oracle_process_instruction OE now program (oracle_accounts L ?ms) (bytes_of p) of
         POk effects \<Rightarrow> run_feed_effects OE E program ?ms effects L | _ \<Rightarrow> None)"
    unfolding run_push_instruction_def price_push_ix_def price_account_def [symmetric] arch_instruction.simps
    by (simp add: meta_new_def meta_new_readonly_def cong: program_result.case_cong)
  also have "\<dots> = Some (L(?k := written (L ?k) program now signer p))"
    unfolding acc using assms priv pda
    by (cases "fa_owner (L ?k) = program"; cases "fa_data (L ?k)")
      (auto simp: oracle_process_instruction_def ensure_feed_account_def feed_open_def feed_effect_granted_def
        apply_price_update_def stamped_def written_def Let_def)
  finally show ?thesis .
qed

lemma price_pushes_run:
  assumes "\<forall>p\<in>set prices. price_try_from_bytes OE (bytes_of p) = Some p" "now \<noteq> 0"
    "oracle_find_program_address OE = find_program_address (env_runtime E)"
    "distinct (map (price_account E program) prices)"
    "\<forall>p\<in>set prices. feed_open E (L (price_account E program p)) program signer (pyth_id p)"
  shows "\<exists>L'. run_push_transaction OE E program [signer] now
        (map (price_push_ix E program signer bytes_of) prices) L = Some L'
    \<and> (\<forall>k. k \<notin> price_account E program ` set prices \<longrightarrow> L' k = L k)
    \<and> (\<forall>p\<in>set prices. L' (price_account E program p)
          = written (L (price_account E program p)) program now signer p)"
  using assms(1,4,5)
proof (induction prices arbitrary: L)
  case (Cons p ps)
  let ?k = "price_account E program p"
  let ?L = "L(?k := written (L ?k) program now signer p)"
  have new: "q \<in> set ps \<Longrightarrow> price_account E program q \<noteq> ?k" for q
    using Cons.prems(2) by (auto simp: image_iff dest: sym)
  have rest: "\<forall>q\<in>set ps. price_try_from_bytes OE (bytes_of q) = Some q"
      "distinct (map (price_account E program) ps)"
      "\<forall>q\<in>set ps. feed_open E (?L (price_account E program q)) program signer (pyth_id q)"
    using Cons.prems new by simp_all
  from Cons.IH [OF rest] obtain L' where L': "run_push_transaction OE E program [signer] now
        (map (price_push_ix E program signer bytes_of) ps) ?L = Some L'"
      "\<forall>k. k \<notin> price_account E program ` set ps \<longrightarrow> L' k = ?L k"
      "\<forall>q\<in>set ps. L' (price_account E program q)
          = written (?L (price_account E program q)) program now signer q"
    by blast
  have "run_push_instruction OE E program [signer] now (price_push_ix E program signer bytes_of p) L
      = Some ?L"
    using Cons.prems by (intro price_push_runs assms(2,3)) auto
  then have "run_push_transaction OE E program [signer] now
        (map (price_push_ix E program signer bytes_of) (p # ps)) L = Some L'"
    using L'(1) by simp
  moreover have "L' ?k = written (L ?k) program now signer p"
    using L'(2) Cons.prems(2) by simp
  moreover have "L' (price_account E program q) = written (L (price_account E program q)) program now signer q"
    if "q \<in> set ps" for q using L'(3) that new [OF that] by simp
  moreover have "L' k = L k" if "k \<notin> price_account E program ` set (p # ps)" for k
    using L'(2) that by simp
  ultimately show ?case by simp
qed simp

lemma price_instructions_of:
  assumes "map_o (try_into_pyth_price hex_decode) (pr_parsed root) = Done prices"
  shows "price_instructions E program signer bytes_of hex_decode root
    = Done (map (price_push_ix E program signer bytes_of) prices)"
  using assms unfolding price_instructions_def map_o_Done
  by (auto simp: list_all2_conv_all_nth)

lemma feed_view_loads:
  assumes "try_into_pyth_price hex_decode data = Done price"
    and "L (price_account E program price) = written f program now signer price"
    and "pyth_try_from_bytes (env_runtime E) (encode (Feed (stamped now signer price))) = Some (stamped now signer price)"
  shows "load_oracle_price F (env_runtime E) (Pyth \<lparr>pyth_feed_id = pyth_id price, pyth_program_id = program\<rparr>)
        (feed_view encode L (price_account E program price))
      = (if \<bar>sint (pd_expo (pp_price data))\<bar> \<le> sint MAX_EXPONENT_ABS
         then bind_r (try_from_price_expo_conf F (pd_price (pp_price data)) (pd_conf (pp_price data))
                (ucast (scast (pd_expo (pp_price data)) :: i64)))
                (\<lambda>r. Ok \<lparr>unsafe_rate = r, publish_time = now\<rparr>)
         else Err InvalidPythOracleAccount)"
proof -
  have d: "pyth_data price = into_pyth_price_data (pp_price data)"
    using assms(1) by (auto simp: try_into_pyth_price_def)
  have b: "(y < x \<or> x < - y) = (\<not> \<bar>x\<bar> \<le> y)" for x y :: int by auto
  have v: "feed_view encode L (price_account E program price) = \<lparr>view_key = price_account E program price,
      view_data = encode (Feed (stamped now signer price)), view_owner = program\<rparr>"
    by (simp add: feed_view_def assms(2) written_def)
  show ?thesis unfolding v
    by (simp add: load_oracle_price_def oracle_feed_pubkey_def pyth_load_oracle_price_def assms(3) account_view.simps
        price_account_def get_pyth_account_def)
      (simp add: stamped_def d into_pyth_price_data_def sint_i32_to_i64 Let_def b)
qed

text \<open>
  C29: A pushed price reaches the markets. When a fetch, or where it is allowed the fallback, returned prices,
  one per feed, that convert, the cycle sends one transaction that needs only the signer's signature. The
  runtime accepts it if each feed account is new, of the old layout or the signer's own: every
  instruction runs, on the accounts it lists and within the privileges it lists. Afterwards each market
  configured with one of the feeds loads from that feed's account exactly the fetched price, confidence
  and exponent, published at the clock of the push, and no other account has changed. The hypotheses on
  the bytes are those of the plain-data casts on both sides.
\<close>

theorem pushed_price_reaches_market:
  assumes "cy_pyth c = Done root \<or> (\<forall>r. cy_pyth c \<noteq> Done r) \<and> network \<noteq> Bitcoin
      \<and> fetch_dia_prices (cy_dia_price c) (cy_now c) feeds = Done root"
    and "map_o (try_into_pyth_price hex_decode) (pr_parsed root) = Done prices"
    and "distinct (map (price_account E program) prices)"
    and "\<forall>p\<in>set prices. feed_open E (L (price_account E program p)) program signer (pyth_id p)"
    and "now \<noteq> 0"
    and "oracle_find_program_address OE = find_program_address (env_runtime E)"
    and "\<forall>p\<in>set prices. price_try_from_bytes OE (bytes_of p) = Some p
      \<and> pyth_try_from_bytes (env_runtime E) (encode (Feed (stamped now signer p))) = Some (stamped now signer p)"
  shows "\<exists>ixs L'. push_once E program signer bytes_of hex_decode feeds network c
        = (if cy_send c ixs = SendOk then PushSuccess else PushFailure, Some ixs)
    \<and> run_push_transaction OE E program [signer] now ixs L = Some L'
    \<and> (\<forall>k. k \<notin> price_account E program ` set prices \<longrightarrow> L' k = L k)
    \<and> (\<forall>i < length prices.
        load_oracle_price F (env_runtime E)
          (Pyth \<lparr>pyth_feed_id = pyth_id (prices ! i), pyth_program_id = program\<rparr>)
          (feed_view encode L' (get_pyth_account (env_runtime E) program (pyth_id (prices ! i))))
        = (let fetched = pp_price (pr_parsed root ! i) in
           if \<bar>sint (pd_expo fetched)\<bar> \<le> sint MAX_EXPONENT_ABS
           then bind_r (try_from_price_expo_conf F (pd_price fetched) (pd_conf fetched)
                  (ucast (scast (pd_expo fetched) :: i64)))
                  (\<lambda>r. Ok \<lparr>unsafe_rate = r, publish_time = now\<rparr>)
           else Err InvalidPythOracleAccount))"
proof -
  let ?ixs = "map (price_push_ix E program signer bytes_of) prices"
  have "push_once E program signer bytes_of hex_decode feeds network c
      = (if cy_send c ?ixs = SendOk then PushSuccess else PushFailure, Some ?ixs)"
    using assms(1) price_instructions_of [OF assms(2), of E program signer bytes_of]
    by (auto simp: push_once_def dia_fallback_allowed_def split: send_answer.splits outcome.splits)
  moreover obtain L' where L': "run_push_transaction OE E program [signer] now ?ixs L = Some L'"
      "\<forall>k. k \<notin> price_account E program ` set prices \<longrightarrow> L' k = L k"
      "\<forall>p\<in>set prices. L' (price_account E program p) = written (L (price_account E program p)) program now signer p"
    using price_pushes_run [of prices OE bytes_of now E program L signer] assms(3-7) by blast
  moreover have "load_oracle_price F (env_runtime E)
          (Pyth \<lparr>pyth_feed_id = pyth_id (prices ! i), pyth_program_id = program\<rparr>)
          (feed_view encode L' (get_pyth_account (env_runtime E) program (pyth_id (prices ! i))))
        = (let fetched = pp_price (pr_parsed root ! i) in
           if \<bar>sint (pd_expo fetched)\<bar> \<le> sint MAX_EXPONENT_ABS
           then bind_r (try_from_price_expo_conf F (pd_price fetched) (pd_conf fetched)
                  (ucast (scast (pd_expo fetched) :: i64)))
                  (\<lambda>r. Ok \<lparr>unsafe_rate = r, publish_time = now\<rparr>)
           else Err InvalidPythOracleAccount)" if i: "i < length prices" for i
  proof -
    have t: "try_into_pyth_price hex_decode (pr_parsed root ! i) = Done (prices ! i)"
      using assms(2) i by (simp add: map_o_Done list_all2_conv_all_nth)
    show ?thesis
      unfolding Let_def price_account_def [symmetric]
      using L'(3) assms(7) i by (intro feed_view_loads [OF t]) auto
  qed
  ultimately show ?thesis by blast
qed

definition example_parsed :: "string \<Rightarrow> u64 \<Rightarrow> parsed_price" where
  "example_parsed feed price =
     (let d = \<lparr>pd_price = price, pd_conf = 1000000, pd_expo = - 8, pd_publish_time = 55\<rparr> in
      \<lparr>pp_id = feed, pp_price = d, pp_ema_price = d,
       pp_metadata = \<lparr>pm_slot = 1, pm_proof_available_time = 55, pm_prev_publish_time = 50\<rparr>\<rparr>)"

text \<open>The bytes of a price and of a feed account stand for the value of one of two feeds.\<close>

definition example_feed_price :: "u8 \<Rightarrow> pyth_price" where
  "example_feed_price feed =
     (let d = \<lparr>pyth_price_value = (if feed = 7 then 100000000 else 200000000), pyth_conf = 1000000,
        pyth_expo = scast (- 8 :: i32), pyth_publish_time = 55\<rparr> in
      \<lparr>pyth_id = [feed], pyth_data = d, pyth_ema = d,
       pyth_meta = \<lparr>slot = 1, proof_available_time = 55, prev_publish_time = 50\<rparr>\<rparr>)"

definition example_pusher_env :: environment where
  "example_pusher_env = example_env\<lparr>env_runtime := example_runtime
     \<lparr>find_program_address := (\<lambda>seeds program. (ucast (hd (hd seeds)), 255)),
      pyth_try_from_bytes := (\<lambda>bytes. Some (stamped 60 3 (example_feed_price (hd bytes))))\<rparr>\<rparr>"

definition example_pusher_oracle :: oracle_environment where
  "example_pusher_oracle = example_oracle_environment
     \<lparr>price_try_from_bytes := (\<lambda>bytes. Some (example_feed_price (hd bytes))),
      oracle_find_program_address := (\<lambda>seeds program. (ucast (hd (hd seeds)), 255))\<rparr>"

definition example_encode :: "feed_data \<Rightarrow> u8 list" where
  "example_encode d = (case d of Feed a \<Rightarrow> pyth_id (account_price a) | _ \<Rightarrow> [])"

definition example_root :: price_root where
  "example_root = \<lparr>pr_encoding = ''hex'', pr_data = [],
     pr_parsed = [example_parsed ''07'' 100000000, example_parsed ''09'' 200000000]\<rparr>"

definition example_cycle :: cycle where
  "example_cycle = \<lparr>cy_pyth = Done example_root, cy_dia_price = (\<lambda>_ _. Panicked), cy_now = 60,
     cy_recorded = 61, cy_send = (\<lambda>_. SendOk), cy_explorer = Panicked, cy_rpc_lamports = Done 0,
     cy_instant = 0, cy_slack = True\<rparr>"

text \<open>A first feed that is created by the push and a second one that the signer already owns.\<close>

definition example_ledger :: feed_ledger where
  "example_ledger k = \<lparr>fa_key = k, fa_owner = (if k = 9 then 5 else 3), fa_lamports = 0,
     fa_data = (if k = 9 then Feed \<lparr>account_price = example_feed_price 9, account_authority = 3\<rparr> else OtherData)\<rparr>"

theorem pushed_price_reaches_market_witness:
  "\<exists>ixs L'. push_once example_pusher_env 5 3 pyth_id (\<lambda>s. Some (if s = ''07'' then [7] else [9])) [] Bitcoin
        example_cycle = (PushSuccess, Some ixs)
     \<and> run_push_transaction example_pusher_oracle example_pusher_env 5 [3] 60 ixs example_ledger = Some L'
     \<and> load_oracle_price fixed_reference (env_runtime example_pusher_env)
         (Pyth \<lparr>pyth_feed_id = [9], pyth_program_id = 5\<rparr>)
         (feed_view example_encode L' (get_pyth_account (env_runtime example_pusher_env) 5 [9]))
       = bind_r (try_from_price_expo_conf fixed_reference 200000000 1000000 (ucast (scast (- 8 :: i32) :: i64)))
           (\<lambda>r. Ok \<lparr>unsafe_rate = r, publish_time = 60\<rparr>)"
proof -
  let ?h = "\<lambda>s. Some (if s = ''07'' then [7] else [9 :: u8])"
  let ?ps = "[example_feed_price 7, example_feed_price 9]"
  have id: "pyth_id (example_feed_price k) = [k]" for k
    by (simp add: example_feed_price_def Let_def)
  have acc: "price_account example_pusher_env 5 (example_feed_price k) = ucast k" for k
    by (simp add: price_account_def get_pyth_account_def id example_pusher_env_def)
  have root: "cy_pyth example_cycle = Done example_root" by (simp add: example_cycle_def)
  have t: "map_o (try_into_pyth_price ?h) (pr_parsed example_root) = Done ?ps"
    by (simp add: try_into_pyth_price_def context_o_def example_root_def example_parsed_def example_feed_price_def
        into_pyth_price_data_def into_pyth_metadata_def Let_def)
  have d: "distinct (map (price_account example_pusher_env 5) ?ps)" by (simp add: acc)
  have op: "\<forall>p\<in>set ?ps. feed_open example_pusher_env (example_ledger (price_account example_pusher_env 5 p)) 5 3
      (pyth_id p)"
    unfolding feed_open_def example_ledger_def by (simp add: acc id)
      (simp add: example_pusher_env_def example_env_def)
  have f: "oracle_find_program_address example_pusher_oracle
      = find_program_address (env_runtime example_pusher_env)"
    by (simp add: example_pusher_oracle_def example_pusher_env_def)
  have b: "\<forall>p\<in>set ?ps. price_try_from_bytes example_pusher_oracle (pyth_id p) = Some p
      \<and> pyth_try_from_bytes (env_runtime example_pusher_env) (example_encode (Feed (stamped 60 3 p)))
        = Some (stamped 60 3 p)"
    by (simp add: id example_pusher_oracle_def example_pusher_env_def example_encode_def stamped_def)
  have now: "(60 :: i64) \<noteq> 0" by simp
  obtain ixs L' where r: "push_once example_pusher_env 5 3 pyth_id ?h [] Bitcoin example_cycle
        = (if cy_send example_cycle ixs = SendOk then PushSuccess else PushFailure, Some ixs)"
      "run_push_transaction example_pusher_oracle example_pusher_env 5 [3] 60 ixs example_ledger = Some L'"
    and l: "\<forall>i < length ?ps.
        load_oracle_price fixed_reference (env_runtime example_pusher_env)
          (Pyth \<lparr>pyth_feed_id = pyth_id (?ps ! i), pyth_program_id = 5\<rparr>)
          (feed_view example_encode L' (get_pyth_account (env_runtime example_pusher_env) 5 (pyth_id (?ps ! i))))
        = (let fetched = pp_price (pr_parsed example_root ! i) in
           if \<bar>sint (pd_expo fetched)\<bar> \<le> sint MAX_EXPONENT_ABS
           then bind_r (try_from_price_expo_conf fixed_reference (pd_price fetched) (pd_conf fetched)
                  (ucast (scast (pd_expo fetched) :: i64)))
                  (\<lambda>r. Ok \<lparr>unsafe_rate = r, publish_time = 60\<rparr>)
           else Err InvalidPythOracleAccount)"
    using pushed_price_reaches_market [where network = Bitcoin and feeds = "[]" and F = fixed_reference,
        OF disjI1 [OF root] t d op now f b]
    by blast
  have "cy_send example_cycle ixs = SendOk" by (simp add: example_cycle_def)
  moreover have "\<bar>sint (- 8 :: i32)\<bar> \<le> sint MAX_EXPONENT_ABS" by (simp add: MAX_EXPONENT_ABS_def)
  ultimately show ?thesis
    using r l [rule_format, of 1]
    by (intro exI [of _ ixs] exI [of _ L'])
      (simp add: id example_root_def example_parsed_def Let_def)
qed

end
