(* ===== verification/Sync_In_Place.thy ===== *)
theory Sync_In_Place
  imports Client_Base
begin

text \<open>
  \<open>sync_clock\<close> as it mutates. On the chain a failing instruction is rolled back, so \<open>Market\<close> returns the
  new state or an error; the clients keep a market whose accrual failed half-way
  (\<open>let _ = inner_reload_market(..)\<close>), so here each operation returns the state it leaves, in either case.
  On success the two agree.
\<close>

section \<open>Mutation\<close>

fun bind_m :: "'s \<times> 'a result \<Rightarrow> ('s \<Rightarrow> 'a \<Rightarrow> 's \<times> 'b result) \<Rightarrow> 's \<times> 'b result" where
  "bind_m (s, Ok x) f = f s x"
| "bind_m (s, Err e) f = (s, Err e)"
| "bind_m (s, Panic) f = (s, Panic)"

text \<open>A field that its own operation updates only on success.\<close>

definition store_m :: "'s \<Rightarrow> ('f \<Rightarrow> 's) \<Rightarrow> ('f \<times> 'a) result \<Rightarrow> 's \<times> 'a result" where
  "store_m s put r = (case r of Ok (f, x) \<Rightarrow> (put f, Ok x) | Err e \<Rightarrow> (s, Err e) | Panic \<Rightarrow> (s, Panic))"

definition set_m :: "'s \<Rightarrow> ('f \<Rightarrow> 's) \<Rightarrow> 'f result \<Rightarrow> 's \<times> unit result" where
  "set_m s put r = store_m s put (bind_r r (\<lambda>f. Ok (f, ())))"

text \<open>A field on which an operation mutates in place.\<close>

definition on_m :: "('f \<Rightarrow> 's) \<Rightarrow> 'f \<times> 'a result \<Rightarrow> 's \<times> 'a result" where
  "on_m put p = (put (fst p), snd p)"

lemma bind_m_Ok: "bind_m p f = (s', Ok y) \<longleftrightarrow> (\<exists>s x. p = (s, Ok x) \<and> f s x = (s', Ok y))"
  by (cases p; cases "snd p") auto

lemma store_m_Ok: "store_m s put r = (s', Ok x) \<longleftrightarrow> (\<exists>f. r = Ok (f, x) \<and> s' = put f)"
  by (auto simp: store_m_def split: result.splits)

lemma set_m_Ok: "set_m s put r = (s', Ok x) \<longleftrightarrow> (\<exists>f. r = Ok f \<and> s' = put f)"
  by (auto simp: set_m_def store_m_Ok bind_r_eq_Ok)

lemma on_m_Ok: "on_m put p = (s', Ok x) \<longleftrightarrow> (\<exists>f. p = (f, Ok x) \<and> s' = put f)"
  by (cases p) (auto simp: on_m_def)

lemmas mutation_Ok = bind_r_eq_Ok bind_m_Ok store_m_Ok set_m_Ok on_m_Ok

section \<open>Operations\<close>

definition apply_interest_rate_with_fee_mut ::
    "fixed_crate \<Rightarrow> shares_tracker \<Rightarrow> interest_rate \<Rightarrow> ufixed \<Rightarrow> shares_tracker \<times> ufixed result" where
  "apply_interest_rate_with_fee_mut F self rt fee =
     bind_m (self, total_atoms F self RoundDown) (\<lambda>self total_atoms_before.
       if total_atoms_before = 0 then (self, Ok (uf_from_u64 0))
       else if if_is_negative F (ir_rate rt) then
         bind_m (set_m self (\<lambda>t. t) (apply_interest_rate F self rt)) (\<lambda>self _. (self, Err NegativeInterestRate))
       else
         bind_m (self, interest_u64 rt total_atoms_before) (\<lambda>self interest_atoms.
         bind_m (self, if_safe_mul_uf F interest_atoms fee) (\<lambda>self fee_atoms.
         bind_m (self, if_safe_sub F interest_atoms fee_atoms) (\<lambda>self net_interest_atoms.
         bind_m (self, if_safe_div_u64 net_interest_atoms total_atoms_before) (\<lambda>self net_interest_rate.
         bind_m (self, if_safe_mul_uf F net_interest_rate (atoms_per_share self)) (\<lambda>self net_per_share.
         bind_m (self, if_safe_add_uf F net_per_share (atoms_per_share self)) (\<lambda>self price.
         bind_m (set_m self (\<lambda>p. self\<lparr>atoms_per_share := p\<rparr>) (uf_try_from_ifixed F price)) (\<lambda>self _.
         bind_m (self, if_safe_div_uf F fee_atoms (atoms_per_share self)) (\<lambda>self fee_shares_i.
         bind_m (self, uf_try_from_ifixed F fee_shares_i) (\<lambda>self fee_shares.
         bind_m (set_m self (\<lambda>s. self\<lparr>total_shares := s\<rparr>) (uf_safe_add F fee_shares (total_shares self))) (\<lambda>self _.
           (self, Ok fee_shares))))))))))))"

definition sv_sync_clock_mut ::
    "fixed_crate \<Rightarrow> supply_vault \<Rightarrow> i64 \<Rightarrow> ufixed \<Rightarrow> u16 \<Rightarrow> supply_vault \<times> unit result" where
  "sv_sync_clock_mut F self unix_timestamp lending_market_fee fee_percent_for_protocol_in_bps =
     (if sint unix_timestamp > sint (last_update_unix_timestamp self) then
        let elapsed = unix_timestamp - last_update_unix_timestamp self in
        bind_m (self, sv_utilisation_rate F self) (\<lambda>self utilisation.
        bind_m (store_m self (\<lambda>c. self\<lparr>interest_rate_curve := c\<rparr>)
                  (borrow_rate_per_second F (interest_rate_curve self)
                    \<lparr>utilisation_rate = utilisation, elapsed_seconds_since_last_update = elapsed\<rparr>))
          (\<lambda>self borrow_interest_rate.
        bind_m (self, coumpounding_interest_rate_during_elapsed_seconds F borrow_interest_rate elapsed)
          (\<lambda>self borrow_rate.
        bind_m (set_m self (\<lambda>t. self\<lparr>borrow_shares_tracker := t\<rparr>)
                  (apply_interest_rate F (borrow_shares_tracker self) borrow_rate)) (\<lambda>self _.
        bind_m (self, ir_adjust_for_utilisation_rate F borrow_rate utilisation) (\<lambda>self lending_rate.
        bind_m (on_m (\<lambda>t. self\<lparr>supply_shares_tracker := t\<rparr>)
                  (apply_interest_rate_with_fee_mut F (supply_shares_tracker self) lending_rate
                    lending_market_fee)) (\<lambda>self fee_shares.
        bind_m (self, bps_from_fixed_point (ucast fee_percent_for_protocol_in_bps) fee_shares)
          (\<lambda>self protocol_fee_shares.
        bind_m (self, uf_safe_sub F fee_shares protocol_fee_shares) (\<lambda>self curator_fee_shares.
        bind_m (set_m self (\<lambda>s. self\<lparr>pending_protocol_fee_shares := s\<rparr>)
                  (uf_safe_add F (pending_protocol_fee_shares self) protocol_fee_shares)) (\<lambda>self _.
        bind_m (set_m self (\<lambda>s. self\<lparr>pending_curator_fee_shares := s\<rparr>)
                  (uf_safe_add F (pending_curator_fee_shares self) curator_fee_shares)) (\<lambda>self _.
          (self\<lparr>last_borrow_interest_rate := borrow_interest_rate,
                last_update_unix_timestamp := unix_timestamp\<rparr>, Ok ())))))))))))
      else (self, Ok ()))"

definition market_sync_clock_mut :: "fixed_crate \<Rightarrow> market \<Rightarrow> i64 \<Rightarrow> market \<times> unit result" where
  "market_sync_clock_mut F self unix_timestamp =
     bind_m (self, lending_market_fee_fixed (config self)) (\<lambda>self fee.
       on_m (\<lambda>v. self\<lparr>m_supply_vault := v\<rparr>)
         (sv_sync_clock_mut F (m_supply_vault self) unix_timestamp fee
           (mc_protocol_fee_share_in_bps (config self))))"

section \<open>Agreement\<close>

text \<open>A mutating computation and a pure one that returns the new state.\<close>

definition agrees :: "'s \<times> 'a result \<Rightarrow> ('s \<times> 'a) result \<Rightarrow> bool" where
  "agrees p r \<longleftrightarrow> (\<forall>s x. p = (s, Ok x) \<longleftrightarrow> r = Ok (s, x))"

lemma agrees_pure: "(\<And>x. agrees (f s x) (g x)) \<Longrightarrow> agrees (bind_m (s, r) f) (bind_r r g)"
  by (cases r) (auto simp: agrees_def)

lemma agrees_set: "(\<And>x. agrees (f (put x) ()) (g x)) \<Longrightarrow> agrees (bind_m (set_m s put r) f) (bind_r r g)"
  by (cases r) (auto simp: agrees_def set_m_def store_m_def)

lemma agrees_Ok: "s = s' \<Longrightarrow> agrees (s, Ok x) (Ok (s', x))"
  by (auto simp: agrees_def)

lemma agrees_Err: "agrees (s, Err e) (Err e')"
  by (simp add: agrees_def)

lemma agrees_if: "agrees p r \<Longrightarrow> agrees q t \<Longrightarrow> agrees (if c then p else q) (if c then r else t)"
  by simp

lemma apply_interest_rate_with_fee_mut_Ok:
  "apply_interest_rate_with_fee_mut F self rt fee = (t, Ok s) \<longleftrightarrow>
     apply_interest_rate_with_fee F self rt fee = Ok (t, s)"
proof -
  have "agrees (apply_interest_rate_with_fee_mut F self rt fee) (apply_interest_rate_with_fee F self rt fee)"
    unfolding apply_interest_rate_with_fee_mut_def apply_interest_rate_with_fee_def
    by (rule agrees_pure agrees_set agrees_if agrees_Err | (rule agrees_Ok, simp; fail)
        | simp)+
  then show ?thesis by (simp add: agrees_def)
qed

lemma sv_sync_clock_mut_Ok:
  "sv_sync_clock_mut F self now fee bps = (v, Ok ()) \<longleftrightarrow> sv_sync_clock F self now fee bps = Ok v"
  by (auto simp: sv_sync_clock_mut_def sv_sync_clock_def mutation_Ok Let_def
      apply_interest_rate_with_fee_mut_Ok split: if_splits)

lemma market_sync_clock_mut_Ok:
  "market_sync_clock_mut F m now = (m', Ok ()) \<longleftrightarrow> market_sync_clock F m now = Ok m'"
  by (auto simp: market_sync_clock_mut_def market_sync_clock_def mutation_Ok sv_sync_clock_mut_Ok)

end
