(* ===== verification/Client_State.thy ===== *)
theory Client_State
  imports Sync_In_Place "HOL-Library.AList"
begin

text \<open>
  The two caches of the chain that the clients read, \<open>AutaraReadClientImpl\<close>
  (\<open>src/autara-client/src/client/single_thread_client.rs\<close>) and \<open>AutaraSharedState\<close>
  (\<open>client/shared_autara_state.rs\<close>), the trait over them (\<open>client/read.rs\<close>), and the requests they make
  (\<open>rpc_ext.rs\<close>, \<open>filter.rs\<close>, \<open>token_mint.rs\<close>). Hash maps are association lists in their order of iteration.
  What the node answers to the requests of one call is a parameter, as is the clock.
\<close>

section \<open>Requests (filter.rs, rpc\_ext.rs, token\_mint.rs)\<close>

datatype account_filter = DataSize nat | DataContent nat "u8 list"

record rpc_node =
  rpc_read_account_info :: "pubkey \<Rightarrow> account_info outcome"
  rpc_get_program_accounts :: "pubkey \<Rightarrow> account_filter list option \<Rightarrow> account_info list outcome"
  rpc_get_multiple_accounts :: "pubkey list \<Rightarrow> account_info option list outcome"

definition market_filter :: "account_filter list" where
  "market_filter = [DataSize 1448]"

definition supply_position_filter :: "account_filter list" where
  "supply_position_filter = [DataSize 216]"

definition borrow_position_filter :: "account_filter list" where
  "borrow_position_filter = [DataSize 224]"

definition global_config_filter :: "account_filter list" where
  "global_config_filter = [DataSize 256]"

text \<open>\<open>HashMap\<close>: \<open>insert\<close>, \<open>collect\<close>.\<close>

abbreviation insert_kv :: "'k \<Rightarrow> 'v \<Rightarrow> ('k \<times> 'v) list \<Rightarrow> ('k \<times> 'v) list" where
  "insert_kv \<equiv> AList.update"

definition insert_all :: "('k \<times> 'v) list \<Rightarrow> ('k \<times> 'v) list \<Rightarrow> ('k \<times> 'v) list" where
  "insert_all kvs m = fold (\<lambda>(k, v). insert_kv k v) kvs m"

definition collect_map :: "('k \<times> 'v) list \<Rightarrow> ('k \<times> 'v) list" where
  "collect_map kvs = insert_all kvs []"

definition get_program_accounts_with ::
    "rpc_node \<Rightarrow> pubkey \<Rightarrow> account_filter list option \<Rightarrow> (account_info \<Rightarrow> 'a option) \<Rightarrow> (pubkey \<times> 'a) list outcome" where
  "get_program_accounts_with node program_id filters map_account =
     bind_o (rpc_get_program_accounts node program_id filters) (\<lambda>accs.
       Done (List.map_filter (\<lambda>acc. map_option (Pair (ai_key acc)) (map_account acc)) accs))"

text \<open>\<open>try_from_bytes\<close> is \<open>from_bytes\<close>, one of the casts of \<open>Program_Accounts\<close>.\<close>

definition get_program_accounts_pod ::
    "rpc_node \<Rightarrow> (account_data \<Rightarrow> 'a option) \<Rightarrow> pubkey \<Rightarrow> account_filter list option \<Rightarrow> (pubkey \<times> 'a) list outcome" where
  "get_program_accounts_pod node from_bytes program_id filters =
     get_program_accounts_with node program_id filters (\<lambda>acc. from_bytes (ai_data acc))"

text \<open>The slice \<open>..size\<close> of the data: it panics on shorter data and drops the rest of longer data.\<close>

definition get_pod_account ::
    "environment \<Rightarrow> rpc_node \<Rightarrow> nat \<Rightarrow> (account_data \<Rightarrow> 'a option) \<Rightarrow> pubkey \<Rightarrow> 'a outcome" where
  "get_pod_account E node len from_bytes key =
     bind_o (recontext_o ''failed to read account info'' (rpc_read_account_info node key)) (\<lambda>acc.
       case from_bytes (ai_data acc) of
         Some x \<Rightarrow> Done x
       | None \<Rightarrow>
           let data = data_bytes E acc in
           if length data < len then Panicked
           else context_o ''failed to deserialize account data'' (from_bytes (RawAccount (take len data))))"

record token_mint =
  tm_mint :: pubkey
  tm_decimals :: u8

definition token_mint_try_from :: "environment \<Rightarrow> account_info \<Rightarrow> token_mint outcome" where
  "token_mint_try_from E acc =
     (if ai_owner acc \<noteq> apl_token_id E then Failed ''Account is not a token mint''
      else bind_o (context_o ''unpack'' (mint_unpack (ai_data acc))) (\<lambda>m.
        Done \<lparr>tm_mint = ai_key acc, tm_decimals = mint_decimals m\<rparr>))"

definition get_mints :: "environment \<Rightarrow> rpc_node \<Rightarrow> pubkey list \<Rightarrow> (pubkey \<times> token_mint) list outcome" where
  "get_mints E node pubkeys =
     bind_o (get_multiple_accounts_batch (rpc_get_multiple_accounts node) pubkeys) (\<lambda>b.
     bind_o (map_o (\<lambda>acc. bind_o (token_mint_try_from E acc) (\<lambda>m. Done (tm_mint m, m))) (batch_into_iter b)) (\<lambda>kvs.
       Done (collect_map kvs)))"

text \<open>The mint of a token account is read by the token program's library, a parameter.\<close>

definition unpack_mint_balance :: "(u8 list \<Rightarrow> pubkey option) \<Rightarrow> u8 list \<Rightarrow> (pubkey \<times> u64) option" where
  "unpack_mint_balance unpack_account_mint data =
     (let balance = (if 72 \<le> length data then Some (word_of_int (bytes_int (take 8 (drop 64 data)))) else None) in
      Option.bind (unpack_account_mint data) (\<lambda>mint. map_option (Pair mint) balance))"

definition get_balances ::
    "environment \<Rightarrow> rpc_node \<Rightarrow> (u8 list \<Rightarrow> pubkey option) \<Rightarrow> pubkey \<Rightarrow> token_mint list \<Rightarrow> (pubkey \<times> u64) list outcome" where
  "get_balances E node unpack_account_mint owner_key mints =
     bind_o (get_multiple_accounts_batch (rpc_get_multiple_accounts node)
               (map (\<lambda>x. associated_token_address E owner_key (tm_mint x)) mints)) (\<lambda>b.
       Done (collect_map (List.map_filter (\<lambda>acc. unpack_mint_balance unpack_account_mint (data_bytes E acc))
         (batch_into_iter b))))"

definition get_all_balances ::
    "environment \<Rightarrow> rpc_node \<Rightarrow> (u8 list \<Rightarrow> pubkey option) \<Rightarrow> pubkey \<Rightarrow> (pubkey \<times> u64) list outcome" where
  "get_all_balances E node unpack_account_mint owner_key =
     bind_o (get_program_accounts_with node (apl_token_id E)
               (Some [DataContent 32 (pubkey_bytes owner_key)])
               (\<lambda>acc. unpack_mint_balance unpack_account_mint (data_bytes E acc))) (\<lambda>kvs.
       Done (collect_map (map snd kvs)))"

section \<open>Oracles of a market\<close>

text \<open>\<open>get_oracle_keys\<close> of \<open>state/market.rs\<close>. Its \<open>unwrap\<close> cannot fail: both kinds of provider have a feed.\<close>

definition feed_key :: "runtime \<Rightarrow> oracle_provider \<Rightarrow> pubkey" where
  "feed_key R q = (case oracle_feed_pubkey R q of Some k \<Rightarrow> k | None \<Rightarrow> 0)"

lemma oracle_feed_pubkey_Some: "oracle_feed_pubkey R q = Some (feed_key R q)"
  by (cases q) (simp_all add: feed_key_def oracle_feed_pubkey_def)

definition market_get_oracle_keys :: "runtime \<Rightarrow> market \<Rightarrow> pubkey \<times> pubkey" where
  "market_get_oracle_keys R self =
     (feed_key R (oc_provider (sv_oracle_config (m_supply_vault self))),
      feed_key R (oc_provider (cv_oracle_config (m_collateral_vault self))))"

definition account_view_of :: "environment \<Rightarrow> account_info \<Rightarrow> account_view" where
  "account_view_of E a = \<lparr>view_key = ai_key a, view_data = account_bytes E (ai_data a), view_owner = ai_owner a\<rparr>"

text \<open>\<open>load_market_wrapper\<close> and its variant for stale prices; \<open>ok()\<close> drops the error.\<close>

fun ok_o :: "'a result \<Rightarrow> 'a option outcome" where
  "ok_o (Ok x) = Done (Some x)"
| "ok_o (Err _) = Done None"
| "ok_o Panic = Panicked"

definition with_oracles ::
    "environment \<Rightarrow> (pubkey \<times> account_info) list \<Rightarrow> market \<Rightarrow> (account_view \<Rightarrow> account_view \<Rightarrow> 'a result)
     \<Rightarrow> 'a option outcome" where
  "with_oracles E oracle_map m load =
     (let (supply_oracle_id, collateral_oracle_id) = market_get_oracle_keys (env_runtime E) m in
      case map_of oracle_map supply_oracle_id of
        None \<Rightarrow> Done None
      | Some supply_oracle \<Rightarrow>
          (case map_of oracle_map collateral_oracle_id of
             None \<Rightarrow> Done None
           | Some collateral_oracle \<Rightarrow>
               ok_o (load (account_view_of E supply_oracle) (account_view_of E collateral_oracle))))"

definition load_market_wrapper ::
    "fixed_crate \<Rightarrow> environment \<Rightarrow> (pubkey \<times> account_info) list \<Rightarrow> i64 \<Rightarrow> market \<Rightarrow> market_wrapper option outcome" where
  "load_market_wrapper F E oracle_map now m =
     with_oracles E oracle_map m (\<lambda>s c. mw_try_new F (env_runtime E) m s c now)"

definition load_market_wrapper_maybe_stale ::
    "fixed_crate \<Rightarrow> environment \<Rightarrow> (pubkey \<times> account_info) list \<Rightarrow> i64 \<Rightarrow> market
     \<Rightarrow> (market_wrapper \<times> bool) option outcome" where
  "load_market_wrapper_maybe_stale F E oracle_map now m =
     with_oracles E oracle_map m (\<lambda>s c. mw_try_new_or_unchecked F (env_runtime E) m s c now)"

text \<open>\<open>inner_reload_market\<close>: the market it leaves, and its result.\<close>

definition inner_reload_market ::
    "fixed_crate \<Rightarrow> environment \<Rightarrow> (pubkey \<times> account_info) list \<Rightarrow> i64 \<Rightarrow> market \<Rightarrow> market \<times> unit outcome" where
  "inner_reload_market F E oracle_map unix_timestamp m =
     (let (supply_oracle_id, collateral_oracle_id) = market_get_oracle_keys (env_runtime E) m in
      case map_of oracle_map supply_oracle_id of
        None \<Rightarrow> (m, Failed ''supply oracle not found'')
      | Some supply_oracle \<Rightarrow>
          (case map_of oracle_map collateral_oracle_id of
             None \<Rightarrow> (m, Failed ''collateral oracle not found'')
           | Some collateral_oracle \<Rightarrow>
               (case mw_try_new F (env_runtime E) m (account_view_of E supply_oracle)
                       (account_view_of E collateral_oracle) unix_timestamp of
                  Ok w \<Rightarrow> let (m', r) = market_sync_clock_mut F (mw_market w) unix_timestamp in (m', of_result r)
                | r \<Rightarrow> (m, bind_o (of_result r) (\<lambda>_. Done ())))))"

section \<open>single\_thread\_client.rs\<close>

record read_client_impl =
  ri_program_id :: pubkey
  ri_market_map :: "(pubkey \<times> market) list"
  ri_supply_position_map :: "(pubkey \<times> supply_position) list"
  ri_borrow_position_map :: "(pubkey \<times> borrow_position) list"
  ri_oracle_map :: "(pubkey \<times> account_info) list"
  ri_global_config :: global_config

definition global_config_default :: global_config where
  "global_config_default = gc_new 0 0 0"

definition read_client_impl_new :: "pubkey \<Rightarrow> read_client_impl" where
  "read_client_impl_new program_id = \<lparr>ri_program_id = program_id, ri_market_map = [],
     ri_supply_position_map = [], ri_borrow_position_map = [], ri_oracle_map = [],
     ri_global_config = global_config_default\<rparr>"

definition load_program_accounts_pod ::
    "rpc_node \<Rightarrow> (account_data \<Rightarrow> 'a option) \<Rightarrow> pubkey \<Rightarrow> account_filter list option \<Rightarrow> (pubkey \<times> 'a) list outcome" where
  "load_program_accounts_pod node from_bytes program_id filters =
     bind_o (recontext_o ''failed to load program accounts''
               (get_program_accounts_pod node from_bytes program_id filters)) (\<lambda>accs.
       Done (collect_map accs))"

text \<open>The loop over \<open>values_mut\<close>; the result of each market is dropped, a panic is not.\<close>

fun reload_markets ::
    "fixed_crate \<Rightarrow> environment \<Rightarrow> (pubkey \<times> account_info) list \<Rightarrow> i64 \<Rightarrow> (pubkey \<times> market) list
     \<Rightarrow> (pubkey \<times> market) list \<times> unit outcome" where
  "reload_markets F E oracle_map ts [] = ([], Done ())"
| "reload_markets F E oracle_map ts ((k, m) # ms) =
     (case inner_reload_market F E oracle_map ts m of
        (m', Panicked) \<Rightarrow> ((k, m') # ms, Panicked)
      | (m', _) \<Rightarrow> (let (ms', r) = reload_markets F E oracle_map ts ms in ((k, m') # ms', r)))"

definition insert_oracles :: "account_info list \<Rightarrow> (pubkey \<times> account_info) list \<Rightarrow> (pubkey \<times> account_info) list" where
  "insert_oracles accs = insert_all (map (\<lambda>acc. (ai_key acc, acc)) accs)"

definition oracle_keys_of :: "environment \<Rightarrow> market list \<Rightarrow> pubkey list" where
  "oracle_keys_of E ms =
     concat (map (\<lambda>m. let (s, c) = market_get_oracle_keys (env_runtime E) m in [s, c]) ms)"

definition ri_reload ::
    "fixed_crate \<Rightarrow> environment \<Rightarrow> rpc_node \<Rightarrow> i64 \<Rightarrow> read_client_impl \<Rightarrow> read_client_impl \<times> unit outcome" where
  "ri_reload F E node ts self =
     (let pid = ri_program_id self;
          joined =
            bind_o (load_program_accounts_pod node (market_from_bytes E) pid (Some market_filter)) (\<lambda>markets.
            bind_o (load_program_accounts_pod node (supply_position_from_bytes E) pid (Some supply_position_filter))
              (\<lambda>supplies.
            bind_o (load_program_accounts_pod node (borrow_position_from_bytes E) pid (Some borrow_position_filter))
              (\<lambda>borrows.
            bind_o (get_pod_account E node 256 (global_config_from_bytes E) (fst (find_global_config_pda E pid)))
              (\<lambda>global.
              Done (markets, supplies, borrows, global))))) in
      case joined of
        Done (markets, supplies, borrows, global) \<Rightarrow>
          (let s1 = self\<lparr>ri_market_map := markets, ri_supply_position_map := supplies,
                 ri_borrow_position_map := borrows, ri_global_config := global\<rparr>;
               oracles = oracle_keys_of E (map snd markets) in
           case get_multiple_accounts_batch (rpc_get_multiple_accounts node) oracles of
             Done accs \<Rightarrow>
               (let om = insert_oracles (batch_into_iter accs) (ri_oracle_map s1);
                    (ms, r) = reload_markets F E om ts markets in
                (s1\<lparr>ri_oracle_map := om, ri_market_map := ms\<rparr>, r))
           | Failed _ \<Rightarrow> (s1, Failed ''failed to fetch oracle accounts'')
           | Panicked \<Rightarrow> (s1, Panicked))
      | Failed e \<Rightarrow> (self, Failed e)
      | Panicked \<Rightarrow> (self, Panicked))"

definition ri_reload_market ::
    "fixed_crate \<Rightarrow> environment \<Rightarrow> rpc_node \<Rightarrow> i64 \<Rightarrow> pubkey \<Rightarrow> read_client_impl \<Rightarrow> read_client_impl \<times> unit outcome" where
  "ri_reload_market F E node ts market_key self =
     (case recontext_o ''failed to deserialize lending market account''
             (get_pod_account E node 1448 (market_from_bytes E) market_key) of
        Done m \<Rightarrow>
          (let (so, co) = market_get_oracle_keys (env_runtime E) m in
           case get_multiple_accounts_batch (rpc_get_multiple_accounts node) [so, co] of
             Done accs \<Rightarrow>
               (let s1 = self\<lparr>ri_oracle_map := insert_oracles (batch_into_iter accs) (ri_oracle_map self)\<rparr> in
                case inner_reload_market F E (ri_oracle_map s1) ts m of
                  (m', Done _) \<Rightarrow> (s1\<lparr>ri_market_map := insert_kv market_key m' (ri_market_map s1)\<rparr>, Done ())
                | (_, r) \<Rightarrow> (s1, r))
           | Failed e \<Rightarrow> (self, Failed e)
           | Panicked \<Rightarrow> (self, Panicked))
      | Failed e \<Rightarrow> (self, Failed e)
      | Panicked \<Rightarrow> (self, Panicked))"

definition ri_reload_supply_position ::
    "environment \<Rightarrow> rpc_node \<Rightarrow> pubkey \<Rightarrow> read_client_impl \<Rightarrow> read_client_impl outcome" where
  "ri_reload_supply_position E node key self =
     bind_o (recontext_o ''failed to deserialize lending position account''
               (get_pod_account E node 216 (supply_position_from_bytes E) key)) (\<lambda>p.
       Done (self\<lparr>ri_supply_position_map := insert_kv key p (ri_supply_position_map self)\<rparr>))"

definition ri_reload_borrow_position ::
    "environment \<Rightarrow> rpc_node \<Rightarrow> pubkey \<Rightarrow> read_client_impl \<Rightarrow> read_client_impl outcome" where
  "ri_reload_borrow_position E node key self =
     bind_o (recontext_o ''failed to deserialize borrow position account''
               (get_pod_account E node 224 (borrow_position_from_bytes E) key)) (\<lambda>p.
       Done (self\<lparr>ri_borrow_position_map := insert_kv key p (ri_borrow_position_map self)\<rparr>))"

definition ri_reload_global_config ::
    "environment \<Rightarrow> rpc_node \<Rightarrow> read_client_impl \<Rightarrow> read_client_impl outcome" where
  "ri_reload_global_config E node self =
     (case get_pod_account E node 256 (global_config_from_bytes E)
             (fst (find_global_config_pda E (ri_program_id self))) of
        Done g \<Rightarrow> Done (self\<lparr>ri_global_config := g\<rparr>)
      | Failed _ \<Rightarrow> Done (self\<lparr>ri_global_config := global_config_default\<rparr>)
      | Panicked \<Rightarrow> Panicked)"

definition ri_load_markets :: "environment \<Rightarrow> rpc_node \<Rightarrow> read_client_impl \<Rightarrow> read_client_impl outcome" where
  "ri_load_markets E node self =
     bind_o (recontext_o ''failed to load autara markets''
        (load_program_accounts_pod node (market_from_bytes E) (ri_program_id self) (Some market_filter))) (\<lambda>ms.
       Done (self\<lparr>ri_market_map := ms\<rparr>))"

definition ri_load_supply_positions :: "environment \<Rightarrow> rpc_node \<Rightarrow> read_client_impl \<Rightarrow> read_client_impl outcome" where
  "ri_load_supply_positions E node self =
     bind_o (recontext_o ''failed to load autara supply positions''
        (load_program_accounts_pod node (supply_position_from_bytes E) (ri_program_id self)
          (Some supply_position_filter))) (\<lambda>ps.
       Done (self\<lparr>ri_supply_position_map := ps\<rparr>))"

definition ri_load_borrow_positions :: "environment \<Rightarrow> rpc_node \<Rightarrow> read_client_impl \<Rightarrow> read_client_impl outcome" where
  "ri_load_borrow_positions E node self =
     bind_o (recontext_o ''failed to load autara borrow positions''
        (load_program_accounts_pod node (borrow_position_from_bytes E) (ri_program_id self)
          (Some borrow_position_filter))) (\<lambda>ps.
       Done (self\<lparr>ri_borrow_position_map := ps\<rparr>))"

definition ri_all_tokens :: "read_client_impl \<Rightarrow> pubkey set" where
  "ri_all_tokens self =
     set (concat (map (\<lambda>(_, m). [cv_mint (m_collateral_vault m), sv_mint (m_supply_vault m)]) (ri_market_map self)))"

end
