(* ===== verification/Client_Read.thy ===== *)
theory Client_Read
  imports Client_State
begin

text \<open>
  The trait \<open>AutaraReadClient\<close> (\<open>src/autara-client/src/client/read.rs\<close>) as a record of its methods, its
  implementations over the two caches, the methods it provides, and the shared cache
  (\<open>client/shared_autara_state.rs\<close>). The locale \<open>autara_read_client\<close> is the contract of an implementation.
\<close>

section \<open>read.rs\<close>

record read_client =
  rc_autara_program_id :: pubkey
  rc_all_markets :: "(pubkey \<times> market_wrapper) list outcome"
  rc_all_markets_maybe_stale :: "(pubkey \<times> market_wrapper \<times> bool) list outcome"
  rc_all_borrow_position :: "(pubkey \<times> borrow_position) list"
  rc_all_supply_position :: "(pubkey \<times> supply_position) list"
  rc_get_market :: "pubkey \<Rightarrow> market_wrapper option outcome"
  rc_get_borrow_position :: "pubkey \<Rightarrow> pubkey \<Rightarrow> pubkey \<times> borrow_position option"
  rc_get_supply_position :: "pubkey \<Rightarrow> pubkey \<Rightarrow> pubkey \<times> supply_position option"
  rc_get_global_config :: "global_config option"

definition get_borrow_position_health ::
    "fixed_crate \<Rightarrow> read_client \<Rightarrow> pubkey \<Rightarrow> pubkey \<Rightarrow> borrow_position_health outcome" where
  "get_borrow_position_health F self market_key authority =
     bind_o (context_o ''borrow position not found'' (snd (rc_get_borrow_position self market_key authority))) (\<lambda>p.
     bind_o (rc_get_market self market_key) (\<lambda>found.
     bind_o (context_o ''market not found'' found) (\<lambda>w.
       of_result (mw_borrow_position_health F w p))))"

record supply_position_view =
  spi_position :: supply_position
  spi_owned_atoms :: u64

record borrow_position_view =
  bpi_position :: borrow_position
  bpi_health :: borrow_position_health

record user_positions =
  up_supply_positions :: "supply_position_view list"
  up_borrow_positions :: "borrow_position_view list"

definition borrow_position_health_default :: borrow_position_health where
  "borrow_position_health_default = \<lparr>ltv = if_zero, borrowed_atoms = 0, collateral_atoms = 0,
     borrow_value = if_zero, collateral_value = if_zero\<rparr>"

text \<open>\<open>unwrap_or_default\<close> drops an error; a panic ends the call.\<close>

fun unwrap_or_o :: "'a \<Rightarrow> 'a result \<Rightarrow> 'a outcome" where
  "unwrap_or_o d (Ok x) = Done x"
| "unwrap_or_o d (Err _) = Done d"
| "unwrap_or_o d Panic = Panicked"

fun user_positions_in ::
    "fixed_crate \<Rightarrow> read_client \<Rightarrow> pubkey \<Rightarrow> (pubkey \<times> market_wrapper) list \<Rightarrow> user_positions outcome" where
  "user_positions_in F self authority [] = Done \<lparr>up_supply_positions = [], up_borrow_positions = []\<rparr>"
| "user_positions_in F self authority ((market_key, w) # ms) =
     bind_o (case snd (rc_get_supply_position self market_key authority) of
          None \<Rightarrow> Done []
        | Some p \<Rightarrow> bind_o (unwrap_or_o 0 (supply_position_info F (mw_market w) p)) (\<lambda>atoms.
            Done [\<lparr>spi_position = p, spi_owned_atoms = atoms\<rparr>])) (\<lambda>sp.
     bind_o (case snd (rc_get_borrow_position self market_key authority) of
          None \<Rightarrow> Done []
        | Some p \<Rightarrow> bind_o (unwrap_or_o borrow_position_health_default (mw_borrow_position_health F w p)) (\<lambda>h.
            Done [\<lparr>bpi_position = p, bpi_health = h\<rparr>])) (\<lambda>bp.
     bind_o (user_positions_in F self authority ms) (\<lambda>u.
       Done \<lparr>up_supply_positions = sp @ up_supply_positions u, up_borrow_positions = bp @ up_borrow_positions u\<rparr>)))"

definition user_positions_of :: "fixed_crate \<Rightarrow> read_client \<Rightarrow> pubkey \<Rightarrow> user_positions outcome" where
  "user_positions_of F self authority =
     bind_o (rc_all_markets self) (user_positions_in F self authority)"

section \<open>Implementations\<close>

text \<open>\<open>filter_map\<close> of a loader over the markets.\<close>

fun load_all :: "(market \<Rightarrow> 'a option outcome) \<Rightarrow> (pubkey \<times> market) list \<Rightarrow> (pubkey \<times> 'a) list outcome" where
  "load_all load [] = Done []"
| "load_all load ((k, m) # ms) =
     bind_o (load m) (\<lambda>w. bind_o (load_all load ms) (\<lambda>ws.
       Done (case w of None \<Rightarrow> ws | Some x \<Rightarrow> (k, x) # ws)))"

lemma load_all_Done:
  "load_all load ms = Done ws \<Longrightarrow>
     (k, x) \<in> set ws \<longleftrightarrow> (\<exists>m. (k, m) \<in> set ms \<and> load m = Done (Some x))"
  by (induction load ms arbitrary: ws rule: load_all.induct) (auto split: option.splits)

lemma load_all_loads: "load_all load ms = Done ws \<Longrightarrow> (k, m) \<in> set ms \<Longrightarrow> \<exists>w. load m = Done w"
  by (induction load ms arbitrary: ws rule: load_all.induct) auto

text \<open>Both implementations read the same maps in the same way; only their caches differ.\<close>

definition cache_client ::
    "fixed_crate \<Rightarrow> environment \<Rightarrow> i64 \<Rightarrow> pubkey \<Rightarrow> (pubkey \<times> market) list \<Rightarrow> (pubkey \<times> supply_position) list
     \<Rightarrow> (pubkey \<times> borrow_position) list \<Rightarrow> (pubkey \<times> account_info) list \<Rightarrow> global_config \<Rightarrow> read_client" where
  "cache_client F E now pid markets supplies borrows oracles global =
     \<lparr>rc_autara_program_id = pid,
      rc_all_markets = load_all (load_market_wrapper F E oracles now) markets,
      rc_all_markets_maybe_stale =
        load_all (load_market_wrapper_maybe_stale F E oracles now) markets,
      rc_all_borrow_position = borrows,
      rc_all_supply_position = supplies,
      rc_get_market = (\<lambda>market_key.
        case map_of markets market_key of None \<Rightarrow> Done None | Some m \<Rightarrow> load_market_wrapper F E oracles now m),
      rc_get_borrow_position = (\<lambda>market_key authority.
        let key = fst (find_borrow_position_pda E pid market_key authority) in (key, map_of borrows key)),
      rc_get_supply_position = (\<lambda>market_key authority.
        let key = fst (find_supply_position_pda E pid market_key authority) in (key, map_of supplies key)),
      rc_get_global_config = Some global\<rparr>"

definition ri_client :: "fixed_crate \<Rightarrow> environment \<Rightarrow> i64 \<Rightarrow> read_client_impl \<Rightarrow> read_client" where
  "ri_client F E now self = cache_client F E now (ri_program_id self) (ri_market_map self)
     (ri_supply_position_map self) (ri_borrow_position_map self) (ri_oracle_map self) (ri_global_config self)"

text \<open>The positions are reloaded for what they are worth: their errors are dropped.\<close>

definition ri_reload_authority_accounts_for_market ::
    "fixed_crate \<Rightarrow> environment \<Rightarrow> rpc_node \<Rightarrow> i64 \<Rightarrow> pubkey \<Rightarrow> pubkey \<Rightarrow> read_client_impl
     \<Rightarrow> read_client_impl \<times> unit outcome" where
  "ri_reload_authority_accounts_for_market F E node ts market_key authority self =
     (case ri_reload_market F E node ts market_key self of
        (s1, Done _) \<Rightarrow>
          (case ri_reload_supply_position E node
                  (fst (rc_get_supply_position (ri_client F E ts s1) market_key authority)) s1 of
             Panicked \<Rightarrow> (s1, Panicked)
           | r \<Rightarrow>
               (let s2 = (case r of Done s \<Rightarrow> s | _ \<Rightarrow> s1) in
                case ri_reload_borrow_position E node
                       (fst (rc_get_borrow_position (ri_client F E ts s2) market_key authority)) s2 of
                  Panicked \<Rightarrow> (s2, Panicked)
                | Done s3 \<Rightarrow> (s3, Done ())
                | Failed _ \<Rightarrow> (s2, Done ())))
      | (s1, r) \<Rightarrow> (s1, r))"

section \<open>shared\_autara\_state.rs\<close>

record shared_state =
  ss_program_id :: pubkey
  ss_market_map :: "(pubkey \<times> market) list"
  ss_supply_position_map :: "(pubkey \<times> supply_position) list"
  ss_borrow_position_map :: "(pubkey \<times> borrow_position) list"
  ss_oracle_map :: "(pubkey \<times> account_info) list"
  ss_mint_decimals :: "(pubkey \<times> u8) list"
  ss_global_config :: global_config

definition shared_state_new :: "pubkey \<Rightarrow> shared_state" where
  "shared_state_new program_id = \<lparr>ss_program_id = program_id, ss_market_map = [],
     ss_supply_position_map = [], ss_borrow_position_map = [], ss_oracle_map = [], ss_mint_decimals = [],
     ss_global_config = global_config_default\<rparr>"

definition get_token_decimals :: "shared_state \<Rightarrow> pubkey \<Rightarrow> u8 option" where
  "get_token_decimals self mint = map_of (ss_mint_decimals self) mint"

text \<open>\<open>entry(..).or_insert(..)\<close>.\<close>

definition or_insert :: "pubkey \<Rightarrow> 'a \<Rightarrow> (pubkey \<times> 'a) list \<Rightarrow> (pubkey \<times> 'a) list" where
  "or_insert k v m = (case map_of m k of None \<Rightarrow> insert_kv k v m | Some _ \<Rightarrow> m)"

text \<open>The market is a copy: unless its accrual succeeds the cache keeps the one it had.\<close>

definition process_single_market ::
    "fixed_crate \<Rightarrow> environment \<Rightarrow> i64 \<Rightarrow> pubkey \<Rightarrow> market \<Rightarrow> shared_state \<Rightarrow> shared_state \<times> unit outcome" where
  "process_single_market F E ts key m self =
     (let s1 = self\<lparr>ss_mint_decimals :=
            or_insert (cv_mint (m_collateral_vault m)) (cv_mint_decimals (m_collateral_vault m))
              (or_insert (sv_mint (m_supply_vault m)) (sv_mint_decimals (m_supply_vault m))
                (ss_mint_decimals self))\<rparr> in
      case inner_reload_market F E (ss_oracle_map s1) ts m of
        (m', Done _) \<Rightarrow> (s1\<lparr>ss_market_map := insert_kv key m' (ss_market_map s1)\<rparr>, Done ())
      | (_, r) \<Rightarrow> (s1, r))"

fun process_markets ::
    "fixed_crate \<Rightarrow> environment \<Rightarrow> i64 \<Rightarrow> (pubkey \<times> market) list \<Rightarrow> shared_state \<Rightarrow> shared_state \<times> unit outcome" where
  "process_markets F E ts [] s = (s, Done ())"
| "process_markets F E ts ((k, m) # ms) s =
     (case process_single_market F E ts k m s of
        (s', Panicked) \<Rightarrow> (s', Panicked)
      | (s', _) \<Rightarrow> process_markets F E ts ms s')"

definition ss_reload ::
    "fixed_crate \<Rightarrow> environment \<Rightarrow> rpc_node \<Rightarrow> i64 \<Rightarrow> shared_state \<Rightarrow> shared_state \<times> unit outcome" where
  "ss_reload F E node ts self =
     (let pid = ss_program_id self;
          joined =
            bind_o (get_program_accounts_pod node (supply_position_from_bytes E) pid (Some supply_position_filter))
              (\<lambda>supplies.
            bind_o (get_program_accounts_pod node (borrow_position_from_bytes E) pid (Some borrow_position_filter))
              (\<lambda>borrows.
            bind_o (get_program_accounts_pod node (market_from_bytes E) pid (Some market_filter)) (\<lambda>markets.
            bind_o (get_pod_account E node 256 (global_config_from_bytes E) (fst (find_global_config_pda E pid)))
              (\<lambda>global.
              Done (supplies, borrows, markets, global))))) in
      case joined of
        Done (supplies, borrows, markets, global) \<Rightarrow>
          (let s1 = self\<lparr>ss_supply_position_map := insert_all supplies (ss_supply_position_map self),
                 ss_borrow_position_map := insert_all borrows (ss_borrow_position_map self),
                 ss_global_config := global\<rparr>;
               oracle_keys = oracle_keys_of E (map snd markets) in
           case get_multiple_accounts_batch (rpc_get_multiple_accounts node) oracle_keys of
             Done accs \<Rightarrow>
               process_markets F E ts markets
                 (s1\<lparr>ss_oracle_map := insert_oracles (batch_into_iter accs) (ss_oracle_map s1)\<rparr>)
           | Failed _ \<Rightarrow> (s1, Failed ''failed to fetch oracle accounts'')
           | Panicked \<Rightarrow> (s1, Panicked))
      | Failed e \<Rightarrow> (self, Failed e)
      | Panicked \<Rightarrow> (self, Panicked))"

definition ss_client :: "fixed_crate \<Rightarrow> environment \<Rightarrow> i64 \<Rightarrow> shared_state \<Rightarrow> read_client" where
  "ss_client F E now self = cache_client F E now (ss_program_id self) (ss_market_map self)
     (ss_supply_position_map self) (ss_borrow_position_map self) (ss_oracle_map self) (ss_global_config self)"

section \<open>The contract of an implementation\<close>

locale autara_read_client =
  fixes F :: fixed_crate and E :: environment and C :: read_client
  assumes market_listed:
      "rc_get_market C k = Done (Some w) \<Longrightarrow> rc_all_markets C = Done ws \<Longrightarrow> (k, w) \<in> set ws"
    and fresh_listed:
      "rc_all_markets C = Done ws \<Longrightarrow> rc_all_markets_maybe_stale C = Done ws' \<Longrightarrow> (k, w) \<in> set ws \<Longrightarrow>
        (k, w, False) \<in> set ws'"
    and borrow_position_listed:
      "rc_get_borrow_position C k a = (key, Some p) \<Longrightarrow> (key, p) \<in> set (rc_all_borrow_position C)"
    and borrow_position_key:
      "fst (rc_get_borrow_position C k a) = fst (find_borrow_position_pda E (rc_autara_program_id C) k a)"
    and supply_position_listed:
      "rc_get_supply_position C k a = (key, Some q) \<Longrightarrow> (key, q) \<in> set (rc_all_supply_position C)"
    and supply_position_key:
      "fst (rc_get_supply_position C k a) = fst (find_supply_position_pda E (rc_autara_program_id C) k a)"
begin

lemma user_positions_in_borrow:
  assumes "user_positions_in F C a ws = Done u" and "(k, w) \<in> set ws"
    and "snd (rc_get_borrow_position C k a) = Some p" and "mw_borrow_position_health F w p = Ok h"
  shows "\<lparr>bpi_position = p, bpi_health = h\<rparr> \<in> set (up_borrow_positions u)"
  using assms by (induction F C a ws arbitrary: u rule: user_positions_in.induct) auto

text \<open>The health of one position is the one that the list of a user's positions shows.\<close>

lemma health_in_user_positions:
  assumes "get_borrow_position_health F C k a = Done h" and "user_positions_of F C a = Done u"
  shows "\<exists>p. snd (rc_get_borrow_position C k a) = Some p
    \<and> (fst (find_borrow_position_pda E (rc_autara_program_id C) k a), p) \<in> set (rc_all_borrow_position C)
    \<and> \<lparr>bpi_position = p, bpi_health = h\<rparr> \<in> set (up_borrow_positions u)"
proof -
  from assms(1) obtain p w where p: "snd (rc_get_borrow_position C k a) = Some p"
    and w: "rc_get_market C k = Done (Some w)" and h: "mw_borrow_position_health F w p = Ok h"
    by (auto simp: get_borrow_position_health_def)
  from assms(2) obtain ws where ws: "rc_all_markets C = Done ws" "user_positions_in F C a ws = Done u"
    by (auto simp: user_positions_of_def)
  have "rc_get_borrow_position C k a
      = (fst (find_borrow_position_pda E (rc_autara_program_id C) k a), Some p)"
    using borrow_position_key [of k a] p by (cases "rc_get_borrow_position C k a") simp
  with user_positions_in_borrow [OF ws(2) market_listed [OF w ws(1)] p h] borrow_position_listed p
  show ?thesis by blast
qed

end

lemma mw_try_new_fresh:
  "mw_try_new F R m s c now = Ok w \<Longrightarrow> mw_try_new_or_unchecked F R m s c now = Ok (w, False)"
  by (auto simp: mw_try_new_def mw_try_new_or_unchecked_def load_and_validate_oracle_rate_def bind_r_eq_Ok Let_def
      is_ok_iff)

lemma with_oracles_mono:
  assumes "\<And>s c w. load s c = Ok w \<Longrightarrow> load' s c = Ok (f w)"
  shows "with_oracles E om m load = Done (Some w) \<Longrightarrow> with_oracles E om m load' = Done (Some (f w))"
  by (auto simp: with_oracles_def Let_def split: option.splits prod.splits elim!: ok_o.elims dest: assms)

lemma cache_client_contract: "autara_read_client E (cache_client F E now pid ms ss bs os g)"
proof
  let ?C = "cache_client F E now pid ms ss bs os g"
  fix k w ws
  assume "rc_get_market ?C k = Done (Some w)" "rc_all_markets ?C = Done ws"
  then show "(k, w) \<in> set ws"
    by (auto simp: cache_client_def load_all_Done dest: map_of_SomeD split: option.splits)
next
  let ?C = "cache_client F E now pid ms ss bs os g"
  fix ws ws' k w
  assume "rc_all_markets ?C = Done ws" "rc_all_markets_maybe_stale ?C = Done ws'" "(k, w) \<in> set ws"
  then show "(k, w, False) \<in> set ws'"
    using with_oracles_mono [where f = "\<lambda>w. (w, False)" and load = "\<lambda>s c. mw_try_new F (env_runtime E) m s c now"
        and load' = "\<lambda>s c. mw_try_new_or_unchecked F (env_runtime E) m s c now" for m, OF mw_try_new_fresh]
    by (auto simp: cache_client_def load_all_Done load_market_wrapper_def load_market_wrapper_maybe_stale_def)
qed (auto simp: cache_client_def Let_def dest: map_of_SomeD)

interpretation single_thread: autara_read_client F E "ri_client F E now s" for F E now s
  unfolding ri_client_def by (rule cache_client_contract)

interpretation shared: autara_read_client F E "ss_client F E now s" for F E now s
  unfolding ss_client_def by (rule cache_client_contract)

end
