(* ===== verification/Client_Transactions.thy ===== *)
theory Client_Transactions
  imports Client_Read
begin

text \<open>
  The transactions that the clients build, \<open>src/autara-client/src/client/tx_builder.rs\<close>: for every operation
  the accounts are taken from the cached market, missing token accounts and positions are created in the
  same transaction, and the message is signed (\<open>TransactionToSign\<close>). The message itself, its hash and the
  signature scheme belong to \<open>arch_sdk\<close>; they are parameters.
\<close>

section \<open>The builder\<close>

record arch_message =
  msg_account_keys :: "pubkey list"
  msg_num_required_signatures :: u8
  msg_hash :: "u8 list"

type_synonym message_new = "arch_instruction list \<Rightarrow> pubkey option \<Rightarrow> u8 list \<Rightarrow> arch_message"

record transaction_to_sign =
  tt_instructions :: "arch_instruction list"
  tt_message :: arch_message
  tt_message_hash :: "u8 list"

text \<open>\<open>tb_blockhash\<close> is the cached block hash, or what the node answers.\<close>

record transaction_builder =
  tb_read_client :: read_client
  tb_program_id :: pubkey
  tb_authority_key :: pubkey
  tb_blockhash :: "u8 list outcome"

definition build_transaction_digest_hash_to_sign ::
    "message_new \<Rightarrow> transaction_builder \<Rightarrow> arch_instruction list \<Rightarrow> transaction_to_sign outcome" where
  "build_transaction_digest_hash_to_sign M self ixs =
     bind_o (tb_blockhash self) (\<lambda>blockhash.
       let message = M ixs (Some (tb_authority_key self)) blockhash in
       Done \<lparr>tt_instructions = ixs, tt_message = message, tt_message_hash = msg_hash message\<rparr>)"

definition ensure_ata_ix :: "environment \<Rightarrow> pubkey \<Rightarrow> pubkey \<Rightarrow> arch_instruction" where
  "ensure_ata_ix E wallet mint = create_ata_ix E wallet (Some (associated_token_address E wallet mint)) wallet mint"

text \<open>\<open>get_market(..).context("market not found")?\<close>\<close>

definition found_market :: "transaction_builder \<Rightarrow> pubkey \<Rightarrow> (market \<Rightarrow> 'a outcome) \<Rightarrow> 'a outcome" where
  "found_market self market_key f =
     bind_o (rc_get_market (tb_read_client self) market_key) (\<lambda>found.
     bind_o (context_o ''market not found'' found) (\<lambda>w. f (mw_market w)))"

abbreviation own_ata :: "environment \<Rightarrow> transaction_builder \<Rightarrow> pubkey \<Rightarrow> pubkey" where
  "own_ata E self mint \<equiv> associated_token_address E (tb_authority_key self) mint"

section \<open>Set-up\<close>

definition tx_create_market ::
    "environment \<Rightarrow> instruction_codecs \<Rightarrow> message_new \<Rightarrow> transaction_builder \<Rightarrow> pubkey \<Rightarrow> pubkey
     \<Rightarrow> create_market_instruction \<Rightarrow> pubkey \<Rightarrow> pubkey \<Rightarrow> (pubkey \<times> transaction_to_sign) outcome" where
  "tx_create_market E B M self curator_key payer create_market supply_mint collateral_mint =
     (let (market_key, ix) = create_market_ix E B create_market supply_mint collateral_mint (tb_program_id self)
            curator_key payer in
      bind_o (build_transaction_digest_hash_to_sign M self [ix]) (\<lambda>tx. Done (market_key, tx)))"

definition tx_create_global_config ::
    "environment \<Rightarrow> instruction_codecs \<Rightarrow> message_new \<Rightarrow> transaction_builder \<Rightarrow> pubkey \<Rightarrow> pubkey \<Rightarrow> pubkey \<Rightarrow> u16
     \<Rightarrow> (pubkey \<times> transaction_to_sign) outcome" where
  "tx_create_global_config E B M self payer admin_key fee_receiver_key share_in_bps =
     (let (global_config_pda, ix) = create_global_config_ix E B (tb_program_id self) payer admin_key fee_receiver_key
            share_in_bps in
      bind_o (build_transaction_digest_hash_to_sign M self [ix]) (\<lambda>tx. Done (global_config_pda, tx)))"

section \<open>Lenders\<close>

definition tx_supply ::
    "environment \<Rightarrow> instruction_codecs \<Rightarrow> message_new \<Rightarrow> transaction_builder \<Rightarrow> pubkey \<Rightarrow> u64 \<Rightarrow> transaction_to_sign outcome" where
  "tx_supply E B M self market_key atoms =
     found_market self market_key (\<lambda>m.
       let authority = tb_authority_key self;
           (supply_pda, supply_position) = rc_get_supply_position (tb_read_client self) market_key authority;
           (supply_oracle_id, collateral_oracle_id) = market_get_oracle_keys (env_runtime E) m in
       build_transaction_digest_hash_to_sign M self
         ([ensure_ata_ix E authority (supply_mint_of m)]
          @ (if supply_position = None
             then [snd (create_supply_position_ix E B (tb_program_id self) market_key authority authority)] else [])
          @ [supply_apl_ix E B (tb_program_id self) market_key supply_pda authority
               (own_ata E self (supply_mint_of m)) (sv_vault (m_supply_vault m)) supply_oracle_id
               collateral_oracle_id atoms]))"

definition tx_withdraw_supply ::
    "environment \<Rightarrow> instruction_codecs \<Rightarrow> message_new \<Rightarrow> transaction_builder \<Rightarrow> pubkey \<Rightarrow> u64 option \<Rightarrow> transaction_to_sign outcome" where
  "tx_withdraw_supply E B M self market_key atoms =
     found_market self market_key (\<lambda>m.
       let authority = tb_authority_key self;
           (supply_pda, _) = rc_get_supply_position (tb_read_client self) market_key authority;
           (supply_oracle_id, collateral_oracle_id) = market_get_oracle_keys (env_runtime E) m in
       build_transaction_digest_hash_to_sign M self
         [ensure_ata_ix E authority (supply_mint_of m),
          withdraw_supply_ix E B (tb_program_id self) market_key supply_pda authority
            (own_ata E self (supply_mint_of m)) (sv_vault (m_supply_vault m)) supply_oracle_id
            collateral_oracle_id (case atoms of None \<Rightarrow> 0 | Some n \<Rightarrow> n) (atoms = None)])"

definition tx_donate_supply ::
    "environment \<Rightarrow> instruction_codecs \<Rightarrow> message_new \<Rightarrow> transaction_builder \<Rightarrow> pubkey \<Rightarrow> u64 \<Rightarrow> transaction_to_sign outcome" where
  "tx_donate_supply E B M self market_key atoms =
     found_market self market_key (\<lambda>m.
       build_transaction_digest_hash_to_sign M self
         [ensure_ata_ix E (tb_authority_key self) (supply_mint_of m),
          donate_supply_ix E B (tb_program_id self) market_key (tb_authority_key self)
            (own_ata E self (supply_mint_of m)) (sv_vault (m_supply_vault m)) atoms])"

section \<open>Borrowers\<close>

definition tx_deposit_collateral ::
    "environment \<Rightarrow> instruction_codecs \<Rightarrow> message_new \<Rightarrow> transaction_builder \<Rightarrow> pubkey \<Rightarrow> u64 \<Rightarrow> transaction_to_sign outcome" where
  "tx_deposit_collateral E B M self market_key atoms =
     found_market self market_key (\<lambda>m.
       let authority = tb_authority_key self;
           (borrow_pda, borrow_position) = rc_get_borrow_position (tb_read_client self) market_key authority;
           (supply_oracle_id, collateral_oracle_id) = market_get_oracle_keys (env_runtime E) m in
       build_transaction_digest_hash_to_sign M self
         ([ensure_ata_ix E authority (collateral_mint_of m)]
          @ (if borrow_position = None
             then [snd (create_borrow_position_ix E B (tb_program_id self) market_key authority authority)] else [])
          @ [deposit_apl_collateral_ix E B (tb_program_id self) market_key authority borrow_pda
               (own_ata E self (collateral_mint_of m)) (cv_vault (m_collateral_vault m)) supply_oracle_id
               collateral_oracle_id atoms]))"

definition tx_borrow ::
    "environment \<Rightarrow> instruction_codecs \<Rightarrow> message_new \<Rightarrow> transaction_builder \<Rightarrow> pubkey \<Rightarrow> u64 \<Rightarrow> transaction_to_sign outcome" where
  "tx_borrow E B M self market_key atoms =
     found_market self market_key (\<lambda>m.
       let authority = tb_authority_key self;
           (borrow_pda, _) = rc_get_borrow_position (tb_read_client self) market_key authority;
           (supply_oracle_id, collateral_oracle_id) = market_get_oracle_keys (env_runtime E) m in
       build_transaction_digest_hash_to_sign M self
         [ensure_ata_ix E authority (supply_mint_of m),
          borrow_apl_ix E B (tb_program_id self) market_key authority borrow_pda
            (own_ata E self (supply_mint_of m)) (sv_vault (m_supply_vault m)) supply_oracle_id
            collateral_oracle_id atoms])"

definition tx_repay ::
    "environment \<Rightarrow> instruction_codecs \<Rightarrow> message_new \<Rightarrow> transaction_builder \<Rightarrow> pubkey \<Rightarrow> u64 option \<Rightarrow> transaction_to_sign outcome" where
  "tx_repay E B M self market_key atoms =
     found_market self market_key (\<lambda>m.
       let authority = tb_authority_key self;
           (borrow_pda, _) = rc_get_borrow_position (tb_read_client self) market_key authority;
           (supply_oracle_id, collateral_oracle_id) = market_get_oracle_keys (env_runtime E) m in
       build_transaction_digest_hash_to_sign M self
         [ensure_ata_ix E authority (supply_mint_of m),
          repay_apl_ix E B (tb_program_id self) market_key borrow_pda authority
            (own_ata E self (supply_mint_of m)) (sv_vault (m_supply_vault m)) supply_oracle_id
            collateral_oracle_id (case atoms of None \<Rightarrow> 0 | Some n \<Rightarrow> n) (atoms = None)])"

definition tx_withdraw_collateral ::
    "environment \<Rightarrow> instruction_codecs \<Rightarrow> message_new \<Rightarrow> transaction_builder \<Rightarrow> pubkey \<Rightarrow> u64 option \<Rightarrow> transaction_to_sign outcome" where
  "tx_withdraw_collateral E B M self market_key atoms =
     found_market self market_key (\<lambda>m.
       let authority = tb_authority_key self;
           (borrow_pda, _) = rc_get_borrow_position (tb_read_client self) market_key authority;
           (supply_oracle_id, collateral_oracle_id) = market_get_oracle_keys (env_runtime E) m in
       build_transaction_digest_hash_to_sign M self
         [ensure_ata_ix E authority (collateral_mint_of m),
          withdraw_apl_collateral_ix E B (tb_program_id self) market_key authority borrow_pda
            (own_ata E self (collateral_mint_of m)) (cv_vault (m_collateral_vault m)) supply_oracle_id
            collateral_oracle_id (case atoms of None \<Rightarrow> 0 | Some n \<Rightarrow> n) (atoms = None)])"

text \<open>Here the account of the collateral token is not created: the deposit needs its content.\<close>

definition tx_borrow_deposit ::
    "environment \<Rightarrow> instruction_codecs \<Rightarrow> message_new \<Rightarrow> transaction_builder \<Rightarrow> pubkey \<Rightarrow> borrow_deposit_apl_instruction
     \<Rightarrow> transaction_to_sign outcome" where
  "tx_borrow_deposit E B M self market_key ix =
     found_market self market_key (\<lambda>m.
       let authority = tb_authority_key self;
           (borrow_pda, borrow_position) = rc_get_borrow_position (tb_read_client self) market_key authority;
           (supply_oracle_id, collateral_oracle_id) = market_get_oracle_keys (env_runtime E) m in
       build_transaction_digest_hash_to_sign M self
         ((if borrow_position = None
           then [snd (create_borrow_position_ix E B (tb_program_id self) market_key authority authority)] else [])
          @ [ensure_ata_ix E authority (supply_mint_of m),
             borrow_deposit_apl_ix E B (tb_program_id self) market_key authority borrow_pda
               (own_ata E self (supply_mint_of m)) (sv_vault (m_supply_vault m))
               (own_ata E self (collateral_mint_of m)) (cv_vault (m_collateral_vault m)) supply_oracle_id
               collateral_oracle_id ix]))"

definition tx_withdraw_repay ::
    "environment \<Rightarrow> instruction_codecs \<Rightarrow> message_new \<Rightarrow> transaction_builder \<Rightarrow> pubkey \<Rightarrow> withdraw_repay_apl_instruction
     \<Rightarrow> transaction_to_sign outcome" where
  "tx_withdraw_repay E B M self market_key ix =
     found_market self market_key (\<lambda>m.
       let authority = tb_authority_key self;
           (borrow_pda, _) = rc_get_borrow_position (tb_read_client self) market_key authority;
           (supply_oracle_id, collateral_oracle_id) = market_get_oracle_keys (env_runtime E) m in
       build_transaction_digest_hash_to_sign M self
         [ensure_ata_ix E authority (supply_mint_of m), ensure_ata_ix E authority (collateral_mint_of m),
          withdraw_repay_apl_ix E B (tb_program_id self) market_key authority borrow_pda
            (own_ata E self (supply_mint_of m)) (sv_vault (m_supply_vault m))
            (own_ata E self (collateral_mint_of m)) (cv_vault (m_collateral_vault m)) supply_oracle_id
            collateral_oracle_id ix])"

section \<open>Liquidators and curators\<close>

definition tx_liquidate ::
    "environment \<Rightarrow> instruction_codecs \<Rightarrow> message_new \<Rightarrow> transaction_builder \<Rightarrow> pubkey \<Rightarrow> pubkey \<Rightarrow> u64 option \<Rightarrow> u64 option
     \<Rightarrow> arch_instruction option \<Rightarrow> transaction_to_sign outcome" where
  "tx_liquidate E B M self market_key borrow_position_key max_repay min_receive ix_callback =
     found_market self market_key (\<lambda>m.
       let authority = tb_authority_key self;
           (supply_oracle_id, collateral_oracle_id) = market_get_oracle_keys (env_runtime E) m;
           entry = (if liquidations_are_permissionless (config m) then None
             else Some (fst (find_liquidator_whitelist_entry_pda E (tb_program_id self) market_key authority))) in
       build_transaction_digest_hash_to_sign M self
         [ensure_ata_ix E authority (supply_mint_of m), ensure_ata_ix E authority (collateral_mint_of m),
          liquidate_ix E B (tb_program_id self) market_key borrow_position_key authority
            (own_ata E self (supply_mint_of m)) (own_ata E self (collateral_mint_of m))
            (sv_vault (m_supply_vault m)) (cv_vault (m_collateral_vault m)) supply_oracle_id collateral_oracle_id
            (case max_repay of None \<Rightarrow> - 1 | Some n \<Rightarrow> n) (case min_receive of None \<Rightarrow> 0 | Some n \<Rightarrow> n) entry
            ix_callback])"

definition tx_begin_capital_sweep ::
    "environment \<Rightarrow> instruction_codecs \<Rightarrow> message_new \<Rightarrow> transaction_builder \<Rightarrow> pubkey \<Rightarrow> pubkey \<Rightarrow> transaction_to_sign outcome" where
  "tx_begin_capital_sweep E B M self market_key borrow_position_key =
     found_market self market_key (\<lambda>m.
       let (supply_oracle, collateral_oracle) = market_get_oracle_keys (env_runtime E) m in
       build_transaction_digest_hash_to_sign M self
         [ensure_ata_ix E (tb_authority_key self) (collateral_mint_of m),
          begin_capital_sweep_ix E B (tb_program_id self) market_key borrow_position_key (tb_authority_key self)
            (own_ata E self (collateral_mint_of m)) (cv_vault (m_collateral_vault m)) supply_oracle collateral_oracle])"

definition tx_settle_capital_sweep ::
    "environment \<Rightarrow> instruction_codecs \<Rightarrow> message_new \<Rightarrow> transaction_builder \<Rightarrow> pubkey \<Rightarrow> pubkey \<Rightarrow> u64 option \<Rightarrow> u64 option
     \<Rightarrow> transaction_to_sign outcome" where
  "tx_settle_capital_sweep E B M self market_key borrow_position_key max_repay max_return =
     found_market self market_key (\<lambda>m.
       let (supply_oracle, collateral_oracle) = market_get_oracle_keys (env_runtime E) m in
       build_transaction_digest_hash_to_sign M self
         (map (ensure_ata_ix E (tb_authority_key self)) [supply_mint_of m, collateral_mint_of m]
          @ [settle_capital_sweep_ix E B (tb_program_id self) market_key borrow_position_key (tb_authority_key self)
               (own_ata E self (supply_mint_of m)) (own_ata E self (collateral_mint_of m))
               (sv_vault (m_supply_vault m)) (cv_vault (m_collateral_vault m)) supply_oracle collateral_oracle
               (case max_repay of None \<Rightarrow> - 1 | Some n \<Rightarrow> n) (case max_return of None \<Rightarrow> - 1 | Some n \<Rightarrow> n)]))"

definition tx_socialize_loss ::
    "environment \<Rightarrow> instruction_codecs \<Rightarrow> message_new \<Rightarrow> transaction_builder \<Rightarrow> pubkey \<Rightarrow> pubkey \<Rightarrow> transaction_to_sign outcome" where
  "tx_socialize_loss E B M self market_key position =
     found_market self market_key (\<lambda>m.
       let oracles = market_get_oracle_keys (env_runtime E) m in
       build_transaction_digest_hash_to_sign M self
         [ensure_ata_ix E (tb_authority_key self) (collateral_mint_of m),
          socialize_loss_ix E B (tb_program_id self) market_key position (tb_authority_key self)
            (own_ata E self (collateral_mint_of m)) (cv_vault (m_collateral_vault m)) (fst oracles) (snd oracles)])"

definition tx_update_config ::
    "environment \<Rightarrow> instruction_codecs \<Rightarrow> message_new \<Rightarrow> transaction_builder \<Rightarrow> pubkey \<Rightarrow> update_config_instruction
     \<Rightarrow> transaction_to_sign outcome" where
  "tx_update_config E B M self market_key cfg =
     found_market self market_key (\<lambda>m.
       let oracle_keys = market_get_oracle_keys (env_runtime E) m in
       case update_config_ix E B (tb_program_id self) market_key (tb_authority_key self) cfg (fst oracle_keys)
              (snd oracle_keys) of
         POk ix \<Rightarrow> build_transaction_digest_hash_to_sign M self [ix]
       | _ \<Rightarrow> Panicked)"

definition tx_add_whitelisted_liquidator ::
    "environment \<Rightarrow> instruction_codecs \<Rightarrow> message_new \<Rightarrow> transaction_builder \<Rightarrow> pubkey \<Rightarrow> pubkey
     \<Rightarrow> (pubkey \<times> transaction_to_sign) outcome" where
  "tx_add_whitelisted_liquidator E B M self market_key liquidator_key =
     (let (entry, ix) = add_whitelisted_liquidator_ix E B (tb_program_id self) market_key (tb_authority_key self)
            liquidator_key in
      bind_o (build_transaction_digest_hash_to_sign M self [ix]) (\<lambda>tx. Done (entry, tx)))"

definition tx_remove_whitelisted_liquidator ::
    "environment \<Rightarrow> instruction_codecs \<Rightarrow> message_new \<Rightarrow> transaction_builder \<Rightarrow> pubkey \<Rightarrow> pubkey
     \<Rightarrow> (pubkey \<times> transaction_to_sign) outcome" where
  "tx_remove_whitelisted_liquidator E B M self market_key liquidator_key =
     (let (entry, ix) = remove_whitelisted_liquidator_ix E B (tb_program_id self) market_key (tb_authority_key self)
            liquidator_key in
      bind_o (build_transaction_digest_hash_to_sign M self [ix]) (\<lambda>tx. Done (entry, tx)))"

section \<open>Fees and the protocol\<close>

definition tx_redeem_curator_fees ::
    "environment \<Rightarrow> instruction_codecs \<Rightarrow> message_new \<Rightarrow> transaction_builder \<Rightarrow> pubkey \<Rightarrow> transaction_to_sign outcome" where
  "tx_redeem_curator_fees E B M self market_key =
     found_market self market_key (\<lambda>m.
       build_transaction_digest_hash_to_sign M self
         [ensure_ata_ix E (tb_authority_key self) (supply_mint_of m),
          reedeem_curator_fees_ix E B (tb_program_id self) market_key (tb_authority_key self)
            (own_ata E self (supply_mint_of m)) (sv_vault (m_supply_vault m))])"

definition tx_redeem_protocol_fees ::
    "environment \<Rightarrow> instruction_codecs \<Rightarrow> message_new \<Rightarrow> transaction_builder \<Rightarrow> pubkey \<Rightarrow> transaction_to_sign outcome" where
  "tx_redeem_protocol_fees E B M self market_key =
     found_market self market_key (\<lambda>m.
       let receiver = tb_authority_key self in
       build_transaction_digest_hash_to_sign M self
         [ensure_ata_ix E receiver (supply_mint_of m),
          reedeem_protocol_fees_ix E B (tb_program_id self) market_key receiver
            (own_ata E self (supply_mint_of m)) (sv_vault (m_supply_vault m))])"

definition tx_update_global_config ::
    "environment \<Rightarrow> instruction_codecs \<Rightarrow> message_new \<Rightarrow> transaction_builder \<Rightarrow> update_global_config_instruction
     \<Rightarrow> transaction_to_sign outcome" where
  "tx_update_global_config E B M self upd =
     build_transaction_digest_hash_to_sign M self
       [update_global_config_ix E B (tb_program_id self) (tb_authority_key self) upd]"

section \<open>Signing\<close>

record keypair =
  kp_pubkey :: pubkey
  kp_secret :: "u8 list"

record runtime_transaction =
  rt_version :: u32
  rt_signatures :: "u8 list list"
  rt_message :: arch_message

fun sign_keys ::
    "(keypair \<Rightarrow> u8 list \<Rightarrow> u8 list) \<Rightarrow> keypair list \<Rightarrow> u8 list \<Rightarrow> pubkey list \<Rightarrow> u8 list list option" where
  "sign_keys sign_message_bip322 signers digest [] = Some []"
| "sign_keys sign_message_bip322 signers digest (k # ks) =
     Option.bind (find (\<lambda>signer. kp_pubkey signer = k) signers) (\<lambda>signer.
       map_option (Cons (sign_message_bip322 signer digest)) (sign_keys sign_message_bip322 signers digest ks))"

definition tx_sign ::
    "(keypair \<Rightarrow> u8 list \<Rightarrow> u8 list) \<Rightarrow> keypair list \<Rightarrow> transaction_to_sign \<Rightarrow> runtime_transaction outcome" where
  "tx_sign sign_message_bip322 signers self =
     (case sign_keys sign_message_bip322 signers (tt_message_hash self)
             (take (unat (msg_num_required_signatures (tt_message self))) (msg_account_keys (tt_message self))) of
        None \<Rightarrow> Panicked
      | Some signatures \<Rightarrow> Done \<lparr>rt_version = 0, rt_signatures = signatures, rt_message = tt_message self\<rparr>)"

end
