(* ===== verification/Client_Agreement.thy ===== *)
theory Client_Agreement
  imports Client_Read Program_Steps Program_Examples
begin

text \<open>
  What the caches show is what the program computes. On a node that answers from one state of the chain,
  a reload leaves the accounts of that state, with the interest accrued as the handlers of the program
  accrue it, whatever the cache held before.
\<close>

section \<open>Maps\<close>

lemma map_of_insert_all: "map_of (insert_all kvs m) = map_of m ++ map_of (rev kvs)"
  by (induction kvs arbitrary: m) (auto simp: insert_all_def update_conv' map_add_def fun_eq_iff split: option.splits)

lemma map_of_insert_all_unique:
  "distinct (map fst kvs) \<Longrightarrow> map_of (insert_all kvs m) = map_of m ++ map_of kvs"
  using map_of_inject_set [of "rev kvs" kvs] by (simp add: map_of_insert_all rev_map [symmetric])

lemma insert_all_distinct: "distinct (map fst m) \<Longrightarrow> distinct (map fst (insert_all kvs m))"
  by (induction kvs arbitrary: m) (auto simp: insert_all_def distinct_update)

lemma map_of_collect_unique: "distinct (map fst kvs) \<Longrightarrow> map_of (collect_map kvs) = map_of kvs"
  by (simp add: collect_map_def map_of_insert_all_unique)

section \<open>The node\<close>

text \<open>The accounts of one state of the chain, and a node that answers from them.\<close>

type_synonym snapshot = "pubkey \<Rightarrow> account_info option"

fun filter_matches :: "environment \<Rightarrow> account_filter \<Rightarrow> account_info \<Rightarrow> bool" where
  "filter_matches E (DataSize n) a \<longleftrightarrow> account_size (ai_data a) = Some n"
| "filter_matches E (DataContent offset bytes) a \<longleftrightarrow>
     take (length bytes) (drop offset (data_bytes E a)) = bytes"

definition answers_from :: "environment \<Rightarrow> rpc_node \<Rightarrow> snapshot \<Rightarrow> bool" where
  "answers_from E node L \<longleftrightarrow>
     (\<forall>k a. L k = Some a \<longrightarrow> ai_key a = k)
     \<and> (\<forall>k a. L k = Some a \<longrightarrow> rpc_read_account_info node k = Done a)
     \<and> (\<forall>ks. length ks \<le> MAX_BATCH_SIZE \<longrightarrow> rpc_get_multiple_accounts node ks = Done (map L ks))
     \<and> (\<forall>pid fs. \<exists>accs. rpc_get_program_accounts node pid (Some fs) = Done accs \<and> distinct (map ai_key accs)
          \<and> set accs = {a. L (ai_key a) = Some a \<and> ai_owner a = pid \<and> list_all (\<lambda>f. filter_matches E f a) fs})"

lemma batch_answer:
  assumes "answers_from E node L"
  shows "\<exists>b. get_multiple_accounts_batch (rpc_get_multiple_accounts node) ks = Done b
    \<and> batch_into_iter b = List.map_filter L ks"
proof -
  have "bind_o (get_multiple_accounts_batch (rpc_get_multiple_accounts node) ks) (\<lambda>b. Done (batch_into_iter b))
      = Done (List.map_filter L ks)"
    using assms by (intro get_multiple_accounts_batch_pointwise) (simp add: answers_from_def)
  then show ?thesis by simp
qed

lemma set_map_filter': "set (List.map_filter f xs) = {y. \<exists>x \<in> set xs. f x = Some y}"
  by (induction xs) (auto simp: List.map_filter_simps split: option.splits)

lemma map_of_accounts:
  assumes "\<And>a. a \<in> set accs \<Longrightarrow> L (ai_key a) = Some a"
  shows "map_of (map (\<lambda>a. (ai_key a, a)) accs) k = (if k \<in> ai_key ` set accs then L k else None)"
  using assms by (induction accs) auto

lemma oracle_answer:
  assumes "answers_from E node L" and "L k = Some a" and "k \<in> set ks"
  shows "map_of (insert_oracles (List.map_filter L ks) m0) k = Some a"
proof -
  have key: "L j = Some b \<Longrightarrow> ai_key b = j" for j b using assms(1) by (simp add: answers_from_def)
  have l: "L (ai_key b) = Some b" if "b \<in> set (rev (List.map_filter L ks))" for b
    using that key by (auto simp: set_map_filter')
  have "k \<in> ai_key ` set (rev (List.map_filter L ks))"
    using assms(2,3) key by (force simp: set_map_filter')
  then show ?thesis
    using assms(2) map_of_accounts [of "rev (List.map_filter L ks)" L k, OF l]
    by (simp add: insert_oracles_def map_of_insert_all rev_map [symmetric] map_add_def)
qed

text \<open>Program accounts of one type, by their keys.\<close>

lemma pod_accounts_answer:
  assumes "answers_from E node L"
    and "\<And>d x. from_bytes d = Some x \<Longrightarrow> account_size d = Some n"
  shows "\<exists>kvs. get_program_accounts_pod node from_bytes pid (Some [DataSize n]) = Done kvs
    \<and> distinct (map fst kvs)
    \<and> (\<forall>k a x. L k = Some a \<longrightarrow> ai_owner a = pid \<longrightarrow> from_bytes (ai_data a) = Some x \<longrightarrow> map_of kvs k = Some x)"
proof -
  let ?f = "\<lambda>acc. map_option (Pair (ai_key acc)) (from_bytes (ai_data acc))"
  from assms(1) obtain accs where a: "rpc_get_program_accounts node pid (Some [DataSize n]) = Done accs"
      "distinct (map ai_key accs)"
      "set accs = {a. L (ai_key a) = Some a \<and> ai_owner a = pid \<and> list_all (\<lambda>f. filter_matches E f a) [DataSize n]}"
    unfolding answers_from_def by blast
  have fst: "set (map fst (List.map_filter ?f xs)) \<subseteq> set (map ai_key xs)" for xs
    by (auto simp: set_map_filter')
  have d: "distinct (map fst (List.map_filter ?f xs))" if "distinct (map ai_key xs)" for xs
    using that fst by (induction xs) (auto simp: List.map_filter_simps split: option.splits)
  have "map_of (List.map_filter ?f accs) k = Some x"
    if "L k = Some a" "ai_owner a = pid" "from_bytes (ai_data a) = Some x" for k a x
  proof -
    have k: "ai_key a = k" using assms(1) that(1) by (auto simp: answers_from_def)
    with that a(3) assms(2) [OF that(3)] have "a \<in> set accs" by auto
    with that(3) k have "(k, x) \<in> set (List.map_filter ?f accs)" by (force simp: set_map_filter')
    with d [OF a(2)] show ?thesis by simp
  qed
  with a d [OF a(2)] show ?thesis
    by (auto simp: get_program_accounts_pod_def get_program_accounts_with_def)
qed

lemma from_bytes_size:
  "market_from_bytes E d = Some m \<Longrightarrow> account_size d = Some 1448"
  "supply_position_from_bytes E d = Some q \<Longrightarrow> account_size d = Some 216"
  "borrow_position_from_bytes E d = Some p \<Longrightarrow> account_size d = Some 224"
  by (cases d; auto split: if_splits)+

lemma market_accounts_answer:
  assumes "answers_from E node L" and "L key = Some acc" and "ai_owner acc = pid"
    and "market_from_bytes E (ai_data acc) = Some m"
  shows "\<exists>ms. get_program_accounts_pod node (market_from_bytes E) pid (Some market_filter) = Done ms
    \<and> distinct (map fst ms) \<and> map_of ms key = Some m"
  using pod_accounts_answer [OF assms(1), where from_bytes = "market_from_bytes E" and n = 1448 and pid = pid]
    from_bytes_size(1) assms(2-) unfolding market_filter_def by blast

text \<open>A borrow position of the chain.\<close>

definition stored_borrow_position ::
    "environment \<Rightarrow> snapshot \<Rightarrow> pubkey \<Rightarrow> pubkey \<Rightarrow> borrow_position \<Rightarrow> bool" where
  "stored_borrow_position E L pid key p \<longleftrightarrow> (\<exists>acc. L key = Some acc \<and> ai_owner acc = pid
     \<and> borrow_position_from_bytes E (ai_data acc) = Some p)"

lemma borrow_accounts_answer:
  assumes "answers_from E node L"
  shows "\<exists>bs. get_program_accounts_pod node (borrow_position_from_bytes E) pid (Some borrow_position_filter) = Done bs
    \<and> distinct (map fst bs) \<and> (stored_borrow_position E L pid key p \<longrightarrow> map_of bs key = Some p)"
  using pod_accounts_answer [OF assms(1), where from_bytes = "borrow_position_from_bytes E" and n = 224 and pid = pid]
    from_bytes_size(3) unfolding borrow_position_filter_def stored_borrow_position_def by blast

section \<open>A market\<close>

lemma sync_clock_oracles:
  "market_sync_clock F m now = Ok m' \<Longrightarrow>
     sv_oracle_config (m_supply_vault m') = sv_oracle_config (m_supply_vault m)
     \<and> cv_oracle_config (m_collateral_vault m') = cv_oracle_config (m_collateral_vault m)"
  by (auto simp: market_sync_clock_def sv_sync_clock_def bind_r_eq_Ok Let_def split: if_splits)

lemma load_oracle_price_key: "load_oracle_price F R q v = Ok u \<Longrightarrow> view_key v = feed_key R q"
  by (auto simp: load_oracle_price_def oracle_feed_pubkey_Some split: if_splits)

text \<open>What the program opens, the clients reload and then load.\<close>

lemma open_market_oracles:
  assumes "open_market F E (TypedAccount acc m) ps so co ts = POk w"
  shows "market_get_oracle_keys (env_runtime E) m = (ai_key so, ai_key co)"
    and "mw_try_new F (env_runtime E) m (account_view_of E so) (account_view_of E co) ts = Ok (w\<lparr>mw_market := m\<rparr>)"
    and "market_sync_clock F m ts = Ok (mw_market w)"
proof -
  have o: "mw_try_new F (env_runtime E) m (account_view_of E so) (account_view_of E co) ts = Ok (w\<lparr>mw_market := m\<rparr>)
      \<and> market_sync_clock F m ts = Ok (mw_market w)"
    using assms
    by (auto simp: open_market_def wrapper_mut_def account_view_try_from_def account_view_of_def mw_try_new_def
        mw_sync_clock_def bind_r_eq_Ok split: if_splits)
  then show "mw_try_new F (env_runtime E) m (account_view_of E so) (account_view_of E co) ts = Ok (w\<lparr>mw_market := m\<rparr>)"
    and "market_sync_clock F m ts = Ok (mw_market w)" by simp_all
  from o show "market_get_oracle_keys (env_runtime E) m = (ai_key so, ai_key co)"
    by (auto simp: mw_try_new_def bind_r_eq_Ok load_and_validate_oracle_rate_def market_get_oracle_keys_def
        account_view_of_def dest!: load_oracle_price_key)
qed

lemma reload_opens:
  assumes "open_market F E (TypedAccount acc m) ps so co ts = POk w"
    and "map_of om (ai_key so) = Some so" and "map_of om (ai_key co) = Some co"
  shows "inner_reload_market F E om ts m = (mw_market w, Done ())"
    and "load_market_wrapper F E om ts (mw_market w) = Done (Some w)"
proof -
  note o = open_market_oracles [OF assms(1)]
  note k = sync_clock_oracles [OF o(3)]
  have "market_sync_clock_mut F m ts = (mw_market w, Ok ())" using o(3) by (simp add: market_sync_clock_mut_Ok)
  then show "inner_reload_market F E om ts m = (mw_market w, Done ())"
    using assms(2,3) by (simp add: inner_reload_market_def o(1,2))
  have "mw_try_new F (env_runtime E) (mw_market w) (account_view_of E so) (account_view_of E co) ts = Ok w"
    using o(2) k by (cases w) (auto simp: mw_try_new_def bind_r_eq_Ok)
  moreover have "market_get_oracle_keys (env_runtime E) (mw_market w) = (ai_key so, ai_key co)"
    using o(1) k by (simp add: market_get_oracle_keys_def)
  ultimately show "load_market_wrapper F E om ts (mw_market w) = Done (Some w)"
    using assms(2,3) by (simp add: load_market_wrapper_def with_oracles_def)
qed

lemma reload_markets_map:
  "reload_markets F E om ts ms = (ms', Done ()) \<Longrightarrow>
     map_of ms' k = map_option (\<lambda>m. fst (inner_reload_market F E om ts m)) (map_of ms k)"
  by (induction F E om ts ms arbitrary: ms' rule: reload_markets.induct)
    (auto split: prod.splits outcome.splits)

lemma process_markets_kept:
  "process_markets F E ts ms s = (s', r) \<Longrightarrow>
     ss_oracle_map s' = ss_oracle_map s \<and> ss_borrow_position_map s' = ss_borrow_position_map s
     \<and> ss_supply_position_map s' = ss_supply_position_map s \<and> ss_program_id s' = ss_program_id s
     \<and> (k \<notin> fst ` set ms \<longrightarrow> map_of (ss_market_map s') k = map_of (ss_market_map s) k)"
  by (induction F E ts ms s rule: process_markets.induct)
    (auto simp: process_single_market_def Let_def update_conv' split: prod.splits outcome.splits unit.splits)

lemma process_single_market_effect:
  assumes "process_single_market F E ts k m s = (s1, r)"
  shows "ss_oracle_map s1 = ss_oracle_map s"
    and "inner_reload_market F E (ss_oracle_map s) ts m = (m', Done ()) \<Longrightarrow> map_of (ss_market_map s1) k = Some m'"
proof -
  obtain x y where i: "inner_reload_market F E (ss_oracle_map s) ts m = (x, y)" by (rule prod.exhaust)
  show "ss_oracle_map s1 = ss_oracle_map s"
    using assms i by (cases y) (auto simp: process_single_market_def Let_def)
  show "map_of (ss_market_map s1) k = Some m'"
    if "inner_reload_market F E (ss_oracle_map s) ts m = (m', Done ())"
    using assms that by (auto simp: process_single_market_def Let_def update_conv')
qed

lemma process_markets_synced:
  assumes "process_markets F E ts ms s = (s', Done ())" and "distinct (map fst ms)" and "(k, m) \<in> set ms"
    and "inner_reload_market F E (ss_oracle_map s) ts m = (m', Done ())"
  shows "map_of (ss_market_map s') k = Some m'"
  using assms
proof (induction ms arbitrary: s)
  case (Cons km ms)
  obtain k1 m1 where km: "km = (k1, m1)" by (rule prod.exhaust)
  obtain s1 r1 where p: "process_single_market F E ts k1 m1 s = (s1, r1)" by (rule prod.exhaust)
  note om = process_single_market_effect(1) [OF p]
  have rest: "process_markets F E ts ms s1 = (s', Done ())"
    using Cons.prems(1) p km by (cases r1) simp_all
  show ?case
  proof (cases "(k, m) = (k1, m1)")
    case True
    then have "map_of (ss_market_map s1) k = Some m'"
      using process_single_market_effect(2) [OF p] Cons.prems(4) by simp
    moreover have "k \<notin> fst ` set ms" using True Cons.prems(2) km by simp
    ultimately show ?thesis using process_markets_kept [OF rest, of k] by simp
  next
    case False
    have "distinct (map fst ms)" "(k, m) \<in> set ms" using Cons.prems(2,3) km False by auto
    moreover have "inner_reload_market F E (ss_oracle_map s1) ts m = (m', Done ())"
      using Cons.prems(4) om by simp
    ultimately show ?thesis by (rule Cons.IH [OF rest])
  qed
qed simp

section \<open>A reload\<close>

text \<open>A market of the chain and what the program opens for it.\<close>

definition opened ::
    "fixed_crate \<Rightarrow> environment \<Rightarrow> snapshot \<Rightarrow> i64 \<Rightarrow> pubkey \<Rightarrow> pubkey \<Rightarrow> market_wrapper \<Rightarrow> bool" where
  "opened F E L ts pid key w \<longleftrightarrow> (\<exists>acc m so co ps. L key = Some acc \<and> ai_owner acc = pid
     \<and> market_from_bytes E (ai_data acc) = Some m
     \<and> L (ai_key so) = Some so \<and> L (ai_key co) = Some co
     \<and> open_market F E (TypedAccount acc m) ps so co ts = POk w)"

lemma requested_oracles:
  assumes "market_get_oracle_keys (env_runtime E) m = (so, co)" and "(k, m) \<in> set ms"
  shows "so \<in> set (oracle_keys_of E (map snd ms))" and "co \<in> set (oracle_keys_of E (map snd ms))"
  using assms by (force simp: oracle_keys_of_def intro!: bexI [of _ "(k, m)"])+

lemma ri_reload_shows:
  assumes "answers_from E node L" and "ri_reload F E node ts s = (s', Done ())"
    and "opened F E L ts (ri_program_id s) key w"
  shows "rc_get_market (ri_client F E ts s') key = Done (Some w)"
    and "ri_program_id s' = ri_program_id s"
    and "stored_borrow_position E L (ri_program_id s) pkey p \<Longrightarrow> map_of (ri_borrow_position_map s') pkey = Some p"
proof -
  let ?pid = "ri_program_id s"
  from assms(3) obtain acc m so co ps where o: "L key = Some acc" "ai_owner acc = ?pid"
      "market_from_bytes E (ai_data acc) = Some m" "L (ai_key so) = Some so" "L (ai_key co) = Some co"
      "open_market F E (TypedAccount acc m) ps so co ts = POk w" by (auto simp: opened_def)
  obtain ms where ms: "get_program_accounts_pod node (market_from_bytes E) ?pid (Some market_filter) = Done ms"
      "distinct (map fst ms)" "map_of ms key = Some m"
    using market_accounts_answer [OF assms(1) o(1-3)] by blast
  obtain bs where bs: "get_program_accounts_pod node (borrow_position_from_bytes E) ?pid (Some borrow_position_filter) = Done bs"
      "distinct (map fst bs)" "stored_borrow_position E L ?pid pkey p \<Longrightarrow> map_of bs pkey = Some p"
    using borrow_accounts_answer [OF assms(1)] by blast
  obtain b where b: "get_multiple_accounts_batch (rpc_get_multiple_accounts node)
        (oracle_keys_of E (map snd (collect_map ms))) = Done b"
      "batch_into_iter b = List.map_filter L (oracle_keys_of E (map snd (collect_map ms)))"
    using batch_answer [OF assms(1)] by blast
  define om where "om = insert_oracles (batch_into_iter b) (ri_oracle_map s)"
  from assms(2) ms(1) bs(1) b(1) obtain ms' where s': "ri_market_map s' = ms'" "ri_oracle_map s' = om"
      "ri_borrow_position_map s' = collect_map bs" "reload_markets F E om ts (collect_map ms) = (ms', Done ())"
      and pid: "ri_program_id s' = ?pid"
    by (auto simp: ri_reload_def Let_def load_program_accounts_pod_def om_def split: outcome.splits prod.splits)
  have in_ms: "(key, m) \<in> set (collect_map ms)"
    using ms(2,3) by (auto simp: map_of_collect_unique intro!: map_of_SomeD)
  note keys = requested_oracles [OF open_market_oracles(1) [OF o(6)] in_ms]
  have so: "map_of om (ai_key so) = Some so" and co: "map_of om (ai_key co) = Some co"
    using oracle_answer [OF assms(1) o(4) keys(1)] oracle_answer [OF assms(1) o(5) keys(2)]
    by (simp_all add: om_def b(2))
  note opens = reload_opens [OF o(6) so co]
  have "map_of ms' key = Some (mw_market w)"
    using reload_markets_map [OF s'(4), of key] ms(2,3) opens(1) by (simp add: map_of_collect_unique)
  then show "rc_get_market (ri_client F E ts s') key = Done (Some w)"
    using opens(2) by (simp add: ri_client_def cache_client_def s')
  show "ri_program_id s' = ?pid" by (rule pid)
  show "map_of (ri_borrow_position_map s') pkey = Some p" if "stored_borrow_position E L ?pid pkey p"
    using bs(2,3) that by (simp add: s' map_of_collect_unique)
qed

lemma ss_reload_shows:
  assumes "answers_from E node L" and "ss_reload F E node ts s = (s', Done ())"
    and "opened F E L ts (ss_program_id s) key w"
  shows "rc_get_market (ss_client F E ts s') key = Done (Some w)"
    and "ss_program_id s' = ss_program_id s"
    and "stored_borrow_position E L (ss_program_id s) pkey p \<Longrightarrow> map_of (ss_borrow_position_map s') pkey = Some p"
proof -
  let ?pid = "ss_program_id s"
  from assms(3) obtain acc m so co ps where o: "L key = Some acc" "ai_owner acc = ?pid"
      "market_from_bytes E (ai_data acc) = Some m" "L (ai_key so) = Some so" "L (ai_key co) = Some co"
      "open_market F E (TypedAccount acc m) ps so co ts = POk w" by (auto simp: opened_def)
  obtain ms where ms: "get_program_accounts_pod node (market_from_bytes E) ?pid (Some market_filter) = Done ms"
      "distinct (map fst ms)" "map_of ms key = Some m"
    using market_accounts_answer [OF assms(1) o(1-3)] by blast
  obtain bs where bs: "get_program_accounts_pod node (borrow_position_from_bytes E) ?pid (Some borrow_position_filter) = Done bs"
      "distinct (map fst bs)" "stored_borrow_position E L ?pid pkey p \<Longrightarrow> map_of bs pkey = Some p"
    using borrow_accounts_answer [OF assms(1)] by blast
  obtain b where b: "get_multiple_accounts_batch (rpc_get_multiple_accounts node)
        (oracle_keys_of E (map snd ms)) = Done b"
      "batch_into_iter b = List.map_filter L (oracle_keys_of E (map snd ms))"
    using batch_answer [OF assms(1)] by blast
  define om where "om = insert_oracles (batch_into_iter b) (ss_oracle_map s)"
  from assms(2) ms(1) bs(1) b(1) obtain s1 where s1: "process_markets F E ts ms s1 = (s', Done ())"
      "ss_oracle_map s1 = om" "ss_program_id s1 = ?pid"
      "ss_borrow_position_map s1 = insert_all bs (ss_borrow_position_map s)"
    by (auto simp: ss_reload_def Let_def om_def split: outcome.splits prod.splits)
  have in_ms: "(key, m) \<in> set ms" using ms(3) by (rule map_of_SomeD)
  note keys = requested_oracles [OF open_market_oracles(1) [OF o(6)] in_ms]
  have so: "map_of om (ai_key so) = Some so" and co: "map_of om (ai_key co) = Some co"
    using oracle_answer [OF assms(1) o(4) keys(1)] oracle_answer [OF assms(1) o(5) keys(2)]
    by (simp_all add: om_def b(2))
  note opens = reload_opens [OF o(6) so co]
  note kept = process_markets_kept [OF s1(1)]
  have "map_of (ss_market_map s') key = Some (mw_market w)"
    using process_markets_synced [OF s1(1) ms(2) in_ms] opens(1) s1(2) by simp
  then show "rc_get_market (ss_client F E ts s') key = Done (Some w)"
    using opens(2) kept s1(2) by (simp add: ss_client_def cache_client_def)
  show "ss_program_id s' = ?pid" using kept s1(3) by simp
  show "map_of (ss_borrow_position_map s') pkey = Some p" if "stored_borrow_position E L ?pid pkey p"
    using bs(2,3) that kept s1(4) by (simp add: map_of_insert_all_unique map_add_def)
qed

lemma health_shown:
  assumes "rc_get_market C key = Done (Some w)" and "snd (rc_get_borrow_position C key a) = Some p"
  shows "get_borrow_position_health F C key a = of_result (mw_borrow_position_health F w p)"
  using assms by (simp add: get_borrow_position_health_def context_o_def)

text \<open>
  C22: The clients show what the program computes. On a node that answers from one state of the chain, a
  successful reload of either cache, whatever it held before, makes it return for every market that the
  program can open at that time exactly the market the program would work on: the interest accrued up to
  then and the validated rates. Both then report, for every position at its derived address, the health
  that the program computes.
\<close>

theorem client_agrees_with_program:
  assumes "answers_from E node L" and "opened F E L ts pid key w"
    and "stored_borrow_position E L pid (fst (find_borrow_position_pda E pid key a)) p"
    and "ri_reload F E node ts s = (s', Done ())" and "ri_program_id s = pid"
    and "ss_reload F E node ts t = (t', Done ())" and "ss_program_id t = pid"
  shows "rc_get_market (ri_client F E ts s') key = Done (Some w)
    \<and> rc_get_market (ss_client F E ts t') key = Done (Some w)
    \<and> get_borrow_position_health F (ri_client F E ts s') key a = of_result (mw_borrow_position_health F w p)
    \<and> get_borrow_position_health F (ss_client F E ts t') key a = of_result (mw_borrow_position_health F w p)"
proof -
  note r = ri_reload_shows [OF assms(1,4) assms(2) [folded assms(5)]]
    and q = ss_reload_shows [OF assms(1,6) assms(2) [folded assms(7)]]
  have "snd (rc_get_borrow_position (ri_client F E ts s') key a) = Some p"
    using r(2) r(3) [OF assms(3) [folded assms(5)]] assms(5) by (simp add: ri_client_def cache_client_def Let_def)
  moreover have "snd (rc_get_borrow_position (ss_client F E ts t') key a) = Some p"
    using q(2) q(3) [OF assms(3) [folded assms(7)]] assms(7) by (simp add: ss_client_def cache_client_def Let_def)
  ultimately show ?thesis using r(1) q(1) by (simp add: health_shown)
qed

section \<open>An example\<close>

text \<open>A node over a list of accounts.\<close>

definition snapshot_of :: "account_info list \<Rightarrow> snapshot" where
  "snapshot_of accs = map_of (map (\<lambda>a. (ai_key a, a)) accs)"

definition snapshot_node :: "environment \<Rightarrow> account_info list \<Rightarrow> rpc_node" where
  "snapshot_node E accs = \<lparr>
     rpc_read_account_info = (\<lambda>k. context_o ''not found'' (snapshot_of accs k)),
     rpc_get_program_accounts = (\<lambda>pid fs. Done (filter (\<lambda>a. ai_owner a = pid
       \<and> (case fs of None \<Rightarrow> True | Some fs \<Rightarrow> list_all (\<lambda>f. filter_matches E f a) fs)) accs)),
     rpc_get_multiple_accounts = (\<lambda>ks. Done (map (snapshot_of accs) ks))\<rparr>"

lemma snapshot_node_answers:
  assumes "distinct (map ai_key accs)"
  shows "answers_from E (snapshot_node E accs) (snapshot_of accs)"
proof -
  have l: "snapshot_of accs k = Some a \<longleftrightarrow> a \<in> set accs \<and> ai_key a = k" for k a
    using assms by (auto simp: snapshot_of_def map_of_eq_Some_iff comp_def)
  show ?thesis
    using assms by (auto simp: answers_from_def snapshot_node_def l distinct_map_filter)
qed

text \<open>
  The market, the position and the feed of \<open>Program_Examples\<close>, with the configuration at 6, the positions
  of the borrower at 30 and the feed at 5.
\<close>

definition example_client_env :: environment where
  "example_client_env = example_env\<lparr>env_runtime := example_runtime\<lparr>find_program_address := (\<lambda>seeds pid.
     (if pid \<noteq> crate_id then 5 else if seeds = global_config_seed then 6 else 30, 255))\<rparr>\<rparr>"

definition example_accounts_of :: "market \<Rightarrow> borrow_position \<Rightarrow> account_info list" where
  "example_accounts_of m p =
     [example_account 12 crate_id False (MarketAccount m),
      example_account 30 crate_id False (BorrowPositionAccount p),
      example_account 6 crate_id False (GlobalConfigAccount example_global_config),
      example_oracle_account]"

lemmas client_example_defs = example_client_env_def example_accounts_of_def program_example_defs

abbreviation example_client_accounts :: "account_info list" where
  "example_client_accounts \<equiv> example_accounts_of (example_market 1000 0 0) (example_borrower 0 0)"

abbreviation example_node_of :: "market \<Rightarrow> borrow_position \<Rightarrow> rpc_node" where
  "example_node_of m p \<equiv> snapshot_node example_client_env (example_accounts_of m p)"

lemma example_client_answers:
  "answers_from example_client_env (example_node_of m p) (snapshot_of (example_accounts_of m p))"
  by (rule snapshot_node_answers) (simp add: client_example_defs)

lemma example_client_requests:
  "get_program_accounts_pod (example_node_of m p) (market_from_bytes example_client_env) crate_id (Some market_filter)
      = Done [(12, m)]"
  "get_program_accounts_pod (example_node_of m p) (supply_position_from_bytes example_client_env) crate_id
      (Some supply_position_filter) = Done []"
  "get_program_accounts_pod (example_node_of m p) (borrow_position_from_bytes example_client_env) crate_id
      (Some borrow_position_filter) = Done [(30, p)]"
  "get_pod_account example_client_env (example_node_of m p) 256 (global_config_from_bytes example_client_env)
      (fst (find_global_config_pda example_client_env crate_id)) = Done example_global_config"
  "get_multiple_accounts_batch (rpc_get_multiple_accounts (example_node_of m p)) [5, 5]
      = Done [[Some example_oracle_account, Some example_oracle_account]]"
  by (simp_all add: snapshot_node_def snapshot_of_def get_program_accounts_pod_def get_program_accounts_with_def
      List.map_filter_simps market_filter_def supply_position_filter_def borrow_position_filter_def
      get_pod_account_def context_o_def find_global_config_pda_def get_multiple_accounts_batch_def chunks.simps
      MAX_BATCH_SIZE_def client_example_defs crate_id_def)

lemma example_oracle_keys: "market_get_oracle_keys (env_runtime example_client_env) (example_market a b c) = (5, 5)"
  by (simp add: market_get_oracle_keys_def feed_key_def oracle_feed_pubkey_def example_runtime_def example_defs
      client_example_defs crate_id_def)

lemma example_client_opens:
  "\<exists>w. open_market fixed_reference example_client_env (TypedAccount
        (example_account 12 crate_id False (MarketAccount (example_market 1000 0 0))) (example_market 1000 0 0))
      [] example_oracle_account example_oracle_account 1000 = POk w"
  by (simp add: wrapper_eval client_example_defs crate_id_def)

text \<open>A node over these accounts makes both caches reload, as soon as the program can open the market.\<close>

lemma example_reloads:
  assumes "m = example_market a b c" and "open_market fixed_reference example_client_env (TypedAccount
      (example_account 12 crate_id False (MarketAccount m)) m) [] example_oracle_account example_oracle_account 1000 = POk w"
  shows "opened fixed_reference example_client_env (snapshot_of (example_accounts_of m p)) 1000 crate_id 12 w"
    and "stored_borrow_position example_client_env (snapshot_of (example_accounts_of m p)) crate_id 30 p"
    and "\<exists>s'. ri_reload fixed_reference example_client_env (example_node_of m p) 1000 (read_client_impl_new crate_id) = (s', Done ())
      \<and> ri_borrow_position_map s' = [(30, p)]"
    and "\<exists>t'. ss_reload fixed_reference example_client_env (example_node_of m p) 1000 (shared_state_new crate_id) = (t', Done ())"
proof -
  show "opened fixed_reference example_client_env (snapshot_of (example_accounts_of m p)) 1000 crate_id 12 w"
    unfolding opened_def using assms(2)
    by (intro exI [of _ "example_account 12 crate_id False (MarketAccount m)"]
        exI [of _ m] exI [of _ example_oracle_account] exI [of _ "[]"] conjI)
      (simp_all add: snapshot_of_def client_example_defs)
  show "stored_borrow_position example_client_env (snapshot_of (example_accounts_of m p)) crate_id 30 p"
    by (simp add: stored_borrow_position_def snapshot_of_def client_example_defs)
  have om: "insert_oracles [example_oracle_account, example_oracle_account] [] = [(5, example_oracle_account)]"
    by (simp add: insert_oracles_def insert_all_def client_example_defs)
  have i: "inner_reload_market fixed_reference example_client_env [(5, example_oracle_account)] 1000 m = (mw_market w, Done ())"
    by (rule reload_opens(1) [OF assms(2)]) (simp_all add: client_example_defs)
  have ks: "oracle_keys_of example_client_env [m] = [5, 5]" "market_get_oracle_keys (env_runtime example_client_env) m = (5, 5)"
    by (simp_all add: oracle_keys_of_def assms(1) example_oracle_keys)
  show "\<exists>s'. ri_reload fixed_reference example_client_env (example_node_of m p) 1000 (read_client_impl_new crate_id) = (s', Done ())
      \<and> ri_borrow_position_map s' = [(30, p)]"
    by (simp add: ri_reload_def read_client_impl_new_def load_program_accounts_pod_def example_client_requests
        collect_map_def insert_all_def ks om i batch_into_iter_def List.map_filter_simps)
  show "\<exists>t'. ss_reload fixed_reference example_client_env (example_node_of m p) 1000 (shared_state_new crate_id) = (t', Done ())"
    by (simp add: ss_reload_def shared_state_new_def example_client_requests process_single_market_def Let_def
        insert_all_def ks om i batch_into_iter_def List.map_filter_simps)
qed

theorem client_agrees_with_program_witness:
  "\<exists>w s' t'. ri_reload fixed_reference example_client_env
       (example_node_of (example_market 1000 0 0) (example_borrower 0 0)) 1000 (read_client_impl_new crate_id) = (s', Done ())
     \<and> rc_get_market (ri_client fixed_reference example_client_env 1000 s') 12 = Done (Some w)
     \<and> rc_get_market (ss_client fixed_reference example_client_env 1000 t') 12 = Done (Some w)
     \<and> get_borrow_position_health fixed_reference (ri_client fixed_reference example_client_env 1000 s') 12 11
       = of_result (mw_borrow_position_health fixed_reference w (example_borrower 0 0))"
proof -
  let ?F = fixed_reference and ?E = example_client_env and ?p = "example_borrower 0 0"
  obtain w where w: "open_market ?F ?E (TypedAccount (example_account 12 crate_id False (MarketAccount (example_market 1000 0 0)))
      (example_market 1000 0 0)) [] example_oracle_account example_oracle_account 1000 = POk w"
    using example_client_opens by blast
  note e = example_reloads [OF refl w, of ?p]
  have p: "stored_borrow_position ?E (snapshot_of example_client_accounts) crate_id
      (fst (find_borrow_position_pda ?E crate_id 12 11)) ?p"
    using e(2) by (simp add: find_borrow_position_pda_def borrow_position_seed_def global_config_seed_def client_example_defs)
  from e(3,4) obtain s' t' where
      "ri_reload ?F ?E (example_node_of (example_market 1000 0 0) ?p) 1000 (read_client_impl_new crate_id) = (s', Done ())"
      "ss_reload ?F ?E (example_node_of (example_market 1000 0 0) ?p) 1000 (shared_state_new crate_id) = (t', Done ())" by blast
  with client_agrees_with_program [OF example_client_answers e(1) p, of "read_client_impl_new crate_id" s'
      "shared_state_new crate_id" t'] show ?thesis
    by (auto simp: read_client_impl_new_def shared_state_new_def)
qed

end
