(* ===== verification/Client_Laws.thy ===== *)
theory Client_Laws
  imports Client_Transactions Client_Agreement
begin

text \<open>
  The client with a signer, \<open>src/autara-client/src/client/client_with_signer.rs\<close>: every method builds the
  transaction of \<open>Client_Transactions\<close> with its own key as authority, payer and curator, and signs it with
  that key alone. Shown here: that signature is always enough, every instruction comes from a builder of
  the library, and the accounts of each pass the validation of the program.
\<close>

section \<open>Requests\<close>

datatype client_request =
    ReqCreateMarket create_market_instruction pubkey pubkey
  | ReqCreateGlobalConfig pubkey pubkey u16
  | ReqSupply pubkey u64
  | ReqDepositCollateral pubkey u64
  | ReqWithdrawCollateral pubkey "u64 option"
  | ReqBorrow pubkey u64
  | ReqRepay pubkey "u64 option"
  | ReqWithdrawSupply pubkey "u64 option"
  | ReqUpdateConfig pubkey update_config_instruction
  | ReqAddLiquidator pubkey pubkey
  | ReqRemoveLiquidator pubkey pubkey
  | ReqLiquidate pubkey pubkey "u64 option" "u64 option" "arch_instruction option"
  | ReqBeginCapitalSweep pubkey pubkey
  | ReqSettleCapitalSweep pubkey pubkey "u64 option" "u64 option"
  | ReqRedeemCuratorFees pubkey
  | ReqRedeemProtocolFees pubkey
  | ReqUpdateGlobalConfig update_global_config_instruction
  | ReqBorrowDeposit pubkey borrow_deposit_apl_instruction
  | ReqWithdrawRepay pubkey withdraw_repay_apl_instruction
  | ReqDonateSupply pubkey u64
  | ReqSocializeLoss pubkey pubkey

definition drop_key :: "(pubkey \<times> transaction_to_sign) outcome \<Rightarrow> transaction_to_sign outcome" where
  "drop_key r = bind_o r (\<lambda>(_, tx). Done tx)"

fun client_transaction ::
    "environment \<Rightarrow> instruction_codecs \<Rightarrow> message_new \<Rightarrow> transaction_builder \<Rightarrow> client_request
     \<Rightarrow> transaction_to_sign outcome" where
  "client_transaction E B M self (ReqCreateMarket d sm cm) =
     drop_key (tx_create_market E B M self (tb_authority_key self) (tb_authority_key self) d sm cm)"
| "client_transaction E B M self (ReqCreateGlobalConfig adm receiver share) =
     drop_key (tx_create_global_config E B M self (tb_authority_key self) adm receiver share)"
| "client_transaction E B M self (ReqSupply k n) = tx_supply E B M self k n"
| "client_transaction E B M self (ReqDepositCollateral k n) = tx_deposit_collateral E B M self k n"
| "client_transaction E B M self (ReqWithdrawCollateral k n) = tx_withdraw_collateral E B M self k n"
| "client_transaction E B M self (ReqBorrow k n) = tx_borrow E B M self k n"
| "client_transaction E B M self (ReqRepay k n) = tx_repay E B M self k n"
| "client_transaction E B M self (ReqWithdrawSupply k n) = tx_withdraw_supply E B M self k n"
| "client_transaction E B M self (ReqUpdateConfig k d) = tx_update_config E B M self k d"
| "client_transaction E B M self (ReqAddLiquidator k l) = drop_key (tx_add_whitelisted_liquidator E B M self k l)"
| "client_transaction E B M self (ReqRemoveLiquidator k l) =
     drop_key (tx_remove_whitelisted_liquidator E B M self k l)"
| "client_transaction E B M self (ReqLiquidate k p a b c) = tx_liquidate E B M self k p a b c"
| "client_transaction E B M self (ReqBeginCapitalSweep k p) = tx_begin_capital_sweep E B M self k p"
| "client_transaction E B M self (ReqSettleCapitalSweep k p a b) = tx_settle_capital_sweep E B M self k p a b"
| "client_transaction E B M self (ReqRedeemCuratorFees k) = tx_redeem_curator_fees E B M self k"
| "client_transaction E B M self (ReqRedeemProtocolFees k) = tx_redeem_protocol_fees E B M self k"
| "client_transaction E B M self (ReqUpdateGlobalConfig d) = tx_update_global_config E B M self d"
| "client_transaction E B M self (ReqBorrowDeposit k d) = tx_borrow_deposit E B M self k d"
| "client_transaction E B M self (ReqWithdrawRepay k d) = tx_withdraw_repay E B M self k d"
| "client_transaction E B M self (ReqDonateSupply k n) = tx_donate_supply E B M self k n"
| "client_transaction E B M self (ReqSocializeLoss k p) = tx_socialize_loss E B M self k p"

lemmas tx_defs = tx_create_market_def tx_create_global_config_def tx_supply_def tx_deposit_collateral_def
  tx_withdraw_collateral_def tx_borrow_def tx_repay_def tx_withdraw_supply_def tx_update_config_def
  tx_add_whitelisted_liquidator_def tx_remove_whitelisted_liquidator_def tx_liquidate_def
  tx_begin_capital_sweep_def tx_settle_capital_sweep_def tx_redeem_curator_fees_def tx_redeem_protocol_fees_def
  tx_update_global_config_def tx_borrow_deposit_def tx_withdraw_repay_def tx_donate_supply_def tx_socialize_loss_def

lemma built_transaction:
  "build_transaction_digest_hash_to_sign M self ixs = Done tx \<longleftrightarrow>
     (\<exists>h. tb_blockhash self = Done h
       \<and> tx = \<lparr>tt_instructions = ixs, tt_message = M ixs (Some (tb_authority_key self)) h,
               tt_message_hash = msg_hash (M ixs (Some (tb_authority_key self)) h)\<rparr>)"
  by (auto simp: build_transaction_digest_hash_to_sign_def Let_def)

lemma found_market_Done:
  "found_market self k f = Done tx \<longleftrightarrow> (\<exists>w. rc_get_market (tb_read_client self) k = Done (Some w) \<and> f (mw_market w) = Done tx)"
  by (auto simp: found_market_def)

lemma expect_instruction_Done:
  "(case r of POk ix \<Rightarrow> f ix | PErr e \<Rightarrow> Panicked | PPanic \<Rightarrow> Panicked) = Done tx \<longleftrightarrow> (\<exists>ix. r = POk ix \<and> f ix = Done tx)"
  by (auto split: program_result.splits)

lemmas tx_Done = built_transaction found_market_Done expect_instruction_Done drop_key_def case_prod_beta Let_def

lemma transaction_message:
  "client_transaction E B M self req = Done tx \<Longrightarrow> \<exists>h. tt_message tx = M (tt_instructions tx) (Some (tb_authority_key self)) h
     \<and> tt_message_hash tx = msg_hash (tt_message tx)"
  by (cases req) (auto simp: tx_defs tx_Done)

section \<open>Instructions\<close>

definition ata_or_built :: "environment \<Rightarrow> instruction_codecs \<Rightarrow> pubkey \<Rightarrow> arch_instruction \<Rightarrow> bool" where
  "ata_or_built E B authority i \<longleftrightarrow>
     (\<exists>mint. i = create_ata_ix E authority (Some (associated_token_address E authority mint)) authority mint)
     \<or> (\<exists>ix. built E B ix i)"

lemma ata_is_ata: "ata_or_built E B authority (ensure_ata_ix E authority mint)"
  by (auto simp: ata_or_built_def ensure_ata_ix_def)

lemma built_is_built: "built E B ix i \<Longrightarrow> ata_or_built E B authority i"
  by (auto simp: ata_or_built_def)

lemma transaction_instructions:
  "client_transaction E B M self req = Done tx \<Longrightarrow>
     list_all (ata_or_built E B (tb_authority_key self)) (tt_instructions tx)"
  by (cases req)
    (auto simp: tx_defs tx_Done ata_is_ata
      intro!: built_is_built intro: built.intros)

section \<open>Signatures\<close>

fun request_callback :: "client_request \<Rightarrow> arch_instruction option" where
  "request_callback (ReqLiquidate k p a b c) = c"
| "request_callback (ReqBorrowDeposit k d) = bd_ix_callback d"
| "request_callback (ReqWithdrawRepay k d) = wr_ix_callback d"
| "request_callback _ = None"

definition signs_only :: "pubkey \<Rightarrow> account_meta \<Rightarrow> bool" where
  "signs_only authority m \<longleftrightarrow> (am_is_signer m \<longrightarrow> am_pubkey m = authority)"

lemma signs_only_simps [simp]:
  "signs_only a (meta_new k b) \<longleftrightarrow> (b \<longrightarrow> k = a)"
  "signs_only a (meta_new_readonly k b) \<longleftrightarrow> (b \<longrightarrow> k = a)"
  by (simp_all add: signs_only_def meta_new_def meta_new_readonly_def)

lemma transaction_signers:
  assumes "client_transaction E B M self req = Done tx"
    and "list_all (signs_only (tb_authority_key self)) (callback_accounts (request_callback req))"
  shows "list_all (\<lambda>i. list_all (signs_only (tb_authority_key self)) (ai_accounts i)) (tt_instructions tx)"
  using assms
  by (cases req)
    (auto simp: tx_defs tx_Done ensure_ata_ix_def create_ata_ix_def builder_defs instruction_of_def
      callback_accounts_def split: option.splits)

text \<open>
  \<open>ArchMessage\<close> lists first the keys that must sign: the payer and the accounts that an instruction marks as
  signers.
\<close>

definition required_signers :: "arch_instruction list \<Rightarrow> pubkey \<Rightarrow> pubkey set" where
  "required_signers ixs payer =
     insert payer {am_pubkey m | i m. i \<in> set ixs \<and> m \<in> set (ai_accounts i) \<and> am_is_signer m}"

definition lists_signers :: "message_new \<Rightarrow> bool" where
  "lists_signers M \<longleftrightarrow> (\<forall>ixs payer h. card (required_signers ixs payer) < 256 \<longrightarrow>
     set (take (unat (msg_num_required_signatures (M ixs (Some payer) h))) (msg_account_keys (M ixs (Some payer) h)))
       = required_signers ixs payer)"

lemma sign_keys_own:
  "\<forall>key \<in> set ks. key = kp_pubkey k \<Longrightarrow> sign_keys sign [k] digest ks = Some (replicate (length ks) (sign k digest))"
  by (induction ks) auto

text \<open>
  C24: The client's own signature is enough. Whatever the request, the transaction it builds is signed with
  the client's key alone, without the panic on a missing signer, and carries at least one signature, so
  that the broadcast finds its identifier. Only a callback may ask for other signatures, which the
  hypothesis excludes; the other one is the documented order of the keys of a message.
\<close>

theorem client_signature_suffices:
  assumes "lists_signers M" and "client_transaction E B M self req = Done tx"
    and "list_all (signs_only (tb_authority_key self)) (callback_accounts (request_callback req))"
    and "kp_pubkey k = tb_authority_key self"
  shows "\<exists>rt. tx_sign sign [k] tx = Done rt \<and> rt_message rt = tt_message tx
    \<and> rt_signatures rt \<noteq> [] \<and> set (rt_signatures rt) = {sign k (msg_hash (tt_message tx))}"
proof -
  obtain h where m: "tt_message tx = M (tt_instructions tx) (Some (tb_authority_key self)) h"
      "tt_message_hash tx = msg_hash (tt_message tx)"
    using transaction_message [OF assms(2)] by blast
  let ?ks = "take (unat (msg_num_required_signatures (tt_message tx))) (msg_account_keys (tt_message tx))"
  have "am_pubkey x = tb_authority_key self"
    if "i \<in> set (tt_instructions tx)" "x \<in> set (ai_accounts i)" "am_is_signer x" for i x
    using transaction_signers [OF assms(2,3)] that unfolding list_all_iff signs_only_def by blast
  then have one: "required_signers (tt_instructions tx) (tb_authority_key self) = {tb_authority_key self}"
    unfolding required_signers_def by blast
  have s: "set ?ks = {tb_authority_key self}"
    using assms(1) [unfolded lists_signers_def, rule_format, of "tt_instructions tx" "tb_authority_key self" h]
    by (simp add: one m(1))
  then have ks: "\<forall>key \<in> set ?ks. key = kp_pubkey k" by (simp only: assms(4)) simp
  have "set ?ks \<noteq> {}" unfolding s by (rule insert_not_empty)
  then have ne: "?ks \<noteq> []" by (simp only: set_empty not_False_eq_True)
  have "tx_sign sign [k] tx = Done \<lparr>rt_version = 0,
      rt_signatures = replicate (length ?ks) (sign k (tt_message_hash tx)), rt_message = tt_message tx\<rparr>"
    using sign_keys_own [OF ks, of sign "tt_message_hash tx"] by (simp add: tx_sign_def)
  with ne m(2) show ?thesis by (simp add: set_replicate_conv_if)
qed

section \<open>Validation\<close>

text \<open>The accounts of an instruction load and pass its checks.\<close>

definition loads :: "'a program_result \<Rightarrow> bool" where
  "loads r \<longleftrightarrow> (\<exists>a. r = POk a)"

fun accepts :: "environment \<Rightarrow> aurata_instruction \<Rightarrow> account_info list \<Rightarrow> bool" where
  "accepts E (SupplyApl _) accs = loads (supply_apl_from_accounts E accs)"
| "accepts E (WithdrawSupply _) accs = loads (withdraw_supply_from_accounts E accs)"
| "accepts E (DonateSupply _) accs = loads (donate_supply_from_accounts E accs)"
| "accepts E (BorrowApl _) accs = loads (borrow_apl_from_accounts E accs)"
| "accepts E (DepositAplCollateral _) accs = loads (deposit_apl_collateral_from_accounts E accs)"
| "accepts E (WithdrawAplCollateral _) accs = loads (withdraw_apl_collateral_from_accounts E accs)"
| "accepts E (RepayApl _) accs = loads (repay_apl_from_accounts E accs)"
| "accepts E (BorrowDepositApl _) accs = loads (borrow_deposit_apl_from_accounts E accs)"
| "accepts E (WithdrawRepayApl _) accs = loads (withdraw_repay_apl_from_accounts E accs)"
| "accepts E (Liquidate _) accs = loads (liquidate_from_accounts E accs)"
| "accepts E BeginCapitalSweep accs = loads (begin_capital_sweep_from_accounts E accs)"
| "accepts E (SettleCapitalSweep _) accs = loads (settle_capital_sweep_from_accounts E accs)"
| "accepts E SocializeLoss accs = loads (socialize_loss_from_accounts E accs)"
| "accepts E ReedeemCuratorFees accs = loads (redeem_curator_fees_from_accounts E accs)"
| "accepts E (UpdateConfig _) accs = loads (update_config_from_accounts E accs)"
| "accepts E (CreateMarket _) accs = loads (create_market_from_accounts E accs)"
| "accepts E (CreateGlobalConfig _) accs = loads (create_global_config_from_accounts E accs)"
| "accepts E (UpdateGlobalConfig _) accs = loads (update_global_config_from_accounts E accs)"
| "accepts E ReedeemProtocolFees accs = loads (redeem_protocol_fees_from_accounts E accs)"
| "accepts E (CreateSupplyPosition _) accs = loads (create_supply_position_from_accounts E accs)"
| "accepts E (CreateBorrowPosition _) accs = loads (create_borrow_position_from_accounts E accs)"
| "accepts E (AddWhitelistedLiquidator d) accs =
     loads (add_whitelisted_liquidator_from_accounts E accs (aw_liquidator d) (aw_bump d))"
| "accepts E (RemoveWhitelistedLiquidator l) accs = loads (remove_whitelisted_liquidator_from_accounts E accs l)"
| "accepts E Log accs = loads (log_from_accounts E accs)"

definition token_at :: "environment \<Rightarrow> (pubkey \<Rightarrow> account_info) \<Rightarrow> pubkey \<Rightarrow> pubkey \<Rightarrow> bool" where
  "token_at E L key mint \<longleftrightarrow> ai_owner (L key) = apl_token_id E
     \<and> (\<exists>t. ai_data (L key) = TokenAccount t \<and> ta_mint t = mint)"

definition mint_at :: "environment \<Rightarrow> (pubkey \<Rightarrow> account_info) \<Rightarrow> pubkey \<Rightarrow> bool" where
  "mint_at E L mint \<longleftrightarrow> ai_owner (L mint) = apl_token_id E \<and> (\<exists>x. ai_data (L mint) = MintAccount x)"

definition market_account_at :: "environment \<Rightarrow> (pubkey \<Rightarrow> account_info) \<Rightarrow> pubkey \<Rightarrow> market \<Rightarrow> bool" where
  "market_account_at E L key m \<longleftrightarrow> ai_owner (L key) = crate_id \<and> market_from_bytes E (ai_data (L key)) = Some m
     \<and> market_is_initialized m"

text \<open>A market with its vaults and the token accounts of a user, as the transaction has just ensured them.\<close>

definition market_at :: "environment \<Rightarrow> (pubkey \<Rightarrow> account_info) \<Rightarrow> pubkey \<Rightarrow> market \<Rightarrow> pubkey \<Rightarrow> bool" where
  "market_at E L key m a \<longleftrightarrow> market_account_at E L key m
     \<and> token_at E L (sv_vault (m_supply_vault m)) (supply_mint_of m)
     \<and> token_at E L (cv_vault (m_collateral_vault m)) (collateral_mint_of m)
     \<and> token_at E L (associated_token_address E a (supply_mint_of m)) (supply_mint_of m)
     \<and> token_at E L (associated_token_address E a (collateral_mint_of m)) (collateral_mint_of m)"

definition borrow_position_at :: "environment \<Rightarrow> (pubkey \<Rightarrow> account_info) \<Rightarrow> pubkey \<Rightarrow> borrow_position \<Rightarrow> bool" where
  "borrow_position_at E L key p \<longleftrightarrow> ai_owner (L key) = crate_id
     \<and> borrow_position_from_bytes E (ai_data (L key)) = Some p \<and> borrow_position_is_initialized p"

definition own_borrow_position :: "environment \<Rightarrow> (pubkey \<Rightarrow> account_info) \<Rightarrow> pubkey \<Rightarrow> pubkey \<Rightarrow> bool" where
  "own_borrow_position E L key a \<longleftrightarrow> (\<exists>p. borrow_position_at E L (fst (find_borrow_position_pda E crate_id key a)) p
     \<and> bp_authority p = a \<and> bp_market p = key)"

definition own_supply_position :: "environment \<Rightarrow> (pubkey \<Rightarrow> account_info) \<Rightarrow> pubkey \<Rightarrow> pubkey \<Rightarrow> bool" where
  "own_supply_position E L key a \<longleftrightarrow> (let k = fst (find_supply_position_pda E crate_id key a) in
     ai_owner (L k) = crate_id \<and> (\<exists>q. supply_position_from_bytes E (ai_data (L k)) = Some q
       \<and> supply_position_is_initialized q \<and> sp_authority q = a \<and> sp_market q = key))"

definition position_in :: "environment \<Rightarrow> (pubkey \<Rightarrow> account_info) \<Rightarrow> pubkey \<Rightarrow> pubkey \<Rightarrow> bool" where
  "position_in E L key pkey \<longleftrightarrow> (\<exists>p. borrow_position_at E L pkey p \<and> bp_market p = key)"

definition entry_at ::
    "environment \<Rightarrow> (pubkey \<Rightarrow> account_info) \<Rightarrow> pubkey \<Rightarrow> pubkey \<Rightarrow> (liquidator_whitelist_entry \<Rightarrow> bool) \<Rightarrow> bool" where
  "entry_at E L key liq P \<longleftrightarrow> (let k = fst (find_liquidator_whitelist_entry_pda E crate_id key liq) in
     ai_owner (L k) = crate_id
     \<and> (\<exists>e. whitelist_from_bytes E (ai_data (L k)) = Some e \<and> whitelist_is_initialized e
          \<and> lw_market e = key \<and> liquidator e = liq \<and> P e))"

definition may_liquidate :: "environment \<Rightarrow> (pubkey \<Rightarrow> account_info) \<Rightarrow> pubkey \<Rightarrow> market \<Rightarrow> pubkey \<Rightarrow> bool" where
  "may_liquidate E L key m a \<longleftrightarrow> liquidations_are_permissionless (config m)
     \<or> fst (find_liquidator_whitelist_entry_pda E crate_id key a) \<noteq> crate_id \<and> entry_at E L key a lw_is_active"

definition global_config_at :: "environment \<Rightarrow> (pubkey \<Rightarrow> account_info) \<Rightarrow> (global_config \<Rightarrow> bool) \<Rightarrow> bool" where
  "global_config_at E L P \<longleftrightarrow> (let k = fst (find_global_config_pda E crate_id) in ai_owner (L k) = crate_id
     \<and> (\<exists>g. global_config_from_bytes E (ai_data (L k)) = Some g \<and> global_config_is_initialized g \<and> P g))"

text \<open>
  A market that the client shows and that is on the ledger as the client knows it, with what the request needs of
  it.
\<close>

definition shown_market ::
    "environment \<Rightarrow> (pubkey \<Rightarrow> account_info) \<Rightarrow> read_client \<Rightarrow> pubkey \<Rightarrow> pubkey \<Rightarrow> (market \<Rightarrow> bool) \<Rightarrow> bool" where
  "shown_market E L C a key P \<longleftrightarrow> (\<exists>w m. rc_get_market C key = Done (Some w) \<and> same_identity m (mw_market w)
     \<and> market_at E L key m a \<and> P m)"

definition curated_market ::
    "environment \<Rightarrow> (pubkey \<Rightarrow> account_info) \<Rightarrow> pubkey \<Rightarrow> pubkey \<Rightarrow> bool" where
  "curated_market E L a key \<longleftrightarrow> (\<exists>m. market_account_at E L key m \<and> curator (config m) = a)"

text \<open>What each request needs of the ledger, and of the role of the client's key \<open>a\<close>.\<close>

fun request_ready ::
    "environment \<Rightarrow> (pubkey \<Rightarrow> account_info) \<Rightarrow> read_client \<Rightarrow> pubkey \<Rightarrow> client_request \<Rightarrow> bool" where
  "request_ready E L C a (ReqSupply key _) \<longleftrightarrow> shown_market E L C a key (\<lambda>_. own_supply_position E L key a)"
| "request_ready E L C a (ReqWithdrawSupply key _) \<longleftrightarrow> shown_market E L C a key (\<lambda>_. own_supply_position E L key a)"
| "request_ready E L C a (ReqDonateSupply key _) \<longleftrightarrow> shown_market E L C a key (\<lambda>_. True)"
| "request_ready E L C a (ReqDepositCollateral key _) \<longleftrightarrow> shown_market E L C a key (\<lambda>_. own_borrow_position E L key a)"
| "request_ready E L C a (ReqWithdrawCollateral key _) \<longleftrightarrow> shown_market E L C a key (\<lambda>_. own_borrow_position E L key a)"
| "request_ready E L C a (ReqBorrow key _) \<longleftrightarrow> shown_market E L C a key (\<lambda>_. own_borrow_position E L key a)"
| "request_ready E L C a (ReqRepay key _) \<longleftrightarrow> shown_market E L C a key (\<lambda>_. own_borrow_position E L key a)"
| "request_ready E L C a (ReqBorrowDeposit key _) \<longleftrightarrow> shown_market E L C a key (\<lambda>_. own_borrow_position E L key a)"
| "request_ready E L C a (ReqWithdrawRepay key _) \<longleftrightarrow> shown_market E L C a key (\<lambda>_. own_borrow_position E L key a)"
| "request_ready E L C a (ReqLiquidate key p _ _ _) \<longleftrightarrow>
     shown_market E L C a key (\<lambda>m. position_in E L key p \<and> may_liquidate E L key m a)"
| "request_ready E L C a (ReqBeginCapitalSweep key p) \<longleftrightarrow>
     shown_market E L C a key (\<lambda>m. position_in E L key p \<and> curator (config m) = a)"
| "request_ready E L C a (ReqSettleCapitalSweep key p _ _) \<longleftrightarrow>
     shown_market E L C a key (\<lambda>m. position_in E L key p \<and> curator (config m) = a)"
| "request_ready E L C a (ReqSocializeLoss key p) \<longleftrightarrow>
     shown_market E L C a key (\<lambda>m. position_in E L key p \<and> curator (config m) = a)"
| "request_ready E L C a (ReqRedeemCuratorFees key) \<longleftrightarrow> shown_market E L C a key (\<lambda>m. curator (config m) = a)"
| "request_ready E L C a (ReqUpdateConfig key _) \<longleftrightarrow>
     shown_market E L C a key (\<lambda>m. curator (config m) = a \<and> global_config_at E L (\<lambda>_. True))"
| "request_ready E L C a (ReqRedeemProtocolFees key) \<longleftrightarrow>
     shown_market E L C a key (\<lambda>_. global_config_at E L (\<lambda>g. can_redeem_fees g a))"
| "request_ready E L C a (ReqAddLiquidator key liq) \<longleftrightarrow> curated_market E L a key
     \<and> (ai_owner (L (fst (find_liquidator_whitelist_entry_pda E crate_id key liq))) = system_program_id E
           \<and> system_program_id E \<noteq> crate_id
        \<or> entry_at E L key liq (\<lambda>_. True))"
| "request_ready E L C a (ReqRemoveLiquidator key liq) \<longleftrightarrow>
     curated_market E L a key \<and> entry_at E L key liq (\<lambda>_. True)"
| "request_ready E L C a (ReqCreateMarket d supply_mint collateral_mint) \<longleftrightarrow>
     global_config_at E L (\<lambda>_. True) \<and> mint_at E L supply_mint \<and> mint_at E L collateral_mint"
| "request_ready E L C a (ReqCreateGlobalConfig _ _ _) \<longleftrightarrow> True"
| "request_ready E L C a (ReqUpdateGlobalConfig _) \<longleftrightarrow>
     global_config_at E L (\<lambda>g. can_update_config g a \<or> can_upgrade_nomination g a)"

text \<open>The instruction that a request is to run.\<close>

fun request_instruction :: "environment \<Rightarrow> transaction_builder \<Rightarrow> client_request \<Rightarrow> aurata_instruction" where
  "request_instruction E self (ReqCreateMarket d supply_mint collateral_mint) =
     CreateMarket (d\<lparr>ix_market_bump := snd (find_market_pda E (tb_program_id self) (tb_authority_key self) supply_mint
       collateral_mint (ix_index d))\<rparr>)"
| "request_instruction E self (ReqCreateGlobalConfig adm receiver share) =
     CreateGlobalConfig \<lparr>cg_bump = snd (find_global_config_pda E (tb_program_id self)), cg_admin = adm,
       cg_fee_receiver = receiver, cg_protocol_fee_share_in_bps = share\<rparr>"
| "request_instruction E self (ReqSupply _ n) = SupplyApl n"
| "request_instruction E self (ReqDepositCollateral _ n) = DepositAplCollateral n"
| "request_instruction E self (ReqWithdrawCollateral _ n) =
     WithdrawAplCollateral \<lparr>wc_amount = (case n of None \<Rightarrow> 0 | Some x \<Rightarrow> x), wc_withdraw_all = (n = None)\<rparr>"
| "request_instruction E self (ReqBorrow _ n) = BorrowApl n"
| "request_instruction E self (ReqRepay _ n) =
     RepayApl \<lparr>ra_amount = (case n of None \<Rightarrow> 0 | Some x \<Rightarrow> x), ra_repay_all = (n = None)\<rparr>"
| "request_instruction E self (ReqWithdrawSupply _ n) =
     WithdrawSupply \<lparr>ws_amount = (case n of None \<Rightarrow> 0 | Some x \<Rightarrow> x), ws_withdraw_all = (n = None)\<rparr>"
| "request_instruction E self (ReqUpdateConfig _ d) = UpdateConfig d"
| "request_instruction E self (ReqAddLiquidator key liq) = AddWhitelistedLiquidator \<lparr>aw_liquidator = liq,
     aw_bump = snd (find_liquidator_whitelist_entry_pda E (tb_program_id self) key liq)\<rparr>"
| "request_instruction E self (ReqRemoveLiquidator _ liq) = RemoveWhitelistedLiquidator liq"
| "request_instruction E self (ReqLiquidate _ _ mx mn c) =
     Liquidate \<lparr>max_borrowed_atoms_to_repay = (case mx of None \<Rightarrow> - 1 | Some x \<Rightarrow> x),
       min_collateral_atoms_to_receive = (case mn of None \<Rightarrow> 0 | Some x \<Rightarrow> x), lq_ix_callback = c\<rparr>"
| "request_instruction E self (ReqBeginCapitalSweep _ _) = BeginCapitalSweep"
| "request_instruction E self (ReqSettleCapitalSweep _ _ mx mr) =
     SettleCapitalSweep \<lparr>stl_max_borrowed_atoms_to_repay = (case mx of None \<Rightarrow> - 1 | Some x \<Rightarrow> x),
       stl_max_collateral_atoms_to_return = (case mr of None \<Rightarrow> - 1 | Some x \<Rightarrow> x)\<rparr>"
| "request_instruction E self (ReqRedeemCuratorFees _) = ReedeemCuratorFees"
| "request_instruction E self (ReqRedeemProtocolFees _) = ReedeemProtocolFees"
| "request_instruction E self (ReqUpdateGlobalConfig d) = UpdateGlobalConfig d"
| "request_instruction E self (ReqBorrowDeposit _ d) = BorrowDepositApl d"
| "request_instruction E self (ReqWithdrawRepay _ d) = WithdrawRepayApl d"
| "request_instruction E self (ReqDonateSupply _ n) = DonateSupply n"
| "request_instruction E self (ReqSocializeLoss _ _) = SocializeLoss"

lemmas ledger_defs = market_at_def market_account_at_def mint_at_def entry_at_def curated_market_def token_at_def borrow_position_at_def own_borrow_position_def own_supply_position_def
  position_in_def global_config_at_def

lemma resolve_simps:
  "resolve L [] = []"
  "resolve L (meta_new k b # ms) = (L k)\<lparr>ai_key := k, ai_is_signer := b, ai_is_writable := True\<rparr> # resolve L ms"
  "resolve L (meta_new_readonly k b # ms) = (L k)\<lparr>ai_key := k, ai_is_signer := b, ai_is_writable := False\<rparr> # resolve L ms"
  by (simp_all add: resolve_def meta_new_def meta_new_readonly_def)

lemma take_resolved: "take_account f (a # rest) = bind_p (f a) (\<lambda>x. POk (x, rest))"
  by (simp add: take_account_def)

lemmas accept_eval = loads_def resolve_simps take_resolved zero_copy_try_from_def zero_copy_mut_try_from_def
  signer_try_from_def program_try_from_def packed_try_from_def Let_def instruction_of_def ledger_defs

abbreviation supply_ata :: "environment \<Rightarrow> pubkey \<Rightarrow> market \<Rightarrow> pubkey" where
  "supply_ata E a m \<equiv> associated_token_address E a (supply_mint_of m)"

abbreviation collateral_ata :: "environment \<Rightarrow> pubkey \<Rightarrow> market \<Rightarrow> pubkey" where
  "collateral_ata E a m \<equiv> associated_token_address E a (collateral_mint_of m)"

abbreviation supply_pda :: "environment \<Rightarrow> pubkey \<Rightarrow> pubkey \<Rightarrow> pubkey" where
  "supply_pda E key a \<equiv> fst (find_supply_position_pda E crate_id key a)"

abbreviation borrow_pda :: "environment \<Rightarrow> pubkey \<Rightarrow> pubkey \<Rightarrow> pubkey" where
  "borrow_pda E key a \<equiv> fst (find_borrow_position_pda E crate_id key a)"

lemma lender_accepted:
  assumes "market_at E L key m a"
  shows "own_supply_position E L key a \<Longrightarrow> accepts E (SupplyApl n) (resolve L (ai_accounts
      (supply_apl_ix E B pid key (supply_pda E key a) a (supply_ata E a m) (sv_vault (m_supply_vault m)) so co n)))"
    and "own_supply_position E L key a \<Longrightarrow> accepts E (WithdrawSupply d) (resolve L (ai_accounts
      (withdraw_supply_ix E B pid key (supply_pda E key a) a (supply_ata E a m) (sv_vault (m_supply_vault m)) so co n al)))"
    and "accepts E (DonateSupply n) (resolve L (ai_accounts
      (donate_supply_ix E B pid key a (supply_ata E a m) (sv_vault (m_supply_vault m)) n)))"
  using assms
  by (auto simp: accept_eval supply_apl_ix_def supply_apl_from_accounts_def supply_apl_validate_def
      withdraw_supply_ix_def withdraw_supply_from_accounts_def withdraw_supply_validate_def donate_supply_ix_def
      donate_supply_from_accounts_def donate_supply_validate_def)

lemma borrower_accepted:
  assumes "market_at E L key m a" and "own_borrow_position E L key a"
  shows "accepts E (BorrowApl n) (resolve L (ai_accounts
      (borrow_apl_ix E B pid key a (borrow_pda E key a) (supply_ata E a m) (sv_vault (m_supply_vault m)) so co n)))"
    and "accepts E (RepayApl d) (resolve L (ai_accounts
      (repay_apl_ix E B pid key (borrow_pda E key a) a (supply_ata E a m) (sv_vault (m_supply_vault m)) so co n al)))"
    and "accepts E (DepositAplCollateral n) (resolve L (ai_accounts
      (deposit_apl_collateral_ix E B pid key a (borrow_pda E key a) (collateral_ata E a m) (cv_vault (m_collateral_vault m)) so co n)))"
    and "accepts E (WithdrawAplCollateral dw) (resolve L (ai_accounts
      (withdraw_apl_collateral_ix E B pid key a (borrow_pda E key a) (collateral_ata E a m) (cv_vault (m_collateral_vault m)) so co n al)))"
  using assms
  by (auto simp: accept_eval borrow_apl_ix_def borrow_apl_from_accounts_def borrow_apl_validate_def
      repay_apl_ix_def repay_apl_from_accounts_def repay_apl_validate_def deposit_apl_collateral_ix_def
      deposit_apl_collateral_from_accounts_def deposit_apl_collateral_validate_def withdraw_apl_collateral_ix_def
      withdraw_apl_collateral_from_accounts_def withdraw_apl_collateral_validate_def)

lemma leverage_accepted:
  assumes "market_at E L key m a" and "own_borrow_position E L key a"
  shows "accepts E (BorrowDepositApl d) (resolve L (ai_accounts (borrow_deposit_apl_ix E B pid key a (borrow_pda E key a)
      (supply_ata E a m) (sv_vault (m_supply_vault m)) (collateral_ata E a m) (cv_vault (m_collateral_vault m)) so co d)))"
    and "accepts E (WithdrawRepayApl dw) (resolve L (ai_accounts (withdraw_repay_apl_ix E B pid key a (borrow_pda E key a)
      (supply_ata E a m) (sv_vault (m_supply_vault m)) (collateral_ata E a m) (cv_vault (m_collateral_vault m)) so co dw)))"
  using assms
  by (auto simp: accept_eval borrow_deposit_apl_ix_def borrow_deposit_apl_from_accounts_def
      borrow_deposit_apl_validate_def withdraw_repay_apl_ix_def withdraw_repay_apl_from_accounts_def
      withdraw_repay_apl_validate_def)

lemma liquidate_accepted:
  assumes "market_at E L key m a" and "position_in E L key p" and "may_liquidate E L key m a"
    and "program = crate_id"
  shows "accepts E (Liquidate d) (resolve L (ai_accounts (liquidate_ix E B pid key p a (supply_ata E a m)
      (collateral_ata E a m) (sv_vault (m_supply_vault m)) (cv_vault (m_collateral_vault m)) so co x y
      (if liquidations_are_permissionless (config m) then None
       else Some (fst (find_liquidator_whitelist_entry_pda E program key a))) c)))"
  using assms
  by (auto simp: accept_eval may_liquidate_def liquidate_ix_def liquidate_from_accounts_def liquidate_validate_def
      liquidate_read_entry_def liquidate_whitelist_check_def)

lemma curator_accepted:
  assumes "market_at E L key m a" and "curator (config m) = a"
  shows "position_in E L key p \<Longrightarrow> accepts E BeginCapitalSweep (resolve L (ai_accounts
      (begin_capital_sweep_ix E B pid key p a (collateral_ata E a m) (cv_vault (m_collateral_vault m)) so co)))"
    and "position_in E L key p \<Longrightarrow> accepts E (SettleCapitalSweep d) (resolve L (ai_accounts (settle_capital_sweep_ix E B pid
      key p a (supply_ata E a m) (collateral_ata E a m) (sv_vault (m_supply_vault m)) (cv_vault (m_collateral_vault m))
      so co x y)))"
    and "position_in E L key p \<Longrightarrow> accepts E SocializeLoss (resolve L (ai_accounts
      (socialize_loss_ix E B pid key p a (collateral_ata E a m) (cv_vault (m_collateral_vault m)) so co)))"
    and "accepts E ReedeemCuratorFees (resolve L (ai_accounts
      (reedeem_curator_fees_ix E B pid key a (supply_ata E a m) (sv_vault (m_supply_vault m)))))"
  using assms
  by (auto simp: accept_eval begin_capital_sweep_ix_def begin_capital_sweep_from_accounts_def
      begin_capital_sweep_validate_def settle_capital_sweep_ix_def settle_capital_sweep_from_accounts_def
      settle_capital_sweep_validate_def socialize_loss_ix_def socialize_loss_from_accounts_def socialize_loss_validate_def
      reedeem_curator_fees_ix_def redeem_curator_fees_from_accounts_def redeem_curator_fees_validate_def)

lemma update_config_accepted:
  assumes "market_at E L key m a" and "curator (config m) = a" and "global_config_at E L P"
    and "update_config_ix E B crate_id key a d so co = POk i"
  shows "accepts E (UpdateConfig d) (resolve L (ai_accounts i))"
proof -
  obtain y z where "ai_accounts i = [meta_new key False,
      meta_new_readonly (fst (find_global_config_pda E crate_id)) False, meta_new_readonly a True,
      meta_new_readonly y False, meta_new_readonly z False, meta_new_readonly crate_id False]"
    using assms(4) by (auto simp: update_config_ix_def instruction_of_def)
  with assms(1-3) show ?thesis
    by (auto simp: accept_eval update_config_from_accounts_def update_config_validate_def)
qed

lemma protocol_accepted:
  "market_at E L key m a \<Longrightarrow> global_config_at E L (\<lambda>g. can_redeem_fees g a) \<Longrightarrow>
     accepts E ReedeemProtocolFees (resolve L (ai_accounts
       (reedeem_protocol_fees_ix E B crate_id key a (supply_ata E a m) (sv_vault (m_supply_vault m)))))"
  "global_config_at E L (\<lambda>g. can_update_config g a \<or> can_upgrade_nomination g a) \<Longrightarrow>
     accepts E (UpdateGlobalConfig d) (resolve L (ai_accounts (update_global_config_ix E B crate_id a d)))"
  "accepts E (CreateGlobalConfig dg) (resolve L (ai_accounts
     (snd (create_global_config_ix E B crate_id a adm receiver share))))"
  by (auto simp: accept_eval reedeem_protocol_fees_ix_def redeem_protocol_fees_from_accounts_def
      redeem_protocol_fees_validate_def update_global_config_ix_def update_global_config_from_accounts_def
      update_global_config_validate_def create_global_config_ix_def create_global_config_from_accounts_def case_prod_beta)

lemma create_market_accepted:
  assumes "global_config_at E L P" and "mint_at E L sm" and "mint_at E L cm"
  shows "accepts E (CreateMarket dm) (resolve L (ai_accounts (snd (create_market_ix E B d sm cm crate_id a a))))"
  using assms
  by (auto simp: accept_eval create_market_ix_def create_market_from_accounts_def create_market_validate_def
      case_prod_beta)

lemma whitelist_accepted:
  assumes "curated_market E L a key"
  shows "ai_owner (L (fst (find_liquidator_whitelist_entry_pda E crate_id key liq))) = system_program_id E
           \<and> system_program_id E \<noteq> crate_id \<or> entry_at E L key liq P \<Longrightarrow>
     accepts E (AddWhitelistedLiquidator \<lparr>aw_liquidator = liq,
       aw_bump = snd (find_liquidator_whitelist_entry_pda E crate_id key liq)\<rparr>)
       (resolve L (ai_accounts (snd (add_whitelisted_liquidator_ix E B crate_id key a liq))))"
    and "entry_at E L key liq P \<Longrightarrow> accepts E (RemoveWhitelistedLiquidator liq)
       (resolve L (ai_accounts (snd (remove_whitelisted_liquidator_ix E B crate_id key a liq))))"
  using assms
  by (auto simp: accept_eval add_whitelisted_liquidator_ix_def add_whitelisted_liquidator_from_accounts_def
      add_whitelisted_liquidator_validate_def remove_whitelisted_liquidator_ix_def
      remove_whitelisted_liquidator_from_accounts_def remove_whitelisted_liquidator_validate_def case_prod_beta)

lemma positions_accepted:
  assumes "market_at E L key m a"
  shows "accepts E (CreateSupplyPosition bump) (resolve L (ai_accounts
      (snd (create_supply_position_ix E B crate_id key a a))))"
    and "accepts E (CreateBorrowPosition bump) (resolve L (ai_accounts
      (snd (create_borrow_position_ix E B crate_id key a a))))"
  using assms
  by (auto simp: accept_eval create_supply_position_ix_def create_supply_position_from_accounts_def
      create_borrow_position_ix_def create_borrow_position_from_accounts_def case_prod_beta)

text \<open>An instruction of a transaction: the creation of one of the user's token accounts, or accepted.\<close>

definition ata_or_accepted :: "environment \<Rightarrow> instruction_codecs \<Rightarrow> (pubkey \<Rightarrow> account_info) \<Rightarrow> pubkey \<Rightarrow> arch_instruction \<Rightarrow> bool" where
  "ata_or_accepted E B L a i \<longleftrightarrow>
     (\<exists>mint. i = create_ata_ix E a (Some (associated_token_address E a mint)) a mint)
     \<or> (\<exists>ix. built E B ix i \<and> accepts E ix (resolve L (ai_accounts i)))"

lemma ata_accepted: "ata_or_accepted E B L a (ensure_ata_ix E a mint)"
  by (auto simp: ata_or_accepted_def ensure_ata_ix_def)

lemma positions_or_accepted:
  assumes "market_at E L key m a"
  shows "ata_or_accepted E B L a (snd (create_supply_position_ix E B crate_id key a a))"
    and "ata_or_accepted E B L a (snd (create_borrow_position_ix E B crate_id key a a))"
  unfolding ata_or_accepted_def
  using positions_accepted [OF assms] built.create_supply_position built.create_borrow_position by blast+

text \<open>Every instruction but the last creates a token account or a position.\<close>

lemma request_preparation:
  assumes "client_transaction E B M self req = Done tx" and "tb_program_id self = crate_id"
    and "request_ready E L (tb_read_client self) (tb_authority_key self) req"
  shows "list_all (ata_or_accepted E B L (tb_authority_key self)) (butlast (tt_instructions tx))"
  using assms
  by (cases req)
    (auto simp: tx_defs tx_Done shown_market_def ata_accepted butlast_append intro: positions_or_accepted)

lemmas user_built = built.supply_apl built.withdraw_supply built.donate_supply built.borrow_apl
  built.deposit_apl_collateral built.withdraw_apl_collateral built.repay_apl built.withdraw_repay_apl
  built.borrow_deposit_apl built.liquidate built.socialize_loss built.begin_capital_sweep
  built.settle_capital_sweep built.reedeem_curator_fees built.reedeem_protocol_fees built.update_global_config
  built.create_global_config built.create_market built.add_whitelisted_liquidator
  built.remove_whitelisted_liquidator

lemma shown_marketE:
  assumes "shown_market E L C a key P"
  obtains w m where "rc_get_market C key = Done (Some w)" "market_at E L key m a" "P m"
    "config (mw_market w) = config m" "supply_mint_of (mw_market w) = supply_mint_of m"
    "sv_vault (m_supply_vault (mw_market w)) = sv_vault (m_supply_vault m)"
    "collateral_mint_of (mw_market w) = collateral_mint_of m"
    "cv_vault (m_collateral_vault (mw_market w)) = cv_vault (m_collateral_vault m)"
  using assms by (auto simp: shown_market_def same_identity_def)

lemmas accepted = lender_accepted borrower_accepted leverage_accepted liquidate_accepted curator_accepted
  update_config_accepted protocol_accepted create_market_accepted whitelist_accepted

lemma request_accepted:
  assumes "autara_read_client E (tb_read_client self)"
    and "rc_autara_program_id (tb_read_client self) = crate_id" and "tb_program_id self = crate_id"
    and "request_ready E L (tb_read_client self) (tb_authority_key self) req"
    and "client_transaction E B M self req = Done tx"
  shows "built E B (request_instruction E self req) (last (tt_instructions tx))
    \<and> accepts E (request_instruction E self req) (resolve L (ai_accounts (last (tt_instructions tx))))"
proof -
  let ?C = "tb_read_client self"
  have pda: "fst (rc_get_borrow_position ?C key a) = borrow_pda E key a"
    "fst (rc_get_supply_position ?C key a) = supply_pda E key a" for key a
    using autara_read_client.borrow_position_key [OF assms(1)] autara_read_client.supply_position_key [OF assms(1)]
    by (simp_all add: assms(2))
  show ?thesis
    using assms(3,4,5)
    by (cases req; clarsimp elim!: shown_marketE simp: tx_defs tx_Done pda simp del: accepts.simps split del: if_split)
      (rule conjI, (rule user_built | (rule built.update_config, assumption)),
       (rule accepted; (assumption | rule refl)))+
qed

text \<open>
  C23: The client's transactions are well addressed. Whatever the request, of a lender, a borrower, a liquidator,
  a curator or an administrator of the protocol, the last instruction of the transaction is the one that the
  request asks for, from a builder of the library, and every other one creates a token account of the
  client or a position. Once the token accounts and the position that the transaction creates exist, the
  accounts of each instruction load and pass every check of the program: the client, from its cache,
  chose the accounts the program expects. The ledger must hold what the request is about and the client's
  key must have the role it needs: an active entry of the whitelist for a liquidator where the market asks
  for one, the curator of the market for its configuration, its whitelist, sweeps and losses, the admin or
  the receiver of the fees for the protocol.
\<close>

theorem client_accounts_accepted:
  assumes "autara_read_client E (tb_read_client self)"
    and "rc_autara_program_id (tb_read_client self) = crate_id" and "tb_program_id self = crate_id"
    and "request_ready E L (tb_read_client self) (tb_authority_key self) req"
    and "client_transaction E B M self req = Done tx"
  shows "built E B (request_instruction E self req) (last (tt_instructions tx))
    \<and> accepts E (request_instruction E self req) (resolve L (ai_accounts (last (tt_instructions tx))))
    \<and> list_all (ata_or_accepted E B L (tb_authority_key self)) (butlast (tt_instructions tx))"
  using request_accepted [OF assms] request_preparation [OF assms(5,3,4)] by blast

section \<open>Examples\<close>

text \<open>Messages that list the payer and then the other signers.\<close>

definition example_message :: message_new where
  "example_message ixs payer h =
     (let keys = remdups ((case payer of None \<Rightarrow> [] | Some k \<Rightarrow> [k])
            @ map am_pubkey (filter am_is_signer (concat (map ai_accounts ixs)))) in
      \<lparr>msg_account_keys = keys, msg_num_required_signatures = of_nat (length keys), msg_hash = h\<rparr>)"

lemma example_message_lists: "lists_signers example_message"
  unfolding lists_signers_def
proof (intro allI impI)
  fix ixs :: "arch_instruction list" and payer :: pubkey and h
  let ?l = "[payer] @ map am_pubkey (filter am_is_signer (concat (map ai_accounts ixs)))"
  assume c: "card (required_signers ixs payer) < 256"
  have s: "set ?l = required_signers ixs payer" by (auto simp: required_signers_def)
  then have "length (remdups ?l) < 256" using c by (simp add: length_remdups_card_conv del: remdups.simps)
  then have "unat (of_nat (length (remdups ?l)) :: u8) = length (remdups ?l)"
    by (simp only: unat_of_nat) (simp del: remdups.simps)
  then show "set (take (unat (msg_num_required_signatures (example_message ixs (Some payer) h)))
        (msg_account_keys (example_message ixs (Some payer) h))) = required_signers ixs payer"
    using s by (simp add: example_message_def Let_def del: remdups.simps)
qed

text \<open>The borrower at address 11, on a cache of the market, the position and the feed of the example.\<close>

definition example_tx_builder :: transaction_builder where
  "example_tx_builder = \<lparr>
     tb_read_client = cache_client fixed_reference example_client_env 1000 crate_id
       [(12, example_market 1000 0 0)] [] [(30, example_borrower 0 0)] [(5, example_oracle_account)]
       example_global_config,
     tb_program_id = crate_id, tb_authority_key = 11, tb_blockhash = Done [1]\<rparr>"

definition example_client_ledger :: "pubkey \<Rightarrow> account_info" where
  "example_client_ledger k =
     (if k = 12 then example_account 12 crate_id False (MarketAccount (example_market 1000 0 0))
      else if k = 30 then example_account 30 crate_id False (BorrowPositionAccount (example_borrower 0 0))
      else if k = 101 \<or> k = 111 then example_token k 100 11 else example_token k 200 11)"

lemma example_builder_market:
  "\<exists>w. rc_get_market (tb_read_client example_tx_builder) 12 = Done (Some w) \<and> mw_market w = example_market 1000 0 0"
proof -
  obtain w where "open_market fixed_reference example_client_env (TypedAccount
        (example_account 12 crate_id False (MarketAccount (example_market 1000 0 0))) (example_market 1000 0 0))
      [] example_oracle_account example_oracle_account 1000 = POk w"
    using example_client_opens by blast
  note o = open_market_oracles(1,2) [OF this]
  show ?thesis
    by (simp add: example_tx_builder_def cache_client_def load_market_wrapper_def with_oracles_def o)
      (simp add: program_example_defs)
qed

lemma example_borrow_transaction:
  "\<exists>tx. client_transaction example_client_env B M example_tx_builder (ReqBorrow 12 n) = Done tx"
proof -
  obtain w where "rc_get_market (tb_read_client example_tx_builder) 12 = Done (Some w)"
    using example_builder_market by blast
  then show ?thesis
    by (auto simp: tx_borrow_def found_market_Done Let_def case_prod_beta built_transaction example_tx_builder_def)
qed

theorem client_signature_suffices_witness:
  "\<exists>tx rt. client_transaction example_client_env example_codecs example_message example_tx_builder (ReqBorrow 12 200) = Done tx
     \<and> tx_sign (\<lambda>k digest. kp_secret k @ digest) [\<lparr>kp_pubkey = 11, kp_secret = [7]\<rparr>] tx = Done rt
     \<and> set (rt_signatures rt) = {7 # msg_hash (tt_message tx)}"
proof -
  obtain tx where tx: "client_transaction example_client_env example_codecs example_message example_tx_builder
      (ReqBorrow 12 200) = Done tx"
    using example_borrow_transaction by blast
  show ?thesis
    using client_signature_suffices [OF example_message_lists tx, of "\<lparr>kp_pubkey = 11, kp_secret = [7]\<rparr>"
        "\<lambda>k digest. kp_secret k @ digest"] tx
    by (auto simp: callback_accounts_def example_tx_builder_def)
qed

theorem client_accounts_accepted_witness:
  "\<exists>tx. client_transaction example_client_env example_codecs example_message example_tx_builder (ReqBorrow 12 200) = Done tx
     \<and> built example_client_env example_codecs (BorrowApl 200) (last (tt_instructions tx))
     \<and> accepts example_client_env (BorrowApl 200)
         (resolve example_client_ledger (ai_accounts (last (tt_instructions tx))))"
proof -
  obtain tx where tx: "client_transaction example_client_env example_codecs example_message example_tx_builder
      (ReqBorrow 12 200) = Done tx"
    using example_borrow_transaction by blast
  obtain w where w: "rc_get_market (tb_read_client example_tx_builder) 12 = Done (Some w)"
      "mw_market w = example_market 1000 0 0" using example_builder_market by blast
  have c: "autara_read_client example_client_env (tb_read_client example_tx_builder)"
    by (simp add: example_tx_builder_def cache_client_contract)
  have p: "rc_autara_program_id (tb_read_client example_tx_builder) = crate_id" "tb_program_id example_tx_builder = crate_id"
    by (simp_all add: example_tx_builder_def cache_client_def)
  have m: "market_at example_client_env example_client_ledger 12 (example_market 1000 0 0) (tb_authority_key example_tx_builder)"
    by (simp add: market_at_def market_account_at_def token_at_def example_client_ledger_def example_tx_builder_def
        client_example_defs example_defs market_is_initialized_def)
  have o: "own_borrow_position example_client_env example_client_ledger 12 (tb_authority_key example_tx_builder)"
    by (simp add: own_borrow_position_def borrow_position_at_def example_client_ledger_def example_tx_builder_def
        find_borrow_position_pda_def borrow_position_seed_def global_config_seed_def client_example_defs
        example_borrower_def borrow_position_is_initialized_def)
  have r: "request_ready example_client_env example_client_ledger (tb_read_client example_tx_builder)
      (tb_authority_key example_tx_builder) (ReqBorrow 12 200)"
    unfolding request_ready.simps shown_market_def using w m o
    by (intro exI [of _ w] exI [of _ "example_market 1000 0 0"]) (simp add: same_identity_def)
  show ?thesis
    using client_accounts_accepted [OF c p r tx] tx by simp
qed

end
