(* ===== verification/Client_Broadcast.thy ===== *)
theory Client_Broadcast
  imports Client_Laws Program_Access Program_Errors
begin

text \<open>
  What the client makes of a processed transaction: \<open>AutaraTxBroadcast\<close> and \<open>parse_processed_autara_tx\<close>
  (\<open>src/autara-client/src/client/tx_broadcast.rs\<close>), the extraction of events (\<open>event.rs\<close> of the library) and
  the methods of the client with a signer (\<open>client/client_with_signer.rs\<close>). The node that sends a
  transaction and reports it is a parameter.
\<close>

section \<open>Events of a processed transaction (event.rs)\<close>

datatype tx_report = Queued | Processed | FailedWith string

record processed_transaction =
  pt_message :: arch_message
  pt_status :: tx_report
  pt_logs :: "string list"
  pt_inner_instructions_list :: "(nat \<times> u8 list) list list"

text \<open>\<open>AutaraEvent::from_bytes\<close>: the tag must be that of \<open>Log\<close>; bytes after the event are ignored.\<close>

definition event_from_bytes :: "instruction_codecs \<Rightarrow> event_codecs \<Rightarrow> u8 list \<Rightarrow> autara_event option" where
  "event_from_bytes B C bytes =
     Option.bind (snd (ix_tag_codec B) bytes) (\<lambda>(tag, cursor).
       if tag \<noteq> TLog then None else map_option fst (event_deserialize_reader C cursor))"

definition get_account_key :: "arch_message \<Rightarrow> nat \<Rightarrow> pubkey option" where
  "get_account_key msg i = (if i < length (msg_account_keys msg) then Some (msg_account_keys msg ! i) else None)"

definition get_ix_data_with_program_ids :: "processed_transaction \<Rightarrow> (pubkey \<times> u8 list) list" where
  "get_ix_data_with_program_ids tx =
     List.map_filter (\<lambda>(i, data). map_option (\<lambda>k. (k, data)) (get_account_key (pt_message tx) i))
       (concat (pt_inner_instructions_list tx))"

definition events_from_processed_tx ::
    "instruction_codecs \<Rightarrow> event_codecs \<Rightarrow> (pubkey \<Rightarrow> bool) \<Rightarrow> processed_transaction \<Rightarrow> autara_event list" where
  "events_from_processed_tx B C validate_program_id tx =
     List.map_filter (\<lambda>(k, data). if validate_program_id k then event_from_bytes B C data else None)
       (get_ix_data_with_program_ids tx)"

section \<open>Errors of a processed transaction (tx\_broadcast.rs)\<close>

text \<open>What the client uses of the SDK: signing, sending and waiting, and its conversions.\<close>

record arch_sdk =
  sdk_sign_message :: "keypair \<Rightarrow> u8 list \<Rightarrow> u8 list"
  sdk_send_and_wait :: "runtime_transaction \<Rightarrow> processed_transaction outcome"
  sdk_program_error_from :: "u64 \<Rightarrow> program_error"
  sdk_debug :: "processed_transaction \<Rightarrow> string"

text \<open>The text of \<open>Other\<close> is what its error displays.\<close>

datatype autara_client_error =
    AutaraTxError (tx_error_kind: lending_program_error_kind) (tx_error_logs: "string list") (tx_error_events: "autara_event list")
  | ArchError string
  | OtherError string

datatype 'a client_result = COk 'a | CErr autara_client_error | CPanic

text \<open>The regular expression \<open>custom program error: 0x([0-9a-fA-F]+)\<close>: its leftmost match, taken greedily.\<close>

definition error_prefix :: string where
  "error_prefix = ''custom program error: 0x''"

definition hex_digit :: "char \<Rightarrow> nat option" where
  "hex_digit c = (let n = (of_char c :: nat) in
     if 48 \<le> n \<and> n \<le> 57 then Some (n - 48)
     else if 97 \<le> n \<and> n \<le> 102 then Some (n - 87)
     else if 65 \<le> n \<and> n \<le> 70 then Some (n - 55) else None)"

definition hex_run :: "string \<Rightarrow> string" where
  "hex_run s = takeWhile (\<lambda>c. hex_digit c \<noteq> None) s"

definition match_here :: "string \<Rightarrow> string option" where
  "match_here s =
     (if take (length error_prefix) s = error_prefix \<and> hex_run (drop (length error_prefix) s) \<noteq> []
      then Some (hex_run (drop (length error_prefix) s)) else None)"

fun captures :: "string \<Rightarrow> string option" where
  "captures [] = None"
| "captures (c # s) = (case match_here (c # s) of Some h \<Rightarrow> Some h | None \<Rightarrow> captures s)"

text \<open>\<open>u32::from_str_radix(.., 16)\<close> on hexadecimal digits: an overflow is an error.\<close>

definition hex_value :: "string \<Rightarrow> nat" where
  "hex_value s = fold (\<lambda>c v. 16 * v + (case hex_digit c of Some d \<Rightarrow> d | None \<Rightarrow> 0)) s 0"

definition u32_from_hex :: "string \<Rightarrow> u32 option" where
  "u32_from_hex s = (if hex_value s < 2 ^ 32 then Some (of_nat (hex_value s)) else None)"

text \<open>\<open>Debug\<close> of a list of strings, for the characters of ASCII.\<close>

definition hex_char :: "nat \<Rightarrow> char" where
  "hex_char d = char_of (if d < 10 then 48 + d else 87 + d)"

fun to_hex :: "nat \<Rightarrow> string" where
  "to_hex n = (if n < 16 then [hex_char n] else to_hex (n div 16) @ [hex_char (n mod 16)])"

declare to_hex.simps [simp del]

definition debug_char :: "char \<Rightarrow> string" where
  "debug_char c = (let n = (of_char c :: nat); escape = [char_of (92 :: nat)] in
     if n = 34 \<or> n = 92 then escape @ [c]
     else if n = 0 then escape @ ''0''
     else if n = 9 then escape @ ''t''
     else if n = 10 then escape @ ''n''
     else if n = 13 then escape @ ''r''
     else if n < 32 \<or> n = 127 then escape @ ''u{'' @ to_hex n @ ''}''
     else [c])"

definition debug_string :: "string \<Rightarrow> string" where
  "debug_string s = [char_of (34 :: nat)] @ concat (map debug_char s) @ [char_of (34 :: nat)]"

fun debug_strings :: "string list \<Rightarrow> string" where
  "debug_strings [] = []"
| "debug_strings [s] = debug_string s"
| "debug_strings (s # ss) = debug_string s @ '', '' @ debug_strings ss"

definition parse_processed_autara_tx ::
    "instruction_codecs \<Rightarrow> event_codecs \<Rightarrow> arch_sdk \<Rightarrow> processed_transaction \<Rightarrow> pubkey \<Rightarrow> autara_event list client_result" where
  "parse_processed_autara_tx B C S processed program_id =
     (case pt_status processed of
        Queued \<Rightarrow> CErr (OtherError (''Transaction is still queued: '' @ sdk_debug S processed))
      | Processed \<Rightarrow> COk (events_from_processed_tx B C (\<lambda>x. x = program_id) processed)
      | FailedWith msg \<Rightarrow>
          (case map_option (from_error_code (sdk_program_error_from S)) (Option.bind (captures msg) u32_from_hex) of
             Some kind \<Rightarrow>
               CErr (AutaraTxError kind (pt_logs processed)
                 (events_from_processed_tx B C (\<lambda>x. x = program_id) processed))
           | None \<Rightarrow>
               CErr (OtherError (''status = '' @ msg @ '', logs = ['' @ debug_strings (pt_logs processed) @ '']''))))"

definition broadcast_transaction ::
    "instruction_codecs \<Rightarrow> event_codecs \<Rightarrow> arch_sdk \<Rightarrow> pubkey \<Rightarrow> runtime_transaction \<Rightarrow> autara_event list client_result" where
  "broadcast_transaction B C S program_id transaction =
     (if rt_signatures transaction = [] then CPanic
      else case sdk_send_and_wait S transaction of
        Done processed \<Rightarrow> parse_processed_autara_tx B C S processed program_id
      | Failed e \<Rightarrow> CErr (ArchError e)
      | Panicked \<Rightarrow> CPanic)"

text \<open>\<open>PartialEq\<close>: an error of the client equals an error of the program when it carries that kind.\<close>

fun client_error_eq :: "(lending_program_error_kind \<Rightarrow> 'i \<Rightarrow> bool) \<Rightarrow> autara_client_error \<Rightarrow> 'i \<Rightarrow> bool" where
  "client_error_eq eq (AutaraTxError kind logs events) i = eq kind i"
| "client_error_eq eq (OtherError e) i = False"
| "client_error_eq eq (ArchError e) i = False"

section \<open>The client with a signer (client\_with\_signer.rs)\<close>

record signer_client =
  sc_read_client :: read_client
  sc_signer :: keypair

text \<open>The builder draws a block hash of its own.\<close>

definition sc_tx_builder :: "signer_client \<Rightarrow> u8 list outcome \<Rightarrow> transaction_builder" where
  "sc_tx_builder self blockhash = \<lparr>tb_read_client = sc_read_client self,
     tb_program_id = rc_autara_program_id (sc_read_client self), tb_authority_key = kp_pubkey (sc_signer self),
     tb_blockhash = blockhash\<rparr>"

text \<open>The common body of the methods: sign with the own key and broadcast.\<close>

definition sign_and_broadcast ::
    "instruction_codecs \<Rightarrow> event_codecs \<Rightarrow> arch_sdk \<Rightarrow> signer_client \<Rightarrow> transaction_to_sign outcome
     \<Rightarrow> autara_event list client_result" where
  "sign_and_broadcast B C S self built_tx =
     (case built_tx of
        Done tx \<Rightarrow>
          (case tx_sign (sdk_sign_message S) [sc_signer self] tx of
             Done transaction \<Rightarrow>
               broadcast_transaction B C S (rc_autara_program_id (sc_read_client self)) transaction
           | _ \<Rightarrow> CPanic)
      | Failed e \<Rightarrow> CErr (OtherError e)
      | Panicked \<Rightarrow> CPanic)"

definition sc_submit ::
    "environment \<Rightarrow> instruction_codecs \<Rightarrow> event_codecs \<Rightarrow> message_new \<Rightarrow> arch_sdk \<Rightarrow> signer_client
     \<Rightarrow> u8 list outcome \<Rightarrow> client_request \<Rightarrow> autara_event list client_result" where
  "sc_submit E B C M S self blockhash req =
     sign_and_broadcast B C S self (client_transaction E B M (sc_tx_builder self blockhash) req)"

text \<open>The methods, each on the block hash that its builder draws.\<close>

type_synonym 'r client_method =
  "environment \<Rightarrow> instruction_codecs \<Rightarrow> event_codecs \<Rightarrow> message_new \<Rightarrow> arch_sdk \<Rightarrow> signer_client \<Rightarrow> u8 list outcome \<Rightarrow> 'r"

definition sc_supply :: "(pubkey \<Rightarrow> u64 \<Rightarrow> autara_event list client_result) client_method" where
  "sc_supply E B C M S self blockhash market_key amount =
     sc_submit E B C M S self blockhash (ReqSupply market_key amount)"

definition sc_deposit_collateral :: "(pubkey \<Rightarrow> u64 \<Rightarrow> autara_event list client_result) client_method" where
  "sc_deposit_collateral E B C M S self blockhash market_key amount =
     sc_submit E B C M S self blockhash (ReqDepositCollateral market_key amount)"

definition sc_withdraw_collateral :: "(pubkey \<Rightarrow> u64 option \<Rightarrow> autara_event list client_result) client_method" where
  "sc_withdraw_collateral E B C M S self blockhash market_key amount =
     sc_submit E B C M S self blockhash (ReqWithdrawCollateral market_key amount)"

definition sc_borrow :: "(pubkey \<Rightarrow> u64 \<Rightarrow> autara_event list client_result) client_method" where
  "sc_borrow E B C M S self blockhash market_key amount =
     sc_submit E B C M S self blockhash (ReqBorrow market_key amount)"

definition sc_repay :: "(pubkey \<Rightarrow> u64 option \<Rightarrow> autara_event list client_result) client_method" where
  "sc_repay E B C M S self blockhash market_key amount =
     sc_submit E B C M S self blockhash (ReqRepay market_key amount)"

definition sc_withdraw_supply :: "(pubkey \<Rightarrow> u64 option \<Rightarrow> autara_event list client_result) client_method" where
  "sc_withdraw_supply E B C M S self blockhash market_key amount =
     sc_submit E B C M S self blockhash (ReqWithdrawSupply market_key amount)"

definition sc_update_config :: "(pubkey \<Rightarrow> update_config_instruction \<Rightarrow> autara_event list client_result) client_method" where
  "sc_update_config E B C M S self blockhash market_key config_ix =
     sc_submit E B C M S self blockhash (ReqUpdateConfig market_key config_ix)"

definition sc_add_whitelisted_liquidator :: "(pubkey \<Rightarrow> pubkey \<Rightarrow> autara_event list client_result) client_method" where
  "sc_add_whitelisted_liquidator E B C M S self blockhash market_key liquidator_key =
     sc_submit E B C M S self blockhash (ReqAddLiquidator market_key liquidator_key)"

definition sc_remove_whitelisted_liquidator :: "(pubkey \<Rightarrow> pubkey \<Rightarrow> autara_event list client_result) client_method" where
  "sc_remove_whitelisted_liquidator E B C M S self blockhash market_key liquidator_key =
     sc_submit E B C M S self blockhash (ReqRemoveLiquidator market_key liquidator_key)"

definition sc_liquidate :: "(pubkey \<Rightarrow> pubkey \<Rightarrow> u64 option \<Rightarrow> u64 option \<Rightarrow> arch_instruction option \<Rightarrow> autara_event list client_result) client_method" where
  "sc_liquidate E B C M S self blockhash market_key position_key max_repay min_collateral ix_callback =
     sc_submit E B C M S self blockhash (ReqLiquidate market_key position_key max_repay min_collateral ix_callback)"

definition sc_begin_capital_sweep :: "(pubkey \<Rightarrow> pubkey \<Rightarrow> autara_event list client_result) client_method" where
  "sc_begin_capital_sweep E B C M S self blockhash market_key position_key =
     sc_submit E B C M S self blockhash (ReqBeginCapitalSweep market_key position_key)"

definition sc_settle_capital_sweep :: "(pubkey \<Rightarrow> pubkey \<Rightarrow> u64 option \<Rightarrow> u64 option \<Rightarrow> autara_event list client_result) client_method" where
  "sc_settle_capital_sweep E B C M S self blockhash market_key position_key max_repay max_return =
     sc_submit E B C M S self blockhash (ReqSettleCapitalSweep market_key position_key max_repay max_return)"

definition sc_reedeem_curator_fees :: "(pubkey \<Rightarrow> autara_event list client_result) client_method" where
  "sc_reedeem_curator_fees E B C M S self blockhash market_key =
     sc_submit E B C M S self blockhash (ReqRedeemCuratorFees market_key)"

definition sc_reedeem_protocol_fees :: "(pubkey \<Rightarrow> autara_event list client_result) client_method" where
  "sc_reedeem_protocol_fees E B C M S self blockhash market_key =
     sc_submit E B C M S self blockhash (ReqRedeemProtocolFees market_key)"

definition sc_update_global_config :: "(update_global_config_instruction \<Rightarrow> autara_event list client_result) client_method" where
  "sc_update_global_config E B C M S self blockhash update_ix =
     sc_submit E B C M S self blockhash (ReqUpdateGlobalConfig update_ix)"

definition sc_borrow_deposit :: "(pubkey \<Rightarrow> borrow_deposit_apl_instruction \<Rightarrow> autara_event list client_result) client_method" where
  "sc_borrow_deposit E B C M S self blockhash market_key ix =
     sc_submit E B C M S self blockhash (ReqBorrowDeposit market_key ix)"

definition sc_withdraw_repay :: "(pubkey \<Rightarrow> withdraw_repay_apl_instruction \<Rightarrow> autara_event list client_result) client_method" where
  "sc_withdraw_repay E B C M S self blockhash market_key ix =
     sc_submit E B C M S self blockhash (ReqWithdrawRepay market_key ix)"

definition sc_donate_supply :: "(pubkey \<Rightarrow> u64 \<Rightarrow> autara_event list client_result) client_method" where
  "sc_donate_supply E B C M S self blockhash market_key amount =
     sc_submit E B C M S self blockhash (ReqDonateSupply market_key amount)"

definition sc_socialize_loss :: "(pubkey \<Rightarrow> pubkey \<Rightarrow> autara_event list client_result) client_method" where
  "sc_socialize_loss E B C M S self blockhash market_key position_key =
     sc_submit E B C M S self blockhash (ReqSocializeLoss market_key position_key)"

text \<open>\<open>AutaraFullClientWithoutSigner\<close> builds for any authority, with the block hash of its cache.\<close>

record blockhash_cache =
  bc_latest :: "u8 list"

definition blockhash_cache_new :: "u8 list outcome \<Rightarrow> blockhash_cache outcome" where
  "blockhash_cache_new best = bind_o best (\<lambda>h. Done \<lparr>bc_latest = h\<rparr>)"

text \<open>One turn of the background task: a failed request leaves the hash as it is.\<close>

definition blockhash_cache_turn :: "u8 list outcome \<Rightarrow> blockhash_cache \<Rightarrow> blockhash_cache" where
  "blockhash_cache_turn best self = (case best of Done h \<Rightarrow> self\<lparr>bc_latest := h\<rparr> | _ \<Rightarrow> self)"

text \<open>The time between two turns, in nanoseconds.\<close>

definition blockhash_interval :: "nat option \<Rightarrow> nat" where
  "blockhash_interval interval = max (case interval of None \<Rightarrow> 3000000000 | Some n \<Rightarrow> n) 1000000000"

record client_without_signer =
  cw_read_client :: read_client
  cw_blockhash_cache :: blockhash_cache

definition cw_tx_builder :: "client_without_signer \<Rightarrow> pubkey \<Rightarrow> transaction_builder" where
  "cw_tx_builder self authority = \<lparr>tb_read_client = cw_read_client self,
     tb_program_id = rc_autara_program_id (cw_read_client self), tb_authority_key = authority,
     tb_blockhash = Done (bc_latest (cw_blockhash_cache self))\<rparr>"

text \<open>The block hash of a transaction without a signer is the last one the node answered with.\<close>

lemma blockhash_cache_latest:
  "bc_latest (fold blockhash_cache_turn answers self)
   = last (bc_latest self # List.map_filter (\<lambda>a. case a of Done h \<Rightarrow> Some h | _ \<Rightarrow> None) answers)"
  by (induction answers arbitrary: self)
    (simp_all add: map_filter_simps blockhash_cache_turn_def split: outcome.splits)

text \<open>\<open>create_market\<close> answers with the address of the market.\<close>

definition sc_create_market ::
    "environment \<Rightarrow> instruction_codecs \<Rightarrow> event_codecs \<Rightarrow> message_new \<Rightarrow> arch_sdk \<Rightarrow> signer_client
     \<Rightarrow> u8 list outcome \<Rightarrow> create_market_instruction \<Rightarrow> pubkey \<Rightarrow> pubkey \<Rightarrow> pubkey client_result" where
  "sc_create_market E B C M S self blockhash create_market supply_mint collateral_mint =
     (let T = sc_tx_builder self blockhash in
      case tx_create_market E B M T (tb_authority_key T) (tb_authority_key T) create_market supply_mint collateral_mint of
        Done (market, tx) \<Rightarrow>
          (case sign_and_broadcast B C S self (Done tx) of
             COk _ \<Rightarrow> COk market | CErr e \<Rightarrow> CErr e | CPanic \<Rightarrow> CPanic)
      | Failed e \<Rightarrow> CErr (OtherError e)
      | Panicked \<Rightarrow> CPanic)"

text \<open>\<open>create_global_config\<close> takes the message that the account already exists for a success.\<close>

definition sc_create_global_config ::
    "environment \<Rightarrow> instruction_codecs \<Rightarrow> event_codecs \<Rightarrow> message_new \<Rightarrow> arch_sdk \<Rightarrow> signer_client
     \<Rightarrow> u8 list outcome \<Rightarrow> pubkey \<Rightarrow> pubkey \<Rightarrow> u16 \<Rightarrow> pubkey client_result" where
  "sc_create_global_config E B C M S self blockhash admin_key fee_receiver_key share =
     (let T = sc_tx_builder self blockhash in
      case tx_create_global_config E B M T (tb_authority_key T) admin_key fee_receiver_key share of
        Done (global_config_pda, tx) \<Rightarrow>
          (case sign_and_broadcast B C S self (Done tx) of
             COk _ \<Rightarrow> COk global_config_pda
           | CErr (OtherError error) \<Rightarrow>
               if contains_str error ''already exists'' then COk global_config_pda else CErr (OtherError error)
           | CErr e \<Rightarrow> CErr e
           | CPanic \<Rightarrow> CPanic)
      | Failed e \<Rightarrow> CErr (OtherError e)
      | Panicked \<Rightarrow> CPanic)"

section \<open>Errors as the program returns them\<close>

lemma hex_char_digit: "d < 16 \<Longrightarrow> hex_digit (hex_char d) = Some d"
  by (auto simp: hex_digit_def hex_char_def Let_def of_char_of take_bit_nat_eq_self)

lemma to_hex_digits: "c \<in> set (to_hex n) \<Longrightarrow> hex_digit c \<noteq> None"
proof (induction n rule: to_hex.induct)
  case (1 n)
  then show ?case using hex_char_digit [of n] hex_char_digit [of "n mod 16"]
    by (subst (asm) (2) to_hex.simps) (auto split: if_splits)
qed

lemma to_hex_nonempty [simp]: "to_hex n \<noteq> []"
  by (subst to_hex.simps) simp

lemma hex_value_snoc: "hex_value (s @ [c]) = 16 * hex_value s + (case hex_digit c of Some d \<Rightarrow> d | None \<Rightarrow> 0)"
  by (simp add: hex_value_def)

lemma hex_value_to_hex: "hex_value (to_hex n) = n"
proof (induction n rule: to_hex.induct)
  case (1 n)
  show ?case
  proof (cases "n < 16")
    case True
    then show ?thesis by (subst to_hex.simps) (simp add: hex_value_def hex_char_digit)
  next
    case False
    then show ?thesis using 1 by (subst to_hex.simps) (simp add: hex_value_snoc hex_char_digit)
  qed
qed

lemma u32_from_to_hex: "u32_from_hex (to_hex (unat (code :: u32))) = Some code"
  using unsigned_less [of code, where ?'a = nat] by (simp add: u32_from_hex_def hex_value_to_hex)

lemma hex_run_stops: "list_all (\<lambda>c. hex_digit c \<noteq> None) h \<Longrightarrow> post = [] \<or> hex_digit (hd post) = None \<Longrightarrow> hex_run (h @ post) = h"
  by (cases post) (auto simp: hex_run_def list_all_iff takeWhile_eq_all_conv)

lemma contains_str_take: "contains_str (take n s) p \<Longrightarrow> contains_str s p"
  by (induction s arbitrary: n) (auto simp: take_Cons split: nat.splits)

text \<open>No earlier occurrence of the prefix, also none that overlaps it.\<close>

definition first_prefix :: "string \<Rightarrow> bool" where
  "first_prefix pre \<longleftrightarrow> \<not> contains_str (pre @ butlast error_prefix) error_prefix"

lemma captures_first:
  assumes "first_prefix pre" "h \<noteq> []" "list_all (\<lambda>c. hex_digit c \<noteq> None) h" "post = [] \<or> hex_digit (hd post) = None"
  shows "captures (pre @ error_prefix @ h @ post) = Some h"
  using assms(1)
proof (induction pre)
  case Nil
  obtain c s where e: "error_prefix = c # s" by (simp add: error_prefix_def)
  have "captures (c # s @ h @ post) = Some h"
    using hex_run_stops [OF assms(3,4)] assms(2) by (simp add: match_here_def e)
  then show ?case by (simp add: e)
next
  case (Cons c pre)
  let ?n = "length error_prefix"
  have "take ?n (c # pre @ butlast error_prefix) \<noteq> error_prefix" "first_prefix pre"
    using Cons.prems by (auto simp: first_prefix_def)
  moreover have "take ?n (c # pre @ error_prefix @ h @ post) = take ?n (c # pre @ butlast error_prefix)"
  proof -
    have "error_prefix = butlast error_prefix @ [last error_prefix]" by (simp add: error_prefix_def)
    then have "c # pre @ error_prefix @ h @ post = (c # pre @ butlast error_prefix) @ last error_prefix # h @ post"
      by (metis append.assoc append_Cons append_Nil)
    moreover have "?n \<le> length (c # pre @ butlast error_prefix)" by (simp add: error_prefix_def)
    ultimately show ?thesis by (metis take_append diff_is_0_eq' take0 append_Nil2 take_0)
  qed
  ultimately show ?case using Cons.IH by (simp add: match_here_def)
qed

text \<open>
  C25: An error of the program reaches the caller of the client as it is. When the program refuses an
  instruction with an error of its own and the node reports the transaction as failed with the code it
  returned, in hexadecimal after the usual words and anywhere in the message, the client answers with exactly
  that error. The hypotheses are that the message has no earlier occurrence of these words, that the code
  is not followed by another hexadecimal digit, and how the SDK reads a code.
\<close>

theorem client_reports_error:
  assumes "process_instruction F E B idl t pid accounts data = Inl (Some (Custom code))"
    and "autara_process_instruction F E B idl t pid accounts data = PErr kind"
    and "\<forall>err. kind \<noteq> ProgramError err"
    and "\<And>c. 6000 \<le> c \<Longrightarrow> sdk_program_error_from S (ucast (c :: u32)) = Custom c"
    and "pt_status p = FailedWith (pre @ error_prefix @ to_hex (unat code) @ post)"
    and "first_prefix pre" and "post = [] \<or> hex_digit (hd post) = None"
  shows "parse_processed_autara_tx B C S p pid
    = CErr (AutaraTxError kind (pt_logs p) (events_from_processed_tx B C (\<lambda>x. x = pid) p))"
proof -
  have "into_program_error kind = Custom code"
    using assms(1,2) by (simp add: process_instruction_def)
  then have "from_error_code (sdk_program_error_from S) code = kind"
    using error_code_roundtrip [OF assms(4) assms(3)] by auto
  moreover have "captures (pre @ error_prefix @ to_hex (unat code) @ post) = Some (to_hex (unat code))"
    using assms(6,7) to_hex_digits by (intro captures_first) (auto simp: list_all_iff)
  ultimately show ?thesis
    by (simp add: parse_processed_autara_tx_def assms(5) u32_from_to_hex)
qed

section \<open>Events as the program logs them\<close>

definition logged :: "effect list \<Rightarrow> autara_event list" where
  "logged effects = List.map_filter (\<lambda>e. case e of LogEvent _ _ ev _ \<Rightarrow> Some ev | _ \<Rightarrow> None) effects"

text \<open>Instructions that none of the program is among.\<close>

definition foreign :: "arch_message \<Rightarrow> pubkey \<Rightarrow> (nat \<times> u8 list) list \<Rightarrow> bool" where
  "foreign msg pid ixs \<longleftrightarrow> list_all (\<lambda>ix. get_account_key msg (fst ix) \<noteq> Some pid) ixs"

text \<open>
  The inner instructions the runtime records for one effect: the call of the program for an event, and
  instructions of other programs for every other one, a callback among them.
\<close>

fun records :: "instruction_codecs \<Rightarrow> event_codecs \<Rightarrow> arch_message \<Rightarrow> pubkey \<Rightarrow> effect \<Rightarrow> (nat \<times> u8 list) list \<Rightarrow> bool" where
  "records B C msg pid (LogEvent program_id market ev seeds) ixs \<longleftrightarrow>
     (let i = log_ix B C program_id market ev in
      map (\<lambda>(k, data). (get_account_key msg k, data)) ixs = [(Some (ai_program_id i), ai_instruction_data i)])"
| "records B C msg pid e ixs \<longleftrightarrow> foreign msg pid ixs"

definition events_in :: "instruction_codecs \<Rightarrow> event_codecs \<Rightarrow> arch_message \<Rightarrow> pubkey \<Rightarrow> (nat \<times> u8 list) list \<Rightarrow> autara_event list" where
  "events_in B C msg pid ixs = List.map_filter (\<lambda>(i, data).
     if get_account_key msg i = Some pid then event_from_bytes B C data else None) ixs"

lemma map_filter_append: "List.map_filter f (xs @ ys) = List.map_filter f xs @ List.map_filter f ys"
  by (induction xs) (simp_all add: map_filter_simps split: option.splits)

lemma events_from_events_in:
  "events_from_processed_tx B C (\<lambda>x. x = pid) p = events_in B C (pt_message p) pid (concat (pt_inner_instructions_list p))"
proof -
  have "List.map_filter (\<lambda>(k, data). if k = pid then event_from_bytes B C data else None)
      (List.map_filter (\<lambda>(i, data). map_option (\<lambda>k. (k, data)) (get_account_key (pt_message p) i)) ixs)
    = events_in B C (pt_message p) pid ixs" for ixs
    by (induction ixs) (auto simp: events_in_def map_filter_simps split: option.splits)
  then show ?thesis by (simp add: events_from_processed_tx_def get_ix_data_with_program_ids_def)
qed

lemma events_in_append [simp]: "events_in B C msg pid (xs @ ys) = events_in B C msg pid xs @ events_in B C msg pid ys"
  by (simp add: events_in_def map_filter_append)

lemma events_in_foreign [simp]: "foreign msg pid xs \<Longrightarrow> events_in B C msg pid xs = []"
  by (induction xs) (auto simp: events_in_def foreign_def map_filter_simps)

lemma event_from_log_ix:
  assumes "codec_ok (ix_tag_codec B)" "event_codecs_spec C"
  shows "event_from_bytes B C (ai_instruction_data (log_ix B C pid market ev)) = Some ev"
  using event_codecs_spec.event_roundtrip [OF assms(2), of ev "[]"] assms(1)
  by (simp add: event_from_bytes_def log_ix_def codec_ok_def write_with_def)

lemma events_in_single:
  "events_in B C msg pid [(i, data)] = (if get_account_key msg i = Some pid
     then case event_from_bytes B C data of None \<Rightarrow> [] | Some ev \<Rightarrow> [ev] else [])"
  by (simp add: events_in_def map_filter_simps split: option.split)

lemma records_events:
  assumes "codec_ok (ix_tag_codec B)" "event_codecs_spec C" "records B C msg pid e ixs"
    "\<forall>p m ev s. e = LogEvent p m ev s \<longrightarrow> p = pid"
  shows "events_in B C msg pid ixs = logged [e]"
proof (cases "\<exists>m ev s. e = LogEvent pid m ev s")
  case True
  then obtain m ev s where e: "e = LogEvent pid m ev s" by blast
  then obtain i where "ixs = [(i, ai_instruction_data (log_ix B C pid m ev))]" "get_account_key msg i = Some pid"
    using assms(3) by (cases ixs) (auto simp: Let_def log_ix_def)
  then show ?thesis using event_from_log_ix [OF assms(1,2)] by (simp add: e events_in_single logged_def map_filter_simps)
next
  case False
  then show ?thesis using assms(3,4) by (cases e) (simp_all add: logged_def map_filter_simps)
qed

lemma records_all:
  assumes "codec_ok (ix_tag_codec B)" "event_codecs_spec C" "list_all2 (records B C msg pid) effects parts"
    "\<forall>p m ev s. LogEvent p m ev s \<in> set effects \<longrightarrow> p = pid"
  shows "events_in B C msg pid (concat parts) = logged effects"
  using assms(3,4)
proof (induction effects parts rule: list_all2_induct)
  case Nil
  then show ?case by (simp add: logged_def events_in_def map_filter_simps)
next
  case (Cons e es p ps)
  then have "events_in B C msg pid p = logged [e]" by (intro records_events [OF assms(1,2)]) auto
  moreover have "logged (e # es) = logged [e] @ logged es" by (simp add: logged_def map_filter_simps split: option.splits)
  moreover have "events_in B C msg pid (concat ps) = logged es" using Cons.IH Cons.prems by (metis list.set_intros(2))
  ultimately show ?case by simp
qed

text \<open>A handler logs under the identity of the program.\<close>

definition logs_own :: "pubkey \<Rightarrow> effect list \<Rightarrow> bool" where
  "logs_own pid effects \<longleftrightarrow> list_all (\<lambda>e. case e of LogEvent p _ _ _ \<Rightarrow> p = pid | _ \<Rightarrow> True) effects"

lemma callback_logs [simp]: "logs_own pid (callback_effects c)"
  by (simp add: logs_own_def callback_effects_def split: option.splits)

lemma logs_own_simps [simp]:
  "logs_own pid []" "logs_own pid (xs @ ys) \<longleftrightarrow> logs_own pid xs \<and> logs_own pid ys"
  "logs_own pid (e # es) \<longleftrightarrow> (case e of LogEvent p _ _ _ \<Rightarrow> p = pid | _ \<Rightarrow> True) \<and> logs_own pid es"
  by (simp_all add: logs_own_def)

lemmas log_simps = log_effect_def Let_def

lemma logs_own_lender:
  "process_supply_apl F E a1 atoms pid now = POk effects \<Longrightarrow> logs_own pid effects"
  "process_withdraw_supply F E a2 d2 pid now = POk effects \<Longrightarrow> logs_own pid effects"
  "process_donate_supply F a3 atoms pid now = POk effects \<Longrightarrow> logs_own pid effects"
  by (auto simp: process_supply_apl_def process_withdraw_supply_def process_donate_supply_def log_simps)

lemma logs_own_borrower:
  "process_borrow_apl F E a1 atoms pid now = POk effects \<Longrightarrow> logs_own pid effects"
  "process_deposit_apl_collateral F E a2 atoms pid now = POk effects \<Longrightarrow> logs_own pid effects"
  "process_withdraw_apl_collateral F E a3 d3 pid now = POk effects \<Longrightarrow> logs_own pid effects"
  "process_repay_apl F E a4 d4 pid now = POk effects \<Longrightarrow> logs_own pid effects"
  "process_borrow_deposit_apl F E a5 d5 pid now = POk effects \<Longrightarrow> logs_own pid effects"
  "process_withdraw_repay_apl F E a6 d6 pid now = POk effects \<Longrightarrow> logs_own pid effects"
  by (auto simp: process_borrow_apl_def process_deposit_apl_collateral_def
      process_withdraw_apl_collateral_def process_repay_apl_def process_borrow_deposit_apl_def
      process_withdraw_repay_apl_def log_simps)

lemma logs_own_liquidation:
  "process_liquidate F E a1 d1 pid now = POk effects \<Longrightarrow> logs_own pid effects"
  "process_begin_capital_sweep F E a2 pid now = POk effects \<Longrightarrow> logs_own pid effects"
  "process_settle_capital_sweep F E a3 d3 pid now = POk effects \<Longrightarrow> logs_own pid effects"
  "process_socialize_loss F E a4 pid now = POk effects \<Longrightarrow> logs_own pid effects"
  by (auto simp: process_liquidate_def process_begin_capital_sweep_def
      process_settle_capital_sweep_def process_socialize_loss_def log_simps split: if_splits)

lemma logs_own_admin:
  "process_redeem_curator_fees F a1 pid now = POk effects \<Longrightarrow> logs_own pid effects"
  "process_redeem_protocol_fees F a2 pid now = POk effects \<Longrightarrow> logs_own pid effects"
  "process_update_config F E a3 d3 now = POk effects \<Longrightarrow> logs_own pid effects"
  "process_update_global_config a4 d4 = POk effects \<Longrightarrow> logs_own pid effects"
  "process_create_market F E a5 d5 pid now = POk effects \<Longrightarrow> logs_own pid effects"
  "process_create_supply_position E a6 d6 pid = POk effects \<Longrightarrow> logs_own pid effects"
  "process_create_borrow_position E a7 d7 pid = POk effects \<Longrightarrow> logs_own pid effects"
  "process_create_global_config E a8 d8 pid = POk effects \<Longrightarrow> logs_own pid effects"
  "process_add_whitelisted_liquidator E a9 d9 pid = POk effects \<Longrightarrow> logs_own pid effects"
  "process_remove_whitelisted_liquidator a10 d10 pid = POk effects \<Longrightarrow> logs_own pid effects"
  by (auto simp: process_redeem_curator_fees_def process_redeem_protocol_fees_def
      process_update_config_def process_update_global_config_def process_create_market_def
      process_create_supply_position_def process_create_borrow_position_def
      process_create_global_config_def process_add_whitelisted_liquidator_def
      process_remove_whitelisted_liquidator_def log_simps split: if_splits)

lemmas logs_own_handlers = logs_own_lender logs_own_borrower logs_own_liquidation logs_own_admin

lemma program_logs_own:
  "process_aurata_instruction F E pid accounts now ix = POk effects \<Longrightarrow> logs_own pid effects"
  by (cases ix) (auto simp: process_aurata_instruction_def dest: logs_own_handlers)

text \<open>
  C26: The client shows the caller exactly the events the program logged for his transaction, in their order.
  The hypotheses say what the runtime records: an inner instruction for each call of the program, so that its
  own calls carry the data of \<open>log_ix\<close>, and none of the program for what other programs do.
\<close>

theorem client_shows_logged_events:
  assumes "process_aurata_instruction F E pid accounts now ix = POk effects"
    and "codec_ok (ix_tag_codec B)" and "event_codecs_spec C"
    and "pt_status p = Processed" and "pt_inner_instructions_list p = earlier @ concat parts # later"
    and "list_all2 (records B C (pt_message p) pid) effects parts"
    and "foreign (pt_message p) pid (concat earlier)" and "foreign (pt_message p) pid (concat later)"
  shows "parse_processed_autara_tx B C S p pid = COk (logged effects)"
proof -
  have "\<forall>q m ev s. LogEvent q m ev s \<in> set effects \<longrightarrow> q = pid"
    using program_logs_own [OF assms(1)] by (auto simp: logs_own_def list_all_iff)
  then have "events_in B C (pt_message p) pid (concat parts) = logged effects"
    by (rule records_all [OF assms(2,3,6)])
  then show ?thesis using assms(4,5,7,8) by (simp add: parse_processed_autara_tx_def events_from_events_in)
qed

section \<open>Examples\<close>

definition example_sdk :: "processed_transaction \<Rightarrow> arch_sdk" where
  "example_sdk p = \<lparr>sdk_sign_message = (\<lambda>k digest. kp_secret k @ digest), sdk_send_and_wait = (\<lambda>_. Done p),
     sdk_program_error_from = (\<lambda>c. Custom (ucast c)), sdk_debug = (\<lambda>_. [])\<rparr>"

definition example_failed :: processed_transaction where
  "example_failed = \<lparr>pt_message = \<lparr>msg_account_keys = [11, crate_id, 7], msg_num_required_signatures = 1, msg_hash = [1]\<rparr>,
     pt_status = FailedWith ''Program failed: custom program error: 0x1772 (instruction 0)'',
     pt_logs = [''Program log: refused''], pt_inner_instructions_list = []\<rparr>"

theorem client_reports_error_witness:
  "autara_process_instruction fixed_reference example_env example_codecs (\<lambda>_. None) 1000 crate_id
     [example_account 12 3 True (RawAccount [])] (instruction_serialize example_codecs Log)
   = PErr (AccountValidationError InvalidOwner)
   \<and> parse_processed_autara_tx example_codecs borsh_reference (example_sdk example_failed) example_failed crate_id
     = CErr (AutaraTxError (AccountValidationError InvalidOwner) [''Program log: refused''] [])"
proof -
  let ?a = "[example_account 12 3 True (RawAccount [])]" and ?d = "instruction_serialize example_codecs Log"
  have "ix_tag_codec example_codecs = ix_tag_codec_ref" by (simp add: example_codecs_def)
  then have d: "\<not> is_idl_instruction ?d" "instruction_deserialize_reader example_codecs (?d @ []) = Some (Log, [])"
    by (rule serialized_not_idl) (intro read_serialized; simp add: example_codecs_def ix_tag_codec_ref_ok)
  then have r: "autara_process_instruction fixed_reference example_env example_codecs (\<lambda>_. None) 1000 crate_id ?a ?d
      = PErr (AccountValidationError InvalidOwner)"
    by (simp add: autara_process_instruction_def process_aurata_instruction_def log_from_accounts_def loader_eval
        example_account_def clock_def crate_id_def)
  have c: "into_program_error (AccountValidationError InvalidOwner) = Custom 6002"
    by (simp add: error_offsets discriminant_def account_validation_errors_def)
  have "process_instruction fixed_reference example_env example_codecs (\<lambda>_. None) 1000 crate_id ?a ?d
      = Inl (Some (Custom 6002))" unfolding process_instruction_def r by (simp add: c del: into_program_error.simps)
  then have "parse_processed_autara_tx example_codecs borsh_reference (example_sdk example_failed) example_failed crate_id
      = CErr (AutaraTxError (AccountValidationError InvalidOwner) (pt_logs example_failed)
          (events_from_processed_tx example_codecs borsh_reference (\<lambda>x. x = crate_id) example_failed))"
    by (rule client_reports_error [OF _ r, where pre = "''Program failed: ''" and post = "'' (instruction 0)''"])
      (simp_all add: example_sdk_def example_failed_def error_prefix_def first_prefix_def to_hex.simps hex_char_def
        hex_digit_def Let_def char_of_def bit_Suc_0_iff)
  with r show ?thesis
    by (simp add: example_failed_def events_from_processed_tx_def get_ix_data_with_program_ids_def map_filter_simps)
qed

theorem client_shows_logged_events_witness:
  "\<exists>m p' ev p. process_aurata_instruction fixed_reference example_env crate_id
     example_borrow_deposit_accounts 1000 example_borrow_deposit
   = POk [Write 12 (MarketAccount m), Write 30 (BorrowPositionAccount p'),
          LogEvent crate_id 12 (EvBorrowAndDeposit ev) [market_seed m],
          TokenTransfer 101 50 12 200 [market_seed m], Invoke example_callback,
          TokenTransfer 51 201 11 400 []]
    \<and> pt_inner_instructions_list p = [[(1, ai_instruction_data (log_ix example_codecs borsh_reference crate_id 12
         (EvBorrowAndDeposit ev))), (2, [1]), (0, [2]), (2, [3])]]
    \<and> parse_processed_autara_tx example_codecs borsh_reference (example_sdk p) p crate_id = COk [EvBorrowAndDeposit ev]"
proof -
  obtain m p' ev where r: "process_aurata_instruction fixed_reference example_env crate_id
      example_borrow_deposit_accounts 1000 example_borrow_deposit
   = POk [Write 12 (MarketAccount m), Write 30 (BorrowPositionAccount p'),
          LogEvent crate_id 12 (EvBorrowAndDeposit ev) [market_seed m],
          TokenTransfer 101 50 12 200 [market_seed m], Invoke example_callback,
          TokenTransfer 51 201 11 400 []]"
    using example_borrow_deposit_runs by blast
  let ?d = "ai_instruction_data (log_ix example_codecs borsh_reference crate_id 12 (EvBorrowAndDeposit ev))"
  let ?p = "example_failed\<lparr>pt_status := Processed, pt_inner_instructions_list := [[(1, ?d), (2, [1]), (0, [2]), (2, [3])]]\<rparr>"
  have "parse_processed_autara_tx example_codecs borsh_reference (example_sdk ?p) ?p crate_id
      = COk (logged [Write 12 (MarketAccount m), Write 30 (BorrowPositionAccount p'),
          LogEvent crate_id 12 (EvBorrowAndDeposit ev) [market_seed m],
          TokenTransfer 101 50 12 200 [market_seed m], Invoke example_callback,
          TokenTransfer 51 201 11 400 []])"
    using borsh_ref.event_codecs_spec_axioms
    by (intro client_shows_logged_events [OF r, where earlier = "[]" and later = "[]"
          and parts = "[[], [], [(1, ?d)], [(2, [1])], [(0, [2])], [(2, [3])]]"])
      (simp_all add: example_codecs_def ix_tag_codec_ref_ok foreign_def example_failed_def get_account_key_def
        log_ix_def crate_id_def)
  then show ?thesis using r by (intro exI conjI) (simp_all add: logged_def map_filter_simps)
qed

end
