(* ===== verification/Liquidator_Bot.thy ===== *)
theory Liquidator_Bot
  imports Client_Agreement
begin

text \<open>
  The liquidator bot, \<open>src/tmp-autara-liquidator/src\<close>: the router that remembers the pools of each pair of
  tokens and asks them for quotes (\<open>router.rs\<close>), the scan of the cached positions (\<open>scanner.rs\<close>) and one turn
  of the main loop (\<open>main.rs\<close>). The exchange is a parameter: what it answers to a search for pools and to
  a request for a quote. The bot reports what it finds; it sends no transaction yet.
\<close>

section \<open>The exchange\<close>

datatype pool_info = InitializedPool pubkey | UninitializedPool

datatype swap_quote = ExactIn (token_est_out: u64) (token_min_out: u64) | ExactOut

record exchange =
  ex_fetch_pools :: "pubkey \<Rightarrow> pubkey \<Rightarrow> pool_info list outcome"
  ex_swap_instructions :: "pubkey \<Rightarrow> u64 \<Rightarrow> pubkey \<Rightarrow> u16 \<Rightarrow> pubkey option \<Rightarrow> swap_quote outcome"

section \<open>router.rs\<close>

definition SLIPPAGE_TOLERANCE_BPS :: u16 where
  "SLIPPAGE_TOLERANCE_BPS = 100"

text \<open>In seconds, as the times below.\<close>

definition DISCOVERY_INTERVAL :: nat where
  "DISCOVERY_INTERVAL = 5 * 60"

definition sort_pair :: "pubkey \<Rightarrow> pubkey \<Rightarrow> pubkey \<times> pubkey" where
  "sort_pair a b = (if a < b then (a, b) else (b, a))"

record swap_router =
  sr_pool_cache :: "((pubkey \<times> pubkey) \<times> pubkey list) list"
  sr_last_discovery :: "nat option"

definition swap_router_new :: swap_router where
  "swap_router_new = \<lparr>sr_pool_cache = [], sr_last_discovery = None\<rparr>"

definition fetch_initialized_pools :: "exchange \<Rightarrow> pubkey \<Rightarrow> pubkey \<Rightarrow> pubkey list outcome" where
  "fetch_initialized_pools X token_a token_b =
     bind_o (ex_fetch_pools X token_a token_b) (\<lambda>pools.
       Done (List.map_filter (\<lambda>p. case p of InitializedPool a \<Rightarrow> Some a | UninitializedPool \<Rightarrow> None) pools))"

definition register_pair :: "exchange \<Rightarrow> swap_router \<Rightarrow> pubkey \<Rightarrow> pubkey \<Rightarrow> swap_router outcome" where
  "register_pair X self token_a token_b =
     (let key = sort_pair token_a token_b in
      case map_of (sr_pool_cache self) key of
        Some _ \<Rightarrow> Done self
      | None \<Rightarrow>
          bind_o (fetch_initialized_pools X token_a token_b) (\<lambda>initialized.
            Done (self\<lparr>sr_pool_cache := AList.update key initialized (sr_pool_cache self)\<rparr>)))"

text \<open>A pair whose search fails keeps its pools.\<close>

fun refresh_pairs ::
    "exchange \<Rightarrow> (pubkey \<times> pubkey) list \<Rightarrow> ((pubkey \<times> pubkey) \<times> pubkey list) list
     \<Rightarrow> ((pubkey \<times> pubkey) \<times> pubkey list) list outcome" where
  "refresh_pairs X [] cache = Done cache"
| "refresh_pairs X ((token_a, token_b) # pairs) cache =
     (case fetch_initialized_pools X token_a token_b of
        Done pools \<Rightarrow> refresh_pairs X pairs (AList.update (sort_pair token_a token_b) pools cache)
      | Failed _ \<Rightarrow> refresh_pairs X pairs cache
      | Panicked \<Rightarrow> Panicked)"

definition maybe_refresh_pools :: "exchange \<Rightarrow> nat \<Rightarrow> swap_router \<Rightarrow> swap_router outcome" where
  "maybe_refresh_pools X now self =
     (if case sr_last_discovery self of None \<Rightarrow> True | Some t \<Rightarrow> DISCOVERY_INTERVAL \<le> now - t
      then bind_o (refresh_pairs X (map fst (sr_pool_cache self)) (sr_pool_cache self)) (\<lambda>cache.
             Done \<lparr>sr_pool_cache = cache, sr_last_discovery = Some now\<rparr>)
      else Done self)"

text \<open>The loop over the pools: a better quote replaces the one so far, a failed one is skipped.\<close>

fun best_quote ::
    "(pubkey \<Rightarrow> swap_quote outcome) \<Rightarrow> pubkey list \<Rightarrow> (pubkey \<times> swap_quote \<times> u64) option
     \<Rightarrow> (pubkey \<times> swap_quote \<times> u64) option outcome" where
  "best_quote swap [] best = Done best"
| "best_quote swap (pool # pools) best =
     (case swap pool of
        Done (ExactIn est_out min_out) \<Rightarrow>
          best_quote swap pools
            (if case best of None \<Rightarrow> True | Some (_, _, prev) \<Rightarrow> prev < est_out
             then Some (pool, ExactIn est_out min_out, est_out) else best)
      | Done ExactOut \<Rightarrow> Panicked
      | Failed _ \<Rightarrow> best_quote swap pools best
      | Panicked \<Rightarrow> Panicked)"

definition best_quote_exact_in ::
    "exchange \<Rightarrow> swap_router \<Rightarrow> pubkey \<Rightarrow> pubkey \<Rightarrow> u64 \<Rightarrow> pubkey option
     \<Rightarrow> (swap_router \<times> (pubkey \<times> swap_quote) option) outcome" where
  "best_quote_exact_in X self input_mint output_mint amount_in signer_key =
     (let key = sort_pair input_mint output_mint in
      bind_o (case map_of (sr_pool_cache self) key of
                None \<Rightarrow> register_pair X self input_mint output_mint | Some _ \<Rightarrow> Done self) (\<lambda>self'.
        let pool_addresses = (case map_of (sr_pool_cache self') key of None \<Rightarrow> [] | Some pools \<Rightarrow> pools) in
        if pool_addresses = [] then Done (self', None)
        else
          bind_o (best_quote (\<lambda>pool. ex_swap_instructions X pool amount_in input_mint SLIPPAGE_TOLERANCE_BPS signer_key)
                    pool_addresses None) (\<lambda>best.
            Done (self', map_option (\<lambda>(pool, quote, _). (pool, quote)) best))))"

section \<open>scanner.rs\<close>

datatype route = RouteFound pubkey u64 u64 | NoRoute | RouteError string

record liquidatable =
  lq_position :: pubkey
  lq_market_key :: pubkey
  lq_health :: borrow_position_health
  lq_route :: route

text \<open>The route for the collateral of a position; an error is reported, not returned.\<close>

definition find_route ::
    "exchange \<Rightarrow> swap_router \<Rightarrow> market \<Rightarrow> borrow_position_health \<Rightarrow> (swap_router \<times> route) outcome" where
  "find_route X router m h =
     (case best_quote_exact_in X router (collateral_mint_of m) (supply_mint_of m) (collateral_atoms h) None of
        Done (router', Some (pool, ExactIn est_out min_out)) \<Rightarrow> Done (router', RouteFound pool est_out min_out)
      | Done (router', Some (pool, ExactOut)) \<Rightarrow> Panicked
      | Done (router', None) \<Rightarrow> Done (router', NoRoute)
      | Failed e \<Rightarrow> Done (router, RouteError e)
      | Panicked \<Rightarrow> Panicked)"

text \<open>
  Positions whose market or health cannot be computed are passed over. Each load of a market reads the
  clock anew, and the scan waits for quotes in between: \<open>client k\<close> is the client at the instant at which the
  position at \<open>k\<close> is looked at.
\<close>

fun scan_positions ::
    "fixed_crate \<Rightarrow> exchange \<Rightarrow> (pubkey \<Rightarrow> read_client) \<Rightarrow> (pubkey \<times> borrow_position) list \<Rightarrow> swap_router
     \<Rightarrow> (swap_router \<times> liquidatable list) outcome" where
  "scan_positions F X client [] router = Done (router, [])"
| "scan_positions F X client ((position_key, p) # ps) router =
     bind_o (rc_get_market (client position_key) (bp_market p)) (\<lambda>found.
       case found of
         None \<Rightarrow> scan_positions F X client ps router
       | Some w \<Rightarrow>
           (case mw_borrow_position_health F w p of
              Err _ \<Rightarrow> scan_positions F X client ps router
            | Panic \<Rightarrow> Panicked
            | Ok h \<Rightarrow>
                if ltv h \<ge> unhealthy_ltv (mc_ltv_config (config (mw_market w)))
                then bind_o (find_route X router (mw_market w) h) (\<lambda>(router', r).
                     bind_o (scan_positions F X client ps router') (\<lambda>(router'', found).
                       Done (router'', \<lparr>lq_position = position_key, lq_market_key = bp_market p, lq_health = h,
                         lq_route = r\<rparr> # found)))
                else scan_positions F X client ps router))"

text \<open>\<open>read now\<close> is the client at the instant \<open>now\<close>; the positions are collected first, at \<open>start\<close>.\<close>

definition scan_liquidatable_positions ::
    "fixed_crate \<Rightarrow> exchange \<Rightarrow> (i64 \<Rightarrow> read_client) \<Rightarrow> i64 \<Rightarrow> (pubkey \<Rightarrow> i64) \<Rightarrow> swap_router
     \<Rightarrow> (swap_router \<times> liquidatable list) outcome" where
  "scan_liquidatable_positions F X read start instant router =
     scan_positions F X (\<lambda>k. read (instant k)) (rc_all_borrow_position (read start)) router"

section \<open>main.rs\<close>

text \<open>
  One turn of the loop: a failed reload skips the scan. The reload reads the clock at \<open>ts\<close>, the scan at \<open>instant k\<close>
  for the position at \<open>k\<close>.
\<close>

definition liquidator_turn ::
    "fixed_crate \<Rightarrow> environment \<Rightarrow> exchange \<Rightarrow> rpc_node \<Rightarrow> i64 \<Rightarrow> (pubkey \<Rightarrow> i64) \<Rightarrow> read_client_impl \<Rightarrow> swap_router
     \<Rightarrow> (read_client_impl \<times> swap_router \<times> liquidatable list) outcome" where
  "liquidator_turn F E X node ts instant client router =
     (case ri_reload F E node ts client of
        (client', Done _) \<Rightarrow>
          bind_o (scan_liquidatable_positions F X (\<lambda>now. ri_client F E now client') ts instant router) (\<lambda>(router', found).
            Done (client', router', found))
      | (client', Failed _) \<Rightarrow> Done (client', router, [])
      | (client', Panicked) \<Rightarrow> Panicked)"

text \<open>The periodic registration of all pairs of tokens; errors are dropped.\<close>

fun register_pairs :: "exchange \<Rightarrow> (pubkey \<times> pubkey) list \<Rightarrow> swap_router \<Rightarrow> swap_router outcome" where
  "register_pairs X [] router = Done router"
| "register_pairs X ((a, b) # pairs) router =
     (case register_pair X router a b of
        Done router' \<Rightarrow> register_pairs X pairs router'
      | Failed _ \<Rightarrow> register_pairs X pairs router
      | Panicked \<Rightarrow> Panicked)"

fun array_combinations :: "'a list \<Rightarrow> ('a \<times> 'a) list" where
  "array_combinations [] = []"
| "array_combinations (x # xs) = map (Pair x) xs @ array_combinations xs"

section \<open>Quotes\<close>

lemma sort_pair_sym: "sort_pair a b = sort_pair b a"
  by (auto simp: sort_pair_def)

text \<open>What the loop keeps: the best of the quotes so far, and it is one of them.\<close>

definition best_so_far :: "(pubkey \<Rightarrow> swap_quote outcome) \<Rightarrow> pubkey set \<Rightarrow> (pubkey \<times> swap_quote \<times> u64) option \<Rightarrow> bool" where
  "best_so_far swap pools best \<longleftrightarrow>
     (case best of
        None \<Rightarrow> \<forall>pool \<in> pools. \<exists>e. swap pool = Failed e
      | Some (pool, quote, est_out) \<Rightarrow>
          pool \<in> pools \<and> swap pool = Done quote \<and> token_est_out quote = est_out \<and> quote \<noteq> ExactOut
          \<and> (\<forall>other \<in> pools. \<forall>q. swap other = Done q \<longrightarrow> token_est_out q \<le> est_out))"

lemma best_so_far_step:
  assumes "best_so_far swap seen best"
  shows "swap pool = Done (ExactIn est_out min_out) \<Longrightarrow> best_so_far swap (insert pool seen)
      (if case best of None \<Rightarrow> True | Some (_, _, prev) \<Rightarrow> prev < est_out
       then Some (pool, ExactIn est_out min_out, est_out) else best)"
    and "swap pool = Failed e \<Longrightarrow> best_so_far swap (insert pool seen) best"
  using assms by (fastforce simp: best_so_far_def not_less split: option.splits)+

lemma best_quote_maximal:
  "best_quote swap pools best = Done r \<Longrightarrow> best_so_far swap seen best \<Longrightarrow> best_so_far swap (seen \<union> set pools) r"
proof (induction pools arbitrary: best seen)
  case (Cons pool pools)
  show ?case
  proof (cases "swap pool")
    case (Done q)
    with Cons.prems obtain est_out min_out where q: "swap pool = Done (ExactIn est_out min_out)"
      by (cases q) auto
    show ?thesis
      using Cons.IH [OF _ best_so_far_step(1) [OF Cons.prems(2) q]] Cons.prems(1) q by simp
  next
    case (Failed e)
    then show ?thesis using Cons.IH [OF _ best_so_far_step(2) [OF Cons.prems(2) Failed]] Cons.prems(1) by simp
  next
    case Panicked
    with Cons.prems(1) show ?thesis by simp
  qed
qed simp

text \<open>A quote that is returned is one of a pool of the pair, and no pool of the pair offers more.\<close>

lemma best_quote_exact_in_maximal:
  assumes "best_quote_exact_in X router input_mint output_mint amount_in k = Done (router', Some (pool, quote))"
  shows "\<exists>pools. map_of (sr_pool_cache router') (sort_pair input_mint output_mint) = Some pools
    \<and> best_so_far (\<lambda>pool. ex_swap_instructions X pool amount_in input_mint SLIPPAGE_TOLERANCE_BPS k) (set pools)
        (Some (pool, quote, token_est_out quote))"
proof -
  let ?swap = "\<lambda>pool. ex_swap_instructions X pool amount_in input_mint SLIPPAGE_TOLERANCE_BPS k"
  from assms obtain pools est_out where
      m: "map_of (sr_pool_cache router') (sort_pair input_mint output_mint) = Some pools"
      and b: "best_quote ?swap pools None = Done (Some (pool, quote, est_out))"
    by (auto simp: best_quote_exact_in_def Let_def split: if_splits option.splits)
  have "best_so_far ?swap ({} \<union> set pools) (Some (pool, quote, est_out))"
    by (rule best_quote_maximal [OF b]) (simp add: best_so_far_def)
  with m show ?thesis by (auto simp: best_so_far_def)
qed

section \<open>The scan\<close>

text \<open>A position the scan reports, and what it reports of it.\<close>

definition unhealthy_in :: "fixed_crate \<Rightarrow> market_wrapper \<Rightarrow> borrow_position \<Rightarrow> borrow_position_health \<Rightarrow> bool" where
  "unhealthy_in F w p h \<longleftrightarrow> mw_borrow_position_health F w p = Ok h \<and> ltv h \<ge> unhealthy_ltv (mc_ltv_config (config (mw_market w)))"

lemma scan_positions_Cons:
  assumes "scan_positions F X client ((k, p) # ps) router = Done (router', found)"
  obtains (skipped) "\<And>w h. rc_get_market (client k) (bp_market p) = Done (Some w) \<Longrightarrow> \<not> unhealthy_in F w p h"
      and "scan_positions F X client ps router = Done (router', found)"
    | (reported) w h r router1 rest where "rc_get_market (client k) (bp_market p) = Done (Some w)" "unhealthy_in F w p h"
        "scan_positions F X client ps router1 = Done (router', rest)"
        "found = \<lparr>lq_position = k, lq_market_key = bp_market p, lq_health = h, lq_route = r\<rparr> # rest"
proof -
  from assms obtain x where x: "rc_get_market (client k) (bp_market p) = Done x" by auto
  show thesis
  proof (cases x)
    case None
    then show ?thesis using assms x by (intro skipped) auto
  next
    case (Some w)
    show ?thesis
    proof (cases "mw_borrow_position_health F w p")
      case (Ok h)
      show ?thesis
      proof (cases "ltv h \<ge> unhealthy_ltv (mc_ltv_config (config (mw_market w)))")
        case True
        then obtain router1 r rest where "scan_positions F X client ps router1 = Done (router', rest)"
            "found = \<lparr>lq_position = k, lq_market_key = bp_market p, lq_health = h, lq_route = r\<rparr> # rest"
          using assms x Some Ok by auto
        then show ?thesis using True x Some Ok by (intro reported [of w h]) (simp_all add: unhealthy_in_def)
      next
        case False
        then show ?thesis using assms x Some Ok by (intro skipped) (auto simp: unhealthy_in_def)
      qed
    next
      case (Err e)
      then show ?thesis using assms x Some by (intro skipped) (auto simp: unhealthy_in_def)
    next
      case Panic
      then show ?thesis using assms x Some by simp
    qed
  qed
qed

lemma scan_positions_sound:
  assumes "scan_positions F X client ps router = Done (router', found)" "l \<in> set found"
  shows "\<exists>p w. (lq_position l, p) \<in> set ps \<and> rc_get_market (client (lq_position l)) (bp_market p) = Done (Some w)
      \<and> unhealthy_in F w p (lq_health l) \<and> lq_market_key l = bp_market p"
  using assms
proof (induction ps arbitrary: router router' found)
  case (Cons kp ps)
  obtain k p where kp: "kp = (k, p)" by (cases kp)
  show ?case using Cons.prems unfolding kp
    by (elim scan_positions_Cons) (use Cons.IH in \<open>fastforce+\<close>)
qed simp

lemma scan_positions_complete:
  assumes "scan_positions F X client ps router = Done (router', found)" "(k, p) \<in> set ps"
    "rc_get_market (client k) (bp_market p) = Done (Some w)" "unhealthy_in F w p h"
  shows "\<exists>l \<in> set found. lq_position l = k"
  using assms(1,2)
proof (induction ps arbitrary: router router' found)
  case (Cons kp ps)
  obtain k' p' where kp: "kp = (k', p')" by (cases kp)
  show ?case using Cons.prems(1) unfolding kp
  proof (cases rule: scan_positions_Cons)
    case skipped
    then show ?thesis using Cons.IH Cons.prems(2) assms(3,4) kp by auto
  next
    case (reported w h r router1 rest)
    then show ?thesis using Cons.IH [OF reported(3)] Cons.prems(2) kp by auto
  qed
qed simp

lemma liquidation_needs_unhealthy:
  assumes "mw_liquidate F w p n = Ok r"
  shows "\<exists>h. unhealthy_in F w p h"
  using assms
  by (auto simp: mw_liquidate_def market_liquidate_def compute_liquidation_result_with_fee_def
      compute_liquidation_result_with_fee_for_collateral_def unhealthy_in_def mw_borrow_position_health_def
      market_borrow_position_health_def bind_r_eq_Ok not_less split: if_splits)

lemma ri_reload_distinct:
  assumes "ri_reload F E node ts s = (s', Done ())"
  shows "distinct (map fst (ri_borrow_position_map s'))"
  using assms
  by (auto simp: ri_reload_def Let_def load_program_accounts_pod_def collect_map_def insert_all_distinct
      split: outcome.splits prod.splits)

text \<open>
  C31: The bot misses no liquidation and reports none without reason. After a turn on a node that answers from
  one state of the chain, a position of a market that the program can open is reported exactly when the
  program's own health computation puts it at or above the threshold of the market, with that health; hence
  every position that some liquidation would succeed on is among the reports. This is for a position that
  the scan looks at in the second of the reload, at \<open>ts\<close>; the others may be looked at any time.
\<close>

theorem liquidator_finds_unhealthy:
  assumes "answers_from E node L" and "ri_program_id client = pid"
    and "ri_reload F E node ts client = (client', Done ())"
    and "liquidator_turn F E X node ts instant client router = Done (c, router', found)" and "instant key = ts"
    and "opened F E L ts pid (bp_market p) w" and "stored_borrow_position E L pid key p"
  shows "((\<exists>l \<in> set found. lq_position l = key) \<longleftrightarrow> (\<exists>h. unhealthy_in F w p h))
    \<and> (\<forall>l \<in> set found. lq_position l = key \<longrightarrow> mw_borrow_position_health F w p = Ok (lq_health l))
    \<and> (\<forall>n r. mw_liquidate F w p n = Ok r \<longrightarrow> (\<exists>l \<in> set found. lq_position l = key))"
proof -
  let ?C = "\<lambda>k. ri_client F E (instant k) client'" and ?ps = "ri_borrow_position_map client'"
  note shows_market = ri_reload_shows [OF assms(1,3) assms(6) [folded assms(2)]]
  have m: "map_of ?ps key = Some p" using shows_market(3) assms(2,7) by blast
  have d: "distinct (map fst ?ps)" by (rule ri_reload_distinct [OF assms(3)])
  have s: "scan_positions F X ?C ?ps router = Done (router', found)"
    using assms(3,4) by (auto simp: liquidator_turn_def scan_liquidatable_positions_def ri_client_def cache_client_def)
  have sound: "unhealthy_in F w p (lq_health l)" if "l \<in> set found" "lq_position l = key" for l
  proof -
    note reported = that
    obtain p' w' where "(key, p') \<in> set ?ps" "rc_get_market (?C key) (bp_market p') = Done (Some w')"
        "unhealthy_in F w' p' (lq_health l)" using scan_positions_sound [OF s reported(1)] reported(2) by blast
    moreover from this(1) have "p' = p" using m map_of_is_SomeI [OF d] by (metis option.inject)
    ultimately show ?thesis using shows_market(1) assms(5) by simp
  qed
  have complete: "\<exists>l \<in> set found. lq_position l = key" if "unhealthy_in F w p h" for h
    using scan_positions_complete [OF s map_of_SomeD [OF m] _ that] shows_market(1) assms(5) by simp
  have "mw_borrow_position_health F w p = Ok (lq_health l)" if "l \<in> set found" "lq_position l = key" for l
    using sound [OF that] by (simp add: unhealthy_in_def)
  moreover have "\<exists>l \<in> set found. lq_position l = key" if "mw_liquidate F w p n = Ok r" for n r
    using liquidation_needs_unhealthy [OF that] by (elim exE) (rule complete)
  moreover have "(\<exists>l \<in> set found. lq_position l = key) \<longleftrightarrow> (\<exists>h. unhealthy_in F w p h)"
  proof
    assume "\<exists>l \<in> set found. lq_position l = key"
    then obtain l where "l \<in> set found" "lq_position l = key" by (elim bexE)
    then show "\<exists>h. unhealthy_in F w p h" by (intro exI) (rule sound)
  next
    assume "\<exists>h. unhealthy_in F w p h"
    then show "\<exists>l \<in> set found. lq_position l = key" by (elim exE) (rule complete)
  qed
  ultimately show ?thesis by (intro conjI ballI allI impI)
qed

text \<open>An exchange with two pools of different price, and a borrower at a loan-to-value of 85 percent.\<close>

definition example_exchange :: exchange where
  "example_exchange = \<lparr>ex_fetch_pools = (\<lambda>_ _. Done [UninitializedPool, InitializedPool 71, InitializedPool 72]),
     ex_swap_instructions = (\<lambda>pool n _ _ _. Done (ExactIn (if pool = 72 then n - 1 else n - 2) 0))\<rparr>"

theorem liquidator_finds_unhealthy_witness:
  "\<exists>c router' found h. liquidator_turn fixed_reference example_client_env example_exchange
       (example_node_of (example_market 1000000 850000 1000000) (example_borrower 850000 1000000)) 1000
       (\<lambda>_. 1000) (read_client_impl_new crate_id) swap_router_new = Done (c, router', found)
     \<and> found = [\<lparr>lq_position = 30, lq_market_key = 12, lq_health = h, lq_route = RouteFound 72 999999 0\<rparr>]"
proof -
  let ?F = fixed_reference and ?E = example_client_env and ?m = "example_market 1000000 850000 1000000"
    and ?p = "example_borrower 850000 1000000"
  have "\<exists>w. open_market ?F ?E (TypedAccount (example_account 12 crate_id False (MarketAccount ?m)) ?m)
      [] example_oracle_account example_oracle_account 1000 = POk w
    \<and> (\<exists>h. unhealthy_in ?F w ?p h \<and> collateral_atoms h = 1000000)
    \<and> collateral_mint_of (mw_market w) = 200 \<and> supply_mint_of (mw_market w) = 100"
    by (simp add: wrapper_eval market_eval client_example_defs crate_id_def unhealthy_in_def mw_borrow_position_health_def)
  then obtain w h where w: "open_market ?F ?E (TypedAccount (example_account 12 crate_id False (MarketAccount ?m)) ?m)
      [] example_oracle_account example_oracle_account 1000 = POk w"
    and h: "unhealthy_in ?F w ?p h" "collateral_atoms h = 1000000"
    and mints: "collateral_mint_of (mw_market w) = 200" "supply_mint_of (mw_market w) = 100" by blast
  note e = example_reloads [OF refl w, of ?p]
  obtain s' where s': "ri_reload ?F ?E (example_node_of ?m ?p) 1000 (read_client_impl_new crate_id) = (s', Done ())"
      "ri_borrow_position_map s' = [(30, ?p)]" using e(3) by blast
  have pid: "ri_program_id (read_client_impl_new crate_id) = crate_id" by (simp add: read_client_impl_new_def)
  have g: "rc_get_market (ri_client ?F ?E 1000 s') 12 = Done (Some w)"
    using ri_reload_shows(1) [OF example_client_answers s'(1)] e(1) pid by simp
  have q: "find_route example_exchange swap_router_new (mw_market w) h
      = Done (\<lparr>sr_pool_cache = [((100, 200), [71, 72])], sr_last_discovery = None\<rparr>, RouteFound 72 999999 0)"
    by (simp add: find_route_def best_quote_exact_in_def register_pair_def fetch_initialized_pools_def swap_router_new_def
        sort_pair_def mints h example_exchange_def map_filter_simps)
  have t: "liquidator_turn ?F ?E example_exchange (example_node_of ?m ?p) 1000 (\<lambda>_. 1000) (read_client_impl_new crate_id)
      swap_router_new = Done (s', \<lparr>sr_pool_cache = [((100, 200), [71, 72])], sr_last_discovery = None\<rparr>,
          [\<lparr>lq_position = 30, lq_market_key = 12, lq_health = h, lq_route = RouteFound 72 999999 0\<rparr>])"
    using s' g h q by (simp add: liquidator_turn_def scan_liquidatable_positions_def ri_client_def cache_client_def
        unhealthy_in_def example_borrower_def)
  have "mw_borrow_position_health ?F w ?p = Ok h"
    using liquidator_finds_unhealthy [where p = ?p and w = w and key = 30,
        OF example_client_answers pid s'(1) t] e(1,2)
    by (simp add: example_borrower_def)
  with t show ?thesis by blast
qed

end
