(* ===== verification/Deploy_Config.thy ===== *)
theory Deploy_Config
  imports Price_Pusher
begin

text \<open>
  The configuration of the deployment tool, \<open>src/autara-deploy/src/config.rs\<close>. It is read from the environment, a
  map from names to texts; strings are ASCII. The base58 decoder, the pubkey parser of the SDK and the
  conversion of a text to the 64 bits of a floating-point number are parameters.
\<close>

section \<open>Text\<close>

definition is_space :: "char \<Rightarrow> bool" where
  "is_space c \<longleftrightarrow> (let n = (of_char c :: nat) in n = 32 \<or> (9 \<le> n \<and> n \<le> 13))"

definition trim :: "string \<Rightarrow> string" where
  "trim s = rev (dropWhile is_space (rev (dropWhile is_space s)))"

definition to_lowercase :: "string \<Rightarrow> string" where
  "to_lowercase s = map ascii_lower s"

definition to_uppercase :: "string \<Rightarrow> string" where
  "to_uppercase s = map (\<lambda>c. let n = (of_char c :: nat) in if 97 \<le> n \<and> n \<le> 122 then char_of (n - 32) else c) s"

text \<open>\<open>str::split\<close> and \<open>str::split_once\<close> at a character.\<close>

fun split_on :: "char \<Rightarrow> string \<Rightarrow> string list" where
  "split_on d [] = [[]]"
| "split_on d (c # s) =
     (if c = d then [] # split_on d s
      else case split_on d s of [] \<Rightarrow> [[c]] | p # ps \<Rightarrow> (c # p) # ps)"

fun split_once :: "char \<Rightarrow> string \<Rightarrow> (string \<times> string) option" where
  "split_once d [] = None"
| "split_once d (c # s) = (if c = d then Some ([], s) else map_option (\<lambda>(a, b). (c # a, b)) (split_once d s))"

text \<open>\<open>FromStr\<close> of an unsigned integer of \<open>w\<close> bits.\<close>

definition dec_digit :: "char \<Rightarrow> nat option" where
  "dec_digit c = (let n = (of_char c :: nat) in if 48 \<le> n \<and> n \<le> 57 then Some (n - 48) else None)"

definition dec_value :: "string \<Rightarrow> nat" where
  "dec_value s = fold (\<lambda>c v. 10 * v + (case dec_digit c of Some d \<Rightarrow> d | None \<Rightarrow> 0)) s 0"

definition parse_unsigned :: "nat \<Rightarrow> string \<Rightarrow> nat option" where
  "parse_unsigned w s =
     (let digits = (case s of [] \<Rightarrow> [] | c # r \<Rightarrow> if c = CHR ''+'' then r else s) in
      if digits = [] \<or> \<not> list_all (\<lambda>c. dec_digit c \<noteq> None) digits \<or> 2 ^ w \<le> dec_value digits then None
      else Some (dec_value digits))"

definition parse_u8 :: "string \<Rightarrow> u8 option" where
  "parse_u8 s = map_option of_nat (parse_unsigned 8 s)"

definition parse_u16 :: "string \<Rightarrow> u16 option" where
  "parse_u16 s = map_option of_nat (parse_unsigned 16 s)"

definition parse_u64 :: "string \<Rightarrow> u64 option" where
  "parse_u64 s = map_option of_nat (parse_unsigned 64 s)"

section \<open>Networks\<close>

datatype deploy_network = LocalnetNetwork | TestnetNetwork | MainnetNetwork

fun network_as_str :: "deploy_network \<Rightarrow> string" where
  "network_as_str LocalnetNetwork = ''localnet''"
| "network_as_str TestnetNetwork = ''testnet''"
| "network_as_str MainnetNetwork = ''mainnet''"

fun default_rpc_url :: "deploy_network \<Rightarrow> string" where
  "default_rpc_url LocalnetNetwork = ''http://localhost:9002/''"
| "default_rpc_url TestnetNetwork = ''https://rpc.testnet.arch.network''"
| "default_rpc_url MainnetNetwork = ''https://rpc.mainnet.arch.network''"

fun bitcoin_network :: "deploy_network \<Rightarrow> network" where
  "bitcoin_network LocalnetNetwork = Regtest"
| "bitcoin_network TestnetNetwork = Testnet4"
| "bitcoin_network MainnetNetwork = Bitcoin"

fun has_faucet :: "deploy_network \<Rightarrow> bool" where
  "has_faucet MainnetNetwork = False"
| "has_faucet _ = True"

definition network_from_str :: "string \<Rightarrow> deploy_network outcome" where
  "network_from_str s =
     (let t = to_lowercase (trim s) in
      if t \<in> {''localnet'', ''local'', ''regtest'', ''dev''} then Done LocalnetNetwork
      else if t \<in> {''testnet'', ''devnet''} then Done TestnetNetwork
      else if t \<in> {''mainnet'', ''mainnet-beta''} then Done MainnetNetwork
      else Failed (''unknown NETWORK '' @ t))"

section \<open>Tokens, feeds and markets\<close>

record token_config =
  tc_label :: string
  tc_mint :: pubkey
  tc_decimals :: u8
  tc_mint_amount :: u64
  tc_faucet_amount :: u64
  tc_mint_authority_key_path :: "string option"

definition DEPLOY_BTC_FEED :: string where
  "DEPLOY_BTC_FEED = ''e62df6c8b4a85fe1a67db44dc12de5db330f7ac66b72dc658afedf0f4a415b43''"

definition DEPLOY_USDC_FEED :: string where
  "DEPLOY_USDC_FEED = ''eaa020c61cc479712813461ce153894a96a6c00b21ed0cfc2798d1f9a9e9c94a''"

definition DEPLOY_ETH_FEED :: string where
  "DEPLOY_ETH_FEED = ''ff61491a931112ddf1bd8147cd1b641375f79f5825126d665480874634fd0ace''"

definition DEFAULT_TOKEN_AMOUNT :: u64 where
  "DEFAULT_TOKEN_AMOUNT = 1000000000000"

definition FAUCET_AIRDROP_LAMPORTS :: u64 where
  "FAUCET_AIRDROP_LAMPORTS = 1000000"

definition DEFAULT_MIN_DEPLOYER_LAMPORTS :: u64 where
  "DEFAULT_MIN_DEPLOYER_LAMPORTS = 5 * FAUCET_AIRDROP_LAMPORTS"

definition feed_for_label :: "string \<Rightarrow> string option" where
  "feed_for_label label =
     (let l = to_uppercase (trim label) in
      if l \<in> {''BTC'', ''ABTC''} then Some DEPLOY_BTC_FEED
      else if l \<in> {''USDC'', ''AUSD''} then Some DEPLOY_USDC_FEED
      else if l = ''ETH'' then Some DEPLOY_ETH_FEED
      else None)"

text \<open>\<open>hex_decode\<close> is the decoder of the \<open>hex\<close> crate; \<open>decode_to_slice\<close> also asks for 32 bytes.\<close>

definition pyth_feed_for_label :: "(string \<Rightarrow> u8 list option) \<Rightarrow> string \<Rightarrow> u8 list option" where
  "pyth_feed_for_label hex_decode label =
     Option.bind (feed_for_label label) (\<lambda>h.
     Option.bind (hex_decode h) (\<lambda>bytes. if length bytes = 32 then Some bytes else None))"

record market_pair =
  mp_supply_label :: string
  mp_collateral_label :: string

text \<open>Floating-point numbers by their bits: 0.8, 0.9, 0.05 and 0.9.\<close>

record market_params =
  par_max_ltv :: u64
  par_unhealthy_ltv :: u64
  par_liquidation_bonus :: u64
  par_max_utilisation_rate :: u64

definition market_params_default :: market_params where
  "market_params_default = \<lparr>par_max_ltv = 0x3FE999999999999A, par_unhealthy_ltv = 0x3FECCCCCCCCCCCCD,
     par_liquidation_bonus = 0x3FA999999999999A, par_max_utilisation_rate = 0x3FECCCCCCCCCCCCD\<rparr>"

record deploy_config =
  dc_network :: deploy_network
  dc_arch_rpc_url :: string
  dc_program_key_path :: string
  dc_oracle_key_path :: string
  dc_deployer_key_path :: string
  dc_admin_key_path :: string
  dc_program_elf_path :: string
  dc_oracle_elf_path :: string
  dc_admin :: "pubkey option"
  dc_fee_receiver :: "pubkey option"
  dc_protocol_fee_share_bps :: u16
  dc_tokens :: "token_config list"
  dc_mint_authority_key_path :: "string option"
  dc_mint_recipient :: "pubkey option"
  dc_market_pairs :: "market_pair list"
  dc_lending_market_fee_bps :: u16
  dc_market_params :: market_params
  dc_use_faucet :: bool
  dc_min_deployer_lamports :: u64
  dc_output_path :: string

text \<open>\<open>PLACEHOLDER_MINT_HEXES\<close> as the addresses they denote.\<close>

definition PLACEHOLDER_MINTS :: "pubkey list" where
  "PLACEHOLDER_MINTS =
     [0x36a97410055bbbdc52b421d0c95f76d85eca066b83db8b14f64665b178c93d8b,
      0x7250792453cc3a0bd015778f240dd50b552c48c153b7b83e3ef0c441aff9483c,
      0xa80fa79ee82952b0a127f50e7d469dae1a51315d4267ca38d7907ad5df5cb3cb]"

section \<open>The environment\<close>

type_synonym variables = "string \<Rightarrow> string option"

record text_parsers =
  tp_bs58_decode :: "string \<Rightarrow> u8 list option"
  tp_pubkey_from_slice :: "u8 list \<Rightarrow> pubkey"
  tp_pubkey_from_str :: "string \<Rightarrow> pubkey option"
  tp_f64 :: "string \<Rightarrow> u64 option"
  tp_hex_decode :: "string \<Rightarrow> u8 list option"

definition env_opt :: "variables \<Rightarrow> string \<Rightarrow> string option" where
  "env_opt env key = (case env key of None \<Rightarrow> None | Some v \<Rightarrow> if trim v = [] then None else Some v)"

definition env_or :: "variables \<Rightarrow> string \<Rightarrow> string \<Rightarrow> string" where
  "env_or env key d = (case env_opt env key of None \<Rightarrow> d | Some v \<Rightarrow> v)"

definition env_bool :: "variables \<Rightarrow> string \<Rightarrow> bool \<Rightarrow> bool outcome" where
  "env_bool env key d =
     (case env_opt env key of
        None \<Rightarrow> Done d
      | Some v \<Rightarrow>
          (let t = to_lowercase (trim v) in
           if t \<in> {''1'', ''true'', ''yes'', ''y'', ''on''} then Done True
           else if t \<in> {''0'', ''false'', ''no'', ''n'', ''off''} then Done False
           else Failed (''invalid bool for '' @ key)))"

definition env_parse :: "variables \<Rightarrow> (string \<Rightarrow> 'a option) \<Rightarrow> string \<Rightarrow> 'a \<Rightarrow> 'a outcome" where
  "env_parse env parse key d =
     (case env_opt env key of
        None \<Rightarrow> Done d
      | Some v \<Rightarrow> context_o (''invalid value for '' @ key) (parse (trim v)))"

definition parse_pubkey_base58_or_hex :: "text_parsers \<Rightarrow> string \<Rightarrow> pubkey outcome" where
  "parse_pubkey_base58_or_hex T v =
     (let value = trim v in
      case tp_bs58_decode T value of
        Some bytes \<Rightarrow>
          if length bytes = 32 then Done (tp_pubkey_from_slice T bytes)
          else context_o ''expected base58 or hex pubkey'' (tp_pubkey_from_str T value)
      | None \<Rightarrow> context_o ''expected base58 or hex pubkey'' (tp_pubkey_from_str T value))"

definition parse_pubkey :: "text_parsers \<Rightarrow> string \<Rightarrow> string \<Rightarrow> pubkey outcome" where
  "parse_pubkey T key v = recontext_o (''invalid pubkey for '' @ key) (parse_pubkey_base58_or_hex T v)"

definition env_pubkey_opt :: "text_parsers \<Rightarrow> variables \<Rightarrow> string \<Rightarrow> pubkey option outcome" where
  "env_pubkey_opt T env key =
     (case env_opt env key of
        None \<Rightarrow> Done None
      | Some v \<Rightarrow> bind_o (parse_pubkey T key v) (\<lambda>k. Done (Some k)))"

text \<open>An optional amount of an entry: missing or blank is the default.\<close>

definition parse_amount :: "string \<Rightarrow> string list \<Rightarrow> u64 \<Rightarrow> u64 outcome" where
  "parse_amount what parts d =
     (case parts of
        [] \<Rightarrow> Done d
      | p # _ \<Rightarrow> if trim p = [] then Done d else context_o (''invalid '' @ what) (parse_u64 (trim p)))"

definition parse_token :: "text_parsers \<Rightarrow> u64 \<Rightarrow> u64 \<Rightarrow> string \<Rightarrow> token_config outcome" where
  "parse_token T default_mint_amount default_faucet_amount entry =
     (let parts = split_on (CHR '':'') entry in
      bind_o (context_o ''invalid TOKENS entry''
                (case parts of [] \<Rightarrow> None | p # _ \<Rightarrow> if trim p = [] then None else Some (trim p))) (\<lambda>label.
      bind_o (context_o ''missing mint'' (case drop 1 parts of [] \<Rightarrow> None | p # _ \<Rightarrow> Some p)) (\<lambda>mint_raw.
      bind_o (context_o ''missing decimals'' (case drop 2 parts of [] \<Rightarrow> None | p # _ \<Rightarrow> Some p)) (\<lambda>decimals_raw.
      bind_o (recontext_o ''invalid mint'' (parse_pubkey_base58_or_hex T (trim mint_raw))) (\<lambda>mint.
      bind_o (context_o ''invalid decimals'' (parse_u8 (trim decimals_raw))) (\<lambda>decimals.
      bind_o (parse_amount ''mint_amount'' (drop 3 parts) default_mint_amount) (\<lambda>mint_amount.
      bind_o (parse_amount ''faucet_amount'' (drop 4 parts) default_faucet_amount) (\<lambda>faucet_amount.
        Done \<lparr>tc_label = label, tc_mint = mint, tc_decimals = decimals, tc_mint_amount = mint_amount,
          tc_faucet_amount = faucet_amount, tc_mint_authority_key_path = None\<rparr>))))))))"

definition entries :: "string \<Rightarrow> string list" where
  "entries raw = filter (\<lambda>s. s \<noteq> []) (map trim (split_on (CHR '','') raw))"

definition parse_tokens :: "text_parsers \<Rightarrow> string \<Rightarrow> u64 \<Rightarrow> u64 \<Rightarrow> token_config list outcome" where
  "parse_tokens T raw default_mint_amount default_faucet_amount =
     map_o (parse_token T default_mint_amount default_faucet_amount) (entries raw)"

definition parse_market_pair :: "string \<Rightarrow> market_pair outcome" where
  "parse_market_pair entry =
     bind_o (context_o ''invalid MARKET_PAIRS entry'' (split_once (CHR ''/'') entry)) (\<lambda>(supply, collateral).
       if trim supply = [] \<or> trim collateral = [] then Failed ''invalid MARKET_PAIRS entry (empty label)''
       else Done \<lparr>mp_supply_label = trim supply, mp_collateral_label = trim collateral\<rparr>)"

definition parse_market_pairs :: "string \<Rightarrow> market_pair list outcome" where
  "parse_market_pairs raw = map_o parse_market_pair (entries raw)"

section \<open>DeployConfig\<close>

definition market_params_from_env :: "text_parsers \<Rightarrow> variables \<Rightarrow> market_params outcome" where
  "market_params_from_env T env =
     bind_o (env_parse env (tp_f64 T) ''MARKET_MAX_LTV'' (par_max_ltv market_params_default)) (\<lambda>ltv_bits.
     bind_o (env_parse env (tp_f64 T) ''MARKET_UNHEALTHY_LTV'' (par_unhealthy_ltv market_params_default)) (\<lambda>unhealthy.
     bind_o (env_parse env (tp_f64 T) ''MARKET_LIQUIDATION_BONUS'' (par_liquidation_bonus market_params_default)) (\<lambda>bonus.
     bind_o (env_parse env (tp_f64 T) ''MARKET_MAX_UTILISATION'' (par_max_utilisation_rate market_params_default))
       (\<lambda>utilisation.
       Done \<lparr>par_max_ltv = ltv_bits, par_unhealthy_ltv = unhealthy, par_liquidation_bonus = bonus,
         par_max_utilisation_rate = utilisation\<rparr>))))"

definition with_mint_authority :: "variables \<Rightarrow> token_config \<Rightarrow> token_config" where
  "with_mint_authority env t = t\<lparr>tc_mint_authority_key_path :=
     env_opt env (''MINT_AUTHORITY_KEY_PATH_'' @ to_uppercase (tc_label t))\<rparr>"

definition deploy_config_from_env :: "text_parsers \<Rightarrow> variables \<Rightarrow> deploy_config outcome" where
  "deploy_config_from_env T env =
     bind_o (network_from_str (env_or env ''NETWORK'' ''localnet'')) (\<lambda>network.
     let arch_rpc_url = (case env_opt env ''ARCH_RPC_URL'' of Some url \<Rightarrow> url | None \<Rightarrow> default_rpc_url network) in
     bind_o (env_parse env parse_u64 ''DEFAULT_MINT_AMOUNT'' DEFAULT_TOKEN_AMOUNT) (\<lambda>default_mint_amount.
     bind_o (env_parse env parse_u64 ''DEFAULT_FAUCET_AMOUNT'' DEFAULT_TOKEN_AMOUNT) (\<lambda>default_faucet_amount.
     bind_o (case env_opt env ''TOKENS'' of
               Some raw \<Rightarrow> parse_tokens T raw default_mint_amount default_faucet_amount
             | None \<Rightarrow> Done []) (\<lambda>tokens.
     bind_o (case env_opt env ''MARKET_PAIRS'' of Some raw \<Rightarrow> parse_market_pairs raw | None \<Rightarrow> Done []) (\<lambda>market_pairs.
     bind_o (if network = MainnetNetwork then Done False else env_bool env ''USE_FAUCET'' (has_faucet network))
       (\<lambda>use_faucet.
     bind_o (env_pubkey_opt T env ''ADMIN'') (\<lambda>adm.
     bind_o (env_pubkey_opt T env ''FEE_RECEIVER'') (\<lambda>receiver.
     bind_o (env_parse env parse_u16 ''PROTOCOL_FEE_SHARE_BPS'' 5000) (\<lambda>protocol_fee_share_bps.
     bind_o (env_pubkey_opt T env ''MINT_RECIPIENT'') (\<lambda>mint_recipient.
     bind_o (env_parse env parse_u16 ''LENDING_MARKET_FEE_BPS'' 100) (\<lambda>lending_market_fee_bps.
     bind_o (market_params_from_env T env) (\<lambda>params.
     bind_o (env_parse env parse_u64 ''MIN_DEPLOYER_LAMPORTS'' DEFAULT_MIN_DEPLOYER_LAMPORTS) (\<lambda>min_deployer_lamports.
       Done \<lparr>dc_network = network, dc_arch_rpc_url = arch_rpc_url,
         dc_program_key_path = env_or env ''PROGRAM_KEY_PATH'' ''autara-deploy/.keys-testnet/program.json'',
         dc_oracle_key_path = env_or env ''ORACLE_KEY_PATH'' ''autara-deploy/.keys-testnet/oracle.json'',
         dc_deployer_key_path = env_or env ''DEPLOYER_KEY_PATH'' ''autara-deploy/.keys-testnet/deployer.json'',
         dc_admin_key_path = env_or env ''ADMIN_KEY_PATH'' ''autara-deploy/.keys-testnet/admin.json'',
         dc_program_elf_path = env_or env ''PROGRAM_ELF_PATH'' ''target/deploy/autara_program.so'',
         dc_oracle_elf_path = env_or env ''ORACLE_ELF_PATH'' ''target/deploy/autara_oracle.so'',
         dc_admin = adm, dc_fee_receiver = receiver, dc_protocol_fee_share_bps = protocol_fee_share_bps,
         dc_tokens = map (with_mint_authority env) tokens,
         dc_mint_authority_key_path = env_opt env ''MINT_AUTHORITY_KEY_PATH'',
         dc_mint_recipient = mint_recipient, dc_market_pairs = market_pairs,
         dc_lending_market_fee_bps = lending_market_fee_bps, dc_market_params = params,
         dc_use_faucet = use_faucet, dc_min_deployer_lamports = min_deployer_lamports,
         dc_output_path = env_or env ''OUTPUT_PATH'' (''deployments/'' @ network_as_str network @ ''.json'')\<rparr>)))))))))))))"

definition mint_authority_for :: "deploy_config \<Rightarrow> token_config \<Rightarrow> string option" where
  "mint_authority_for self t =
     (case tc_mint_authority_key_path t of Some p \<Rightarrow> Some p | None \<Rightarrow> dc_mint_authority_key_path self)"

definition token_by_label :: "deploy_config \<Rightarrow> string \<Rightarrow> token_config option" where
  "token_by_label self label = find (\<lambda>t. eq_ignore_ascii_case (tc_label t) label) (dc_tokens self)"

definition mainnet_safety_violations :: "deploy_config \<Rightarrow> string list" where
  "mainnet_safety_violations self =
     (if dc_network self \<noteq> MainnetNetwork then []
      else (if dc_use_faucet self then [''USE_FAUCET is true but mainnet has no faucet''] else [])
        @ map (\<lambda>t. tc_label t @ '' is still the TESTNET PLACEHOLDER'')
            (filter (\<lambda>t. tc_mint t \<in> set PLACEHOLDER_MINTS) (dc_tokens self)))"

definition effective_market_pairs :: "(string \<Rightarrow> u8 list option) \<Rightarrow> deploy_config \<Rightarrow> market_pair list" where
  "effective_market_pairs hex_decode self =
     (if dc_market_pairs self \<noteq> [] then dc_market_pairs self
      else concat (map (\<lambda>s. List.map_filter (\<lambda>c.
          if tc_label s = tc_label c \<or> pyth_feed_for_label hex_decode (tc_label s) = None
             \<or> pyth_feed_for_label hex_decode (tc_label c) = None then None
          else Some \<lparr>mp_supply_label = tc_label s, mp_collateral_label = tc_label c\<rparr>) (dc_tokens self)) (dc_tokens self)))"

end
