(* ===== verification/Deploy_Run.thy ===== *)
theory Deploy_Run
  imports Elf_Upgrade Deploy_Config Client_Transactions
begin

text \<open>
  The deployment tool: \<open>rpc.rs\<close>, \<open>artifact.rs\<close>, \<open>steps.rs\<close> and \<open>main.rs\<close> of \<open>src/autara-deploy/src\<close>. A run is a program over
  a node, as in \<open>Elf_Upgrade\<close>: it yields its outcome, the requests it made that cost or change something,
  and the state of the node. Key files, binaries, hashes and the clock are those of the host, a parameter.
  What the tool only prints is left out, with the reads of the preflight whose answers it only prints.
\<close>

section \<open>Node and host\<close>

datatype deploy_event =
    BalanceRead pubkey "u64 option"
  | Airdrop pubkey
  | SentTx pubkey "arch_instruction list"
  | Uploading loader_event

record processed_status =
  ps_status :: tx_status
  ps_logs :: "string list"

record 'w deploy_node =
  dn_loader :: "'w loader_node"
  dn_read_account_info :: "'w \<Rightarrow> pubkey \<Rightarrow> account_info outcome \<times> 'w"
  dn_get_best_block_hash :: "'w \<Rightarrow> u8 list outcome \<times> 'w"
  dn_send_transactions :: "'w \<Rightarrow> runtime_transaction \<Rightarrow> string list outcome \<times> 'w"
  dn_wait_for_processed :: "'w \<Rightarrow> string \<Rightarrow> processed_status list outcome \<times> 'w"
  dn_faucet :: "'w \<Rightarrow> pubkey \<Rightarrow> unit outcome \<times> 'w"

record mint_state =
  ms_decimals :: u8
  ms_supply :: u64
  ms_mint_authority :: "pubkey option"

record deploy_host =
  dh_env :: environment
  dh_codecs :: instruction_codecs
  dh_fixed :: fixed_crate
  dh_parsers :: text_parsers
  dh_variables :: variables
  dh_files :: "string \<Rightarrow> u8 list option"
  dh_sha256 :: "u8 list \<Rightarrow> string"
  dh_load_keypair :: "string \<Rightarrow> keypair outcome"
  dh_sign :: "arch_message \<Rightarrow> keypair list \<Rightarrow> runtime_transaction outcome"
  dh_message :: message_new
  dh_unpack_mint :: "account_data \<Rightarrow> mint_state option"
  dh_mint_to :: "pubkey \<Rightarrow> pubkey \<Rightarrow> pubkey \<Rightarrow> u64 \<Rightarrow> arch_instruction outcome"
  dh_from_num :: "u64 \<Rightarrow> ifixed"
  dh_show :: "pubkey \<Rightarrow> string"
  dh_now :: u64
  dh_commit :: "string option"
  dh_write :: "string \<Rightarrow> unit outcome"

section \<open>rpc.rs\<close>

record rpc_context =
  rx_payer :: keypair

definition balance :: "'w deploy_node \<Rightarrow> pubkey \<Rightarrow> ('w, deploy_event, u64 option) run" where
  "balance node key = (\<lambda>w. let (r, w') = dn_read_account_info node w key;
       b = (case r of Done a \<Rightarrow> Some (ai_lamports a) | _ \<Rightarrow> None) in
     Some (case r of Panicked \<Rightarrow> Panicked | _ \<Rightarrow> Done b, [BalanceRead key b], w'))"

definition read_account :: "'w deploy_node \<Rightarrow> pubkey \<Rightarrow> ('w, deploy_event, account_info) run" where
  "read_account node key = (\<lambda>w. let (r, w') = dn_read_account_info node w key in Some (r, [], w'))"

definition account_exists :: "'w deploy_node \<Rightarrow> pubkey \<Rightarrow> ('w, deploy_event, bool) run" where
  "account_exists node key = bind_u (attempt_u (read_account node key)) (\<lambda>r.
     return_u (Done (case r of Done _ \<Rightarrow> True | _ \<Rightarrow> False)))"

definition fund_with_faucet :: "'w deploy_node \<Rightarrow> keypair \<Rightarrow> ('w, deploy_event, unit) run" where
  "fund_with_faucet node k = (\<lambda>w. let (r, w') = dn_faucet node w (kp_pubkey k) in
     Some (case r of Failed e \<Rightarrow> Failed (''faucet funding failed: '' @ e) | _ \<Rightarrow> r, [Airdrop (kp_pubkey k)], w'))"

definition upload_of :: "('w, 'a) upload \<Rightarrow> ('w, deploy_event, 'a) run" where
  "upload_of p = (\<lambda>w. map_option (\<lambda>(r, ev, w'). (r, map Uploading ev, w')) (p w))"

text \<open>An error that says the program is there already is a success.\<close>

definition deploy_program ::
    "deploy_host \<Rightarrow> 'w deploy_node \<Rightarrow> keypair \<Rightarrow> keypair \<Rightarrow> string \<Rightarrow> ('w, deploy_event, unit) run" where
  "deploy_program H node program_kp authority_kp elf_path =
     bind_u (attempt_u (bind_u (return_u (context_o ''reading ELF'' (dh_files H elf_path))) (\<lambda>elf.
       upload_of (deploy_program_elf (dn_loader node) (kp_pubkey program_kp) (kp_pubkey authority_kp) elf)))) (\<lambda>r.
     case r of
       Failed msg \<Rightarrow>
         if contains_str msg ''already exists'' \<or> contains_str msg ''already deployed'' then return_u (Done ())
         else return_u (Failed (''program deployment failed: '' @ msg))
     | _ \<Rightarrow> return_u (Done ()))"

definition join_lines :: "string list \<Rightarrow> string" where
  "join_lines ls = concat (map (\<lambda>l. l @ [char_of (10 :: nat)]) (butlast ls)) @ (if ls = [] then [] else last ls)"

definition send ::
    "deploy_host \<Rightarrow> 'w deploy_node \<Rightarrow> rpc_context \<Rightarrow> arch_instruction list \<Rightarrow> keypair list
     \<Rightarrow> ('w, deploy_event, string) run" where
  "send H node self instructions extra_signers =
     bind_u (\<lambda>w. let (r, w') = dn_get_best_block_hash node w in
       Some (case r of Failed e \<Rightarrow> Failed (''get_best_block_hash failed: '' @ e) | _ \<Rightarrow> r, [], w')) (\<lambda>blockhash.
     bind_u (return_u (case dh_sign H (dh_message H instructions (Some (kp_pubkey (rx_payer self))) blockhash)
                (extra_signers @ [rx_payer self]) of
              Failed e \<Rightarrow> Failed (''failed to build/sign transaction: '' @ e) | r \<Rightarrow> r)) (\<lambda>tx.
     bind_u (\<lambda>w. let (r, w') = dn_send_transactions node w tx in
       Some (case r of Failed e \<Rightarrow> Failed (''send_transactions failed: '' @ e) | _ \<Rightarrow> r,
         [SentTx (kp_pubkey (rx_payer self)) instructions], w')) (\<lambda>txids.
     bind_u (return_u (context_o ''send_transactions returned no txid'' (case txids of [] \<Rightarrow> None | t # _ \<Rightarrow> Some t))) (\<lambda>txid.
     bind_u (\<lambda>w. let (r, w') = dn_wait_for_processed node w txid in
       Some (case r of Failed e \<Rightarrow> Failed (''waiting for transaction failed: '' @ e) | _ \<Rightarrow> r, [], w')) (\<lambda>processed.
     bind_u (return_u (context_o ''no processed transaction returned'' (case processed of [] \<Rightarrow> None | p # _ \<Rightarrow> Some p))) (\<lambda>p.
       return_u (case ps_status p of
           TxProcessed \<Rightarrow> Done txid
         | TxFailed e \<Rightarrow> Failed (''transaction '' @ txid @ '' failed: '' @ e @ [char_of (10 :: nat)] @ ''logs:'' @ [char_of (10 :: nat)]
             @ join_lines (ps_logs p))
         | TxQueued \<Rightarrow> Failed (''transaction '' @ txid @ '' still queued after wait''))))))))"

section \<open>artifact.rs\<close>

record token_record =
  tr_label :: string
  tr_mint :: string
  tr_decimals :: u8
  tr_mint_amount :: u64
  tr_faucet_amount :: u64

record market_record =
  mr_supply_label :: string
  mr_collateral_label :: string
  mr_supply_mint :: string
  mr_collateral_mint :: string
  mr_index :: u8
  mr_market :: string
  mr_created :: bool

record tx_record =
  tx_step :: string
  tx_id :: string

record deployment_artifact =
  da_network :: string
  da_arch_rpc_url :: string
  da_deployed_at_unix :: u64
  da_program_id :: string
  da_oracle_id :: string
  da_build_commit :: "string option"
  da_program_elf_path :: string
  da_program_elf_sha256 :: "string option"
  da_oracle_elf_path :: string
  da_oracle_elf_sha256 :: "string option"
  da_deployer :: string
  da_admin :: string
  da_fee_receiver :: string
  da_protocol_fee_share_bps :: u16
  da_global_config :: "string option"
  da_tokens :: "token_record list"
  da_markets :: "market_record list"
  da_transactions :: "tx_record list"

definition record_tx :: "string \<Rightarrow> string \<Rightarrow> deployment_artifact \<Rightarrow> deployment_artifact" where
  "record_tx step txid a = a\<lparr>da_transactions := da_transactions a @ [\<lparr>tx_step = step, tx_id = txid\<rparr>]\<rparr>"

definition record_market :: "market_record \<Rightarrow> deployment_artifact \<Rightarrow> deployment_artifact" where
  "record_market m a = a\<lparr>da_markets := da_markets a @ [m]\<rparr>"

section \<open>steps.rs\<close>

definition create_global_config ::
    "deploy_host \<Rightarrow> 'w deploy_node \<Rightarrow> rpc_context \<Rightarrow> pubkey \<Rightarrow> pubkey \<Rightarrow> pubkey \<Rightarrow> u16 \<Rightarrow> deployment_artifact
     \<Rightarrow> ('w, deploy_event, deployment_artifact) run" where
  "create_global_config H node ctx autara_program_id adm receiver protocol_fee_share_bps artifact =
     (let (global_config_pda, ix) = create_global_config_ix (dh_env H) (dh_codecs H) autara_program_id
            (kp_pubkey (rx_payer ctx)) adm receiver protocol_fee_share_bps in
      bind_u (attempt_u (send H node ctx [ix] [])) (\<lambda>r.
      bind_u (return_u (case r of
          Done txid \<Rightarrow> Done (record_tx ''create_global_config'' txid artifact)
        | Failed e \<Rightarrow> if contains_str e ''already exists'' then Done artifact else Failed e
        | Panicked \<Rightarrow> Panicked)) (\<lambda>a.
        return_u (Done (a\<lparr>da_global_config := Some (dh_show H global_config_pda)\<rparr>)))))"

fun ensure_token_mints :: "'w deploy_node \<Rightarrow> token_config list \<Rightarrow> ('w, deploy_event, unit) run" where
  "ensure_token_mints node [] = return_u (Done ())"
| "ensure_token_mints node (t # ts) =
     bind_u (account_exists node (tc_mint t)) (\<lambda>present.
       if present then ensure_token_mints node ts
       else return_u (Failed (''token '' @ tc_label t @ '' mint is not on-chain'')))"

text \<open>The gate of \<open>mint_initial_supply\<close>: the decimals and the authority of the mint.\<close>

definition mint_gate :: "deploy_host \<Rightarrow> pubkey \<Rightarrow> token_config \<Rightarrow> account_info \<Rightarrow> unit outcome" where
  "mint_gate H authority t mint_info =
     bind_o (context_o ''decoding mint'' (dh_unpack_mint H (ai_data mint_info))) (\<lambda>mint.
     bind_o (ensure_o (ms_decimals mint = tc_decimals t) ''decimals mismatch'') (\<lambda>_.
       case ms_mint_authority mint of
         Some on_chain \<Rightarrow> ensure_o (on_chain = authority) ''mint_authority MISMATCH''
       | None \<Rightarrow> Failed ''no mint_authority (fixed supply)''))"

definition mint_initial_supply ::
    "deploy_host \<Rightarrow> 'w deploy_node \<Rightarrow> rpc_context \<Rightarrow> token_config \<Rightarrow> pubkey \<Rightarrow> deployment_artifact
     \<Rightarrow> ('w, deploy_event, deployment_artifact) run" where
  "mint_initial_supply H node ctx t recipient artifact =
     (let authority = kp_pubkey (rx_payer ctx);
          ata = associated_token_address (dh_env H) recipient (tc_mint t) in
      bind_u (read_account node (tc_mint t)) (\<lambda>mint_info.
      bind_u (return_u (mint_gate H authority t mint_info)) (\<lambda>_.
      bind_u (attempt_u (read_account node ata)) (\<lambda>r.
      let existing_balance = (case r of Done a \<Rightarrow> map_option ta_amount (token_unpack (ai_data a)) | _ \<Rightarrow> None) in
      if (case existing_balance of Some bal \<Rightarrow> tc_mint_amount t \<le> bal | None \<Rightarrow> False) then return_u (Done artifact)
      else
        bind_u (if existing_balance = None
                then bind_u (send H node ctx [create_ata_ix (dh_env H) authority (Some ata) recipient (tc_mint t)] [])
                       (\<lambda>txid. return_u (Done (record_tx (''create_ata:'' @ tc_label t) txid artifact)))
                else return_u (Done artifact)) (\<lambda>a.
        bind_u (return_u (dh_mint_to H (tc_mint t) ata authority (tc_mint_amount t))) (\<lambda>mint_ix.
        bind_u (send H node ctx [mint_ix] []) (\<lambda>txid.
          return_u (Done (record_tx (''mint_initial_supply:'' @ tc_label t) txid a)))))))))"

definition new_pyth :: "fixed_crate \<Rightarrow> u8 list \<Rightarrow> pubkey \<Rightarrow> oracle_config" where
  "new_pyth F feed_id program_id =
     \<lparr>oc_provider = Pyth \<lparr>pyth_feed_id = feed_id, pyth_program_id = program_id\<rparr>, validation_config = ovc_default F\<rparr>"

definition build_create_market_instruction ::
    "deploy_host \<Rightarrow> u8 \<Rightarrow> u16 \<Rightarrow> market_params \<Rightarrow> oracle_config \<Rightarrow> oracle_config \<Rightarrow> create_market_instruction" where
  "build_create_market_instruction H index lending_market_fee_bps params supply_oracle collateral_oracle =
     \<lparr>ix_market_bump = 0, ix_index = index,
      ix_ltv_config = \<lparr>max_ltv = dh_from_num H (par_max_ltv params), unhealthy_ltv = dh_from_num H (par_unhealthy_ltv params),
        liquidation_bonus = dh_from_num H (par_liquidation_bonus params)\<rparr>,
      ix_max_utilisation_rate = dh_from_num H (par_max_utilisation_rate params),
      ix_supply_oracle_config = supply_oracle, ix_collateral_oracle_config = collateral_oracle,
      ix_interest_rate = Adaptive adaptive_new, ix_lending_market_fee_in_bps = lending_market_fee_bps\<rparr>"

definition derive_market_pda :: "environment \<Rightarrow> pubkey \<Rightarrow> pubkey \<Rightarrow> token_config \<Rightarrow> token_config \<Rightarrow> u8 \<Rightarrow> pubkey" where
  "derive_market_pda E autara_program_id curator_key supply_token collateral_token index =
     fst (find_market_pda E autara_program_id curator_key (tc_mint supply_token) (tc_mint collateral_token) index)"

definition market_record_of ::
    "deploy_host \<Rightarrow> market_pair \<Rightarrow> token_config \<Rightarrow> token_config \<Rightarrow> u8 \<Rightarrow> pubkey \<Rightarrow> bool \<Rightarrow> market_record" where
  "market_record_of H pair supply_token collateral_token index market_pda created =
     \<lparr>mr_supply_label = mp_supply_label pair, mr_collateral_label = mp_collateral_label pair,
      mr_supply_mint = dh_show H (tc_mint supply_token), mr_collateral_mint = dh_show H (tc_mint collateral_token),
      mr_index = index, mr_market = dh_show H market_pda, mr_created = created\<rparr>"

definition create_market ::
    "deploy_host \<Rightarrow> 'w deploy_node \<Rightarrow> rpc_context \<Rightarrow> pubkey \<Rightarrow> pubkey \<Rightarrow> pubkey \<Rightarrow> market_pair \<Rightarrow> token_config \<Rightarrow> token_config
     \<Rightarrow> u16 \<Rightarrow> market_params \<Rightarrow> u8 \<Rightarrow> deployment_artifact \<Rightarrow> ('w, deploy_event, deployment_artifact) run" where
  "create_market H node ctx autara_program_id oracle_program_id curator_key pair supply_token collateral_token
       lending_market_fee_bps params index artifact =
     (let feed = pyth_feed_for_label (tp_hex_decode (dh_parsers H));
          market_pda = derive_market_pda (dh_env H) autara_program_id curator_key supply_token collateral_token index in
      bind_u (return_u (context_o ''no Pyth feed for supply token'' (feed (tc_label supply_token)))) (\<lambda>supply_feed.
      bind_u (return_u (context_o ''no Pyth feed for collateral token'' (feed (tc_label collateral_token)))) (\<lambda>collateral_feed.
      bind_u (account_exists node market_pda) (\<lambda>exists.
      if exists
      then return_u (Done (record_market (market_record_of H pair supply_token collateral_token index market_pda False) artifact))
      else
        let ix = snd (create_market_ix (dh_env H) (dh_codecs H)
                   (build_create_market_instruction H index lending_market_fee_bps params
                      (new_pyth (dh_fixed H) supply_feed oracle_program_id)
                      (new_pyth (dh_fixed H) collateral_feed oracle_program_id))
                   (tc_mint supply_token) (tc_mint collateral_token) autara_program_id curator_key
                   (kp_pubkey (rx_payer ctx))) in
        bind_u (send H node ctx [ix] []) (\<lambda>txid.
          return_u (Done (record_market (market_record_of H pair supply_token collateral_token index market_pda True)
            (record_tx (''create_market:'' @ mp_supply_label pair @ ''/'' @ mp_collateral_label pair) txid artifact))))))))"

section \<open>main.rs\<close>

text \<open>A flag that is neither of these words is off.\<close>

definition env_flag :: "variables \<Rightarrow> string \<Rightarrow> bool \<Rightarrow> bool" where
  "env_flag env key d =
     (case env_opt env key of
        None \<Rightarrow> d
      | Some v \<Rightarrow> to_lowercase (trim v) \<in> {''1'', ''true'', ''yes'', ''y'', ''on''})"

definition resolve_network :: "variables \<Rightarrow> string option \<Rightarrow> deploy_network outcome" where
  "resolve_network env explicit =
     network_from_str (case explicit of Some s \<Rightarrow> s
       | None \<Rightarrow> (case env_opt env ''NETWORK'' of Some s \<Rightarrow> s | None \<Rightarrow> ''localnet''))"

definition sha256_file :: "deploy_host \<Rightarrow> string \<Rightarrow> string outcome" where
  "sha256_file H path = bind_o (context_o ''reading ELF'' (dh_files H path)) (\<lambda>bytes. Done (dh_sha256 H bytes))"

fun fund_rounds :: "'w deploy_node \<Rightarrow> nat \<Rightarrow> keypair \<Rightarrow> ('w, deploy_event, unit) run" where
  "fund_rounds node 0 k = return_u (Done ())"
| "fund_rounds node (Suc n) k = bind_u (fund_with_faucet node k) (\<lambda>_. fund_rounds node n k)"

text \<open>The airdrops to a mint authority, whose errors are printed only.\<close>

fun try_fund_rounds :: "'w deploy_node \<Rightarrow> nat \<Rightarrow> keypair \<Rightarrow> ('w, deploy_event, unit) run" where
  "try_fund_rounds node 0 k = return_u (Done ())"
| "try_fund_rounds node (Suc n) k = bind_u (attempt_u (fund_with_faucet node k)) (\<lambda>_. try_fund_rounds node n k)"

definition run_fund :: "deploy_host \<Rightarrow> 'w deploy_node \<Rightarrow> nat \<Rightarrow> nat \<Rightarrow> ('w, deploy_event, unit) run" where
  "run_fund H node deployer_rounds admin_rounds =
     bind_u (return_u (deploy_config_from_env (dh_parsers H) (dh_variables H))) (\<lambda>cfg.
     bind_u (return_u (ensure_o (has_faucet (dc_network cfg)) ''network has no faucet'')) (\<lambda>_.
     bind_u (return_u (dh_load_keypair H (dc_deployer_key_path cfg))) (\<lambda>deployer_kp.
     bind_u (return_u (dh_load_keypair H (dc_admin_key_path cfg))) (\<lambda>admin_kp.
     bind_u (fund_rounds node deployer_rounds deployer_kp) (\<lambda>_.
       fund_rounds node admin_rounds admin_kp)))))"

record deploy_steps =
  step_deploy_program :: bool
  step_deploy_oracle :: bool
  step_init_config :: bool
  step_token_setup :: bool
  step_mint_initial_supply :: bool
  step_create_market :: bool

definition deploy_steps_from_env :: "variables \<Rightarrow> deploy_steps" where
  "deploy_steps_from_env env =
     \<lparr>step_deploy_program = env_flag env ''STEP_DEPLOY_PROGRAM'' True,
      step_deploy_oracle = env_flag env ''STEP_DEPLOY_ORACLE'' True,
      step_init_config = env_flag env ''STEP_INIT_CONFIG'' True,
      step_token_setup = env_flag env ''STEP_TOKEN_SETUP'' True,
      step_mint_initial_supply = env_flag env ''STEP_MINT_INITIAL_SUPPLY'' False,
      step_create_market = env_flag env ''STEP_CREATE_MARKET'' True\<rparr>"

definition touches_lending_program :: "deploy_steps \<Rightarrow> bool" where
  "touches_lending_program s \<longleftrightarrow> step_deploy_program s \<or> step_init_config s \<or> step_token_setup s \<or> step_create_market s"

record deploy_keys =
  dk_program :: keypair
  dk_oracle :: keypair
  dk_deployer :: keypair
  dk_admin :: keypair

definition load_keys :: "deploy_host \<Rightarrow> deploy_config \<Rightarrow> deploy_keys outcome" where
  "load_keys H cfg =
     bind_o (dh_load_keypair H (dc_program_key_path cfg)) (\<lambda>program_kp.
     bind_o (dh_load_keypair H (dc_oracle_key_path cfg)) (\<lambda>oracle_kp.
     bind_o (dh_load_keypair H (dc_deployer_key_path cfg)) (\<lambda>deployer_kp.
     bind_o (dh_load_keypair H (dc_admin_key_path cfg)) (\<lambda>admin_kp.
       Done \<lparr>dk_program = program_kp, dk_oracle = oracle_kp, dk_deployer = deployer_kp, dk_admin = admin_kp\<rparr>))))"

definition admin_of :: "deploy_config \<Rightarrow> deploy_keys \<Rightarrow> pubkey" where
  "admin_of cfg K = (case dc_admin cfg of Some a \<Rightarrow> a | None \<Rightarrow> kp_pubkey (dk_admin K))"

definition fee_receiver_of :: "deploy_config \<Rightarrow> deploy_keys \<Rightarrow> pubkey" where
  "fee_receiver_of cfg K = (case dc_fee_receiver cfg of Some r \<Rightarrow> r | None \<Rightarrow> admin_of cfg K)"

definition initial_artifact :: "deploy_host \<Rightarrow> deploy_config \<Rightarrow> deploy_keys \<Rightarrow> deployment_artifact" where
  "initial_artifact H cfg K =
     \<lparr>da_network = network_as_str (dc_network cfg), da_arch_rpc_url = dc_arch_rpc_url cfg, da_deployed_at_unix = dh_now H,
      da_program_id = dh_show H (kp_pubkey (dk_program K)), da_oracle_id = dh_show H (kp_pubkey (dk_oracle K)),
      da_build_commit = dh_commit H, da_program_elf_path = dc_program_elf_path cfg, da_program_elf_sha256 = None,
      da_oracle_elf_path = dc_oracle_elf_path cfg, da_oracle_elf_sha256 = None,
      da_deployer = dh_show H (kp_pubkey (dk_deployer K)), da_admin = dh_show H (admin_of cfg K),
      da_fee_receiver = dh_show H (fee_receiver_of cfg K), da_protocol_fee_share_bps = dc_protocol_fee_share_bps cfg,
      da_global_config = None,
      da_tokens = map (\<lambda>t. \<lparr>tr_label = tc_label t, tr_mint = dh_show H (tc_mint t), tr_decimals = tc_decimals t,
        tr_mint_amount = tc_mint_amount t, tr_faucet_amount = tc_faucet_amount t\<rparr>) (dc_tokens cfg),
      da_markets = [], da_transactions = []\<rparr>"

text \<open>The faucet, or on mainnet the check that both accounts were funded by hand.\<close>

definition funding :: "'w deploy_node \<Rightarrow> deploy_config \<Rightarrow> deploy_keys \<Rightarrow> ('w, deploy_event, unit) run" where
  "funding node cfg K =
     (if dc_use_faucet cfg
      then bind_u (fund_rounds node 5 (dk_deployer K)) (\<lambda>_. fund_with_faucet node (dk_admin K))
      else if dc_network cfg = MainnetNetwork
      then bind_u (balance node (kp_pubkey (dk_deployer K))) (\<lambda>deployer_balance.
           bind_u (balance node (admin_of cfg K)) (\<lambda>admin_balance.
             return_u (ensure_o ((case deployer_balance of Some b \<Rightarrow> dc_min_deployer_lamports cfg \<le> b | None \<Rightarrow> False)
                \<and> (case admin_balance of Some b \<Rightarrow> 0 < b | None \<Rightarrow> False)) ''Insufficient funds'')))
      else return_u (Done ()))"

text \<open>A step that uploads, or else records the hash of a file that is there.\<close>

definition program_step ::
    "deploy_host \<Rightarrow> 'w deploy_node \<Rightarrow> bool \<Rightarrow> keypair \<Rightarrow> keypair \<Rightarrow> string \<Rightarrow> ('w, deploy_event, string option) run" where
  "program_step H node enabled program_kp deployer_kp elf_path =
     (if enabled
      then bind_u (return_u (sha256_file H elf_path)) (\<lambda>h.
           bind_u (deploy_program H node program_kp deployer_kp elf_path) (\<lambda>_. return_u (Done (Some h))))
      else return_u (Done (case sha256_file H elf_path of Done h \<Rightarrow> Some h | _ \<Rightarrow> None)))"

fun mint_step ::
    "deploy_host \<Rightarrow> 'w deploy_node \<Rightarrow> deploy_config \<Rightarrow> token_config list \<Rightarrow> deployment_artifact
     \<Rightarrow> ('w, deploy_event, deployment_artifact) run" where
  "mint_step H node cfg [] a = return_u (Done a)"
| "mint_step H node cfg (t # ts) a =
     (if tc_mint_amount t = 0 then mint_step H node cfg ts a
      else case mint_authority_for cfg t of
        None \<Rightarrow> mint_step H node cfg ts a
      | Some path \<Rightarrow>
          bind_u (return_u (dh_load_keypair H path)) (\<lambda>authority_kp.
          bind_u (when_u (dc_use_faucet cfg) (try_fund_rounds node 3 authority_kp)) (\<lambda>_.
          bind_u (mint_initial_supply H node \<lparr>rx_payer = authority_kp\<rparr> t
                    (case dc_mint_recipient cfg of Some r \<Rightarrow> r | None \<Rightarrow> kp_pubkey authority_kp) a) (\<lambda>a'.
            mint_step H node cfg ts a'))))"

fun market_step ::
    "deploy_host \<Rightarrow> 'w deploy_node \<Rightarrow> deploy_config \<Rightarrow> deploy_keys \<Rightarrow> market_pair list \<Rightarrow> deployment_artifact
     \<Rightarrow> ('w, deploy_event, deployment_artifact) run" where
  "market_step H node cfg K [] a = return_u (Done a)"
| "market_step H node cfg K (pair # pairs) a =
     (let feed = pyth_feed_for_label (tp_hex_decode (dh_parsers H)) in
      bind_u (return_u (context_o ''market pair supply label not in TOKENS'' (token_by_label cfg (mp_supply_label pair)))) (\<lambda>s.
      bind_u (return_u (context_o ''market pair collateral label not in TOKENS'' (token_by_label cfg (mp_collateral_label pair))))
        (\<lambda>c.
      if feed (tc_label s) = None \<or> feed (tc_label c) = None then market_step H node cfg K pairs a
      else
        bind_u (create_market H node \<lparr>rx_payer = dk_admin K\<rparr> (kp_pubkey (dk_program K)) (kp_pubkey (dk_oracle K))
                  (kp_pubkey (dk_admin K)) pair s c (dc_lending_market_fee_bps cfg) (dc_market_params cfg) 0 a) (\<lambda>a'.
          market_step H node cfg K pairs a'))))"

definition real_run ::
    "deploy_host \<Rightarrow> 'w deploy_node \<Rightarrow> deploy_config \<Rightarrow> deploy_keys \<Rightarrow> deploy_steps
     \<Rightarrow> ('w, deploy_event, deployment_artifact) run" where
  "real_run H node cfg K steps =
     (let ctx = \<lparr>rx_payer = dk_admin K\<rparr>; a0 = initial_artifact H cfg K in
      bind_u (funding node cfg K) (\<lambda>_.
      bind_u (program_step H node (step_deploy_program steps) (dk_program K) (dk_deployer K) (dc_program_elf_path cfg)) (\<lambda>ph.
      bind_u (program_step H node (step_deploy_oracle steps) (dk_oracle K) (dk_deployer K) (dc_oracle_elf_path cfg)) (\<lambda>oh.
      let a1 = a0\<lparr>da_program_elf_sha256 := ph, da_oracle_elf_sha256 := oh\<rparr> in
      bind_u (if step_init_config steps
              then create_global_config H node ctx (kp_pubkey (dk_program K)) (admin_of cfg K) (fee_receiver_of cfg K)
                     (dc_protocol_fee_share_bps cfg) a1
              else return_u (Done a1)) (\<lambda>a2.
      bind_u (when_u (step_token_setup steps) (ensure_token_mints node (dc_tokens cfg))) (\<lambda>_.
      bind_u (if step_mint_initial_supply steps then mint_step H node cfg (dc_tokens cfg) a2 else return_u (Done a2)) (\<lambda>a3.
      bind_u (if step_create_market steps
              then market_step H node cfg K (effective_market_pairs (tp_hex_decode (dh_parsers H)) cfg) a3
              else return_u (Done a3)) (\<lambda>a4.
      bind_u (return_u (dh_write H (dc_output_path cfg))) (\<lambda>_.
        return_u (Done a4))))))))))"

text \<open>The run without a subcommand: the two guards, then nothing more on a dry run.\<close>

definition deploy_main :: "deploy_host \<Rightarrow> 'w deploy_node \<Rightarrow> bool \<Rightarrow> ('w, deploy_event, deployment_artifact option) run" where
  "deploy_main H node cli_dry_run =
     (let dry_run = cli_dry_run \<or> env_flag (dh_variables H) ''DRY_RUN'' False;
          steps = deploy_steps_from_env (dh_variables H) in
      bind_u (return_u (deploy_config_from_env (dh_parsers H) (dh_variables H))) (\<lambda>cfg.
      bind_u (return_u (load_keys H cfg)) (\<lambda>K.
      bind_u (return_u (ensure_o (kp_pubkey (dk_program K) = crate_id \<or> dry_run \<or> \<not> touches_lending_program steps)
                ''program id mismatch'')) (\<lambda>_.
      bind_u (return_u (ensure_o (mainnet_safety_violations cfg = [] \<or> dry_run) ''refusing a REAL mainnet run'')) (\<lambda>_.
      if dry_run then return_u (Done None)
      else bind_u (real_run H node cfg K steps) (\<lambda>a. return_u (Done (Some a))))))))"

end
