(* ===== verification/Deploy_Examples.thy ===== *)
theory Deploy_Examples
  imports Deploy_Run
begin

text \<open>
  A deployment to evaluate: mainnet, two tokens, the binaries in place, and a node on which the deployer, who is
  also the admin, has the demanded balance.
\<close>

definition example_variables :: variables where
  "example_variables = map_of
     [(''NETWORK'', ''Mainnet''), (''TOKENS'', ''BTC:x:8,USDC:y:6:500''),
      (''STEP_DEPLOY_PROGRAM'', ''no''), (''STEP_DEPLOY_ORACLE'', ''no'')]"

definition example_host :: deploy_host where
  "example_host = \<lparr>dh_env = example_env, dh_codecs = example_codecs, dh_fixed = fixed_reference,
     dh_parsers = \<lparr>tp_bs58_decode = (\<lambda>_. None), tp_pubkey_from_slice = (\<lambda>_. 0),
       tp_pubkey_from_str = (\<lambda>s. if s = ''x'' then Some 100 else if s = ''y'' then Some 200 else None),
       tp_f64 = (\<lambda>_. None), tp_hex_decode = (\<lambda>_. Some (replicate 32 7))\<rparr>,
     dh_variables = example_variables, dh_files = (\<lambda>_. None), dh_sha256 = (\<lambda>_. []),
     dh_load_keypair = (\<lambda>path. Done \<lparr>kp_pubkey = if contains_str path ''program'' then crate_id else 50, kp_secret = []\<rparr>),
     dh_sign = (\<lambda>m _. Done \<lparr>rt_version = 0, rt_signatures = [], rt_message = m\<rparr>),
     dh_message = (\<lambda>ixs payer h. \<lparr>msg_account_keys = [], msg_num_required_signatures = 0, msg_hash = h\<rparr>),
     dh_unpack_mint = (\<lambda>_. None), dh_mint_to = (\<lambda>_ _ _ _. Failed []), dh_from_num = (\<lambda>_. IFixedPoint 0),
     dh_show = (\<lambda>k. if k = 6 then ''config'' else ''market''), dh_now = 0, dh_commit = None, dh_write = (\<lambda>_. Done ())\<rparr>"

text \<open>A node with the deployer and admin at 50 and two mints, on which every transaction is processed.\<close>

definition example_deploy_node :: "unit deploy_node" where
  "example_deploy_node = \<lparr>dn_loader = undefined,
     dn_read_account_info = (\<lambda>w k. (if k \<in> {50, 100, 200} then Done ((example_account k 3 False (RawAccount []))\<lparr>ai_lamports := 5000000\<rparr>)
       else Failed ''not found'', w)),
     dn_get_best_block_hash = (\<lambda>w. (Done [1], w)), dn_send_transactions = (\<lambda>w _. (Done [''tx''], w)),
     dn_wait_for_processed = (\<lambda>w _. (Done [\<lparr>ps_status = TxProcessed, ps_logs = []\<rparr>], w)),
     dn_faucet = (\<lambda>w _. (Failed [], w))\<rparr>"

abbreviation example_payer :: keypair where
  "example_payer \<equiv> \<lparr>kp_pubkey = 50, kp_secret = []\<rparr>"

lemma example_env_opt: "env_opt example_variables k =
    (if k = ''NETWORK'' then Some ''Mainnet'' else if k = ''TOKENS'' then Some ''BTC:x:8,USDC:y:6:500''
     else if k = ''STEP_DEPLOY_PROGRAM'' \<or> k = ''STEP_DEPLOY_ORACLE'' then Some ''no'' else None)"
  by (simp add: env_opt_def example_variables_def trim_def is_space_def)

lemma example_network: "network_from_str ''Mainnet'' = Done MainnetNetwork"
  by (simp add: network_from_str_def trim_def is_space_def to_lowercase_def ascii_lower_def char_of_def bit_Suc_0_iff)

definition example_token_configs :: "token_config list" where
  "example_token_configs =
     [\<lparr>tc_label = ''BTC'', tc_mint = 100, tc_decimals = 8, tc_mint_amount = DEFAULT_TOKEN_AMOUNT,
       tc_faucet_amount = DEFAULT_TOKEN_AMOUNT, tc_mint_authority_key_path = None\<rparr>,
      \<lparr>tc_label = ''USDC'', tc_mint = 200, tc_decimals = 6, tc_mint_amount = 500,
       tc_faucet_amount = DEFAULT_TOKEN_AMOUNT, tc_mint_authority_key_path = None\<rparr>]"

lemma example_tokens: "parse_tokens (dh_parsers example_host) ''BTC:x:8,USDC:y:6:500'' DEFAULT_TOKEN_AMOUNT DEFAULT_TOKEN_AMOUNT
    = Done example_token_configs"
  by (simp add: parse_tokens_def entries_def trim_def is_space_def parse_token_def example_host_def parse_amount_def
      parse_pubkey_base58_or_hex_def parse_u8_def parse_u64_def parse_unsigned_def dec_value_def dec_digit_def
      example_token_configs_def Let_def)

lemma example_deploy_config:
  "\<exists>cfg. deploy_config_from_env (dh_parsers example_host) (dh_variables example_host) = Done cfg
    \<and> dc_network cfg = MainnetNetwork \<and> dc_tokens cfg = example_token_configs \<and> \<not> dc_use_faucet cfg
    \<and> dc_admin cfg = None \<and> dc_market_pairs cfg = [] \<and> dc_min_deployer_lamports cfg = 5000000
    \<and> load_keys example_host cfg = Done \<lparr>dk_program = \<lparr>kp_pubkey = crate_id, kp_secret = []\<rparr>,
        dk_oracle = example_payer, dk_deployer = example_payer,
        dk_admin = example_payer\<rparr>"
proof -
  have v: "dh_variables example_host = example_variables" by (simp add: example_host_def)
  have k: "with_mint_authority example_variables t = t" if "tc_mint_authority_key_path t = None"
      "tc_label t \<in> {''BTC'', ''USDC''}" for t
    using that by (auto simp: with_mint_authority_def example_env_opt to_uppercase_def char_of_def)
  have t: "map (with_mint_authority example_variables) example_token_configs = example_token_configs"
    by (simp add: example_token_configs_def k)
  show ?thesis unfolding v
    by (simp add: deploy_config_from_env_def env_or_def env_parse_def env_pubkey_opt_def example_env_opt example_network
        example_tokens market_params_from_env_def t load_keys_def DEFAULT_MIN_DEPLOYER_LAMPORTS_def FAUCET_AIRDROP_LAMPORTS_def)
      (simp add: example_host_def)
qed

lemma example_send: "send example_host example_deploy_node ctx ixs ks () =
    Some (Done ''tx'', [SentTx (kp_pubkey (rx_payer ctx)) ixs], ())"
  by (simp add: send_def bind_u_def return_u_def context_o_def example_host_def example_deploy_node_def)

lemma example_feeds: "pyth_feed_for_label (tp_hex_decode (dh_parsers example_host)) ''BTC'' = Some (replicate 32 7)"
  "pyth_feed_for_label (tp_hex_decode (dh_parsers example_host)) ''USDC'' = Some (replicate 32 7)"
  by (simp_all add: pyth_feed_for_label_def feed_for_label_def trim_def is_space_def to_uppercase_def example_host_def Let_def)

lemma example_reads: "dn_read_account_info example_deploy_node () k = (if k \<in> {50, 100, 200}
    then Done ((example_account k 3 False (RawAccount []))\<lparr>ai_lamports := 5000000\<rparr>) else Failed ''not found'', ())"
  by (simp add: example_deploy_node_def)

lemma example_steps: "deploy_steps_from_env (dh_variables example_host) =
    \<lparr>step_deploy_program = False, step_deploy_oracle = False, step_init_config = True, step_token_setup = True,
     step_mint_initial_supply = False, step_create_market = True\<rparr>"
  and example_wet: "\<not> env_flag (dh_variables example_host) ''DRY_RUN'' False"
  by (simp_all add: deploy_steps_from_env_def env_flag_def example_host_def example_env_opt trim_def is_space_def to_lowercase_def
      ascii_lower_def char_of_def)

lemma example_exists: "account_exists example_deploy_node k () = Some (Done (k \<in> {50, 100, 200}), [], ())"
  by (simp add: account_exists_def attempt_u_def read_account_def example_reads bind_u_def return_u_def)

lemma example_market_address: "derive_market_pda (dh_env example_host) pid ck s c i = 5"
  by (simp add: derive_market_pda_def find_market_pda_def example_host_def example_env_def example_runtime_def)

lemma example_create_market:
  assumes "tc_label s \<in> {''BTC'', ''USDC''}" "tc_label c \<in> {''BTC'', ''USDC''}"
  shows "\<exists>a' ix. create_market example_host example_deploy_node \<lparr>rx_payer = example_payer\<rparr> pid oid ck pair s c fee params i a () =
      Some (Done a', [SentTx 50 [ix]], ())"
  using assms
  by (auto simp: create_market_def Let_def bind_u_def return_u_def example_feeds example_send context_o_def
      example_exists example_market_address)

lemma example_create_config:
  "\<exists>a' ix. create_global_config example_host example_deploy_node \<lparr>rx_payer = example_payer\<rparr> pid adm receiver share a () =
      Some (Done a', [SentTx 50 [ix]], ())"
  by (simp add: create_global_config_def bind_u_def return_u_def attempt_u_def example_send case_prod_beta)

abbreviation example_btc :: token_config where
  "example_btc \<equiv> hd example_token_configs"

abbreviation example_usdc :: token_config where
  "example_usdc \<equiv> last example_token_configs"

lemma example_pairs:
  assumes "dc_tokens cfg = example_token_configs" "dc_market_pairs cfg = []"
  shows "effective_market_pairs (tp_hex_decode (dh_parsers example_host)) cfg =
    [\<lparr>mp_supply_label = ''BTC'', mp_collateral_label = ''USDC''\<rparr>, \<lparr>mp_supply_label = ''USDC'', mp_collateral_label = ''BTC''\<rparr>]"
  by (simp add: effective_market_pairs_def assms example_token_configs_def example_feeds map_filter_simps)

lemma example_by_label:
  assumes "dc_tokens cfg = example_token_configs"
  shows "token_by_label cfg ''BTC'' = Some example_btc" "token_by_label cfg ''USDC'' = Some example_usdc"
  by (simp_all add: token_by_label_def assms example_token_configs_def eq_ignore_ascii_case_def ascii_lower_def)

lemma example_labels: "tc_label example_btc = ''BTC''" "tc_label example_usdc = ''USDC''"
  by (simp_all add: example_token_configs_def)

lemma example_show: "dh_show example_host 5 = ''market''"
  by (simp add: example_host_def)

lemma example_run:
  assumes "dc_network cfg = MainnetNetwork" "dc_tokens cfg = example_token_configs" "\<not> dc_use_faucet cfg"
    "dc_admin cfg = None" "dc_market_pairs cfg = []" "dc_min_deployer_lamports cfg = 5000000"
  shows "\<exists>a ix1 ix2 ix3. real_run example_host example_deploy_node cfg \<lparr>dk_program = \<lparr>kp_pubkey = crate_id, kp_secret = []\<rparr>,
        dk_oracle = example_payer, dk_deployer = example_payer,
        dk_admin = example_payer\<rparr> (deploy_steps_from_env (dh_variables example_host)) () =
      Some (Done a, [BalanceRead 50 (Some 5000000), BalanceRead 50 (Some 5000000), SentTx 50 [ix1], SentTx 50 [ix2], SentTx 50 [ix3]], ())"
  (is "\<exists>a ix1 ix2 ix3. real_run _ _ _ ?K _ _ = _")
proof -
  have f: "funding example_deploy_node cfg ?K () = Some (Done (), [BalanceRead 50 (Some 5000000), BalanceRead 50 (Some 5000000)], ())"
    by (simp add: funding_def assms balance_def bind_u_def return_u_def example_reads admin_of_def ensure_o_def example_account_def Let_def)
  have p: "program_step example_host example_deploy_node False k d path () = Some (Done None, [], ())" for k d path
    by (simp add: program_step_def return_u_def sha256_file_def example_host_def context_o_def)
  have t: "ensure_token_mints example_deploy_node example_token_configs () = Some (Done (), [], ())"
    by (simp add: example_token_configs_def example_exists bind_u_def return_u_def)
  obtain a1 ix1 where c: "create_global_config example_host example_deploy_node \<lparr>rx_payer = example_payer\<rparr> crate_id
       50 (fee_receiver_of cfg ?K) (dc_protocol_fee_share_bps cfg)
       (initial_artifact example_host cfg ?K\<lparr>da_program_elf_sha256 := None, da_oracle_elf_sha256 := None\<rparr>) ()
       = Some (Done a1, [SentTx 50 [ix1]], ())" 
    using example_create_config by blast
  obtain a2 ix2 where m1: "create_market example_host example_deploy_node \<lparr>rx_payer = example_payer\<rparr> crate_id 50 50
      \<lparr>mp_supply_label = ''BTC'', mp_collateral_label = ''USDC''\<rparr> example_btc example_usdc (dc_lending_market_fee_bps cfg) (dc_market_params cfg) 0 a1 ()
      = Some (Done a2, [SentTx 50 [ix2]], ())" 
    using example_create_market [of example_btc example_usdc] example_labels by (metis insertCI)
  obtain a3 ix3 where m2: "create_market example_host example_deploy_node \<lparr>rx_payer = example_payer\<rparr> crate_id 50 50
      \<lparr>mp_supply_label = ''USDC'', mp_collateral_label = ''BTC''\<rparr> example_usdc example_btc (dc_lending_market_fee_bps cfg) (dc_market_params cfg) 0 a2 ()
      = Some (Done a3, [SentTx 50 [ix3]], ())" 
    using example_create_market [of example_usdc example_btc] example_labels by (metis insertCI)
  have w: "dh_write example_host = (\<lambda>_. Done ())" by (simp add: example_host_def)
  show ?thesis
    by (simp add: real_run_def bind_u_def return_u_def when_u_def f p t example_pairs [OF assms(2,5)] example_by_label [OF assms(2)] example_labels c m1 m2 w example_steps example_feeds
        context_o_def assms admin_of_def)
qed

lemma example_main:
  "\<exists>cfg K a ix1 ix2 ix3. deploy_config_from_env (dh_parsers example_host) (dh_variables example_host) = Done cfg
    \<and> dc_network cfg = MainnetNetwork \<and> load_keys example_host cfg = Done K
    \<and> deploy_main example_host example_deploy_node False () = Some (Done (Some a),
        [BalanceRead 50 (Some 5000000), BalanceRead 50 (Some 5000000), SentTx 50 [ix1], SentTx 50 [ix2], SentTx 50 [ix3]], ())"
proof -
  obtain cfg where cfg: "deploy_config_from_env (dh_parsers example_host) (dh_variables example_host) = Done cfg"
      "dc_network cfg = MainnetNetwork" "dc_tokens cfg = example_token_configs" "\<not> dc_use_faucet cfg"
      "dc_admin cfg = None" "dc_market_pairs cfg = []" "dc_min_deployer_lamports cfg = 5000000"
    and K: "load_keys example_host cfg = Done \<lparr>dk_program = \<lparr>kp_pubkey = crate_id, kp_secret = []\<rparr>,
        dk_oracle = example_payer, dk_deployer = example_payer, dk_admin = example_payer\<rparr>"
    using example_deploy_config by blast
  have "mainnet_safety_violations cfg = []"
    by (simp add: mainnet_safety_violations_def cfg example_token_configs_def PLACEHOLDER_MINTS_def)
  then have "deploy_main example_host example_deploy_node False =
      bind_u (real_run example_host example_deploy_node cfg \<lparr>dk_program = \<lparr>kp_pubkey = crate_id, kp_secret = []\<rparr>,
        dk_oracle = example_payer, dk_deployer = example_payer, dk_admin = example_payer\<rparr>
        (deploy_steps_from_env (dh_variables example_host))) (\<lambda>a. return_u (Done (Some a)))"
    by (simp add: deploy_main_def cfg K bind_u_return example_wet ensure_o_def)
  moreover obtain a ix1 ix2 ix3 where "real_run example_host example_deploy_node cfg
      \<lparr>dk_program = \<lparr>kp_pubkey = crate_id, kp_secret = []\<rparr>,
        dk_oracle = example_payer, dk_deployer = example_payer, dk_admin = example_payer\<rparr>
        (deploy_steps_from_env (dh_variables example_host)) () = Some (Done a, [BalanceRead 50 (Some 5000000),
        BalanceRead 50 (Some 5000000), SentTx 50 [ix1], SentTx 50 [ix2], SentTx 50 [ix3]], ())"
    using example_run [OF cfg(2-7)] by blast
  ultimately have "deploy_main example_host example_deploy_node False () = Some (Done (Some a),
        [BalanceRead 50 (Some 5000000), BalanceRead 50 (Some 5000000), SentTx 50 [ix1], SentTx 50 [ix2], SentTx 50 [ix3]], ())"
    by (simp add: bind_u_def return_u_def)
  then show ?thesis using cfg(1,2) K by blast
qed

end
