(* ===== verification/Deploy_Laws.thy ===== *)
theory Deploy_Laws
  imports Deploy_Examples
begin

text \<open>
  What the deployment tool guarantees: the guards of mainnet hold of every run, the record of a completed run
  names every market and every transaction, and the feeds of its markets are those the pusher knows.
\<close>

section \<open>Requests of a run\<close>

text \<open>Every request a run makes satisfies \<open>P\<close>.\<close>

definition emits :: "('e \<Rightarrow> bool) \<Rightarrow> ('w, 'e, 'a) run \<Rightarrow> bool" where
  "emits P p \<longleftrightarrow> (\<forall>w r ev w'. p w = Some (r, ev, w') \<longrightarrow> list_all P ev)"

named_theorems emits_rules

lemma emitsD: "emits P p \<Longrightarrow> p w = Some (r, ev, w') \<Longrightarrow> list_all P ev"
  unfolding emits_def by blast

lemma emits_return [emits_rules]: "emits P (return_u r)"
  by (simp add: emits_def return_u_def)

lemma emits_bind [emits_rules]:
  assumes "emits P p" "\<And>x. emits P (f x)"
  shows "emits P (bind_u p f)"
  unfolding emits_def
proof (intro allI impI)
  fix w r ev w'
  assume b: "bind_u p f w = Some (r, ev, w')"
  then obtain r1 ev1 w1 where p: "p w = Some (r1, ev1, w1)" by (auto simp: bind_u_def split: bind_splits)
  note g = emitsD [OF assms(1) p]
  show "list_all P ev"
  proof (cases r1)
    case (Done x)
    with b p obtain ev2 where "f x w1 = Some (r, ev2, w')" "ev = ev1 @ ev2"
      by (auto simp: bind_u_def split: bind_splits)
    then show ?thesis using g emitsD [OF assms(2)] by auto
  qed (use b p g in \<open>auto simp: bind_u_def\<close>)
qed

lemma emits_attempt [emits_rules]: "emits P p \<Longrightarrow> emits P (attempt_u p)"
  by (fastforce simp: emits_def attempt_u_def split: bind_splits)

lemma emits_when [emits_rules]: "(c \<Longrightarrow> emits P p) \<Longrightarrow> emits P (when_u c p)"
  by (simp add: when_u_def emits_return)

lemma emits_if [emits_rules]: "(c \<Longrightarrow> emits P p) \<Longrightarrow> (\<not> c \<Longrightarrow> emits P q) \<Longrightarrow> emits P (if c then p else q)"
  by simp

lemma emits_read [emits_rules]: "emits P (read_account node k)"
  by (auto simp: emits_def read_account_def Let_def split: prod.splits)

lemma emits_exists [emits_rules]: "emits P (account_exists node k)"
  unfolding account_exists_def by (intro emits_rules)




section \<open>The guards of mainnet\<close>
















lemma bind_u_split:
  assumes "bind_u p f w = Some (r, ev, w')"
  obtains (stopped) r1 where "p w = Some (r1, ev, w')" "\<And>x. r1 \<noteq> Done x"
    | (continued) x ev1 w1 ev2 where "p w = Some (Done x, ev1, w1)" "f x w1 = Some (r, ev2, w')" "ev = ev1 @ ev2"
  using assms by (auto simp: bind_u_def split: bind_splits outcome.splits)

lemma return_u_bind_split:
  assumes "bind_u (return_u q) f w = Some (r, ev, w')"
  obtains "ev = []" "\<And>y. r \<noteq> Done y" | x where "q = Done x" "f x w = Some (r, ev, w')"
  using assms by (cases q) (auto simp: bind_u_def return_u_def split: bind_splits)



text \<open>A run ends in its guards, or as a dry run, with no request; or it is the real run.\<close>

lemma deploy_main_cases:
  assumes "deploy_config_from_env (dh_parsers H) (dh_variables H) = Done cfg" and "load_keys H cfg = Done K"
    and "deploy_main H node dry_run w = Some (r, ev, w')"
  obtains (idle) "ev = []" "\<And>a. r \<noteq> Done (Some a)"
  | (real) r' where "\<not> (dry_run \<or> env_flag (dh_variables H) ''DRY_RUN'' False)"
      "touches_lending_program (deploy_steps_from_env (dh_variables H)) \<longrightarrow> kp_pubkey (dk_program K) = crate_id"
      "mainnet_safety_violations cfg = []"
      "real_run H node cfg K (deploy_steps_from_env (dh_variables H)) w = Some (r', ev, w')"
      "\<And>a. r = Done (Some a) \<Longrightarrow> r' = Done a"
proof -
  let ?steps = "deploy_steps_from_env (dh_variables H)"
  let ?dry = "dry_run \<or> env_flag (dh_variables H) ''DRY_RUN'' False"
  note cases_of_run = that
  show thesis
    using assms(3) unfolding deploy_main_def Let_def assms(1,2) bind_u_return
  proof (elim return_u_bind_split)
    fix x y
    assume g: "ensure_o (kp_pubkey (dk_program K) = crate_id \<or> ?dry \<or> \<not> touches_lending_program ?steps) ''program id mismatch'' = Done x"
        "ensure_o (mainnet_safety_violations cfg = [] \<or> ?dry) ''refusing a REAL mainnet run'' = Done y"
      and run: "(if ?dry then return_u (Done None) else bind_u (real_run H node cfg K ?steps) (\<lambda>a. return_u (Done (Some a)))) w
        = Some (r, ev, w')"
    show thesis
    proof (cases ?dry)
      case True
      with run show thesis by (intro cases_of_run(1)) (auto simp: return_u_def)
    next
      case False
      with run have "bind_u (real_run H node cfg K ?steps) (\<lambda>a. return_u (Done (Some a))) w = Some (r, ev, w')" by simp
      then obtain r' where "real_run H node cfg K ?steps w = Some (r', ev, w')" "\<And>a. r = Done (Some a) \<Longrightarrow> r' = Done a"
        by (cases "real_run H node cfg K ?steps w") (auto simp: bind_u_def return_u_def split: outcome.splits)
      with False g show thesis by (intro cases_of_run(2)) (auto split: if_splits)
    qed
  qed (rule cases_of_run(1); simp)+
qed



section \<open>The record of a run\<close>

text \<open>The markets a run is to create or to find: the pairs whose tokens and feeds are known.\<close>

definition planned_market :: "deploy_host \<Rightarrow> deploy_config \<Rightarrow> deploy_keys \<Rightarrow> market_pair \<Rightarrow> (string \<times> string \<times> string) option" where
  "planned_market H cfg K pair =
     (let feed = pyth_feed_for_label (tp_hex_decode (dh_parsers H)) in
      Option.bind (token_by_label cfg (mp_supply_label pair)) (\<lambda>s.
      Option.bind (token_by_label cfg (mp_collateral_label pair)) (\<lambda>c.
        if feed (tc_label s) = None \<or> feed (tc_label c) = None then None
        else Some (mp_supply_label pair, mp_collateral_label pair,
          dh_show H (derive_market_pda (dh_env H) (kp_pubkey (dk_program K)) (kp_pubkey (dk_admin K)) s c 0)))))"

definition recorded :: "market_record \<Rightarrow> string \<times> string \<times> string" where
  "recorded m = (mr_supply_label m, mr_collateral_label m, mr_market m)"

fun is_sent :: "deploy_event \<Rightarrow> bool" where
  "is_sent (SentTx _ _) = True"
| "is_sent _ = False"

text \<open>
  A step from one record to the next: the transactions it had confirmed are appended, with \<open>slack\<close> for one that the
  step may take for done already, and the markets \<open>ms\<close>.
\<close>

definition appends :: "nat \<Rightarrow> (string \<times> string \<times> string) list \<Rightarrow> deployment_artifact \<Rightarrow> ('w, deploy_event, deployment_artifact) run \<Rightarrow> bool" where
  "appends slack ms a p \<longleftrightarrow> (\<forall>w a' ev w'. p w = Some (Done a', ev, w') \<longrightarrow>
     map recorded (da_markets a') = map recorded (da_markets a) @ ms
     \<and> (\<exists>k \<le> slack. length (filter is_sent ev) + length (da_transactions a) = length (da_transactions a') + k))"

lemma appendsD:
  assumes "appends slack ms a p" "p w = Some (Done a', ev, w')"
  obtains k where "map recorded (da_markets a') = map recorded (da_markets a) @ ms" "k \<le> slack"
    "length (filter is_sent ev) + length (da_transactions a) = length (da_transactions a') + k"
  using assms unfolding appends_def by blast

lemma appends_return: "appends 0 [] a (return_u (Done a))"
  by (simp add: appends_def return_u_def)

lemma appends_bind:
  assumes "appends n ms a p" "\<And>a'. appends n' ms' a' (f a')"
  shows "appends (n + n') (ms @ ms') a (bind_u p f)"
  unfolding appends_def
proof (intro allI impI)
  fix w a'' ev w'
  assume b: "bind_u p f w = Some (Done a'', ev, w')"
  from bind_u_Done [OF b] obtain a' ev1 w1 ev2 where p: "p w = Some (Done a', ev1, w1)"
      and f: "f a' w1 = Some (Done a'', ev2, w')" and ev: "ev = ev1 @ ev2" by blast
  from appendsD [OF assms(1) p] obtain k where k: "map recorded (da_markets a') = map recorded (da_markets a) @ ms" "k \<le> n"
    "length (filter is_sent ev1) + length (da_transactions a) = length (da_transactions a') + k" .
  from appendsD [OF assms(2) f] obtain k' where k': "map recorded (da_markets a'') = map recorded (da_markets a') @ ms'" "k' \<le> n'"
    "length (filter is_sent ev2) + length (da_transactions a') = length (da_transactions a'') + k'" .
  show "map recorded (da_markets a'') = map recorded (da_markets a) @ ms @ ms'
     \<and> (\<exists>k \<le> n + n'. length (filter is_sent ev) + length (da_transactions a) = length (da_transactions a'') + k)"
    using k k' ev by (auto intro!: exI [of _ "k + k'"])
qed

text \<open>A run that sends nothing, and one that sends one transaction.\<close>

lemma appends_after_quiet:
  assumes "emits (\<lambda>e. \<not> is_sent e) p" "\<And>x. appends n ms a (f x)"
  shows "appends n ms a (bind_u p f)"
  unfolding appends_def
proof (intro allI impI)
  fix w a' ev w'
  assume b: "bind_u p f w = Some (Done a', ev, w')"
  from bind_u_Done [OF b] obtain x ev1 w1 ev2 where p: "p w = Some (Done x, ev1, w1)" "f x w1 = Some (Done a', ev2, w')"
      "ev = ev1 @ ev2" by blast
  have "filter is_sent ev = filter is_sent ev2"
    using emitsD [OF assms(1) p(1)] p(3) by (simp add: list_all_iff)
  then show "map recorded (da_markets a') = map recorded (da_markets a) @ ms
     \<and> (\<exists>k \<le> n. length (filter is_sent ev) + length (da_transactions a) = length (da_transactions a') + k)"
    using appendsD [OF assms(2) p(2)] by metis
qed

definition sends :: "nat \<Rightarrow> ('w, deploy_event, 'a) run \<Rightarrow> bool" where
  "sends n p \<longleftrightarrow> (\<forall>w r ev w'. p w = Some (r, ev, w') \<longrightarrow>
     length (filter is_sent ev) \<le> n \<and> ((\<exists>x. r = Done x) \<longrightarrow> length (filter is_sent ev) = n))"

lemma sendsD:
  "sends n p \<Longrightarrow> p w = Some (r, ev, w') \<Longrightarrow> length (filter is_sent ev) \<le> n"
  "sends n p \<Longrightarrow> p w = Some (Done x, ev, w') \<Longrightarrow> length (filter is_sent ev) = n"
  unfolding sends_def by blast+

lemma sends_return: "sends 0 (return_u r)"
  by (simp add: sends_def return_u_def)

lemma sends_bind:
  assumes "sends n p" "\<And>x. sends m (f x)"
  shows "sends (n + m) (bind_u p f)"
  unfolding sends_def
proof (intro allI impI)
  fix w r ev w'
  assume "bind_u p f w = Some (r, ev, w')"
  then show "length (filter is_sent ev) \<le> n + m \<and> ((\<exists>x. r = Done x) \<longrightarrow> length (filter is_sent ev) = n + m)"
  proof (cases rule: bind_u_split)
    case (stopped r1)
    then show ?thesis using sendsD(1) [OF assms(1) stopped(1)] \<open>bind_u p f w = Some (r, ev, w')\<close>
      by (cases r1) (auto simp: bind_u_def)
  next
    case (continued x ev1 w1 ev2)
    then show ?thesis
      using sendsD(2) [OF assms(1) continued(1)] sendsD [OF assms(2), of _ w1] by fastforce
  qed
qed

lemma sends_request:
  "sends 0 (\<lambda>w. let (r, w') = q w in Some (g r, [], w'))"
  "sends 1 (\<lambda>w. let (r, w') = q w in Some (g r, [SentTx k ixs], w'))"
  by (auto simp: sends_def Let_def split: prod.splits)

lemma sends_send: "sends 1 (send H node ctx ixs ks)"
proof -
  have "sends (0 + (0 + (1 + (0 + (0 + (0 + 0)))))) (send H node ctx ixs ks)"
    unfolding send_def by (intro sends_bind sends_return sends_request)
  then show ?thesis by simp
qed

lemma appends_send:
  assumes "\<And>txid. map recorded (da_markets (g txid)) = map recorded (da_markets a) @ ms"
    "\<And>txid. length (da_transactions (g txid)) = Suc (length (da_transactions a))"
  shows "appends 0 ms a (bind_u (send H node ctx ixs ks) (\<lambda>txid. return_u (Done (g txid))))"
  unfolding appends_def
  using assms sendsD(2) [OF sends_send] by (fastforce dest!: bind_u_Done simp: return_u_def)

lemma record_simps [simp]:
  "da_markets (record_tx s t a) = da_markets a" "length (da_transactions (record_tx s t a)) = Suc (length (da_transactions a))"
  "da_markets (record_market m a) = da_markets a @ [m]" "da_transactions (record_market m a) = da_transactions a"
  by (simp_all add: record_tx_def record_market_def)

lemma appends_if: "(c \<Longrightarrow> appends n ms a p) \<Longrightarrow> (\<not> c \<Longrightarrow> appends n ms a q) \<Longrightarrow> appends n ms a (if c then p else q)"
  by simp

lemma create_market_appends:
  "appends 0 [(mp_supply_label pair, mp_collateral_label pair,
       dh_show H (derive_market_pda (dh_env H) pid ck s c i))] a
     (create_market H node ctx pid oid ck pair s c fee params i a)"
  unfolding create_market_def Let_def
  by (intro appends_after_quiet emits_rules appends_if appends_send)
    (simp_all add: appends_def return_u_def recorded_def market_record_of_def)

lemma market_step_appends:
  "appends 0 (List.map_filter (planned_market H cfg K) pairs) a (market_step H node cfg K pairs a)"
proof (induction pairs arbitrary: a)
  case Nil
  then show ?case by (simp add: appends_return map_filter_simps)
next
  case (Cons pair pairs)
  let ?s = "token_by_label cfg (mp_supply_label pair)" and ?c = "token_by_label cfg (mp_collateral_label pair)"
  show ?case
  proof (cases "?s = None \<or> ?c = None")
    case True
    then show ?thesis by (auto simp: appends_def bind_u_def return_u_def context_o_def Let_def split: option.splits)
  next
    case False
    then obtain s c where sc: "?s = Some s" "?c = Some c" by auto
    let ?m = "(mp_supply_label pair, mp_collateral_label pair,
      dh_show H (derive_market_pda (dh_env H) (kp_pubkey (dk_program K)) (kp_pubkey (dk_admin K)) s c 0))"
    have "appends (0 + 0) ([?m] @ List.map_filter (planned_market H cfg K) pairs) a
      (bind_u (create_market H node \<lparr>rx_payer = dk_admin K\<rparr> (kp_pubkey (dk_program K)) (kp_pubkey (dk_oracle K))
         (kp_pubkey (dk_admin K)) pair s c (dc_lending_market_fee_bps cfg) (dc_market_params cfg) 0 a)
         (\<lambda>a'. market_step H node cfg K pairs a'))"
      by (intro appends_bind create_market_appends Cons.IH)
    moreover have "planned_market H cfg K pair = (if pyth_feed_for_label (tp_hex_decode (dh_parsers H)) (tc_label s) = None
        \<or> pyth_feed_for_label (tp_hex_decode (dh_parsers H)) (tc_label c) = None then None else Some ?m)"
      by (auto simp: sc planned_market_def Let_def)
    ultimately show ?thesis using Cons.IH [of a]
      by (simp add: sc bind_u_return context_o_def Let_def map_filter_simps)
  qed
qed

lemma quiet_rules: "emits (\<lambda>e. \<not> is_sent e) (fund_with_faucet node k)"
  "emits (\<lambda>e. \<not> is_sent e) (upload_of p)" "emits (\<lambda>e. \<not> is_sent e) (balance node key)"
  by (auto simp: emits_def fund_with_faucet_def upload_of_def balance_def Let_def list_all_iff split: prod.splits)

lemma fund_rounds_quiet: "emits (\<lambda>e. \<not> is_sent e) (fund_rounds node n k)" "emits (\<lambda>e. \<not> is_sent e) (try_fund_rounds node n k)"
  by (induction n) (auto intro!: emits_rules quiet_rules)

text \<open>A step that adds no market before the rest, and one that adds them all.\<close>

lemma appends_front:
  assumes "appends n [] a p" "\<And>b. appends 0 ms b (f b)"
  shows "appends n ms a (bind_u p f)"
  using appends_bind [OF assms] by simp

lemma appends_last:
  assumes "appends n ms a p" "\<And>b. appends 0 [] b (f b)"
  shows "appends n ms a (bind_u p f)"
  using appends_bind [OF assms] by simp

lemma appends_same:
  assumes "appends n ms b p" "da_markets b = da_markets a" "da_transactions b = da_transactions a"
  shows "appends n ms a p"
  using assms by (simp add: appends_def)

lemma appends_weaken: "appends n ms a p \<Longrightarrow> n \<le> n' \<Longrightarrow> appends n' ms a p"
  unfolding appends_def by (meson order_trans)

lemma send_record_appends:
  "appends 0 [] a (bind_u (send H node ctx ixs ks) (\<lambda>txid. return_u (Done (record_tx l txid a))))"
  by (rule appends_send) simp_all

lemma mint_initial_supply_appends: "appends 0 [] a (mint_initial_supply H node ctx t recipient a)"
  unfolding mint_initial_supply_def Let_def
  by (rule appends_after_quiet [OF emits_read], rule appends_after_quiet [OF emits_return],
      rule appends_after_quiet [OF emits_attempt [OF emits_read]], rule appends_if [OF appends_return],
      rule appends_front [OF appends_if [OF send_record_appends appends_return]],
      rule appends_after_quiet [OF emits_return], rule send_record_appends)

lemma mint_step_appends: "appends 0 [] a (mint_step H node cfg ts a)"
proof (induction ts arbitrary: a)
  case (Cons t ts)
  have "appends 0 [] a (bind_u (return_u q) (\<lambda>authority_kp.
      bind_u (when_u (dc_use_faucet cfg) (try_fund_rounds node 3 authority_kp)) (\<lambda>_.
      bind_u (mint_initial_supply H node (ctx authority_kp) t (recipient authority_kp) a) (mint_step H node cfg ts))))"
    for q ctx recipient
    by (rule appends_after_quiet [OF emits_return], rule appends_after_quiet [OF emits_when [OF fund_rounds_quiet(2)]],
        rule appends_front [OF mint_initial_supply_appends Cons.IH])
  then show ?case using Cons.IH [of a] by (simp split: option.split)
qed (simp add: appends_return)

lemma attempt_u_Done:
  assumes "attempt_u p w = Some (Done r, ev, w')"
  shows "p w = Some (r, ev, w')"
  using assms by (cases "p w") (auto simp: attempt_u_def split: outcome.splits)

lemma create_global_config_appends:
  "appends 1 [] a (create_global_config H node ctx pid adm receiver share a)"
  unfolding appends_def create_global_config_def Let_def case_prod_beta
proof (intro allI impI)
  fix w a' ev w'
  let ?ix = "snd (create_global_config_ix (dh_env H) (dh_codecs H) pid (kp_pubkey (rx_payer ctx)) adm receiver share)"
  let ?k = "fst (create_global_config_ix (dh_env H) (dh_codecs H) pid (kp_pubkey (rx_payer ctx)) adm receiver share)"
  assume b: "bind_u (attempt_u (send H node ctx [?ix] [])) (\<lambda>r. bind_u (return_u (case r of
        Done txid \<Rightarrow> Done (record_tx ''create_global_config'' txid a)
      | Failed e \<Rightarrow> if contains_str e ''already exists'' then Done a else Failed e | Panicked \<Rightarrow> Panicked))
      (\<lambda>a. return_u (Done (a\<lparr>da_global_config := Some (dh_show H ?k)\<rparr>)))) w = Some (Done a', ev, w')"
  from bind_u_Done [OF b] obtain r ev1 w1 ev2 where s: "attempt_u (send H node ctx [?ix] []) w = Some (Done r, ev1, w1)"
    and f: "bind_u (return_u (case r of Done txid \<Rightarrow> Done (record_tx ''create_global_config'' txid a)
      | Failed e \<Rightarrow> if contains_str e ''already exists'' then Done a else Failed e | Panicked \<Rightarrow> Panicked))
      (\<lambda>a. return_u (Done (a\<lparr>da_global_config := Some (dh_show H ?k)\<rparr>))) w1 = Some (Done a', ev2, w')" "ev = ev1 @ ev2"
    by blast
  from bind_u_Done [OF f(1)] have "ev2 = []"
    and a': "map recorded (da_markets a') = map recorded (da_markets a)"
    "length (da_transactions a') = length (da_transactions a) + (case r of Done _ \<Rightarrow> 1 | _ \<Rightarrow> 0)"
    by (auto simp: return_u_def split: outcome.splits if_splits)
  then have ev: "ev = ev1" using f(2) by simp
  show "map recorded (da_markets a') = map recorded (da_markets a) @ []
     \<and> (\<exists>k \<le> 1. length (filter is_sent ev) + length (da_transactions a) = length (da_transactions a') + k)"
  proof (cases r)
    case (Done txid)
    then show ?thesis using a' ev sendsD(2) [OF sends_send attempt_u_Done [OF s [unfolded Done]]] by auto
  qed (use a' ev sendsD(1) [OF sends_send attempt_u_Done [OF s]] in auto)
qed

lemma program_step_quiet: "emits (\<lambda>e. \<not> is_sent e) (program_step H node b k d path)"
proof -
  have "emits (\<lambda>e. \<not> is_sent e) (case r of Failed msg \<Rightarrow>
      if contains_str msg x \<or> contains_str msg y then return_u (Done ()) else return_u (Failed (z @ msg))
      | _ \<Rightarrow> return_u (Done ()))" for r :: "pubkey outcome" and x y z
    by (cases r) (auto intro: emits_rules)
  then have "emits (\<lambda>e. \<not> is_sent e) (deploy_program H node k d path)"
    unfolding deploy_program_def by (intro emits_rules quiet_rules)
  then show ?thesis unfolding program_step_def by (intro emits_rules)
qed

lemma funding_quiet: "emits (\<lambda>e. \<not> is_sent e) (funding node cfg K)"
  unfolding funding_def by (intro emits_rules fund_rounds_quiet quiet_rules)

lemma ensure_token_mints_quiet: "emits P (ensure_token_mints node ts)"
  by (induction ts) (auto intro!: emits_rules)

lemma real_run_appends:
  "appends 1 (if step_create_market steps
      then List.map_filter (planned_market H cfg K) (effective_market_pairs (tp_hex_decode (dh_parsers H)) cfg) else [])
     (initial_artifact H cfg K) (real_run H node cfg K steps)"
  (is "appends 1 ?ms ?a0 _")
proof -
  have config: "appends 1 [] ?a0 (if step_init_config steps
      then create_global_config H node ctx pid adm receiver share (?a0\<lparr>da_program_elf_sha256 := ph, da_oracle_elf_sha256 := oh\<rparr>)
      else return_u (Done (?a0\<lparr>da_program_elf_sha256 := ph, da_oracle_elf_sha256 := oh\<rparr>)))"
    for ctx pid adm receiver share ph oh
    by (rule appends_same [OF appends_if [OF create_global_config_appends appends_weaken [OF appends_return zero_le]]])
      simp_all
  have markets: "appends 0 ?ms a (if step_create_market steps
      then market_step H node cfg K (effective_market_pairs (tp_hex_decode (dh_parsers H)) cfg) a else return_u (Done a))" for a
    by (simp add: market_step_appends appends_return)
  show ?thesis
    unfolding real_run_def Let_def
    by (rule appends_after_quiet [OF funding_quiet], rule appends_after_quiet [OF program_step_quiet],
        rule appends_after_quiet [OF program_step_quiet], rule appends_front [OF config],
        rule appends_after_quiet [OF emits_when [OF ensure_token_mints_quiet]],
        rule appends_front [OF appends_if [OF mint_step_appends appends_return]],
        rule appends_last [OF markets], rule appends_after_quiet [OF emits_return], rule appends_return)
qed

text \<open>
  The record of a deployment is complete. A run that comes to its end has recorded exactly the markets it was
  configured with, in their order: the configured or derived pairs whose tokens have a feed, each
  under the address the program derives for it; and it has recorded every transaction it sent, with the one
  possible exception of a creation of the global configuration that was there already.
\<close>

theorem deployment_recorded:
  assumes "deploy_config_from_env (dh_parsers H) (dh_variables H) = Done cfg" and "load_keys H cfg = Done K"
    and "deploy_main H node dry_run w = Some (Done (Some a), ev, w')"
  shows "map recorded (da_markets a) = (if step_create_market (deploy_steps_from_env (dh_variables H))
      then List.map_filter (planned_market H cfg K) (effective_market_pairs (tp_hex_decode (dh_parsers H)) cfg) else [])
    \<and> length (da_transactions a) \<le> length (filter is_sent ev)
    \<and> length (filter is_sent ev) \<le> Suc (length (da_transactions a))"
proof -
  have none: "da_markets (initial_artifact H cfg K) = []" "da_transactions (initial_artifact H cfg K) = []"
    by (simp_all add: initial_artifact_def)
  obtain r' where r': "real_run H node cfg K (deploy_steps_from_env (dh_variables H)) w = Some (r', ev, w')"
      "Done (Some a) = Done (Some a) \<Longrightarrow> r' = Done a"
    using assms by (cases rule: deploy_main_cases) blast+
  from appendsD [OF real_run_appends r'(1)[unfolded r'(2)[OF refl]]] obtain k where
    "map recorded (da_markets a) = map recorded (da_markets (initial_artifact H cfg K))
       @ (if step_create_market (deploy_steps_from_env (dh_variables H))
          then List.map_filter (planned_market H cfg K) (effective_market_pairs (tp_hex_decode (dh_parsers H)) cfg) else [])"
    "k \<le> 1" "length (filter is_sent ev) + length (da_transactions (initial_artifact H cfg K)) = length (da_transactions a) + k" .
  then show ?thesis unfolding none by simp
qed

theorem deployment_recorded_witness:
  "\<exists>a ev. deploy_main example_host example_deploy_node False () = Some (Done (Some a), ev, ())
     \<and> length (filter is_sent ev) = 3 \<and> 2 \<le> length (da_transactions a)
     \<and> map recorded (da_markets a) = [(''BTC'', ''USDC'', ''market''), (''USDC'', ''BTC'', ''market'')]"
proof -
  obtain cfg where cfg: "deploy_config_from_env (dh_parsers example_host) (dh_variables example_host) = Done cfg"
      "dc_tokens cfg = example_token_configs" "dc_market_pairs cfg = []"
    using example_deploy_config by blast
  obtain K a ix1 ix2 ix3 where e: "load_keys example_host cfg = Done K"
      "deploy_main example_host example_deploy_node False () = Some (Done (Some a),
        [BalanceRead 50 (Some 5000000), BalanceRead 50 (Some 5000000), SentTx 50 [ix1], SentTx 50 [ix2], SentTx 50 [ix3]], ())"
    using example_main cfg(1) by auto
  have "List.map_filter (planned_market example_host cfg K) (effective_market_pairs (tp_hex_decode (dh_parsers example_host)) cfg)
      = [(''BTC'', ''USDC'', ''market''), (''USDC'', ''BTC'', ''market'')]"
    unfolding example_pairs [OF cfg(2,3)]
    by (simp add: map_filter_simps planned_market_def example_by_label [OF cfg(2)] example_feeds example_labels example_market_address
        example_show)
  with deployment_recorded [OF cfg(1) e] e(2) show ?thesis by (auto simp: example_steps)
qed

section \<open>Feeds that are pushed\<close>

text \<open>\<open>DEFAULT_FEEDS\<close> of the price pusher, \<open>src/autara-pyth/src/main.rs\<close>.\<close>

definition DEFAULT_FEEDS :: string where
  "DEFAULT_FEEDS = ''0xe62df6c8b4a85fe1a67db44dc12de5db330f7ac66b72dc658afedf0f4a415b43,0xeaa020c61cc479712813461ce153894a96a6c00b21ed0cfc2798d1f9a9e9c94a''"

lemma default_feeds_split: "split_on (CHR '','') DEFAULT_FEEDS = [BTC_FEED, USDC_FEED]"
  by (simp add: DEFAULT_FEEDS_def BTC_FEED_def USDC_FEED_def)

text \<open>
  The feed a market of the deployment tool reads is one the pusher knows, and the pusher updates it by default
  unless the token is ETH.
\<close>

lemma deployed_feed_pushed:
  assumes "feed_for_label label = Some h"
  shows "''0x'' @ h \<in> {BTC_FEED, USDC_FEED, ETH_FEED}"
    and "''0x'' @ h \<in> set (split_on (CHR '','') DEFAULT_FEEDS) \<longleftrightarrow> to_uppercase (trim label) \<noteq> ''ETH''"
  using assms unfolding default_feeds_split
  by (auto simp: feed_for_label_def Let_def DEPLOY_BTC_FEED_def DEPLOY_USDC_FEED_def DEPLOY_ETH_FEED_def BTC_FEED_def
      USDC_FEED_def ETH_FEED_def split: if_splits)

end
