(* ===== verification/Deploy_Verify.thy ===== *)
theory Deploy_Verify
  imports Deploy_Laws Client_Agreement
begin

text \<open>
  The read-only verification of a deployment, \<open>src/autara-deploy/src/verify.rs\<close>. The accounts are those the node shows
  while the verification runs, a parameter, as is the posting of a request to the server. A check is
  recorded with its name and its result; the text of its detail is only printed.
\<close>

section \<open>Accounts and report\<close>

record chain_account =
  ca_info :: account_info
  ca_is_executable :: bool

type_synonym chain_view = "pubkey \<Rightarrow> chain_account option"

definition ORACLE_MAX_AGE_SECS :: i64 where
  "ORACLE_MAX_AGE_SECS = 60"

type_synonym report = "(string \<times> bool) list"

definition record_check :: "string \<Rightarrow> bool \<Rightarrow> report \<Rightarrow> report" where
  "record_check name ok rep = rep @ [(name, ok)]"

definition failed_checks :: "report \<Rightarrow> nat" where
  "failed_checks rep = length (filter (\<lambda>(_, ok). \<not> ok) rep)"

text \<open>A leading part of the data is decoded; \<open>len\<close> is the size of the type.\<close>

definition decode_pod :: "environment \<Rightarrow> nat \<Rightarrow> (account_data \<Rightarrow> 'a option) \<Rightarrow> account_info \<Rightarrow> 'a option" where
  "decode_pod E len from_bytes acc =
     (case from_bytes (ai_data acc) of
        Some x \<Rightarrow> Some x
      | None \<Rightarrow>
          let data = data_bytes E acc in
          if length data < len then None else from_bytes (RawAccount (take len data)))"

definition feed_from_bytes :: "environment \<Rightarrow> account_data \<Rightarrow> pyth_price_account option" where
  "feed_from_bytes E d = (case d of RawAccount bytes \<Rightarrow> pyth_try_from_bytes (env_runtime E) bytes | _ \<Rightarrow> None)"

section \<open>Checks\<close>

definition verify_program :: "chain_view \<Rightarrow> pubkey \<Rightarrow> report \<Rightarrow> report" where
  "verify_program chain program_id =
     record_check ''program.executable'' (case chain program_id of Some shown \<Rightarrow> ca_is_executable shown | None \<Rightarrow> False)"

definition verify_global_config :: "environment \<Rightarrow> chain_view \<Rightarrow> pubkey \<Rightarrow> pubkey \<Rightarrow> report \<Rightarrow> report" where
  "verify_global_config E chain program_id expected_admin =
     record_check ''global_config''
       (case chain (fst (find_global_config_pda E program_id)) of
          Some shown \<Rightarrow>
            (case decode_pod E 256 (global_config_from_bytes E) (ca_info shown) of
               Some gc \<Rightarrow> admin gc = expected_admin
             | None \<Rightarrow> False)
        | None \<Rightarrow> False)"

fun verify_mints :: "deploy_host \<Rightarrow> chain_view \<Rightarrow> bool \<Rightarrow> token_config list \<Rightarrow> report \<Rightarrow> report" where
  "verify_mints H chain expect_supply [] rep = rep"
| "verify_mints H chain expect_supply (t # ts) rep =
     verify_mints H chain expect_supply ts
       (record_check (''mint.'' @ tc_label t)
          (case chain (tc_mint t) of
             Some shown \<Rightarrow>
               (case dh_unpack_mint H (ai_data (ca_info shown)) of
                  Some mint \<Rightarrow> ms_decimals mint = tc_decimals t \<and> (\<not> expect_supply \<or> tc_mint_amount t \<le> ms_supply mint)
                | None \<Rightarrow> False)
           | None \<Rightarrow> False) rep)"

text \<open>The age is a difference of 64 bits.\<close>

definition verify_oracle ::
    "environment \<Rightarrow> chain_view \<Rightarrow> i64 \<Rightarrow> pubkey \<Rightarrow> u8 list \<Rightarrow> string \<Rightarrow> string \<Rightarrow> report \<Rightarrow> report" where
  "verify_oracle E chain now_unix oracle_id feed_id label leg =
     (let name = ''oracle.'' @ label @ ''.'' @ leg in
      case chain (fst (find_program_address (env_runtime E) [feed_id] oracle_id)) of
        Some shown \<Rightarrow>
          if ai_owner (ca_info shown) \<noteq> oracle_id then record_check name False
          else
            (case decode_pod E 152 (feed_from_bytes E) (ca_info shown) of
               Some acc \<Rightarrow>
                 record_check name (now_unix - pyth_publish_time (pyth_data (account_price acc)) \<le>s ORACLE_MAX_AGE_SECS)
             | None \<Rightarrow> record_check name False)
      | None \<Rightarrow> record_check name False)"

definition verify_market ::
    "deploy_host \<Rightarrow> chain_view \<Rightarrow> u64 \<Rightarrow> pubkey \<Rightarrow> pubkey \<Rightarrow> string \<Rightarrow> token_config \<Rightarrow> token_config \<Rightarrow> report \<Rightarrow> report" where
  "verify_market H chain ltv_num program_id curator_key label s c =
     record_check label
       (case chain (fst (find_market_pda (dh_env H) program_id curator_key (tc_mint s) (tc_mint c) 0)) of
          Some shown \<Rightarrow>
            (case decode_pod (dh_env H) 1448 (market_from_bytes (dh_env H)) (ca_info shown) of
               Some market \<Rightarrow>
                 (sv_mint (m_supply_vault market) = tc_mint s \<and> cv_mint (m_collateral_vault market) = tc_mint c)
                 \<and> max_ltv (mc_ltv_config (config market)) = dh_from_num H ltv_num
                 \<and> curator (config market) = curator_key
             | None \<Rightarrow> False)
        | None \<Rightarrow> False)"

fun verify_legs ::
    "deploy_host \<Rightarrow> chain_view \<Rightarrow> i64 \<Rightarrow> pubkey \<Rightarrow> (string \<times> token_config) list \<Rightarrow> report \<Rightarrow> report" where
  "verify_legs H chain now_unix oracle_id [] rep = rep"
| "verify_legs H chain now_unix oracle_id ((leg, t) # legs) rep =
     verify_legs H chain now_unix oracle_id legs
       (case pyth_feed_for_label (tp_hex_decode (dh_parsers H)) (tc_label t) of
          None \<Rightarrow> record_check (''oracle.'' @ tc_label t @ ''.'' @ leg) False rep
        | Some feed_id \<Rightarrow> verify_oracle (dh_env H) chain now_unix oracle_id feed_id (tc_label t) leg rep)"

fun verify_markets ::
    "deploy_host \<Rightarrow> chain_view \<Rightarrow> deploy_config \<Rightarrow> i64 \<Rightarrow> pubkey \<Rightarrow> pubkey \<Rightarrow> pubkey \<Rightarrow> market_pair list \<Rightarrow> report \<Rightarrow> report" where
  "verify_markets H chain cfg now_unix program_id oracle_id curator_key [] rep = rep"
| "verify_markets H chain cfg now_unix program_id oracle_id curator_key (pair # pairs) rep =
     verify_markets H chain cfg now_unix program_id oracle_id curator_key pairs
       (let label = ''market.'' @ mp_supply_label pair @ ''/'' @ mp_collateral_label pair in
        case (token_by_label cfg (mp_supply_label pair), token_by_label cfg (mp_collateral_label pair)) of
          (Some s, Some c) \<Rightarrow>
            verify_legs H chain now_unix oracle_id [(''supply'', s), (''collateral'', c)]
              (verify_market H chain (par_max_ltv (dc_market_params cfg)) program_id curator_key label s c rep)
        | _ \<Rightarrow> record_check label False rep)"

section \<open>The server\<close>

datatype json = JNull | JBool bool | JNumber int | JString string | JArray "json list" | JObject "(string \<times> json) list"

fun json_get :: "json \<Rightarrow> string \<Rightarrow> json option" where
  "json_get (JObject kvs) key = map_of kvs key"
| "json_get _ key = None"

text \<open>\<open>post\<close> sends a body to the server and decodes the answer.\<close>

definition jsonrpc_call :: "(string \<Rightarrow> json \<Rightarrow> json option) \<Rightarrow> string \<Rightarrow> string \<Rightarrow> json \<Rightarrow> json option" where
  "jsonrpc_call post url method params =
     Option.bind (post url (JObject [(''jsonrpc'', JString ''2.0''), (''id'', JNumber 1), (''method'', JString method),
       (''params'', params)])) (\<lambda>response.
       if json_get response ''error'' \<noteq> None then None else json_get response ''result'')"

definition market_ids_of :: "json \<Rightarrow> string list" where
  "market_ids_of response =
     (case (case json_get response ''marketIds'' of Some v \<Rightarrow> Some v | None \<Rightarrow> json_get response ''market_ids'') of
        Some (JArray xs) \<Rightarrow> List.map_filter (\<lambda>x. case x of JString s \<Rightarrow> Some s | _ \<Rightarrow> None) xs
      | _ \<Rightarrow> [])"

definition verify_server :: "(string \<Rightarrow> json \<Rightarrow> json option) \<Rightarrow> string \<Rightarrow> report \<Rightarrow> report" where
  "verify_server post url rep =
     (case jsonrpc_call post url ''get_all_market_ids'' (JArray []) of
        None \<Rightarrow> record_check ''server.get_all_market_ids'' False rep
      | Some response \<Rightarrow>
          let rep' = record_check ''server.get_all_market_ids'' True rep in
          case market_ids_of response of
            [] \<Rightarrow> rep'
          | first # _ \<Rightarrow>
              record_check ''server.get_market_by_id''
                (jsonrpc_call post url ''get_market_by_id'' (JArray [JObject [(''marketId'', JString first)]]) \<noteq> None) rep')"

section \<open>The verification\<close>

definition verify_run ::
    "deploy_host \<Rightarrow> chain_view \<Rightarrow> (string \<Rightarrow> json \<Rightarrow> json option) \<Rightarrow> deploy_config \<Rightarrow> string option \<Rightarrow> bool \<Rightarrow> unit outcome" where
  "verify_run H chain post cfg server_url expect_supply =
     bind_o (dh_load_keypair H (dc_program_key_path cfg)) (\<lambda>program_kp.
     bind_o (dh_load_keypair H (dc_oracle_key_path cfg)) (\<lambda>oracle_kp.
     bind_o (dh_load_keypair H (dc_admin_key_path cfg)) (\<lambda>admin_kp.
       let program_id = kp_pubkey program_kp; oracle_id = kp_pubkey oracle_kp; admin_default = kp_pubkey admin_kp;
           expected_admin = (case dc_admin cfg of Some a \<Rightarrow> a | None \<Rightarrow> admin_default);
           r1 = verify_program chain program_id [];
           r2 = verify_global_config (dh_env H) chain program_id expected_admin r1;
           r3 = verify_mints H chain expect_supply (dc_tokens cfg) r2;
           r4 = verify_markets H chain cfg (dh_now H) program_id oracle_id admin_default
                  (effective_market_pairs (tp_hex_decode (dh_parsers H)) cfg) r3;
           rep = (case server_url of Some url \<Rightarrow> verify_server post url r4 | None \<Rightarrow> r4) in
       if 0 < failed_checks rep then Failed ''verify: check(s) FAILED'' else Done ())))"

section \<open>What a verified deployment is\<close>

definition shows_market :: "deploy_host \<Rightarrow> chain_view \<Rightarrow> deploy_config \<Rightarrow> pubkey \<Rightarrow> pubkey \<Rightarrow> token_config \<Rightarrow> token_config \<Rightarrow> bool" where
  "shows_market H chain cfg program_id curator_key s c \<longleftrightarrow>
     (\<exists>shown market. chain (fst (find_market_pda (dh_env H) program_id curator_key (tc_mint s) (tc_mint c) 0)) = Some shown
        \<and> decode_pod (dh_env H) 1448 (market_from_bytes (dh_env H)) (ca_info shown) = Some market
        \<and> sv_mint (m_supply_vault market) = tc_mint s \<and> cv_mint (m_collateral_vault market) = tc_mint c
        \<and> max_ltv (mc_ltv_config (config market)) = dh_from_num H (par_max_ltv (dc_market_params cfg))
        \<and> curator (config market) = curator_key)"

definition shows_fresh_feed :: "deploy_host \<Rightarrow> chain_view \<Rightarrow> pubkey \<Rightarrow> token_config \<Rightarrow> bool" where
  "shows_fresh_feed H chain oracle_id t \<longleftrightarrow>
     (\<exists>feed shown acc. pyth_feed_for_label (tp_hex_decode (dh_parsers H)) (tc_label t) = Some feed
        \<and> chain (fst (find_program_address (env_runtime (dh_env H)) [feed] oracle_id)) = Some shown
        \<and> ai_owner (ca_info shown) = oracle_id \<and> decode_pod (dh_env H) 152 (feed_from_bytes (dh_env H)) (ca_info shown) = Some acc
        \<and> sint (dh_now H - pyth_publish_time (pyth_data (account_price acc))) \<le> 60)"

definition shows_mint :: "deploy_host \<Rightarrow> chain_view \<Rightarrow> bool \<Rightarrow> token_config \<Rightarrow> bool" where
  "shows_mint H chain expect_supply t \<longleftrightarrow>
     (\<exists>shown mint. chain (tc_mint t) = Some shown \<and> dh_unpack_mint H (ai_data (ca_info shown)) = Some mint
        \<and> ms_decimals mint = tc_decimals t \<and> (expect_supply \<longrightarrow> tc_mint_amount t \<le> ms_supply mint))"

definition matches_configuration :: "deploy_host \<Rightarrow> chain_view \<Rightarrow> deploy_config \<Rightarrow> deploy_keys \<Rightarrow> bool \<Rightarrow> bool" where
  "matches_configuration H chain cfg K expect_supply \<longleftrightarrow>
     (\<exists>shown. chain (kp_pubkey (dk_program K)) = Some shown \<and> ca_is_executable shown)
   \<and> (\<exists>shown gc. chain (fst (find_global_config_pda (dh_env H) (kp_pubkey (dk_program K)))) = Some shown
        \<and> decode_pod (dh_env H) 256 (global_config_from_bytes (dh_env H)) (ca_info shown) = Some gc \<and> admin gc = admin_of cfg K)
   \<and> (\<forall>t \<in> set (dc_tokens cfg). shows_mint H chain expect_supply t)
   \<and> (\<forall>pair \<in> set (effective_market_pairs (tp_hex_decode (dh_parsers H)) cfg). \<exists>s c.
        token_by_label cfg (mp_supply_label pair) = Some s \<and> token_by_label cfg (mp_collateral_label pair) = Some c
        \<and> shows_market H chain cfg (kp_pubkey (dk_program K)) (kp_pubkey (dk_admin K)) s c
        \<and> shows_fresh_feed H chain (kp_pubkey (dk_oracle K)) s \<and> shows_fresh_feed H chain (kp_pubkey (dk_oracle K)) c)"

definition server_answers :: "(string \<Rightarrow> json \<Rightarrow> json option) \<Rightarrow> string \<Rightarrow> bool" where
  "server_answers post url \<longleftrightarrow>
     (\<exists>response. jsonrpc_call post url ''get_all_market_ids'' (JArray []) = Some response
        \<and> (\<forall>first rest. market_ids_of response = first # rest \<longrightarrow>
             jsonrpc_call post url ''get_market_by_id'' (JArray [JObject [(''marketId'', JString first)]]) \<noteq> None))"

definition all_passed :: "report \<Rightarrow> bool" where
  "all_passed rep \<longleftrightarrow> list_all snd rep"

lemma failed_checks_iff: "0 < failed_checks rep \<longleftrightarrow> \<not> all_passed rep"
  by (simp add: failed_checks_def all_passed_def list_all_iff filter_empty_conv case_prod_beta)

lemma passed_record [simp]: "all_passed (record_check name ok rep) \<longleftrightarrow> ok \<and> all_passed rep"
  by (auto simp: all_passed_def record_check_def)

lemma passed_mints: "all_passed (verify_mints H chain e ts rep) \<longleftrightarrow> all_passed rep \<and> (\<forall>t \<in> set ts. shows_mint H chain e t)"
  by (induction ts arbitrary: rep) (auto simp: shows_mint_def split: option.splits)

lemma passed_market: "all_passed (verify_market H chain (par_max_ltv (dc_market_params cfg)) p k label s c rep)
    \<longleftrightarrow> all_passed rep \<and> shows_market H chain cfg p k s c"
  by (auto simp: verify_market_def shows_market_def split: option.splits)

lemma passed_oracle: "all_passed (verify_oracle (dh_env H) chain (dh_now H) oracle_id feed label leg rep) \<longleftrightarrow> all_passed rep
    \<and> (\<exists>shown acc. chain (fst (find_program_address (env_runtime (dh_env H)) [feed] oracle_id)) = Some shown
        \<and> ai_owner (ca_info shown) = oracle_id \<and> decode_pod (dh_env H) 152 (feed_from_bytes (dh_env H)) (ca_info shown) = Some acc
        \<and> sint (dh_now H - pyth_publish_time (pyth_data (account_price acc))) \<le> 60)"
  by (simp add: verify_oracle_def ORACLE_MAX_AGE_SECS_def word_sle_eq Let_def conj_commute split: option.split)

lemma passed_legs: "all_passed (verify_legs H chain (dh_now H) oracle_id legs rep)
    \<longleftrightarrow> all_passed rep \<and> (\<forall>(_, t) \<in> set legs. shows_fresh_feed H chain oracle_id t)"
proof (induction legs arbitrary: rep)
  case (Cons l legs)
  obtain leg t where l: "l = (leg, t)" by (cases l)
  show ?case
    by (cases "pyth_feed_for_label (tp_hex_decode (dh_parsers H)) (tc_label t)")
      (simp_all add: l Cons.IH passed_oracle shows_fresh_feed_def [of H chain oracle_id t])
qed simp

lemma passed_markets: "all_passed (verify_markets H chain cfg (dh_now H) p oracle_id k pairs rep)
    \<longleftrightarrow> all_passed rep \<and> (\<forall>pair \<in> set pairs. \<exists>s c. token_by_label cfg (mp_supply_label pair) = Some s
        \<and> token_by_label cfg (mp_collateral_label pair) = Some c \<and> shows_market H chain cfg p k s c
        \<and> shows_fresh_feed H chain oracle_id s \<and> shows_fresh_feed H chain oracle_id c)"
proof (induction pairs arbitrary: rep)
  case (Cons pair pairs)
  show ?case
    by (cases "token_by_label cfg (mp_supply_label pair)"; cases "token_by_label cfg (mp_collateral_label pair)")
      (auto simp: Cons.IH passed_market passed_legs Let_def simp del: verify_legs.simps)
qed simp

lemma passed_server: "all_passed (verify_server post url rep) \<longleftrightarrow> all_passed rep \<and> server_answers post url"
  by (auto simp: verify_server_def server_answers_def Let_def split: option.splits list.splits)

text \<open>
  The verification of a deployment reports success exactly when the chain matches the configuration: the program
  is executable, the global configuration names the expected admin, every mint has its decimals (and its
  supply, when asked for), and for every configured or derived pair the market is at the address
  the program derives, with the configured mints, ratio and curator, and both its feeds belong
  to the oracle program and are at most a minute old; and, when a server is named, that it answers.
\<close>

theorem verification_exact:
  assumes "load_keys H cfg = Done K"
  shows "verify_run H chain post cfg server_url expect_supply = Done () \<longleftrightarrow>
     matches_configuration H chain cfg K expect_supply \<and> (\<forall>url. server_url = Some url \<longrightarrow> server_answers post url)"
proof -
  have K: "dh_load_keypair H (dc_program_key_path cfg) = Done (dk_program K)"
      "dh_load_keypair H (dc_oracle_key_path cfg) = Done (dk_oracle K)" "dh_load_keypair H (dc_admin_key_path cfg) = Done (dk_admin K)"
    using assms unfolding load_keys_def by (auto elim!: bind_o_DoneE)
  have p: "all_passed (verify_program chain k []) \<longleftrightarrow> (\<exists>shown. chain k = Some shown \<and> ca_is_executable shown)" for k
    by (simp add: verify_program_def all_passed_def record_check_def split: option.split)
  have g: "all_passed (verify_global_config E chain k adm rep) \<longleftrightarrow> all_passed rep
      \<and> (\<exists>shown gc. chain (fst (find_global_config_pda E k)) = Some shown
        \<and> decode_pod E 256 (global_config_from_bytes E) (ca_info shown) = Some gc \<and> admin gc = adm)" for E k adm rep
    by (auto simp: verify_global_config_def split: option.splits)
  let ?rep = "verify_markets H chain cfg (dh_now H) (kp_pubkey (dk_program K)) (kp_pubkey (dk_oracle K)) (kp_pubkey (dk_admin K))
    (effective_market_pairs (tp_hex_decode (dh_parsers H)) cfg) (verify_mints H chain expect_supply (dc_tokens cfg)
    (verify_global_config (dh_env H) chain (kp_pubkey (dk_program K)) (admin_of cfg K) (verify_program chain (kp_pubkey (dk_program K)) [])))"
  have "verify_run H chain post cfg server_url expect_supply = Done () \<longleftrightarrow>
      all_passed (case server_url of Some url \<Rightarrow> verify_server post url ?rep | None \<Rightarrow> ?rep)"
    unfolding verify_run_def Let_def K bind_o.simps failed_checks_iff admin_of_def by simp
  also have "\<dots> \<longleftrightarrow> all_passed ?rep \<and> (\<forall>url. server_url = Some url \<longrightarrow> server_answers post url)"
    by (cases server_url) (simp_all add: passed_server)
  also have "all_passed ?rep \<longleftrightarrow> matches_configuration H chain cfg K expect_supply"
    by (simp only: passed_markets passed_mints p g matches_configuration_def conj_assoc)
  finally show ?thesis .
qed

text \<open>The chain after a deployment of one pair: the program, its configuration at 6, the mints, the market at 30, the feed at 5.\<close>

definition example_verifier :: deploy_host where
  "example_verifier = example_host\<lparr>dh_env := example_client_env, dh_now := 1030,
     dh_unpack_mint := (\<lambda>d. Some \<lparr>ms_decimals = (if d = RawAccount [8] then 8 else 6), ms_supply = 0, ms_mint_authority = None\<rparr>)\<rparr>"

definition example_deployed_market :: market where
  "example_deployed_market = (example_market 1000 0 0)\<lparr>config := example_config
     \<lparr>curator := 50, mc_ltv_config := example_ltv_config\<lparr>max_ltv := IFixedPoint 0\<rparr>\<rparr>\<rparr>"

definition example_deployed_chain :: chain_view where
  "example_deployed_chain k = map_option (\<lambda>(owner, d). \<lparr>ca_info = example_account k owner False d, ca_is_executable = True\<rparr>) (map_of
     [(crate_id, 7, RawAccount []), (6, crate_id, GlobalConfigAccount (gc_new 50 50 5000)),
      (100, 1, RawAccount [8]), (200, 1, RawAccount [6]), (30, crate_id, MarketAccount example_deployed_market),
      (5, 50, RawAccount [])] k)"

lemma example_deployed_chain_at:
  "example_deployed_chain crate_id = Some \<lparr>ca_info = example_account crate_id 7 False (RawAccount []), ca_is_executable = True\<rparr>"
  "example_deployed_chain 6 = Some \<lparr>ca_info = example_account 6 crate_id False (GlobalConfigAccount (gc_new 50 50 5000)), ca_is_executable = True\<rparr>"
  "example_deployed_chain 100 = Some \<lparr>ca_info = example_account 100 1 False (RawAccount [8]), ca_is_executable = True\<rparr>"
  "example_deployed_chain 200 = Some \<lparr>ca_info = example_account 200 1 False (RawAccount [6]), ca_is_executable = True\<rparr>"
  "example_deployed_chain 30 = Some \<lparr>ca_info = example_account 30 crate_id False (MarketAccount example_deployed_market), ca_is_executable = True\<rparr>"
  "example_deployed_chain 5 = Some \<lparr>ca_info = example_account 5 50 False (RawAccount []), ca_is_executable = True\<rparr>"
  by (simp_all add: example_deployed_chain_def crate_id_def)

theorem verification_exact_witness:
  "\<exists>cfg K. load_keys example_verifier cfg = Done K \<and> dc_tokens cfg \<noteq> [] \<and> matches_configuration example_verifier example_deployed_chain cfg K False
     \<and> verify_run example_verifier example_deployed_chain (\<lambda>_ _. None) cfg None False = Done ()"
proof -
  obtain cfg where cfg: "dc_tokens cfg = example_token_configs" "dc_admin cfg = None"
    and K: "load_keys example_host cfg = Done \<lparr>dk_program = \<lparr>kp_pubkey = crate_id, kp_secret = []\<rparr>,
        dk_oracle = example_payer, dk_deployer = example_payer, dk_admin = example_payer\<rparr>"
      (is "_ = Done ?K")
    using example_deploy_config by blast
  let ?cfg = "cfg\<lparr>dc_market_pairs := [\<lparr>mp_supply_label = ''BTC'', mp_collateral_label = ''USDC''\<rparr>]\<rparr>"
  have K': "load_keys example_verifier ?cfg = Done ?K"
    using K by (simp add: load_keys_def example_verifier_def)
  have t: "dc_tokens ?cfg = example_token_configs" by (simp add: cfg)
  have v: "dh_env example_verifier = example_client_env" "dh_parsers example_verifier = dh_parsers example_host"
    "dh_now example_verifier = 1030" by (simp_all add: example_verifier_def)
  have "shows_mint example_verifier example_deployed_chain False tok" if "tok \<in> {example_btc, example_usdc}" for tok
    using that by (auto simp: shows_mint_def example_deployed_chain_at example_verifier_def example_token_configs_def example_account_def)
  then have m: "\<forall>tok \<in> set example_token_configs. shows_mint example_verifier example_deployed_chain False tok"
    by (simp add: example_token_configs_def)
  have f: "shows_fresh_feed example_verifier example_deployed_chain 50 tok" if "tok \<in> {example_btc, example_usdc}" for tok
    using that
    by (auto simp: shows_fresh_feed_def v example_feeds example_labels example_deployed_chain_at example_client_env_def example_env_def
        example_runtime_def crate_id_def example_account_def decode_pod_def feed_from_bytes_def)
  have "fst (find_market_pda example_client_env crate_id 50 x y 0) = 30" "fst (find_global_config_pda example_client_env crate_id) = 6" for x y
    by (simp_all add: find_market_pda_def find_global_config_pda_def example_client_env_def market_seed_without_bump_def
        global_config_seed_def)
  note pdas = this
  have d: "dh_from_num example_verifier x = IFixedPoint 0" for x by (simp add: example_verifier_def example_host_def)
  have "shows_market example_verifier example_deployed_chain ?cfg crate_id 50 example_btc example_usdc"
    by (simp add: shows_market_def v pdas d example_deployed_chain_at decode_pod_def example_account_def example_deployed_market_def
        example_market_def example_supply_vault_def example_collateral_vault_def example_token_configs_def)
  moreover have "\<exists>shown. example_deployed_chain crate_id = Some shown \<and> ca_is_executable shown"
    by (simp add: example_deployed_chain_at)
  moreover have "\<exists>shown gc. example_deployed_chain 6 = Some shown
      \<and> decode_pod example_client_env 256 (global_config_from_bytes example_client_env) (ca_info shown) = Some gc \<and> admin gc = 50"
    by (simp add: example_deployed_chain_at decode_pod_def example_account_def gc_new_def)
  ultimately have "matches_configuration example_verifier example_deployed_chain ?cfg ?K False"
    using m f by (simp add: matches_configuration_def v pdas effective_market_pairs_def example_by_label [OF t] cfg admin_of_def)
  with verification_exact [OF K', of example_deployed_chain "\<lambda>_ _. None" None False] K' show ?thesis
    by (intro exI [of _ ?cfg] exI [of _ ?K]) (simp add: cfg example_token_configs_def)
qed

end
