(* ===== verification/Api_Server.thy ===== *)
theory Api_Server
  imports Client_Broadcast Deploy_Run
begin

text \<open>
  The JSON server of the client, \<open>src/autara-client/src/api/server.rs\<close> with the requests of \<open>types.rs\<close> and the markets of
  \<open>market.rs\<close>, and the faucet it offers (\<open>TokenMinter\<close> of \<open>test.rs\<close>). The server works on the shared cache and on
  the client without a signer. The codec of messages, the encoding of answers and the floating-point
  figures in them are parameters.
\<close>

section \<open>Requests (types.rs)\<close>

record market_user_amount_params =
  mua_market_id :: pubkey
  mua_user :: pubkey
  mua_amount :: u64

record market_user_optional_amount_params =
  muo_market_id :: pubkey
  muo_user :: pubkey
  muo_amount :: "u64 option"

record update_config_params =
  ucp_market_id :: pubkey
  ucp_user :: pubkey
  ucp_config :: update_config_instruction

record update_global_config_params =
  ugp_user :: pubkey
  ugp_config :: update_global_config_instruction

record liquidate_position_params =
  lpp_user :: pubkey
  lpp_liquidatee_position :: pubkey
  lpp_market :: pubkey
  lpp_liquidate :: liquidate_instruction

record create_market_params =
  cmp_payer :: pubkey
  cmp_curator :: pubkey
  cmp_supply_mint :: pubkey
  cmp_collateral_mint :: pubkey
  cmp_params :: create_market_instruction

record borrow_and_deposit_request =
  bdr_user :: pubkey
  bdr_market_id :: pubkey
  bdr_params :: borrow_deposit_apl_instruction

record withdraw_and_repay_request =
  wrr_user :: pubkey
  wrr_market_id :: pubkey
  wrr_params :: withdraw_repay_apl_instruction

datatype autara_transaction_request =
    ApiCreateMarket create_market_params
  | ApiSupply market_user_amount_params
  | ApiWithdraw market_user_optional_amount_params
  | ApiDepositCollateral market_user_amount_params
  | ApiWithdrawCollateral market_user_optional_amount_params
  | ApiBorrow market_user_amount_params
  | ApiRepay market_user_optional_amount_params
  | ApiUpdateConfig update_config_params
  | ApiUpdateGlobalConfig update_global_config_params
  | ApiLiquidatePosition liquidate_position_params
  | ApiRedeemCuratorFees market_user_amount_params
  | ApiRedeemProtocolFees market_user_amount_params
  | ApiBorrowAndDeposit borrow_and_deposit_request
  | ApiWithdrawAndRepay withdraw_and_repay_request

record build_tx_tracing_params =
  btp_instruction :: string
  btp_user :: pubkey
  btp_market_id :: "pubkey option"

fun build_tx_tracing_params_of :: "autara_transaction_request \<Rightarrow> build_tx_tracing_params" where
  "build_tx_tracing_params_of (ApiCreateMarket p) =
     \<lparr>btp_instruction = ''CreateMarket'', btp_user = cmp_payer p, btp_market_id = None\<rparr>"
| "build_tx_tracing_params_of (ApiSupply p) =
     \<lparr>btp_instruction = ''Supply'', btp_user = mua_user p, btp_market_id = Some (mua_market_id p)\<rparr>"
| "build_tx_tracing_params_of (ApiWithdraw p) =
     \<lparr>btp_instruction = ''Withdraw'', btp_user = muo_user p, btp_market_id = Some (muo_market_id p)\<rparr>"
| "build_tx_tracing_params_of (ApiDepositCollateral p) =
     \<lparr>btp_instruction = ''DepositCollateral'', btp_user = mua_user p, btp_market_id = Some (mua_market_id p)\<rparr>"
| "build_tx_tracing_params_of (ApiWithdrawCollateral p) =
     \<lparr>btp_instruction = ''WithdrawCollateral'', btp_user = muo_user p, btp_market_id = Some (muo_market_id p)\<rparr>"
| "build_tx_tracing_params_of (ApiBorrow p) =
     \<lparr>btp_instruction = ''Borrow'', btp_user = mua_user p, btp_market_id = Some (mua_market_id p)\<rparr>"
| "build_tx_tracing_params_of (ApiRepay p) =
     \<lparr>btp_instruction = ''Repay'', btp_user = muo_user p, btp_market_id = Some (muo_market_id p)\<rparr>"
| "build_tx_tracing_params_of (ApiUpdateConfig p) =
     \<lparr>btp_instruction = ''UpdateConfig'', btp_user = ucp_user p, btp_market_id = Some (ucp_market_id p)\<rparr>"
| "build_tx_tracing_params_of (ApiUpdateGlobalConfig p) =
     \<lparr>btp_instruction = ''UpdateGlobalConfig'', btp_user = ugp_user p, btp_market_id = None\<rparr>"
| "build_tx_tracing_params_of (ApiLiquidatePosition p) =
     \<lparr>btp_instruction = ''LiquidatePosition'', btp_user = lpp_user p, btp_market_id = Some (lpp_market p)\<rparr>"
| "build_tx_tracing_params_of (ApiRedeemCuratorFees p) =
     \<lparr>btp_instruction = ''RedeemCuratorFees'', btp_user = mua_user p, btp_market_id = Some (mua_market_id p)\<rparr>"
| "build_tx_tracing_params_of (ApiRedeemProtocolFees p) =
     \<lparr>btp_instruction = ''RedeemProtocolFees'', btp_user = mua_user p, btp_market_id = Some (mua_market_id p)\<rparr>"
| "build_tx_tracing_params_of (ApiBorrowAndDeposit p) =
     \<lparr>btp_instruction = ''BorrowAndDeposit'', btp_user = bdr_user p, btp_market_id = Some (bdr_market_id p)\<rparr>"
| "build_tx_tracing_params_of (ApiWithdrawAndRepay p) =
     \<lparr>btp_instruction = ''WithdrawAndRepay'', btp_user = wrr_user p, btp_market_id = Some (wrr_market_id p)\<rparr>"

record transaction_to_sign_response =
  tsr_transaction_to_sign :: "u8 list"
  tsr_message :: "u8 list"
  tsr_signatures :: "u8 list list"

record send_transaction_request =
  str_signatures :: "u8 list list"
  str_message :: "u8 list"

record send_transaction_response =
  rsp_signature :: "u8 list"
  rsp_events :: "autara_event list"

record user_balance =
  ub_mint :: pubkey
  ub_amount :: u64
  ub_ui_amount :: string

section \<open>Answers\<close>

datatype 'a rpc_result = RpcOk 'a | RpcError int string | RpcPanic

definition INTERNAL_ERROR_CODE :: int where
  "INTERNAL_ERROR_CODE = -32603"

definition INVALID_REQUEST_CODE :: int where
  "INVALID_REQUEST_CODE = -32600"

definition internal_error :: "string \<Rightarrow> string \<Rightarrow> 'a rpc_result" where
  "internal_error ctx e = RpcError INTERNAL_ERROR_CODE (''context: '' @ ctx @ '', error: '' @ e)"

text \<open>\<open>internal\<close> and \<open>?\<close>.\<close>

fun bind_internal :: "string \<Rightarrow> 'a outcome \<Rightarrow> ('a \<Rightarrow> 'b rpc_result) \<Rightarrow> 'b rpc_result" where
  "bind_internal ctx (Done x) f = f x"
| "bind_internal ctx (Failed e) f = internal_error ctx e"
| "bind_internal ctx Panicked f = RpcPanic"

section \<open>The context\<close>

record token_minter =
  tk_authority :: keypair
  tk_mint :: pubkey

record server_context =
  sx_state :: shared_state
  sx_blockhash_cache :: blockhash_cache
  sx_minters :: "(token_minter \<times> u64) list"
  sx_active_market_streams :: "nat set"
  sx_active_user_position_streams :: "nat set"

definition build_autara_server :: "shared_state \<Rightarrow> (token_minter \<times> u64) list \<Rightarrow> u8 list outcome \<Rightarrow> server_context outcome" where
  "build_autara_server state minters best_block_hash =
     bind_o (blockhash_cache_new best_block_hash) (\<lambda>cache.
       Done \<lparr>sx_state = state, sx_blockhash_cache = cache, sx_minters = minters, sx_active_market_streams = {},
         sx_active_user_position_streams = {}\<rparr>)"

definition server_client :: "fixed_crate \<Rightarrow> environment \<Rightarrow> i64 \<Rightarrow> server_context \<Rightarrow> client_without_signer" where
  "server_client F E now self =
     \<lparr>cw_read_client = ss_client F E now (sx_state self), cw_blockhash_cache = sx_blockhash_cache self\<rparr>"

section \<open>Accounts and faucet\<close>

text \<open>\<open>payload\<close> is the transaction that the node's faucet built, or nothing; \<open>parse\<close> decodes it.\<close>

definition server_create_account ::
    "(pubkey \<Rightarrow> 'j option outcome) \<Rightarrow> ('j \<Rightarrow> runtime_transaction outcome) \<Rightarrow> (arch_message \<Rightarrow> u8 list) \<Rightarrow> (arch_message \<Rightarrow> u8 list)
     \<Rightarrow> pubkey \<Rightarrow> transaction_to_sign_response rpc_result" where
  "server_create_account payload parse message_hash serialize user =
     bind_internal ''Failed to call create_account_with_faucet'' (payload user) (\<lambda>p.
     bind_internal ''Failed to create account with faucet'' (context_o ''create_account_with_faucet returned no payload'' p) (\<lambda>v.
     bind_internal ''Failed to parse faucet transaction'' (parse v) (\<lambda>tx.
       RpcOk \<lparr>tsr_transaction_to_sign = message_hash (rt_message tx), tsr_message = serialize (rt_message tx),
         tsr_signatures = rt_signatures tx\<rparr>)))"

text \<open>\<open>mint_to\<close> of \<open>TokenMinter\<close>: the account of the user is created first when the node does not show it.\<close>

definition minter_mint_to ::
    "deploy_host \<Rightarrow> 'w deploy_node \<Rightarrow> token_minter \<Rightarrow> pubkey \<Rightarrow> u64 \<Rightarrow> ('w, deploy_event, unit) run" where
  "minter_mint_to H node self user amount =
     (let authority = kp_pubkey (tk_authority self);
          user_ata = associated_token_address (dh_env H) user (tk_mint self) in
      bind_u (account_exists node user_ata) (\<lambda>ata_exists.
      bind_u (return_u (dh_mint_to H (tk_mint self) user_ata authority amount)) (\<lambda>mint_ix.
      let ixs = (if ata_exists then [] else [create_ata_ix (dh_env H) authority None user (tk_mint self)]) @ [mint_ix] in
      bind_u (\<lambda>w. let (r, w') = dn_get_best_block_hash node w in Some (r, [], w')) (\<lambda>blockhash.
      bind_u (return_u (case dh_sign H (dh_message H ixs (Some authority) blockhash) [tk_authority self] of
                Done tx \<Rightarrow> Done tx | _ \<Rightarrow> Panicked)) (\<lambda>tx.
      bind_u (\<lambda>w. let (r, w') = dn_send_transactions node w tx in Some (r, [SentTx authority ixs], w')) (\<lambda>txids.
      bind_u (return_u (case txids of [] \<Rightarrow> Panicked | t # _ \<Rightarrow> Done t)) (\<lambda>txid.
      bind_u (\<lambda>w. let (r, w') = dn_wait_for_processed node w txid in Some (r, [], w')) (\<lambda>processed.
        return_u (case processed of
            [] \<Rightarrow> Panicked
          | p # _ \<Rightarrow> if ps_status p = TxProcessed then Done () else Failed ''Failed to mint tokens'')))))))))"

fun mint_all :: "deploy_host \<Rightarrow> 'w deploy_node \<Rightarrow> (token_minter \<times> u64) list \<Rightarrow> pubkey \<Rightarrow> ('w, deploy_event, unit) run" where
  "mint_all H node [] user = return_u (Done ())"
| "mint_all H node ((minter, faucet_amount) # ms) user =
     bind_u (minter_mint_to H node minter user faucet_amount) (\<lambda>_. mint_all H node ms user)"

definition server_initialize ::
    "deploy_host \<Rightarrow> 'w deploy_node \<Rightarrow> server_context \<Rightarrow> pubkey \<Rightarrow> ('w, deploy_event, unit) run" where
  "server_initialize H node self user =
     bind_u (\<lambda>w. let (r, w') = dn_faucet node w user in
       Some (case r of Failed e \<Rightarrow> Failed (''context: Failed to aidrop, error: '' @ e) | _ \<Rightarrow> r, [Airdrop user], w')) (\<lambda>_.
     bind_u (attempt_u (mint_all H node (sx_minters self) user)) (\<lambda>r.
       return_u (case r of Failed e \<Rightarrow> Failed (''context: Failed to mint tokens, error: '' @ e) | _ \<Rightarrow> r)))"

section \<open>Reading\<close>

text \<open>The shape of the rate curve is a list of floating-point numbers, computed by \<open>shape\<close>.\<close>

record 'c full_market =
  fm_market_id :: pubkey
  fm_market :: market_wrapper
  fm_total_collateral_atoms :: u64
  fm_supply_vault_summary :: supply_vault_summary
  fm_interest_rate_curve_shape :: 'c

definition supply_vault_summary_default :: supply_vault_summary where
  "supply_vault_summary_default = \<lparr>sum_last_update_unix_timestamp = 0, sum_total_supply = 0, sum_total_borrow = 0,
     sum_pending_curator_fee_atoms = 0, sum_pending_protocol_fee_atoms = 0, sum_utilisation_rate = if_zero,
     sum_borrow_interest_rate = InterestRatePerSecond if_zero, sum_lending_interest_rate = InterestRatePerSecond if_zero\<rparr>"

definition full_market_new :: "fixed_crate \<Rightarrow> (market \<Rightarrow> 'c) \<Rightarrow> pubkey \<Rightarrow> market_wrapper \<Rightarrow> 'c full_market outcome" where
  "full_market_new F shape market_id w =
     bind_o (unwrap_or_o supply_vault_summary_default (get_summary F (m_supply_vault (mw_market w)))) (\<lambda>summary.
       Done \<lparr>fm_market_id = market_id, fm_market = w,
         fm_total_collateral_atoms = total_collateral_atoms (m_collateral_vault (mw_market w)),
         fm_supply_vault_summary = summary, fm_interest_rate_curve_shape = shape (mw_market w)\<rparr>)"

definition server_get_all_market_ids :: "read_client \<Rightarrow> pubkey list rpc_result" where
  "server_get_all_market_ids read =
     (case rc_all_markets_maybe_stale read of Done ms \<Rightarrow> RpcOk (map fst ms) | _ \<Rightarrow> RpcPanic)"

definition server_get_market_by_id ::
    "fixed_crate \<Rightarrow> (market \<Rightarrow> 'c) \<Rightarrow> read_client \<Rightarrow> pubkey \<Rightarrow> 'c full_market option rpc_result" where
  "server_get_market_by_id F shape read market_id =
     (case bind_o (rc_get_market read market_id) (\<lambda>found.
        case found of
          None \<Rightarrow> Done None
        | Some w \<Rightarrow> bind_o (full_market_new F shape market_id w) (\<lambda>m. Done (Some m))) of
        Done r \<Rightarrow> RpcOk r | _ \<Rightarrow> RpcPanic)"

definition server_get_user_positions :: "fixed_crate \<Rightarrow> read_client \<Rightarrow> pubkey \<Rightarrow> user_positions rpc_result" where
  "server_get_user_positions F read user = (case user_positions_of F read user of Done p \<Rightarrow> RpcOk p | _ \<Rightarrow> RpcPanic)"

text \<open>Only mints whose decimals the cache knows are listed; \<open>ui\<close> prints an amount at its decimals.\<close>

definition server_get_user_balances ::
    "environment \<Rightarrow> rpc_node \<Rightarrow> (u8 list \<Rightarrow> pubkey option) \<Rightarrow> (u64 \<Rightarrow> u8 \<Rightarrow> string) \<Rightarrow> server_context \<Rightarrow> pubkey
     \<Rightarrow> user_balance list rpc_result" where
  "server_get_user_balances E node unpack_account_mint ui self user =
     bind_internal ''Failed to get user balances'' (get_all_balances E node unpack_account_mint user) (\<lambda>balances.
       RpcOk (List.map_filter (\<lambda>(mint, amount). map_option (\<lambda>d. \<lparr>ub_mint = mint, ub_amount = amount, ub_ui_amount = ui amount d\<rparr>)
         (get_token_decimals (sx_state self) mint)) balances))"

section \<open>Streams\<close>

text \<open>
  A connection has at most one stream of each kind. \<open>to_json\<close> encodes an item, and the \<open>n\<close>-th message is delivered
  when \<open>delivers n\<close>; a message that is not ends the loop. The result says whether all items were encoded. The
  items are computed beforehand here; the code computes each one before it sends it.
\<close>

fun stream_items :: "('i \<Rightarrow> string option) \<Rightarrow> (nat \<Rightarrow> bool) \<Rightarrow> nat \<Rightarrow> 'i list \<Rightarrow> bool \<times> string list \<times> nat" where
  "stream_items to_json delivers n [] = (True, [], n)"
| "stream_items to_json delivers n (x # xs) =
     (case to_json x of
        None \<Rightarrow> (False, [], n)
      | Some msg \<Rightarrow>
          if delivers n
          then (let (ok, msgs, n') = stream_items to_json delivers (Suc n) xs in (ok, msg # msgs, n'))
          else (True, [], Suc n))"

definition begin_market_stream :: "nat \<Rightarrow> server_context \<Rightarrow> server_context option" where
  "begin_market_stream conn_id self =
     (if conn_id \<in> sx_active_market_streams self then None
      else Some (self\<lparr>sx_active_market_streams := insert conn_id (sx_active_market_streams self)\<rparr>))"

definition end_market_stream :: "nat \<Rightarrow> server_context \<Rightarrow> server_context" where
  "end_market_stream conn_id self = self\<lparr>sx_active_market_streams := sx_active_market_streams self - {conn_id}\<rparr>"

definition begin_user_position_stream :: "nat \<Rightarrow> server_context \<Rightarrow> server_context option" where
  "begin_user_position_stream conn_id self =
     (if conn_id \<in> sx_active_user_position_streams self then None
      else Some (self\<lparr>sx_active_user_position_streams := insert conn_id (sx_active_user_position_streams self)\<rparr>))"

definition end_user_position_stream :: "nat \<Rightarrow> server_context \<Rightarrow> server_context" where
  "end_user_position_stream conn_id self =
     self\<lparr>sx_active_user_position_streams := sx_active_user_position_streams self - {conn_id}\<rparr>"

datatype stream_end = Rejected int string | Streamed bool "string list" | NotAccepted | StreamPanic

definition market_stream ::
    "fixed_crate \<Rightarrow> (market \<Rightarrow> 'c) \<Rightarrow> read_client \<Rightarrow> bool \<Rightarrow> ('c full_market \<Rightarrow> string option) \<Rightarrow> (nat \<Rightarrow> bool) \<Rightarrow> stream_end" where
  "market_stream F shape read accepted to_json delivers =
     (if \<not> accepted then NotAccepted
      else case bind_o (rc_all_markets_maybe_stale read) (map_o (\<lambda>(k, w, _). full_market_new F shape k w)) of
        Done markets \<Rightarrow> (let (ok, msgs, _) = stream_items to_json delivers 0 markets in Streamed ok msgs)
      | _ \<Rightarrow> StreamPanic)"

text \<open>The whole handler, when no other request of the connection comes in between.\<close>

definition get_all_markets_streamed ::
    "fixed_crate \<Rightarrow> (market \<Rightarrow> 'c) \<Rightarrow> read_client \<Rightarrow> bool \<Rightarrow> ('c full_market \<Rightarrow> string option) \<Rightarrow> (nat \<Rightarrow> bool) \<Rightarrow> nat
     \<Rightarrow> server_context \<Rightarrow> server_context \<times> stream_end" where
  "get_all_markets_streamed F shape read accepted to_json delivers conn_id self =
     (case begin_market_stream conn_id self of
        None \<Rightarrow> (self, Rejected INVALID_REQUEST_CODE ''A market stream is already active on this connection'')
      | Some self' \<Rightarrow> (end_market_stream conn_id self', market_stream F shape read accepted to_json delivers))"

definition position_market :: "read_client \<Rightarrow> pubkey \<Rightarrow> (market_wrapper \<Rightarrow> 'a result) \<Rightarrow> 'a \<Rightarrow> 'a outcome" where
  "position_market read market_key f d =
     bind_o (rc_get_market read market_key) (\<lambda>found. case found of None \<Rightarrow> Done d | Some w \<Rightarrow> unwrap_or_o d (f w))"

definition supply_item :: "fixed_crate \<Rightarrow> read_client \<Rightarrow> supply_position \<Rightarrow> supply_position_view outcome" where
  "supply_item F read p =
     bind_o (position_market read (sp_market p) (\<lambda>w. supply_position_info F (mw_market w) p) 0) (\<lambda>atoms.
       Done \<lparr>spi_position = p, spi_owned_atoms = atoms\<rparr>)"

definition borrow_item :: "fixed_crate \<Rightarrow> read_client \<Rightarrow> borrow_position \<Rightarrow> borrow_position_view outcome" where
  "borrow_item F read p =
     bind_o (position_market read (bp_market p) (\<lambda>w. mw_borrow_position_health F w p) borrow_position_health_default) (\<lambda>h.
       Done \<lparr>bpi_position = p, bpi_health = h\<rparr>)"

text \<open>A closed connection ends the first loop only; the second one then tries its first message.\<close>

definition user_position_stream ::
    "fixed_crate \<Rightarrow> read_client \<Rightarrow> bool \<Rightarrow> (supply_position_view + borrow_position_view \<Rightarrow> string option) \<Rightarrow> (nat \<Rightarrow> bool)
     \<Rightarrow> stream_end" where
  "user_position_stream F read accepted to_json delivers =
     (if \<not> accepted then NotAccepted
      else case bind_o (map_o (supply_item F read) (map snd (rc_all_supply_position read))) (\<lambda>ss.
          bind_o (map_o (borrow_item F read) (map snd (rc_all_borrow_position read))) (\<lambda>bs. Done (ss, bs))) of
        Done (ss, bs) \<Rightarrow>
          (let (ok, msgs, n) = stream_items to_json delivers 0 (map Inl ss) in
           if \<not> ok then Streamed False msgs
           else let (ok', msgs', _) = stream_items to_json delivers n (map Inr bs) in Streamed ok' (msgs @ msgs'))
      | _ \<Rightarrow> StreamPanic)"

definition get_all_user_positions_streamed ::
    "fixed_crate \<Rightarrow> read_client \<Rightarrow> bool \<Rightarrow> (supply_position_view + borrow_position_view \<Rightarrow> string option) \<Rightarrow> (nat \<Rightarrow> bool) \<Rightarrow> nat
     \<Rightarrow> server_context \<Rightarrow> server_context \<times> stream_end" where
  "get_all_user_positions_streamed F read accepted to_json delivers conn_id self =
     (case begin_user_position_stream conn_id self of
        None \<Rightarrow> (self, Rejected INVALID_REQUEST_CODE ''A user position stream is already active on this connection'')
      | Some self' \<Rightarrow> (end_user_position_stream conn_id self', user_position_stream F read accepted to_json delivers))"

section \<open>Transactions\<close>

fun request_transaction ::
    "environment \<Rightarrow> instruction_codecs \<Rightarrow> message_new \<Rightarrow> client_without_signer \<Rightarrow> autara_transaction_request
     \<Rightarrow> transaction_to_sign outcome" where
  "request_transaction E B M self (ApiSupply p) =
     tx_supply E B M (cw_tx_builder self (mua_user p)) (mua_market_id p) (mua_amount p)"
| "request_transaction E B M self (ApiDepositCollateral p) =
     tx_deposit_collateral E B M (cw_tx_builder self (mua_user p)) (mua_market_id p) (mua_amount p)"
| "request_transaction E B M self (ApiWithdraw p) =
     tx_withdraw_supply E B M (cw_tx_builder self (muo_user p)) (muo_market_id p) (muo_amount p)"
| "request_transaction E B M self (ApiWithdrawCollateral p) =
     tx_withdraw_collateral E B M (cw_tx_builder self (muo_user p)) (muo_market_id p) (muo_amount p)"
| "request_transaction E B M self (ApiBorrow p) =
     tx_borrow E B M (cw_tx_builder self (mua_user p)) (mua_market_id p) (mua_amount p)"
| "request_transaction E B M self (ApiRepay p) =
     tx_repay E B M (cw_tx_builder self (muo_user p)) (muo_market_id p) (muo_amount p)"
| "request_transaction E B M self (ApiUpdateConfig p) =
     tx_update_config E B M (cw_tx_builder self (ucp_user p)) (ucp_market_id p) (ucp_config p)"
| "request_transaction E B M self (ApiUpdateGlobalConfig p) =
     tx_update_global_config E B M (cw_tx_builder self (ugp_user p)) (ugp_config p)"
| "request_transaction E B M self (ApiLiquidatePosition p) =
     tx_liquidate E B M (cw_tx_builder self (lpp_user p)) (lpp_market p) (lpp_liquidatee_position p)
       (Some (max_borrowed_atoms_to_repay (lpp_liquidate p))) (Some (min_collateral_atoms_to_receive (lpp_liquidate p)))
       (lq_ix_callback (lpp_liquidate p))"
| "request_transaction E B M self (ApiRedeemCuratorFees p) =
     tx_redeem_curator_fees E B M (cw_tx_builder self (mua_user p)) (mua_market_id p)"
| "request_transaction E B M self (ApiRedeemProtocolFees p) =
     tx_redeem_protocol_fees E B M (cw_tx_builder self (mua_user p)) (mua_market_id p)"
| "request_transaction E B M self (ApiCreateMarket p) =
     drop_key (tx_create_market E B M (cw_tx_builder self (cmp_payer p)) (cmp_curator p) (cmp_payer p) (cmp_params p)
       (cmp_supply_mint p) (cmp_collateral_mint p))"
| "request_transaction E B M self (ApiWithdrawAndRepay p) =
     tx_withdraw_repay E B M (cw_tx_builder self (wrr_user p)) (wrr_market_id p) (wrr_params p)"
| "request_transaction E B M self (ApiBorrowAndDeposit p) =
     tx_borrow_deposit E B M (cw_tx_builder self (bdr_user p)) (bdr_market_id p) (bdr_params p)"

definition server_build_autara_transaction ::
    "environment \<Rightarrow> instruction_codecs \<Rightarrow> message_new \<Rightarrow> (arch_message \<Rightarrow> u8 list) \<Rightarrow> client_without_signer
     \<Rightarrow> autara_transaction_request \<Rightarrow> transaction_to_sign_response rpc_result" where
  "server_build_autara_transaction E B M serialize self request =
     bind_internal ''Failed to build transaction'' (request_transaction E B M self request) (\<lambda>tx.
       RpcOk \<lparr>tsr_transaction_to_sign = tt_message_hash tx, tsr_message = serialize (tt_message tx), tsr_signatures = []\<rparr>)"

text \<open>\<open>show_error\<close> prints an error of the client.\<close>

definition server_send_transaction ::
    "instruction_codecs \<Rightarrow> event_codecs \<Rightarrow> arch_sdk \<Rightarrow> (u8 list \<Rightarrow> arch_message outcome) \<Rightarrow> (autara_client_error \<Rightarrow> string)
     \<Rightarrow> client_without_signer \<Rightarrow> send_transaction_request \<Rightarrow> send_transaction_response rpc_result" where
  "server_send_transaction B C S deserialize show_error self request =
     bind_internal ''Failed to deserialize message'' (deserialize (str_message request)) (\<lambda>message.
       case broadcast_transaction B C S (rc_autara_program_id (cw_read_client self))
              \<lparr>rt_version = 0, rt_signatures = str_signatures request, rt_message = message\<rparr> of
         COk events \<Rightarrow>
           (case str_signatures request of
              [] \<Rightarrow> RpcPanic
            | s # _ \<Rightarrow> RpcOk \<lparr>rsp_signature = s, rsp_events = events\<rparr>)
       | CErr e \<Rightarrow> internal_error ''Failed to broadcast transaction'' (show_error e)
       | CPanic \<Rightarrow> RpcPanic)"

section \<open>One stream per connection\<close>

datatype stream_kind = MarketStream | PositionStream

text \<open>
  The states of a server with the streams that run, as requests come in and streams end in any order, while the
  cache is reloaded.
\<close>

inductive served :: "server_context \<Rightarrow> (stream_kind \<times> nat) list \<Rightarrow> bool" where
  served_start: "build_autara_server state minters h = Done ctx \<Longrightarrow> served ctx []"
| served_markets: "served ctx R \<Longrightarrow> begin_market_stream c ctx = Some ctx' \<Longrightarrow> served ctx' ((MarketStream, c) # R)"
| served_positions: "served ctx R \<Longrightarrow> begin_user_position_stream c ctx = Some ctx' \<Longrightarrow> served ctx' ((PositionStream, c) # R)"
| served_markets_end: "served ctx R \<Longrightarrow> (MarketStream, c) \<in> set R \<Longrightarrow>
    served (end_market_stream c ctx) (remove1 (MarketStream, c) R)"
| served_positions_end: "served ctx R \<Longrightarrow> (PositionStream, c) \<in> set R \<Longrightarrow>
    served (end_user_position_stream c ctx) (remove1 (PositionStream, c) R)"
| served_reload: "served ctx R \<Longrightarrow> served (ctx\<lparr>sx_state := s, sx_blockhash_cache := h\<rparr>) R"

definition streams_recorded :: "server_context \<Rightarrow> (stream_kind \<times> nat) list \<Rightarrow> bool" where
  "streams_recorded ctx R \<longleftrightarrow> distinct R
     \<and> sx_active_market_streams ctx = {c. (MarketStream, c) \<in> set R}
     \<and> sx_active_user_position_streams ctx = {c. (PositionStream, c) \<in> set R}"

lemma served_recorded: "served ctx R \<Longrightarrow> streams_recorded ctx R"
  by (induction rule: served.induct)
    (auto simp: streams_recorded_def build_autara_server_def begin_market_stream_def begin_user_position_stream_def
      end_market_stream_def end_user_position_stream_def blockhash_cache_new_def split: if_splits elim!: bind_o_DoneE)

text \<open>
  In every reachable state of the server a connection has at most one stream of each kind, and a request for one
  is refused exactly when that stream is running: a stream that has ended leaves nothing behind.
\<close>

theorem one_stream_per_connection:
  assumes "served ctx R"
  shows "distinct R \<and> (begin_market_stream c ctx = None \<longleftrightarrow> (MarketStream, c) \<in> set R)
    \<and> (begin_user_position_stream c ctx = None \<longleftrightarrow> (PositionStream, c) \<in> set R)"
  using served_recorded [OF assms]
  by (simp add: streams_recorded_def begin_market_stream_def begin_user_position_stream_def)

theorem one_stream_per_connection_witness:
  "\<exists>ctx. served ctx [(PositionStream, 4), (MarketStream, 4)] \<and> begin_market_stream 4 ctx = None
     \<and> begin_market_stream 5 ctx \<noteq> None"
proof -
  obtain c0 where c0: "build_autara_server (shared_state_new 1) [] (Done [1]) = Done c0"
    by (simp add: build_autara_server_def blockhash_cache_new_def)
  then obtain c1 where c1: "begin_market_stream 4 c0 = Some c1"
    by (auto simp: build_autara_server_def blockhash_cache_new_def begin_market_stream_def)
  then obtain ctx where "begin_user_position_stream 4 c1 = Some ctx"
    using c0 by (auto simp: build_autara_server_def blockhash_cache_new_def begin_market_stream_def begin_user_position_stream_def)
  then have s: "served ctx [(PositionStream, 4), (MarketStream, 4)]"
    using c0 c1 by (intro served_positions served_markets served_start)
  with one_stream_per_connection [OF s, of 4] one_stream_per_connection [OF s, of 5] show ?thesis by auto
qed

section \<open>The server and the client with a signer\<close>

fun request_user :: "autara_transaction_request \<Rightarrow> pubkey" where
  "request_user (ApiCreateMarket p) = cmp_payer p"
| "request_user (ApiSupply p) = mua_user p"
| "request_user (ApiWithdraw p) = muo_user p"
| "request_user (ApiDepositCollateral p) = mua_user p"
| "request_user (ApiWithdrawCollateral p) = muo_user p"
| "request_user (ApiBorrow p) = mua_user p"
| "request_user (ApiRepay p) = muo_user p"
| "request_user (ApiUpdateConfig p) = ucp_user p"
| "request_user (ApiUpdateGlobalConfig p) = ugp_user p"
| "request_user (ApiLiquidatePosition p) = lpp_user p"
| "request_user (ApiRedeemCuratorFees p) = mua_user p"
| "request_user (ApiRedeemProtocolFees p) = mua_user p"
| "request_user (ApiBorrowAndDeposit p) = bdr_user p"
| "request_user (ApiWithdrawAndRepay p) = wrr_user p"

text \<open>The method of the client with a signer that a request amounts to; there the payer of a market is its curator.\<close>

fun client_request_of :: "autara_transaction_request \<Rightarrow> client_request option" where
  "client_request_of (ApiCreateMarket p) =
     (if cmp_curator p = cmp_payer p then Some (ReqCreateMarket (cmp_params p) (cmp_supply_mint p) (cmp_collateral_mint p)) else None)"
| "client_request_of (ApiSupply p) = Some (ReqSupply (mua_market_id p) (mua_amount p))"
| "client_request_of (ApiWithdraw p) = Some (ReqWithdrawSupply (muo_market_id p) (muo_amount p))"
| "client_request_of (ApiDepositCollateral p) = Some (ReqDepositCollateral (mua_market_id p) (mua_amount p))"
| "client_request_of (ApiWithdrawCollateral p) = Some (ReqWithdrawCollateral (muo_market_id p) (muo_amount p))"
| "client_request_of (ApiBorrow p) = Some (ReqBorrow (mua_market_id p) (mua_amount p))"
| "client_request_of (ApiRepay p) = Some (ReqRepay (muo_market_id p) (muo_amount p))"
| "client_request_of (ApiUpdateConfig p) = Some (ReqUpdateConfig (ucp_market_id p) (ucp_config p))"
| "client_request_of (ApiUpdateGlobalConfig p) = Some (ReqUpdateGlobalConfig (ugp_config p))"
| "client_request_of (ApiLiquidatePosition p) = Some (ReqLiquidate (lpp_market p) (lpp_liquidatee_position p)
     (Some (max_borrowed_atoms_to_repay (lpp_liquidate p))) (Some (min_collateral_atoms_to_receive (lpp_liquidate p)))
     (lq_ix_callback (lpp_liquidate p)))"
| "client_request_of (ApiRedeemCuratorFees p) = Some (ReqRedeemCuratorFees (mua_market_id p))"
| "client_request_of (ApiRedeemProtocolFees p) = Some (ReqRedeemProtocolFees (mua_market_id p))"
| "client_request_of (ApiBorrowAndDeposit p) = Some (ReqBorrowDeposit (bdr_market_id p) (bdr_params p))"
| "client_request_of (ApiWithdrawAndRepay p) = Some (ReqWithdrawRepay (wrr_market_id p) (wrr_params p))"

text \<open>A user who has the server build a transaction, signs it and has the server send it.\<close>

definition through_server ::
    "environment \<Rightarrow> instruction_codecs \<Rightarrow> event_codecs \<Rightarrow> message_new \<Rightarrow> arch_sdk \<Rightarrow> (arch_message \<Rightarrow> u8 list)
     \<Rightarrow> (u8 list \<Rightarrow> arch_message outcome) \<Rightarrow> (autara_client_error \<Rightarrow> string) \<Rightarrow> client_without_signer \<Rightarrow> keypair
     \<Rightarrow> autara_transaction_request \<Rightarrow> send_transaction_response rpc_result" where
  "through_server E B C M S serialize deserialize show_error self k request =
     (case server_build_autara_transaction E B M serialize self request of
        RpcOk resp \<Rightarrow>
          (case deserialize (tsr_message resp) of
             Done m \<Rightarrow>
               (case sign_keys (sdk_sign_message S) [k] (tsr_transaction_to_sign resp)
                       (take (unat (msg_num_required_signatures m)) (msg_account_keys m)) of
                  Some signatures \<Rightarrow>
                    server_send_transaction B C S deserialize show_error self
                      \<lparr>str_signatures = signatures, str_message = tsr_message resp\<rparr>
                | None \<Rightarrow> RpcPanic)
           | _ \<Rightarrow> RpcPanic)
      | RpcError code e \<Rightarrow> RpcError code e
      | RpcPanic \<Rightarrow> RpcPanic)"

fun same_answer :: "autara_event list client_result \<Rightarrow> send_transaction_response rpc_result \<Rightarrow> bool" where
  "same_answer (COk events) (RpcOk r) \<longleftrightarrow> rsp_events r = events"
| "same_answer (CErr e) (RpcError code text) \<longleftrightarrow> code = INTERNAL_ERROR_CODE"
| "same_answer CPanic RpcPanic \<longleftrightarrow> True"
| "same_answer _ _ \<longleftrightarrow> False"

lemma request_builds_alike:
  assumes "client_request_of request = Some req"
  shows "request_transaction E B M self request = client_transaction E B M (cw_tx_builder self (request_user request)) req"
  using assms by (cases request) (auto simp: cw_tx_builder_def split: if_splits)

text \<open>
  C33: The server is as good as the library. A user who has the server build a transaction, signs what it returns
  and has it sent gets the answer that the client library with that user's key would give on the
  same cache and block hash: the same events, an error where it gives an error, and a panic only where it panics.
\<close>

theorem server_agrees_with_client:
  assumes "\<And>tx. request_transaction E B M self request = Done tx \<Longrightarrow> deserialize (serialize (tt_message tx)) = Done (tt_message tx)"
    and "client_request_of request = Some req"
    and "kp_pubkey k = request_user request"
  shows "same_answer (sc_submit E B C M S \<lparr>sc_read_client = cw_read_client self, sc_signer = k\<rparr>
       (Done (bc_latest (cw_blockhash_cache self))) req)
     (through_server E B C M S serialize deserialize show_error self k request)"
proof -
  let ?client = "\<lparr>sc_read_client = cw_read_client self, sc_signer = k\<rparr>"
  have T: "sc_tx_builder ?client (Done (bc_latest (cw_blockhash_cache self))) = cw_tx_builder self (request_user request)"
    by (simp add: sc_tx_builder_def cw_tx_builder_def assms(3))
  note built = request_builds_alike [OF assms(2), of E B M self]
  show ?thesis
  proof (cases "request_transaction E B M self request")
    case (Done tx)
    note codec = assms(1) [OF Done]
    show ?thesis
    proof (cases "sign_keys (sdk_sign_message S) [k] (tt_message_hash tx)
        (take (unat (msg_num_required_signatures (tt_message tx))) (msg_account_keys (tt_message tx)))")
      case None
      then show ?thesis using Done built
        by (simp add: sc_submit_def T sign_and_broadcast_def tx_sign_def through_server_def server_build_autara_transaction_def codec)
    next
      case (Some sigs)
      let ?tx = "\<lparr>rt_version = 0, rt_signatures = sigs, rt_message = tt_message tx\<rparr>"
      have "sc_submit E B C M S ?client (Done (bc_latest (cw_blockhash_cache self))) req
          = broadcast_transaction B C S (rc_autara_program_id (cw_read_client self)) ?tx"
        using Done built Some by (simp add: sc_submit_def T sign_and_broadcast_def tx_sign_def)
      moreover have "through_server E B C M S serialize deserialize show_error self k request
          = server_send_transaction B C S deserialize show_error self \<lparr>str_signatures = sigs, str_message = serialize (tt_message tx)\<rparr>"
        using Done Some by (simp add: through_server_def server_build_autara_transaction_def codec)
      ultimately show ?thesis
        by (cases sigs; cases "broadcast_transaction B C S (rc_autara_program_id (cw_read_client self)) ?tx")
          (auto simp: server_send_transaction_def codec internal_error_def broadcast_transaction_def)
    qed
  qed (use built in \<open>simp_all add: sc_submit_def T sign_and_broadcast_def through_server_def server_build_autara_transaction_def internal_error_def\<close>)
qed

text \<open>A borrower at 11 who asks for 200 atoms, on a node that processes the transaction.\<close>

definition example_server_client :: client_without_signer where
  "example_server_client = \<lparr>cw_read_client = tb_read_client example_tx_builder, cw_blockhash_cache = \<lparr>bc_latest = [1]\<rparr>\<rparr>"

definition example_request :: autara_transaction_request where
  "example_request = ApiBorrow \<lparr>mua_market_id = 12, mua_user = 11, mua_amount = 200\<rparr>"

definition example_processed :: processed_transaction where
  "example_processed = example_failed\<lparr>pt_status := Processed\<rparr>"

definition example_single_message :: message_new where
  "example_single_message ixs payer h = \<lparr>msg_account_keys = [11], msg_num_required_signatures = 1, msg_hash = h\<rparr>"

theorem server_agrees_with_client_witness:
  "\<exists>r. through_server example_client_env example_codecs borsh_reference example_single_message (example_sdk example_processed) msg_hash
     (\<lambda>h. Done \<lparr>msg_account_keys = [11], msg_num_required_signatures = 1, msg_hash = h\<rparr>) (\<lambda>_. []) example_server_client
     \<lparr>kp_pubkey = 11, kp_secret = [7]\<rparr> example_request = RpcOk r \<and> rsp_events r = []"
proof -
  let ?k = "\<lparr>kp_pubkey = 11, kp_secret = [7]\<rparr>" and ?S = "example_sdk example_processed" and ?c = example_server_client
  let ?M = example_single_message and ?de = "\<lambda>h. Done \<lparr>msg_account_keys = [11], msg_num_required_signatures = 1, msg_hash = h\<rparr>"
  have b: "sc_tx_builder \<lparr>sc_read_client = cw_read_client ?c, sc_signer = ?k\<rparr> (Done (bc_latest (cw_blockhash_cache ?c))) = example_tx_builder"
    by (simp add: sc_tx_builder_def example_server_client_def example_tx_builder_def cache_client_def)
  obtain tx where tx: "client_transaction example_client_env example_codecs ?M example_tx_builder (ReqBorrow 12 200) = Done tx"
    using example_borrow_transaction by blast
  obtain h where m: "tt_message tx = \<lparr>msg_account_keys = [11], msg_num_required_signatures = 1, msg_hash = h\<rparr>"
    using transaction_message [OF tx] by (auto simp: example_single_message_def)
  have p: "rc_autara_program_id (cw_read_client ?c) = crate_id"
    by (simp add: example_server_client_def example_tx_builder_def cache_client_def)
  have "sc_submit example_client_env example_codecs borsh_reference ?M ?S \<lparr>sc_read_client = cw_read_client ?c, sc_signer = ?k\<rparr>
      (Done (bc_latest (cw_blockhash_cache ?c))) (ReqBorrow 12 200) = COk []"
    by (simp add: sc_submit_def b tx [simplified] sign_and_broadcast_def tx_sign_def m p broadcast_transaction_def example_sdk_def
        parse_processed_autara_tx_def example_processed_def example_failed_def events_from_processed_tx_def
        get_ix_data_with_program_ids_def map_filter_simps)
  moreover have "?de (msg_hash (tt_message tx)) = Done (tt_message tx)"
    if "request_transaction example_client_env example_codecs ?M ?c example_request = Done tx" for tx
  proof -
    have "client_transaction example_client_env example_codecs ?M (cw_tx_builder ?c 11) (ReqBorrow 12 200) = Done tx"
      using that by (simp add: example_request_def)
    from transaction_message [OF this] show ?thesis by (auto simp: example_single_message_def)
  qed
  then have "same_answer (sc_submit example_client_env example_codecs borsh_reference ?M ?S
      \<lparr>sc_read_client = cw_read_client ?c, sc_signer = ?k\<rparr> (Done (bc_latest (cw_blockhash_cache ?c))) (ReqBorrow 12 200))
    (through_server example_client_env example_codecs borsh_reference ?M ?S msg_hash ?de (\<lambda>_. []) ?c ?k example_request)"
    by (rule server_agrees_with_client) (simp_all add: example_request_def)
  ultimately show ?thesis
    by (cases "through_server example_client_env example_codecs borsh_reference ?M ?S msg_hash ?de (\<lambda>_. []) ?c ?k example_request") auto
qed

end
