(* ===== verification/Spec2Isabelle.thy ===== *)
theory Spec2Isabelle
  imports Market_Properties Oracle_Laws Config_Laws Polyline_Laws Interest_Laws
    Program_Refinement Program_Reserves Program_Gaps Builder_Laws Pod_Unions Oracle_Program
    Idl_Publish Elf_Upgrade Price_Pusher Client_Broadcast Liquidator_Bot Deploy_Verify Api_Server
begin

text \<open>
  Autara lending: isolated lending markets on the Arch network.

  \<^bold>\<open>The program.\<close> A market has one supply token and one collateral token. Lenders own shares of the
  supply vault, borrowers own shares of its debt and deposit collateral; interest accrues on both
  sides along a rate curve and leaves fees to the curator of the market and to the protocol. Prices
  come from oracle accounts. Unhealthy positions are liquidated or swept by the curator, insolvent
  ones are socialised. The library \<open>src/autara-lib\<close> holds the state and the arithmetic,
  \<open>src/autara-program-lib\<close> the checked wrappers of accounts, \<open>src/programs/autara-program\<close> the on-chain
  instructions over them and \<open>src/programs/autara-oracle\<close> the program that stores pushed prices. Around the
  programs, \<open>src/autara-client\<close> caches their accounts, builds, signs and sends transactions and reads events and
  errors back; \<open>src/autara-pyth\<close> fetches prices and pushes them; \<open>src/tmp-autara-liquidator\<close> watches the positions;
  \<open>src/autara-deploy\<close> uploads the binaries, creates the configuration and the markets and verifies them.

  \<^bold>\<open>The library, bottom up.\<close>
  \<^item> \<open>Prelude\<close>: machine integers, \<open>LendingError\<close> and the result type (\<open>error.rs\<close>).
  \<^item> \<open>Fixed_Crate\<close>, \<open>Fixed_Point\<close>, \<open>Fixed_Laws\<close>: \<open>UFixedPoint\<close> and \<open>IFixedPoint\<close> (\<open>math/*.rs\<close>) as words
    of 128 bits with 64 and 48 fraction bits, over a parameter for the crate \<open>fixed\<close>.
  \<^item> \<open>Interest_Rate\<close> (\<open>interest_rate/**\<close>): the fixed, polyline and adaptive curves, compounding.
    \<open>Polyline_Laws\<close>: the curve is exact interpolation and monotone, and what it does beyond its last point. \<open>Exp_Laws\<close> and \<open>Interest_Laws\<close>:
    the exponential and the adaptive curve are total on their domains and bounded.
  \<^item> \<open>Shares_Tracker\<close> (\<open>math/shares_tracker.rs\<close>), \<open>Tracker_Laws\<close>: the value of a pool under every
    operation, with the direction of each rounding.
  \<^item> \<open>Positions\<close>, \<open>Config\<close>, \<open>Vaults\<close>, \<open>Liquidation\<close>, \<open>Market\<close> (\<open>state/*.rs\<close>, \<open>operation/liquidation.rs\<close>):
    one record per account struct, one definition per method, a method that mutates returns the new
    record. \<open>Config_Laws\<close>: the configuration invariant, the handover of the admin.
  \<^item> \<open>Oracle\<close> (\<open>oracle/*.rs\<close>), \<open>Oracle_Laws\<close>: loading, validating and applying prices.
  \<^item> \<open>Market_Wrapper\<close> (\<open>state/market_wrapper.rs\<close>): a market with its two loaded rates.
    \<open>Events\<close> (\<open>event.rs\<close>): the logged events and their hand-written codec.
  \<^item> \<open>Market_System\<close>: a market with all its positions as a transition system, each step one operation
    of the library. \<open>Market_Laws\<close>, \<open>Market_Safety\<close>, \<open>Market_Properties\<close>: the books always balance; borrowing,
    withdrawing, liquidating, sweeping and socialising keep their limits; debts can be repaid and
    lenders can leave.

  \<^bold>\<open>The on-chain program.\<close>
  \<^item> \<open>Program_Accounts\<close> (\<open>autara-program-lib/accounts\<close>, \<open>state.rs\<close>, \<open>pda.rs\<close>): accounts of the runtime, the
    checked conversions to typed accounts, the derived addresses. \<open>Program_Validation\<close> (\<open>ixs/*.rs\<close>):
    for every instruction the record of its accounts, \<open>from_accounts\<close> and \<open>validate\<close>.
  \<^item> \<open>Instructions\<close> (\<open>autara-lib/ixs\<close>): instruction data, tags and codec. \<open>Program_Errors\<close> (\<open>error.rs\<close>): the
    numeric codes of the errors.
  \<^item> \<open>Program_Handlers\<close>, \<open>Program_Admin\<close> (\<open>processor/*.rs\<close>): a handler returns its effects in the order in
    which the code has them: \<open>Write\<close> for an account of the program (which the code mutates in place, so
    its last state precedes the calls), then logs, token transfers, account creations, callbacks.
    \<open>Program_Idl\<close> (\<open>processor/idl.rs\<close>) works on the bytes of IDL accounts. \<open>Program_Dispatch\<close> (\<open>lib.rs\<close>) is
    the entry point. \<open>Oracle_Program\<close> is the other program, with the runs of its feed accounts.
  \<^item> \<open>Program_Order\<close>: accounts are final before any call. \<open>Program_Access\<close>: whose signature every write
    needs. \<open>Program_Custody\<close>: recorded collateral is covered by the tokens that move.
  \<^item> \<open>Program_Steps\<close>, \<open>Program_Refinement\<close>: a successful instruction moves every market on the chain by
    steps of \<open>Market_System\<close>, an instruction of the IDL moves none, so the invariant of that system holds of
    every reachable chain.
  \<^item> \<open>Pod_Unions\<close> (\<open>pod_oracle_provider.rs\<close>, \<open>pod_interest_rate.rs\<close>): the byte unions in which accounts store two
    of the enums, and that they behave as the enums.
  \<^item> \<open>Instruction_Builders\<close> (the \<open>*_ix\<close> functions of \<open>autara-lib/ixs\<close>, \<open>token.rs\<close>), \<open>Builder_Laws\<close>: the
    client-side builders, and that each grants the privileges its handler uses, but for the program of a callback,
    which two of them leave to the caller.
  \<^item> \<open>Program_Reserves\<close>: the supply tokens that move cover what the markets owe, and the reserves after a withdrawal.
  \<^item> \<open>Program_Gaps\<close>: two conditions that the program does not check, as theorems on what it accepts.
  \<^item> \<open>Examples\<close>, \<open>Program_Examples\<close>: the accounts on which the properties are instantiated.

  \<^bold>\<open>Around the programs.\<close> Code that talks to a node takes its answers from a parameter; an error of the code is
  \<open>Failed\<close>, a panic \<open>Panicked\<close> (\<open>Client_Base\<close>).
  \<^item> \<open>Idl_Publish\<close> (\<open>autara-client/idl_deploy.rs\<close>): the publication of the interface description, proved against a
    network that runs the modelled program.
  \<^item> \<open>Elf_Upgrade\<close> (\<open>autara-deploy/elf_upload.rs\<close>): the upload of a binary as a program over a node that may fail at
    every request, with the log of what was sent: only a verified binary becomes executable, and an upgrade ends.
  \<^item> \<open>Price_Pusher\<close> (\<open>autara-pyth\<close>): a cycle of the pusher with its fallback, metrics and alerts; a pushed price is
    the one the market loads after the transaction has run on the accounts it lists.
  \<^item> \<open>Sync_In_Place\<close>, \<open>Client_State\<close>, \<open>Client_Read\<close> (\<open>rpc_ext.rs\<close>, \<open>filter.rs\<close>, \<open>single_thread_client.rs\<close>,
    \<open>shared_autara_state.rs\<close>, \<open>read.rs\<close>): the two caches. \<open>Client_Agreement\<close>: after a reload they show what the
    program would work on. \<open>Client_Transactions\<close>, \<open>Client_Laws\<close> (\<open>tx_builder.rs\<close>): every transaction of a client, its
    signature, and that the program accepts its accounts. \<open>Client_Broadcast\<close> (\<open>tx_broadcast.rs\<close>, both clients,
    \<open>blockhash_cache.rs\<close>): what comes back is the error or the events of the program.
  \<^item> \<open>Api_Server\<close> (\<open>api/server.rs\<close>, \<open>types.rs\<close>, \<open>market.rs\<close>): the requests of the JSON server, its faucet, its streams as a
    state machine; what it builds and sends for a user is what the client of that user would.
  \<^item> \<open>Liquidator_Bot\<close> (\<open>tmp-autara-liquidator\<close>): the router, the scan and a turn of the bot; it reports exactly the
    positions the program holds for unhealthy at the time of the reload.
  \<^item> \<open>Deploy_Config\<close>, \<open>Deploy_Run\<close>, \<open>Deploy_Verify\<close> (\<open>config.rs\<close>, \<open>rpc.rs\<close>, \<open>artifact.rs\<close>, \<open>steps.rs\<close>, \<open>main.rs\<close>,
    \<open>verify.rs\<close> of \<open>autara-deploy\<close>): the environment and its parsers, the steps of a deployment, its verification.
    \<open>Deploy_Laws\<close>: the guards of mainnet, and that the record of a run is complete. \<open>Deploy_Examples\<close> evaluates a run.

  \<^bold>\<open>Interfaces.\<close> \<open>fixed_crate_spec\<close> states what the code relies on of the crate \<open>fixed\<close> and is interpreted on
  \<open>fixed_reference\<close>, an exact implementation; all laws of arithmetic are proved inside it.
  \<open>event_codecs_spec\<close> is the contract of the derived borsh codecs, \<open>share_ledger\<close> that of a pool whose total
  is the sum of its holdings (supply shares, debt shares, collateral), \<open>oracle_loader\<close> that of the
  two oracle formats and the dispatch over them, \<open>pod_layout\<close> that of a struct stored in a byte union,
  \<open>autara_read_client\<close> that of a cache, met by both caches, \<open>idl_network\<close> that of a network that runs the
  program, met by a ledger to which the handlers of the program apply their effects.

  \<^bold>\<open>Parameters.\<close> Code outside \<open>src\<close> is an argument: the crate \<open>fixed\<close> (\<open>fixed_crate\<close>), program addresses,
  oracle decoding and bytemuck (the fields of the runtime and of \<open>environment\<close>), borsh for payloads; outside the
  chain what nodes answer (\<open>rpc_node\<close>, \<open>loader_node\<close>, \<open>deploy_node\<close>), the SDK that signs and sends (\<open>arch_sdk\<close>), the
  exchange, web services and clocks, the text decoders for keys, hexadecimal and floating-point numbers. The
  system and token programs are effects that a handler requests. A failing call aborts the
  transaction, so the properties speak of instructions whose handler succeeds.

  \<^bold>\<open>Bounds.\<close> All integers have the width of the source; a checked operation fails, a cast truncates.
  There is no fuel: every loop of the code is a structural recursion or has a termination proof. The one
  loop that a node can keep from ending, the wait for the written chunks of a binary (\<open>await_writes\<close>), is a partial
  function whose value \<open>None\<close> is not returning, and \<open>upgrade_terminates\<close> says when it returns. Endless service loops
  are modelled by their turn, and by finite runs of turns.

  \<^bold>\<open>Limits.\<close> The refinement speaks of instructions of the market whose accounts hold state, not raw bytes, and
  of instructions of the IDL on accounts that do not look like those of a market; \<open>Program_Gaps\<close> shows that the
  first condition is needed, since an account filled through the IDL handler passes for a position. Chain
  states start empty. Of the runtime the transactions of the price pusher use the privileges of the account
  lists and the ownership of accounts, not balances. The legacy layout of a Pyth account that client builds also
  read (\<open>oracle/pyth.rs\<close>) is left out.

  \<^bold>\<open>Not modelled.\<close> Formatting, serde and floating-point helpers of the clients; log messages, error locations and
  everything that is only printed; the background tasks that repeat a reload or a refresh; the command line \<open>cli.rs\<close>
  and the start-up of the server, which parse arguments, call the modelled code and print; the exported gauges, which
  are floating-point numbers; integration tests and examples.
\<close>

end
